(* ===== verification/Prelude.thy ===== *)
theory Prelude
  imports Main "HOL-Library.Word"
begin

text \<open>
  Shared vocabulary of the development.

  \<^item> Machine integers are words of their C width (\<open>u8\<close>, \<open>u16\<close>, \<open>u32\<close>, \<open>u64\<close>), so
    addition and subtraction wrap exactly as they do in the source.
  \<^item> A fallible C function returns a value of \<open>'a result\<close>: \<open>Inr\<close> is success, \<open>Inl (Err e)\<close>
    is a failure that leaves error code \<open>e\<close> in \<open>s2n_errno\<close>, and \<open>Inl Undefined\<close> marks an
    access outside the memory an object owns, which C leaves undefined.
  \<^item> A C function that mutates an object is an action: it maps the object to a result and the
    object as the function leaves it.  The object is returned on failure as well, because C
    does not roll back what was already written.
  \<^item> Memory that belongs to an object is a list of bytes; \<open>mem_read\<close> and \<open>mem_write\<close> are the
    bounds-aware accesses every component uses.

  The collections \<open>action_simps\<close> (how actions run) and \<open>word_facts\<close> (when word arithmetic
  does not wrap) carry the proofs of the components.
\<close>

unbundle bit_operations_syntax

named_theorems action_simps \<open>rewrite rules that run actions\<close>
named_theorems word_facts \<open>word arithmetic that does not wrap\<close>

type_synonym u8 = "8 word"
type_synonym u16 = "16 word"
type_synonym u32 = "32 word"
type_synonym u64 = "64 word"
type_synonym bytes = "u8 list"

abbreviation (input) UINT8_MAX :: nat where "UINT8_MAX \<equiv> 255"
abbreviation (input) UINT16_MAX :: nat where "UINT16_MAX \<equiv> 65535"
abbreviation (input) UINT32_MAX :: nat where "UINT32_MAX \<equiv> 4294967295"


section \<open>Results and actions\<close>

type_synonym s2n_error = nat

datatype failure = Err s2n_error | Undefined

type_synonym 'a result = "failure + 'a"

type_synonym ('s, 'a) action = "'s \<Rightarrow> 'a result \<times> 's"

definition is_ok :: "'a result \<Rightarrow> bool" where
  "is_ok r = (case r of Inl _ \<Rightarrow> False | Inr _ \<Rightarrow> True)"

definition ret :: "'a \<Rightarrow> ('s, 'a) action" where
  "ret x s = (Inr x, s)"

definition bail :: "s2n_error \<Rightarrow> ('s, 'a) action" where
  "bail e s = (Inl (Err e), s)"

definition bnd :: "('s, 'a) action \<Rightarrow> ('a \<Rightarrow> ('s, 'b) action) \<Rightarrow> ('s, 'b) action" where
  "bnd m f s = (case m s of (Inl e, s') \<Rightarrow> (Inl e, s') | (Inr x, s') \<Rightarrow> f x s')"

definition andthen :: "('s, 'a) action \<Rightarrow> ('s, 'b) action \<Rightarrow> ('s, 'b) action" where
  "andthen m k = bnd m (\<lambda>_. k)"

definition ensure :: "bool \<Rightarrow> s2n_error \<Rightarrow> ('s, unit) action" where
  "ensure c e s = (if c then (Inr (), s) else (Inl (Err e), s))"

definition ensure_st :: "('s \<Rightarrow> bool) \<Rightarrow> s2n_error \<Rightarrow> ('s, unit) action" where
  "ensure_st c e s = (if c s then (Inr (), s) else (Inl (Err e), s))"

definition gets :: "('s \<Rightarrow> 'a) \<Rightarrow> ('s, 'a) action" where
  "gets f s = (Inr (f s), s)"

definition modify :: "('s \<Rightarrow> 's) \<Rightarrow> ('s, unit) action" where
  "modify f s = (Inr (), f s)"

definition of_result :: "'a result \<Rightarrow> ('s, 'a) action" where
  "of_result r s = (r, s)"

definition zoom :: "('c \<Rightarrow> 's) \<Rightarrow> ('s \<Rightarrow> 'c \<Rightarrow> 'c) \<Rightarrow> ('s, 'a) action \<Rightarrow> ('c, 'a) action" where
  "zoom view put m c = (case m (view c) of (r, s') \<Rightarrow> (r, put s' c))"

fun block :: "('s, unit) action list \<Rightarrow> ('s, unit) action" where
  "block [] s = (Inr (), s)"
| "block (m # ms) s = (case m s of (Inl e, s') \<Rightarrow> (Inl e, s') | (Inr _, s') \<Rightarrow> block ms s')"

declare ret_def [action_simps] bail_def [action_simps] bnd_def [action_simps]
  andthen_def [action_simps] ensure_def [action_simps] ensure_st_def [action_simps]
  gets_def [action_simps] modify_def [action_simps] of_result_def [action_simps]
  zoom_def [action_simps]

lemma is_ok_simps [simp]: "is_ok (Inr x)" "\<not> is_ok (Inl e)"
  by (simp_all add: is_ok_def)

lemma is_ok_iff: "is_ok r \<longleftrightarrow> (\<exists>x. r = Inr x)"
  by (cases r) auto

lemma bnd_ok:
  assumes "m s = (Inr x, s')"
  shows "bnd m f s = f x s'"
  using assms by (simp add: bnd_def)

lemma bnd_fail:
  assumes "m s = (Inl e, s')"
  shows "bnd m f s = (Inl e, s')"
  using assms by (simp add: bnd_def)

lemma andthen_ok:
  assumes "m s = (Inr x, s')"
  shows "andthen m k s = k s'"
  using assms by (simp add: andthen_def bnd_ok)

lemma andthen_fail:
  assumes "m s = (Inl e, s')"
  shows "andthen m k s = (Inl e, s')"
  using assms by (simp add: andthen_def bnd_fail)

lemma bnd_InrE:
  assumes "bnd m f s = (Inr y, t)"
  obtains x s' where "m s = (Inr x, s')" and "f x s' = (Inr y, t)"
  using assms by (auto simp: bnd_def split: prod.splits sum.splits)

lemma andthen_InrE:
  assumes "andthen m k s = (Inr y, t)"
  obtains x s' where "m s = (Inr x, s')" and "k s' = (Inr y, t)"
  using assms by (auto simp: andthen_def elim: bnd_InrE)

text \<open>
  An invariant that each step of a composed action keeps, whatever its result, is kept by the
  composition.
\<close>

definition keeps :: "('s \<Rightarrow> bool) \<Rightarrow> ('s, 'a) action \<Rightarrow> bool" where
  "keeps P m \<longleftrightarrow> (\<forall>s. P s \<longrightarrow> P (snd (m s)))"

lemma keepsI: "(\<And>s. P s \<Longrightarrow> P (snd (m s))) \<Longrightarrow> keeps P m"
  by (simp add: keeps_def)

lemma keepsD: "keeps P m \<Longrightarrow> P s \<Longrightarrow> P (snd (m s))"
  by (simp add: keeps_def)

lemma keeps_pair: "keeps P m \<Longrightarrow> P s \<Longrightarrow> m s = (r, t) \<Longrightarrow> P t"
  by (force dest: keepsD)

lemma keeps_bnd:
  assumes "keeps P m" and "\<And>x. keeps P (f x)"
  shows "keeps P (bnd m f)"
  using assms by (fastforce simp: keeps_def bnd_def split: prod.splits sum.splits)

lemma keeps_andthen: "keeps P m \<Longrightarrow> keeps P k \<Longrightarrow> keeps P (andthen m k)"
  by (simp add: andthen_def keeps_bnd)

lemma keeps_simple [simp]:
  "keeps P (ret x)" "keeps P (bail e)" "keeps P (ensure c e)" "keeps P (ensure_st d e)"
  "keeps P (gets g)" "keeps P (of_result r)"
  by (simp_all add: keeps_def ret_def bail_def ensure_def ensure_st_def gets_def of_result_def)


text \<open>
  An action is safe for an invariant when, started in a state that satisfies it, it never reaches
  undefined behaviour and leaves a state that satisfies it, whether it succeeds or fails.
\<close>

definition safe :: "('s \<Rightarrow> bool) \<Rightarrow> ('s, 'a) action \<Rightarrow> bool" where
  "safe P m \<longleftrightarrow> (\<forall>s. P s \<longrightarrow> fst (m s) \<noteq> Inl Undefined \<and> P (snd (m s)))"

lemma safeI: "(\<And>s. P s \<Longrightarrow> fst (m s) \<noteq> Inl Undefined \<and> P (snd (m s))) \<Longrightarrow> safe P m"
  by (simp add: safe_def)

lemma safeD: "safe P m \<Longrightarrow> P s \<Longrightarrow> fst (m s) \<noteq> Inl Undefined \<and> P (snd (m s))"
  by (simp add: safe_def)

lemma safe_pair: "safe P m \<Longrightarrow> P s \<Longrightarrow> m s = (r, t) \<Longrightarrow> r \<noteq> Inl Undefined \<and> P t"
  by (force dest: safeD)

lemma safe_bnd:
  assumes "safe P m" and "\<And>x. safe P (f x)"
  shows "safe P (bnd m f)"
proof (rule safeI)
  fix s assume "P s"
  then obtain r t where rt: "m s = (r, t)" "r \<noteq> Inl Undefined" "P t"
    using safe_pair [OF assms(1)] by (cases "m s") blast
  then show "fst (bnd m f s) \<noteq> Inl Undefined \<and> P (snd (bnd m f s))"
    using safeD [OF assms(2)] by (cases r) (simp_all add: bnd_def)
qed

lemma safe_andthen: "safe P m \<Longrightarrow> safe P k \<Longrightarrow> safe P (andthen m k)"
  by (simp add: andthen_def safe_bnd)

lemma safe_block: "(\<And>m. m \<in> set ms \<Longrightarrow> safe P m) \<Longrightarrow> safe P (block ms)"
proof (induction ms)
  case Nil
  then show ?case by (simp add: safe_def)
next
  case (Cons m ms)
  have "block (m # ms) = andthen m (block ms)"
    by (rule ext) (auto simp: andthen_def bnd_def split: prod.splits sum.splits)
  then show ?case
    using Cons by (simp add: safe_andthen)
qed

lemma safe_simple [simp]:
  "safe P (ret x)" "safe P (bail e)" "safe P (ensure c e)" "safe P (ensure_st d e)" "safe P (gets g)"
  by (simp_all add: safe_def ret_def bail_def ensure_def ensure_st_def gets_def)

lemma safe_modify: "(\<And>s. P s \<Longrightarrow> P (f s)) \<Longrightarrow> safe P (modify f)"
  by (simp add: safe_def modify_def)


text \<open>What holds whenever an action succeeds.\<close>

definition yields :: "('s \<Rightarrow> bool) \<Rightarrow> ('s, 'a) action \<Rightarrow> ('a \<Rightarrow> 's \<Rightarrow> bool) \<Rightarrow> bool" where
  "yields P m Q \<longleftrightarrow> (\<forall>s x t. P s \<longrightarrow> m s = (Inr x, t) \<longrightarrow> Q x t)"

lemma yieldsI: "(\<And>s x t. P s \<Longrightarrow> m s = (Inr x, t) \<Longrightarrow> Q x t) \<Longrightarrow> yields P m Q"
  by (simp add: yields_def)

lemma yieldsD: "yields P m Q \<Longrightarrow> P s \<Longrightarrow> m s = (Inr x, t) \<Longrightarrow> Q x t"
  by (simp add: yields_def)

lemma yields_bnd: "yields P m Q \<Longrightarrow> (\<And>x. yields (Q x) (f x) R) \<Longrightarrow> yields P (bnd m f) R"
  by (fastforce simp: yields_def bnd_def split: prod.splits sum.splits)

lemma yields_block_Nil: "(\<And>s. P s \<Longrightarrow> Q s) \<Longrightarrow> yields P (block []) (\<lambda>_. Q)"
  by (simp add: yields_def)

lemma yields_block_Cons: "yields P m (\<lambda>_. Q) \<Longrightarrow> yields Q (block ms) R \<Longrightarrow> yields P (block (m # ms)) R"
  by (auto simp: yields_def split: prod.splits sum.splits)

lemma yields_if:
  "yields (\<lambda>s. P s \<and> b s) m Q \<Longrightarrow> yields (\<lambda>s. P s \<and> \<not> b s) m' Q \<Longrightarrow> yields P (\<lambda>s. if b s then m s else m' s) Q"
  by (simp add: yields_def)

lemma yields_weaken: "yields P m Q \<Longrightarrow> (\<And>s. P' s \<Longrightarrow> P s) \<Longrightarrow> yields P' m Q"
  by (auto simp: yields_def)

lemma yields_modify: "(\<And>s. P s \<Longrightarrow> Q (f s)) \<Longrightarrow> yields P (modify f) (\<lambda>_. Q)"
  by (simp add: yields_def modify_def)

lemma yields_ret: "(\<And>s. P s \<Longrightarrow> Q x s) \<Longrightarrow> yields P (ret x) Q"
  by (simp add: yields_def ret_def)

lemma yields_ensure_st: "(\<And>s. P s \<Longrightarrow> g s \<Longrightarrow> Q s) \<Longrightarrow> yields P (ensure_st g e) (\<lambda>_. Q)"
  by (auto simp: yields_def ensure_st_def split: if_splits)


section \<open>Bytes in memory\<close>

definition mem_read :: "bytes \<Rightarrow> nat \<Rightarrow> nat \<Rightarrow> bytes option" where
  "mem_read m off n = (if off + n \<le> length m then Some (take n (drop off m)) else None)"

definition mem_write :: "bytes \<Rightarrow> nat \<Rightarrow> bytes \<Rightarrow> bytes option" where
  "mem_write m off bs =
     (if off + length bs \<le> length m
      then Some (take off m @ bs @ drop (off + length bs) m) else None)"

definition overwrite :: "nat \<Rightarrow> bytes \<Rightarrow> bytes \<Rightarrow> bytes" where
  "overwrite off bs m = take off m @ bs @ drop (off + length bs) m"

lemma mem_write_overwrite: "off + length bs \<le> length m \<Longrightarrow> mem_write m off bs = Some (overwrite off bs m)"
  by (simp add: mem_write_def overwrite_def)

lemma length_overwrite [simp]: "off + length bs \<le> length m \<Longrightarrow> length (overwrite off bs m) = length m"
  by (simp add: overwrite_def)

lemma overwrite_nil [simp]: "overwrite off [] m = m"
  by (simp add: overwrite_def)

lemma take_overwrite: "n \<le> off \<Longrightarrow> off \<le> length m \<Longrightarrow> take n (overwrite off bs m) = take n m"
  by (simp add: overwrite_def min_def)

lemma take_overwrite_end:
  "off \<le> length m \<Longrightarrow> take (off + length bs) (overwrite off bs m) = take off m @ bs"
  by (simp add: overwrite_def)

lemma take_overwrite_beyond:
  assumes "off + length bs \<le> k" and "off \<le> length m"
  shows "take k (overwrite off bs m) = overwrite off bs (take k m)"
proof -
  have "min off k = off" "min k off = off"
    using assms(1) by simp_all
  then show ?thesis
    using assms by (simp add: overwrite_def drop_take)
qed

lemma mem_write_length: "mem_write m off bs = Some m' \<Longrightarrow> length m' = length m"
  by (auto simp: mem_write_def split: if_splits)

lemma mem_write_Some:
  "off + length bs \<le> length m \<Longrightarrow>
   mem_write m off bs = Some (take off m @ bs @ drop (off + length bs) m)"
  by (simp add: mem_write_def)

lemma mem_read_Some:
  "off + n \<le> length m \<Longrightarrow> mem_read m off n = Some (take n (drop off m))"
  by (simp add: mem_read_def)

lemma take_splice:
  assumes "off \<le> length m"
  shows "take off (take off m @ bs @ c) = take off m"
  using assms by simp

lemma take_drop_splice:
  assumes "r \<le> off" and "off \<le> length m"
  shows "take (off + length bs - r) (drop r (take off m @ bs @ c))
         = take (off - r) (drop r m) @ bs"
proof -
  have "drop r (take off m @ bs @ c) = take (off - r) (drop r m) @ bs @ c"
    using assms by (simp add: drop_take)
  moreover have "length (take (off - r) (drop r m) @ bs) = off + length bs - r"
    using assms by simp
  ultimately show ?thesis
    by (metis append.assoc append_eq_conv_conj)
qed

lemma take_drop_append_take_drop:
  "take a (drop r m) @ take b (drop (r + a) m) = take (a + b) (drop r m)"
  by (simp add: take_add add.commute)


lemma replicate_numeral: "replicate (numeral k) x = x # replicate (pred_numeral k) x"
  by (simp add: numeral_eq_Suc)


section \<open>Words\<close>

lemma unat_less_2p: "unat w < 2 ^ LENGTH('a)" for w :: "'a::len word"
  by (rule unsigned_less)

lemma word_sub_unat [word_facts]: "b \<le> a \<Longrightarrow> unat (a - b) = unat a - unat b"
  for a b :: "'a::len word"
  by (rule unat_sub)

lemma word_add_unat [word_facts]:
  fixes a b :: "'a::len word"
  assumes "unat a + unat b < 2 ^ LENGTH('a)"
  shows "unat (a + b) = unat a + unat b"
  using assms by (simp add: unat_plus_if')

lemma word_mult_unat [word_facts]:
  fixes a b :: "'a::len word"
  assumes "unat a * unat b < 2 ^ LENGTH('a)"
  shows "unat (a * b) = unat a * unat b"
  using assms by (simp add: unat_word_ariths)

lemma word_le_unat: "a \<le> b \<longleftrightarrow> unat a \<le> unat b" for a b :: "'a::len word"
  by (rule word_le_nat_alt)

lemma word_less_unat: "a < b \<longleftrightarrow> unat a < unat b" for a b :: "'a::len word"
  by (rule word_less_nat_alt)

lemma unat_add_within [word_facts]:
  fixes r w n :: "'a::len word"
  assumes "r \<le> w" and "n \<le> w - r"
  shows "unat (r + n) = unat r + unat n"
proof -
  have "unat n \<le> unat w - unat r"
    using assms by (simp add: word_le_unat word_sub_unat)
  then have "unat r + unat n \<le> unat w"
    using assms(1) by (simp add: word_le_unat)
  then show ?thesis
    using unat_less_2p [of w] by (intro word_add_unat) linarith
qed

lemma add_within_le:
  fixes r w n :: "'a::len word"
  assumes "r \<le> w" and "n \<le> w - r"
  shows "r + n \<le> w"
proof -
  have "unat n \<le> unat w - unat r"
    using assms by (simp add: word_le_unat word_sub_unat)
  then show ?thesis
    using assms(1) unat_add_within [OF assms] by (simp add: word_le_unat)
qed

lemma unat_u32_bound: "unat (x :: u32) \<le> UINT32_MAX"
  using unat_less_2p [of x] by simp

lemma unat_u32_less: "unat (x :: u32) < 4294967296"
  using unat_less_2p [of x] by simp

lemma unat_u8_less: "unat (x :: u8) < 256"
  using unat_less_2p [of x] by simp

lemma unat_of_nat_u32 [simp]:
  "n < 4294967296 \<Longrightarrow> unat (of_nat n :: u32) = n"
  by (simp add: unat_of_nat)

lemma xor_eq_zero_iff: "x XOR y = 0 \<longleftrightarrow> x = y" for x y :: "'a::len word"
proof
  assume "x XOR y = 0"
  then have "(x XOR y) XOR y = y"
    by simp
  then show "x = y"
    by (simp add: xor.assoc)
qed simp

lemma unat_ucast_mod: "unat (ucast w :: 'b::len word) = unat w mod 2 ^ LENGTH('b)"
  for w :: "'a::len word"
  by (simp add: unsigned_ucast_eq take_bit_eq_mod)

lemma unat_ucast_small:
  fixes w :: "'a::len word"
  assumes "unat w < 2 ^ LENGTH('b)"
  shows "unat (ucast w :: 'b::len word) = unat w"
  using assms by (simp add: unat_ucast_mod)

lemma word_unat_eqI: "unat v = unat w \<Longrightarrow> v = w" for v w :: "'a::len word"
  by (rule unsigned_word_eqI)

end
