(* ===== verification/Errno.thy ===== *)
theory Errno
  imports Prelude
begin

text \<open>
  Error codes (\<open>error/s2n_errno.h\<close>, \<open>error/s2n_errno.c\<close>).

  An error is an integer whose upper bits are its type: the enumeration starts each group of
  codes at \<open>type << S2N_ERR_NUM_VALUE_BITS\<close>.  The constants below have the values the C
  enumeration gives them.
\<close>

abbreviation (input) S2N_ERR_NUM_VALUE_BITS :: nat where "S2N_ERR_NUM_VALUE_BITS \<equiv> 26"

abbreviation (input) S2N_ERR_T_OK :: nat where "S2N_ERR_T_OK \<equiv> 0"
abbreviation (input) S2N_ERR_T_IO :: nat where "S2N_ERR_T_IO \<equiv> 1"
abbreviation (input) S2N_ERR_T_CLOSED :: nat where "S2N_ERR_T_CLOSED \<equiv> 2"
abbreviation (input) S2N_ERR_T_BLOCKED :: nat where "S2N_ERR_T_BLOCKED \<equiv> 3"
abbreviation (input) S2N_ERR_T_ALERT :: nat where "S2N_ERR_T_ALERT \<equiv> 4"
abbreviation (input) S2N_ERR_T_PROTO :: nat where "S2N_ERR_T_PROTO \<equiv> 5"
abbreviation (input) S2N_ERR_T_INTERNAL :: nat where "S2N_ERR_T_INTERNAL \<equiv> 6"
abbreviation (input) S2N_ERR_T_USAGE :: nat where "S2N_ERR_T_USAGE \<equiv> 7"

abbreviation (input) S2N_ERR_OK :: s2n_error where "S2N_ERR_OK \<equiv> 0"
abbreviation (input) S2N_ERR_IO :: s2n_error where "S2N_ERR_IO \<equiv> 67108864"
abbreviation (input) S2N_ERR_CLOSED :: s2n_error where "S2N_ERR_CLOSED \<equiv> 134217728"
abbreviation (input) S2N_ERR_IO_BLOCKED :: s2n_error where "S2N_ERR_IO_BLOCKED \<equiv> 201326592"
abbreviation (input) S2N_ERR_ASYNC_BLOCKED :: s2n_error where "S2N_ERR_ASYNC_BLOCKED \<equiv> 201326593"
abbreviation (input) S2N_ERR_EARLY_DATA_BLOCKED :: s2n_error where "S2N_ERR_EARLY_DATA_BLOCKED \<equiv> 201326594"
abbreviation (input) S2N_ERR_APP_DATA_BLOCKED :: s2n_error where "S2N_ERR_APP_DATA_BLOCKED \<equiv> 201326595"
abbreviation (input) S2N_ERR_ALERT :: s2n_error where "S2N_ERR_ALERT \<equiv> 268435456"
abbreviation (input) S2N_ERR_ENCRYPT :: s2n_error where "S2N_ERR_ENCRYPT \<equiv> 335544320"
abbreviation (input) S2N_ERR_DECRYPT :: s2n_error where "S2N_ERR_DECRYPT \<equiv> 335544321"
abbreviation (input) S2N_ERR_BAD_MESSAGE :: s2n_error where "S2N_ERR_BAD_MESSAGE \<equiv> 335544322"
abbreviation (input) S2N_ERR_UNEXPECTED_CERT_REQUEST :: s2n_error where "S2N_ERR_UNEXPECTED_CERT_REQUEST \<equiv> 335544323"
abbreviation (input) S2N_ERR_MISSING_CERT_REQUEST :: s2n_error where "S2N_ERR_MISSING_CERT_REQUEST \<equiv> 335544324"
abbreviation (input) S2N_ERR_MISSING_CLIENT_CERT :: s2n_error where "S2N_ERR_MISSING_CLIENT_CERT \<equiv> 335544325"
abbreviation (input) S2N_ERR_KEY_INIT :: s2n_error where "S2N_ERR_KEY_INIT \<equiv> 335544326"
abbreviation (input) S2N_ERR_KEY_DESTROY :: s2n_error where "S2N_ERR_KEY_DESTROY \<equiv> 335544327"
abbreviation (input) S2N_ERR_DH_SERIALIZING :: s2n_error where "S2N_ERR_DH_SERIALIZING \<equiv> 335544328"
abbreviation (input) S2N_ERR_DH_SHARED_SECRET :: s2n_error where "S2N_ERR_DH_SHARED_SECRET \<equiv> 335544329"
abbreviation (input) S2N_ERR_DH_WRITING_PUBLIC_KEY :: s2n_error where "S2N_ERR_DH_WRITING_PUBLIC_KEY \<equiv> 335544330"
abbreviation (input) S2N_ERR_DH_FAILED_SIGNING :: s2n_error where "S2N_ERR_DH_FAILED_SIGNING \<equiv> 335544331"
abbreviation (input) S2N_ERR_DH_COPYING_PARAMETERS :: s2n_error where "S2N_ERR_DH_COPYING_PARAMETERS \<equiv> 335544332"
abbreviation (input) S2N_ERR_DH_GENERATING_PARAMETERS :: s2n_error where "S2N_ERR_DH_GENERATING_PARAMETERS \<equiv> 335544333"
abbreviation (input) S2N_ERR_CIPHER_NOT_SUPPORTED :: s2n_error where "S2N_ERR_CIPHER_NOT_SUPPORTED \<equiv> 335544334"
abbreviation (input) S2N_ERR_NO_APPLICATION_PROTOCOL :: s2n_error where "S2N_ERR_NO_APPLICATION_PROTOCOL \<equiv> 335544335"
abbreviation (input) S2N_ERR_FALLBACK_DETECTED :: s2n_error where "S2N_ERR_FALLBACK_DETECTED \<equiv> 335544336"
abbreviation (input) S2N_ERR_HASH_DIGEST_FAILED :: s2n_error where "S2N_ERR_HASH_DIGEST_FAILED \<equiv> 335544337"
abbreviation (input) S2N_ERR_HASH_INIT_FAILED :: s2n_error where "S2N_ERR_HASH_INIT_FAILED \<equiv> 335544338"
abbreviation (input) S2N_ERR_HASH_UPDATE_FAILED :: s2n_error where "S2N_ERR_HASH_UPDATE_FAILED \<equiv> 335544339"
abbreviation (input) S2N_ERR_HASH_COPY_FAILED :: s2n_error where "S2N_ERR_HASH_COPY_FAILED \<equiv> 335544340"
abbreviation (input) S2N_ERR_HASH_WIPE_FAILED :: s2n_error where "S2N_ERR_HASH_WIPE_FAILED \<equiv> 335544341"
abbreviation (input) S2N_ERR_HASH_NOT_READY :: s2n_error where "S2N_ERR_HASH_NOT_READY \<equiv> 335544342"
abbreviation (input) S2N_ERR_ALLOW_MD5_FOR_FIPS_FAILED :: s2n_error where "S2N_ERR_ALLOW_MD5_FOR_FIPS_FAILED \<equiv> 335544343"
abbreviation (input) S2N_ERR_DECODE_CERTIFICATE :: s2n_error where "S2N_ERR_DECODE_CERTIFICATE \<equiv> 335544344"
abbreviation (input) S2N_ERR_DECODE_PRIVATE_KEY :: s2n_error where "S2N_ERR_DECODE_PRIVATE_KEY \<equiv> 335544345"
abbreviation (input) S2N_ERR_INVALID_HELLO_RETRY :: s2n_error where "S2N_ERR_INVALID_HELLO_RETRY \<equiv> 335544346"
abbreviation (input) S2N_ERR_INVALID_SIGNATURE_ALGORITHM :: s2n_error where "S2N_ERR_INVALID_SIGNATURE_ALGORITHM \<equiv> 335544347"
abbreviation (input) S2N_ERR_INVALID_SIGNATURE_SCHEME :: s2n_error where "S2N_ERR_INVALID_SIGNATURE_SCHEME \<equiv> 335544348"
abbreviation (input) S2N_ERR_NO_VALID_SIGNATURE_SCHEME :: s2n_error where "S2N_ERR_NO_VALID_SIGNATURE_SCHEME \<equiv> 335544349"
abbreviation (input) S2N_ERR_CBC_VERIFY :: s2n_error where "S2N_ERR_CBC_VERIFY \<equiv> 335544350"
abbreviation (input) S2N_ERR_DH_COPYING_PUBLIC_KEY :: s2n_error where "S2N_ERR_DH_COPYING_PUBLIC_KEY \<equiv> 335544351"
abbreviation (input) S2N_ERR_SIGN :: s2n_error where "S2N_ERR_SIGN \<equiv> 335544352"
abbreviation (input) S2N_ERR_VERIFY_SIGNATURE :: s2n_error where "S2N_ERR_VERIFY_SIGNATURE \<equiv> 335544353"
abbreviation (input) S2N_ERR_ECDHE_GEN_KEY :: s2n_error where "S2N_ERR_ECDHE_GEN_KEY \<equiv> 335544354"
abbreviation (input) S2N_ERR_ECDHE_SHARED_SECRET :: s2n_error where "S2N_ERR_ECDHE_SHARED_SECRET \<equiv> 335544355"
abbreviation (input) S2N_ERR_ECDHE_UNSUPPORTED_CURVE :: s2n_error where "S2N_ERR_ECDHE_UNSUPPORTED_CURVE \<equiv> 335544356"
abbreviation (input) S2N_ERR_ECDHE_INVALID_PUBLIC_KEY :: s2n_error where "S2N_ERR_ECDHE_INVALID_PUBLIC_KEY \<equiv> 335544357"
abbreviation (input) S2N_ERR_ECDHE_INVALID_PUBLIC_KEY_FIPS :: s2n_error where "S2N_ERR_ECDHE_INVALID_PUBLIC_KEY_FIPS \<equiv> 335544358"
abbreviation (input) S2N_ERR_ECDSA_UNSUPPORTED_CURVE :: s2n_error where "S2N_ERR_ECDSA_UNSUPPORTED_CURVE \<equiv> 335544359"
abbreviation (input) S2N_ERR_ECDHE_SERIALIZING :: s2n_error where "S2N_ERR_ECDHE_SERIALIZING \<equiv> 335544360"
abbreviation (input) S2N_ERR_KEM_UNSUPPORTED_PARAMS :: s2n_error where "S2N_ERR_KEM_UNSUPPORTED_PARAMS \<equiv> 335544361"
abbreviation (input) S2N_ERR_SHUTDOWN_RECORD_TYPE :: s2n_error where "S2N_ERR_SHUTDOWN_RECORD_TYPE \<equiv> 335544362"
abbreviation (input) S2N_ERR_SHUTDOWN_CLOSED :: s2n_error where "S2N_ERR_SHUTDOWN_CLOSED \<equiv> 335544363"
abbreviation (input) S2N_ERR_NON_EMPTY_RENEGOTIATION_INFO :: s2n_error where "S2N_ERR_NON_EMPTY_RENEGOTIATION_INFO \<equiv> 335544364"
abbreviation (input) S2N_ERR_RECORD_LIMIT :: s2n_error where "S2N_ERR_RECORD_LIMIT \<equiv> 335544365"
abbreviation (input) S2N_ERR_CERT_UNTRUSTED :: s2n_error where "S2N_ERR_CERT_UNTRUSTED \<equiv> 335544366"
abbreviation (input) S2N_ERR_CERT_REVOKED :: s2n_error where "S2N_ERR_CERT_REVOKED \<equiv> 335544367"
abbreviation (input) S2N_ERR_CERT_NOT_YET_VALID :: s2n_error where "S2N_ERR_CERT_NOT_YET_VALID \<equiv> 335544368"
abbreviation (input) S2N_ERR_CERT_EXPIRED :: s2n_error where "S2N_ERR_CERT_EXPIRED \<equiv> 335544369"
abbreviation (input) S2N_ERR_CERT_TYPE_UNSUPPORTED :: s2n_error where "S2N_ERR_CERT_TYPE_UNSUPPORTED \<equiv> 335544370"
abbreviation (input) S2N_ERR_CERT_INVALID :: s2n_error where "S2N_ERR_CERT_INVALID \<equiv> 335544371"
abbreviation (input) S2N_ERR_CERT_MAX_CHAIN_DEPTH_EXCEEDED :: s2n_error where "S2N_ERR_CERT_MAX_CHAIN_DEPTH_EXCEEDED \<equiv> 335544372"
abbreviation (input) S2N_ERR_CERT_REJECTED :: s2n_error where "S2N_ERR_CERT_REJECTED \<equiv> 335544373"
abbreviation (input) S2N_ERR_CRL_LOOKUP_FAILED :: s2n_error where "S2N_ERR_CRL_LOOKUP_FAILED \<equiv> 335544374"
abbreviation (input) S2N_ERR_CRL_SIGNATURE :: s2n_error where "S2N_ERR_CRL_SIGNATURE \<equiv> 335544375"
abbreviation (input) S2N_ERR_CRL_ISSUER :: s2n_error where "S2N_ERR_CRL_ISSUER \<equiv> 335544376"
abbreviation (input) S2N_ERR_CRL_UNHANDLED_CRITICAL_EXTENSION :: s2n_error where "S2N_ERR_CRL_UNHANDLED_CRITICAL_EXTENSION \<equiv> 335544377"
abbreviation (input) S2N_ERR_CRL_INVALID_THIS_UPDATE :: s2n_error where "S2N_ERR_CRL_INVALID_THIS_UPDATE \<equiv> 335544378"
abbreviation (input) S2N_ERR_CRL_INVALID_NEXT_UPDATE :: s2n_error where "S2N_ERR_CRL_INVALID_NEXT_UPDATE \<equiv> 335544379"
abbreviation (input) S2N_ERR_CRL_NOT_YET_VALID :: s2n_error where "S2N_ERR_CRL_NOT_YET_VALID \<equiv> 335544380"
abbreviation (input) S2N_ERR_CRL_EXPIRED :: s2n_error where "S2N_ERR_CRL_EXPIRED \<equiv> 335544381"
abbreviation (input) S2N_ERR_INVALID_MAX_FRAG_LEN :: s2n_error where "S2N_ERR_INVALID_MAX_FRAG_LEN \<equiv> 335544382"
abbreviation (input) S2N_ERR_MAX_FRAG_LEN_MISMATCH :: s2n_error where "S2N_ERR_MAX_FRAG_LEN_MISMATCH \<equiv> 335544383"
abbreviation (input) S2N_ERR_PROTOCOL_VERSION_UNSUPPORTED :: s2n_error where "S2N_ERR_PROTOCOL_VERSION_UNSUPPORTED \<equiv> 335544384"
abbreviation (input) S2N_ERR_BAD_KEY_SHARE :: s2n_error where "S2N_ERR_BAD_KEY_SHARE \<equiv> 335544385"
abbreviation (input) S2N_ERR_CANCELLED :: s2n_error where "S2N_ERR_CANCELLED \<equiv> 335544386"
abbreviation (input) S2N_ERR_PROTOCOL_DOWNGRADE_DETECTED :: s2n_error where "S2N_ERR_PROTOCOL_DOWNGRADE_DETECTED \<equiv> 335544387"
abbreviation (input) S2N_ERR_MAX_INNER_PLAINTEXT_SIZE :: s2n_error where "S2N_ERR_MAX_INNER_PLAINTEXT_SIZE \<equiv> 335544388"
abbreviation (input) S2N_ERR_RECORD_STUFFER_SIZE :: s2n_error where "S2N_ERR_RECORD_STUFFER_SIZE \<equiv> 335544389"
abbreviation (input) S2N_ERR_FRAGMENT_LENGTH_TOO_LARGE :: s2n_error where "S2N_ERR_FRAGMENT_LENGTH_TOO_LARGE \<equiv> 335544390"
abbreviation (input) S2N_ERR_FRAGMENT_LENGTH_TOO_SMALL :: s2n_error where "S2N_ERR_FRAGMENT_LENGTH_TOO_SMALL \<equiv> 335544391"
abbreviation (input) S2N_ERR_RECORD_STUFFER_NEEDS_DRAINING :: s2n_error where "S2N_ERR_RECORD_STUFFER_NEEDS_DRAINING \<equiv> 335544392"
abbreviation (input) S2N_ERR_MISSING_EXTENSION :: s2n_error where "S2N_ERR_MISSING_EXTENSION \<equiv> 335544393"
abbreviation (input) S2N_ERR_UNSUPPORTED_EXTENSION :: s2n_error where "S2N_ERR_UNSUPPORTED_EXTENSION \<equiv> 335544394"
abbreviation (input) S2N_ERR_DUPLICATE_EXTENSION :: s2n_error where "S2N_ERR_DUPLICATE_EXTENSION \<equiv> 335544395"
abbreviation (input) S2N_ERR_MAX_EARLY_DATA_SIZE :: s2n_error where "S2N_ERR_MAX_EARLY_DATA_SIZE \<equiv> 335544396"
abbreviation (input) S2N_ERR_EARLY_DATA_TRIAL_DECRYPT :: s2n_error where "S2N_ERR_EARLY_DATA_TRIAL_DECRYPT \<equiv> 335544397"
abbreviation (input) S2N_ERR_NO_RENEGOTIATION :: s2n_error where "S2N_ERR_NO_RENEGOTIATION \<equiv> 335544398"
abbreviation (input) S2N_ERR_KTLS_KEYUPDATE :: s2n_error where "S2N_ERR_KTLS_KEYUPDATE \<equiv> 335544399"
abbreviation (input) S2N_ERR_MADVISE :: s2n_error where "S2N_ERR_MADVISE \<equiv> 402653184"
abbreviation (input) S2N_ERR_ALLOC :: s2n_error where "S2N_ERR_ALLOC \<equiv> 402653185"
abbreviation (input) S2N_ERR_MLOCK :: s2n_error where "S2N_ERR_MLOCK \<equiv> 402653186"
abbreviation (input) S2N_ERR_MUNLOCK :: s2n_error where "S2N_ERR_MUNLOCK \<equiv> 402653187"
abbreviation (input) S2N_ERR_FSTAT :: s2n_error where "S2N_ERR_FSTAT \<equiv> 402653188"
abbreviation (input) S2N_ERR_OPEN :: s2n_error where "S2N_ERR_OPEN \<equiv> 402653189"
abbreviation (input) S2N_ERR_MMAP :: s2n_error where "S2N_ERR_MMAP \<equiv> 402653190"
abbreviation (input) S2N_ERR_ATEXIT :: s2n_error where "S2N_ERR_ATEXIT \<equiv> 402653191"
abbreviation (input) S2N_ERR_NOMEM :: s2n_error where "S2N_ERR_NOMEM \<equiv> 402653192"
abbreviation (input) S2N_ERR_NULL :: s2n_error where "S2N_ERR_NULL \<equiv> 402653193"
abbreviation (input) S2N_ERR_SAFETY :: s2n_error where "S2N_ERR_SAFETY \<equiv> 402653194"
abbreviation (input) S2N_ERR_INITIALIZED :: s2n_error where "S2N_ERR_INITIALIZED \<equiv> 402653195"
abbreviation (input) S2N_ERR_NOT_INITIALIZED :: s2n_error where "S2N_ERR_NOT_INITIALIZED \<equiv> 402653196"
abbreviation (input) S2N_ERR_RANDOM_UNINITIALIZED :: s2n_error where "S2N_ERR_RANDOM_UNINITIALIZED \<equiv> 402653197"
abbreviation (input) S2N_ERR_OPEN_RANDOM :: s2n_error where "S2N_ERR_OPEN_RANDOM \<equiv> 402653198"
abbreviation (input) S2N_ERR_RESIZE_STATIC_STUFFER :: s2n_error where "S2N_ERR_RESIZE_STATIC_STUFFER \<equiv> 402653199"
abbreviation (input) S2N_ERR_RESIZE_TAINTED_STUFFER :: s2n_error where "S2N_ERR_RESIZE_TAINTED_STUFFER \<equiv> 402653200"
abbreviation (input) S2N_ERR_STUFFER_OUT_OF_DATA :: s2n_error where "S2N_ERR_STUFFER_OUT_OF_DATA \<equiv> 402653201"
abbreviation (input) S2N_ERR_STUFFER_IS_FULL :: s2n_error where "S2N_ERR_STUFFER_IS_FULL \<equiv> 402653202"
abbreviation (input) S2N_ERR_STUFFER_NOT_FOUND :: s2n_error where "S2N_ERR_STUFFER_NOT_FOUND \<equiv> 402653203"
abbreviation (input) S2N_ERR_STUFFER_HAS_UNPROCESSED_DATA :: s2n_error where "S2N_ERR_STUFFER_HAS_UNPROCESSED_DATA \<equiv> 402653204"
abbreviation (input) S2N_ERR_HASH_INVALID_ALGORITHM :: s2n_error where "S2N_ERR_HASH_INVALID_ALGORITHM \<equiv> 402653205"
abbreviation (input) S2N_ERR_PRF_INVALID_ALGORITHM :: s2n_error where "S2N_ERR_PRF_INVALID_ALGORITHM \<equiv> 402653206"
abbreviation (input) S2N_ERR_PRF_INVALID_SEED :: s2n_error where "S2N_ERR_PRF_INVALID_SEED \<equiv> 402653207"
abbreviation (input) S2N_ERR_PRF_DERIVE :: s2n_error where "S2N_ERR_PRF_DERIVE \<equiv> 402653208"
abbreviation (input) S2N_ERR_P_HASH_INVALID_ALGORITHM :: s2n_error where "S2N_ERR_P_HASH_INVALID_ALGORITHM \<equiv> 402653209"
abbreviation (input) S2N_ERR_P_HASH_INIT_FAILED :: s2n_error where "S2N_ERR_P_HASH_INIT_FAILED \<equiv> 402653210"
abbreviation (input) S2N_ERR_P_HASH_UPDATE_FAILED :: s2n_error where "S2N_ERR_P_HASH_UPDATE_FAILED \<equiv> 402653211"
abbreviation (input) S2N_ERR_P_HASH_FINAL_FAILED :: s2n_error where "S2N_ERR_P_HASH_FINAL_FAILED \<equiv> 402653212"
abbreviation (input) S2N_ERR_P_HASH_WIPE_FAILED :: s2n_error where "S2N_ERR_P_HASH_WIPE_FAILED \<equiv> 402653213"
abbreviation (input) S2N_ERR_HMAC_INVALID_ALGORITHM :: s2n_error where "S2N_ERR_HMAC_INVALID_ALGORITHM \<equiv> 402653214"
abbreviation (input) S2N_ERR_HKDF_OUTPUT_SIZE :: s2n_error where "S2N_ERR_HKDF_OUTPUT_SIZE \<equiv> 402653215"
abbreviation (input) S2N_ERR_HKDF :: s2n_error where "S2N_ERR_HKDF \<equiv> 402653216"
abbreviation (input) S2N_ERR_ALERT_PRESENT :: s2n_error where "S2N_ERR_ALERT_PRESENT \<equiv> 402653217"
abbreviation (input) S2N_ERR_HANDSHAKE_STATE :: s2n_error where "S2N_ERR_HANDSHAKE_STATE \<equiv> 402653218"
abbreviation (input) S2N_ERR_SHUTDOWN_PAUSED :: s2n_error where "S2N_ERR_SHUTDOWN_PAUSED \<equiv> 402653219"
abbreviation (input) S2N_ERR_SIZE_MISMATCH :: s2n_error where "S2N_ERR_SIZE_MISMATCH \<equiv> 402653220"
abbreviation (input) S2N_ERR_DRBG :: s2n_error where "S2N_ERR_DRBG \<equiv> 402653221"
abbreviation (input) S2N_ERR_DRBG_REQUEST_SIZE :: s2n_error where "S2N_ERR_DRBG_REQUEST_SIZE \<equiv> 402653222"
abbreviation (input) S2N_ERR_KEY_CHECK :: s2n_error where "S2N_ERR_KEY_CHECK \<equiv> 402653223"
abbreviation (input) S2N_ERR_CIPHER_TYPE :: s2n_error where "S2N_ERR_CIPHER_TYPE \<equiv> 402653224"
abbreviation (input) S2N_ERR_MAP_DUPLICATE :: s2n_error where "S2N_ERR_MAP_DUPLICATE \<equiv> 402653225"
abbreviation (input) S2N_ERR_MAP_IMMUTABLE :: s2n_error where "S2N_ERR_MAP_IMMUTABLE \<equiv> 402653226"
abbreviation (input) S2N_ERR_MAP_MUTABLE :: s2n_error where "S2N_ERR_MAP_MUTABLE \<equiv> 402653227"
abbreviation (input) S2N_ERR_MAP_INVALID_MAP_SIZE :: s2n_error where "S2N_ERR_MAP_INVALID_MAP_SIZE \<equiv> 402653228"
abbreviation (input) S2N_ERR_INITIAL_HMAC :: s2n_error where "S2N_ERR_INITIAL_HMAC \<equiv> 402653229"
abbreviation (input) S2N_ERR_INVALID_NONCE_TYPE :: s2n_error where "S2N_ERR_INVALID_NONCE_TYPE \<equiv> 402653230"
abbreviation (input) S2N_ERR_UNIMPLEMENTED :: s2n_error where "S2N_ERR_UNIMPLEMENTED \<equiv> 402653231"
abbreviation (input) S2N_ERR_HANDSHAKE_UNREACHABLE :: s2n_error where "S2N_ERR_HANDSHAKE_UNREACHABLE \<equiv> 402653232"
abbreviation (input) S2N_ERR_READ :: s2n_error where "S2N_ERR_READ \<equiv> 402653233"
abbreviation (input) S2N_ERR_WRITE :: s2n_error where "S2N_ERR_WRITE \<equiv> 402653234"
abbreviation (input) S2N_ERR_BAD_FD :: s2n_error where "S2N_ERR_BAD_FD \<equiv> 402653235"
abbreviation (input) S2N_ERR_RDRAND_FAILED :: s2n_error where "S2N_ERR_RDRAND_FAILED \<equiv> 402653236"
abbreviation (input) S2N_ERR_FAILED_CACHE_RETRIEVAL :: s2n_error where "S2N_ERR_FAILED_CACHE_RETRIEVAL \<equiv> 402653237"
abbreviation (input) S2N_ERR_X509_TRUST_STORE :: s2n_error where "S2N_ERR_X509_TRUST_STORE \<equiv> 402653238"
abbreviation (input) S2N_ERR_UNKNOWN_PROTOCOL_VERSION :: s2n_error where "S2N_ERR_UNKNOWN_PROTOCOL_VERSION \<equiv> 402653239"
abbreviation (input) S2N_ERR_NULL_CN_NAME :: s2n_error where "S2N_ERR_NULL_CN_NAME \<equiv> 402653240"
abbreviation (input) S2N_ERR_NULL_SANS :: s2n_error where "S2N_ERR_NULL_SANS \<equiv> 402653241"
abbreviation (input) S2N_ERR_CLIENT_HELLO_VERSION :: s2n_error where "S2N_ERR_CLIENT_HELLO_VERSION \<equiv> 402653242"
abbreviation (input) S2N_ERR_CLIENT_PROTOCOL_VERSION :: s2n_error where "S2N_ERR_CLIENT_PROTOCOL_VERSION \<equiv> 402653243"
abbreviation (input) S2N_ERR_SERVER_PROTOCOL_VERSION :: s2n_error where "S2N_ERR_SERVER_PROTOCOL_VERSION \<equiv> 402653244"
abbreviation (input) S2N_ERR_ACTUAL_PROTOCOL_VERSION :: s2n_error where "S2N_ERR_ACTUAL_PROTOCOL_VERSION \<equiv> 402653245"
abbreviation (input) S2N_ERR_POLLING_FROM_SOCKET :: s2n_error where "S2N_ERR_POLLING_FROM_SOCKET \<equiv> 402653246"
abbreviation (input) S2N_ERR_RECV_STUFFER_FROM_CONN :: s2n_error where "S2N_ERR_RECV_STUFFER_FROM_CONN \<equiv> 402653247"
abbreviation (input) S2N_ERR_SEND_STUFFER_TO_CONN :: s2n_error where "S2N_ERR_SEND_STUFFER_TO_CONN \<equiv> 402653248"
abbreviation (input) S2N_ERR_PRECONDITION_VIOLATION :: s2n_error where "S2N_ERR_PRECONDITION_VIOLATION \<equiv> 402653249"
abbreviation (input) S2N_ERR_POSTCONDITION_VIOLATION :: s2n_error where "S2N_ERR_POSTCONDITION_VIOLATION \<equiv> 402653250"
abbreviation (input) S2N_ERR_INTEGER_OVERFLOW :: s2n_error where "S2N_ERR_INTEGER_OVERFLOW \<equiv> 402653251"
abbreviation (input) S2N_ERR_ARRAY_INDEX_OOB :: s2n_error where "S2N_ERR_ARRAY_INDEX_OOB \<equiv> 402653252"
abbreviation (input) S2N_ERR_FREE_STATIC_BLOB :: s2n_error where "S2N_ERR_FREE_STATIC_BLOB \<equiv> 402653253"
abbreviation (input) S2N_ERR_RESIZE_STATIC_BLOB :: s2n_error where "S2N_ERR_RESIZE_STATIC_BLOB \<equiv> 402653254"
abbreviation (input) S2N_ERR_RECORD_LENGTH_TOO_LARGE :: s2n_error where "S2N_ERR_RECORD_LENGTH_TOO_LARGE \<equiv> 402653255"
abbreviation (input) S2N_ERR_SET_DUPLICATE_VALUE :: s2n_error where "S2N_ERR_SET_DUPLICATE_VALUE \<equiv> 402653256"
abbreviation (input) S2N_ERR_INVALID_PARSED_EXTENSIONS :: s2n_error where "S2N_ERR_INVALID_PARSED_EXTENSIONS \<equiv> 402653257"
abbreviation (input) S2N_ERR_ASYNC_CALLBACK_FAILED :: s2n_error where "S2N_ERR_ASYNC_CALLBACK_FAILED \<equiv> 402653258"
abbreviation (input) S2N_ERR_ASYNC_MORE_THAN_ONE :: s2n_error where "S2N_ERR_ASYNC_MORE_THAN_ONE \<equiv> 402653259"
abbreviation (input) S2N_ERR_PQ_CRYPTO :: s2n_error where "S2N_ERR_PQ_CRYPTO \<equiv> 402653260"
abbreviation (input) S2N_ERR_INVALID_CERT_STATE :: s2n_error where "S2N_ERR_INVALID_CERT_STATE \<equiv> 402653261"
abbreviation (input) S2N_ERR_INVALID_EARLY_DATA_STATE :: s2n_error where "S2N_ERR_INVALID_EARLY_DATA_STATE \<equiv> 402653262"
abbreviation (input) S2N_ERR_PKEY_CTX_INIT :: s2n_error where "S2N_ERR_PKEY_CTX_INIT \<equiv> 402653263"
abbreviation (input) S2N_ERR_FORK_DETECTION_INIT :: s2n_error where "S2N_ERR_FORK_DETECTION_INIT \<equiv> 402653264"
abbreviation (input) S2N_ERR_RETRIEVE_FORK_GENERATION_NUMBER :: s2n_error where "S2N_ERR_RETRIEVE_FORK_GENERATION_NUMBER \<equiv> 402653265"
abbreviation (input) S2N_ERR_LIBCRYPTO_VERSION_NUMBER_MISMATCH :: s2n_error where "S2N_ERR_LIBCRYPTO_VERSION_NUMBER_MISMATCH \<equiv> 402653266"
abbreviation (input) S2N_ERR_LIBCRYPTO_VERSION_NAME_MISMATCH :: s2n_error where "S2N_ERR_LIBCRYPTO_VERSION_NAME_MISMATCH \<equiv> 402653267"
abbreviation (input) S2N_ERR_INTERNAL_LIBCRYPTO_ERROR :: s2n_error where "S2N_ERR_INTERNAL_LIBCRYPTO_ERROR \<equiv> 402653268"
abbreviation (input) S2N_ERR_OSSL_PROVIDER :: s2n_error where "S2N_ERR_OSSL_PROVIDER \<equiv> 402653269"
abbreviation (input) S2N_ERR_BAD_HEX :: s2n_error where "S2N_ERR_BAD_HEX \<equiv> 402653270"
abbreviation (input) S2N_ERR_TEST_ASSERTION :: s2n_error where "S2N_ERR_TEST_ASSERTION \<equiv> 402653271"
abbreviation (input) S2N_ERR_CONFIG_NULL_BEFORE_CH_CALLBACK :: s2n_error where "S2N_ERR_CONFIG_NULL_BEFORE_CH_CALLBACK \<equiv> 402653272"
abbreviation (input) S2N_ERR_ZERO_LIFETIME_TICKET :: s2n_error where "S2N_ERR_ZERO_LIFETIME_TICKET \<equiv> 402653273"
abbreviation (input) S2N_ERR_NO_ALERT :: s2n_error where "S2N_ERR_NO_ALERT \<equiv> 469762048"
abbreviation (input) S2N_ERR_SERVER_MODE :: s2n_error where "S2N_ERR_SERVER_MODE \<equiv> 469762049"
abbreviation (input) S2N_ERR_CLIENT_MODE :: s2n_error where "S2N_ERR_CLIENT_MODE \<equiv> 469762050"
abbreviation (input) S2N_ERR_CLIENT_MODE_DISABLED :: s2n_error where "S2N_ERR_CLIENT_MODE_DISABLED \<equiv> 469762051"
abbreviation (input) S2N_ERR_TOO_MANY_CERTIFICATES :: s2n_error where "S2N_ERR_TOO_MANY_CERTIFICATES \<equiv> 469762052"
abbreviation (input) S2N_ERR_TOO_MANY_SIGNATURE_SCHEMES :: s2n_error where "S2N_ERR_TOO_MANY_SIGNATURE_SCHEMES \<equiv> 469762053"
abbreviation (input) S2N_ERR_CLIENT_AUTH_NOT_SUPPORTED_IN_FIPS_MODE :: s2n_error where "S2N_ERR_CLIENT_AUTH_NOT_SUPPORTED_IN_FIPS_MODE \<equiv> 469762054"
abbreviation (input) S2N_ERR_INVALID_BASE64 :: s2n_error where "S2N_ERR_INVALID_BASE64 \<equiv> 469762055"
abbreviation (input) S2N_ERR_INVALID_HEX :: s2n_error where "S2N_ERR_INVALID_HEX \<equiv> 469762056"
abbreviation (input) S2N_ERR_INVALID_PEM :: s2n_error where "S2N_ERR_INVALID_PEM \<equiv> 469762057"
abbreviation (input) S2N_ERR_DH_PARAMS_CREATE :: s2n_error where "S2N_ERR_DH_PARAMS_CREATE \<equiv> 469762058"
abbreviation (input) S2N_ERR_DH_TOO_SMALL :: s2n_error where "S2N_ERR_DH_TOO_SMALL \<equiv> 469762059"
abbreviation (input) S2N_ERR_DH_PARAMETER_CHECK :: s2n_error where "S2N_ERR_DH_PARAMETER_CHECK \<equiv> 469762060"
abbreviation (input) S2N_ERR_INVALID_PKCS3 :: s2n_error where "S2N_ERR_INVALID_PKCS3 \<equiv> 469762061"
abbreviation (input) S2N_ERR_NO_CERTIFICATE_IN_PEM :: s2n_error where "S2N_ERR_NO_CERTIFICATE_IN_PEM \<equiv> 469762062"
abbreviation (input) S2N_ERR_SERVER_NAME_TOO_LONG :: s2n_error where "S2N_ERR_SERVER_NAME_TOO_LONG \<equiv> 469762063"
abbreviation (input) S2N_ERR_NUM_DEFAULT_CERTIFICATES :: s2n_error where "S2N_ERR_NUM_DEFAULT_CERTIFICATES \<equiv> 469762064"
abbreviation (input) S2N_ERR_MULTIPLE_DEFAULT_CERTIFICATES_PER_AUTH_TYPE :: s2n_error where "S2N_ERR_MULTIPLE_DEFAULT_CERTIFICATES_PER_AUTH_TYPE \<equiv> 469762065"
abbreviation (input) S2N_ERR_INVALID_CIPHER_PREFERENCES :: s2n_error where "S2N_ERR_INVALID_CIPHER_PREFERENCES \<equiv> 469762066"
abbreviation (input) S2N_ERR_INVALID_APPLICATION_PROTOCOL :: s2n_error where "S2N_ERR_INVALID_APPLICATION_PROTOCOL \<equiv> 469762067"
abbreviation (input) S2N_ERR_KEY_MISMATCH :: s2n_error where "S2N_ERR_KEY_MISMATCH \<equiv> 469762068"
abbreviation (input) S2N_ERR_SEND_SIZE :: s2n_error where "S2N_ERR_SEND_SIZE \<equiv> 469762069"
abbreviation (input) S2N_ERR_CORK_SET_ON_UNMANAGED :: s2n_error where "S2N_ERR_CORK_SET_ON_UNMANAGED \<equiv> 469762070"
abbreviation (input) S2N_ERR_UNRECOGNIZED_EXTENSION :: s2n_error where "S2N_ERR_UNRECOGNIZED_EXTENSION \<equiv> 469762071"
abbreviation (input) S2N_ERR_EXTENSION_NOT_RECEIVED :: s2n_error where "S2N_ERR_EXTENSION_NOT_RECEIVED \<equiv> 469762072"
abbreviation (input) S2N_ERR_INVALID_SCT_LIST :: s2n_error where "S2N_ERR_INVALID_SCT_LIST \<equiv> 469762073"
abbreviation (input) S2N_ERR_INVALID_OCSP_RESPONSE :: s2n_error where "S2N_ERR_INVALID_OCSP_RESPONSE \<equiv> 469762074"
abbreviation (input) S2N_ERR_UPDATING_EXTENSION :: s2n_error where "S2N_ERR_UPDATING_EXTENSION \<equiv> 469762075"
abbreviation (input) S2N_ERR_INVALID_SERIALIZED_SESSION_STATE :: s2n_error where "S2N_ERR_INVALID_SERIALIZED_SESSION_STATE \<equiv> 469762076"
abbreviation (input) S2N_ERR_SERIALIZED_SESSION_STATE_TOO_LONG :: s2n_error where "S2N_ERR_SERIALIZED_SESSION_STATE_TOO_LONG \<equiv> 469762077"
abbreviation (input) S2N_ERR_SESSION_ID_TOO_LONG :: s2n_error where "S2N_ERR_SESSION_ID_TOO_LONG \<equiv> 469762078"
abbreviation (input) S2N_ERR_CLIENT_AUTH_NOT_SUPPORTED_IN_SESSION_RESUMPTION_MODE :: s2n_error where "S2N_ERR_CLIENT_AUTH_NOT_SUPPORTED_IN_SESSION_RESUMPTION_MODE \<equiv> 469762079"
abbreviation (input) S2N_ERR_INVALID_TICKET_KEY_LENGTH :: s2n_error where "S2N_ERR_INVALID_TICKET_KEY_LENGTH \<equiv> 469762080"
abbreviation (input) S2N_ERR_INVALID_TICKET_KEY_NAME_OR_NAME_LENGTH :: s2n_error where "S2N_ERR_INVALID_TICKET_KEY_NAME_OR_NAME_LENGTH \<equiv> 469762081"
abbreviation (input) S2N_ERR_TICKET_KEY_NOT_UNIQUE :: s2n_error where "S2N_ERR_TICKET_KEY_NOT_UNIQUE \<equiv> 469762082"
abbreviation (input) S2N_ERR_TICKET_KEY_LIMIT :: s2n_error where "S2N_ERR_TICKET_KEY_LIMIT \<equiv> 469762083"
abbreviation (input) S2N_ERR_NO_TICKET_ENCRYPT_DECRYPT_KEY :: s2n_error where "S2N_ERR_NO_TICKET_ENCRYPT_DECRYPT_KEY \<equiv> 469762084"
abbreviation (input) S2N_ERR_ENCRYPT_DECRYPT_KEY_SELECTION_FAILED :: s2n_error where "S2N_ERR_ENCRYPT_DECRYPT_KEY_SELECTION_FAILED \<equiv> 469762085"
abbreviation (input) S2N_ERR_KEY_USED_IN_SESSION_TICKET_NOT_FOUND :: s2n_error where "S2N_ERR_KEY_USED_IN_SESSION_TICKET_NOT_FOUND \<equiv> 469762086"
abbreviation (input) S2N_ERR_SENDING_NST :: s2n_error where "S2N_ERR_SENDING_NST \<equiv> 469762087"
abbreviation (input) S2N_ERR_INVALID_DYNAMIC_THRESHOLD :: s2n_error where "S2N_ERR_INVALID_DYNAMIC_THRESHOLD \<equiv> 469762088"
abbreviation (input) S2N_ERR_INVALID_ARGUMENT :: s2n_error where "S2N_ERR_INVALID_ARGUMENT \<equiv> 469762089"
abbreviation (input) S2N_ERR_NOT_IN_UNIT_TEST :: s2n_error where "S2N_ERR_NOT_IN_UNIT_TEST \<equiv> 469762090"
abbreviation (input) S2N_ERR_NOT_IN_TEST :: s2n_error where "S2N_ERR_NOT_IN_TEST \<equiv> 469762091"
abbreviation (input) S2N_ERR_UNSUPPORTED_CPU :: s2n_error where "S2N_ERR_UNSUPPORTED_CPU \<equiv> 469762092"
abbreviation (input) S2N_ERR_SESSION_ID_TOO_SHORT :: s2n_error where "S2N_ERR_SESSION_ID_TOO_SHORT \<equiv> 469762093"
abbreviation (input) S2N_ERR_CONNECTION_CACHING_DISALLOWED :: s2n_error where "S2N_ERR_CONNECTION_CACHING_DISALLOWED \<equiv> 469762094"
abbreviation (input) S2N_ERR_SESSION_TICKET_NOT_SUPPORTED :: s2n_error where "S2N_ERR_SESSION_TICKET_NOT_SUPPORTED \<equiv> 469762095"
abbreviation (input) S2N_ERR_OCSP_NOT_SUPPORTED :: s2n_error where "S2N_ERR_OCSP_NOT_SUPPORTED \<equiv> 469762096"
abbreviation (input) S2N_ERR_INVALID_SIGNATURE_ALGORITHMS_PREFERENCES :: s2n_error where "S2N_ERR_INVALID_SIGNATURE_ALGORITHMS_PREFERENCES \<equiv> 469762097"
abbreviation (input) S2N_ERR_RSA_PSS_NOT_SUPPORTED :: s2n_error where "S2N_ERR_RSA_PSS_NOT_SUPPORTED \<equiv> 469762098"
abbreviation (input) S2N_ERR_INVALID_ECC_PREFERENCES :: s2n_error where "S2N_ERR_INVALID_ECC_PREFERENCES \<equiv> 469762099"
abbreviation (input) S2N_ERR_DEPRECATED_SECURITY_POLICY :: s2n_error where "S2N_ERR_DEPRECATED_SECURITY_POLICY \<equiv> 469762100"
abbreviation (input) S2N_ERR_INVALID_SECURITY_POLICY :: s2n_error where "S2N_ERR_INVALID_SECURITY_POLICY \<equiv> 469762101"
abbreviation (input) S2N_ERR_INVALID_KEM_PREFERENCES :: s2n_error where "S2N_ERR_INVALID_KEM_PREFERENCES \<equiv> 469762102"
abbreviation (input) S2N_ERR_ASYNC_ALREADY_PERFORMED :: s2n_error where "S2N_ERR_ASYNC_ALREADY_PERFORMED \<equiv> 469762103"
abbreviation (input) S2N_ERR_ASYNC_NOT_PERFORMED :: s2n_error where "S2N_ERR_ASYNC_NOT_PERFORMED \<equiv> 469762104"
abbreviation (input) S2N_ERR_ASYNC_WRONG_CONNECTION :: s2n_error where "S2N_ERR_ASYNC_WRONG_CONNECTION \<equiv> 469762105"
abbreviation (input) S2N_ERR_ASYNC_ALREADY_APPLIED :: s2n_error where "S2N_ERR_ASYNC_ALREADY_APPLIED \<equiv> 469762106"
abbreviation (input) S2N_ERR_UNSUPPORTED_WITH_QUIC :: s2n_error where "S2N_ERR_UNSUPPORTED_WITH_QUIC \<equiv> 469762107"
abbreviation (input) S2N_ERR_DUPLICATE_PSK_IDENTITIES :: s2n_error where "S2N_ERR_DUPLICATE_PSK_IDENTITIES \<equiv> 469762108"
abbreviation (input) S2N_ERR_OFFERED_PSKS_TOO_LONG :: s2n_error where "S2N_ERR_OFFERED_PSKS_TOO_LONG \<equiv> 469762109"
abbreviation (input) S2N_ERR_INVALID_SESSION_TICKET :: s2n_error where "S2N_ERR_INVALID_SESSION_TICKET \<equiv> 469762110"
abbreviation (input) S2N_ERR_REENTRANCY :: s2n_error where "S2N_ERR_REENTRANCY \<equiv> 469762111"
abbreviation (input) S2N_ERR_INVALID_STATE :: s2n_error where "S2N_ERR_INVALID_STATE \<equiv> 469762112"
abbreviation (input) S2N_ERR_EARLY_DATA_NOT_ALLOWED :: s2n_error where "S2N_ERR_EARLY_DATA_NOT_ALLOWED \<equiv> 469762113"
abbreviation (input) S2N_ERR_NO_CERT_FOUND :: s2n_error where "S2N_ERR_NO_CERT_FOUND \<equiv> 469762114"
abbreviation (input) S2N_ERR_CERT_NOT_VALIDATED :: s2n_error where "S2N_ERR_CERT_NOT_VALIDATED \<equiv> 469762115"
abbreviation (input) S2N_ERR_NO_PRIVATE_KEY :: s2n_error where "S2N_ERR_NO_PRIVATE_KEY \<equiv> 469762116"
abbreviation (input) S2N_ERR_PSK_MODE :: s2n_error where "S2N_ERR_PSK_MODE \<equiv> 469762117"
abbreviation (input) S2N_ERR_X509_EXTENSION_VALUE_NOT_FOUND :: s2n_error where "S2N_ERR_X509_EXTENSION_VALUE_NOT_FOUND \<equiv> 469762118"
abbreviation (input) S2N_ERR_INVALID_X509_EXTENSION_TYPE :: s2n_error where "S2N_ERR_INVALID_X509_EXTENSION_TYPE \<equiv> 469762119"
abbreviation (input) S2N_ERR_INSUFFICIENT_MEM_SIZE :: s2n_error where "S2N_ERR_INSUFFICIENT_MEM_SIZE \<equiv> 469762120"
abbreviation (input) S2N_ERR_KEYING_MATERIAL_EXPIRED :: s2n_error where "S2N_ERR_KEYING_MATERIAL_EXPIRED \<equiv> 469762121"
abbreviation (input) S2N_ERR_SECRET_SCHEDULE_STATE :: s2n_error where "S2N_ERR_SECRET_SCHEDULE_STATE \<equiv> 469762122"
abbreviation (input) S2N_ERR_CERT_OWNERSHIP :: s2n_error where "S2N_ERR_CERT_OWNERSHIP \<equiv> 469762123"
abbreviation (input) S2N_ERR_HANDSHAKE_NOT_COMPLETE :: s2n_error where "S2N_ERR_HANDSHAKE_NOT_COMPLETE \<equiv> 469762124"
abbreviation (input) S2N_ERR_KTLS_MANAGED_IO :: s2n_error where "S2N_ERR_KTLS_MANAGED_IO \<equiv> 469762125"
abbreviation (input) S2N_ERR_KTLS_UNSUPPORTED_PLATFORM :: s2n_error where "S2N_ERR_KTLS_UNSUPPORTED_PLATFORM \<equiv> 469762126"
abbreviation (input) S2N_ERR_KTLS_UNSUPPORTED_CONN :: s2n_error where "S2N_ERR_KTLS_UNSUPPORTED_CONN \<equiv> 469762127"
abbreviation (input) S2N_ERR_KTLS_ENABLE :: s2n_error where "S2N_ERR_KTLS_ENABLE \<equiv> 469762128"
abbreviation (input) S2N_ERR_KTLS_BAD_CMSG :: s2n_error where "S2N_ERR_KTLS_BAD_CMSG \<equiv> 469762129"
abbreviation (input) S2N_ERR_KTLS_RENEG :: s2n_error where "S2N_ERR_KTLS_RENEG \<equiv> 469762130"
abbreviation (input) S2N_ERR_ATOMIC :: s2n_error where "S2N_ERR_ATOMIC \<equiv> 469762131"
abbreviation (input) S2N_ERR_KTLS_KEY_LIMIT :: s2n_error where "S2N_ERR_KTLS_KEY_LIMIT \<equiv> 469762132"
abbreviation (input) S2N_ERR_SECURITY_POLICY_INCOMPATIBLE_CERT :: s2n_error where "S2N_ERR_SECURITY_POLICY_INCOMPATIBLE_CERT \<equiv> 469762133"
abbreviation (input) S2N_ERR_INVALID_SERIALIZED_CONNECTION :: s2n_error where "S2N_ERR_INVALID_SERIALIZED_CONNECTION \<equiv> 469762134"
abbreviation (input) S2N_ERR_TOO_MANY_CAS :: s2n_error where "S2N_ERR_TOO_MANY_CAS \<equiv> 469762135"
abbreviation (input) S2N_ERR_API_UNSUPPORTED_BY_LIBCRYPTO :: s2n_error where "S2N_ERR_API_UNSUPPORTED_BY_LIBCRYPTO \<equiv> 469762136"
abbreviation (input) S2N_ERR_FIPS_MODE_UNSUPPORTED :: s2n_error where "S2N_ERR_FIPS_MODE_UNSUPPORTED \<equiv> 469762137"

definition s2n_error_get_type :: "s2n_error \<Rightarrow> nat" where
  "s2n_error_get_type e = drop_bit S2N_ERR_NUM_VALUE_BITS e"

definition S2N_ERROR_IS_BLOCKING :: "s2n_error \<Rightarrow> bool" where
  "S2N_ERROR_IS_BLOCKING e = (s2n_error_get_type e = S2N_ERR_T_BLOCKED)"

lemma s2n_error_get_type_div: "s2n_error_get_type e = e div 67108864"
  by (simp add: s2n_error_get_type_def drop_bit_eq_div)

end
