(* ===== verification/Safety.thy ===== *)
theory Safety
  imports Errno
begin

text \<open>
  The arithmetic and constant-time helpers of \<open>utils/s2n_safety.c\<close>.

  Output parameters are returned; their \<open>POSIX_ENSURE_REF\<close> checks are about the caller's
  pointer and have no counterpart.  A pointer argument that the code itself may find to be
  \<open>NULL\<close> is an option.
\<close>

section \<open>Checked arithmetic\<close>

definition s2n_align_to :: "u32 \<Rightarrow> u32 \<Rightarrow> u32 result" where
  "s2n_align_to initial alignment =
     (if alignment = 0 then Inl (Err S2N_ERR_SAFETY)
      else if initial = 0 then Inr 0
      else let i = (ucast initial :: u64);
               a = (ucast alignment :: u64);
               res = a * ((i - 1) div a + 1)
           in if res \<le> 4294967295 then Inr (ucast res)
              else Inl (Err S2N_ERR_INTEGER_OVERFLOW))"

definition s2n_mul_overflow :: "u32 \<Rightarrow> u32 \<Rightarrow> u32 result" where
  "s2n_mul_overflow a b =
     (let res = (ucast a :: u64) * (ucast b :: u64)
      in if res \<le> 4294967295 then Inr (ucast res) else Inl (Err S2N_ERR_INTEGER_OVERFLOW))"

definition s2n_add_overflow :: "u32 \<Rightarrow> u32 \<Rightarrow> u32 result" where
  "s2n_add_overflow a b =
     (let res = (ucast a :: u64) + (ucast b :: u64)
      in if res \<le> 4294967295 then Inr (ucast res) else Inl (Err S2N_ERR_INTEGER_OVERFLOW))"

definition s2n_sub_overflow :: "u32 \<Rightarrow> u32 \<Rightarrow> u32 result" where
  "s2n_sub_overflow a b =
     (if a \<ge> b then Inr (a - b) else Inl (Err S2N_ERR_INTEGER_OVERFLOW))"


section \<open>Constant-time comparison and copy\<close>

text \<open>
  The loop of \<open>s2n_constant_time_equals\<close>: the pointers are positions in the buffers and advance
  by \<open>a_inc\<close> and \<open>b_inc\<close> (0 or 1); \<open>n\<close> is the number of iterations left.
\<close>

fun ct_equals_loop :: "bytes \<Rightarrow> nat \<Rightarrow> nat \<Rightarrow> bytes \<Rightarrow> nat \<Rightarrow> nat \<Rightarrow> nat \<Rightarrow> u8 \<Rightarrow> u8 result" where
  "ct_equals_loop a i a_inc b j b_inc 0 acc = Inr acc"
| "ct_equals_loop a i a_inc b j b_inc (Suc n) acc =
     (if i < length a \<and> j < length b
      then ct_equals_loop a (i + a_inc) a_inc b (j + b_inc) b_inc n (acc OR (a ! i XOR b ! j))
      else Inl Undefined)"

definition s2n_constant_time_equals :: "bytes option \<Rightarrow> bytes option \<Rightarrow> u32 \<Rightarrow> bool result" where
  "s2n_constant_time_equals a b len =
     (if len = 0 then Inr True
      else
        let a_inc = (if a \<noteq> None then 1 else 0);
            b_inc = (if b \<noteq> None then 1 else 0);
            standin = [0];
            a_ptr = (case a of Some m \<Rightarrow> m | None \<Rightarrow> standin);
            b_ptr = (case b of Some m \<Rightarrow> m | None \<Rightarrow> standin);
            acc = (if a_inc = (1::nat) \<and> b_inc = (1::nat) then 0 else 1)
        in (case ct_equals_loop a_ptr 0 a_inc b_ptr 0 b_inc (unat len) acc of
              Inl e \<Rightarrow> Inl e
            | Inr x \<Rightarrow> Inr (x = 0)))"

text \<open>
  The mask \<open>(((0xFFFF & x) - 1) >> 8) & 0xFF\<close> is computed on \<open>int\<close>, whose right shift is
  arithmetic.
\<close>

definition ct_mask :: "u8 \<Rightarrow> u8" where
  "ct_mask x = word_of_int (drop_bit 8 ((65535 AND uint x) - 1) AND 255)"

fun ct_copy_loop :: "bytes \<Rightarrow> bytes \<Rightarrow> u8 \<Rightarrow> nat \<Rightarrow> nat \<Rightarrow> bytes result" where
  "ct_copy_loop dest src msk i 0 = Inr dest"
| "ct_copy_loop dest src msk i (Suc n) =
     (if i < length dest \<and> i < length src
      then let old = dest ! i;
               diff = (old XOR src ! i) AND msk
           in ct_copy_loop (dest[i := old XOR diff]) src msk (Suc i) n
      else Inl Undefined)"

definition s2n_constant_time_copy_or_dont :: "bytes \<Rightarrow> bytes \<Rightarrow> u32 \<Rightarrow> u8 \<Rightarrow> bytes result" where
  "s2n_constant_time_copy_or_dont dest src len dont =
     ct_copy_loop dest src (ct_mask dont) 0 (unat len)"

text \<open>
  The scan of \<open>s2n_constant_time_pkcs1_unpad_or_dont\<close> over the padding string, from position
  \<open>i\<close> with \<open>n\<close> bytes left.
\<close>

fun pkcs1_scan :: "bytes \<Rightarrow> nat \<Rightarrow> nat \<Rightarrow> u8 \<Rightarrow> u8 result" where
  "pkcs1_scan src i 0 dont_copy = Inr dont_copy"
| "pkcs1_scan src i (Suc n) dont_copy =
     (if i < length src then pkcs1_scan src (Suc i) n (dont_copy OR ct_mask (src ! i))
      else Inl Undefined)"

definition s2n_constant_time_pkcs1_unpad_or_dont ::
    "bytes \<Rightarrow> bytes \<Rightarrow> u32 \<Rightarrow> u32 \<Rightarrow> bytes result" where
  "s2n_constant_time_pkcs1_unpad_or_dont dst src srclen expectlen =
     (if srclen < expectlen + 3 then Inr dst
      else
        let start = unat srclen - unat expectlen in
        if unat srclen \<le> length src \<and> 2 \<le> unat srclen \<and> 1 \<le> start
        then
          let dont_copy = (src ! 0 XOR 0) OR (src ! 1 XOR 2) OR (src ! (start - 1) XOR 0)
          in (case pkcs1_scan src 2 (unat (srclen - expectlen - 1) - 2) dont_copy of
                Inl e \<Rightarrow> Inl e
              | Inr dont \<Rightarrow>
                  s2n_constant_time_copy_or_dont dst (drop start src) expectlen dont)
        else Inl Undefined)"


section \<open>Properties\<close>

lemma unat_ucast_u32_u64 [simp]: "unat (ucast (x :: u32) :: u64) = unat x"
  using unat_u32_less [of x] by (intro unat_ucast_small) simp

lemma unat_ucast_u64_u32: "unat (x :: u64) \<le> UINT32_MAX \<Longrightarrow> unat (ucast x :: u32) = unat x"
  by (intro unat_ucast_small) simp

lemma s2n_add_overflow_spec:
  "s2n_add_overflow a b =
     (if unat a + unat b \<le> UINT32_MAX then Inr (a + b) else Inl (Err S2N_ERR_INTEGER_OVERFLOW))"
proof -
  have sum: "unat ((ucast a :: u64) + ucast b) = unat a + unat b"
    using unat_u32_less [of a] unat_u32_less [of b] by (intro trans [OF word_add_unat]) simp_all
  have "(ucast ((ucast a :: u64) + ucast b) :: u32) = a + b" if "unat a + unat b \<le> UINT32_MAX"
    using that sum by (intro word_unat_eqI) (simp add: unat_ucast_u64_u32 word_add_unat)
  then show ?thesis
    using sum by (simp add: s2n_add_overflow_def word_le_unat)
qed

lemma s2n_mul_overflow_spec:
  "s2n_mul_overflow a b =
     (if unat a * unat b \<le> UINT32_MAX then Inr (a * b) else Inl (Err S2N_ERR_INTEGER_OVERFLOW))"
proof -
  have "unat a * unat b < 4294967296 * 4294967296"
    using unat_u32_less [of a] unat_u32_less [of b] by (intro mult_strict_mono) simp_all
  then have prod: "unat ((ucast a :: u64) * ucast b) = unat a * unat b"
    by (simp add: unat_word_ariths)
  have "(ucast ((ucast a :: u64) * ucast b) :: u32) = a * b" if "unat a * unat b \<le> UINT32_MAX"
    using that prod by (intro word_unat_eqI) (simp add: unat_ucast_u64_u32 unat_word_ariths)
  then show ?thesis
    using prod by (simp add: s2n_mul_overflow_def word_le_unat)
qed

lemma s2n_sub_overflow_spec:
  "s2n_sub_overflow a b = Inr c \<longleftrightarrow> unat b \<le> unat a \<and> unat c = unat a - unat b"
  by (auto simp: s2n_sub_overflow_def word_le_unat word_sub_unat intro: word_unat_eqI)

text \<open>\<open>ceil_to a n\<close> is the least multiple of \<open>a\<close> that is at least \<open>n\<close>.\<close>

definition ceil_to :: "nat \<Rightarrow> nat \<Rightarrow> nat" where
  "ceil_to a n = a * ((n + a - 1) div a)"

lemma ceil_to_ge:
  assumes "0 < a"
  shows "n \<le> ceil_to a n"
proof -
  have "ceil_to a n = n + a - 1 - (n + a - 1) mod a"
    by (simp add: ceil_to_def minus_mod_eq_mult_div [symmetric])
  moreover have "(n + a - 1) mod a < a"
    using assms by simp
  ultimately show ?thesis
    by linarith
qed

lemma ceil_to_least:
  assumes "0 < a" and "n \<le> a * k"
  shows "ceil_to a n \<le> a * k"
proof -
  have "(n + a - 1) div a \<le> (a * k + a - 1) div a"
    using assms by (intro div_le_mono) simp
  also have "\<dots> = k"
    using assms(1) by (intro div_nat_eqI) (simp_all add: algebra_simps)
  finally show ?thesis
    by (simp add: ceil_to_def)
qed

lemma align_up_nat:
  fixes a i :: nat
  assumes "0 < a" and "0 < i"
  shows "a * ((i - 1) div a + 1) = ceil_to a i"
proof -
  have eq: "i + a - 1 = i - 1 + a"
    using assms by simp
  have "(i - 1 + a) div a = (i - 1) div a + 1"
    using assms(1) by (intro div_add_self2) simp
  then show ?thesis
    unfolding ceil_to_def eq by (simp only:)
qed

lemma s2n_align_to_eq:
  assumes "alignment \<noteq> 0"
  shows "s2n_align_to initial alignment =
     (if ceil_to (unat alignment) (unat initial) \<le> UINT32_MAX
      then Inr (of_nat (ceil_to (unat alignment) (unat initial)))
      else Inl (Err S2N_ERR_INTEGER_OVERFLOW))"
proof (cases "initial = 0")
  case True
  have "(unat alignment - 1) div unat alignment = 0"
    using assms by (simp add: unat_gt_0)
  with True assms show ?thesis
    by (simp add: s2n_align_to_def ceil_to_def)
next
  case False
  let ?i = "unat initial" and ?a = "unat alignment"
  have pos: "0 < ?i" "0 < ?a"
    using False assms by (simp_all add: unat_gt_0)
  let ?q = "(ucast initial - 1) div (ucast alignment :: u64) + 1"
  have i1: "unat ((ucast initial :: u64) - 1) = ?i - 1"
    using pos by (subst word_sub_unat) (simp_all add: word_le_unat)
  have q: "unat ?q = (?i - 1) div ?a + 1"
  proof -
    have "(?i - 1) div ?a < 4294967296"
      using unat_u32_less [of initial] by (meson div_le_dividend diff_le_self le_less_trans)
    then show ?thesis
      by (subst word_add_unat) (simp_all add: unat_div i1)
  qed
  have bound: "?a * ((?i - 1) div ?a + 1) < 18446744073709551616"
  proof -
    have "?a * ((?i - 1) div ?a) \<le> ?i - 1"
      by (simp add: mult.commute)
    then show ?thesis
      unfolding distrib_left using unat_u32_less [of initial] unat_u32_less [of alignment]
      by linarith
  qed
  have res: "unat ((ucast alignment :: u64) * ?q) = ceil_to ?a ?i"
    using bound by (subst word_mult_unat)
      (simp_all only: q unat_ucast_u32_u64 align_up_nat [OF pos(2) pos(1)], simp)
  have "(ucast ((ucast alignment :: u64) * ?q) :: u32) = of_nat (ceil_to ?a ?i)"
    if "ceil_to ?a ?i \<le> UINT32_MAX"
    using that res by (intro word_unat_eqI) (simp add: unat_ucast_u64_u32)
  then show ?thesis
    using False assms res by (simp add: s2n_align_to_def word_le_unat Let_def)
qed

subsection \<open>The constant-time loops\<close>

lemma ct_mask_eq: "ct_mask x = (if x = 0 then 255 else 0)"
proof (cases "x = 0")
  case True
  then show ?thesis
    by (simp add: ct_mask_def)
next
  case False
  then have pos: "1 \<le> uint x"
    by (metis add_0 linorder_not_less uint_ge_0 unsigned_0 unsigned_eq_0_iff zless_add1_eq zle_add1_eq_le)
  have bound: "uint x < 256"
    using uint_lt2p [of x] by simp
  have "65535 AND uint x = uint x"
  proof -
    have "take_bit 16 (uint x) = uint x"
      using bound pos by (simp add: take_bit_int_eq_self)
    then show ?thesis
      by (simp add: take_bit_eq_mask mask_eq_exp_minus_1 and.commute)
  qed
  moreover have "drop_bit 8 (uint x - 1) = 0"
    using pos bound by (simp add: drop_bit_eq_div)
  ultimately show ?thesis
    using False by (simp add: ct_mask_def)
qed

lemma ct_equals_loop_eq:
  assumes "i + n \<le> length a" and "j + n \<le> length b"
  shows "\<exists>r. ct_equals_loop a i 1 b j 1 n acc = Inr r
             \<and> (r = 0 \<longleftrightarrow> acc = 0 \<and> take n (drop i a) = take n (drop j b))"
  using assms
proof (induction n arbitrary: i j acc)
  case 0
  then show ?case by simp
next
  case (Suc n)
  then have ij: "i < length a" "j < length b"
    by simp_all
  obtain r where r: "ct_equals_loop a (i + 1) 1 b (j + 1) 1 n (acc OR (a ! i XOR b ! j)) = Inr r"
    "r = 0 \<longleftrightarrow> acc OR (a ! i XOR b ! j) = 0 \<and> take n (drop (i + 1) a) = take n (drop (j + 1) b)"
    using Suc.IH [of "i + 1" "j + 1" "acc OR (a ! i XOR b ! j)"] Suc.prems by auto
  have "acc OR (a ! i XOR b ! j) = 0 \<longleftrightarrow> acc = 0 \<and> a ! i = b ! j"
    by (simp add: or_eq_0_iff xor_eq_zero_iff)
  then show ?case
    using r ij by (auto simp: Cons_nth_drop_Suc [symmetric])
qed

lemma ct_equals_loop_nonzero:
  assumes "ct_equals_loop a i a_inc b j b_inc n acc = Inr r" and "acc \<noteq> 0"
  shows "r \<noteq> 0"
  using assms
  by (induction a i a_inc b j b_inc n acc rule: ct_equals_loop.induct)
    (auto simp: or_eq_0_iff split: if_splits)

lemma ct_copy_loop_copy:
  assumes "i + n \<le> length dest" and "i + n \<le> length src"
  shows "ct_copy_loop dest src 255 i n =
           Inr (take i dest @ take n (drop i src) @ drop (i + n) dest)"
  using assms
proof (induction n arbitrary: i dest)
  case 0
  then show ?case by simp
next
  case (Suc n)
  have byte: "d XOR ((d XOR s) AND 255) = s" for d s :: u8
  proof -
    have "(255 :: u8) = -1"
      by simp
    then have "(d XOR s) AND 255 = d XOR s"
      by (simp only: and.right_neutral)
    then show ?thesis
      by (simp flip: xor.assoc)
  qed
  have "ct_copy_loop dest src 255 i (Suc n) = ct_copy_loop (dest[i := src ! i]) src 255 (Suc i) n"
    using Suc.prems by (simp add: byte)
  also have "\<dots> = Inr (take (Suc i) (dest[i := src ! i]) @ take n (drop (Suc i) src)
                       @ drop (Suc i + n) (dest[i := src ! i]))"
    using Suc.prems by (intro Suc.IH) simp_all
  also have "take (Suc i) (dest[i := src ! i]) = take i dest @ [src ! i]"
    using Suc.prems by (simp add: take_Suc_conv_app_nth)
  also have "drop (Suc i + n) (dest[i := src ! i]) = drop (i + Suc n) dest"
    by simp
  finally show ?case
    using Suc.prems by (simp add: Cons_nth_drop_Suc [symmetric])
qed

lemma ct_copy_loop_keep:
  assumes "i + n \<le> length dest" and "i + n \<le> length src"
  shows "ct_copy_loop dest src 0 i n = Inr dest"
  using assms by (induction n arbitrary: i) simp_all

lemma pkcs1_scan_eq:
  assumes "i + n \<le> length src"
  shows "\<exists>r. pkcs1_scan src i n acc = Inr r
             \<and> (r = 0 \<longleftrightarrow> acc = 0 \<and> (\<forall>b \<in> set (take n (drop i src)). b \<noteq> 0))"
  using assms
proof (induction n arbitrary: i acc)
  case 0
  then show ?case by simp
next
  case (Suc n)
  then have "i < length src"
    by simp
  moreover obtain r where "pkcs1_scan src (Suc i) n (acc OR ct_mask (src ! i)) = Inr r"
    "r = 0 \<longleftrightarrow> acc OR ct_mask (src ! i) = 0 \<and> (\<forall>b \<in> set (take n (drop (Suc i) src)). b \<noteq> 0)"
    using Suc.IH [of "Suc i" "acc OR ct_mask (src ! i)"] Suc.prems by auto
  ultimately show ?case
    by (auto simp: Cons_nth_drop_Suc [symmetric] or_eq_0_iff ct_mask_eq)
qed

lemma ct_equals_loop_defined:
  assumes "n = 0 \<or> i + a_inc * (n - 1) < length a" and "n = 0 \<or> j + b_inc * (n - 1) < length b"
  shows "\<exists>r. ct_equals_loop a i a_inc b j b_inc n acc = Inr r"
  using assms
proof (induction n arbitrary: i j acc)
  case 0
  then show ?case by simp
next
  case (Suc n)
  have "n = 0 \<or> i + a_inc + a_inc * (n - 1) < length a"
    "n = 0 \<or> j + b_inc + b_inc * (n - 1) < length b"
    using Suc.prems by (cases n; simp add: algebra_simps)+
  moreover have "i < length a" "j < length b"
    using Suc.prems by simp_all
  ultimately show ?case
    using Suc.IH by simp
qed

definition readable :: "bytes option \<Rightarrow> nat \<Rightarrow> bool" where
  "readable p n = (case p of None \<Rightarrow> True | Some m \<Rightarrow> n \<le> length m)"

definition pkcs1_padded :: "bytes \<Rightarrow> nat \<Rightarrow> nat \<Rightarrow> bool" where
  "pkcs1_padded src srclen expectlen \<longleftrightarrow>
     expectlen + 3 \<le> srclen \<and> src ! 0 = 0 \<and> src ! 1 = 2 \<and> src ! (srclen - expectlen - 1) = 0 \<and>
     (\<forall>b \<in> set (take (srclen - expectlen - 3) (drop 2 src)). b \<noteq> 0)"


lemma constant_time_equals_some:
  assumes "unat len \<le> length x" and "unat len \<le> length y"
  shows "s2n_constant_time_equals (Some x) (Some y) len = Inr (take (unat len) x = take (unat len) y)"
  using assms ct_equals_loop_eq [of 0 "unat len" x 0 y 0]
  by (cases "len = 0") (auto simp: s2n_constant_time_equals_def)


section \<open>Claims\<close>

text \<open>
  C13. \<open>s2n_constant_time_equals\<close> decides equality.  For every length and every pair of buffers
  that are either \<open>NULL\<close> or hold \<open>len\<close> bytes, the accumulated difference is zero exactly when
  \<open>len\<close> is zero or both buffers are present and agree on their first \<open>len\<close> bytes; no byte
  outside the buffers is read, also when one of them is \<open>NULL\<close> and replaced by the stand-in.
\<close>
theorem s2n_constant_time_equals_correct:
  assumes "readable a (unat len)" and "readable b (unat len)"
  shows "s2n_constant_time_equals a b len =
    Inr (len = 0 \<or> (\<exists>x y. a = Some x \<and> b = Some y \<and> take (unat len) x = take (unat len) y))"
proof (cases "len = 0 \<or> a = None \<or> b = None")
  case False
  then obtain x y where xy: "a = Some x" "b = Some y" and "len \<noteq> 0"
    by auto
  then show ?thesis
    using assms by (simp add: readable_def constant_time_equals_some)
next
  case True
  show ?thesis
  proof (cases "len = 0")
    case True
    then show ?thesis by (simp add: s2n_constant_time_equals_def)
  next
    case False
    let ?a = "case a of None \<Rightarrow> [0] | Some m \<Rightarrow> m" and ?b = "case b of None \<Rightarrow> [0] | Some m \<Rightarrow> m"
    let ?ai = "if a \<noteq> None then 1 else 0" and ?bi = "if b \<noteq> None then 1 else 0"
    have pos: "0 < unat len"
      using False by (simp add: unat_gt_0)
    have "?ai * (unat len - 1) < length ?a" "?bi * (unat len - 1) < length ?b"
      using assms pos by (auto simp: readable_def split: option.splits)
    then obtain r where r: "ct_equals_loop ?a 0 ?ai ?b 0 ?bi (unat len) 1 = Inr r"
      using ct_equals_loop_defined [of "unat len" 0 ?ai ?a 0 ?bi ?b 1] by auto
    then have "r \<noteq> 0"
      by (rule ct_equals_loop_nonzero) simp
    with r True False show ?thesis
      by (auto simp: s2n_constant_time_equals_def Let_def split: option.splits if_splits)
  qed
qed

lemma s2n_constant_time_equals_witness:
  "readable (Some [1, 2, 3]) (unat (2 :: u32)) \<and> readable (Some [1, 2, 4]) (unat (2 :: u32)) \<and>
   s2n_constant_time_equals (Some [1, 2, 3]) (Some [1, 2, 4]) 2 = Inr True"
  using s2n_constant_time_equals_correct [of "Some [1, 2, 3]" 2 "Some [1, 2, 4]"]
  by (simp add: readable_def)

text \<open>
  C14. \<open>s2n_constant_time_pkcs1_unpad_or_dont\<close> copies the last \<open>expectlen\<close> bytes of \<open>src\<close> to
  \<open>dst\<close> exactly when \<open>src\<close> carries well-formed PKCS#1 v1.5 encryption padding of the right
  length, and otherwise leaves \<open>dst\<close> as it was, with every access inside the two buffers.
  The hypothesis \<open>expectlen + 3 \<le> UINT32_MAX\<close> says that the length check itself does not wrap.
\<close>
theorem s2n_constant_time_pkcs1_unpad_correct:
  assumes "unat expectlen + 3 \<le> UINT32_MAX"
    and "unat srclen \<le> length src" and "unat expectlen \<le> length dst"
  shows "s2n_constant_time_pkcs1_unpad_or_dont dst src srclen expectlen =
    Inr (if pkcs1_padded src (unat srclen) (unat expectlen)
         then take (unat expectlen) (drop (unat srclen - unat expectlen) src) @ drop (unat expectlen) dst
         else dst)"
proof -
  let ?s = "unat srclen" and ?e = "unat expectlen"
  have e3: "unat (expectlen + 3) = ?e + 3"
    using assms(1) by (subst word_add_unat) simp_all
  show ?thesis
  proof (cases "?s < ?e + 3")
    case True
    then show ?thesis
      by (simp add: s2n_constant_time_pkcs1_unpad_or_dont_def word_less_unat e3 pkcs1_padded_def)
  next
    case False
    have len: "unat (srclen - expectlen - 1) = ?s - ?e - 1"
      using False by (simp add: word_sub_unat word_le_unat)
    let ?acc = "(src ! 0 XOR 0) OR (src ! 1 XOR 2) OR (src ! (?s - ?e - 1) XOR 0)"
    have "2 + (?s - ?e - 1 - 2) \<le> length src"
      using assms(2) False by linarith
    from pkcs1_scan_eq [OF this, of ?acc]
    obtain r where r: "pkcs1_scan src 2 (?s - ?e - 1 - 2) ?acc = Inr r"
      "r = 0 \<longleftrightarrow> ?acc = 0 \<and> (\<forall>b \<in> set (take (?s - ?e - 1 - 2) (drop 2 src)). b \<noteq> 0)"
      by blast
    have one: "Suc 0 \<le> ?s - ?e"
      using False by linarith
    have valid: "r = 0 \<longleftrightarrow> pkcs1_padded src ?s ?e"
      using r(2) False by (simp add: pkcs1_padded_def or_eq_0_iff xor_eq_zero_iff numeral_3_eq_3)
    have "s2n_constant_time_pkcs1_unpad_or_dont dst src srclen expectlen =
        ct_copy_loop dst (drop (?s - ?e) src) (ct_mask r) 0 ?e"
      using False assms(2) r(1) one
      by (simp add: s2n_constant_time_pkcs1_unpad_or_dont_def s2n_constant_time_copy_or_dont_def
          word_less_unat e3 len Let_def)
    then show ?thesis
      using valid assms(2,3) False
      by (simp add: ct_mask_eq ct_copy_loop_copy ct_copy_loop_keep)
  qed
qed

lemma s2n_constant_time_pkcs1_unpad_witness:
  "unat (2 :: u32) + 3 \<le> UINT32_MAX \<and>
   s2n_constant_time_pkcs1_unpad_or_dont [9, 9, 9] [0, 2, 7, 8, 0, 5, 6] 7 2 = Inr [5, 6, 9] \<and>
   s2n_constant_time_pkcs1_unpad_or_dont [9, 9, 9] [0, 2, 7, 0, 0, 5, 6] 7 2 = Inr [9, 9, 9]"
  using s2n_constant_time_pkcs1_unpad_correct [of 2 7 "[0, 2, 7, 8, 0, 5, 6]" "[9, 9, 9]"]
    s2n_constant_time_pkcs1_unpad_correct [of 2 7 "[0, 2, 7, 0, 0, 5, 6]" "[9, 9, 9]"]
  by (simp add: pkcs1_padded_def)

text \<open>
  \<open>s2n_align_to\<close> rounds up without ever wrapping: for a non-zero alignment it succeeds
  exactly when some multiple of the alignment that is at least \<open>initial\<close> fits in 32 bits, and
  then returns the least such multiple; otherwise it reports an integer overflow.
\<close>
theorem s2n_align_to_correct:
  assumes "alignment \<noteq> 0"
  shows "case s2n_align_to initial alignment of
      Inr out \<Rightarrow> unat alignment dvd unat out \<and> initial \<le> out \<and>
        (\<forall>k. unat initial \<le> unat alignment * k \<longrightarrow> unat out \<le> unat alignment * k)
    | Inl e \<Rightarrow> e = Err S2N_ERR_INTEGER_OVERFLOW \<and>
        (\<forall>k. unat initial \<le> unat alignment * k \<longrightarrow> UINT32_MAX < unat alignment * k)"
proof -
  have pos: "0 < unat alignment"
    using assms by (simp add: unat_gt_0)
  let ?c = "ceil_to (unat alignment) (unat initial)"
  have "unat alignment dvd ?c"
    by (simp add: ceil_to_def)
  then show ?thesis
    using pos ceil_to_ge [OF pos, of "unat initial"] ceil_to_least [OF pos, of "unat initial"]
    by (auto simp: s2n_align_to_eq [OF assms] word_le_unat) (meson le_less_trans not_le)
qed

lemma s2n_align_to_witness:
  "(4096 :: u32) \<noteq> 0 \<and> s2n_align_to 4097 4096 = Inr 8192 \<and>
   (case s2n_align_to 4097 4096 of Inr out \<Rightarrow> unat (4096 :: u32) dvd unat out | Inl e \<Rightarrow> False)"
proof -
  have "s2n_align_to 4097 4096 = Inr 8192"
    by (simp add: s2n_align_to_def)
  then show ?thesis
    using s2n_align_to_correct [of 4096 4097] by simp
qed

end
