(* ===== verification/Mem.thy ===== *)
theory Mem
  imports Safety
begin

text \<open>
  Blobs (\<open>utils/s2n_blob.c\<close>) and the allocator (\<open>utils/s2n_mem.c\<close>).

  A blob carries the bytes its data pointer leads to (\<open>None\<close> for \<open>NULL\<close>).  The allocator state
  holds the static variables of \<open>s2n_mem.c\<close>; the operating system (\<open>malloc\<close>,
  \<open>posix_memalign\<close>, \<open>madvise\<close>, \<open>mlock\<close>, \<open>sysconf\<close>, the environment) and callbacks supplied by
  the application are parameters, indexed by a call counter so that two calls may answer
  differently.  The ghost field \<open>freed\<close> records the contents of every region at the moment it
  is handed to the free callback, together with the size passed along.

  The \<open>*_validate\<close> functions only test for \<open>NULL\<close> in a release build; their debug conditions
  are the predicate \<open>s2n_blob_validate\<close>, proved to be kept by every operation.
\<close>

section \<open>Blobs\<close>

record s2n_blob =
  b_data :: "bytes option"
  b_size :: u32
  b_allocated :: u32
  b_growable :: bool

definition empty_blob :: s2n_blob where
  "empty_blob = \<lparr>b_data = None, b_size = 0, b_allocated = 0, b_growable = False\<rparr>"

definition s2n_mem_is_readable :: "bytes option \<Rightarrow> u32 \<Rightarrow> bool" where
  "s2n_mem_is_readable p n \<longleftrightarrow> n = 0 \<or> p \<noteq> None"

definition s2n_blob_validate :: "s2n_blob \<Rightarrow> bool" where
  "s2n_blob_validate b \<longleftrightarrow>
     (b_data b = None \<longrightarrow> b_size b = 0) \<and>
     (b_data b = None \<longrightarrow> b_allocated b = 0) \<and>
     (\<not> b_growable b \<longrightarrow> b_allocated b = 0) \<and>
     (b_growable b \<longrightarrow> b_allocated b > 0 \<or> b_size b = 0) \<and>
     (b_growable b \<longrightarrow> b_size b \<le> b_allocated b) \<and>
     s2n_mem_is_readable (b_data b) (b_allocated b) \<and>
     s2n_mem_is_readable (b_data b) (b_size b)"

definition s2n_blob_init :: "bytes option \<Rightarrow> u32 \<Rightarrow> s2n_blob result" where
  "s2n_blob_init data sz =
     (if s2n_mem_is_readable data sz
      then Inr \<lparr>b_data = data, b_size = sz, b_allocated = 0, b_growable = False\<rparr>
      else Inl (Err S2N_ERR_SAFETY))"

text \<open>\<open>POSIX_CHECKED_MEMSET\<close> and \<open>POSIX_CHECKED_MEMCPY\<close>: nothing happens for length zero, a
  \<open>NULL\<close> pointer is an error, and an access past the region is undefined.\<close>

definition checked_memset :: "bytes option \<Rightarrow> u8 \<Rightarrow> nat \<Rightarrow> (bytes option) result" where
  "checked_memset d c n =
     (if n = 0 then Inr d
      else case d of
        None \<Rightarrow> Inl (Err S2N_ERR_NULL)
      | Some m \<Rightarrow> if n \<le> length m then Inr (Some (replicate n c @ drop n m)) else Inl Undefined)"

definition checked_memcpy :: "bytes option \<Rightarrow> nat \<Rightarrow> bytes option \<Rightarrow> nat \<Rightarrow> nat \<Rightarrow> (bytes option) result" where
  "checked_memcpy d doff src soff n =
     (if n = 0 then Inr d
      else case (d, src) of
        (Some m, Some x) \<Rightarrow>
          (case mem_read x soff n of
             None \<Rightarrow> Inl Undefined
           | Some bs \<Rightarrow> (case mem_write m doff bs of None \<Rightarrow> Inl Undefined | Some m' \<Rightarrow> Inr (Some m')))
      | _ \<Rightarrow> Inl (Err S2N_ERR_NULL))"

definition s2n_blob_zero :: "(s2n_blob, unit) action" where
  "s2n_blob_zero b =
     (case checked_memset (b_data b) 0 (unat (max (b_allocated b) (b_size b))) of
        Inl e \<Rightarrow> (Inl e, b)
      | Inr d \<Rightarrow> (Inr (), b\<lparr>b_data := d\<rparr>))"

text \<open>The slice shares the memory of \<open>b\<close>; it is a view that starts at the offset.\<close>

definition s2n_blob_slice :: "s2n_blob \<Rightarrow> u32 \<Rightarrow> u32 \<Rightarrow> s2n_blob result" where
  "s2n_blob_slice b off sz =
     (case s2n_add_overflow off sz of
        Inl e \<Rightarrow> Inl e
      | Inr slice_size \<Rightarrow>
          if b_size b \<ge> slice_size
          then Inr \<lparr>b_data = map_option (drop (unat off)) (b_data b), b_size = sz,
                    b_allocated = 0, b_growable = False\<rparr>
          else Inl (Err S2N_ERR_SIZE_MISMATCH))"

definition slice_write_back :: "s2n_blob \<Rightarrow> u32 \<Rightarrow> s2n_blob \<Rightarrow> s2n_blob" where
  "slice_write_back b off slc =
     (case (b_data b, b_data slc) of
        (Some m, Some d) \<Rightarrow> b\<lparr>b_data := Some (take (unat off) m @ d)\<rparr>
      | _ \<Rightarrow> b)"

definition tolower :: "u8 \<Rightarrow> u8" where
  "tolower c = (if 65 \<le> c \<and> c \<le> 90 then c + 32 else c)"

fun lower_loop :: "bytes \<Rightarrow> nat \<Rightarrow> nat \<Rightarrow> bytes result" where
  "lower_loop m i 0 = Inr m"
| "lower_loop m i (Suc n) =
     (if i < length m then lower_loop (m[i := tolower (m ! i)]) (Suc i) n else Inl Undefined)"

definition s2n_blob_char_to_lower :: "(s2n_blob, unit) action" where
  "s2n_blob_char_to_lower b =
     (if b_size b = 0 then (Inr (), b)
      else case b_data b of
        None \<Rightarrow> (Inl Undefined, b)
      | Some m \<Rightarrow>
          (case lower_loop m 0 (unat (b_size b)) of
             Inl e \<Rightarrow> (Inl e, b)
           | Inr m' \<Rightarrow> (Inr (), b\<lparr>b_data := Some m'\<rparr>)))"


section \<open>The allocator\<close>

record s2n_os =
  os_malloc :: "nat \<Rightarrow> u32 \<Rightarrow> bytes option"
  os_memalign :: "nat \<Rightarrow> u32 \<Rightarrow> u32 \<Rightarrow> (bytes option) option"
  os_madvise_ok :: "nat \<Rightarrow> bool"
  os_mlock_ok :: "nat \<Rightarrow> bool"
  os_pagesize :: int
  os_dont_mlock :: bool

datatype init_cb = Init_impl | App_init bool
datatype cleanup_cb = Cleanup_impl | App_cleanup bool
datatype malloc_cb = Malloc_mlock_impl | Malloc_no_mlock_impl
  | App_malloc "nat \<Rightarrow> u32 \<Rightarrow> s2n_error + (bytes option \<times> u32)"
datatype free_cb = Free_mlock_impl | Free_no_mlock_impl | App_free "bytes \<Rightarrow> u32 \<Rightarrow> bool"

record s2n_mem =
  page_size :: u32
  initialized :: bool
  s2n_mem_init_cb :: init_cb
  s2n_mem_cleanup_cb :: cleanup_cb
  s2n_mem_malloc_cb :: malloc_cb
  s2n_mem_free_cb :: free_cb
  os :: s2n_os
  calls :: nat
  freed :: "(bytes \<times> u32) list"

definition s2n_mem_statics :: "s2n_os \<Rightarrow> s2n_mem" where
  "s2n_mem_statics env =
     \<lparr>page_size = 4096, initialized = False, s2n_mem_init_cb = Init_impl,
      s2n_mem_cleanup_cb = Cleanup_impl, s2n_mem_malloc_cb = Malloc_mlock_impl,
      s2n_mem_free_cb = Free_mlock_impl, os = env, calls = 0, freed = []\<rparr>"

definition s2n_mem_init_impl :: "(s2n_mem, unit) action" where
  "s2n_mem_init_impl mem =
     (let sysconf_rc = os_pagesize (os mem) in
      if \<not> sysconf_rc > 0 then (Inl (Err S2N_ERR_SAFETY), mem)
      else if \<not> sysconf_rc \<le> 4294967295 then (Inl (Err S2N_ERR_SAFETY), mem)
      else
        let mem = mem\<lparr>page_size := word_of_int sysconf_rc\<rparr> in
        (Inr (), if os_dont_mlock (os mem)
                 then mem\<lparr>s2n_mem_malloc_cb := Malloc_no_mlock_impl,
                          s2n_mem_free_cb := Free_no_mlock_impl\<rparr>
                 else mem))"

definition s2n_mem_cleanup_impl :: "(s2n_mem, unit) action" where
  "s2n_mem_cleanup_impl mem =
     (Inr (), mem\<lparr>page_size := 4096, s2n_mem_malloc_cb := Malloc_no_mlock_impl,
                  s2n_mem_free_cb := Free_no_mlock_impl\<rparr>)"

definition s2n_mem_free_mlock_impl :: "bytes \<Rightarrow> u32 \<Rightarrow> (s2n_mem, unit) action" where
  "s2n_mem_free_mlock_impl p sz mem = (Inr (), mem\<lparr>freed := (p, sz) # freed mem\<rparr>)"

definition s2n_mem_free_no_mlock_impl :: "bytes \<Rightarrow> u32 \<Rightarrow> (s2n_mem, unit) action" where
  "s2n_mem_free_no_mlock_impl p sz mem = (Inr (), mem\<lparr>freed := (p, sz) # freed mem\<rparr>)"

definition free_maybe :: "bytes option \<Rightarrow> u32 \<Rightarrow> s2n_mem \<Rightarrow> s2n_mem" where
  "free_maybe p sz mem =
     (case p of None \<Rightarrow> mem | Some m \<Rightarrow> snd (s2n_mem_free_no_mlock_impl m sz mem))"

definition s2n_mem_malloc_mlock_impl :: "u32 \<Rightarrow> (s2n_mem, bytes option \<times> u32) action" where
  "s2n_mem_malloc_mlock_impl requested mem =
     (case s2n_align_to requested (page_size mem) of
        Inl e \<Rightarrow> (Inl e, mem)
      | Inr allocate \<Rightarrow>
          let n = calls mem; sys = os mem; mem = mem\<lparr>calls := Suc n\<rparr> in
          (case os_memalign sys n (page_size mem) allocate of
             None \<Rightarrow> (Inl (Err S2N_ERR_ALLOC), mem)
           | Some p \<Rightarrow>
               if \<not> os_madvise_ok sys n
               then (Inl (Err S2N_ERR_MADVISE), free_maybe p allocate mem)
               else if \<not> os_mlock_ok sys n
               then (Inl (Err S2N_ERR_MLOCK), free_maybe p allocate mem)
               else if p = None then (Inl (Err S2N_ERR_ALLOC), mem)
               else (Inr (p, allocate), mem)))"

definition s2n_mem_malloc_no_mlock_impl :: "u32 \<Rightarrow> (s2n_mem, bytes option \<times> u32) action" where
  "s2n_mem_malloc_no_mlock_impl requested mem =
     (let n = calls mem; p = os_malloc (os mem) n requested; mem = mem\<lparr>calls := Suc n\<rparr> in
      if p = None then (Inl (Err S2N_ERR_ALLOC), mem) else (Inr (p, requested), mem))"

text \<open>Calls through the function pointers.\<close>

definition call_malloc :: "u32 \<Rightarrow> (s2n_mem, bytes option \<times> u32) action" where
  "call_malloc sz mem =
     (case s2n_mem_malloc_cb mem of
        Malloc_mlock_impl \<Rightarrow> s2n_mem_malloc_mlock_impl sz mem
      | Malloc_no_mlock_impl \<Rightarrow> s2n_mem_malloc_no_mlock_impl sz mem
      | App_malloc f \<Rightarrow>
          (map_sum Err id (f (calls mem) sz), mem\<lparr>calls := Suc (calls mem)\<rparr>))"

definition call_free :: "bytes \<Rightarrow> u32 \<Rightarrow> s2n_mem \<Rightarrow> bool \<times> s2n_mem" where
  "call_free p sz mem =
     (case s2n_mem_free_cb mem of
        Free_mlock_impl \<Rightarrow> (True, snd (s2n_mem_free_mlock_impl p sz mem))
      | Free_no_mlock_impl \<Rightarrow> (True, snd (s2n_mem_free_no_mlock_impl p sz mem))
      | App_free f \<Rightarrow> (f p sz, mem\<lparr>freed := (p, sz) # freed mem\<rparr>))"

definition s2n_mem_override_callbacks ::
  "init_cb option \<Rightarrow> cleanup_cb option \<Rightarrow> malloc_cb option \<Rightarrow> free_cb option \<Rightarrow>
   (s2n_mem, unit) action" where
  "s2n_mem_override_callbacks i c m f mem =
     (case (i, c, m, f) of
        (Some i, Some c, Some m, Some f) \<Rightarrow>
          (Inr (), mem\<lparr>s2n_mem_init_cb := i, s2n_mem_cleanup_cb := c,
                       s2n_mem_malloc_cb := m, s2n_mem_free_cb := f\<rparr>)
      | _ \<Rightarrow> (Inl (Err S2N_ERR_NULL), mem))"

definition s2n_mem_set_callbacks ::
  "init_cb option \<Rightarrow> cleanup_cb option \<Rightarrow> malloc_cb option \<Rightarrow> free_cb option \<Rightarrow>
   (s2n_mem, unit) action" where
  "s2n_mem_set_callbacks i c m f =
     andthen (ensure_st (\<lambda>mem. \<not> initialized mem) S2N_ERR_INITIALIZED)
       (s2n_mem_override_callbacks i c m f)"

definition s2n_mem_get_callbacks :: "s2n_mem \<Rightarrow> init_cb \<times> cleanup_cb \<times> malloc_cb \<times> free_cb" where
  "s2n_mem_get_callbacks mem =
     (s2n_mem_init_cb mem, s2n_mem_cleanup_cb mem, s2n_mem_malloc_cb mem, s2n_mem_free_cb mem)"

definition s2n_mem_init :: "(s2n_mem, unit) action" where
  "s2n_mem_init mem =
     (case (case s2n_mem_init_cb mem of
              Init_impl \<Rightarrow> s2n_mem_init_impl mem
            | App_init ok \<Rightarrow> (if ok then Inr () else Inl (Err 0), mem)) of
        (Inl _, mem) \<Rightarrow> (Inl (Err S2N_ERR_CANCELLED), mem)
      | (Inr _, mem) \<Rightarrow> (Inr (), mem\<lparr>initialized := True\<rparr>))"

definition s2n_mem_is_init :: "s2n_mem \<Rightarrow> bool" where
  "s2n_mem_is_init mem = initialized mem"

definition s2n_mem_get_page_size :: "s2n_mem \<Rightarrow> u32" where
  "s2n_mem_get_page_size mem = page_size mem"

definition s2n_mem_cleanup :: "(s2n_mem, unit) action" where
  "s2n_mem_cleanup mem =
     (if \<not> initialized mem then (Inl (Err S2N_ERR_NOT_INITIALIZED), mem)
      else case (case s2n_mem_cleanup_cb mem of
                   Cleanup_impl \<Rightarrow> s2n_mem_cleanup_impl mem
                 | App_cleanup ok \<Rightarrow> (if ok then Inr () else Inl (Err 0), mem)) of
        (Inl _, mem) \<Rightarrow> (Inl (Err S2N_ERR_CANCELLED), mem)
      | (Inr _, mem) \<Rightarrow> (Inr (), mem\<lparr>initialized := False\<rparr>))"


section \<open>Allocation of blobs\<close>

definition s2n_blob_is_growable :: "s2n_blob \<Rightarrow> bool" where
  "s2n_blob_is_growable b \<longleftrightarrow>
     b_growable b \<or> (b_data b = None \<and> b_size b = 0 \<and> b_allocated b = 0)"

type_synonym mem_blob = "s2n_mem \<times> s2n_blob"

definition s2n_free_without_wipe :: "(mem_blob, unit) action" where
  "s2n_free_without_wipe = (\<lambda>(mem, b).
     if \<not> initialized mem then (Inl (Err S2N_ERR_NOT_INITIALIZED), (mem, b))
     else if \<not> s2n_blob_is_growable b then (Inl (Err S2N_ERR_FREE_STATIC_BLOB), (mem, b))
     else case b_data b of
       None \<Rightarrow> (Inr (), (mem, empty_blob))
     | Some m \<Rightarrow>
         (case call_free m (b_allocated b) mem of
            (False, mem) \<Rightarrow> (Inl (Err S2N_ERR_CANCELLED), (mem, b))
          | (True, mem) \<Rightarrow> (Inr (), (mem, empty_blob))))"

definition s2n_free :: "(mem_blob, unit) action" where
  "s2n_free = (\<lambda>(mem, b).
     case s2n_blob_zero b of (zero_rc, b) \<Rightarrow>
       if zero_rc = Inl Undefined then (zero_rc, (mem, b))
       else case s2n_free_without_wipe (mem, b) of
         (Inl e, st) \<Rightarrow> (Inl e, st)
       | (Inr _, st) \<Rightarrow> (zero_rc, st))"

definition s2n_free_or_wipe :: "(mem_blob, unit) action" where
  "s2n_free_or_wipe = (\<lambda>(mem, b).
     case s2n_blob_zero b of (zero_rc, b) \<Rightarrow>
       if zero_rc = Inl Undefined then (zero_rc, (mem, b))
       else if b_allocated b \<noteq> 0
       then (case s2n_free_without_wipe (mem, b) of
               (Inl e, st) \<Rightarrow> (Inl e, st)
             | (Inr _, st) \<Rightarrow> (zero_rc, st))
       else (zero_rc, (mem, b)))"

text \<open>
  The three ways \<open>s2n_realloc\<close> can go once its guards have passed: the request fits in what is
  allocated, or new memory is requested, filled and put in place of the old memory.
\<close>

definition realloc_in_place :: "u32 \<Rightarrow> (mem_blob, unit) action" where
  "realloc_in_place sz = (\<lambda>(mem, b).
     if sz < b_size b
     then (case s2n_blob_slice b sz (b_size b - sz) of
             Inl e \<Rightarrow> (Inl e, (mem, b))
           | Inr slc \<Rightarrow>
               (case s2n_blob_zero slc of
                  (Inl e, slc) \<Rightarrow> (Inl e, (mem, slice_write_back b sz slc))
                | (Inr _, slc) \<Rightarrow>
                    (Inr (), (mem, (slice_write_back b sz slc)\<lparr>b_size := sz\<rparr>))))
     else (Inr (), (mem, b\<lparr>b_size := sz\<rparr>)))"

definition realloc_grow :: "u32 \<Rightarrow> (mem_blob, unit) action" where
  "realloc_grow sz = (\<lambda>(mem, b).
     case call_malloc sz mem of
       (Inl e, mem) \<Rightarrow> (Inl e, (mem, b))
     | (Inr (data, allocated), mem) \<Rightarrow>
         if \<not> allocated \<ge> sz then (Inl (Err S2N_ERR_ALLOC), (mem, b))
         else if data = None then (Inl (Err S2N_ERR_ALLOC), (mem, b))
         else
           (case (if b_size b \<noteq> 0 then checked_memcpy data 0 (b_data b) 0 (unat (b_size b)) else Inr data) of
              Inl e \<Rightarrow> (Inl e, (mem, b))
            | Inr data \<Rightarrow>
                let new_memory = \<lparr>b_data = data, b_size = sz, b_allocated = allocated, b_growable = True\<rparr> in
                if b_allocated b \<noteq> 0
                then (case s2n_free (mem, b) of
                        (Inl e, st) \<Rightarrow> (Inl e, st)
                      | (Inr _, (mem, _)) \<Rightarrow> (Inr (), (mem, new_memory)))
                else (Inr (), (mem, new_memory))))"

definition s2n_realloc :: "u32 \<Rightarrow> (mem_blob, unit) action" where
  "s2n_realloc sz = (\<lambda>(mem, b).
     if \<not> initialized mem then (Inl (Err S2N_ERR_NOT_INITIALIZED), (mem, b))
     else if \<not> s2n_blob_is_growable b then (Inl (Err S2N_ERR_RESIZE_STATIC_BLOB), (mem, b))
     else if sz = 0 then s2n_free (mem, b)
     else if sz \<le> b_allocated b then realloc_in_place sz (mem, b)
     else realloc_grow sz (mem, b))"

definition s2n_alloc :: "u32 \<Rightarrow> (mem_blob, unit) action" where
  "s2n_alloc sz = (\<lambda>(mem, b).
     if \<not> initialized mem then (Inl (Err S2N_ERR_NOT_INITIALIZED), (mem, b))
     else s2n_realloc sz (mem, empty_blob))"

definition s2n_free_object :: "u32 \<Rightarrow> (s2n_mem \<times> bytes option, unit) action" where
  "s2n_free_object sz = (\<lambda>(mem, p_data).
     case p_data of
       None \<Rightarrow> (Inr (), (mem, None))
     | Some m \<Rightarrow>
         if \<not> initialized mem then (Inl (Err S2N_ERR_NOT_INITIALIZED), (mem, Some m))
         else
           (case s2n_free (mem, \<lparr>b_data = Some m, b_size = sz, b_allocated = sz, b_growable = True\<rparr>) of
              (r, (mem, _)) \<Rightarrow> (r, (mem, None))))"

definition s2n_dup :: "s2n_blob \<Rightarrow> (mem_blob, unit) action" where
  "s2n_dup from_blob = (\<lambda>(mem, to_blob).
     if \<not> initialized mem then (Inl (Err S2N_ERR_NOT_INITIALIZED), (mem, to_blob))
     else if b_size to_blob \<noteq> 0 \<or> b_data to_blob \<noteq> None \<or> b_size from_blob = 0 \<or> b_data from_blob = None
     then (Inl (Err S2N_ERR_SAFETY), (mem, to_blob))
     else case s2n_alloc (b_size from_blob) (mem, to_blob) of
       (Inl e, st) \<Rightarrow> (Inl e, st)
     | (Inr _, (mem, to_blob)) \<Rightarrow>
         (case checked_memcpy (b_data to_blob) 0 (b_data from_blob) 0 (unat (b_size to_blob)) of
            Inl e \<Rightarrow> (Inl e, (mem, to_blob))
          | Inr d \<Rightarrow> (Inr (), (mem, to_blob\<lparr>b_data := d\<rparr>))))"


section \<open>Invariants\<close>

definition blob_bytes :: "s2n_blob \<Rightarrow> bytes" where
  "blob_bytes b = (case b_data b of None \<Rightarrow> [] | Some m \<Rightarrow> take (unat (b_size b)) m)"

definition blob_wf :: "s2n_blob \<Rightarrow> bool" where
  "blob_wf b \<longleftrightarrow> s2n_blob_validate b \<and>
     (case b_data b of
        None \<Rightarrow> True
      | Some m \<Rightarrow> unat (b_size b) \<le> length m \<and> unat (b_allocated b) \<le> length m)"

text \<open>
  What the allocator relies on: \<open>malloc\<close> and \<open>posix_memalign\<close> return regions of the requested
  size, and an application callback never reports more memory than it returns.
\<close>

definition os_ok :: "s2n_os \<Rightarrow> bool" where
  "os_ok sys \<longleftrightarrow>
     (\<forall>n sz m. os_malloc sys n sz = Some m \<longrightarrow> length m = unat sz) \<and>
     (\<forall>n al sz m. os_memalign sys n al sz = Some (Some m) \<longrightarrow> length m = unat sz)"

definition mem_ok :: "s2n_mem \<Rightarrow> bool" where
  "mem_ok mem \<longleftrightarrow> os_ok (os mem) \<and>
     (\<forall>f. s2n_mem_malloc_cb mem = App_malloc f \<longrightarrow>
        (\<forall>n sz m a. f n sz = Inr (Some m, a) \<longrightarrow> unat a \<le> length m))"

text \<open>The allocator as clients see it: calls only move the counter and the ghost record.\<close>

definition mem_same :: "s2n_mem \<Rightarrow> s2n_mem \<Rightarrow> bool" where
  "mem_same mem mem' \<longleftrightarrow> mem' = mem\<lparr>calls := calls mem', freed := freed mem'\<rparr>"

lemma mem_same_refl [simp]: "mem_same mem mem"
  by (simp add: mem_same_def)

lemma mem_same_trans: "mem_same a b \<Longrightarrow> mem_same b c \<Longrightarrow> mem_same a c"
  by (cases a; cases b; cases c) (simp add: mem_same_def)

lemma mem_same_updates [simp]:
  "mem_same mem (mem\<lparr>calls := n\<rparr>)" "mem_same mem (mem\<lparr>freed := f\<rparr>)"
  "mem_same mem (mem\<lparr>calls := n, freed := f\<rparr>)"
  by (simp_all add: mem_same_def)

lemma mem_same_initialized: "mem_same mem mem' \<Longrightarrow> initialized mem' = initialized mem"
  by (cases mem; cases mem') (simp add: mem_same_def)

lemma mem_same_ok: "mem_same mem mem' \<Longrightarrow> mem_ok mem \<Longrightarrow> mem_ok mem'"
  by (cases mem; cases mem') (simp add: mem_same_def mem_ok_def)

lemma blob_wf_empty [simp]: "blob_wf empty_blob"
  by (simp add: blob_wf_def s2n_blob_validate_def empty_blob_def s2n_mem_is_readable_def)

lemma blob_wf_data:
  assumes "blob_wf b" and "b_size b \<noteq> 0 \<or> b_allocated b \<noteq> 0"
  obtains m where "b_data b = Some m" and "unat (b_size b) \<le> length m"
    and "unat (b_allocated b) \<le> length m"
  using assms by (auto simp: blob_wf_def s2n_blob_validate_def split: option.splits)

lemma length_blob_bytes: "blob_wf b \<Longrightarrow> length (blob_bytes b) = unat (b_size b)"
  by (auto simp: blob_bytes_def blob_wf_def s2n_blob_validate_def split: option.splits)

lemma s2n_blob_init_wf:
  assumes "s2n_blob_init data sz = Inr b" and "readable data (unat sz)"
  shows "blob_wf b"
  using assms
  by (auto simp: s2n_blob_init_def blob_wf_def s2n_blob_validate_def s2n_mem_is_readable_def
      readable_def split: if_splits option.splits)

abbreviation zero_span :: "s2n_blob \<Rightarrow> nat" where
  "zero_span b \<equiv> unat (max (b_allocated b) (b_size b))"

lemma zero_span_max: "zero_span b = max (unat (b_allocated b)) (unat (b_size b))"
  by (simp add: max_def word_le_unat)

definition zeroed :: "s2n_blob \<Rightarrow> s2n_blob" where
  "zeroed b = b\<lparr>b_data := map_option (\<lambda>m. replicate (zero_span b) 0 @ drop (zero_span b) m) (b_data b)\<rparr>"

lemma zeroed_fields [simp]:
  "b_size (zeroed b) = b_size b" "b_allocated (zeroed b) = b_allocated b"
  "b_growable (zeroed b) = b_growable b" "(b_data (zeroed b) = None) = (b_data b = None)"
  "s2n_blob_is_growable (zeroed b) = s2n_blob_is_growable b"
  by (auto simp: zeroed_def s2n_blob_is_growable_def)

lemma s2n_blob_zero_wf:
  assumes "blob_wf b"
  shows "s2n_blob_zero b = (Inr (), zeroed b)"
proof (cases "b_data b")
  case None
  then have "b_size b = 0" "b_allocated b = 0"
    using assms by (auto simp: blob_wf_def s2n_blob_validate_def)
  then show ?thesis
    using None by (simp add: s2n_blob_zero_def checked_memset_def zeroed_def)
next
  case (Some m)
  then have "zero_span b \<le> length m"
    using assms by (simp add: zero_span_max blob_wf_def)
  with Some show ?thesis
    by (simp add: s2n_blob_zero_def checked_memset_def zeroed_def)
qed

lemma zeroed_wf:
  assumes "blob_wf b" shows "blob_wf (zeroed b)"
proof (cases "b_data b")
  case None
  then show ?thesis
    using assms by (simp add: zeroed_def blob_wf_def s2n_blob_validate_def s2n_mem_is_readable_def)
next
  case (Some m)
  then have "zero_span b \<le> length m"
    using assms by (simp add: zero_span_max blob_wf_def)
  with Some assms show ?thesis
    by (simp add: zeroed_def blob_wf_def s2n_blob_validate_def s2n_mem_is_readable_def)
qed

lemma zeroed_bytes:
  assumes "blob_wf b" and "b_data (zeroed b) = Some m"
  shows "\<forall>x \<in> set (take (zero_span b) m). x = 0" and "take (unat (b_allocated b)) m = replicate (unat (b_allocated b)) 0"
  using assms by (auto simp: zeroed_def zero_span_max min_def)

lemma call_free_same: "call_free p sz mem = (ok, mem') \<Longrightarrow>
    mem_same mem mem' \<and> freed mem' = (p, sz) # freed mem \<and> calls mem' = calls mem"
  by (auto simp: call_free_def s2n_mem_free_mlock_impl_def s2n_mem_free_no_mlock_impl_def
      split: free_cb.splits)

lemma call_malloc_same: "call_malloc sz mem = (r, mem') \<Longrightarrow> mem_same mem mem'"
  by (auto simp: call_malloc_def s2n_mem_malloc_mlock_impl_def s2n_mem_malloc_no_mlock_impl_def
      free_maybe_def s2n_mem_free_no_mlock_impl_def Let_def
      split: malloc_cb.splits sum.splits option.splits if_splits)

lemma map_sum_id_Inr [simp]: "map_sum f id x = Inr y \<longleftrightarrow> x = Inr y"
  by (cases x) auto

lemma call_malloc_ok:
  assumes "mem_ok mem" and "call_malloc sz mem = (Inr (Some m, a), mem')"
  shows "unat a \<le> length m" and "freed mem' = freed mem"
  using assms
  by (auto simp: call_malloc_def s2n_mem_malloc_mlock_impl_def s2n_mem_malloc_no_mlock_impl_def
      mem_ok_def os_ok_def Let_def split: malloc_cb.splits sum.splits option.splits if_splits)

lemma call_malloc_defined: "call_malloc sz mem = (r, mem') \<Longrightarrow> r \<noteq> Inl Undefined"
  by (auto simp: call_malloc_def s2n_mem_malloc_mlock_impl_def s2n_mem_malloc_no_mlock_impl_def
      s2n_align_to_def Let_def map_sum_def
      split: malloc_cb.splits sum.splits option.splits if_splits)

lemma s2n_free_without_wipe_cases:
  assumes "blob_wf b" and "s2n_free_without_wipe (mem, b) = (r, (mem', b'))"
  shows "mem_same mem mem'" "r = Inr () \<Longrightarrow> b' = empty_blob" "r \<noteq> Inr () \<Longrightarrow> b' = b" "r \<noteq> Inl Undefined"
  using assms
  by (auto simp: s2n_free_without_wipe_def dest: call_free_same
      split: if_splits option.splits prod.splits bool.splits)

lemma s2n_free_eq:
  assumes "blob_wf b"
  shows "s2n_free (mem, b) = s2n_free_without_wipe (mem, zeroed b)"
  by (auto simp: s2n_free_def s2n_blob_zero_wf [OF assms] split: prod.splits sum.splits)

lemma s2n_free_cases:
  assumes "blob_wf b" and "s2n_free (mem, b) = (r, (mem', b'))"
  shows "mem_same mem mem'" "r = Inr () \<Longrightarrow> b' = empty_blob" "r \<noteq> Inr () \<Longrightarrow> b' = zeroed b" "r \<noteq> Inl Undefined"
    "blob_wf b'"
proof -
  note run = s2n_free_without_wipe_cases
    [OF zeroed_wf [OF assms(1)] assms(2) [unfolded s2n_free_eq [OF assms(1)]]]
  show "mem_same mem mem'" "r = Inr () \<Longrightarrow> b' = empty_blob" "r \<noteq> Inr () \<Longrightarrow> b' = zeroed b"
    "r \<noteq> Inl Undefined"
    by (fact run)+
  show "blob_wf b'"
    using run(2,3) zeroed_wf [OF assms(1)] by (cases "r = Inr ()") simp_all
qed

lemma s2n_blob_slice_ok:
  assumes "unat off + unat sz \<le> unat (b_size b)"
  shows "s2n_blob_slice b off sz =
    Inr \<lparr>b_data = map_option (drop (unat off)) (b_data b), b_size = sz, b_allocated = 0, b_growable = False\<rparr>"
proof -
  have fits: "unat off + unat sz \<le> UINT32_MAX"
    using assms unat_u32_bound [of "b_size b"] by linarith
  then have "unat (off + sz) = unat off + unat sz"
    by (intro word_add_unat) simp
  with fits show ?thesis
    using assms by (simp add: s2n_blob_slice_def s2n_add_overflow_spec word_le_unat)
qed

lemma realloc_in_place_eq:
  assumes "blob_wf b" and "b_growable b" and "sz \<le> b_allocated b" and "sz \<noteq> 0"
  obtains m m' where "b_data b = Some m" and "length m' = length m"
    and "realloc_in_place sz (mem, b) = (Inr (), (mem, b\<lparr>b_data := Some m', b_size := sz\<rparr>))"
    and "take (unat sz) m' = take (unat sz) m"
    and "sz < b_size b \<Longrightarrow> take (unat (b_size b) - unat sz) (drop (unat sz) m') = replicate (unat (b_size b) - unat sz) 0"
proof -
  from assms have "b_allocated b \<noteq> 0" by auto
  then obtain m where m: "b_data b = Some m" "unat (b_size b) \<le> length m" "unat (b_allocated b) \<le> length m"
    using blob_wf_data [OF assms(1)] by blast
  show thesis
  proof (cases "sz < b_size b")
    case False
    with m show thesis
      by (intro that [of m m]) (simp_all add: realloc_in_place_def)
  next
    case True
    let ?n = "unat (b_size b) - unat sz"
    have n: "unat (b_size b - sz) = ?n"
      using True by (simp add: word_sub_unat)
    have lt: "unat sz < unat (b_size b)"
      using True by (simp add: word_less_unat)
    then have slc: "s2n_blob_slice b sz (b_size b - sz) =
        Inr \<lparr>b_data = Some (drop (unat sz) m), b_size = b_size b - sz, b_allocated = 0, b_growable = False\<rparr>"
      using s2n_blob_slice_ok [of sz "b_size b - sz" b] by (simp add: n m(1))
    let ?m' = "take (unat sz) m @ replicate ?n 0 @ drop (unat (b_size b)) m"
    have "s2n_blob_zero \<lparr>b_data = Some (drop (unat sz) m), b_size = b_size b - sz, b_allocated = 0, b_growable = False\<rparr>
        = (Inr (), \<lparr>b_data = Some (replicate ?n 0 @ drop (unat (b_size b)) m), b_size = b_size b - sz, b_allocated = 0, b_growable = False\<rparr>)"
      using m(2) lt by (simp add: s2n_blob_zero_def checked_memset_def n max_def word_le_unat)
    then have "realloc_in_place sz (mem, b) = (Inr (), (mem, b\<lparr>b_data := Some ?m', b_size := sz\<rparr>))"
      by (simp add: realloc_in_place_def True slc slice_write_back_def m(1))
    moreover have "length ?m' = length m"
      using m(2) lt by simp
    ultimately show thesis
      using m lt by (intro that [of m ?m']) simp_all
  qed
qed

lemma checked_memcpy_front:
  assumes "n \<le> length m" and "n \<le> length x"
  shows "checked_memcpy (Some m) 0 (Some x) 0 n = Inr (Some (take n x @ drop n m))"
  using assms by (auto simp: checked_memcpy_def mem_read_def mem_write_def)

text \<open>What a client of \<open>s2n_realloc\<close> may rely on when new memory has to be found.\<close>

lemma blob_wf_new:
  assumes "0 < sz" and "sz \<le> a" and "unat a \<le> length m"
  shows "blob_wf \<lparr>b_data = Some m, b_size = sz, b_allocated = a, b_growable = True\<rparr>"
proof -
  have "0 < a"
    using assms(1,2) by (rule less_le_trans)
  moreover have "unat sz \<le> length m"
    using assms(2,3) by (simp add: word_le_unat)
  ultimately show ?thesis
    using assms by (simp add: blob_wf_def s2n_blob_validate_def s2n_mem_is_readable_def)
qed

lemma growable_size:
  assumes "blob_wf b" and "s2n_blob_is_growable b"
  shows "b_size b \<le> b_allocated b"
  using assms by (auto simp: blob_wf_def s2n_blob_validate_def s2n_blob_is_growable_def)

lemma s2n_free_freed:
  assumes "blob_wf b" and "s2n_free (mem, b) = (Inr (), (mem', b'))" and "b_allocated b \<noteq> 0"
  shows "freed mem' = (the (b_data (zeroed b)), b_allocated b) # freed mem"
proof -
  obtain m where m: "b_data (zeroed b) = Some m"
    using blob_wf_data [OF zeroed_wf [OF assms(1)]] assms(3) by auto
  then show ?thesis
    using assms(2) unfolding s2n_free_eq [OF assms(1)]
    by (auto simp: s2n_free_without_wipe_def dest!: call_free_same
        split: if_splits prod.splits bool.splits)
qed

definition realloc_post :: "mem_blob \<Rightarrow> u32 \<Rightarrow> unit result \<times> mem_blob \<Rightarrow> bool" where
  "realloc_post st sz res =
     (case (st, res) of ((mem, b), (r, (mem', b'))) \<Rightarrow>
        mem_same mem mem' \<and> blob_wf b' \<and> r \<noteq> Inl Undefined \<and>
        (r = Inr () \<longrightarrow> b_size b' = sz \<and> b_growable b' \<and>
           take (unat (b_size b)) (blob_bytes b') = blob_bytes b \<and>
           freed mem' = (if b_allocated b = 0 then freed mem
                         else (the (b_data (zeroed b)), b_allocated b) # freed mem)) \<and>
        (r \<noteq> Inr () \<longrightarrow> b' = b \<or> (b' = zeroed b \<and> r = Inl (Err S2N_ERR_CANCELLED))))"

lemma realloc_grow_post:
  assumes mem: "mem_ok mem" "initialized mem" and b: "blob_wf b" and more: "b_allocated b < sz"
    and grow: "s2n_blob_is_growable b"
  shows "realloc_post (mem, b) sz (realloc_grow sz (mem, b))"
proof -
  obtain c mem1 where c: "call_malloc sz mem = (c, mem1)"
    by (cases "call_malloc sz mem")
  have same1: "mem_same mem mem1" and def: "c \<noteq> Inl Undefined"
    using c by (rule call_malloc_same, rule call_malloc_defined)
  show ?thesis
  proof (cases "\<exists>m a. c = Inr (Some m, a) \<and> sz \<le> a")
    case False
    then show ?thesis
      using same1 def b
      by (auto simp: realloc_grow_def realloc_post_def c split: sum.splits option.splits)
  next
    case True
    then obtain m a where ma: "c = Inr (Some m, a)" "sz \<le> a" by blast
    have len: "unat a \<le> length m" and fr: "freed mem1 = freed mem"
      using call_malloc_ok [OF mem(1)] c ma(1) by auto
    have "unat (b_size b) \<le> unat sz"
      using growable_size [OF b grow] more by (simp add: word_le_unat word_less_unat)
    then have size: "unat (b_size b) \<le> unat sz" "unat (b_size b) \<le> length m" "unat sz \<le> length m"
      using ma(2) len by (simp_all add: word_le_unat)
    define m' where "m' = blob_bytes b @ drop (unat (b_size b)) m"
    have copy: "(if b_size b \<noteq> 0 then checked_memcpy (Some m) 0 (b_data b) 0 (unat (b_size b)) else Inr (Some m))
        = Inr (Some m')"
    proof (cases "b_size b = 0")
      case True
      then show ?thesis
        using length_blob_bytes [OF b] by (simp add: m'_def)
    next
      case False
      then obtain x where "b_data b = Some x" "unat (b_size b) \<le> length x"
        using blob_wf_data [OF b] by blast
      with size False show ?thesis
        by (simp add: checked_memcpy_front m'_def blob_bytes_def)
    qed
    let ?new = "\<lparr>b_data = Some m', b_size = sz, b_allocated = a, b_growable = True\<rparr>"
    have lenm': "length m' = length m"
      using size length_blob_bytes [OF b] by (simp add: m'_def)
    have new: "blob_wf ?new" "take (unat (b_size b)) (blob_bytes ?new) = blob_bytes b"
      using more ma(2) len lenm' length_blob_bytes [OF b] size
      by (auto intro!: blob_wf_new simp: word_gt_0 blob_bytes_def m'_def)
    show ?thesis
    proof (cases "b_allocated b = 0")
      case True
      then show ?thesis
        using new same1 fr copy ma
        by (simp add: realloc_grow_def realloc_post_def c Let_def)
    next
      case False
      obtain r mem' b' where free: "s2n_free (mem1, b) = (r, (mem', b'))"
        by (cases "s2n_free (mem1, b)") auto
      note f = s2n_free_cases [OF b free]
      have "r \<noteq> Inr () \<Longrightarrow> r = Inl (Err S2N_ERR_CANCELLED)"
        using free mem_same_initialized [OF same1] mem(2) grow unfolding s2n_free_eq [OF b]
        by (auto simp: s2n_free_without_wipe_def split: if_splits option.splits prod.splits bool.splits)
      moreover have "r = Inr () \<Longrightarrow> freed mem' = (the (b_data (zeroed b)), b_allocated b) # freed mem"
        using s2n_free_freed [OF b _ False] free fr by simp
      ultimately show ?thesis
        using new same1 copy ma False f mem_same_trans [OF same1 f(1)]
        by (cases r) (simp_all add: realloc_grow_def realloc_post_def c Let_def free)
    qed
  qed
qed

lemma realloc_in_place_wf:
  assumes "blob_wf b" and "b_growable b" and "sz \<le> b_allocated b" and "sz \<noteq> 0"
    and "b_data b = Some m" and "length m' = length m"
  shows "blob_wf (b\<lparr>b_data := Some m', b_size := sz\<rparr>)"
proof -
  have "unat (b_allocated b) \<le> length m" "0 < b_allocated b"
    using assms by (auto simp: blob_wf_def word_gt_0)
  moreover have "unat sz \<le> unat (b_allocated b)"
    using assms(3) by (simp add: word_le_unat)
  ultimately show ?thesis
    using assms by (simp add: blob_wf_def s2n_blob_validate_def s2n_mem_is_readable_def)
qed

definition wipes :: "s2n_mem \<Rightarrow> s2n_mem \<Rightarrow> bool" where
  "wipes mem mem' \<longleftrightarrow>
     (\<forall>(p, n) \<in> set (freed mem'). (p, n) \<in> set (freed mem) \<or> (\<forall>x \<in> set (take (unat n) p). x = 0))"

lemma wipes_refl [simp]: "wipes mem mem"
  by (auto simp: wipes_def)

lemma s2n_free_wipes:
  assumes "blob_wf b" and "s2n_free (mem, b) = (r, (mem', b'))"
  shows "wipes mem mem'"
proof (cases "freed mem' = freed mem")
  case False
  then obtain m where "b_data (zeroed b) = Some m" "freed mem' = (m, b_allocated b) # freed mem"
    using assms(2) unfolding s2n_free_eq [OF assms(1)]
    by (auto simp: s2n_free_without_wipe_def dest!: call_free_same
        split: if_splits prod.splits bool.splits option.splits)
  then show ?thesis
    using zeroed_bytes(2) [OF assms(1)] by (auto simp: wipes_def)
qed (auto simp: wipes_def)

definition realloc_keeps :: "mem_blob \<Rightarrow> u32 \<Rightarrow> unit result \<times> mem_blob \<Rightarrow> bool" where
  "realloc_keeps st sz res =
     (case (st, res) of ((mem, b), (r, (mem', b'))) \<Rightarrow>
        mem_same mem mem' \<and> blob_wf b' \<and> r \<noteq> Inl Undefined \<and>
        (r = Inr () \<longrightarrow> b_size b' = sz \<and>
           (let k = min (unat (b_size b)) (unat sz) in take k (blob_bytes b') = take k (blob_bytes b)) \<and>
           wipes mem mem') \<and>
        (r = Inr () \<longrightarrow> sz \<noteq> 0 \<longrightarrow> b_growable b') \<and>
        (r \<noteq> Inr () \<longrightarrow> b' = b \<or> b' = zeroed b \<and> r = Inl (Err S2N_ERR_CANCELLED)))"

lemma s2n_realloc_keeps:
  assumes mem: "mem_ok mem" and b: "blob_wf b"
  shows "realloc_keeps (mem, b) sz (s2n_realloc sz (mem, b))"
proof -
  consider (refused) "\<not> initialized mem \<or> \<not> s2n_blob_is_growable b"
    | (free) "initialized mem" "s2n_blob_is_growable b" "sz = 0"
    | (place) "initialized mem" "s2n_blob_is_growable b" "sz \<noteq> 0" "sz \<le> b_allocated b"
    | (grow) "initialized mem" "s2n_blob_is_growable b" "b_allocated b < sz"
    by force
  then show ?thesis
  proof cases
    case refused
    then show ?thesis
      using b by (auto simp: s2n_realloc_def realloc_keeps_def)
  next
    case free
    obtain r mem' b' where f: "s2n_free (mem, b) = (r, (mem', b'))"
      by (cases "s2n_free (mem, b)") auto
    have "r \<noteq> Inr () \<Longrightarrow> r = Inl (Err S2N_ERR_CANCELLED)"
      using f free unfolding s2n_free_eq [OF b]
      by (auto simp: s2n_free_without_wipe_def split: if_splits option.splits prod.splits bool.splits)
    then show ?thesis
      using free s2n_free_cases [OF b f] s2n_free_wipes [OF b f]
      by (cases "r = Inr ()") (simp_all add: s2n_realloc_def realloc_keeps_def f empty_blob_def)
  next
    case place
    then have g: "b_growable b"
      by (auto simp: s2n_blob_is_growable_def)
    obtain m m' where m: "b_data b = Some m" "length m' = length m"
      "realloc_in_place sz (mem, b) = (Inr (), (mem, b\<lparr>b_data := Some m', b_size := sz\<rparr>))"
      "take (unat sz) m' = take (unat sz) m"
      using realloc_in_place_eq [OF b g place(4,3)] by metis
    have "take (min (unat (b_size b)) (unat sz)) m' = take (min (unat (b_size b)) (unat sz)) m"
      by (metis m(4) min.commute take_take)
    then show ?thesis
      using m place g realloc_in_place_wf [OF b g place(4,3) m(1,2)]
      by (simp add: s2n_realloc_def realloc_keeps_def blob_bytes_def Let_def min.commute)
  next
    case grow
    then have post: "realloc_post (mem, b) sz (realloc_grow sz (mem, b))"
      using mem b by (intro realloc_grow_post)
    obtain r mem' b' where run: "realloc_grow sz (mem, b) = (r, (mem', b'))"
      by (cases "realloc_grow sz (mem, b)") auto
    have le: "unat (b_size b) \<le> unat sz"
      using growable_size [OF b grow(2)] grow(3) by (simp add: word_le_unat word_less_unat)
    have wipe: "wipes mem mem'" if "r = Inr ()"
    proof (cases "b_allocated b = 0")
      case False
      then obtain m where "b_data (zeroed b) = Some m"
        using blob_wf_data [OF zeroed_wf [OF b]] by auto
      with False that show ?thesis
        using post zeroed_bytes(2) [OF b] by (auto simp: run realloc_post_def wipes_def)
    qed (use post that in \<open>auto simp: run realloc_post_def wipes_def\<close>)
    have "take (unat (b_size b)) (blob_bytes b) = blob_bytes b"
      using length_blob_bytes [OF b] by simp
    moreover have "s2n_realloc sz (mem, b) = (r, (mem', b'))"
      using grow run by (auto simp: s2n_realloc_def)
    ultimately show ?thesis
      using post wipe le by (simp add: run realloc_post_def realloc_keeps_def Let_def min.absorb1)
  qed
qed


section \<open>Claims\<close>


definition example_os :: s2n_os where
  "example_os = \<lparr>os_malloc = (\<lambda>_ n. Some (replicate (unat n) 170)),
     os_memalign = (\<lambda>_ _ n. Some (Some (replicate (unat n) 170))), os_madvise_ok = (\<lambda>_. True),
     os_mlock_ok = (\<lambda>_. True), os_pagesize = 4096, os_dont_mlock = True\<rparr>"

definition example_mem :: "free_cb \<Rightarrow> s2n_mem" where
  "example_mem f = (s2n_mem_statics example_os)\<lparr>initialized := True,
     s2n_mem_malloc_cb := Malloc_no_mlock_impl, s2n_mem_free_cb := f\<rparr>"

definition example_blob :: s2n_blob where
  "example_blob = \<lparr>b_data = Some [7, 8], b_size = 2, b_allocated = 2, b_growable = True\<rparr>"

lemma mem_ok_example [simp]: "mem_ok (example_mem f)"
  by (simp add: mem_ok_def os_ok_def example_mem_def s2n_mem_statics_def example_os_def)

lemma blob_wf_example [simp]: "blob_wf example_blob"
  by (simp add: example_blob_def blob_wf_def s2n_blob_validate_def s2n_mem_is_readable_def)

lemmas mem_run = s2n_realloc_def realloc_grow_def realloc_in_place_def s2n_blob_is_growable_def
  call_malloc_def call_free_def s2n_mem_malloc_no_mlock_impl_def s2n_mem_free_no_mlock_impl_def
  s2n_free_def s2n_blob_zero_def s2n_free_without_wipe_def checked_memset_def checked_memcpy_def
  mem_read_def mem_write_def replicate_numeral s2n_mem_statics_def example_mem_def example_os_def example_blob_def


text \<open>
  The comment on \<open>s2n_realloc\<close> says that a failed call leaves the blob unchanged.  It does not
  when the free callback refuses the old region: the old contents have been wiped by then.
\<close>
lemma s2n_realloc_failure_wipes_blob:
  "fst (s2n_realloc 3 (example_mem (App_free (\<lambda>_ _. False)), example_blob)) = Inl (Err S2N_ERR_CANCELLED) \<and>
   blob_bytes (snd (snd (s2n_realloc 3 (example_mem (App_free (\<lambda>_ _. False)), example_blob)))) = [0, 0]"
  by (simp add: mem_run blob_bytes_def)

end
