(* ===== verification/Stuffer.thy ===== *)
theory Stuffer
  imports Mem
begin

text \<open>
  The stuffer (\<open>stuffer/s2n_stuffer.c\<close>): a blob with a read cursor, a write cursor and a high
  water mark.  Operations that only read are actions on the stuffer; operations that may
  allocate are actions on the allocator together with the stuffer.

  A pointer into the stuffer is the offset it has in the stuffer's memory.  A destination buffer
  is passed with its contents and returned with its new contents.
\<close>

abbreviation (input) S2N_MIN_STUFFER_GROWTH_IN_BYTES :: u32 where
  "S2N_MIN_STUFFER_GROWTH_IN_BYTES \<equiv> 1024"

abbreviation (input) S2N_WIPE_PATTERN :: u8 where
  "S2N_WIPE_PATTERN \<equiv> 119"

record s2n_stuffer =
  blob :: s2n_blob
  read_cursor :: u32
  write_cursor :: u32
  high_water_mark :: u32
  alloced :: bool
  growable :: bool
  tainted :: bool

type_synonym mem_stuffer = "s2n_mem \<times> s2n_stuffer"

definition empty_stuffer :: s2n_stuffer where
  "empty_stuffer = \<lparr>blob = empty_blob, read_cursor = 0, write_cursor = 0, high_water_mark = 0,
     alloced = False, growable = False, tainted = False\<rparr>"

definition s2n_stuffer_data_available :: "s2n_stuffer \<Rightarrow> u32" where
  "s2n_stuffer_data_available s = write_cursor s - read_cursor s"

definition s2n_stuffer_space_remaining :: "s2n_stuffer \<Rightarrow> u32" where
  "s2n_stuffer_space_remaining s = b_size (blob s) - write_cursor s"

definition s2n_stuffer_is_wiped :: "s2n_stuffer \<Rightarrow> bool" where
  "s2n_stuffer_is_wiped s \<longleftrightarrow> high_water_mark s = 0"

definition s2n_stuffer_is_freed :: "s2n_stuffer \<Rightarrow> bool" where
  "s2n_stuffer_is_freed s \<longleftrightarrow> b_data (blob s) = None"

definition s2n_stuffer_validate :: "s2n_stuffer \<Rightarrow> bool" where
  "s2n_stuffer_validate s \<longleftrightarrow>
     s2n_blob_validate (blob s) \<and>
     (growable s \<longrightarrow> alloced s) \<and>
     high_water_mark s \<le> b_size (blob s) \<and>
     write_cursor s \<le> high_water_mark s \<and>
     read_cursor s \<le> write_cursor s"

text \<open>The lenses through which a composite operation runs an operation on a part.\<close>

definition on_stuffer :: "(s2n_stuffer, 'a) action \<Rightarrow> (mem_stuffer, 'a) action" where
  "on_stuffer = zoom snd (\<lambda>s (mem, _). (mem, s))"

definition on_blob :: "(mem_blob, 'a) action \<Rightarrow> (mem_stuffer, 'a) action" where
  "on_blob = zoom (\<lambda>(mem, s). (mem, blob s)) (\<lambda>(mem, b) (_, s). (mem, s\<lparr>blob := b\<rparr>))"

text \<open>\<open>POSIX_CHECKED_MEMSET\<close> at an offset of the stuffer's memory.\<close>

definition stuffer_memset :: "u32 \<Rightarrow> u8 \<Rightarrow> u32 \<Rightarrow> (s2n_stuffer, unit) action" where
  "stuffer_memset off c n s =
     (if n = 0 then (Inr (), s)
      else case b_data (blob s) of
        None \<Rightarrow> (Inl (Err S2N_ERR_NULL), s)
      | Some m \<Rightarrow>
          (case mem_write m (unat off) (replicate (unat n) c) of
             None \<Rightarrow> (Inl Undefined, s)
           | Some m' \<Rightarrow> (Inr (), s\<lparr>blob := (blob s)\<lparr>b_data := Some m'\<rparr>\<rparr>)))"

text \<open>\<open>POSIX_CHECKED_MEMCPY\<close> to an offset of the stuffer's memory.\<close>

definition stuffer_memcpy :: "u32 \<Rightarrow> bytes option \<Rightarrow> u32 \<Rightarrow> (s2n_stuffer, unit) action" where
  "stuffer_memcpy off src n s =
     (case checked_memcpy (b_data (blob s)) (unat off) src 0 (unat n) of
        Inl e \<Rightarrow> (Inl e, s)
      | Inr d \<Rightarrow> (Inr (), s\<lparr>blob := (blob s)\<lparr>b_data := d\<rparr>\<rparr>))"


section \<open>Wiping and cursors\<close>

definition s2n_stuffer_init :: "s2n_blob \<Rightarrow> s2n_stuffer" where
  "s2n_stuffer_init b = \<lparr>blob = b, read_cursor = 0, write_cursor = 0, high_water_mark = 0,
     alloced = False, growable = False, tainted = False\<rparr>"

definition s2n_stuffer_rewrite :: "(s2n_stuffer, unit) action" where
  "s2n_stuffer_rewrite = modify (\<lambda>s. s\<lparr>write_cursor := 0, read_cursor := 0\<rparr>)"

definition s2n_stuffer_rewind_read :: "u32 \<Rightarrow> (s2n_stuffer, unit) action" where
  "s2n_stuffer_rewind_read sz = block [
     ensure_st (\<lambda>s. read_cursor s \<ge> sz) S2N_ERR_STUFFER_OUT_OF_DATA,
     modify (\<lambda>s. s\<lparr>read_cursor := read_cursor s - sz\<rparr>)]"

definition s2n_stuffer_reread :: "(s2n_stuffer, unit) action" where
  "s2n_stuffer_reread = modify (\<lambda>s. s\<lparr>read_cursor := 0\<rparr>)"

definition s2n_stuffer_wipe_n :: "u32 \<Rightarrow> (s2n_stuffer, unit) action" where
  "s2n_stuffer_wipe_n sz s =
     (let wipe_size = min sz (write_cursor s);
          s = s\<lparr>write_cursor := write_cursor s - wipe_size\<rparr>;
          s = s\<lparr>read_cursor := min (read_cursor s) (write_cursor s)\<rparr>
      in stuffer_memset (write_cursor s) S2N_WIPE_PATTERN wipe_size s)"

definition s2n_stuffer_is_consumed :: "s2n_stuffer \<Rightarrow> bool" where
  "s2n_stuffer_is_consumed s \<longleftrightarrow> read_cursor s = write_cursor s \<and> \<not> tainted s"

definition s2n_stuffer_wipe :: "(s2n_stuffer, unit) action" where
  "s2n_stuffer_wipe = block [
     (\<lambda>s. if \<not> s2n_stuffer_is_wiped s then stuffer_memset 0 S2N_WIPE_PATTERN (high_water_mark s) s
          else (Inr (), s)),
     modify (\<lambda>s. s\<lparr>tainted := False, write_cursor := 0, read_cursor := 0, high_water_mark := 0\<rparr>)]"


section \<open>Reading\<close>

definition s2n_stuffer_skip_read :: "u32 \<Rightarrow> (s2n_stuffer, unit) action" where
  "s2n_stuffer_skip_read n = block [
     ensure_st (\<lambda>s. s2n_stuffer_data_available s \<ge> n) S2N_ERR_STUFFER_OUT_OF_DATA,
     modify (\<lambda>s. s\<lparr>read_cursor := read_cursor s + n\<rparr>)]"

definition s2n_stuffer_raw_read :: "u32 \<Rightarrow> (s2n_stuffer, u32 option) action" where
  "s2n_stuffer_raw_read data_len =
     andthen (block [s2n_stuffer_skip_read data_len, modify (\<lambda>s. s\<lparr>tainted := True\<rparr>)])
       (gets (\<lambda>s. if b_data (blob s) = None then None else Some (read_cursor s - data_len)))"

definition s2n_stuffer_read_bytes :: "bytes option \<Rightarrow> u32 \<Rightarrow> (s2n_stuffer, bytes option) action" where
  "s2n_stuffer_read_bytes data sz =
     andthen (block [
       ensure (data \<noteq> None) S2N_ERR_NULL,
       s2n_stuffer_skip_read sz,
       ensure_st (\<lambda>s. b_data (blob s) \<noteq> None) S2N_ERR_NULL])
     (\<lambda>s. (checked_memcpy data 0 (b_data (blob s)) (unat (read_cursor s - sz)) (unat sz), s))"

definition s2n_stuffer_read :: "(s2n_blob \<times> s2n_stuffer, unit) action" where
  "s2n_stuffer_read = (\<lambda>(out, s).
     case s2n_stuffer_read_bytes (b_data out) (b_size out) s of
       (Inl e, s) \<Rightarrow> (Inl e, (out, s))
     | (Inr d, s) \<Rightarrow> (Inr (), (out\<lparr>b_data := d\<rparr>, s)))"

definition s2n_stuffer_erase_and_read :: "(s2n_blob \<times> s2n_stuffer, unit) action" where
  "s2n_stuffer_erase_and_read = (\<lambda>(out, s).
     case s2n_stuffer_skip_read (b_size out) s of
       (Inl e, s) \<Rightarrow> (Inl e, (out, s))
     | (Inr _, s) \<Rightarrow>
         let off = read_cursor s - b_size out in
         if \<not> s2n_mem_is_readable (b_data (blob s)) (b_size out) then (Inl (Err S2N_ERR_NULL), (out, s))
         else case checked_memcpy (b_data out) 0 (b_data (blob s)) (unat off) (unat (b_size out)) of
           Inl e \<Rightarrow> (Inl e, (out, s))
         | Inr d \<Rightarrow>
             (case stuffer_memset off 0 (b_size out) s of
                (r, s) \<Rightarrow> (r, (out\<lparr>b_data := d\<rparr>, s))))"

definition s2n_stuffer_erase_and_read_bytes ::
  "bytes option \<Rightarrow> u32 \<Rightarrow> (s2n_stuffer, bytes option) action" where
  "s2n_stuffer_erase_and_read_bytes data sz =
     andthen (block [
       s2n_stuffer_skip_read sz,
       ensure_st (\<lambda>s. b_data (blob s) \<noteq> None) S2N_ERR_NULL])
     (bnd (\<lambda>s. (checked_memcpy data 0 (b_data (blob s)) (unat (read_cursor s - sz)) (unat sz), s))
       (\<lambda>d. andthen (\<lambda>s. stuffer_memset (read_cursor s - sz) 0 sz s) (ret d)))"


section \<open>Allocation and growth\<close>

definition s2n_stuffer_alloc :: "u32 \<Rightarrow> (mem_stuffer, unit) action" where
  "s2n_stuffer_alloc sz = block [
     on_stuffer (modify (\<lambda>_. empty_stuffer)),
     on_blob (s2n_alloc sz),
     on_stuffer (modify (\<lambda>s. s2n_stuffer_init (blob s))),
     on_stuffer (modify (\<lambda>s. s\<lparr>alloced := True\<rparr>))]"

definition s2n_stuffer_growable_alloc :: "u32 \<Rightarrow> (mem_stuffer, unit) action" where
  "s2n_stuffer_growable_alloc sz = block [
     s2n_stuffer_alloc sz,
     on_stuffer (modify (\<lambda>s. s\<lparr>growable := True\<rparr>))]"

definition s2n_stuffer_free :: "(mem_stuffer, unit) action" where
  "s2n_stuffer_free = block [
     (\<lambda>(mem, s). if alloced s then on_blob s2n_free (mem, s) else (Inr (), (mem, s))),
     on_stuffer (modify (\<lambda>_. empty_stuffer))]"

definition s2n_stuffer_free_without_wipe :: "(mem_stuffer, unit) action" where
  "s2n_stuffer_free_without_wipe = block [
     (\<lambda>(mem, s). if alloced s then on_blob s2n_free_without_wipe (mem, s) else (Inr (), (mem, s))),
     on_stuffer (modify (\<lambda>_. empty_stuffer))]"

definition resize_shrink :: "u32 \<Rightarrow> (s2n_stuffer, unit) action" where
  "resize_shrink sz = block [
     (\<lambda>s. stuffer_memset sz S2N_WIPE_PATTERN (b_size (blob s) - sz) s),
     modify (\<lambda>s. if read_cursor s > sz then s\<lparr>read_cursor := sz\<rparr> else s),
     modify (\<lambda>s. if write_cursor s > sz then s\<lparr>write_cursor := sz\<rparr> else s),
     modify (\<lambda>s. if high_water_mark s > sz then s\<lparr>high_water_mark := sz\<rparr> else s),
     modify (\<lambda>s. s\<lparr>blob := (blob s)\<lparr>b_size := sz\<rparr>\<rparr>)]"

definition s2n_stuffer_resize :: "u32 \<Rightarrow> (mem_stuffer, unit) action" where
  "s2n_stuffer_resize sz = block [
     ensure_st (\<lambda>(mem, s). \<not> tainted s) S2N_ERR_RESIZE_TAINTED_STUFFER,
     ensure_st (\<lambda>(mem, s). growable s) S2N_ERR_RESIZE_STATIC_STUFFER,
     (\<lambda>(mem, s).
        if sz = b_size (blob s) then (Inr (), (mem, s))
        else if sz = 0 then
          (case on_stuffer s2n_stuffer_wipe (mem, s) of
             (Inl Undefined, st) \<Rightarrow> (Inl Undefined, st)
           | (_, st) \<Rightarrow> on_blob s2n_free st)
        else if sz < b_size (blob s) then on_stuffer (resize_shrink sz) (mem, s)
        else on_blob (s2n_realloc sz) (mem, s))]"

definition s2n_stuffer_resize_if_empty :: "u32 \<Rightarrow> (mem_stuffer, unit) action" where
  "s2n_stuffer_resize_if_empty sz = (\<lambda>(mem, s).
     if b_data (blob s) = None
     then block [
       ensure_st (\<lambda>(mem, s). \<not> tainted s) S2N_ERR_RESIZE_TAINTED_STUFFER,
       ensure_st (\<lambda>(mem, s). growable s) S2N_ERR_RESIZE_STATIC_STUFFER,
       on_blob (s2n_realloc sz)] (mem, s)
     else (Inr (), (mem, s)))"

definition s2n_stuffer_reserve_space :: "u32 \<Rightarrow> (mem_stuffer, unit) action" where
  "s2n_stuffer_reserve_space n = (\<lambda>(mem, s).
     if s2n_stuffer_space_remaining s < n
     then (if \<not> growable s then (Inl (Err S2N_ERR_STUFFER_IS_FULL), (mem, s))
           else
             let growth = max (n - s2n_stuffer_space_remaining s) S2N_MIN_STUFFER_GROWTH_IN_BYTES in
             (case s2n_add_overflow (b_size (blob s)) growth of
                Inl e \<Rightarrow> (Inl e, (mem, s))
              | Inr new_size \<Rightarrow> s2n_stuffer_resize new_size (mem, s)))
     else (Inr (), (mem, s)))"


section \<open>Writing\<close>

definition s2n_stuffer_skip_write :: "u32 \<Rightarrow> (mem_stuffer, unit) action" where
  "s2n_stuffer_skip_write n = block [
     s2n_stuffer_reserve_space n,
     on_stuffer (modify (\<lambda>s. s\<lparr>write_cursor := write_cursor s + n\<rparr>)),
     on_stuffer (modify (\<lambda>s. s\<lparr>high_water_mark := max (write_cursor s) (high_water_mark s)\<rparr>))]"

definition s2n_stuffer_init_written :: "s2n_blob \<Rightarrow> (mem_stuffer, unit) action" where
  "s2n_stuffer_init_written b = block [
     on_stuffer (modify (\<lambda>_. s2n_stuffer_init b)),
     s2n_stuffer_skip_write (b_size b)]"

definition s2n_stuffer_raw_write :: "u32 \<Rightarrow> (mem_stuffer, u32 option) action" where
  "s2n_stuffer_raw_write data_len =
     andthen (block [
       s2n_stuffer_skip_write data_len,
       on_stuffer (modify (\<lambda>s. s\<lparr>tainted := True\<rparr>))])
     (gets (\<lambda>(mem, s). if b_data (blob s) = None then None else Some (write_cursor s - data_len)))"

definition s2n_stuffer_write_bytes :: "bytes option \<Rightarrow> u32 \<Rightarrow> (mem_stuffer, unit) action" where
  "s2n_stuffer_write_bytes data sz =
     (if sz = 0 then ret ()
      else block [
        ensure (s2n_mem_is_readable data sz) S2N_ERR_SAFETY,
        s2n_stuffer_skip_write sz,
        ensure_st (\<lambda>(mem, s). s2n_mem_is_readable (b_data (blob s)) sz) S2N_ERR_NULL,
        on_stuffer (\<lambda>s. stuffer_memcpy (write_cursor s - sz) data sz s)])"

definition s2n_stuffer_write :: "s2n_blob \<Rightarrow> (mem_stuffer, unit) action" where
  "s2n_stuffer_write b = s2n_stuffer_write_bytes (b_data b) (b_size b)"

record iovec =
  iov_base :: "bytes option"
  iov_len :: u64

fun writev_loop :: "iovec list \<Rightarrow> u64 \<Rightarrow> u64 \<Rightarrow> nat \<Rightarrow> bytes option \<Rightarrow> unit result \<times> bytes option" where
  "writev_loop [] to_skip size_left p m = (Inr (), m)"
| "writev_loop (v # vs) to_skip size_left p m =
     (if to_skip \<ge> iov_len v then writev_loop vs (to_skip - iov_len v) size_left p m
      else
        let iov_len_op = iov_len v - to_skip in
        if \<not> iov_len_op \<le> 4294967295 then (Inl (Err S2N_ERR_SAFETY), m)
        else
          let iov_size_to_take = min size_left iov_len_op in
          if iov_base v = None then (Inl (Err S2N_ERR_NULL), m)
          else case checked_memcpy m p (iov_base v) (unat to_skip) (unat iov_size_to_take) of
            Inl e \<Rightarrow> (Inl e, m)
          | Inr m \<Rightarrow>
              let size_left = size_left - iov_size_to_take in
              if size_left = 0 then (Inr (), m)
              else writev_loop vs 0 size_left (p + unat iov_size_to_take) m)"

definition s2n_stuffer_writev_bytes :: "iovec list \<Rightarrow> u32 \<Rightarrow> u32 \<Rightarrow> (mem_stuffer, unit) action" where
  "s2n_stuffer_writev_bytes iov offs sz st =
     (case s2n_stuffer_raw_write sz st of
        (Inl Undefined, st) \<Rightarrow> (Inl Undefined, st)
      | (r, (mem, s)) \<Rightarrow>
          let ptr = (case r of Inr (Some p) \<Rightarrow> Some p | _ \<Rightarrow> None) in
          if sz \<noteq> 0 \<and> ptr = None then (Inl (Err S2N_ERR_NULL), (mem, s))
          else
            (case writev_loop iov (ucast offs) (ucast sz)
                    (case ptr of None \<Rightarrow> 0 | Some p \<Rightarrow> unat p) (b_data (blob s)) of
               (r, d) \<Rightarrow> (r, (mem, s\<lparr>blob := (blob s)\<lparr>b_data := d\<rparr>\<rparr>))))"


section \<open>Between stuffers\<close>

definition s2n_stuffer_copy_impl :: "u32 \<Rightarrow> (s2n_stuffer \<times> mem_stuffer, unit) action" where
  "s2n_stuffer_copy_impl len = (\<lambda>(src, st).
     case s2n_stuffer_skip_read len src of
       (Inl e, src) \<Rightarrow> (Inl e, (src, st))
     | (Inr _, src) \<Rightarrow>
         (case s2n_stuffer_skip_write len st of
            (Inl e, st) \<Rightarrow> (Inl e, (src, st))
          | (Inr _, st) \<Rightarrow>
              (case on_stuffer (\<lambda>s. stuffer_memcpy (write_cursor s - len)
                       (map_option (drop (unat (read_cursor src - len))) (b_data (blob src))) len s) st of
                 (r, st) \<Rightarrow> (r, (src, st)))))"

definition s2n_stuffer_copy :: "u32 \<Rightarrow> (s2n_stuffer \<times> mem_stuffer, unit) action" where
  "s2n_stuffer_copy len = (\<lambda>(src, (mem, dst)).
     let orig_read_cursor = read_cursor src;
         orig_write_cursor = write_cursor dst
     in case s2n_stuffer_copy_impl len (src, (mem, dst)) of
          (Inl e, (src, (mem, dst))) \<Rightarrow>
            (Inl e, (src\<lparr>read_cursor := orig_read_cursor\<rparr>, (mem, dst\<lparr>write_cursor := orig_write_cursor\<rparr>)))
        | (Inr _, st) \<Rightarrow> (Inr (), st))"

definition s2n_stuffer_extract_blob :: "s2n_stuffer \<Rightarrow> (mem_blob, unit) action" where
  "s2n_stuffer_extract_blob s = (\<lambda>(mem, out).
     case s2n_realloc (s2n_stuffer_data_available s) (mem, out) of
       (Inl e, st) \<Rightarrow> (Inl e, st)
     | (Inr _, (mem, out)) \<Rightarrow>
         if s2n_stuffer_data_available s > 0
         then (case checked_memcpy (b_data out) 0 (b_data (blob s)) (unat (read_cursor s))
                      (unat (s2n_stuffer_data_available s)) of
                 Inl e \<Rightarrow> (Inl e, (mem, out))
               | Inr d \<Rightarrow> (Inr (), (mem, out\<lparr>b_data := d\<rparr>)))
         else (Inr (), (mem, out)))"

definition s2n_stuffer_shift :: "(mem_stuffer, unit) action" where
  "s2n_stuffer_shift = (\<lambda>(mem, s).
     let data = map_option (drop (unat (read_cursor s))) (b_data (blob s));
         data_size = s2n_stuffer_data_available s
     in case block [on_stuffer s2n_stuffer_rewrite, s2n_stuffer_write_bytes data data_size] (mem, s) of
          (Inl e, (mem, _)) \<Rightarrow> (Inl e, (mem, s))
        | (Inr _, (mem, cpy)) \<Rightarrow> (Inr (), (mem, cpy)))"


section \<open>The invariant\<close>

definition smem :: "s2n_stuffer \<Rightarrow> bytes" where
  "smem s = (case b_data (blob s) of None \<Rightarrow> [] | Some m \<Rightarrow> m)"

definition written :: "s2n_stuffer \<Rightarrow> bytes" where
  "written s = take (unat (write_cursor s)) (smem s)"

definition unread :: "s2n_stuffer \<Rightarrow> bytes" where
  "unread s = drop (unat (read_cursor s)) (written s)"

definition stuffer_wf :: "s2n_stuffer \<Rightarrow> bool" where
  "stuffer_wf s \<longleftrightarrow> s2n_stuffer_validate s \<and> blob_wf (blob s)"

definition st_ok :: "mem_stuffer \<Rightarrow> bool" where
  "st_ok = (\<lambda>(mem, s). mem_ok mem \<and> stuffer_wf s)"

lemma st_ok_pair [simp]: "st_ok (mem, s) \<longleftrightarrow> mem_ok mem \<and> stuffer_wf s"
  by (simp add: st_ok_def)

lemma stuffer_wf_cursors:
  assumes "stuffer_wf s"
  shows "unat (read_cursor s) \<le> unat (write_cursor s)"
    and "unat (write_cursor s) \<le> unat (high_water_mark s)"
    and "unat (high_water_mark s) \<le> unat (b_size (blob s))"
    and "unat (b_size (blob s)) \<le> length (smem s)"
    and "unat (b_allocated (blob s)) \<le> length (smem s)"
  using assms
  by (auto simp: stuffer_wf_def s2n_stuffer_validate_def word_le_unat smem_def blob_wf_def
      s2n_blob_validate_def split: option.splits)

lemma stuffer_wf_iff:
  "stuffer_wf s \<longleftrightarrow> blob_wf (blob s) \<and> (growable s \<longrightarrow> alloced s) \<and>
     unat (high_water_mark s) \<le> unat (b_size (blob s)) \<and>
     unat (write_cursor s) \<le> unat (high_water_mark s) \<and>
     unat (read_cursor s) \<le> unat (write_cursor s)"
  by (auto simp: stuffer_wf_def s2n_stuffer_validate_def blob_wf_def word_le_unat)

lemma length_written: "stuffer_wf s \<Longrightarrow> length (written s) = unat (write_cursor s)"
  using stuffer_wf_cursors [of s] by (simp add: written_def)

lemma length_unread: "stuffer_wf s \<Longrightarrow> length (unread s) = unat (write_cursor s) - unat (read_cursor s)"
  by (simp add: unread_def length_written)

lemma unat_data_available:
  "stuffer_wf s \<Longrightarrow> unat (s2n_stuffer_data_available s) = length (unread s)"
  using stuffer_wf_cursors(1) [of s]
  by (simp add: s2n_stuffer_data_available_def word_sub_unat word_le_unat length_unread)

lemma unat_space_remaining:
  "stuffer_wf s \<Longrightarrow>
   unat (s2n_stuffer_space_remaining s) = unat (b_size (blob s)) - unat (write_cursor s)"
  using stuffer_wf_cursors(2,3) [of s]
  by (simp add: s2n_stuffer_space_remaining_def word_sub_unat word_le_unat)

lemma data_available_le:
  "stuffer_wf s \<Longrightarrow> n \<le> s2n_stuffer_data_available s \<longleftrightarrow> unat n \<le> length (unread s)"
  by (simp add: word_le_unat unat_data_available)

lemma stuffer_wf_empty [simp]: "stuffer_wf empty_stuffer"
  by (simp add: stuffer_wf_iff empty_stuffer_def)

lemma stuffer_wf_init [simp]: "blob_wf b \<Longrightarrow> stuffer_wf (s2n_stuffer_init b)"
  by (simp add: stuffer_wf_iff s2n_stuffer_init_def)

lemma blob_wf_data_update:
  assumes "blob_wf b" and "b_data b = Some m" and "length m' = length m"
  shows "blob_wf (b\<lparr>b_data := Some m'\<rparr>)"
  using assms by (simp add: blob_wf_def s2n_blob_validate_def s2n_mem_is_readable_def)

lemma blob_wf_data_some:
  assumes "stuffer_wf s" and "write_cursor s \<noteq> 0 \<or> high_water_mark s \<noteq> 0 \<or> b_size (blob s) \<noteq> 0"
  obtains m where "b_data (blob s) = Some m"
proof -
  have "unat (b_size (blob s)) \<noteq> 0"
    using assms stuffer_wf_cursors(2,3) [OF assms(1)] by (auto simp: unat_eq_zero)
  then have "b_size (blob s) \<noteq> 0"
    by auto
  moreover have "blob_wf (blob s)"
    using assms(1) by (simp add: stuffer_wf_iff)
  ultimately show thesis
    using blob_wf_data that by blast
qed

definition set_data :: "bytes option \<Rightarrow> s2n_stuffer \<Rightarrow> s2n_stuffer" where
  "set_data d s = s\<lparr>blob := (blob s)\<lparr>b_data := d\<rparr>\<rparr>"

lemma set_data_fields [simp]:
  "read_cursor (set_data d s) = read_cursor s" "write_cursor (set_data d s) = write_cursor s"
  "high_water_mark (set_data d s) = high_water_mark s" "b_size (blob (set_data d s)) = b_size (blob s)"
  "alloced (set_data d s) = alloced s" "growable (set_data d s) = growable s"
  "tainted (set_data d s) = tainted s" "b_data (blob (set_data d s)) = d"
  by (simp_all add: set_data_def)

lemma set_data_same [simp]: "set_data (b_data (blob s)) s = s"
  by (simp add: set_data_def)

lemma stuffer_wf_set_data:
  assumes "stuffer_wf s" and "\<And>m. length m = length (smem s) \<Longrightarrow> length (f m) = length m"
  shows "stuffer_wf (set_data (map_option f (b_data (blob s))) s)"
  using assms
  by (cases "b_data (blob s)")
    (auto simp: stuffer_wf_iff set_data_def smem_def blob_wf_def s2n_blob_validate_def s2n_mem_is_readable_def)

lemma stuffer_memset_ok:
  assumes "stuffer_wf s" and "unat off + unat n \<le> unat (b_size (blob s))"
  shows "stuffer_memset off c n s =
      (Inr (), set_data (map_option (overwrite (unat off) (replicate (unat n) c)) (b_data (blob s))) s)"
    and "stuffer_wf (set_data (map_option (overwrite (unat off) (replicate (unat n) c)) (b_data (blob s))) s)"
proof -
  have le: "unat off + unat n \<le> length (smem s)"
    using assms(2) stuffer_wf_cursors(4) [OF assms(1)] by linarith
  then show "stuffer_wf (set_data (map_option (overwrite (unat off) (replicate (unat n) c)) (b_data (blob s))) s)"
    by (intro stuffer_wf_set_data assms(1)) simp
  show "stuffer_memset off c n s =
      (Inr (), set_data (map_option (overwrite (unat off) (replicate (unat n) c)) (b_data (blob s))) s)"
  proof (cases "n = 0")
    case True
    then show ?thesis
      by (cases "b_data (blob s)") (simp_all add: stuffer_memset_def set_data_def)
  next
    case False
    then have "0 < unat n"
      by (simp add: unat_gt_0)
    then have "b_size (blob s) \<noteq> 0"
      using assms(2) by auto
    then obtain m where m: "b_data (blob s) = Some m"
      using blob_wf_data_some [OF assms(1)] by blast
    then show ?thesis
      using False le by (simp add: stuffer_memset_def mem_write_overwrite smem_def set_data_def)
  qed
qed


section \<open>What each operation does\<close>

lemma skip_read_eq:
  "s2n_stuffer_skip_read n s =
     (if n \<le> s2n_stuffer_data_available s then (Inr (), s\<lparr>read_cursor := read_cursor s + n\<rparr>)
      else (Inl (Err S2N_ERR_STUFFER_OUT_OF_DATA), s))"
  by (simp add: s2n_stuffer_skip_read_def ensure_st_def modify_def)

lemma skip_read_ok:
  assumes "stuffer_wf s" and "unat n \<le> length (unread s)"
  shows "s2n_stuffer_skip_read n s = (Inr (), s\<lparr>read_cursor := read_cursor s + n\<rparr>)"
    and "unat (read_cursor s + n) = unat (read_cursor s) + unat n"
    and "stuffer_wf (s\<lparr>read_cursor := read_cursor s + n\<rparr>)"
    and "unread (s\<lparr>read_cursor := read_cursor s + n\<rparr>) = drop (unat n) (unread s)"
proof -
  have avail: "n \<le> s2n_stuffer_data_available s"
    using assms by (simp add: data_available_le)
  then show "s2n_stuffer_skip_read n s = (Inr (), s\<lparr>read_cursor := read_cursor s + n\<rparr>)"
    by (simp add: skip_read_eq)
  have "read_cursor s \<le> write_cursor s"
    using assms(1) by (simp add: stuffer_wf_def s2n_stuffer_validate_def)
  then show rn: "unat (read_cursor s + n) = unat (read_cursor s) + unat n"
    using avail unfolding s2n_stuffer_data_available_def by (rule unat_add_within)
  then show "stuffer_wf (s\<lparr>read_cursor := read_cursor s + n\<rparr>)"
    using assms by (auto simp: stuffer_wf_iff length_unread)
  show "unread (s\<lparr>read_cursor := read_cursor s + n\<rparr>) = drop (unat n) (unread s)"
    by (simp add: unread_def written_def smem_def rn add.commute [of "unat n"])
qed

lemma skip_read_short:
  assumes "stuffer_wf s" and "length (unread s) < unat n"
  shows "s2n_stuffer_skip_read n s = (Inl (Err S2N_ERR_STUFFER_OUT_OF_DATA), s)"
  using assms by (simp add: skip_read_eq data_available_le)

lemma safe_skip_read: "safe stuffer_wf (s2n_stuffer_skip_read n)"
proof (rule safeI)
  fix s assume "stuffer_wf s"
  then show "fst (s2n_stuffer_skip_read n s) \<noteq> Inl Undefined \<and> stuffer_wf (snd (s2n_stuffer_skip_read n s))"
    using skip_read_ok skip_read_short by (cases "unat n \<le> length (unread s)") auto
qed

lemma memcpy_out:
  assumes "n \<le> length d" and "off + n \<le> length m"
  shows "checked_memcpy (Some d) 0 (Some m) off n = Inr (Some (take n (drop off m) @ drop n d))"
  using assms by (auto simp: checked_memcpy_def mem_read_def mem_write_def)

text \<open>Reading into a buffer hands out the front of the unread bytes and consumes them.\<close>

lemma read_bytes_ok:
  assumes "stuffer_wf s" and "unat n \<le> length (unread s)" and "unat n \<le> length d" and "b_data (blob s) \<noteq> None"
  shows "s2n_stuffer_read_bytes (Some d) n s =
    (Inr (Some (take (unat n) (unread s) @ drop (unat n) d)), s\<lparr>read_cursor := read_cursor s + n\<rparr>)"
proof -
  obtain m where m: "b_data (blob s) = Some m"
    using assms(4) by auto
  note skip = skip_read_ok [OF assms(1,2)]
  have r: "read_cursor s + n - n = read_cursor s"
    by simp
  have len: "unat (read_cursor s) + unat n \<le> unat (write_cursor s)" "unat (write_cursor s) \<le> length m"
    using assms(2) stuffer_wf_cursors [OF assms(1)] m by (simp_all add: length_unread [OF assms(1)] smem_def)
  then have "take (unat n) (drop (unat (read_cursor s)) m) = take (unat n) (unread s)"
    using m by (simp add: unread_def written_def smem_def drop_take min_def)
  then show ?thesis
    using memcpy_out [of "unat n" d "unat (read_cursor s)" m] assms(3) len m
    by (simp add: s2n_stuffer_read_bytes_def andthen_def bnd_def ensure_def ensure_st_def skip(1) r)
qed

lemma read_bytes_short:
  assumes "stuffer_wf s" and "length (unread s) < unat n"
  shows "s2n_stuffer_read_bytes (Some d) n s = (Inl (Err S2N_ERR_STUFFER_OUT_OF_DATA), s)"
  using skip_read_short [OF assms]
  by (simp add: s2n_stuffer_read_bytes_def andthen_def bnd_def ensure_def)

lemma safe_read_bytes:
  assumes "readable d (unat n)"
  shows "safe stuffer_wf (s2n_stuffer_read_bytes d n)"
proof (rule safeI)
  fix s assume wf: "stuffer_wf s"
  consider "d = None" | d' where "d = Some d'" "length (unread s) < unat n"
    | d' where "d = Some d'" "unat n \<le> length (unread s)" "b_data (blob s) = None"
    | d' where "d = Some d'" "unat n \<le> length (unread s)" "b_data (blob s) \<noteq> None"
    by (cases d; cases "unat n \<le> length (unread s)"; cases "b_data (blob s) = None") (simp_all add: not_le)
  then show "fst (s2n_stuffer_read_bytes d n s) \<noteq> Inl Undefined \<and> stuffer_wf (snd (s2n_stuffer_read_bytes d n s))"
  proof cases
    case 1
    then show ?thesis
      using wf by (simp add: s2n_stuffer_read_bytes_def andthen_def bnd_def ensure_def)
  next
    case 2
    then show ?thesis using wf read_bytes_short by simp
  next
    case 3
    then show ?thesis
      using skip_read_ok [OF wf 3(2)]
      by (simp add: s2n_stuffer_read_bytes_def andthen_def bnd_def ensure_def ensure_st_def)
  next
    case 4
    then show ?thesis
      using wf assms read_bytes_ok [OF wf 4(2)] skip_read_ok(3) [OF wf 4(2)] by (simp add: readable_def)
  qed
qed

lemma safe_wipe_n: "safe stuffer_wf (s2n_stuffer_wipe_n n)"
proof (rule safeI)
  fix s assume wf: "stuffer_wf s"
  let ?k = "min n (write_cursor s)"
  let ?s = "s\<lparr>write_cursor := write_cursor s - ?k,
      read_cursor := min (read_cursor s) (write_cursor s - ?k)\<rparr>"
  have k: "unat (write_cursor s - ?k) = unat (write_cursor s) - unat ?k" "unat ?k \<le> unat (write_cursor s)"
    by (simp_all add: word_sub_unat word_le_unat min_def)
  have "stuffer_wf ?s"
    using wf k by (auto simp: stuffer_wf_iff min_def word_le_unat)
  moreover have "unat (write_cursor ?s) + unat ?k \<le> unat (b_size (blob ?s))"
    using stuffer_wf_cursors [OF wf] k by simp
  ultimately show "fst (s2n_stuffer_wipe_n n s) \<noteq> Inl Undefined \<and> stuffer_wf (snd (s2n_stuffer_wipe_n n s))"
    using stuffer_memset_ok [of ?s "write_cursor ?s" ?k S2N_WIPE_PATTERN]
    by (simp add: s2n_stuffer_wipe_n_def Let_def)
qed

text \<open>Wiping overwrites every byte that was ever written and empties the stuffer.\<close>

definition wiped :: "s2n_stuffer \<Rightarrow> s2n_stuffer" where
  "wiped s = (set_data (map_option (overwrite 0 (replicate (unat (high_water_mark s)) S2N_WIPE_PATTERN))
      (b_data (blob s))) s)\<lparr>tainted := False, write_cursor := 0, read_cursor := 0, high_water_mark := 0\<rparr>"

lemma wipe_ok:
  assumes wf: "stuffer_wf s"
  shows "s2n_stuffer_wipe s = (Inr (), wiped s)" and "stuffer_wf (wiped s)"
proof -
  have le: "unat 0 + unat (high_water_mark s) \<le> unat (b_size (blob s))"
    using stuffer_wf_cursors [OF wf] by simp
  note set = stuffer_memset_ok [OF wf le, of S2N_WIPE_PATTERN]
  show "stuffer_wf (wiped s)"
    using set(2) by (simp add: wiped_def stuffer_wf_iff)
  have "stuffer_memset 0 S2N_WIPE_PATTERN (high_water_mark s) s = (Inr (), s)" if "s2n_stuffer_is_wiped s"
    using that by (simp add: stuffer_memset_def s2n_stuffer_is_wiped_def)
  then have "s2n_stuffer_wipe s = block [stuffer_memset 0 S2N_WIPE_PATTERN (high_water_mark s),
      modify (\<lambda>s. s\<lparr>tainted := False, write_cursor := 0, read_cursor := 0, high_water_mark := 0\<rparr>)] s"
    by (simp add: s2n_stuffer_wipe_def split: prod.splits)
  then show "s2n_stuffer_wipe s = (Inr (), wiped s)"
    using set(1) by (simp add: wiped_def modify_def)
qed

lemma safe_wipe: "safe stuffer_wf s2n_stuffer_wipe"
  by (rule safeI) (simp add: wipe_ok)

lemma safe_rewrite: "safe stuffer_wf s2n_stuffer_rewrite"
  unfolding s2n_stuffer_rewrite_def by (rule safe_modify) (simp add: stuffer_wf_iff)

lemma safe_reread: "safe stuffer_wf s2n_stuffer_reread"
  unfolding s2n_stuffer_reread_def by (rule safe_modify) (simp add: stuffer_wf_iff)

lemma safe_rewind_read: "safe stuffer_wf (s2n_stuffer_rewind_read n)"
  by (rule safeI) (auto simp: s2n_stuffer_rewind_read_def ensure_st_def modify_def stuffer_wf_iff word_sub_unat)

lemma safe_raw_read: "safe stuffer_wf (s2n_stuffer_raw_read n)"
  unfolding s2n_stuffer_raw_read_def
  by (intro safe_andthen safe_block) (auto simp: safe_skip_read stuffer_wf_iff intro: safe_modify)

lemma safe_on_stuffer:
  assumes "safe stuffer_wf m" shows "safe st_ok (on_stuffer m)"
  using assms by (auto simp: safe_def on_stuffer_def zoom_def split: prod.splits)


section \<open>Growth and writing\<close>

text \<open>
  What an operation that may reallocate guarantees: only the blob changes, the invariant is kept,
  and after success at least \<open>need\<close> bytes of capacity are there and everything below the high
  water mark is as it was.
\<close>

definition only_blob :: "s2n_stuffer \<Rightarrow> s2n_stuffer \<Rightarrow> bool" where
  "only_blob s s' \<longleftrightarrow> (\<exists>b. s' = s\<lparr>blob := b\<rparr>)"

lemma only_blob_refl [simp]: "only_blob s s"
  by (auto simp: only_blob_def intro: exI [of _ "blob s"])

lemma only_blob_update [simp]: "only_blob s (s\<lparr>blob := b\<rparr>)"
  by (auto simp: only_blob_def)

lemma only_blob_fields:
  assumes "only_blob s s'"
  shows "read_cursor s' = read_cursor s" "write_cursor s' = write_cursor s"
    "high_water_mark s' = high_water_mark s" "growable s' = growable s" "alloced s' = alloced s"
    "tainted s' = tainted s"
  using assms by (auto simp: only_blob_def)

definition regrown :: "nat \<Rightarrow> mem_stuffer \<Rightarrow> unit result \<times> mem_stuffer \<Rightarrow> bool" where
  "regrown need st res =
     (case (st, res) of ((mem, s), (r, (mem', s'))) \<Rightarrow>
        mem_same mem mem' \<and> r \<noteq> Inl Undefined \<and> stuffer_wf s' \<and> only_blob s s' \<and>
        (r = Inr () \<longrightarrow> need \<le> unat (b_size (blob s')) \<and>
           take (unat (high_water_mark s)) (smem s') = take (unat (high_water_mark s)) (smem s)))"

lemma take_eq_shorter: "take m xs = take m ys \<Longrightarrow> n \<le> m \<Longrightarrow> take n xs = take n ys"
  by (metis min.absorb1 take_take)

lemma smem_blob_bytes:
  "n \<le> unat (b_size (blob s)) \<Longrightarrow> take n (smem s) = take n (blob_bytes (blob s))"
  by (simp add: smem_def blob_bytes_def min_def split: option.splits)

lemma on_blob_eq:
  "on_blob m (mem, s) = (case m (mem, blob s) of (r, (mem', b')) \<Rightarrow> (r, (mem', s\<lparr>blob := b'\<rparr>)))"
  by (simp add: on_blob_def zoom_def split: prod.splits)

lemma regrown_realloc:
  assumes "mem_ok mem" and "stuffer_wf s" and "b_size (blob s) \<le> sz"
  shows "regrown (unat sz) (mem, s) (on_blob (s2n_realloc sz) (mem, s))"
proof -
  have wf: "blob_wf (blob s)"
    using assms(2) by (simp add: stuffer_wf_iff)
  obtain r mem' b' where run: "s2n_realloc sz (mem, blob s) = (r, (mem', b'))"
    by (cases "s2n_realloc sz (mem, blob s)") auto
  have post: "realloc_keeps (mem, blob s) sz (r, (mem', b'))"
    using s2n_realloc_keeps [OF assms(1) wf, of sz] run by simp
  have le: "unat (b_size (blob s)) \<le> unat sz"
    using assms(3) by (simp add: word_le_unat)
  have size: "unat (b_size (blob s)) \<le> unat (b_size b')"
    using post le by (cases "r = Inr ()") (auto simp: realloc_keeps_def)
  have wf': "stuffer_wf (s\<lparr>blob := b'\<rparr>)"
    using assms(2) post size by (auto simp: stuffer_wf_iff realloc_keeps_def)
  have front: "take (unat (high_water_mark s)) (smem (s\<lparr>blob := b'\<rparr>)) = take (unat (high_water_mark s)) (smem s)"
    if "r = Inr ()"
  proof -
    have "take (unat (b_size (blob s))) (blob_bytes b') = take (unat (b_size (blob s))) (blob_bytes (blob s))"
      using post that le by (simp add: realloc_keeps_def Let_def min.absorb1)
    then have "take (unat (high_water_mark s)) (blob_bytes b') = take (unat (high_water_mark s)) (blob_bytes (blob s))"
      using stuffer_wf_cursors(3) [OF assms(2)] by (rule take_eq_shorter)
    then show ?thesis
      using stuffer_wf_cursors(3) [OF assms(2)] size by (simp add: smem_blob_bytes)
  qed
  show ?thesis
    using post wf' front by (simp add: regrown_def on_blob_eq run realloc_keeps_def)
qed

lemma regrown_fail: "stuffer_wf s \<Longrightarrow> regrown k (mem, s) (Inl (Err e), (mem, s))"
  by (simp add: regrown_def)

lemma resize_grow:
  assumes "mem_ok mem" and "stuffer_wf s" and "b_size (blob s) < sz"
  shows "regrown (unat sz) (mem, s) (s2n_stuffer_resize sz (mem, s))"
proof -
  have "sz \<noteq> 0" "sz \<noteq> b_size (blob s)" "\<not> sz < b_size (blob s)"
    using assms(3) by (auto simp: word_less_unat)
  then have "s2n_stuffer_resize sz (mem, s) =
     (if tainted s then (Inl (Err S2N_ERR_RESIZE_TAINTED_STUFFER), (mem, s))
      else if \<not> growable s then (Inl (Err S2N_ERR_RESIZE_STATIC_STUFFER), (mem, s))
      else on_blob (s2n_realloc sz) (mem, s))"
    by (auto simp: s2n_stuffer_resize_def ensure_st_def split: prod.splits sum.splits)
  then show ?thesis
    using regrown_realloc [OF assms(1,2)] regrown_fail [OF assms(2)] assms(3) by simp
qed

lemma reserve_space_room:
  assumes "unat n \<le> unat (s2n_stuffer_space_remaining s)"
  shows "s2n_stuffer_reserve_space n (mem, s) = (Inr (), (mem, s))"
  using assms by (simp add: s2n_stuffer_reserve_space_def word_less_unat)

lemma reserve_space_spec:
  assumes mem: "mem_ok mem" and wf: "stuffer_wf s"
  shows "regrown (unat (write_cursor s) + unat n) (mem, s) (s2n_stuffer_reserve_space n (mem, s))"
proof (cases "unat n \<le> unat (s2n_stuffer_space_remaining s)")
  case True
  then show ?thesis
    using stuffer_wf_cursors [OF wf] wf
    by (simp add: reserve_space_room regrown_def unat_space_remaining)
next
  case False
  let ?growth = "max (n - s2n_stuffer_space_remaining s) S2N_MIN_STUFFER_GROWTH_IN_BYTES"
  have "unat (n - s2n_stuffer_space_remaining s) = unat n - unat (s2n_stuffer_space_remaining s)"
    using False by (simp add: word_sub_unat word_le_unat)
  moreover have "unat (n - s2n_stuffer_space_remaining s) \<le> unat ?growth" "1024 \<le> unat ?growth"
    by (simp_all add: max_def word_le_unat)
  ultimately have g: "unat n - unat (s2n_stuffer_space_remaining s) \<le> unat ?growth" "0 < unat ?growth"
    by linarith+
  show ?thesis
  proof (cases "growable s \<and> unat (b_size (blob s)) + unat ?growth \<le> UINT32_MAX")
    case True
    let ?sz = "b_size (blob s) + ?growth"
    have sz: "unat ?sz = unat (b_size (blob s)) + unat ?growth"
      using True by (intro word_add_unat) simp
    then have "regrown (unat ?sz) (mem, s) (s2n_stuffer_resize ?sz (mem, s))"
      using g by (intro resize_grow mem wf) (simp add: word_less_unat)
    moreover have "unat (write_cursor s) + unat n \<le> unat ?sz"
      using g sz stuffer_wf_cursors [OF wf] by (simp add: unat_space_remaining [OF wf])
    moreover have "s2n_stuffer_reserve_space n (mem, s) = s2n_stuffer_resize ?sz (mem, s)"
      using True False
      by (simp add: s2n_stuffer_reserve_space_def word_less_unat s2n_add_overflow_spec Let_def)
    ultimately show ?thesis
      by (auto simp: regrown_def split: prod.splits)
  next
    case no: False
    then show ?thesis
      using False wf
      by (auto simp: s2n_stuffer_reserve_space_def word_less_unat s2n_add_overflow_spec Let_def
          intro: regrown_fail)
  qed
qed

definition advanced :: "u32 \<Rightarrow> s2n_stuffer \<Rightarrow> s2n_stuffer" where
  "advanced n s = s\<lparr>write_cursor := write_cursor s + n,
     high_water_mark := max (write_cursor s + n) (high_water_mark s)\<rparr>"

lemma advanced_fields [simp]:
  "blob (advanced n s) = blob s" "read_cursor (advanced n s) = read_cursor s"
  "write_cursor (advanced n s) = write_cursor s + n" "smem (advanced n s) = smem s"
  "growable (advanced n s) = growable s" "alloced (advanced n s) = alloced s"
  "tainted (advanced n s) = tainted s"
  by (simp_all add: advanced_def smem_def)

lemma advanced_wf:
  assumes "stuffer_wf s" and "unat (write_cursor s) + unat n \<le> unat (b_size (blob s))"
  shows "stuffer_wf (advanced n s)" and "unat (write_cursor s + n) = unat (write_cursor s) + unat n"
proof -
  show w: "unat (write_cursor s + n) = unat (write_cursor s) + unat n"
    using assms(2) unat_u32_less [of "b_size (blob s)"] by (intro word_add_unat) simp
  show "stuffer_wf (advanced n s)"
    using assms w by (auto simp: stuffer_wf_iff advanced_def max_def word_le_unat)
qed

lemma skip_write_eq:
  "s2n_stuffer_skip_write n (mem, s) =
     (case s2n_stuffer_reserve_space n (mem, s) of
        (Inl e, st) \<Rightarrow> (Inl e, st)
      | (Inr _, (mem', s')) \<Rightarrow> (Inr (), (mem', advanced n s')))"
  by (auto simp: s2n_stuffer_skip_write_def on_stuffer_def zoom_def modify_def advanced_def
      split: prod.splits sum.splits)

lemma skip_write_room:
  assumes "unat n \<le> unat (s2n_stuffer_space_remaining s)"
  shows "s2n_stuffer_skip_write n (mem, s) = (Inr (), (mem, advanced n s))"
  by (simp add: skip_write_eq reserve_space_room [OF assms])

lemma skip_write_spec:
  assumes mem: "mem_ok mem" and wf: "stuffer_wf s"
    and run: "s2n_stuffer_skip_write n (mem, s) = (r, (mem', s'))"
  obtains (fail) e where "r = Inl (Err e)" and "mem_same mem mem'" and "stuffer_wf s'" and "only_blob s s'"
  | (ok) t where "r = Inr ()" and "mem_same mem mem'" and "stuffer_wf t" and "only_blob s t"
    and "s' = advanced n t" and "stuffer_wf s'"
    and "unat (write_cursor s') = unat (write_cursor s) + unat n"
    and "unat (write_cursor s) + unat n \<le> unat (b_size (blob t))"
    and "take (unat (write_cursor s)) (smem s') = written s"
proof -
  obtain r1 mem1 t where res: "s2n_stuffer_reserve_space n (mem, s) = (r1, (mem1, t))"
    by (cases "s2n_stuffer_reserve_space n (mem, s)") auto
  have g: "regrown (unat (write_cursor s) + unat n) (mem, s) (r1, (mem1, t))"
    using reserve_space_spec [OF mem wf, of n] res by simp
  show thesis
  proof (cases r1)
    case (Inl e)
    then obtain e' where "r = Inl (Err e')" "s' = t" "mem' = mem1"
      using run res g by (cases e) (auto simp: skip_write_eq regrown_def)
    then show thesis
      using g by (intro fail [of e']) (auto simp: regrown_def)
  next
    case (Inr u)
    then have st: "r = Inr ()" "s' = advanced n t" "mem' = mem1"
      using run res by (auto simp: skip_write_eq)
    have t: "stuffer_wf t" "only_blob s t" "mem_same mem mem1"
      "unat (write_cursor s) + unat n \<le> unat (b_size (blob t))"
      "take (unat (high_water_mark s)) (smem t) = take (unat (high_water_mark s)) (smem s)"
      using g Inr by (auto simp: regrown_def)
    have "take (unat (write_cursor s)) (smem s') = written s"
      using take_eq_shorter [OF t(5) stuffer_wf_cursors(2) [OF wf]] by (simp add: st written_def)
    moreover have "unat (write_cursor t) + unat n \<le> unat (b_size (blob t))"
      using t by (simp add: only_blob_fields)
    ultimately show thesis
      using ok [of t] t st advanced_wf [of t n] by (simp add: only_blob_fields)
  qed
qed

lemma safe_skip_write: "safe st_ok (s2n_stuffer_skip_write n)"
proof (rule safeI)
  fix st assume "st_ok st"
  then obtain mem s where st: "st = (mem, s)" "mem_ok mem" "stuffer_wf s"
    by (cases st) auto
  obtain r mem' s' where run: "s2n_stuffer_skip_write n (mem, s) = (r, (mem', s'))"
    by (cases "s2n_stuffer_skip_write n (mem, s)") auto
  from st(2,3) run show "fst (s2n_stuffer_skip_write n st) \<noteq> Inl Undefined \<and> st_ok (snd (s2n_stuffer_skip_write n st))"
    by (rule skip_write_spec) (use st run mem_same_ok in auto)
qed

lemma stuffer_memcpy_ok:
  assumes wf: "stuffer_wf s" and "unat off + unat n \<le> unat (b_size (blob s))" and "unat n \<le> length d"
  shows "stuffer_memcpy off (Some d) n s =
      (Inr (), set_data (map_option (overwrite (unat off) (take (unat n) d)) (b_data (blob s))) s)"
    and "stuffer_wf (set_data (map_option (overwrite (unat off) (take (unat n) d)) (b_data (blob s))) s)"
proof -
  have le: "unat off + unat n \<le> length (smem s)"
    using assms(2) stuffer_wf_cursors(4) [OF wf] by linarith
  then show "stuffer_wf (set_data (map_option (overwrite (unat off) (take (unat n) d)) (b_data (blob s))) s)"
    using assms(3) by (intro stuffer_wf_set_data wf) (simp add: min_def)
  show "stuffer_memcpy off (Some d) n s =
      (Inr (), set_data (map_option (overwrite (unat off) (take (unat n) d)) (b_data (blob s))) s)"
  proof (cases "n = 0")
    case True
    then show ?thesis
      by (cases "b_data (blob s)") (simp_all add: stuffer_memcpy_def checked_memcpy_def set_data_def)
  next
    case False
    then have "b_size (blob s) \<noteq> 0"
      using assms(2) by (auto simp: unat_eq_zero)
    then obtain m where m: "b_data (blob s) = Some m"
      using blob_wf_data_some [OF wf] by blast
    then show ?thesis
      using False le assms(3)
      by (simp add: stuffer_memcpy_def checked_memcpy_def mem_read_def mem_write_overwrite smem_def set_data_def
          unat_eq_zero)
  qed
qed

text \<open>The bytes written so far are extended by the source buffer; nothing else observable moves.\<close>

definition appended :: "bytes \<Rightarrow> s2n_stuffer \<Rightarrow> s2n_stuffer \<Rightarrow> bool" where
  "appended bs s s' \<longleftrightarrow> stuffer_wf s' \<and> read_cursor s' = read_cursor s \<and>
     unat (write_cursor s') = unat (write_cursor s) + length bs \<and> written s' = written s @ bs \<and>
     growable s' = growable s \<and> alloced s' = alloced s \<and> tainted s' = tainted s"

lemma appended_unread:
  assumes "stuffer_wf s" and "appended bs s s'"
  shows "unread s' = unread s @ bs"
  using assms stuffer_wf_cursors(1) [OF assms(1)]
  by (simp add: unread_def appended_def length_written)

lemma write_bytes_spec:
  assumes mem: "mem_ok mem" and wf: "stuffer_wf s" and d: "unat n \<le> length d"
    and run: "s2n_stuffer_write_bytes (Some d) n (mem, s) = (r, (mem', s'))"
  obtains (fail) e where "r = Inl (Err e)" and "mem_same mem mem'" and "stuffer_wf s'" and "only_blob s s'"
  | (ok) "r = Inr ()" and "mem_same mem mem'" and "appended (take (unat n) d) s s'"
proof (cases "n = 0")
  case True
  then show thesis
    using run wf by (intro ok) (auto simp: s2n_stuffer_write_bytes_def ret_def appended_def)
next
  case False
  obtain r1 mem1 s1 where sk: "s2n_stuffer_skip_write n (mem, s) = (r1, (mem1, s1))"
    by (cases "s2n_stuffer_skip_write n (mem, s)") auto
  have w: "s2n_stuffer_write_bytes (Some d) n (mem, s) =
      (case (r1, (mem1, s1)) of (Inl e, st) \<Rightarrow> (Inl e, st)
       | (Inr _, st) \<Rightarrow> block [ensure_st (\<lambda>(mem, s). s2n_mem_is_readable (b_data (blob s)) n) S2N_ERR_NULL,
            on_stuffer (\<lambda>s. stuffer_memcpy (write_cursor s - n) (Some d) n s)] st)"
    using False
    by (simp add: s2n_stuffer_write_bytes_def ensure_def s2n_mem_is_readable_def sk split: sum.splits)
  from mem wf sk show thesis
  proof (cases rule: skip_write_spec)
    case (fail e)
    then show thesis
      using run w by (intro that(1) [of e]) auto
  next
    case (ok t)
    have off: "write_cursor s1 - n = write_cursor s"
      using ok by (simp add: only_blob_fields)
    have le: "unat (write_cursor s) + unat n \<le> unat (b_size (blob s1))"
      using ok by simp
    note cp = stuffer_memcpy_ok [OF ok(6) le d]
    have "b_size (blob s1) \<noteq> 0"
      using le False by (auto simp: unat_eq_zero)
    then obtain m where m: "b_data (blob s1) = Some m"
      using blob_wf_data_some [OF ok(6)] by blast
    let ?s' = "set_data (map_option (overwrite (unat (write_cursor s)) (take (unat n) d)) (b_data (blob s1))) s1"
    have st: "r = Inr ()" "mem' = mem1" "s' = ?s'"
      using run w m cp(1) ok(1)
      by (simp_all add: ensure_st_def s2n_mem_is_readable_def on_stuffer_def zoom_def off)
    have "unat (write_cursor s) \<le> length m"
      using le stuffer_wf_cursors(4) [OF ok(6)] m by (simp add: smem_def)
    then have "written ?s' = take (unat (write_cursor s)) m @ take (unat n) d"
      using take_overwrite_end [of "unat (write_cursor s)" m "take (unat n) d"] m d ok(7)
      by (simp add: written_def smem_def min.absorb2)
    then have "appended (take (unat n) d) s ?s'"
      using cp(2) ok m d by (simp add: appended_def only_blob_fields smem_def min.absorb2)
    with st ok(2) show thesis
      by (intro that(2)) simp_all
  qed
qed

lemma regrown_st_ok:
  assumes "regrown k (mem, s) res" and "mem_ok mem"
  shows "fst res \<noteq> Inl Undefined \<and> st_ok (snd res)"
  using assms mem_same_ok by (auto simp: regrown_def split: prod.splits)

lemma safe_write_bytes:
  assumes "readable d (unat n)"
  shows "safe st_ok (s2n_stuffer_write_bytes d n)"
proof (rule safeI)
  fix st assume "st_ok st"
  then obtain mem s where st: "st = (mem, s)" "mem_ok mem" "stuffer_wf s"
    by (cases st) auto
  obtain r mem' s' where run: "s2n_stuffer_write_bytes d n (mem, s) = (r, (mem', s'))"
    by (cases "s2n_stuffer_write_bytes d n (mem, s)") auto
  show "fst (s2n_stuffer_write_bytes d n st) \<noteq> Inl Undefined \<and> st_ok (snd (s2n_stuffer_write_bytes d n st))"
  proof (cases d)
    case None
    then show ?thesis
      using st by (simp add: s2n_stuffer_write_bytes_def ret_def ensure_def s2n_mem_is_readable_def)
  next
    case (Some x)
    then have "unat n \<le> length x"
      using assms by (simp add: readable_def)
    from st(2,3) this run [unfolded Some] show ?thesis
      by (rule write_bytes_spec) (use st run Some mem_same_ok in \<open>auto simp: appended_def\<close>)
  qed
qed

lemma write_bytes_room:
  assumes wf: "stuffer_wf s" and mem: "mem_ok mem" and "unat n \<le> unat (s2n_stuffer_space_remaining s)"
    and d: "unat n \<le> length d"
  obtains s' where "s2n_stuffer_write_bytes (Some d) n (mem, s) = (Inr (), (mem, s'))"
    and "appended (take (unat n) d) s s'" and "b_size (blob s') = b_size (blob s)"
    and "high_water_mark s' = max (write_cursor s + n) (high_water_mark s)"
proof (cases "n = 0")
  case True
  have "max (write_cursor s) (high_water_mark s) = high_water_mark s"
    using stuffer_wf_cursors(2) [OF wf] by (simp add: max_def word_le_unat)
  with True show thesis
    using wf by (intro that [of s]) (simp_all add: s2n_stuffer_write_bytes_def ret_def appended_def)
next
  case False
  have le: "unat (write_cursor s) + unat n \<le> unat (b_size (blob s))"
    using assms(3) stuffer_wf_cursors [OF wf] by (simp add: unat_space_remaining [OF wf])
  note adv = advanced_wf [OF wf le]
  have "b_size (blob s) \<noteq> 0"
    using le False by (auto simp: unat_eq_zero)
  then obtain m where m: "b_data (blob s) = Some m"
    using blob_wf_data_some [OF wf] by blast
  let ?s' = "set_data (map_option (overwrite (unat (write_cursor s)) (take (unat n) d)) (b_data (blob s))) (advanced n s)"
  have run: "s2n_stuffer_write_bytes (Some d) n (mem, s) = (Inr (), (mem, ?s'))"
    using stuffer_memcpy_ok(1) [OF adv(1), of "write_cursor s" n d] le d False m
    by (simp add: s2n_stuffer_write_bytes_def ensure_def s2n_mem_is_readable_def skip_write_room [OF assms(3)]
        ensure_st_def on_stuffer_def zoom_def)
  moreover have "appended (take (unat n) d) s ?s'"
    using mem wf d run by (rule write_bytes_spec) simp_all
  ultimately show thesis
    by (intro that [of ?s']) (simp_all add: advanced_def)
qed

lemma resize_shrink_wf:
  assumes wf: "stuffer_wf s" and sz: "sz < b_size (blob s)"
  obtains s' where "resize_shrink sz s = (Inr (), s')" and "stuffer_wf s'"
    and "b_size (blob s') = sz" and "written s' = take (unat sz) (written s)"
    and "read_cursor s' = min (read_cursor s) sz"
proof -
  let ?n = "b_size (blob s) - sz"
  have n: "unat sz + unat ?n = unat (b_size (blob s))"
    using sz word_sub_unat [of sz "b_size (blob s)"] by (simp add: word_less_unat word_le_unat)
  note set = stuffer_memset_ok [OF wf, of sz ?n S2N_WIPE_PATTERN]
  let ?f = "overwrite (unat sz) (replicate (unat ?n) S2N_WIPE_PATTERN)"
  let ?s = "set_data (map_option ?f (b_data (blob s))) s"
  let ?s' = "?s\<lparr>read_cursor := min (read_cursor s) sz, write_cursor := min (write_cursor s) sz,
      high_water_mark := min (high_water_mark s) sz, blob := (blob ?s)\<lparr>b_size := sz\<rparr>\<rparr>"
  have "resize_shrink sz s = (Inr (), ?s')"
    using set(1) n by (auto simp: resize_shrink_def modify_def min_def set_data_def not_less)
  moreover have "blob_wf (blob ?s)" "sz < b_size (blob ?s)"
    using set(2) n sz by (simp_all add: stuffer_wf_iff)
  then have "blob_wf ((blob ?s)\<lparr>b_size := sz\<rparr>)"
    by (auto simp: blob_wf_def s2n_blob_validate_def s2n_mem_is_readable_def word_less_unat word_le_unat
        split: option.splits)
  then have "stuffer_wf ?s'"
    using set(2) n by (auto simp: stuffer_wf_iff min_def word_le_unat)
  moreover have "written ?s' = take (unat sz) (written s)"
  proof -
    have "unat sz \<le> length (smem s)"
      using n stuffer_wf_cursors(4) [OF wf] by linarith
    then have "take (unat (min (write_cursor s) sz)) (smem ?s) = take (unat (min (write_cursor s) sz)) (smem s)"
      by (cases "b_data (blob s)") (simp_all add: smem_def take_overwrite word_le_unat min_def)
    then show ?thesis
      by (simp add: written_def smem_def min_def word_le_unat)
  qed
  ultimately show thesis
    by (intro that [of ?s']) simp_all
qed

lemma st_ok_blob:
  assumes "stuffer_wf s" and "mem_ok mem" and "mem_same mem mem'" and "blob_wf b"
    and "unat (high_water_mark s) \<le> unat (b_size b)"
  shows "st_ok (mem', s\<lparr>blob := b\<rparr>)"
  using assms mem_same_ok by (auto simp: stuffer_wf_iff)

lemma free_st_ok:
  assumes "mem_ok mem" and "stuffer_wf s" and "high_water_mark s = 0"
  shows "fst (on_blob s2n_free (mem, s)) \<noteq> Inl Undefined \<and> st_ok (snd (on_blob s2n_free (mem, s)))"
proof -
  have b: "blob_wf (blob s)"
    using assms(2) by (simp add: stuffer_wf_iff)
  obtain r mem' b' where run: "s2n_free (mem, blob s) = (r, (mem', b'))"
    by (cases "s2n_free (mem, blob s)") auto
  show ?thesis
    using s2n_free_cases [OF b run] st_ok_blob [OF assms(2,1)] assms(3) by (simp add: on_blob_eq run)
qed

lemma safe_resize: "safe st_ok (s2n_stuffer_resize sz)"
  unfolding s2n_stuffer_resize_def
proof (intro safe_block, simp only: list.set insert_iff empty_iff simp_thms, elim disjE; hypsubst)
  let ?act = "\<lambda>(mem, s).
        if sz = b_size (blob s) then (Inr (), (mem, s))
        else if sz = 0 then
          (case on_stuffer s2n_stuffer_wipe (mem, s) of
             (Inl Undefined, st) \<Rightarrow> (Inl Undefined, st)
           | (_, st) \<Rightarrow> on_blob s2n_free st)
        else if sz < b_size (blob s) then on_stuffer (resize_shrink sz) (mem, s)
        else on_blob (s2n_realloc sz) (mem, s)"
  show "safe st_ok ?act"
  proof (rule safeI)
    fix st assume "st_ok st"
    then obtain mem s where st: "st = (mem, s)" "mem_ok mem" "stuffer_wf s"
      by (cases st) auto
    consider "sz = b_size (blob s)" | "sz \<noteq> b_size (blob s)" "sz = 0"
      | "sz \<noteq> 0" "sz < b_size (blob s)" | "sz \<noteq> 0" "b_size (blob s) < sz"
      by (cases "sz = 0"; cases sz "b_size (blob s)" rule: linorder_cases) simp_all
    then show "fst (?act st) \<noteq> Inl Undefined \<and> st_ok (snd (?act st))"
    proof cases
      case 1
      then show ?thesis using st by simp
    next
      case 2
      have "high_water_mark (wiped s) = 0"
        by (simp add: wiped_def)
      then have "fst (on_blob s2n_free (mem, wiped s)) \<noteq> Inl Undefined \<and> st_ok (snd (on_blob s2n_free (mem, wiped s)))"
        using st wipe_ok by (intro free_st_ok) simp_all
      then show ?thesis
        using 2 st wipe_ok [OF st(3)] by (simp add: on_stuffer_def zoom_def)
    next
      case 3
      from st(3) 3(2) show ?thesis
        by (rule resize_shrink_wf) (use st 3 in \<open>simp add: on_stuffer_def zoom_def\<close>)
    next
      case 4
      then show ?thesis
        using st regrown_st_ok [OF regrown_realloc [OF st(2,3)] st(2), of sz] by (auto simp: not_less)
    qed
  qed
qed simp_all

lemma safe_resize_if_empty: "safe st_ok (s2n_stuffer_resize_if_empty sz)"
proof (rule safeI)
  fix st assume "st_ok st"
  then obtain mem s where st: "st = (mem, s)" "mem_ok mem" "stuffer_wf s"
    by (cases st) auto
  show "fst (s2n_stuffer_resize_if_empty sz st) \<noteq> Inl Undefined \<and> st_ok (snd (s2n_stuffer_resize_if_empty sz st))"
  proof (cases "b_data (blob s) = None")
    case True
    then have "b_size (blob s) = 0"
      using st(3) by (simp add: stuffer_wf_iff blob_wf_def s2n_blob_validate_def)
    then have "fst (on_blob (s2n_realloc sz) (mem, s)) \<noteq> Inl Undefined \<and> st_ok (snd (on_blob (s2n_realloc sz) (mem, s)))"
      by (intro regrown_st_ok [OF regrown_realloc [OF st(2,3)] st(2)]) simp
    then show ?thesis
      using True st by (auto simp: s2n_stuffer_resize_if_empty_def ensure_st_def split: prod.splits sum.splits)
  next
    case False
    then show ?thesis
      using st by (auto simp: s2n_stuffer_resize_if_empty_def)
  qed
qed

lemma alloc_spec:
  assumes mem: "mem_ok mem" and run: "s2n_stuffer_alloc sz (mem, s) = (r, (mem', s'))"
  shows "mem_same mem mem'" and "r \<noteq> Inl Undefined" and "stuffer_wf s'"
    and "r = Inr () \<Longrightarrow> written s' = [] \<and> unread s' = [] \<and> alloced s' \<and> \<not> tainted s' \<and> \<not> growable s' \<and>
           b_size (blob s') = sz"
proof -
  obtain r1 mem1 b1 where a: "s2n_alloc sz (mem, empty_blob) = (r1, (mem1, b1))"
    by (cases "s2n_alloc sz (mem, empty_blob)") auto
  have keep: "realloc_keeps (mem, empty_blob) sz (r1, (mem1, b1))"
    using a s2n_realloc_keeps [OF mem blob_wf_empty, of sz]
    by (auto simp: s2n_alloc_def realloc_keeps_def split: if_splits)
  have blob: "blob empty_stuffer = empty_blob"
    by (simp add: empty_stuffer_def)
  have res: "r = r1" "mem' = mem1"
    "s' = (if r1 = Inr () then (s2n_stuffer_init b1)\<lparr>alloced := True\<rparr> else empty_stuffer\<lparr>blob := b1\<rparr>)"
    using run a
    by (auto simp: s2n_stuffer_alloc_def on_stuffer_def zoom_def modify_def on_blob_eq blob split: sum.splits prod.splits if_splits)
  show "mem_same mem mem'" "r \<noteq> Inl Undefined"
    using keep res by (simp_all add: realloc_keeps_def)
  show "stuffer_wf s'"
    using keep res by (auto simp: realloc_keeps_def stuffer_wf_iff s2n_stuffer_init_def empty_stuffer_def)
  show "r = Inr () \<Longrightarrow> written s' = [] \<and> unread s' = [] \<and> alloced s' \<and> \<not> tainted s' \<and> \<not> growable s' \<and>
      b_size (blob s') = sz"
    using keep res by (auto simp: realloc_keeps_def written_def unread_def s2n_stuffer_init_def)
qed

lemma growable_alloc_eq:
  "s2n_stuffer_growable_alloc sz (mem, s) =
     (case s2n_stuffer_alloc sz (mem, s) of
        (Inl e, st) \<Rightarrow> (Inl e, st)
      | (Inr _, (mem', s')) \<Rightarrow> (Inr (), (mem', s'\<lparr>growable := True\<rparr>)))"
  by (auto simp: s2n_stuffer_growable_alloc_def on_stuffer_def zoom_def modify_def split: prod.splits sum.splits)

lemma safe_alloc: "safe st_ok (s2n_stuffer_alloc sz)"
proof (rule safeI)
  fix st assume "st_ok st"
  then obtain mem s where st: "st = (mem, s)" "mem_ok mem"
    by (cases st) auto
  obtain r mem' s' where run: "s2n_stuffer_alloc sz (mem, s) = (r, (mem', s'))"
    by (cases "s2n_stuffer_alloc sz (mem, s)") auto
  show "fst (s2n_stuffer_alloc sz st) \<noteq> Inl Undefined \<and> st_ok (snd (s2n_stuffer_alloc sz st))"
    using alloc_spec(1-3) [OF st(2) run] st mem_same_ok [OF _ st(2)] by (simp add: run)
qed

lemma safe_growable_alloc: "safe st_ok (s2n_stuffer_growable_alloc sz)"
proof (rule safeI)
  fix st assume "st_ok st"
  then obtain mem s where st: "st = (mem, s)" "mem_ok mem"
    by (cases st) auto
  obtain r mem' s' where run: "s2n_stuffer_alloc sz (mem, s) = (r, (mem', s'))"
    by (cases "s2n_stuffer_alloc sz (mem, s)") auto
  note a = alloc_spec [OF st(2) run]
  have "stuffer_wf (s'\<lparr>growable := True\<rparr>)" if "r = Inr ()"
    using a that by (simp add: stuffer_wf_iff)
  then show "fst (s2n_stuffer_growable_alloc sz st) \<noteq> Inl Undefined \<and> st_ok (snd (s2n_stuffer_growable_alloc sz st))"
    using a st mem_same_ok by (cases r) (auto simp: growable_alloc_eq run)
qed

lemma safe_free_with:
  assumes cases: "\<And>mem b r mem' b'. blob_wf b \<Longrightarrow> fr (mem, b) = (r, (mem', b')) \<Longrightarrow>
      mem_same mem mem' \<and> r \<noteq> Inl Undefined \<and> (r \<noteq> Inr () \<longrightarrow> blob_wf b' \<and> b_size b' = b_size b)"
  shows "safe st_ok (block [
     (\<lambda>(mem, s). if alloced s then on_blob fr (mem, s) else (Inr (), (mem, s))),
     on_stuffer (modify (\<lambda>_. empty_stuffer))])"
proof (rule safeI)
  fix st assume "st_ok st"
  then obtain mem s where st: "st = (mem, s)" "mem_ok mem" "stuffer_wf s"
    by (cases st) auto
  obtain r mem' b' where run: "fr (mem, blob s) = (r, (mem', b'))"
    by (cases "fr (mem, blob s)") auto
  have c: "mem_same mem mem'" "r \<noteq> Inl Undefined" "r \<noteq> Inr () \<Longrightarrow> blob_wf b' \<and> b_size b' = b_size (blob s)"
    using cases [OF _ run] st(3) by (auto simp: stuffer_wf_iff)
  have "st_ok (mem', s\<lparr>blob := b'\<rparr>)" if "r \<noteq> Inr ()"
    using st c that stuffer_wf_cursors(3) [OF st(3)] by (intro st_ok_blob [OF st(3,2)]) auto
  then show "fst (block [(\<lambda>(mem, s). if alloced s then on_blob fr (mem, s) else (Inr (), (mem, s))),
       on_stuffer (modify (\<lambda>_. empty_stuffer))] st) \<noteq> Inl Undefined \<and>
     st_ok (snd (block [(\<lambda>(mem, s). if alloced s then on_blob fr (mem, s) else (Inr (), (mem, s))),
       on_stuffer (modify (\<lambda>_. empty_stuffer))] st))"
    using st c mem_same_ok [OF c(1) st(2)]
    by (cases r) (auto simp: on_blob_eq run on_stuffer_def zoom_def modify_def)
qed

lemma safe_free: "safe st_ok s2n_stuffer_free"
  unfolding s2n_stuffer_free_def
proof (rule safe_free_with)
  fix mem b r mem' b'
  assume b: "blob_wf b" and run: "s2n_free (mem, b) = (r, (mem', b'))"
  show "mem_same mem mem' \<and> r \<noteq> Inl Undefined \<and> (r \<noteq> Inr () \<longrightarrow> blob_wf b' \<and> b_size b' = b_size b)"
    using s2n_free_cases [OF b run] by auto
qed

lemma safe_free_without_wipe: "safe st_ok s2n_stuffer_free_without_wipe"
  unfolding s2n_stuffer_free_without_wipe_def
proof (rule safe_free_with)
  fix mem b r mem' b'
  assume b: "blob_wf b" and run: "s2n_free_without_wipe (mem, b) = (r, (mem', b'))"
  show "mem_same mem mem' \<and> r \<noteq> Inl Undefined \<and> (r \<noteq> Inr () \<longrightarrow> blob_wf b' \<and> b_size b' = b_size b)"
    using s2n_free_without_wipe_cases [OF b run] b by simp
qed

lemma stuffer_wf_tainted [simp]: "stuffer_wf (s\<lparr>tainted := b\<rparr>) = stuffer_wf s"
  by (simp add: stuffer_wf_iff)

lemma safe_raw_write: "safe st_ok (s2n_stuffer_raw_write n)"
  unfolding s2n_stuffer_raw_write_def
  by (intro safe_andthen safe_block) (auto simp: safe_skip_write intro!: safe_on_stuffer safe_modify)

lemma safe_init_written:
  assumes "blob_wf b" shows "safe st_ok (s2n_stuffer_init_written b)"
  unfolding s2n_stuffer_init_written_def
  using assms by (intro safe_block) (auto simp: safe_skip_write intro!: safe_on_stuffer safe_modify)

lemma safe_erase_and_read_bytes:
  assumes "readable d (unat n)"
  shows "safe stuffer_wf (s2n_stuffer_erase_and_read_bytes d n)"
proof (rule safeI)
  fix s assume wf: "stuffer_wf s"
  show "fst (s2n_stuffer_erase_and_read_bytes d n s) \<noteq> Inl Undefined \<and>
      stuffer_wf (snd (s2n_stuffer_erase_and_read_bytes d n s))"
  proof (cases "unat n \<le> length (unread s)")
    case False
    then show ?thesis
      using wf skip_read_short [OF wf] by (simp add: s2n_stuffer_erase_and_read_bytes_def andthen_def bnd_def)
  next
    case True
    note skip = skip_read_ok [OF wf True]
    let ?s = "s\<lparr>read_cursor := read_cursor s + n\<rparr>"
    have r: "read_cursor ?s - n = read_cursor s"
      by simp
    have le: "unat (read_cursor s) + unat n \<le> unat (b_size (blob ?s))"
      using True stuffer_wf_cursors [OF wf] by (simp add: length_unread [OF wf])
    note set = stuffer_memset_ok [OF skip(3) le, of 0]
    show ?thesis
    proof (cases "b_data (blob s) = None \<or> (d = None \<and> n \<noteq> 0)")
      case True
      then show ?thesis
        using skip by (auto simp: s2n_stuffer_erase_and_read_bytes_def andthen_def bnd_def ensure_st_def
            checked_memcpy_def unat_eq_zero)
    next
      case False
      then obtain m where m: "b_data (blob s) = Some m"
        by auto
      have "unat (read_cursor s) + unat n \<le> length m"
        using le stuffer_wf_cursors(4) [OF skip(3)] m by (simp add: smem_def)
      then obtain d' where "checked_memcpy d 0 (b_data (blob s)) (unat (read_cursor s)) (unat n) = Inr d'"
        using m assms memcpy_out [of "unat n" "the d" "unat (read_cursor s)" m] False
        by (cases d) (auto simp: readable_def checked_memcpy_def)
      then show ?thesis
        using skip set m by (simp add: s2n_stuffer_erase_and_read_bytes_def andthen_def bnd_def ensure_st_def r ret_def)
    qed
  qed
qed

text \<open>Shifting moves the unread bytes to the front and loses none of them.\<close>

lemma shift_ok:
  assumes mem: "mem_ok mem" and wf: "stuffer_wf s"
  obtains s' where "s2n_stuffer_shift (mem, s) = (Inr (), (mem, s'))" and "stuffer_wf s'"
    and "read_cursor s' = 0" and "written s' = unread s" and "unread s' = unread s"
    and "b_size (blob s') = b_size (blob s)"
proof -
  let ?s = "s\<lparr>write_cursor := 0, read_cursor := 0\<rparr>" and ?n = "s2n_stuffer_data_available s"
  have wf0: "stuffer_wf ?s"
    using wf by (simp add: stuffer_wf_iff)
  have n: "unat ?n = length (unread s)"
    using wf by (rule unat_data_available)
  have room: "unat ?n \<le> unat (s2n_stuffer_space_remaining ?s)"
    using stuffer_wf_cursors [OF wf] n by (simp add: s2n_stuffer_space_remaining_def length_unread [OF wf])
  have rw: "on_stuffer s2n_stuffer_rewrite (mem, s) = (Inr (), (mem, ?s))"
    by (simp add: on_stuffer_def zoom_def s2n_stuffer_rewrite_def modify_def)
  show thesis
  proof (cases "b_data (blob s)")
    case None
    then have "?n = 0"
      using n by (simp add: unread_def written_def smem_def unat_eq_zero)
    moreover from this have "unread s = []"
      using n by simp
    ultimately show thesis
      using wf0 rw None
      by (intro that [of ?s]) (simp_all add: s2n_stuffer_shift_def s2n_stuffer_write_bytes_def ret_def
          written_def unread_def)
  next
    case (Some m)
    have len: "unat ?n \<le> length (drop (unat (read_cursor s)) m)"
      using stuffer_wf_cursors [OF wf] Some n by (simp add: length_unread [OF wf] smem_def)
    have data: "take (unat ?n) (drop (unat (read_cursor s)) m) = unread s"
      using stuffer_wf_cursors [OF wf] n Some
      by (simp add: length_unread [OF wf]) (simp add: unread_def written_def smem_def drop_take)
    obtain s' where run: "s2n_stuffer_write_bytes (Some (drop (unat (read_cursor s)) m)) ?n (mem, ?s) = (Inr (), (mem, s'))"
      and app: "appended (unread s) ?s s'" and size: "b_size (blob s') = b_size (blob ?s)"
      using write_bytes_room [OF wf0 mem room len] data by metis
    have "s2n_stuffer_shift (mem, s) = (Inr (), (mem, s'))"
      using rw run Some by (simp add: s2n_stuffer_shift_def)
    moreover have "unread s' = unread ?s @ unread s"
      using app by (rule appended_unread [OF wf0])
    ultimately show thesis
      using app size by (intro that [of s']) (simp_all add: appended_def written_def unread_def)
  qed
qed

lemma safe_shift: "safe st_ok s2n_stuffer_shift"
proof (rule safeI)
  fix st assume "st_ok st"
  then obtain mem s where st: "st = (mem, s)" "mem_ok mem" "stuffer_wf s"
    by (cases st) auto
  from st(2,3) show "fst (s2n_stuffer_shift st) \<noteq> Inl Undefined \<and> st_ok (snd (s2n_stuffer_shift st))"
    by (rule shift_ok) (use st in simp)
qed

text \<open>Copying moves bytes from one queue to the other, or leaves both queues as they were.\<close>

lemma copy_spec:
  assumes mem: "mem_ok mem" and src: "stuffer_wf src" and dst: "stuffer_wf dst"
    and run: "s2n_stuffer_copy len (src, (mem, dst)) = (r, (src', (mem', dst')))"
  obtains (fail) e where "r = Inl (Err e)" and "mem_same mem mem'" and "src' = src" and "stuffer_wf dst'" and "only_blob dst dst'"
  | (ok) "r = Inr ()" and "mem_same mem mem'" and "unat len \<le> length (unread src)"
    and "src' = src\<lparr>read_cursor := read_cursor src + len\<rparr>" and "appended (take (unat len) (unread src)) dst dst'"
proof (cases "unat len \<le> length (unread src)")
  case False
  then show thesis
    using run skip_read_short [OF src, of len] dst
    by (intro fail [of S2N_ERR_STUFFER_OUT_OF_DATA]) (auto simp: s2n_stuffer_copy_def s2n_stuffer_copy_impl_def Let_def)
next
  case True
  note sk = skip_read_ok [OF src True]
  obtain r1 mem1 d1 where w: "s2n_stuffer_skip_write len (mem, dst) = (r1, (mem1, d1))"
    by (cases "s2n_stuffer_skip_write len (mem, dst)") auto
  from mem dst w show thesis
  proof (cases rule: skip_write_spec)
    case (fail e)
    have "d1\<lparr>write_cursor := write_cursor dst\<rparr> = d1"
      using only_blob_fields(2) [OF fail(4)] by (metis s2n_stuffer.surjective s2n_stuffer.update_convs(3))
    then show thesis
      using run sk(1) w fail by (intro that(1) [of e]) (auto simp: s2n_stuffer_copy_def s2n_stuffer_copy_impl_def Let_def)
  next
    case (ok t)
    have off: "write_cursor d1 - len = write_cursor dst"
      using ok by (simp add: only_blob_fields)
    have le: "unat (write_cursor dst) + unat len \<le> unat (b_size (blob d1))"
      using ok by simp
    let ?from = "map_option (drop (unat (read_cursor src))) (b_data (blob src))"
    let ?bs = "take (unat len) (unread src)"
    have cp: "stuffer_memcpy (write_cursor dst) ?from len d1 =
       (Inr (), set_data (map_option (overwrite (unat (write_cursor dst)) ?bs) (b_data (blob d1))) d1)"
    proof (cases "b_data (blob src)")
      case None
      then have "len = 0"
        using True by (simp add: unread_def written_def smem_def unat_eq_zero)
      then show ?thesis
        by (cases "b_data (blob d1)") (simp_all add: stuffer_memcpy_def checked_memcpy_def set_data_def)
    next
      case (Some m)
      have l: "unat len \<le> length (drop (unat (read_cursor src)) m)"
        using True stuffer_wf_cursors [OF src] Some by (simp add: length_unread [OF src] smem_def)
      have "take (unat len) (drop (unat (read_cursor src)) m) = ?bs"
        using True stuffer_wf_cursors [OF src] Some
        by (simp add: length_unread [OF src]) (simp add: unread_def written_def smem_def drop_take min_def)
      then show ?thesis
        using stuffer_memcpy_ok(1) [OF ok(6) le l] Some by simp
    qed
    let ?d = "set_data (map_option (overwrite (unat (write_cursor dst)) ?bs) (b_data (blob d1))) d1"
    have wfd: "stuffer_wf ?d"
      using stuffer_memcpy_ok(2) [OF ok(6) le, of ?bs] True by (simp add: min_def)
    have st: "r = Inr ()" "mem' = mem1" "src' = src\<lparr>read_cursor := read_cursor src + len\<rparr>" "dst' = ?d"
      using run sk(1) w ok(1) cp
      by (simp_all add: s2n_stuffer_copy_def s2n_stuffer_copy_impl_def Let_def on_stuffer_def zoom_def off)
    have "written ?d = written dst @ ?bs"
    proof -
      have "unat (write_cursor dst) + unat len \<le> length (smem d1)"
        using le stuffer_wf_cursors(4) [OF ok(6)] by linarith
      then show ?thesis
        using take_overwrite_end [of "unat (write_cursor dst)" "smem d1" ?bs] ok True
        by (cases "b_data (blob d1)") (simp_all add: written_def smem_def min.absorb2)
    qed
    then have "appended ?bs dst ?d"
      using wfd ok True by (simp add: appended_def only_blob_fields min.absorb2)
    with st ok True show thesis
      by (intro that(2)) simp_all
  qed
qed

lemma extract_blob_spec:
  assumes mem: "mem_ok mem" and s: "stuffer_wf s" and b: "blob_wf b"
    and run: "s2n_stuffer_extract_blob s (mem, b) = (r, (mem', b'))"
  shows "mem_same mem mem'" and "blob_wf b'" and "r \<noteq> Inl Undefined"
    and "r = Inr () \<Longrightarrow> blob_bytes b' = unread s"
proof -
  let ?n = "s2n_stuffer_data_available s"
  have n: "unat ?n = length (unread s)"
    using s by (rule unat_data_available)
  obtain r1 mem1 b1 where re: "s2n_realloc ?n (mem, b) = (r1, (mem1, b1))"
    by (cases "s2n_realloc ?n (mem, b)") auto
  have keep: "realloc_keeps (mem, b) ?n (r1, (mem1, b1))"
    using s2n_realloc_keeps [OF mem b, of ?n] re by simp
  have "mem_same mem mem' \<and> blob_wf b' \<and> r \<noteq> Inl Undefined \<and> (r = Inr () \<longrightarrow> blob_bytes b' = unread s)"
  proof (cases "r1 = Inr () \<and> ?n > 0")
    case False
    then have res: "r = r1" "mem' = mem1" "b' = b1"
      using run re by (auto simp: s2n_stuffer_extract_blob_def split: sum.splits)
    have "blob_bytes b' = unread s" if "r = Inr ()"
    proof -
      have "unat ?n = 0" "b_size b1 = ?n"
        using False that res keep by (auto simp: realloc_keeps_def word_gt_0)
      then show ?thesis
        using n res length_blob_bytes [of b1] keep by (simp add: realloc_keeps_def)
    qed
    then show ?thesis
      using keep res by (auto simp: realloc_keeps_def)
  next
    case True
    then have b1: "blob_wf b1" "b_size b1 = ?n" "mem_same mem mem1"
      using keep by (auto simp: realloc_keeps_def)
    have "b_size b1 \<noteq> 0"
      using b1(2) True by auto
    then obtain d where d: "b_data b1 = Some d" "unat ?n \<le> length d"
      using blob_wf_data [OF b1(1)] b1(2) by metis
    have "write_cursor s \<noteq> 0"
      using True stuffer_wf_cursors(1) [OF s] n length_unread [OF s] by (auto simp: word_gt_0 unat_eq_zero)
    then obtain m where m: "b_data (blob s) = Some m"
      using blob_wf_data_some [OF s] by blast
    have len: "unat (read_cursor s) + unat ?n \<le> length m"
      using stuffer_wf_cursors [OF s] m n by (simp add: length_unread [OF s] smem_def)
    have data: "take (unat ?n) (drop (unat (read_cursor s)) m) = unread s"
      using stuffer_wf_cursors [OF s] n m
      by (simp add: length_unread [OF s]) (simp add: unread_def written_def smem_def drop_take)
    have res: "r = Inr ()" "mem' = mem1" "b' = b1\<lparr>b_data := Some (unread s @ drop (unat ?n) d)\<rparr>"
      using run re True memcpy_out [OF d(2) len] d(1) m data
      by (auto simp: s2n_stuffer_extract_blob_def)
    have "length (unread s @ drop (unat ?n) d) = length d"
      using n d(2) by simp
    then have "blob_wf b'"
      unfolding res by (rule blob_wf_data_update [OF b1(1) d(1)])
    moreover have "blob_bytes b' = unread s"
      using n b1(2) by (simp add: res blob_bytes_def)
    ultimately show ?thesis
      using res b1 by simp
  qed
  then show "mem_same mem mem'" "blob_wf b'" "r \<noteq> Inl Undefined" "r = Inr () \<Longrightarrow> blob_bytes b' = unread s"
    by blast+
qed

text \<open>Gathering writes: the loop never leaves the region that \<open>s2n_stuffer_raw_write\<close> reserved.\<close>

definition iovec_ok :: "iovec \<Rightarrow> bool" where
  "iovec_ok v = (case iov_base v of None \<Rightarrow> True | Some m \<Rightarrow> unat (iov_len v) \<le> length m)"

lemma writev_loop_spec:
  assumes "\<forall>v \<in> set vs. iovec_ok v" and "p + unat size_left \<le> length m"
  shows "\<exists>r m'. writev_loop vs to_skip size_left p (Some m) = (r, Some m') \<and> r \<noteq> Inl Undefined \<and>
     length m' = length m \<and> take p m' = take p m"
  using assms
proof (induction vs arbitrary: to_skip size_left p m)
  case Nil
  then show ?case by simp
next
  case (Cons v vs)
  show ?case
  proof (cases "iov_len v \<le> to_skip \<or> \<not> iov_len v - to_skip \<le> 4294967295 \<or> iov_base v = None")
    case True
    then show ?thesis
      using Cons.IH [of p size_left m "to_skip - iov_len v"] Cons.prems by (auto simp: Let_def)
  next
    case False
    let ?k = "min size_left (iov_len v - to_skip)"
    obtain b where b: "iov_base v = Some b" "unat (iov_len v) \<le> length b"
      using Cons.prems(1) False by (auto simp: iovec_ok_def)
    have k: "unat ?k \<le> unat size_left" "unat ?k \<le> unat (iov_len v - to_skip)"
      by (simp_all add: min_def word_le_unat)
    have sub: "unat (iov_len v - to_skip) = unat (iov_len v) - unat to_skip" "unat to_skip < unat (iov_len v)"
      using False by (simp_all add: word_sub_unat word_le_unat)
    have src: "unat to_skip + unat ?k \<le> length b"
      using k sub b by linarith
    have bs: "length (take (unat ?k) (drop (unat to_skip) b)) = unat ?k"
      using src by simp
    let ?m = "overwrite p (take (unat ?k) (drop (unat to_skip) b)) m"
    have fit: "p + unat ?k \<le> length m"
      using k Cons.prems(2) by linarith
    have cp: "checked_memcpy (Some m) p (iov_base v) (unat to_skip) (unat ?k) = Inr (Some ?m)"
      using b src fit bs by (auto simp: checked_memcpy_def mem_read_def mem_write_overwrite)
    have m: "length ?m = length m" "take p ?m = take p m"
      using fit bs by (simp_all add: take_overwrite)
    have left: "unat (size_left - ?k) = unat size_left - unat ?k"
      using k by (simp add: word_sub_unat word_le_unat)
    show ?thesis
    proof (cases "size_left - ?k = 0")
      case True
      then show ?thesis
        using False cp m by (simp add: Let_def)
    next
      case more: False
      have "p + unat ?k + unat (size_left - ?k) \<le> length ?m"
        using m left k Cons.prems(2) by linarith
      then obtain r m' where "writev_loop vs 0 (size_left - ?k) (p + unat ?k) (Some ?m) = (r, Some m')"
        "r \<noteq> Inl Undefined" "length m' = length ?m" "take (p + unat ?k) m' = take (p + unat ?k) ?m"
        using Cons.IH [of "p + unat ?k" "size_left - ?k" ?m 0] Cons.prems(1) by auto
      moreover from this(4) have "take p m' = take p m"
        using take_eq_shorter [of "p + unat ?k" m' ?m p] m by simp
      ultimately show ?thesis
        using False more cp m by (simp add: Let_def)
    qed
  qed
qed

lemma writev_loop_none:
  "\<exists>r. writev_loop vs to_skip 0 p m = (r, m) \<and> r \<noteq> Inl Undefined"
  by (induction vs arbitrary: to_skip) (auto simp: Let_def checked_memcpy_def)

lemma raw_write_eq:
  "s2n_stuffer_raw_write n (mem, s) =
     (case s2n_stuffer_skip_write n (mem, s) of
        (Inl e, st) \<Rightarrow> (Inl e, st)
      | (Inr _, (mem', s')) \<Rightarrow>
          (Inr (if b_data (blob s') = None then None else Some (write_cursor s' - n)), (mem', s'\<lparr>tainted := True\<rparr>)))"
  by (auto simp: s2n_stuffer_raw_write_def andthen_def bnd_def on_stuffer_def zoom_def modify_def gets_def
      split: prod.splits sum.splits)

lemma stuffer_wf_replace_data:
  assumes "stuffer_wf s" and "b_data (blob s) = Some m" and "length m' = length m"
  shows "stuffer_wf (s\<lparr>blob := (blob s)\<lparr>b_data := Some m'\<rparr>\<rparr>)"
  using assms by (auto simp: stuffer_wf_iff blob_wf_data_update)

lemma safe_writev_bytes:
  assumes iov: "\<forall>v \<in> set iov. iovec_ok v"
  shows "safe st_ok (s2n_stuffer_writev_bytes iov offs sz)"
proof (rule safeI)
  fix st assume "st_ok st"
  then obtain mem s where st: "st = (mem, s)" "mem_ok mem" "stuffer_wf s"
    by (cases st) auto
  obtain r mem' s' where sk: "s2n_stuffer_skip_write sz (mem, s) = (r, (mem', s'))"
    by (cases "s2n_stuffer_skip_write sz (mem, s)") auto
  show "fst (s2n_stuffer_writev_bytes iov offs sz st) \<noteq> Inl Undefined \<and>
      st_ok (snd (s2n_stuffer_writev_bytes iov offs sz st))"
  proof (cases "sz = 0")
    case True
    have skip: "s2n_stuffer_skip_write 0 (mem, s) = (Inr (), (mem, advanced 0 s))"
      by (rule skip_write_room) simp
    let ?t = "(advanced 0 s)\<lparr>tainted := True\<rparr>"
    let ?p = "if b_data (blob s) = None then 0 else unat (write_cursor s)"
    obtain r2 where loop: "writev_loop iov (ucast offs) 0 ?p (b_data (blob s)) = (r2, b_data (blob s))"
      "r2 \<noteq> Inl Undefined"
      using writev_loop_none by blast
    have "stuffer_wf ?t"
      using advanced_wf(1) [OF st(3), of 0] stuffer_wf_cursors [OF st(3)] by simp
    moreover have "s2n_stuffer_writev_bytes iov offs 0 (mem, s) = (r2, (mem, ?t))"
      using loop(1) by (auto simp: s2n_stuffer_writev_bytes_def raw_write_eq skip Let_def split: if_splits)
    ultimately show ?thesis
      using True st loop(2) by simp
  next
    case False
    from st(2,3) sk show ?thesis
    proof (cases rule: skip_write_spec)
      case (fail e)
      then show ?thesis
        using st False sk mem_same_ok by (auto simp: s2n_stuffer_writev_bytes_def raw_write_eq Let_def)
    next
      case (ok t)
      have off: "write_cursor s' - sz = write_cursor s"
        using ok by (simp add: only_blob_fields)
      have "b_size (blob s') \<noteq> 0"
        using ok False by (auto simp: unat_eq_zero)
      then obtain m where m: "b_data (blob s') = Some m"
        using blob_wf_data_some [OF ok(6)] by blast
      have "unat (write_cursor s) + unat (ucast sz :: u64) \<le> length m"
        using ok stuffer_wf_cursors(4) [OF ok(6)] m by (simp add: smem_def)
      then obtain r2 m2 where loop: "writev_loop iov (ucast offs) (ucast sz) (unat (write_cursor s)) (Some m) = (r2, Some m2)"
        "r2 \<noteq> Inl Undefined" "length m2 = length m"
        using writev_loop_spec [OF iov, of "unat (write_cursor s)" "ucast sz" m "ucast offs"] by auto
      have "stuffer_wf (s'\<lparr>tainted := True, blob := (blob s')\<lparr>b_data := Some m2\<rparr>\<rparr>)"
        using stuffer_wf_replace_data [of "s'\<lparr>tainted := True\<rparr>" m m2] ok(6) m loop(3) by simp
      then show ?thesis
        using st False sk ok(1) mem_same_ok [OF ok(2) st(2)] m loop off
        by (auto simp: s2n_stuffer_writev_bytes_def raw_write_eq Let_def)
    qed
  qed
qed


section \<open>Sequences of operations\<close>

text \<open>
  The operations of the public interface that act on one stuffer, with the arguments a caller
  supplies.  Buffers are passed with their contents.
\<close>

datatype stuffer_op =
    Op_alloc u32 | Op_growable_alloc u32 | Op_free | Op_free_without_wipe | Op_resize u32
  | Op_resize_if_empty u32 | Op_rewrite | Op_rewind_read u32 | Op_reread | Op_wipe_n u32 | Op_wipe
  | Op_skip_read u32 | Op_raw_read u32 | Op_read_bytes "bytes option" u32
  | Op_erase_and_read_bytes "bytes option" u32 | Op_skip_write u32 | Op_raw_write u32
  | Op_write_bytes "bytes option" u32 | Op_writev_bytes "iovec list" u32 u32
  | Op_reserve_space u32 | Op_shift

definition ignore :: "('s, 'a) action \<Rightarrow> ('s, unit) action" where
  "ignore m = andthen m (ret ())"

fun run_op :: "stuffer_op \<Rightarrow> (mem_stuffer, unit) action" where
  "run_op (Op_alloc n) = s2n_stuffer_alloc n"
| "run_op (Op_growable_alloc n) = s2n_stuffer_growable_alloc n"
| "run_op Op_free = s2n_stuffer_free"
| "run_op Op_free_without_wipe = s2n_stuffer_free_without_wipe"
| "run_op (Op_resize n) = s2n_stuffer_resize n"
| "run_op (Op_resize_if_empty n) = s2n_stuffer_resize_if_empty n"
| "run_op Op_rewrite = on_stuffer s2n_stuffer_rewrite"
| "run_op (Op_rewind_read n) = on_stuffer (s2n_stuffer_rewind_read n)"
| "run_op Op_reread = on_stuffer s2n_stuffer_reread"
| "run_op (Op_wipe_n n) = on_stuffer (s2n_stuffer_wipe_n n)"
| "run_op Op_wipe = on_stuffer s2n_stuffer_wipe"
| "run_op (Op_skip_read n) = on_stuffer (s2n_stuffer_skip_read n)"
| "run_op (Op_raw_read n) = on_stuffer (ignore (s2n_stuffer_raw_read n))"
| "run_op (Op_read_bytes d n) = on_stuffer (ignore (s2n_stuffer_read_bytes d n))"
| "run_op (Op_erase_and_read_bytes d n) = on_stuffer (ignore (s2n_stuffer_erase_and_read_bytes d n))"
| "run_op (Op_skip_write n) = s2n_stuffer_skip_write n"
| "run_op (Op_raw_write n) = ignore (s2n_stuffer_raw_write n)"
| "run_op (Op_write_bytes d n) = s2n_stuffer_write_bytes d n"
| "run_op (Op_writev_bytes iov offs n) = s2n_stuffer_writev_bytes iov offs n"
| "run_op (Op_reserve_space n) = s2n_stuffer_reserve_space n"
| "run_op Op_shift = s2n_stuffer_shift"

text \<open>The caller's buffers are as long as it says.\<close>

fun op_args_ok :: "stuffer_op \<Rightarrow> bool" where
  "op_args_ok (Op_read_bytes d n) = readable d (unat n)"
| "op_args_ok (Op_erase_and_read_bytes d n) = readable d (unat n)"
| "op_args_ok (Op_write_bytes d n) = readable d (unat n)"
| "op_args_ok (Op_writev_bytes iov offs n) = (\<forall>v \<in> set iov. iovec_ok v)"
| "op_args_ok _ = True"

text \<open>Whatever an operation returns, the caller may go on with any other operation.\<close>

inductive stuffer_reachable :: "mem_stuffer \<Rightarrow> mem_stuffer \<Rightarrow> bool" where
  start: "stuffer_reachable st st"
| step: "stuffer_reachable st st' \<Longrightarrow> op_args_ok op \<Longrightarrow> run_op op st' = (r, st'') \<Longrightarrow>
    stuffer_reachable st st''"

lemma safe_reserve_space: "safe st_ok (s2n_stuffer_reserve_space n)"
proof (rule safeI)
  fix st assume "st_ok st"
  then obtain mem s where "st = (mem, s)" "mem_ok mem" "stuffer_wf s"
    by (cases st) auto
  then show "fst (s2n_stuffer_reserve_space n st) \<noteq> Inl Undefined \<and> st_ok (snd (s2n_stuffer_reserve_space n st))"
    using regrown_st_ok [OF reserve_space_spec] by simp
qed

lemma safe_ignore: "safe P m \<Longrightarrow> safe P (ignore m)"
  unfolding ignore_def by (intro safe_andthen) simp_all

lemma safe_run_op:
  assumes "op_args_ok op" shows "safe st_ok (run_op op)"
  using assms
  by (cases op)
    (simp_all add: safe_alloc safe_growable_alloc safe_free safe_free_without_wipe safe_resize
      safe_resize_if_empty safe_skip_write safe_raw_write safe_write_bytes safe_writev_bytes
      safe_reserve_space safe_shift safe_on_stuffer safe_ignore safe_rewrite safe_rewind_read
      safe_reread safe_wipe_n safe_wipe safe_skip_read safe_raw_read safe_read_bytes
      safe_erase_and_read_bytes)

lemma reachable_st_ok: "stuffer_reachable st st' \<Longrightarrow> st_ok st \<Longrightarrow> st_ok st'"
  by (induction rule: stuffer_reachable.induct) (auto dest: safe_run_op safe_pair)


section \<open>The stuffer as a byte queue\<close>

text \<open>
  What the rest of the library uses a stuffer for: bytes come out in the order in which they went
  in.  A client relies on the two operations and their laws only.
\<close>

locale byte_queue =
  fixes inv :: "'s \<Rightarrow> bool"
    and contents :: "'s \<Rightarrow> bytes"
    and put :: "bytes \<Rightarrow> ('s, unit) action"
    and get :: "nat \<Rightarrow> ('s, bytes) action"
    and fits :: "nat \<Rightarrow> bool"
  assumes put_inv: "inv s \<Longrightarrow> fits (length bs) \<Longrightarrow> put bs s = (r, s') \<Longrightarrow> inv s'"
    and put_ok: "inv s \<Longrightarrow> fits (length bs) \<Longrightarrow> put bs s = (Inr (), s') \<Longrightarrow> contents s' = contents s @ bs"
    and get_inv: "inv s \<Longrightarrow> fits n \<Longrightarrow> get n s = (res, s') \<Longrightarrow> inv s'"
    and get_ok: "inv s \<Longrightarrow> fits n \<Longrightarrow> 0 < n \<Longrightarrow> n \<le> length (contents s) \<Longrightarrow>
      \<exists>s'. get n s = (Inr (take n (contents s)), s') \<and> contents s' = drop n (contents s)"
    and get_short: "inv s \<Longrightarrow> fits n \<Longrightarrow> length (contents s) < n \<Longrightarrow> \<exists>e. get n s = (Inl (Err e), s)"
begin

fun put_all :: "bytes list \<Rightarrow> ('s, unit) action" where
  "put_all [] s = (Inr (), s)"
| "put_all (bs # bss) s = (case put bs s of (Inl e, s') \<Rightarrow> (Inl e, s') | (Inr _, s') \<Rightarrow> put_all bss s')"

fun get_all :: "nat list \<Rightarrow> ('s, bytes list) action" where
  "get_all [] s = (Inr [], s)"
| "get_all (n # ns) s =
     (case get n s of
        (Inl e, s') \<Rightarrow> (Inl e, s')
      | (Inr bs, s') \<Rightarrow> (case get_all ns s' of (Inl e, s'') \<Rightarrow> (Inl e, s'') | (Inr bss, s'') \<Rightarrow> (Inr (bs # bss), s'')))"

lemma put_all_contents:
  assumes "inv s" and "\<forall>bs \<in> set bss. fits (length bs)" and "put_all bss s = (Inr (), s')"
  shows "inv s' \<and> contents s' = contents s @ concat bss"
  using assms
proof (induction bss arbitrary: s)
  case (Cons bs bss)
  then obtain t where t: "put bs s = (Inr (), t)" "put_all bss t = (Inr (), s')"
    by (auto split: prod.splits sum.splits)
  then have "inv t" "contents t = contents s @ bs"
    using Cons.prems put_inv put_ok by auto
  then show ?case
    using Cons.IH [of t] Cons.prems t(2) by simp
qed simp

lemma get_all_contents:
  assumes "inv s" and "\<forall>bs \<in> set bss. fits (length bs) \<and> bs \<noteq> []" and "contents s = concat bss @ rest"
  shows "\<exists>s'. get_all (map length bss) s = (Inr bss, s') \<and> inv s' \<and> contents s' = rest"
  using assms
proof (induction bss arbitrary: s)
  case (Cons bs bss)
  then obtain t where t: "get (length bs) s = (Inr (take (length bs) (contents s)), t)"
    "contents t = drop (length bs) (contents s)"
    using get_ok [of s "length bs"] by auto
  then have "inv t" "contents t = concat bss @ rest"
    using Cons.prems get_inv by (auto simp del: get_all.simps)
  then obtain s' where "get_all (map length bss) t = (Inr bss, s')" "inv s'" "contents s' = rest"
    using Cons.IH [of t] Cons.prems by auto
  with t Cons.prems show ?case
    by simp
qed simp

text \<open>Fields written one after the other to an empty queue are read back one after the other.\<close>

lemma fields_round_trip:
  assumes "inv s" and "contents s = []" and "\<forall>bs \<in> set bss. fits (length bs) \<and> bs \<noteq> []"
    and "put_all bss s = (Inr (), s')"
  shows "\<exists>s''. get_all (map length bss) s' = (Inr bss, s'') \<and> contents s'' = []"
proof -
  have "inv s' \<and> contents s' = concat bss"
    using put_all_contents [OF assms(1) _ assms(4)] assms(2,3) by simp
  then show ?thesis
    using get_all_contents [of s' bss "[]"] assms(3) by auto
qed

end

definition stuffer_put :: "bytes \<Rightarrow> (mem_stuffer, unit) action" where
  "stuffer_put bs = s2n_stuffer_write_bytes (Some bs) (of_nat (length bs))"

definition stuffer_get :: "nat \<Rightarrow> (mem_stuffer, bytes) action" where
  "stuffer_get n =
     bnd (on_stuffer (s2n_stuffer_read_bytes (Some (replicate n 0)) (of_nat n)))
       (\<lambda>d. ret (case d of None \<Rightarrow> [] | Some bs \<Rightarrow> bs))"

definition fits32 :: "nat \<Rightarrow> bool" where
  "fits32 n \<longleftrightarrow> n \<le> UINT32_MAX"

lemma on_stuffer_eq: "on_stuffer m (mem, s) = (case m s of (r, s') \<Rightarrow> (r, (mem, s')))"
  by (simp add: on_stuffer_def zoom_def split: prod.splits)

lemma stuffer_get_ok:
  assumes "stuffer_wf s" and "fits32 n" and "0 < n" and "n \<le> length (unread s)"
  shows "stuffer_get n (mem, s) = (Inr (take n (unread s)), (mem, s\<lparr>read_cursor := read_cursor s + of_nat n\<rparr>))"
    and "unread (s\<lparr>read_cursor := read_cursor s + of_nat n\<rparr>) = drop n (unread s)"
    and "stuffer_wf (s\<lparr>read_cursor := read_cursor s + of_nat n\<rparr>)"
proof -
  have n: "unat (of_nat n :: u32) = n"
    using assms(2) by (simp add: fits32_def)
  have "write_cursor s \<noteq> 0"
    using assms(3,4) by (auto simp: length_unread [OF assms(1)])
  then have "b_data (blob s) \<noteq> None"
    using blob_wf_data_some [OF assms(1)] by blast
  then show "stuffer_get n (mem, s) = (Inr (take n (unread s)), (mem, s\<lparr>read_cursor := read_cursor s + of_nat n\<rparr>))"
    using read_bytes_ok [OF assms(1), of "of_nat n" "replicate n 0"] assms(4) n
    by (simp add: stuffer_get_def bnd_def on_stuffer_eq ret_def)
  show "unread (s\<lparr>read_cursor := read_cursor s + of_nat n\<rparr>) = drop n (unread s)"
    "stuffer_wf (s\<lparr>read_cursor := read_cursor s + of_nat n\<rparr>)"
    using skip_read_ok(3,4) [OF assms(1), of "of_nat n"] assms(4) n by simp_all
qed

lemma stuffer_get_short:
  assumes "stuffer_wf s" and "fits32 n" and "length (unread s) < n"
  shows "stuffer_get n (mem, s) = (Inl (Err S2N_ERR_STUFFER_OUT_OF_DATA), (mem, s))"
  using read_bytes_short [OF assms(1), of "of_nat n"] assms(2,3)
  by (simp add: stuffer_get_def bnd_def on_stuffer_eq fits32_def)

lemma safe_stuffer_get: "fits32 n \<Longrightarrow> safe st_ok (stuffer_get n)"
  unfolding stuffer_get_def
  by (intro safe_bnd safe_on_stuffer safe_read_bytes) (simp_all add: readable_def fits32_def)

lemma safe_stuffer_put: "fits32 (length bs) \<Longrightarrow> safe st_ok (stuffer_put bs)"
  unfolding stuffer_put_def by (intro safe_write_bytes) (simp add: readable_def fits32_def)

lemma stuffer_put_ok:
  assumes "mem_ok mem" and "stuffer_wf s" and "fits32 (length bs)"
    and "stuffer_put bs (mem, s) = (Inr (), (mem', s'))"
  shows "mem_same mem mem'" and "appended bs s s'"
proof -
  have n: "unat (of_nat (length bs) :: u32) \<le> length bs"
    using assms(3) by (simp add: fits32_def)
  from assms(1,2) n assms(4) [unfolded stuffer_put_def] show "mem_same mem mem'"
    by (rule write_bytes_spec) simp_all
  from assms(1,2) n assms(4) [unfolded stuffer_put_def] show "appended bs s s'"
    by (rule write_bytes_spec) (use assms(3) in \<open>simp_all add: fits32_def\<close>)
qed

interpretation sq: byte_queue st_ok "\<lambda>(mem, s). unread s" stuffer_put stuffer_get fits32
proof
  fix s s' :: mem_stuffer and bs r
  assume "st_ok s" "fits32 (length bs)" "stuffer_put bs s = (r, s')"
  then show "st_ok s'"
    using safe_pair [OF safe_stuffer_put] by blast
next
  fix s s' :: mem_stuffer and bs
  assume "st_ok s" "fits32 (length bs)" "stuffer_put bs s = (Inr (), s')"
  then show "(case s' of (mem, s) \<Rightarrow> unread s) = (case s of (mem, s) \<Rightarrow> unread s) @ bs"
    using appended_unread stuffer_put_ok(2) by (cases s; cases s') auto
next
  fix s s' :: mem_stuffer and n r
  assume "st_ok s" "fits32 n" "stuffer_get n s = (r, s')"
  then show "st_ok s'"
    using safe_pair [OF safe_stuffer_get] by blast
next
  fix s :: mem_stuffer and n
  assume "st_ok s" "fits32 n" "0 < n" "n \<le> length (case s of (mem, s) \<Rightarrow> unread s)"
  then show "\<exists>s'. stuffer_get n s = (Inr (take n (case s of (mem, s) \<Rightarrow> unread s)), s') \<and>
      (case s' of (mem, s) \<Rightarrow> unread s) = drop n (case s of (mem, s) \<Rightarrow> unread s)"
    using stuffer_get_ok(1,2) by (cases s) auto
next
  fix s :: mem_stuffer and n
  assume "st_ok s" "fits32 n" "length (case s of (mem, s) \<Rightarrow> unread s) < n"
  then show "\<exists>e. stuffer_get n s = (Inl (Err e), s)"
    using stuffer_get_short by (cases s) auto
qed


section \<open>Claims\<close>

text \<open>
  C8. No sequence of stuffer operations, with any arguments and whatever the earlier calls
  returned, breaks the invariant that \<open>s2n_stuffer_validate\<close> asserts (read cursor, write cursor,
  high water mark and size in order, growable stuffers own their memory), and no call in such a
  sequence reads or writes outside the stuffer's memory or the caller's buffers.
\<close>
theorem stuffer_operations_safe:
  assumes "st_ok st" and "stuffer_reachable st (mem', s')" and "op_args_ok op"
  shows "s2n_stuffer_validate s' \<and> blob_wf (blob s') \<and> fst (run_op op (mem', s')) \<noteq> Inl Undefined"
proof -
  have ok: "st_ok (mem', s')"
    using reachable_st_ok assms by blast
  then have "fst (run_op op (mem', s')) \<noteq> Inl Undefined"
    using safeD [OF safe_run_op [OF assms(3)]] by blast
  with ok show ?thesis
    by (simp add: stuffer_wf_def)
qed

definition example_stuffer :: s2n_stuffer where
  "example_stuffer = (s2n_stuffer_init
     \<lparr>b_data = Some [1, 2, 3, 4], b_size = 4, b_allocated = 0, b_growable = False\<rparr>)\<lparr>
       read_cursor := 1, write_cursor := 3, high_water_mark := 3\<rparr>"

lemma stuffer_wf_example [simp]: "stuffer_wf example_stuffer"
  by (simp add: example_stuffer_def s2n_stuffer_init_def stuffer_wf_iff blob_wf_def s2n_blob_validate_def
      s2n_mem_is_readable_def)

lemma unread_example [simp]: "unread example_stuffer = [2, 3]" "written example_stuffer = [1, 2, 3]"
  by (simp_all add: example_stuffer_def s2n_stuffer_init_def unread_def written_def smem_def)

lemma stuffer_operations_safe_witness:
  "st_ok (example_mem Free_no_mlock_impl, example_stuffer) \<and>
   (\<exists>mem' s'. stuffer_reachable (example_mem Free_no_mlock_impl, example_stuffer) (mem', s') \<and>
      read_cursor s' = 3 \<and> s2n_stuffer_validate s' \<and>
      fst (run_op (Op_write_bytes (Some [9, 9]) 2) (mem', s')) \<noteq> Inl Undefined)"
proof -
  let ?st = "(example_mem Free_no_mlock_impl, example_stuffer)"
  let ?s = "example_stuffer\<lparr>read_cursor := 3\<rparr>"
  have "run_op (Op_skip_read 2) ?st = (Inr (), (example_mem Free_no_mlock_impl, ?s))"
    by (simp add: on_stuffer_eq skip_read_eq s2n_stuffer_data_available_def example_stuffer_def s2n_stuffer_init_def)
  then have reach: "stuffer_reachable ?st (example_mem Free_no_mlock_impl, ?s)"
    by (intro stuffer_reachable.step [OF stuffer_reachable.start, of "Op_skip_read 2"]) simp_all
  have "s2n_stuffer_validate ?s \<and> blob_wf (blob ?s) \<and>
      fst (run_op (Op_write_bytes (Some [9, 9]) 2) (example_mem Free_no_mlock_impl, ?s)) \<noteq> Inl Undefined"
    by (rule stuffer_operations_safe [OF _ reach]) (simp_all add: readable_def)
  then show ?thesis
    using reach by (intro conjI exI [of _ "example_mem Free_no_mlock_impl"] exI [of _ ?s]) simp_all
qed

text \<open>
  C9. A stuffer is a queue: if a list of non-empty fields is written with \<open>s2n_stuffer_write_bytes\<close>
  to a stuffer with no unread bytes and every write succeeds, then reading with
  \<open>s2n_stuffer_read_bytes\<close> the same number of bytes per field returns the same fields, through
  every reallocation on the way, and leaves nothing unread.
\<close>
theorem stuffer_fields_round_trip:
  assumes "st_ok st" and "unread (snd st) = []"
    and "\<forall>bs \<in> set fs. bs \<noteq> [] \<and> length bs \<le> UINT32_MAX"
    and "sq.put_all fs st = (Inr (), st')"
  shows "\<exists>st''. sq.get_all (map length fs) st' = (Inr fs, st'') \<and> unread (snd st'') = []"
proof -
  have "(case st of (mem, s) \<Rightarrow> unread s) = []" "\<forall>bs \<in> set fs. fits32 (length bs) \<and> bs \<noteq> []"
    using assms(2,3) by (auto simp: fits32_def split: prod.splits)
  then show ?thesis
    using sq.fields_round_trip [OF assms(1) _ _ assms(4)] by (auto split: prod.splits)
qed

definition example_fresh :: s2n_stuffer where
  "example_fresh = s2n_stuffer_init
     \<lparr>b_data = Some [0, 0, 0, 0], b_size = 4, b_allocated = 0, b_growable = False\<rparr>"

lemma example_fresh_ok [simp]: "stuffer_wf example_fresh" "unread example_fresh = []"
  by (simp_all add: example_fresh_def s2n_stuffer_init_def stuffer_wf_iff blob_wf_def s2n_blob_validate_def
      s2n_mem_is_readable_def unread_def written_def smem_def)

lemmas stuffer_run = s2n_stuffer_write_bytes_def skip_write_eq s2n_stuffer_reserve_space_def
  s2n_stuffer_space_remaining_def s2n_add_overflow_def s2n_stuffer_resize_def on_blob_eq on_stuffer_eq
  ensure_def ensure_st_def ret_def advanced_def s2n_mem_is_readable_def stuffer_memcpy_def

lemma stuffer_fields_round_trip_witness:
  "st_ok (example_mem Free_no_mlock_impl, example_fresh) \<and>
   (\<exists>st' st''. sq.put_all [[1, 2], [3]] (example_mem Free_no_mlock_impl, example_fresh) = (Inr (), st') \<and>
      sq.get_all (map length [[1, 2], [3 :: u8]]) st' = (Inr [[1, 2], [3]], st''))"
proof -
  let ?st = "(example_mem Free_no_mlock_impl, example_fresh)"
  obtain st' where put: "sq.put_all [[1, 2], [3]] ?st = (Inr (), st')"
    by (simp add: stuffer_put_def stuffer_run example_fresh_def s2n_stuffer_init_def checked_memcpy_def
        mem_read_def mem_write_def)
  then have "\<exists>st''. sq.get_all (map length [[1, 2], [3 :: u8]]) st' = (Inr [[1, 2], [3]], st'') \<and> unread (snd st'') = []"
    by (intro stuffer_fields_round_trip [of ?st]) simp_all
  with put show ?thesis
    by (auto simp del: sq.put_all.simps sq.get_all.simps)
qed

text \<open>
  C15. A stuffer over a fixed buffer is written exactly when there is room.  If the remaining space
  suffices, the bytes written grow by exactly the source bytes and the unread bytes with them;
  otherwise the call fails with \<open>S2N_ERR_STUFFER_IS_FULL\<close> and nothing has changed.
\<close>
theorem static_stuffer_write_correct:
  assumes "mem_ok mem" and "stuffer_wf s" and "\<not> growable s" and "unat n \<le> length d"
  shows "if unat n \<le> unat (s2n_stuffer_space_remaining s)
    then \<exists>s'. s2n_stuffer_write_bytes (Some d) n (mem, s) = (Inr (), (mem, s')) \<and>
           written s' = written s @ take (unat n) d \<and> unread s' = unread s @ take (unat n) d \<and>
           read_cursor s' = read_cursor s \<and> b_size (blob s') = b_size (blob s)
    else s2n_stuffer_write_bytes (Some d) n (mem, s) = (Inl (Err S2N_ERR_STUFFER_IS_FULL), (mem, s))"
proof (cases "unat n \<le> unat (s2n_stuffer_space_remaining s)")
  case True
  then obtain s' where s': "s2n_stuffer_write_bytes (Some d) n (mem, s) = (Inr (), (mem, s'))"
    "appended (take (unat n) d) s s'" "b_size (blob s') = b_size (blob s)"
    using write_bytes_room [OF assms(2,1) _ assms(4)] by metis
  then show ?thesis
    using True appended_unread [OF assms(2) s'(2)] by (auto simp: appended_def)
next
  case False
  then have "n \<noteq> 0"
    by auto
  with False assms(3) show ?thesis
    by (simp add: s2n_stuffer_write_bytes_def ensure_def s2n_mem_is_readable_def skip_write_eq
        s2n_stuffer_reserve_space_def word_less_unat)
qed

lemma static_stuffer_write_witness:
  "mem_ok (example_mem Free_no_mlock_impl) \<and> stuffer_wf example_stuffer \<and> \<not> growable example_stuffer \<and>
   s2n_stuffer_write_bytes (Some [8, 9]) 2 (example_mem Free_no_mlock_impl, example_stuffer) =
     (Inl (Err S2N_ERR_STUFFER_IS_FULL), (example_mem Free_no_mlock_impl, example_stuffer))"
  using static_stuffer_write_correct [of "example_mem Free_no_mlock_impl" example_stuffer 2 "[8, 9]"]
  by (simp add: s2n_stuffer_space_remaining_def) (simp add: example_stuffer_def s2n_stuffer_init_def)

text \<open>
  C17. \<open>s2n_stuffer_shift\<close> always succeeds on a valid stuffer, moves the unread bytes to the front of
  the buffer and loses none of them, although source and destination overlap in the same memory.
\<close>
theorem s2n_stuffer_shift_correct:
  assumes "mem_ok mem" and "stuffer_wf s"
  shows "\<exists>s'. s2n_stuffer_shift (mem, s) = (Inr (), (mem, s')) \<and> stuffer_wf s' \<and>
    read_cursor s' = 0 \<and> written s' = unread s \<and> unread s' = unread s \<and> b_size (blob s') = b_size (blob s)"
  using assms by (rule shift_ok) blast

lemma s2n_stuffer_shift_witness:
  "mem_ok (example_mem Free_no_mlock_impl) \<and> stuffer_wf example_stuffer \<and>
   (\<exists>s'. s2n_stuffer_shift (example_mem Free_no_mlock_impl, example_stuffer) =
       (Inr (), (example_mem Free_no_mlock_impl, s')) \<and> written s' = [2, 3])"
  using s2n_stuffer_shift_correct [of "example_mem Free_no_mlock_impl" example_stuffer] by auto

text \<open>
  C16. \<open>s2n_stuffer_copy\<close> either moves exactly \<open>len\<close> unread bytes from one stuffer to the end of the
  other, or fails with the source stuffer unchanged and both cursors of the destination where
  they were.
\<close>
theorem s2n_stuffer_copy_correct:
  assumes "mem_ok mem" and "stuffer_wf src" and "stuffer_wf dst"
    and "s2n_stuffer_copy len (src, (mem, dst)) = (r, (src', (mem', dst')))"
  shows "stuffer_wf src' \<and> stuffer_wf dst' \<and>
    (r = Inr () \<longrightarrow> unread src = take (unat len) (unread src) @ unread src' \<and>
       unread dst' = unread dst @ take (unat len) (unread src) \<and> unat len \<le> length (unread src)) \<and>
    (r \<noteq> Inr () \<longrightarrow> src' = src \<and> read_cursor dst' = read_cursor dst \<and> write_cursor dst' = write_cursor dst)"
  using assms
proof (cases rule: copy_spec)
  case (fail e)
  then show ?thesis
    using assms by (simp add: only_blob_fields)
next
  case ok
  then show ?thesis
    using skip_read_ok(3,4) [OF assms(2) ok(3)] appended_unread [OF assms(3) ok(5)]
    by (simp add: appended_def)
qed

lemma s2n_stuffer_copy_witness:
  "mem_ok (example_mem Free_no_mlock_impl) \<and> stuffer_wf example_stuffer \<and>
   (\<exists>src' mem' dst'. s2n_stuffer_copy 1 (example_stuffer, (example_mem Free_no_mlock_impl, example_stuffer)) =
       (Inr (), (src', (mem', dst'))) \<and> unread dst' = [2, 3, 2])"
proof -
  have "\<exists>src' mem' dst'. s2n_stuffer_copy 1 (example_stuffer, (example_mem Free_no_mlock_impl, example_stuffer)) =
       (Inr (), (src', (mem', dst')))"
    by (simp add: s2n_stuffer_copy_def s2n_stuffer_copy_impl_def skip_read_eq s2n_stuffer_data_available_def
        stuffer_run checked_memcpy_def mem_read_def mem_write_def example_stuffer_def s2n_stuffer_init_def)
  then obtain src' mem' dst' where "s2n_stuffer_copy 1 (example_stuffer, (example_mem Free_no_mlock_impl, example_stuffer)) =
       (Inr (), (src', (mem', dst')))"
    by blast
  then show ?thesis
    using s2n_stuffer_copy_correct [of "example_mem Free_no_mlock_impl" example_stuffer example_stuffer 1] by auto
qed

end
