(* ===== verification/Stuffer_Network.thy ===== *)
theory Stuffer_Network
  imports Stuffer
begin

text \<open>
  Integers in network byte order and length reservations
  (\<open>stuffer/s2n_stuffer_network_order.c\<close>).

  A reservation remembers where a length field was left open in a stuffer; the stuffer it points
  to is the one the operation runs on.
\<close>

section \<open>Operations\<close>

definition net_bytes :: "u64 \<Rightarrow> nat \<Rightarrow> bytes" where
  "net_bytes input len = map (\<lambda>i. ucast (drop_bit ((len - i - 1) * 8) input AND 255)) [0..<len]"

definition s2n_stuffer_write_network_order :: "u64 \<Rightarrow> u8 \<Rightarrow> (mem_stuffer, unit) action" where
  "s2n_stuffer_write_network_order input len =
     (if len = 0 then ret ()
      else block [
        ensure (len \<le> 8) S2N_ERR_SAFETY,
        s2n_stuffer_skip_write (ucast len),
        ensure_st (\<lambda>(mem, s). b_data (blob s) \<noteq> None) S2N_ERR_NULL,
        on_stuffer (\<lambda>s. stuffer_memcpy (write_cursor s - ucast len)
                          (Some (net_bytes input (unat len))) (ucast len) s)])"

record s2n_stuffer_reservation =
  res_write_cursor :: u32
  res_length :: u8

definition s2n_stuffer_reservation_validate :: "s2n_stuffer_reservation \<Rightarrow> s2n_stuffer \<Rightarrow> unit result" where
  "s2n_stuffer_reservation_validate res s =
     (if \<not> res_write_cursor res \<le> 4294967295 - ucast (res_length res) then Inl (Err S2N_ERR_SAFETY)
      else if \<not> res_write_cursor res + ucast (res_length res) \<le> write_cursor s then Inl (Err S2N_ERR_SAFETY)
      else if \<not> res_write_cursor res \<ge> read_cursor s then Inl (Err S2N_ERR_SAFETY)
      else Inr ())"

definition s2n_stuffer_reserve :: "u8 \<Rightarrow> (mem_stuffer, s2n_stuffer_reservation) action" where
  "s2n_stuffer_reserve len st =
     (let res = \<lparr>res_write_cursor = write_cursor (snd st), res_length = len\<rparr> in
      andthen (block [
        s2n_stuffer_skip_write (ucast (res_length res)),
        on_stuffer (stuffer_memset (res_write_cursor res) S2N_WIPE_PATTERN (ucast (res_length res)))])
      (ret res) st)"

definition out_byte :: "bytes option \<Rightarrow> nat \<Rightarrow> u8" where
  "out_byte d i = (case d of None \<Rightarrow> 0 | Some bs \<Rightarrow> bs ! i)"

definition s2n_stuffer_read_uint8 :: "(s2n_stuffer, u8) action" where
  "s2n_stuffer_read_uint8 =
     bnd (s2n_stuffer_read_bytes (Some [0]) 1) (\<lambda>d. ret (out_byte d 0))"

definition s2n_stuffer_write_uint8 :: "u8 \<Rightarrow> (mem_stuffer, unit) action" where
  "s2n_stuffer_write_uint8 u = s2n_stuffer_write_bytes (Some [u]) 1"

definition s2n_stuffer_reserve_uint8 :: "(mem_stuffer, s2n_stuffer_reservation) action" where
  "s2n_stuffer_reserve_uint8 = s2n_stuffer_reserve 1"

definition s2n_stuffer_read_uint16 :: "(s2n_stuffer, u16) action" where
  "s2n_stuffer_read_uint16 =
     bnd (s2n_stuffer_read_bytes (Some [0, 0]) 2)
       (\<lambda>d. ret (push_bit 8 (ucast (out_byte d 0)) OR ucast (out_byte d 1)))"

definition s2n_stuffer_write_uint16 :: "u16 \<Rightarrow> (mem_stuffer, unit) action" where
  "s2n_stuffer_write_uint16 u = s2n_stuffer_write_network_order (ucast u) 2"

definition s2n_stuffer_reserve_uint16 :: "(mem_stuffer, s2n_stuffer_reservation) action" where
  "s2n_stuffer_reserve_uint16 = s2n_stuffer_reserve 2"

definition s2n_stuffer_read_uint24 :: "(s2n_stuffer, u32) action" where
  "s2n_stuffer_read_uint24 =
     bnd (s2n_stuffer_read_bytes (Some [0, 0, 0]) 3)
       (\<lambda>d. ret (push_bit 16 (ucast (out_byte d 0)) OR push_bit 8 (ucast (out_byte d 1)) OR
                 ucast (out_byte d 2)))"

definition s2n_stuffer_write_uint24 :: "u32 \<Rightarrow> (mem_stuffer, unit) action" where
  "s2n_stuffer_write_uint24 u =
     andthen (ensure (u < push_bit 24 1) S2N_ERR_INTEGER_OVERFLOW)
       (s2n_stuffer_write_network_order (ucast u) 3)"

definition s2n_stuffer_reserve_uint24 :: "(mem_stuffer, s2n_stuffer_reservation) action" where
  "s2n_stuffer_reserve_uint24 = s2n_stuffer_reserve 3"

definition s2n_stuffer_read_uint32 :: "(s2n_stuffer, u32) action" where
  "s2n_stuffer_read_uint32 =
     bnd (s2n_stuffer_read_bytes (Some [0, 0, 0, 0]) 4)
       (\<lambda>d. ret (push_bit 24 (ucast (out_byte d 0)) OR push_bit 16 (ucast (out_byte d 1)) OR
                 push_bit 8 (ucast (out_byte d 2)) OR ucast (out_byte d 3)))"

definition s2n_stuffer_write_uint32 :: "u32 \<Rightarrow> (mem_stuffer, unit) action" where
  "s2n_stuffer_write_uint32 u = s2n_stuffer_write_network_order (ucast u) 4"

definition s2n_stuffer_read_uint64 :: "(s2n_stuffer, u64) action" where
  "s2n_stuffer_read_uint64 =
     bnd (s2n_stuffer_read_bytes (Some [0, 0, 0, 0, 0, 0, 0, 0]) 8)
       (\<lambda>d. ret (push_bit 56 (ucast (out_byte d 0)) OR push_bit 48 (ucast (out_byte d 1)) OR
                 push_bit 40 (ucast (out_byte d 2)) OR push_bit 32 (ucast (out_byte d 3)) OR
                 push_bit 24 (ucast (out_byte d 4)) OR push_bit 16 (ucast (out_byte d 5)) OR
                 push_bit 8 (ucast (out_byte d 6)) OR ucast (out_byte d 7)))"

definition s2n_stuffer_write_uint64 :: "u64 \<Rightarrow> (mem_stuffer, unit) action" where
  "s2n_stuffer_write_uint64 u = s2n_stuffer_write_network_order u 8"

definition length_matches_value_check :: "u32 \<Rightarrow> u8 \<Rightarrow> unit result" where
  "length_matches_value_check val len =
     (if \<not> len \<le> 4 then Inl (Err S2N_ERR_SIZE_MISMATCH)
      else if len < 4 \<and> \<not> val < push_bit (unat len * 8) 1 then Inl (Err S2N_ERR_SIZE_MISMATCH)
      else Inr ())"

definition s2n_stuffer_write_reservation_impl ::
  "s2n_stuffer_reservation \<Rightarrow> u32 \<Rightarrow> (mem_stuffer, unit) action" where
  "s2n_stuffer_write_reservation_impl res u = block [
     on_stuffer (modify (\<lambda>s. s\<lparr>write_cursor := res_write_cursor res\<rparr>)),
     of_result (length_matches_value_check u (res_length res)),
     s2n_stuffer_write_network_order (ucast u) (res_length res)]"

definition s2n_stuffer_write_reservation ::
  "s2n_stuffer_reservation \<Rightarrow> u32 \<Rightarrow> (mem_stuffer, unit) action" where
  "s2n_stuffer_write_reservation res u st =
     (case s2n_stuffer_reservation_validate res (snd st) of
        Inl e \<Rightarrow> (Inl e, st)
      | Inr _ \<Rightarrow>
          let old_write_cursor = write_cursor (snd st) in
          (case s2n_stuffer_write_reservation_impl res u st of
             (r, (mem, s)) \<Rightarrow> (r, (mem, s\<lparr>write_cursor := old_write_cursor\<rparr>))))"

definition s2n_stuffer_get_vector_size :: "s2n_stuffer_reservation \<Rightarrow> s2n_stuffer \<Rightarrow> u32 result" where
  "s2n_stuffer_get_vector_size res s =
     (case s2n_stuffer_reservation_validate res s of
        Inl e \<Rightarrow> Inl e
      | Inr _ \<Rightarrow> Inr (write_cursor s - (res_write_cursor res + ucast (res_length res))))"

definition s2n_stuffer_write_vector_size :: "s2n_stuffer_reservation \<Rightarrow> (mem_stuffer, unit) action" where
  "s2n_stuffer_write_vector_size res =
     bnd (\<lambda>st. (s2n_stuffer_get_vector_size res (snd st), st))
       (\<lambda>sz. s2n_stuffer_write_reservation res sz)"


section \<open>Byte order\<close>

lemma length_net_bytes [simp]: "length (net_bytes u n) = n"
  by (simp add: net_bytes_def)

lemma ucast_and_255: "(ucast (w AND 255) :: u8) = ucast w" for w :: u64
proof -
  have "w AND 255 = take_bit 8 w"
    by (simp add: take_bit_eq_mask mask_eq_exp_minus_1)
  then show ?thesis
    by (intro bit_word_eqI) (simp add: bit_simps)
qed

lemma net_bytes_nth: "i < n \<Longrightarrow> net_bytes u n ! i = ucast (drop_bit ((n - i - 1) * 8) u)"
  by (simp add: net_bytes_def ucast_and_255)

lemma bit_byte:
  fixes u :: "'a::len word"
  shows "bit (push_bit k (ucast (ucast (drop_bit k u) :: u8)) :: 'a word) n \<longleftrightarrow>
    k \<le> n \<and> n < k + 8 \<and> n < LENGTH('a) \<and> bit u n"
  by (auto simp: bit_simps)

lemma drop_bit_ucast_up:
  fixes u :: "'a::len word"
  assumes "LENGTH('a) \<le> 64"
  shows "(ucast (drop_bit k (ucast u :: u64)) :: u8) = ucast (drop_bit k u)"
proof (rule bit_word_eqI)
  fix n assume "n < LENGTH(8)"
  have "bit u m \<Longrightarrow> m < 64" for m
    using assms bit_imp_le_length less_le_trans by blast
  then show "bit (ucast (drop_bit k (ucast u :: u64)) :: u8) n = bit (ucast (drop_bit k u) :: u8) n"
    by (auto simp: bit_simps)
qed

lemma bit_low_byte:
  fixes u :: "'a::len word"
  shows "bit (ucast (ucast u :: u8) :: 'a word) n \<longleftrightarrow> n < 8 \<and> n < LENGTH('a) \<and> bit u n"
  by (auto simp: bit_simps)

lemma ucast_ucast_down: "LENGTH('a) \<le> 64 \<Longrightarrow> (ucast (ucast u :: u64) :: u8) = ucast u" for u :: "'a::len word"
  using drop_bit_ucast_up [of 0 u] by simp

lemma net_bytes_16:
  fixes u :: u16
  shows "push_bit 8 (ucast (net_bytes (ucast u) 2 ! 0)) OR ucast (net_bytes (ucast u) 2 ! 1) = u"
  by (rule bit_word_eqI)
    (simp add: net_bytes_nth drop_bit_ucast_up bit_or_iff bit_byte bit_low_byte ucast_ucast_down, linarith)

lemma net_bytes_24:
  fixes u :: u32
  assumes "u < push_bit 24 1"
  shows "push_bit 16 (ucast (net_bytes (ucast u) 3 ! 0)) OR push_bit 8 (ucast (net_bytes (ucast u) 3 ! 1)) OR
     ucast (net_bytes (ucast u) 3 ! 2) = u"
proof -
  have "unat u < 2 ^ 24"
    using assms by (simp add: word_less_unat)
  then have "u = take_bit 24 u"
    by (intro word_unat_eqI) (simp only: unsigned_take_bit_eq, simp add: take_bit_eq_mod)
  then have low: "bit u n \<Longrightarrow> n < 24" for n
    using bit_take_bit_iff by metis
  show ?thesis
    apply (rule bit_word_eqI)
    subgoal for n
      using low [of n]
      by (simp add: net_bytes_nth drop_bit_ucast_up bit_or_iff bit_byte bit_low_byte ucast_ucast_down, linarith)
    done
qed

lemma net_bytes_32:
  fixes u :: u32
  shows "push_bit 24 (ucast (net_bytes (ucast u) 4 ! 0)) OR push_bit 16 (ucast (net_bytes (ucast u) 4 ! 1)) OR
   push_bit 8 (ucast (net_bytes (ucast u) 4 ! 2)) OR ucast (net_bytes (ucast u) 4 ! 3) = u"
  by (rule bit_word_eqI)
    (simp add: net_bytes_nth drop_bit_ucast_up bit_or_iff bit_byte bit_low_byte ucast_ucast_down, linarith)

lemma net_bytes_64:
  fixes u :: u64
  shows "push_bit 56 (ucast (net_bytes u 8 ! 0)) OR push_bit 48 (ucast (net_bytes u 8 ! 1)) OR
   push_bit 40 (ucast (net_bytes u 8 ! 2)) OR push_bit 32 (ucast (net_bytes u 8 ! 3)) OR
   push_bit 24 (ucast (net_bytes u 8 ! 4)) OR push_bit 16 (ucast (net_bytes u 8 ! 5)) OR
   push_bit 8 (ucast (net_bytes u 8 ! 6)) OR ucast (net_bytes u 8 ! 7) = u"
  by (rule bit_word_eqI)
    (simp add: net_bytes_nth drop_bit_ucast_up bit_or_iff bit_byte bit_low_byte ucast_ucast_down, linarith)


section \<open>Reading and writing integers\<close>

lemma write_network_order_spec:
  assumes mem: "mem_ok mem" and wf: "stuffer_wf s"
    and run: "s2n_stuffer_write_network_order u len (mem, s) = (r, (mem', s'))"
  obtains (fail) e where "r = Inl (Err e)" and "mem_same mem mem'" and "stuffer_wf s'" and "only_blob s s'"
  | (ok) "r = Inr ()" and "mem_same mem mem'" and "len \<le> 8" and "appended (net_bytes u (unat len)) s s'"
proof (cases "len = 0 \<or> \<not> len \<le> 8")
  case True
  then show thesis
  proof (cases "len = 0")
    case True
    then show thesis
      using run wf by (intro ok) (auto simp: s2n_stuffer_write_network_order_def ret_def appended_def net_bytes_def)
  next
    case False
    with True show thesis
      using run wf by (intro fail [of S2N_ERR_SAFETY]) (auto simp: s2n_stuffer_write_network_order_def ensure_def)
  qed
next
  case False
  let ?n = "ucast len :: u32" and ?d = "net_bytes u (unat len)"
  have n: "unat ?n = unat len"
    using unat_u8_less [of len] by (intro unat_ucast_small) simp
  then have n0: "?n \<noteq> 0"
    using False by (metis unat_0 word_unat_eqI)
  obtain r1 mem1 s1 where sk: "s2n_stuffer_skip_write ?n (mem, s) = (r1, (mem1, s1))"
    by (cases "s2n_stuffer_skip_write ?n (mem, s)") auto
  from mem wf sk show thesis
  proof (cases rule: skip_write_spec)
    case (fail e)
    then show thesis
      using run False sk by (intro that(1) [of e]) (auto simp: s2n_stuffer_write_network_order_def ensure_def)
  next
    case (ok t)
    have "b_size (blob s1) \<noteq> 0"
      using ok n0 by (auto simp: unat_eq_zero)
    then obtain m where m: "b_data (blob s1) = Some m"
      using blob_wf_data_some [OF ok(6)] by blast
    have eq: "s2n_stuffer_write_bytes (Some ?d) ?n (mem, s) = s2n_stuffer_write_network_order u len (mem, s)"
      using False n0 m sk ok(1)
      by (simp add: s2n_stuffer_write_network_order_def s2n_stuffer_write_bytes_def ensure_def
          s2n_mem_is_readable_def ensure_st_def)
    from mem wf _ run [folded eq] show thesis
      by (rule write_bytes_spec) (use n False that in \<open>simp_all\<close>)
  qed
qed

lemma write_uint8_spec:
  assumes "mem_ok mem" and "stuffer_wf s" and "s2n_stuffer_write_uint8 u (mem, s) = (r, (mem', s'))"
  obtains (fail) e where "r = Inl (Err e)" and "mem_same mem mem'" and "stuffer_wf s'" and "only_blob s s'"
  | (ok) "r = Inr ()" and "mem_same mem mem'" and "appended [u] s s'"
  using assms(1,2) _ assms(3) [unfolded s2n_stuffer_write_uint8_def]
  by (rule write_bytes_spec) (use that in simp_all)

text \<open>All the integer readers take the front of the queue; a shorter queue is left as it is.\<close>

lemma read_bytes_front:
  assumes "stuffer_wf s" and "unread s = bs @ rest" and "length bs = unat n" and "length d = unat n" and "n \<noteq> 0"
  obtains s' where "s2n_stuffer_read_bytes (Some d) n s = (Inr (Some bs), s')" and "stuffer_wf s'"
    and "unread s' = rest" and "s' = s\<lparr>read_cursor := read_cursor s + n\<rparr>"
proof -
  have le: "unat n \<le> length (unread s)"
    using assms(2,3) by simp
  have "0 < unat n"
    using assms(5) by (simp add: unat_gt_0)
  then have "write_cursor s \<noteq> 0"
    using le by (auto simp: length_unread [OF assms(1)])
  then have "b_data (blob s) \<noteq> None"
    using blob_wf_data_some [OF assms(1)] by blast
  then show thesis
    using read_bytes_ok [OF assms(1) le, of d] skip_read_ok(3,4) [OF assms(1) le] assms
    by (intro that [of "s\<lparr>read_cursor := read_cursor s + n\<rparr>"]) simp_all
qed

lemma read_int_front:
  assumes "stuffer_wf s" and "unread s = bs @ rest" and "length bs = unat n" and "length d = unat n" and "n \<noteq> 0"
  shows "bnd (s2n_stuffer_read_bytes (Some d) n) (\<lambda>d. ret (f d)) s =
      (Inr (f (Some bs)), s\<lparr>read_cursor := read_cursor s + n\<rparr>)"
    and "stuffer_wf (s\<lparr>read_cursor := read_cursor s + n\<rparr>)"
    and "unread (s\<lparr>read_cursor := read_cursor s + n\<rparr>) = rest"
  by (rule read_bytes_front [OF assms], simp add: bnd_def ret_def)+

lemma read_int_short:
  assumes "stuffer_wf s" and "length (unread s) < unat n"
  shows "bnd (s2n_stuffer_read_bytes (Some d) n) f s = (Inl (Err S2N_ERR_STUFFER_OUT_OF_DATA), s)"
  using read_bytes_short [OF assms] by (simp add: bnd_def)

lemma read_uint8_front:
  assumes "stuffer_wf s" and "unread s = b # rest"
  shows "s2n_stuffer_read_uint8 s = (Inr b, s\<lparr>read_cursor := read_cursor s + 1\<rparr>)"
    and "stuffer_wf (s\<lparr>read_cursor := read_cursor s + 1\<rparr>)" and "unread (s\<lparr>read_cursor := read_cursor s + 1\<rparr>) = rest"
proof -
  have u: "unread s = [b] @ rest"
    using assms(2) by simp
  have n: "length [b] = unat (1 :: u32)" "length [0 :: u8] = unat (1 :: u32)" "(1 :: u32) \<noteq> 0"
    by simp_all
  note r = read_int_front [OF assms(1) u n]
  show "s2n_stuffer_read_uint8 s = (Inr b, s\<lparr>read_cursor := read_cursor s + 1\<rparr>)"
    unfolding s2n_stuffer_read_uint8_def by (simp add: r(1) out_byte_def)
  show "stuffer_wf (s\<lparr>read_cursor := read_cursor s + 1\<rparr>)" "unread (s\<lparr>read_cursor := read_cursor s + 1\<rparr>) = rest"
    by (fact r)+
qed

lemma read_uint16_front:
  assumes "stuffer_wf s" and "unread s = net_bytes (ucast u) 2 @ rest"
  shows "s2n_stuffer_read_uint16 s = (Inr u, s\<lparr>read_cursor := read_cursor s + 2\<rparr>)"
    and "stuffer_wf (s\<lparr>read_cursor := read_cursor s + 2\<rparr>)" and "unread (s\<lparr>read_cursor := read_cursor s + 2\<rparr>) = rest"
proof -
  have n: "length (net_bytes (ucast u) 2) = unat (2 :: u32)" "length [0 :: u8, 0] = unat (2 :: u32)" "(2 :: u32) \<noteq> 0"
    by simp_all
  note r = read_int_front [OF assms n]
  show "s2n_stuffer_read_uint16 s = (Inr u, s\<lparr>read_cursor := read_cursor s + 2\<rparr>)"
    unfolding s2n_stuffer_read_uint16_def r(1) by (simp only: out_byte_def option.case net_bytes_16)
  show "stuffer_wf (s\<lparr>read_cursor := read_cursor s + 2\<rparr>)" "unread (s\<lparr>read_cursor := read_cursor s + 2\<rparr>) = rest"
    by (fact r)+
qed

lemma read_uint24_front:
  assumes "stuffer_wf s" and "unread s = net_bytes (ucast u) 3 @ rest" and "u < push_bit 24 1"
  shows "s2n_stuffer_read_uint24 s = (Inr u, s\<lparr>read_cursor := read_cursor s + 3\<rparr>)"
    and "stuffer_wf (s\<lparr>read_cursor := read_cursor s + 3\<rparr>)" and "unread (s\<lparr>read_cursor := read_cursor s + 3\<rparr>) = rest"
proof -
  have n: "length (net_bytes (ucast u) 3) = unat (3 :: u32)" "length [0 :: u8, 0, 0] = unat (3 :: u32)" "(3 :: u32) \<noteq> 0"
    by simp_all
  note r = read_int_front [OF assms(1,2) n]
  show "s2n_stuffer_read_uint24 s = (Inr u, s\<lparr>read_cursor := read_cursor s + 3\<rparr>)"
    unfolding s2n_stuffer_read_uint24_def r(1) by (simp only: out_byte_def option.case net_bytes_24 [OF assms(3)])
  show "stuffer_wf (s\<lparr>read_cursor := read_cursor s + 3\<rparr>)" "unread (s\<lparr>read_cursor := read_cursor s + 3\<rparr>) = rest"
    by (fact r)+
qed

lemma read_uint32_front:
  assumes "stuffer_wf s" and "unread s = net_bytes (ucast u) 4 @ rest"
  shows "s2n_stuffer_read_uint32 s = (Inr u, s\<lparr>read_cursor := read_cursor s + 4\<rparr>)"
    and "stuffer_wf (s\<lparr>read_cursor := read_cursor s + 4\<rparr>)" and "unread (s\<lparr>read_cursor := read_cursor s + 4\<rparr>) = rest"
proof -
  have n: "length (net_bytes (ucast u) 4) = unat (4 :: u32)" "length [0 :: u8, 0, 0, 0] = unat (4 :: u32)" "(4 :: u32) \<noteq> 0"
    by simp_all
  note r = read_int_front [OF assms n]
  show "s2n_stuffer_read_uint32 s = (Inr u, s\<lparr>read_cursor := read_cursor s + 4\<rparr>)"
    unfolding s2n_stuffer_read_uint32_def r(1) by (simp only: out_byte_def option.case net_bytes_32)
  show "stuffer_wf (s\<lparr>read_cursor := read_cursor s + 4\<rparr>)" "unread (s\<lparr>read_cursor := read_cursor s + 4\<rparr>) = rest"
    by (fact r)+
qed

lemma read_uint64_front:
  assumes "stuffer_wf s" and "unread s = net_bytes u 8 @ rest"
  shows "s2n_stuffer_read_uint64 s = (Inr u, s\<lparr>read_cursor := read_cursor s + 8\<rparr>)"
    and "stuffer_wf (s\<lparr>read_cursor := read_cursor s + 8\<rparr>)" and "unread (s\<lparr>read_cursor := read_cursor s + 8\<rparr>) = rest"
proof -
  have n: "length (net_bytes u 8) = unat (8 :: u32)" "length [0 :: u8, 0, 0, 0, 0, 0, 0, 0] = unat (8 :: u32)" "(8 :: u32) \<noteq> 0"
    by simp_all
  note r = read_int_front [OF assms n]
  show "s2n_stuffer_read_uint64 s = (Inr u, s\<lparr>read_cursor := read_cursor s + 8\<rparr>)"
    unfolding s2n_stuffer_read_uint64_def r(1) by (simp only: out_byte_def option.case net_bytes_64)
  show "stuffer_wf (s\<lparr>read_cursor := read_cursor s + 8\<rparr>)" "unread (s\<lparr>read_cursor := read_cursor s + 8\<rparr>) = rest"
    by (fact r)+
qed


section \<open>Reservations\<close>

lemma unat_ucast_u8_u32 [simp]: "unat (ucast (x :: u8) :: u32) = unat x"
  using unat_u8_less [of x] by (intro unat_ucast_small) simp

lemma ucast_u8_u32_eq_0 [simp]: "(ucast (x :: u8) :: u32) = 0 \<longleftrightarrow> x = 0"
  by (metis unat_ucast_u8_u32 unat_0 word_unat_eqI)

definition reservation_wf :: "s2n_stuffer_reservation \<Rightarrow> s2n_stuffer \<Rightarrow> bool" where
  "reservation_wf res s \<longleftrightarrow> unat (read_cursor s) \<le> unat (res_write_cursor res) \<and>
     unat (res_write_cursor res) + unat (res_length res) \<le> unat (write_cursor s)"

lemma reservation_validate_iff:
  "s2n_stuffer_reservation_validate res s = Inr () \<longleftrightarrow> reservation_wf res s"
proof -
  let ?w = "res_write_cursor res" and ?l = "ucast (res_length res) :: u32"
  have "unat ?l \<le> UINT32_MAX"
    by (rule unat_u32_bound)
  then have max: "unat (4294967295 - ?l) = UINT32_MAX - unat ?l"
    using word_sub_unat [of ?l 4294967295] by (simp add: word_le_unat)
  show ?thesis
  proof (cases "unat ?w + unat ?l \<le> UINT32_MAX")
    case True
    then have "unat (?w + ?l) = unat ?w + unat ?l"
      by (intro word_add_unat) simp
    then show ?thesis
      using max True by (simp add: s2n_stuffer_reservation_validate_def reservation_wf_def word_le_unat) linarith
  next
    case False
    then have "\<not> ?w \<le> 4294967295 - ?l"
      using max unat_u8_less [of "res_length res"] by (simp add: word_le_unat)
    moreover have "\<not> reservation_wf res s"
      using False unat_u32_bound [of "write_cursor s"] by (simp add: reservation_wf_def)
    ultimately show ?thesis
      by (simp add: s2n_stuffer_reservation_validate_def)
  qed
qed

lemma reservation_validate_fail:
  "\<not> reservation_wf res s \<Longrightarrow> s2n_stuffer_reservation_validate res s = Inl (Err S2N_ERR_SAFETY)"
  using reservation_validate_iff [of res s] by (auto simp: s2n_stuffer_reservation_validate_def split: if_splits)

lemma write_network_order_room:
  assumes wf: "stuffer_wf s" and len: "len \<le> 8" and room: "unat (write_cursor s) + unat len \<le> unat (b_size (blob s))"
  shows "s2n_stuffer_write_network_order u len (mem, s) =
    (Inr (), (mem, set_data (map_option (overwrite (unat (write_cursor s)) (net_bytes u (unat len)))
       (b_data (blob s))) (advanced (ucast len) s)))"
proof (cases "len = 0")
  case True
  have "max (write_cursor s) (high_water_mark s) = high_water_mark s"
    using stuffer_wf_cursors(2) [OF wf] by (simp add: max_def word_le_unat)
  then have "advanced 0 s = s"
    by (simp add: advanced_def)
  with True show ?thesis
    by (cases "b_data (blob s)") (simp_all add: s2n_stuffer_write_network_order_def ret_def net_bytes_def set_data_def)
next
  case False
  have "unat len \<noteq> 0"
    using False by (simp add: unat_eq_zero)
  then have "b_size (blob s) \<noteq> 0"
    using room by auto
  then obtain m where m: "b_data (blob s) = Some m"
    using blob_wf_data_some [OF wf] by blast
  have space: "unat (ucast len :: u32) \<le> unat (s2n_stuffer_space_remaining s)"
    using room stuffer_wf_cursors [OF wf] by (simp add: unat_space_remaining [OF wf])
  have adv: "stuffer_wf (advanced (ucast len) s)"
    using room by (intro advanced_wf(1) wf) simp
  show ?thesis
    using stuffer_memcpy_ok(1) [OF adv, of "write_cursor s" "ucast len" "net_bytes u (unat len)"] room m False len
    by (simp add: s2n_stuffer_write_network_order_def ensure_def skip_write_room [OF space] ensure_st_def on_stuffer_eq)
qed

lemma length_check_iff:
  "length_matches_value_check v len = Inr () \<longleftrightarrow> len \<le> 4 \<and> (len < 4 \<longrightarrow> unat v < 256 ^ unat len)"
proof (cases "len < 4")
  case True
  then have "unat len < 4"
    by (simp add: word_less_unat)
  then consider "unat len = 0" | "unat len = 1" | "unat len = 2" | "unat len = 3"
    by linarith
  then have "unat (push_bit (unat len * 8) 1 :: u32) = 256 ^ unat len"
    by cases simp_all
  then show ?thesis
    using True by (simp add: length_matches_value_check_def word_less_unat word_le_unat)
next
  case False
  then show ?thesis
    by (simp add: length_matches_value_check_def)
qed

text \<open>Filling in a reservation changes the reserved bytes and nothing else.\<close>

lemma write_reservation_ok:
  assumes wf: "stuffer_wf s" and res: "reservation_wf res s" and len: "length_matches_value_check u (res_length res) = Inr ()"
  shows "s2n_stuffer_write_reservation res u (mem, s) =
    (Inr (), (mem, set_data (map_option (overwrite (unat (res_write_cursor res))
       (net_bytes (ucast u) (unat (res_length res)))) (b_data (blob s))) s))"
proof -
  let ?s = "s\<lparr>write_cursor := res_write_cursor res\<rparr>"
  have wf0: "stuffer_wf ?s"
    using wf res by (auto simp: stuffer_wf_iff reservation_wf_def)
  have room: "unat (write_cursor ?s) + unat (res_length res) \<le> unat (b_size (blob ?s))"
    using res stuffer_wf_cursors [OF wf] by (simp add: reservation_wf_def)
  have len8: "res_length res \<le> 8"
    using len by (auto simp: length_check_iff intro: order.trans)
  have "unat (res_write_cursor res + ucast (res_length res)) = unat (res_write_cursor res) + unat (res_length res)"
    using advanced_wf(2) [OF wf0, of "ucast (res_length res)"] room by simp
  then have "max (res_write_cursor res + ucast (res_length res)) (high_water_mark s) = high_water_mark s"
    using res stuffer_wf_cursors(2) [OF wf] by (simp add: max_def word_le_unat reservation_wf_def)
  then have "(advanced (ucast (res_length res)) ?s)\<lparr>write_cursor := write_cursor s\<rparr> = s"
    by (simp add: advanced_def)
  then have "(set_data d (advanced (ucast (res_length res)) ?s))\<lparr>write_cursor := write_cursor s\<rparr> = set_data d s" for d
    by (simp add: set_data_def advanced_def)
  then show ?thesis
    using write_network_order_room [OF wf0 len8 room] res len
    by (simp add: s2n_stuffer_write_reservation_def reservation_validate_iff [THEN iffD2]
        s2n_stuffer_write_reservation_impl_def on_stuffer_eq modify_def of_result_def)
qed

lemma write_reservation_mismatch:
  assumes res: "reservation_wf res s" and len: "length_matches_value_check u (res_length res) \<noteq> Inr ()"
  shows "s2n_stuffer_write_reservation res u (mem, s) = (Inl (Err S2N_ERR_SIZE_MISMATCH), (mem, s))"
proof -
  have "length_matches_value_check u (res_length res) = Inl (Err S2N_ERR_SIZE_MISMATCH)"
    using len by (auto simp: length_matches_value_check_def split: if_splits)
  then show ?thesis
    using res by (simp add: s2n_stuffer_write_reservation_def reservation_validate_iff [THEN iffD2]
        s2n_stuffer_write_reservation_impl_def on_stuffer_eq modify_def of_result_def)
qed

lemma reserve_spec:
  assumes mem: "mem_ok mem" and wf: "stuffer_wf s"
    and run: "s2n_stuffer_reserve len (mem, s) = (Inr res, (mem', s'))"
  shows "mem_same mem mem'" and "res = \<lparr>res_write_cursor = write_cursor s, res_length = len\<rparr>"
    and "appended (replicate (unat len) S2N_WIPE_PATTERN) s s'" and "reservation_wf res s'"
proof -
  let ?n = "ucast len :: u32"
  obtain mem1 s1 where sk: "s2n_stuffer_skip_write ?n (mem, s) = (Inr (), (mem1, s1))"
    and rest: "on_stuffer (stuffer_memset (write_cursor s) S2N_WIPE_PATTERN ?n) (mem1, s1) = (Inr (), (mem', s'))"
    and res: "res = \<lparr>res_write_cursor = write_cursor s, res_length = len\<rparr>"
    using run by (auto simp: s2n_stuffer_reserve_def andthen_def bnd_def ret_def Let_def split: prod.splits sum.splits)
  from mem wf sk obtain t where ok: "mem_same mem mem1" "stuffer_wf t" "only_blob s t" "s1 = advanced ?n t"
    "stuffer_wf s1" "unat (write_cursor s1) = unat (write_cursor s) + unat ?n"
    "unat (write_cursor s) + unat ?n \<le> unat (b_size (blob t))"
    "take (unat (write_cursor s)) (smem s1) = written s"
    by (rule skip_write_spec) auto
  have le: "unat (write_cursor s) + unat ?n \<le> unat (b_size (blob s1))"
    using ok by simp
  note set = stuffer_memset_ok [OF ok(5) le, of S2N_WIPE_PATTERN]
  have s': "s' = set_data (map_option (overwrite (unat (write_cursor s)) (replicate (unat len) S2N_WIPE_PATTERN))
      (b_data (blob s1))) s1" "mem' = mem1"
    using rest set(1) by (simp_all add: on_stuffer_eq)
  show "mem_same mem mem'" "res = \<lparr>res_write_cursor = write_cursor s, res_length = len\<rparr>"
    using ok s' res by simp_all
  have "unat (write_cursor s) + unat len \<le> length (smem s1)"
    using le stuffer_wf_cursors(4) [OF ok(5)] by simp
  then have "written s' = written s @ replicate (unat len) S2N_WIPE_PATTERN"
    using take_overwrite_end [of "unat (write_cursor s)" "smem s1" "replicate (unat len) S2N_WIPE_PATTERN"] ok
    by (cases "b_data (blob s1)") (simp_all add: s' written_def smem_def)
  then show "appended (replicate (unat len) S2N_WIPE_PATTERN) s s'"
    using set(2) ok by (simp add: s' appended_def only_blob_fields)
  then show "reservation_wf res s'"
    using stuffer_wf_cursors(1) [OF wf] by (simp add: res reservation_wf_def appended_def)
qed

lemma appended_trans: "appended a s t \<Longrightarrow> appended b t u \<Longrightarrow> appended (a @ b) s u"
  by (simp add: appended_def)

lemma reservation_wf_appended:
  "reservation_wf res s \<Longrightarrow> appended bs s s' \<Longrightarrow> reservation_wf res s'"
  by (simp add: reservation_wf_def appended_def)

lemma get_vector_size_ok:
  assumes "res = \<lparr>res_write_cursor = w, res_length = len\<rparr>" and "reservation_wf res s"
    and "unat (write_cursor s) = unat w + unat len + unat n"
  shows "s2n_stuffer_get_vector_size res s = Inr n"
proof -
  have wl: "unat (w + ucast len) = unat w + unat len"
    using assms(3) unat_u32_less [of "write_cursor s"] by (subst word_add_unat) simp_all
  then have "unat (write_cursor s - (w + ucast len)) = unat n"
    using assms(3) by (subst word_sub_unat) (simp_all add: word_le_unat)
  then have "write_cursor s - (w + ucast len) = n"
    by (rule word_unat_eqI)
  then show ?thesis
    using assms(1,2) by (simp add: s2n_stuffer_get_vector_size_def reservation_validate_iff [THEN iffD2])
qed


lemma write_vector_size_spec:
  assumes wf: "stuffer_wf s" and app: "appended (replicate (unat len) S2N_WIPE_PATTERN @ body) s s2"
    and res: "res = \<lparr>res_write_cursor = write_cursor s, res_length = len\<rparr>"
    and run: "s2n_stuffer_write_vector_size res (mem, s2) = (Inr (), (mem', s3))"
  shows "mem' = mem" and "length body < 256 ^ unat len"
    and "appended (net_bytes (of_nat (length body)) (unat len) @ body) s s3"
proof -
  let ?n = "of_nat (length body) :: u32"
  have cur: "unat (write_cursor s2) = unat (write_cursor s) + unat len + length body" and wf2: "stuffer_wf s2"
    using app by (simp_all add: appended_def)
  have n: "unat ?n = length body"
    using cur unat_u32_less [of "write_cursor s2"] by simp
  have rwf: "reservation_wf res s2"
    using app cur stuffer_wf_cursors(1) [OF wf] by (simp add: reservation_wf_def res appended_def)
  have size: "s2n_stuffer_get_vector_size res s2 = Inr ?n"
    using res rwf by (rule get_vector_size_ok) (simp add: cur n)
  then have run': "s2n_stuffer_write_reservation res ?n (mem, s2) = (Inr (), (mem', s3))"
    using run by (simp add: s2n_stuffer_write_vector_size_def bnd_def)
  then have fits: "length_matches_value_check ?n (res_length res) = Inr ()"
    using write_reservation_mismatch [OF rwf, of ?n mem] by fastforce
  have "length body < 256 ^ 4"
    using n unat_u32_less [of ?n] by simp
  then show "length body < 256 ^ unat len"
    using fits by (auto simp: length_check_iff res n le_less)
  let ?f = "overwrite (unat (write_cursor s)) (net_bytes (of_nat (length body)) (unat len))"
  have nb: "net_bytes (ucast ?n) k = net_bytes (of_nat (length body)) k" for k
    using of_nat_unat [of ?n, where ?'a = u64] by (simp only: n)
  then have st: "mem' = mem" "s3 = set_data (map_option ?f (b_data (blob s2))) s2"
    using write_reservation_ok [OF wf2 rwf fits, of mem] run' by (simp_all add: res)
  then show "mem' = mem"
    by simp
  have le: "unat (write_cursor s) + unat len \<le> length (smem s2)"
    using cur stuffer_wf_cursors [OF wf2] by linarith
  then have wf3: "stuffer_wf s3"
    unfolding st by (intro stuffer_wf_set_data wf2) simp
  have "written s3 = take (unat (write_cursor s2)) (?f (smem s2))"
    using le unfolding st by (cases "b_data (blob s2)") (simp_all add: written_def smem_def net_bytes_def)
  also have "\<dots> = ?f (written s2)"
    using cur le by (simp add: take_overwrite_beyond written_def)
  also have "\<dots> = written s @ net_bytes (of_nat (length body)) (unat len) @ body"
    using app length_written [OF wf] by (simp add: overwrite_def appended_def)
  finally show "appended (net_bytes (of_nat (length body)) (unat len) @ body) s s3"
    using wf3 app unfolding st by (simp add: appended_def)
qed

lemma write_network_order_unread:
  assumes "mem_ok mem" and "stuffer_wf s" and "unread s = []"
    and "s2n_stuffer_write_network_order v len (mem, s) = (Inr (), (mem', s'))"
  shows "stuffer_wf s'" and "unread s' = net_bytes v (unat len) @ []"
proof -
  from assms(1,2,4) have app: "appended (net_bytes v (unat len)) s s'"
    by (rule write_network_order_spec) simp_all
  then show "stuffer_wf s'"
    by (simp add: appended_def)
  show "unread s' = net_bytes v (unat len) @ []"
    using appended_unread [OF assms(2) app] assms(3) by simp
qed

lemma uint8_round_trip:
  assumes "mem_ok mem" and "stuffer_wf s" and "unread s = []"
    and "s2n_stuffer_write_uint8 u (mem, s) = (Inr (), (mem', s'))"
  shows "\<exists>s''. s2n_stuffer_read_uint8 s' = (Inr u, s'') \<and> unread s'' = []"
proof -
  from assms(1,2,4) have app: "appended [u] s s'"
    by (rule write_uint8_spec) simp_all
  then have "stuffer_wf s'" "unread s' = [u]"
    using appended_unread [OF assms(2) app] assms(3) by (simp_all add: appended_def)
  then show ?thesis
    using read_uint8_front [of s' u "[]"] by blast
qed

lemma uint16_round_trip:
  assumes "mem_ok mem" and "stuffer_wf s" and "unread s = []"
    and "s2n_stuffer_write_uint16 u (mem, s) = (Inr (), (mem', s'))"
  shows "\<exists>s''. s2n_stuffer_read_uint16 s' = (Inr u, s'') \<and> unread s'' = []"
proof -
  note w = write_network_order_unread [OF assms(1-3) assms(4) [unfolded s2n_stuffer_write_uint16_def]]
  have "unread s' = net_bytes (ucast u) 2 @ []"
    using w(2) by simp
  from read_uint16_front [OF w(1) this] show ?thesis
    by blast
qed

lemma uint24_round_trip:
  assumes "mem_ok mem" and "stuffer_wf s" and "unread s = []"
    and "s2n_stuffer_write_uint24 u (mem, s) = (Inr (), (mem', s'))"
  shows "\<exists>s''. s2n_stuffer_read_uint24 s' = (Inr u, s'') \<and> unread s'' = []"
proof -
  have u: "u < push_bit 24 1" and run: "s2n_stuffer_write_network_order (ucast u) 3 (mem, s) = (Inr (), (mem', s'))"
    using assms(4)
    by (auto simp: s2n_stuffer_write_uint24_def andthen_def bnd_def ensure_def simp del: push_bit_of_1 split: if_splits)
  note w = write_network_order_unread [OF assms(1-3) run]
  have "unread s' = net_bytes (ucast u) 3 @ []"
    using w(2) by simp
  from read_uint24_front [OF w(1) this u] show ?thesis
    by blast
qed

lemma uint32_round_trip:
  assumes "mem_ok mem" and "stuffer_wf s" and "unread s = []"
    and "s2n_stuffer_write_uint32 u (mem, s) = (Inr (), (mem', s'))"
  shows "\<exists>s''. s2n_stuffer_read_uint32 s' = (Inr u, s'') \<and> unread s'' = []"
proof -
  note w = write_network_order_unread [OF assms(1-3) assms(4) [unfolded s2n_stuffer_write_uint32_def]]
  have "unread s' = net_bytes (ucast u) 4 @ []"
    using w(2) by simp
  from read_uint32_front [OF w(1) this] show ?thesis
    by blast
qed

lemma uint64_round_trip:
  assumes "mem_ok mem" and "stuffer_wf s" and "unread s = []"
    and "s2n_stuffer_write_uint64 u (mem, s) = (Inr (), (mem', s'))"
  shows "\<exists>s''. s2n_stuffer_read_uint64 s' = (Inr u, s'') \<and> unread s'' = []"
proof -
  note w = write_network_order_unread [OF assms(1-3) assms(4) [unfolded s2n_stuffer_write_uint64_def]]
  have "unread s' = net_bytes u 8 @ []"
    using w(2) by simp
  from read_uint64_front [OF w(1) this] show ?thesis
    by blast
qed


section \<open>Claims\<close>

text \<open>
  C12. Integers of every width survive the wire.  Whenever writing \<open>u\<close> with the 8, 16, 24, 32 or 64 bit
  writer succeeds on a stuffer with no unread bytes, the matching reader returns exactly \<open>u\<close> and
  consumes exactly the bytes that were written.
\<close>
theorem network_order_round_trip:
  assumes "mem_ok mem" and "stuffer_wf s" and "unread s = []"
  shows
    "(s2n_stuffer_write_uint8 a (mem, s) = (Inr (), (mem', s')) \<longrightarrow>
       (\<exists>s''. s2n_stuffer_read_uint8 s' = (Inr a, s'') \<and> unread s'' = [])) \<and>
     (s2n_stuffer_write_uint16 b (mem, s) = (Inr (), (mem', s')) \<longrightarrow>
       (\<exists>s''. s2n_stuffer_read_uint16 s' = (Inr b, s'') \<and> unread s'' = [])) \<and>
     (s2n_stuffer_write_uint24 c (mem, s) = (Inr (), (mem', s')) \<longrightarrow>
       (\<exists>s''. s2n_stuffer_read_uint24 s' = (Inr c, s'') \<and> unread s'' = [])) \<and>
     (s2n_stuffer_write_uint32 d (mem, s) = (Inr (), (mem', s')) \<longrightarrow>
       (\<exists>s''. s2n_stuffer_read_uint32 s' = (Inr d, s'') \<and> unread s'' = [])) \<and>
     (s2n_stuffer_write_uint64 e (mem, s) = (Inr (), (mem', s')) \<longrightarrow>
       (\<exists>s''. s2n_stuffer_read_uint64 s' = (Inr e, s'') \<and> unread s'' = []))"
  by (intro conjI impI uint8_round_trip uint16_round_trip uint24_round_trip uint32_round_trip
      uint64_round_trip) (rule assms | assumption)+

lemma network_order_round_trip_witness:
  "mem_ok (example_mem Free_no_mlock_impl) \<and> stuffer_wf example_fresh \<and> unread example_fresh = [] \<and>
   (\<exists>s' s''. s2n_stuffer_write_uint16 4660 (example_mem Free_no_mlock_impl, example_fresh) =
       (Inr (), (example_mem Free_no_mlock_impl, s')) \<and> unread s' = [18, 52] \<and>
     s2n_stuffer_read_uint16 s' = (Inr 4660, s''))"
proof -
  let ?mem = "example_mem Free_no_mlock_impl"
  let ?s = "set_data (Some [18, 52, 0, 0]) (advanced 2 example_fresh)"
  have fresh: "write_cursor example_fresh = 0" "b_size (blob example_fresh) = 4"
    "b_data (blob example_fresh) = Some [0, 0, 0, 0]"
    by (simp_all add: example_fresh_def s2n_stuffer_init_def)
  have nb: "net_bytes 4660 2 = [18, 52]"
    by code_simp
  have run: "s2n_stuffer_write_uint16 4660 (?mem, example_fresh) = (Inr (), (?mem, ?s))"
    using write_network_order_room [of example_fresh 2 "ucast (4660 :: u16)" ?mem]
    by (simp only: s2n_stuffer_write_uint16_def) (simp add: fresh nb overwrite_def)
  moreover have "unread ?s = [18, 52]"
    by (simp add: unread_def written_def smem_def set_data_def advanced_def example_fresh_def s2n_stuffer_init_def)
  moreover have "\<exists>s''. s2n_stuffer_read_uint16 ?s = (Inr 4660, s'') \<and> unread s'' = []"
    using network_order_round_trip [of ?mem example_fresh _ ?mem ?s 4660] run by simp
  ultimately show ?thesis
    by auto
qed

text \<open>
  C11. Vectors carry their own length.  Reserving a length field of \<open>len\<close> bytes, writing a body
  behind it and closing the field with \<open>s2n_stuffer_write_vector_size\<close> leaves exactly the RFC
  encoding in the stuffer: what was there, the length of the body in network order, the body.
  If the length does not fit the field the call fails with \<open>S2N_ERR_SIZE_MISMATCH\<close> and the stuffer is as
  it was before the call.
\<close>
theorem vector_encoding_correct:
  assumes "mem_ok mem" and "stuffer_wf s"
    and "s2n_stuffer_reserve len (mem, s) = (Inr res, (mem1, s1))"
    and "s2n_stuffer_write_bytes (Some body) n (mem1, s1) = (Inr (), (mem2, s2))" and "length body = unat n"
  shows "if len \<le> 4 \<and> length body < 256 ^ unat len
    then \<exists>s3. s2n_stuffer_write_vector_size res (mem2, s2) = (Inr (), (mem2, s3)) \<and>
           written s3 = written s @ net_bytes (ucast n) (unat len) @ body \<and> stuffer_wf s3
    else s2n_stuffer_write_vector_size res (mem2, s2) = (Inl (Err S2N_ERR_SIZE_MISMATCH), (mem2, s2))"
proof -
  note r = reserve_spec [OF assms(1-3)]
  have s1: "stuffer_wf s1" "mem_ok mem1"
    using r(1,3) mem_same_ok assms(1) by (auto simp: appended_def)
  have "unat n \<le> length body"
    using assms(5) by simp
  from s1(2,1) this assms(4) have b: "appended body s1 s2"
    by (rule write_bytes_spec) (use assms(5) in simp_all)
  let ?pad = "replicate (unat len) S2N_WIPE_PATTERN"
  have app: "appended (?pad @ body) s s2"
    using r(3) b by (rule appended_trans)
  have wf2: "stuffer_wf s2" and cur: "unat (write_cursor s2) = unat (write_cursor s) + unat len + unat n"
    using app assms(5) by (simp_all add: appended_def)
  have res: "reservation_wf res s2"
    using r(4) b by (rule reservation_wf_appended)
  have size: "s2n_stuffer_get_vector_size res s2 = Inr n"
    using r(2) res cur by (rule get_vector_size_ok)
  have run: "s2n_stuffer_write_vector_size res (mem2, s2) = s2n_stuffer_write_reservation res n (mem2, s2)"
    by (simp add: s2n_stuffer_write_vector_size_def bnd_def size)
  have len: "res_length res = len" "res_write_cursor res = write_cursor s"
    using r(2) by simp_all
  have "unat n < 256 ^ 4"
    using unat_u32_less [of n] by simp
  then have fits: "length_matches_value_check n (res_length res) = Inr () \<longleftrightarrow> len \<le> 4 \<and> length body < 256 ^ unat len"
    using assms(5) by (auto simp: length_check_iff len le_less)
  show ?thesis
  proof (cases "len \<le> 4 \<and> length body < 256 ^ unat len")
    case False
    then show ?thesis
      using write_reservation_mismatch [OF res] fits run by simp
  next
    case True
    obtain s3 where ok: "s2n_stuffer_write_vector_size res (mem2, s2) = (Inr (), (mem2, s3))"
      using write_reservation_ok [OF wf2 res] fits True run by auto
    note v = write_vector_size_spec(3) [OF assms(2) app r(2) ok]
    have "net_bytes (of_nat (length body)) k = net_bytes (ucast n) k" for k
      using of_nat_unat [of n, where ?'a = u64] by (simp only: assms(5))
    then show ?thesis
      using True ok v by (auto simp: appended_def)
  qed
qed

lemma vector_encoding_witness:
  "mem_ok (example_mem Free_no_mlock_impl) \<and> stuffer_wf example_fresh \<and>
   (\<exists>res mem1 s1 mem2 s2 s3.
      s2n_stuffer_reserve 1 (example_mem Free_no_mlock_impl, example_fresh) = (Inr res, (mem1, s1)) \<and>
      s2n_stuffer_write_bytes (Some [7, 8]) 2 (mem1, s1) = (Inr (), (mem2, s2)) \<and>
      s2n_stuffer_write_vector_size res (mem2, s2) = (Inr (), (mem2, s3)) \<and> written s3 = [2, 7, 8])"
proof -
  let ?mem = "example_mem Free_no_mlock_impl"
  let ?s = "\<lambda>m w. \<lparr>blob = \<lparr>b_data = Some m, b_size = 4, b_allocated = 0, b_growable = False\<rparr>,
      read_cursor = 0, write_cursor = w, high_water_mark = w, alloced = False, growable = False, tainted = False\<rparr>"
  let ?res = "\<lparr>res_write_cursor = 0, res_length = 1\<rparr>"
  have r: "s2n_stuffer_reserve 1 (?mem, example_fresh) = (Inr ?res, (?mem, ?s [119, 0, 0, 0] 1))"
    by (simp add: s2n_stuffer_reserve_def andthen_def bnd_def stuffer_run stuffer_memset_def mem_write_def
        example_fresh_def s2n_stuffer_init_def)
  have w: "s2n_stuffer_write_bytes (Some [7, 8]) 2 (?mem, ?s [119, 0, 0, 0] 1) = (Inr (), (?mem, ?s [119, 7, 8, 0] 3))"
    by (simp add: stuffer_run checked_memcpy_def mem_read_def mem_write_def)
  have nb: "net_bytes (ucast (2 :: u32)) 1 = [2]"
    by code_simp
  have "written example_fresh = []"
    by (simp add: example_fresh_def s2n_stuffer_init_def written_def)
  moreover obtain s3 where "s2n_stuffer_write_vector_size ?res (?mem, ?s [119, 7, 8, 0] 3) = (Inr (), (?mem, s3))"
    "written s3 = written example_fresh @ net_bytes (ucast (2 :: u32)) (unat (1 :: u8)) @ [7, 8]"
    using vector_encoding_correct [OF _ _ r w] by auto
  ultimately show ?thesis
    using r w nb by auto
qed

end
