(* ===== verification/Stuffer_Text.thy ===== *)
theory Stuffer_Text
  imports Stuffer_Network
begin

text \<open>
  Text in stuffers (\<open>stuffer/s2n_stuffer_text.c\<close>).

  A C string is the list of its bytes before the terminator.  Loops over a stuffer are recursive
  functions with the cursor test of the source; each comes with its termination proof and with
  the lemma that says which list function it computes on the unread bytes.
\<close>

section \<open>Operations\<close>

definition byte_at :: "s2n_stuffer \<Rightarrow> u32 \<Rightarrow> u8 option" where
  "byte_at s i =
     (case b_data (blob s) of
        None \<Rightarrow> None
      | Some m \<Rightarrow> if unat i < length m then Some (m ! unat i) else None)"

text \<open>Comparison of a byte with a \<open>char\<close>: \<open>char\<close> is signed, so a \<open>char\<close> above 127 equals no byte.\<close>

definition char_eq :: "u8 \<Rightarrow> u8 \<Rightarrow> bool" where
  "char_eq b c \<longleftrightarrow> b = c \<and> c < 128"

definition s2n_stuffer_peek_char :: "(s2n_stuffer, u8) action" where
  "s2n_stuffer_peek_char s =
     (case s2n_stuffer_read_uint8 s of
        (Inl e, s) \<Rightarrow> (Inl e, s)
      | (Inr c, s) \<Rightarrow> (Inr c, s\<lparr>read_cursor := read_cursor s - 1\<rparr>))"

definition s2n_stuffer_read_expected_str :: "bytes option \<Rightarrow> (s2n_stuffer, unit) action" where
  "s2n_stuffer_read_expected_str expected s =
     (case expected of
        None \<Rightarrow> (Inl (Err S2N_ERR_NULL), s)
      | Some str \<Rightarrow>
          let expected_length = length str in
          if expected_length = 0 then (Inr (), s)
          else if \<not> unat (s2n_stuffer_data_available s) \<ge> expected_length
          then (Inl (Err S2N_ERR_STUFFER_OUT_OF_DATA), s)
          else case b_data (blob s) of
            None \<Rightarrow> (Inl (Err S2N_ERR_NULL), s)
          | Some m \<Rightarrow>
              (case mem_read m (unat (read_cursor s)) expected_length of
                 None \<Rightarrow> (Inl Undefined, s)
               | Some actual \<Rightarrow>
                   if actual \<noteq> str then (Inl (Err S2N_ERR_STUFFER_NOT_FOUND), s)
                   else (Inr (), s\<lparr>read_cursor := read_cursor s + of_nat expected_length\<rparr>)))"

definition s2n_stuffer_peek_check_for_str :: "bytes option \<Rightarrow> (s2n_stuffer, unit) action" where
  "s2n_stuffer_peek_check_for_str expected s =
     (let orig_read_pos = read_cursor s in
      case s2n_stuffer_read_expected_str expected s of
        (rc, s) \<Rightarrow> (rc, s\<lparr>read_cursor := orig_read_pos\<rparr>))"

lemma unat_minus_one_less: "0 < x \<Longrightarrow> unat (x - 1) < unat x" for x :: u32
  using word_sub_unat [of 1 x] by (simp add: word_less_unat word_le_unat)

lemma word_diff_pos: "a < b \<Longrightarrow> 0 < b - a" for a b :: u32
  using word_sub_unat [of a b] by (simp add: word_less_unat word_le_unat)

lemma unat_next_less:
  fixes a b :: u32
  assumes "a < b" shows "unat (b - (a + 1)) < unat (b - a)"
proof -
  have "b - (a + 1) = b - a - 1"
    by (simp add: diff_diff_eq)
  then show ?thesis
    using unat_minus_one_less [OF word_diff_pos [OF assms]] by (simp only:)
qed

lemma available_step:
  "s2n_stuffer_data_available (s\<lparr>read_cursor := read_cursor s + 1\<rparr>) = s2n_stuffer_data_available s - 1"
  by (simp add: s2n_stuffer_data_available_def)

definition is_whitespace :: "u8 \<Rightarrow> bool" where
  "is_whitespace c \<longleftrightarrow> c = 32 \<or> c = 9 \<or> c = 10 \<or> c = 13"

function skip_whitespace_loop :: "(s2n_stuffer, unit) action" where
  "skip_whitespace_loop s =
     (if s2n_stuffer_data_available s > 0
      then case byte_at s (read_cursor s) of
        None \<Rightarrow> (Inl Undefined, s)
      | Some c \<Rightarrow>
          if is_whitespace c then skip_whitespace_loop (s\<lparr>read_cursor := read_cursor s + 1\<rparr>)
          else (Inr (), s)
      else (Inr (), s))"
  by pat_completeness auto
termination
  by (relation "measure (\<lambda>s. unat (s2n_stuffer_data_available s))")
    (simp_all add: available_step unat_minus_one_less)

declare skip_whitespace_loop.simps [simp del]

definition s2n_stuffer_skip_whitespace :: "(s2n_stuffer, u32) action" where
  "s2n_stuffer_skip_whitespace s =
     (let initial_read_cursor = read_cursor s in
      case skip_whitespace_loop s of
        (Inl e, s) \<Rightarrow> (Inl e, s)
      | (Inr _, s) \<Rightarrow> (Inr (read_cursor s - initial_read_cursor), s))"

function skip_to_char_loop :: "u8 \<Rightarrow> (s2n_stuffer, unit) action" where
  "skip_to_char_loop target s =
     (if s2n_stuffer_data_available s > 0
      then case byte_at s (read_cursor s) of
        None \<Rightarrow> (Inl Undefined, s)
      | Some c \<Rightarrow>
          if char_eq c target then (Inr (), s)
          else skip_to_char_loop target (s\<lparr>read_cursor := read_cursor s + 1\<rparr>)
      else (Inr (), s))"
  by pat_completeness auto
termination
  by (relation "measure (\<lambda>(c, s). unat (s2n_stuffer_data_available s))")
    (simp_all add: available_step unat_minus_one_less)

declare skip_to_char_loop.simps [simp del]

definition s2n_stuffer_skip_to_char :: "u8 \<Rightarrow> (s2n_stuffer, unit) action" where
  "s2n_stuffer_skip_to_char target = skip_to_char_loop target"

function skip_expected_char_loop :: "u8 \<Rightarrow> u32 \<Rightarrow> u32 \<Rightarrow> (s2n_stuffer, u32) action" where
  "skip_expected_char_loop expected mx skip s =
     (if read_cursor s < write_cursor s \<and> skip < mx
      then case byte_at s (read_cursor s) of
        None \<Rightarrow> (Inl Undefined, s)
      | Some c \<Rightarrow>
          if char_eq c expected
          then skip_expected_char_loop expected mx (skip + 1) (s\<lparr>read_cursor := read_cursor s + 1\<rparr>)
          else (Inr skip, s)
      else (Inr skip, s))"
  by pat_completeness auto
termination
  by (relation "measure (\<lambda>(c, mx, skip, s). unat (mx - skip))") (auto intro: unat_next_less)

declare skip_expected_char_loop.simps [simp del]

definition s2n_stuffer_skip_expected_char :: "u8 \<Rightarrow> u32 \<Rightarrow> u32 \<Rightarrow> (s2n_stuffer, u32) action" where
  "s2n_stuffer_skip_expected_char expected mn mx s =
     (if \<not> mn \<le> mx then (Inl (Err S2N_ERR_SAFETY), s)
      else case skip_expected_char_loop expected mx 0 s of
        (Inl e, s) \<Rightarrow> (Inl e, s)
      | (Inr skip, s) \<Rightarrow> if \<not> skip \<ge> mn then (Inl (Err S2N_ERR_STUFFER_NOT_FOUND), s) else (Inr skip, s))"

lemma skip_to_char_available:
  "skip_to_char_loop c s = (r, s') \<Longrightarrow> s2n_stuffer_data_available s' \<le> s2n_stuffer_data_available s"
proof (induction c s rule: skip_to_char_loop.induct)
  case (1 c s)
  show ?case
  proof (cases "s2n_stuffer_data_available s > 0 \<and> (\<exists>b. byte_at s (read_cursor s) = Some b \<and> \<not> char_eq b c)")
    case True
    then obtain b where b: "s2n_stuffer_data_available s > 0" "byte_at s (read_cursor s) = Some b" "\<not> char_eq b c"
      by blast
    let ?s = "s\<lparr>read_cursor := read_cursor s + 1\<rparr>"
    have "skip_to_char_loop c ?s = (r, s')"
      using "1.prems" b by (simp add: skip_to_char_loop.simps [of c s])
    then have "s2n_stuffer_data_available s' \<le> s2n_stuffer_data_available ?s"
      using "1.IH" b by blast
    also have "\<dots> \<le> s2n_stuffer_data_available s"
      using unat_minus_one_less [OF b(1)] by (simp only: available_step word_le_unat)
    finally show ?thesis .
  next
    case False
    then have "s' = s"
      using "1.prems" by (auto simp: skip_to_char_loop.simps [of c s] split: if_splits option.splits)
    then show ?thesis by simp
  qed
qed

text \<open>
  The loop of \<open>s2n_stuffer_skip_read_until\<close>.  Every round consumes at least the first character of
  the candidate it rejects.
\<close>

function skip_read_until_loop :: "bytes \<Rightarrow> (s2n_stuffer, unit) action" where
  "skip_read_until_loop target s =
     (let len = (of_nat (length target) :: u32) in
      if len \<noteq> 0 \<and> s2n_stuffer_data_available s \<ge> len
      then case skip_to_char_loop (target ! 0) s of
        (Inl e, s1) \<Rightarrow> (Inl e, s1)
      | (Inr _, s1) \<Rightarrow>
          (case s2n_stuffer_skip_read len s1 of
             (Inl e, s2) \<Rightarrow> (Inl e, s2)
           | (Inr _, s2) \<Rightarrow>
               (case b_data (blob s2) of
                  None \<Rightarrow> (Inl (Err S2N_ERR_NULL), s2)
                | Some m \<Rightarrow>
                    (case mem_read m (unat (read_cursor s2 - len)) (unat len) of
                       None \<Rightarrow> (Inl Undefined, s2)
                     | Some actual \<Rightarrow>
                         if actual = target then (Inr (), s2)
                         else (case s2n_stuffer_rewind_read (len - 1) s2 of
                                 (Inl e, s3) \<Rightarrow> (Inl e, s3)
                               | (Inr _, s3) \<Rightarrow> skip_read_until_loop target s3))))
      else (Inr (), s))"
  by pat_completeness auto
termination
proof (relation "measure (\<lambda>(t, s). unat (s2n_stuffer_data_available s))", simp, clarsimp)
  fix target :: bytes and s s1 s2 s3
  let ?len = "of_nat (length target) :: u32"
  assume len: "?len \<noteq> 0" and 1: "(Inr (), s1) = skip_to_char_loop (target ! 0) s"
    and 2: "(Inr (), s2) = s2n_stuffer_skip_read ?len s1"
    and 3: "(Inr (), s3) = s2n_stuffer_rewind_read (?len - 1) s2"
  have a1: "?len \<le> s2n_stuffer_data_available s1" and s2: "s2 = s1\<lparr>read_cursor := read_cursor s1 + ?len\<rparr>"
    using 2 by (auto simp: skip_read_eq split: if_splits)
  have "read_cursor s3 = read_cursor s1 + 1" "write_cursor s3 = write_cursor s1"
    using 3 by (auto simp: s2 s2n_stuffer_rewind_read_def ensure_st_def modify_def split: if_splits)
  then have a3: "s2n_stuffer_data_available s3 = s2n_stuffer_data_available s1 - 1"
    by (simp add: s2n_stuffer_data_available_def)
  have "0 < s2n_stuffer_data_available s1"
    using len a1 by (metis le_zero_eq word_gt_0 word_le_0_iff)
  then have "unat (s2n_stuffer_data_available s3) < unat (s2n_stuffer_data_available s1)"
    using unat_minus_one_less a3 by simp
  also have "\<dots> \<le> unat (s2n_stuffer_data_available s)"
    using skip_to_char_available [OF sym [OF 1]] by (simp add: word_le_unat)
  finally show "unat (s2n_stuffer_data_available s3) < unat (s2n_stuffer_data_available s)" .
qed

declare skip_read_until_loop.simps [simp del]

definition s2n_stuffer_skip_read_until :: "bytes option \<Rightarrow> (s2n_stuffer, unit) action" where
  "s2n_stuffer_skip_read_until target s =
     (case target of
        None \<Rightarrow> (Inl (Err S2N_ERR_NULL), s)
      | Some str \<Rightarrow> if (of_nat (length str) :: u32) = 0 then (Inr (), s) else skip_read_until_loop str s)"

function token_size_loop :: "u8 \<Rightarrow> s2n_stuffer \<Rightarrow> u32 \<Rightarrow> u32 result" where
  "token_size_loop delim s token_size =
     (if read_cursor s + token_size < write_cursor s
      then case byte_at s (read_cursor s + token_size) of
        None \<Rightarrow> Inl Undefined
      | Some c \<Rightarrow> if char_eq c delim then Inr token_size else token_size_loop delim s (token_size + 1)
      else Inr token_size)"
  by pat_completeness auto
termination
  by (relation "measure (\<lambda>(d, s, n). unat (write_cursor s - (read_cursor s + n)))")
    (auto simp: add.assoc [symmetric] intro: unat_next_less)

declare token_size_loop.simps [simp del]

type_synonym two_stuffers = "s2n_stuffer \<times> mem_stuffer"

definition s2n_stuffer_read_token :: "u8 \<Rightarrow> (two_stuffers, unit) action" where
  "s2n_stuffer_read_token delim = (\<lambda>(s, token).
     case token_size_loop delim s 0 of
       Inl e \<Rightarrow> (Inl e, (s, token))
     | Inr token_size \<Rightarrow>
         (case s2n_stuffer_copy token_size (s, token) of
            (Inl e, st) \<Rightarrow> (Inl e, st)
          | (Inr _, (s, token)) \<Rightarrow>
              (Inr (), (if read_cursor s < write_cursor s then s\<lparr>read_cursor := read_cursor s + 1\<rparr> else s, token))))"

definition s2n_stuffer_read_line :: "(two_stuffers, unit) action" where
  "s2n_stuffer_read_line st =
     (case s2n_stuffer_read_token 10 st of
        (Inl e, st) \<Rightarrow> (Inl e, st)
      | (Inr _, (s, (mem, token))) \<Rightarrow>
          if s2n_stuffer_data_available token > 0
          then (case byte_at token (write_cursor token - 1) of
                  None \<Rightarrow> (Inl Undefined, (s, (mem, token)))
                | Some c \<Rightarrow>
                    (Inr (), (s, (mem, if c = 13 then token\<lparr>write_cursor := write_cursor token - 1\<rparr> else token))))
          else (Inr (), (s, (mem, token))))"

definition s2n_stuffer_alloc_ro_from_string :: "bytes option \<Rightarrow> (mem_stuffer, unit) action" where
  "s2n_stuffer_alloc_ro_from_string str =
     (case str of
        None \<Rightarrow> bail S2N_ERR_NULL
      | Some bs \<Rightarrow>
          let len = (of_nat (length bs) :: u32) in
          block [s2n_stuffer_alloc (len + 1), s2n_stuffer_write_bytes (Some bs) len])"

definition s2n_stuffer_init_ro_from_string :: "bytes option \<Rightarrow> u32 \<Rightarrow> (mem_stuffer, unit) action" where
  "s2n_stuffer_init_ro_from_string data len =
     andthen (ensure (data \<noteq> None) S2N_ERR_NULL)
       (bnd (of_result (s2n_blob_init data len))
         (\<lambda>b. block [on_stuffer (modify (\<lambda>_. s2n_stuffer_init b)), s2n_stuffer_skip_write len]))"

text \<open>
  \<open>vsnprintf\<close> is called twice: \<open>str_len\<close> and \<open>written_len\<close> are what the two calls return, \<open>txt\<close> the
  formatted text, which the second call stores, cut to the space it was given, with a terminator.
\<close>

definition s2n_stuffer_vprintf :: "int \<Rightarrow> int \<Rightarrow> bytes \<Rightarrow> (mem_stuffer, unit) action" where
  "s2n_stuffer_vprintf str_len written_len txt st =
     (if \<not> str_len \<ge> 0 then (Inl (Err S2N_ERR_SAFETY), st)
      else if \<not> str_len < 2147483647 then (Inl (Err S2N_ERR_SAFETY), st)
      else
        let mem_size = (word_of_int (str_len + 1) :: u32);
            previously_tainted = tainted (snd st)
        in case s2n_stuffer_raw_write mem_size st of
             (r, (mem, s)) \<Rightarrow>
               let s = s\<lparr>tainted := previously_tainted\<rparr> in
               (case r of
                  Inl e \<Rightarrow> (Inl e, (mem, s))
                | Inr None \<Rightarrow> (Inl (Err S2N_ERR_NULL), (mem, s))
                | Inr (Some str) \<Rightarrow>
                    let stored = take (nat str_len) txt @ [0] in
                    block [
                      on_stuffer (stuffer_memcpy str (Some stored) (of_nat (length stored))),
                      (if written_len \<noteq> str_len
                       then block [on_stuffer (s2n_stuffer_wipe_n mem_size), bail S2N_ERR_SAFETY]
                       else on_stuffer (s2n_stuffer_wipe_n 1))] (mem, s)))"


section \<open>Loops on the unread bytes\<close>

lemma unread_Cons:
  assumes "stuffer_wf s" and "unread s = b # rest"
  shows "0 < s2n_stuffer_data_available s" and "byte_at s (read_cursor s) = Some b"
    and "stuffer_wf (s\<lparr>read_cursor := read_cursor s + 1\<rparr>)"
    and "unread (s\<lparr>read_cursor := read_cursor s + 1\<rparr>) = rest"
    and "read_cursor s < write_cursor s"
proof -
  have len: "length (unread s) = Suc (length rest)"
    using assms(2) by simp
  then have lt: "unat (read_cursor s) < unat (write_cursor s)"
    by (simp add: length_unread [OF assms(1)])
  then show "read_cursor s < write_cursor s"
    by (simp add: word_less_unat)
  show "0 < s2n_stuffer_data_available s"
    using unat_data_available [OF assms(1)] len by (simp add: word_less_unat)
  have "unat (read_cursor s) < length (smem s)"
    using stuffer_wf_cursors [OF assms(1)] lt by linarith
  then obtain m where m: "b_data (blob s) = Some m" "unat (read_cursor s) < length m"
    by (cases "b_data (blob s)") (simp_all add: smem_def)
  have "unread s ! 0 = m ! unat (read_cursor s)"
    using lt m by (simp add: unread_def written_def smem_def)
  then show "byte_at s (read_cursor s) = Some b"
    using assms(2) m by (simp add: byte_at_def)
  have "unat (1 :: u32) \<le> length (unread s)"
    using len by simp
  from skip_read_ok(3,4) [OF assms(1) this] assms(2)
  show "stuffer_wf (s\<lparr>read_cursor := read_cursor s + 1\<rparr>)"
    "unread (s\<lparr>read_cursor := read_cursor s + 1\<rparr>) = rest"
    by simp_all
qed

lemma unread_Nil:
  assumes "stuffer_wf s" and "unread s = []"
  shows "s2n_stuffer_data_available s = 0" and "\<not> read_cursor s < write_cursor s"
  using unat_data_available [OF assms(1)] assms(2) length_unread [OF assms(1)]
  by (auto simp: unat_eq_zero word_less_unat)

definition moved :: "s2n_stuffer \<Rightarrow> s2n_stuffer \<Rightarrow> bool" where
  "moved s s' \<longleftrightarrow> (\<exists>r. s' = s\<lparr>read_cursor := r\<rparr>)"

lemma moved_refl [simp]: "moved s s"
  by (auto simp: moved_def intro: exI [of _ "read_cursor s"])

lemma moved_step: "moved (s\<lparr>read_cursor := r\<rparr>) s' \<Longrightarrow> moved s s'"
  by (auto simp: moved_def)

lemma moved_update [simp]: "moved s (s\<lparr>read_cursor := r\<rparr>)"
  by (auto simp: moved_def)

lemma skip_whitespace_spec:
  assumes "stuffer_wf s"
  obtains s' where "skip_whitespace_loop s = (Inr (), s')" and "stuffer_wf s'" and "moved s s'"
    and "unread s' = dropWhile is_whitespace (unread s)"
    and "unat (read_cursor s') = unat (read_cursor s) + length (takeWhile is_whitespace (unread s))"
proof -
  have "\<exists>s'. skip_whitespace_loop s = (Inr (), s') \<and> stuffer_wf s' \<and> moved s s' \<and>
      unread s' = dropWhile is_whitespace (unread s) \<and>
      unat (read_cursor s') = unat (read_cursor s) + length (takeWhile is_whitespace (unread s))"
    using assms
  proof (induction "unread s" arbitrary: s)
    case Nil
    then show ?case
      using unread_Nil [of s] by (auto simp: skip_whitespace_loop.simps [of s])
  next
    case (Cons b rest)
    note f = unread_Cons [OF Cons.prems Cons.hyps(2) [symmetric]]
    let ?t = "s\<lparr>read_cursor := read_cursor s + 1\<rparr>"
    have r: "unat (read_cursor ?t) = Suc (unat (read_cursor s))"
      using skip_read_ok(2) [OF Cons.prems, of 1] Cons.hyps(2) [symmetric] by simp
    show ?case
    proof (cases "is_whitespace b")
      case True
      then have "skip_whitespace_loop s = skip_whitespace_loop ?t"
        using f by (simp add: skip_whitespace_loop.simps [of s])
      then show ?thesis
        using Cons.hyps(1) [of ?t] f(3,4) r True Cons.hyps(2) [symmetric] moved_step by fastforce
    next
      case False
      then show ?thesis
        using f Cons.prems Cons.hyps(2) [symmetric] by (auto simp: skip_whitespace_loop.simps [of s])
    qed
  qed
  then show thesis
    using that by blast
qed

lemma skip_to_char_spec:
  assumes "stuffer_wf s"
  obtains s' where "skip_to_char_loop c s = (Inr (), s')" and "stuffer_wf s'" and "moved s s'"
    and "unread s' = dropWhile (\<lambda>b. \<not> char_eq b c) (unread s)"
proof -
  have "\<exists>s'. skip_to_char_loop c s = (Inr (), s') \<and> stuffer_wf s' \<and> moved s s' \<and>
      unread s' = dropWhile (\<lambda>b. \<not> char_eq b c) (unread s)"
    using assms
  proof (induction "unread s" arbitrary: s)
    case Nil
    then show ?case
      using unread_Nil [of s] by (auto simp: skip_to_char_loop.simps [of c s])
  next
    case (Cons b rest)
    note f = unread_Cons [OF Cons.prems Cons.hyps(2) [symmetric]]
    let ?t = "s\<lparr>read_cursor := read_cursor s + 1\<rparr>"
    show ?case
    proof (cases "char_eq b c")
      case False
      then have "skip_to_char_loop c s = skip_to_char_loop c ?t"
        using f by (simp add: skip_to_char_loop.simps [of c s])
      then show ?thesis
        using Cons.hyps(1) [of ?t] f(3,4) False Cons.hyps(2) [symmetric] moved_step by fastforce
    next
      case True
      then show ?thesis
        using f Cons.prems Cons.hyps(2) [symmetric] by (auto simp: skip_to_char_loop.simps [of c s])
    qed
  qed
  then show thesis
    using that by blast
qed

lemma token_size_spec:
  assumes wf: "stuffer_wf s" and "unat n \<le> length (unread s)"
  shows "\<exists>k. token_size_loop delim s n = Inr k \<and>
     unat k = unat n + length (takeWhile (\<lambda>b. \<not> char_eq b delim) (drop (unat n) (unread s)))"
  using assms(2)
proof (induction "drop (unat n) (unread s)" arbitrary: n)
  case Nil
  then have "unat n = length (unread s)"
    by simp
  then have "unat (read_cursor s + n) = unat (write_cursor s)"
    using skip_read_ok(2) [OF wf] Nil.prems stuffer_wf_cursors(1) [OF wf] by (simp add: length_unread [OF wf])
  then have "token_size_loop delim s n = Inr n"
    by (simp add: token_size_loop.simps [of delim s n] word_less_unat)
  then show ?case
    using Nil.hyps by simp
next
  case (Cons b rest)
  note sk = skip_read_ok [OF wf Cons.prems]
  have "unread (s\<lparr>read_cursor := read_cursor s + n\<rparr>) = b # rest"
    using sk(4) Cons.hyps(2) by simp
  note f = unread_Cons [OF sk(3) this]
  have at: "byte_at s (read_cursor s + n) = Some b" and lt: "read_cursor s + n < write_cursor s"
    using f(2,5) by (simp_all add: byte_at_def)
  show ?case
  proof (cases "char_eq b delim")
    case True
    then show ?thesis
      using at lt Cons.hyps(2) [symmetric] by (simp add: token_size_loop.simps [of delim s n])
  next
    case False
    have n: "unat n < length (unread s)"
      using Cons.hyps(2) by (metis drop_all list.distinct(1) not_le)
    then have "unat n + unat (1 :: u32) < 2 ^ LENGTH(32)"
      using unat_u32_less [of "write_cursor s"] by (simp add: length_unread [OF wf])
    then have n1: "unat (n + 1) = Suc (unat n)"
      using word_add_unat [of n 1] by simp
    have "rest = drop (unat (n + 1)) (unread s)"
      using Cons.hyps(2) n1 by (metis drop_Suc list.sel(3) tl_drop)
    then have "\<exists>k. token_size_loop delim s (n + 1) = Inr k \<and>
        unat k = unat (n + 1) + length (takeWhile (\<lambda>b. \<not> char_eq b delim) (drop (unat (n + 1)) (unread s)))"
      using Cons.hyps(1) [of "n + 1"] n n1 by simp
    moreover have "token_size_loop delim s n = token_size_loop delim s (n + 1)"
      using at lt False by (simp add: token_size_loop.simps [of delim s n])
    ultimately show ?thesis
      using False n1 Cons.hyps(2) [symmetric] \<open>rest = drop (unat (n + 1)) (unread s)\<close> by auto
  qed
qed


section \<open>Tokens, lines and searches\<close>

lemma read_token_spec:
  assumes mem: "mem_ok mem" and wf: "stuffer_wf s" and tok: "stuffer_wf token"
    and run: "s2n_stuffer_read_token delim (s, (mem, token)) = (r, (s', (mem', token')))"
  obtains (fail) e where "r = Inl (Err e)" and "mem_same mem mem'" and "s' = s" and "stuffer_wf token'"
    and "only_blob token token'"
  | (ok) "r = Inr ()" and "mem_same mem mem'" and "stuffer_wf s'"
    and "appended (takeWhile (\<lambda>b. \<not> char_eq b delim) (unread s)) token token'"
    and "unread s' = drop 1 (dropWhile (\<lambda>b. \<not> char_eq b delim) (unread s))"
proof -
  let ?P = "\<lambda>b. \<not> char_eq b delim"
  obtain k where k: "token_size_loop delim s 0 = Inr k" "unat k = length (takeWhile ?P (unread s))"
    using token_size_spec [OF wf, of 0 delim] by auto
  have take: "take (unat k) (unread s) = takeWhile ?P (unread s)" "drop (unat k) (unread s) = dropWhile ?P (unread s)"
    using k(2) by (simp_all add: takeWhile_eq_take [symmetric] dropWhile_eq_drop [symmetric])
  obtain r1 s1 mem1 t1 where cp: "s2n_stuffer_copy k (s, (mem, token)) = (r1, (s1, (mem1, t1)))"
    by (cases "s2n_stuffer_copy k (s, (mem, token))") auto
  from mem wf tok cp show thesis
  proof (cases rule: copy_spec)
    case (fail e)
    then show thesis
      using run k cp by (intro that(1) [of e]) (auto simp: s2n_stuffer_read_token_def)
  next
    case ok
    note sk = skip_read_ok [OF wf ok(3)]
    have u1: "unread s1 = dropWhile ?P (unread s)" and wf1: "stuffer_wf s1"
      using sk ok(4) take by simp_all
    have st: "r = Inr ()" "mem' = mem1" "token' = t1"
      "s' = (if read_cursor s1 < write_cursor s1 then s1\<lparr>read_cursor := read_cursor s1 + 1\<rparr> else s1)"
      using run k cp ok(1) by (simp_all add: s2n_stuffer_read_token_def split: if_splits)
    have "stuffer_wf s' \<and> unread s' = drop 1 (unread s1)"
    proof (cases "unread s1")
      case Nil
      then show ?thesis
        using unread_Nil [OF wf1] st(4) wf1 by simp
    next
      case (Cons b rest)
      then show ?thesis
        using unread_Cons [OF wf1 Cons] st(4) by simp
    qed
    then show thesis
      using st ok take u1 by (intro that(2)) simp_all
  qed
qed

fun find_after :: "bytes \<Rightarrow> bytes \<Rightarrow> bytes option" where
  "find_after t [] = (if t = [] then Some [] else None)"
| "find_after t (x # xs) = (if take (length t) (x # xs) = t then Some (drop (length t) (x # xs)) else find_after t xs)"

lemma find_after_short: "length xs < length t \<Longrightarrow> find_after t xs = None"
proof (induction xs)
  case (Cons x xs)
  then have "take (length t) (x # xs) \<noteq> t"
    by (metis length_take less_irrefl_nat min_less_iff_conj min.strict_order_iff)
  then show ?case
    using Cons by simp
qed auto

lemma find_after_dropWhile:
  assumes "t \<noteq> []"
  shows "find_after t (dropWhile (\<lambda>b. b \<noteq> t ! 0) xs) = find_after t xs"
proof (induction xs)
  case (Cons x xs)
  show ?case
  proof (cases "x = t ! 0")
    case False
    then have "take (length t) (x # xs) \<noteq> t"
      using assms by (cases t) auto
    then show ?thesis
      using False Cons by simp
  qed simp
qed simp

lemma rewind_ok:
  assumes "n \<le> read_cursor s"
  shows "s2n_stuffer_rewind_read n s = (Inr (), s\<lparr>read_cursor := read_cursor s - n\<rparr>)"
  using assms by (simp add: s2n_stuffer_rewind_read_def ensure_st_def modify_def)

definition until_post :: "bytes \<Rightarrow> bytes \<Rightarrow> unit result \<times> s2n_stuffer \<Rightarrow> bool" where
  "until_post t xs res =
     (case res of (r, s') \<Rightarrow> stuffer_wf s' \<and>
        (case find_after t xs of
           Some rest \<Rightarrow> r = Inr () \<and> unread s' = rest
         | None \<Rightarrow> (r = Inr () \<or> r = Inl (Err S2N_ERR_STUFFER_OUT_OF_DATA)) \<and> length (unread s') < length t))"

lemma skip_read_until_spec:
  assumes t: "t \<noteq> []" "length t \<le> UINT32_MAX" "t ! 0 < 128" and "stuffer_wf s"
  shows "until_post t (unread s) (skip_read_until_loop t s)"
  using assms(4)
proof (induction "length (unread s)" arbitrary: s rule: less_induct)
  case less
  note wf = less.prems
  let ?len = "of_nat (length t) :: u32"
  have len: "unat ?len = length t" "?len \<noteq> 0"
    using t by (auto simp: unat_eq_zero [symmetric])
  have ceq: "(\<lambda>b. \<not> char_eq b (t ! 0)) = (\<lambda>b. b \<noteq> t ! 0)"
    using t(3) by (auto simp: char_eq_def)
  show ?case
  proof (cases "length t \<le> length (unread s)")
    case False
    then have "skip_read_until_loop t s = (Inr (), s)"
      using len by (simp add: skip_read_until_loop.simps [of t s] data_available_le [OF wf])
    then show ?thesis
      using False wf by (simp add: until_post_def find_after_short)
  next
    case True
    then have enough: "?len \<le> s2n_stuffer_data_available s"
      using len by (simp add: data_available_le [OF wf])
    obtain s1 where s1: "skip_to_char_loop (t ! 0) s = (Inr (), s1)" "stuffer_wf s1"
      "unread s1 = dropWhile (\<lambda>b. b \<noteq> t ! 0) (unread s)"
      using skip_to_char_spec [OF wf, of "t ! 0"] ceq by metis
    have same: "find_after t (unread s1) = find_after t (unread s)"
      using find_after_dropWhile [OF t(1)] s1(3) by simp
    show ?thesis
    proof (cases "length t \<le> length (unread s1)")
      case False
      then have "s2n_stuffer_skip_read ?len s1 = (Inl (Err S2N_ERR_STUFFER_OUT_OF_DATA), s1)"
        using skip_read_short [OF s1(2)] len by simp
      then have "skip_read_until_loop t s = (Inl (Err S2N_ERR_STUFFER_OUT_OF_DATA), s1)"
        using enough len s1(1) by (simp add: skip_read_until_loop.simps [of t s])
      then show ?thesis
        using False s1(2) find_after_short [of "unread s1" t] same by (simp add: until_post_def)
    next
      case fits: True
      then have fits': "unat ?len \<le> length (unread s1)"
        using len by simp
      note sk = skip_read_ok [OF s1(2) fits']
      let ?s2 = "s1\<lparr>read_cursor := read_cursor s1 + ?len\<rparr>"
      have "unread s1 \<noteq> []"
        using fits t(1) by auto
      then obtain b rest where br: "unread s1 = b # rest"
        by (cases "unread s1") auto
      have le: "unat (read_cursor s1) + length t \<le> length (smem s1)"
        using fits stuffer_wf_cursors [OF s1(2)] by (simp add: length_unread [OF s1(2)])
      then obtain m where m: "b_data (blob s1) = Some m"
        using t(1) by (cases "b_data (blob s1)") (auto simp: smem_def)
      have rd: "mem_read m (unat (read_cursor ?s2 - ?len)) (unat ?len) = Some (take (length t) (unread s1))"
        using le m len fits length_unread [OF s1(2)]
        by (simp add: mem_read_def smem_def unread_def written_def drop_take min_def)
      show ?thesis
      proof (cases "take (length t) (unread s1) = t")
        case True
        then have "skip_read_until_loop t s = (Inr (), ?s2)"
          using enough len s1(1) sk(1) m rd by (simp add: skip_read_until_loop.simps [of t s])
        moreover have "find_after t (unread s) = Some (drop (length t) (unread s1))"
          using True same br by (metis find_after.simps(2))
        ultimately show ?thesis
          using sk len by (simp add: until_post_def)
      next
        case False
        have "?len - 1 \<le> read_cursor ?s2"
        proof -
          have "unat (?len - 1) = length t - 1"
            using len t(1) word_sub_unat [of 1 ?len] by (simp add: word_le_unat Suc_le_eq)
          then show ?thesis
            using sk(2) len by (simp add: word_le_unat)
        qed
        then have rw: "s2n_stuffer_rewind_read (?len - 1) ?s2 = (Inr (), s1\<lparr>read_cursor := read_cursor s1 + 1\<rparr>)"
          by (simp add: rewind_ok)
        let ?s3 = "s1\<lparr>read_cursor := read_cursor s1 + 1\<rparr>"
        have "skip_read_until_loop t s = skip_read_until_loop t ?s3"
          using enough len s1(1) sk(1) m rd False rw by (simp add: skip_read_until_loop.simps [of t s])
        moreover note f = unread_Cons [OF s1(2) br]
        moreover have "find_after t (unread s) = find_after t (unread ?s3)"
          using False same br f(4) by simp
        moreover have "length (unread ?s3) < length (unread s)"
        proof -
          have "length (unread s1) \<le> length (unread s)"
            using s1(3) by (simp add: length_dropWhile_le)
          then show ?thesis
            using br f(4) by simp
        qed
        ultimately show ?thesis
          using less.hyps [of ?s3] by (simp add: until_post_def)
      qed
    qed
  qed
qed

lemma read_expected_spec:
  assumes wf: "stuffer_wf s" and "length t \<le> UINT32_MAX"
  shows "s2n_stuffer_read_expected_str (Some t) s =
    (if length (unread s) < length t then (Inl (Err S2N_ERR_STUFFER_OUT_OF_DATA), s)
     else if take (length t) (unread s) = t then (Inr (), s\<lparr>read_cursor := read_cursor s + of_nat (length t)\<rparr>)
     else (Inl (Err S2N_ERR_STUFFER_NOT_FOUND), s))"
proof (cases "t = [] \<or> length (unread s) < length t")
  case True
  then show ?thesis
    by (auto simp: s2n_stuffer_read_expected_str_def unat_data_available [OF wf] Let_def)
next
  case False
  have le: "unat (read_cursor s) + length t \<le> length (smem s)"
    using False stuffer_wf_cursors [OF wf] by (auto simp: length_unread [OF wf])
  then obtain m where m: "b_data (blob s) = Some m"
    using False by (cases "b_data (blob s)") (auto simp: smem_def)
  have "mem_read m (unat (read_cursor s)) (length t) = Some (take (length t) (unread s))"
    using le m False length_unread [OF wf]
    by (auto simp: mem_read_def smem_def unread_def written_def drop_take min_def)
  then show ?thesis
    using False m by (auto simp: s2n_stuffer_read_expected_str_def unat_data_available [OF wf] Let_def)
qed

lemma byte_before_write:
  assumes wf: "stuffer_wf s" and "unread s \<noteq> []"
  shows "byte_at s (write_cursor s - 1) = Some (last (unread s))"
    and "stuffer_wf (s\<lparr>write_cursor := write_cursor s - 1\<rparr>)"
    and "unread (s\<lparr>write_cursor := write_cursor s - 1\<rparr>) = butlast (unread s)"
proof -
  have lt: "unat (read_cursor s) < unat (write_cursor s)"
    using assms(2) length_unread [OF wf] by (cases "unread s") simp_all
  then have w: "unat (write_cursor s - 1) = unat (write_cursor s) - 1"
    using word_sub_unat [of 1 "write_cursor s"] by (simp add: word_le_unat)
  have len: "unat (write_cursor s) \<le> length (smem s)"
    using stuffer_wf_cursors [OF wf] by linarith
  then obtain m where m: "b_data (blob s) = Some m"
    using lt by (cases "b_data (blob s)") (auto simp: smem_def)
  then have "unat (write_cursor s - 1) < length m"
    using len lt w by (simp add: smem_def)
  moreover have "last (unread s) = m ! (unat (write_cursor s) - 1)"
    using lt len m by (simp add: unread_def written_def smem_def last_conv_nth)
  ultimately show "byte_at s (write_cursor s - 1) = Some (last (unread s))"
    using m w by (simp add: byte_at_def)
  show "stuffer_wf (s\<lparr>write_cursor := write_cursor s - 1\<rparr>)"
    using wf w lt by (auto simp: stuffer_wf_iff)
  show "unread (s\<lparr>write_cursor := write_cursor s - 1\<rparr>) = butlast (unread s)"
    using lt len w m
    by (simp add: unread_def written_def smem_def butlast_conv_take drop_take)
qed

definition chomp :: "bytes \<Rightarrow> bytes" where
  "chomp l = (if l \<noteq> [] \<and> last l = 13 then butlast l else l)"


section \<open>Claims\<close>

text \<open>
  C21. \<open>s2n_stuffer_read_line\<close> reads a line.  If it succeeds on an empty token stuffer, the token
  holds exactly the unread bytes before the first line feed (all of them when there is none)
  without a trailing carriage return, and the source continues right after that line feed; if it
  fails the source stuffer has not moved.
\<close>
theorem s2n_stuffer_read_line_correct:
  assumes "mem_ok mem" and "stuffer_wf s" and "stuffer_wf token" and "unread token = []"
    and "s2n_stuffer_read_line (s, (mem, token)) = (r, (s', (mem', token')))"
  shows "stuffer_wf s' \<and> stuffer_wf token' \<and> r \<noteq> Inl Undefined \<and>
    (r = Inr () \<longrightarrow> unread token' = chomp (takeWhile (\<lambda>b. b \<noteq> 10) (unread s)) \<and>
       unread s' = drop 1 (dropWhile (\<lambda>b. b \<noteq> 10) (unread s))) \<and>
    (r \<noteq> Inr () \<longrightarrow> s' = s)"
proof -
  obtain r1 s1 mem1 t1 where run: "s2n_stuffer_read_token 10 (s, (mem, token)) = (r1, (s1, (mem1, t1)))"
    by (cases "s2n_stuffer_read_token 10 (s, (mem, token))") auto
  have lf: "(\<lambda>b. \<not> char_eq b 10) = (\<lambda>b. b \<noteq> 10)"
    by (auto simp: char_eq_def)
  from assms(1-3) run show ?thesis
  proof (cases rule: read_token_spec)
    case (fail e)
    then show ?thesis
      using assms run by (auto simp: s2n_stuffer_read_line_def)
  next
    case ok
    let ?l = "takeWhile (\<lambda>b. b \<noteq> 10) (unread s)"
    have t1: "stuffer_wf t1" "unread t1 = ?l"
      using ok(4) appended_unread [OF assms(3) ok(4)] assms(4) lf by (simp_all add: appended_def)
    show ?thesis
    proof (cases "?l = []")
      case True
      then have "s2n_stuffer_data_available t1 = 0"
        using unread_Nil(1) [OF t1(1)] t1(2) by simp
      then show ?thesis
        using assms(5) run ok lf t1 True by (auto simp: s2n_stuffer_read_line_def chomp_def)
    next
      case False
      then have ne: "unread t1 \<noteq> []"
        using t1 by simp
      have "0 < s2n_stuffer_data_available t1"
        using unat_data_available [OF t1(1)] ne by (simp add: word_less_unat)
      then show ?thesis
        using assms(5) run ok lf t1 False byte_before_write [OF t1(1) ne]
        by (auto simp: s2n_stuffer_read_line_def chomp_def split: if_splits)
    qed
  qed
qed

definition example_text :: s2n_stuffer where
  "example_text = \<lparr>blob = \<lparr>b_data = Some [72, 105, 13, 10, 33], b_size = 5, b_allocated = 0, b_growable = False\<rparr>,
     read_cursor = 0, write_cursor = 5, high_water_mark = 5, alloced = False, growable = False, tainted = False\<rparr>"

lemma example_text_ok [simp]: "stuffer_wf example_text" "unread example_text = [72, 105, 13, 10, 33]"
  by (simp_all add: example_text_def stuffer_wf_iff blob_wf_def s2n_blob_validate_def s2n_mem_is_readable_def
      unread_def written_def smem_def)

lemma s2n_stuffer_read_line_witness:
  "mem_ok (example_mem Free_no_mlock_impl) \<and> stuffer_wf example_text \<and> unread example_fresh = [] \<and>
   (\<exists>s' mem' token'. s2n_stuffer_read_line (example_text, (example_mem Free_no_mlock_impl, example_fresh)) =
      (Inr (), (s', (mem', token'))) \<and> unread token' = [72, 105] \<and> unread s' = [33])"
proof -
  let ?mem = "example_mem Free_no_mlock_impl"
  have "\<exists>s' mem' token'. s2n_stuffer_read_line (example_text, (?mem, example_fresh)) = (Inr (), (s', (mem', token')))"
    by (simp add: s2n_stuffer_read_line_def s2n_stuffer_read_token_def token_size_loop.simps byte_at_def char_eq_def
        s2n_stuffer_copy_def s2n_stuffer_copy_impl_def skip_read_eq s2n_stuffer_data_available_def stuffer_run
        checked_memcpy_def mem_read_def mem_write_def example_text_def example_fresh_def s2n_stuffer_init_def)
  then obtain s' mem' token' where run: "s2n_stuffer_read_line (example_text, (?mem, example_fresh)) = (Inr (), (s', (mem', token')))"
    by blast
  show ?thesis
    using s2n_stuffer_read_line_correct [OF _ _ _ _ run] run by (simp add: chomp_def)
qed

text \<open>
  C22. \<open>s2n_stuffer_skip_read_until\<close> finds the first occurrence.  For a non-empty target that starts
  with a 7-bit character, if the target occurs in the unread bytes the call succeeds and the read
  cursor is just behind its first occurrence.  If it does not occur, fewer bytes than the target
  has are left unread, and the call may either succeed or fail for lack of data.
\<close>
theorem s2n_stuffer_skip_read_until_correct:
  assumes "stuffer_wf s" and "t \<noteq> []" and "length t \<le> UINT32_MAX" and "t ! 0 < 128"
    and "s2n_stuffer_skip_read_until (Some t) s = (r, s')"
  shows "stuffer_wf s' \<and>
    (case find_after t (unread s) of
       Some rest \<Rightarrow> r = Inr () \<and> unread s' = rest
     | None \<Rightarrow> (r = Inr () \<or> r = Inl (Err S2N_ERR_STUFFER_OUT_OF_DATA)) \<and> length (unread s') < length t)"
proof -
  have "(of_nat (length t) :: u32) \<noteq> 0"
    using assms(2,3) by (auto simp: unat_eq_zero [symmetric])
  then have "skip_read_until_loop t s = (r, s')"
    using assms(5) by (simp add: s2n_stuffer_skip_read_until_def)
  then show ?thesis
    using skip_read_until_spec [OF assms(2-4,1)] by (simp add: until_post_def)
qed

lemma s2n_stuffer_skip_read_until_witness:
  "stuffer_wf example_text \<and> (13 :: u8) < 128 \<and>
   (\<exists>s'. s2n_stuffer_skip_read_until (Some [13, 10]) example_text = (Inr (), s') \<and> unread s' = [33])"
proof -
  obtain r s' where run: "s2n_stuffer_skip_read_until (Some [13, 10]) example_text = (r, s')"
    by (cases "s2n_stuffer_skip_read_until (Some [13, 10]) example_text")
  then show ?thesis
    using s2n_stuffer_skip_read_until_correct [OF _ _ _ _ run] by simp
qed

text \<open>
  The comment above \<open>s2n_stuffer_skip_read_until\<close> says it reads until the target is found or there
  is no more data.  A missing target is nevertheless reported in two ways, depending on where its
  first character last occurs.
\<close>
lemma skip_read_until_missing_target:
  "fst (s2n_stuffer_skip_read_until (Some [33, 33]) example_text) = Inl (Err S2N_ERR_STUFFER_OUT_OF_DATA) \<and>
   fst (s2n_stuffer_skip_read_until (Some [10, 10]) example_text) = Inr ()"
  by (simp add: s2n_stuffer_skip_read_until_def skip_read_until_loop.simps skip_to_char_loop.simps byte_at_def
      char_eq_def skip_read_eq s2n_stuffer_data_available_def example_text_def mem_read_def
      s2n_stuffer_rewind_read_def ensure_st_def modify_def Let_def word_le_unat)

end
