(* ===== verification/Stuffer_Hex.thy ===== *)
theory Stuffer_Hex
  imports Stuffer_Text
begin

text \<open>Hexadecimal text in stuffers (\<open>stuffer/s2n_stuffer_hex.c\<close>).\<close>

section \<open>Operations\<close>

definition value_to_hex :: bytes where
  "value_to_hex = [48, 49, 50, 51, 52, 53, 54, 55, 56, 57, 97, 98, 99, 100, 101, 102]"

text \<open>The array has an entry for every character up to \<open>'f'\<close>; entries not listed are 0.\<close>

definition hex_to_value :: "u8 \<Rightarrow> u8" where
  "hex_to_value c =
     (if 48 \<le> c \<and> c \<le> 57 then c - 48
      else if 97 \<le> c \<and> c \<le> 102 then c - 97 + 10
      else if 65 \<le> c \<and> c \<le> 70 then c - 65 + 10
      else 0)"

definition s2n_hex_digit :: "u8 \<Rightarrow> u8 result" where
  "s2n_hex_digit half_byte =
     (if \<not> half_byte < 16 then Inl (Err S2N_ERR_BAD_HEX) else Inr (value_to_hex ! unat half_byte))"

definition s2n_stuffer_hex_digit_from_char :: "u8 \<Rightarrow> u8 result" where
  "s2n_stuffer_hex_digit_from_char c =
     (if \<not> c < 103 then Inl (Err S2N_ERR_BAD_HEX)
      else if hex_to_value c = 0 \<and> \<not> c = 48 then Inl (Err S2N_ERR_BAD_HEX)
      else Inr (hex_to_value c))"

definition nth_opt :: "bytes option \<Rightarrow> nat \<Rightarrow> u8 option" where
  "nth_opt m i = (case m of None \<Rightarrow> None | Some bs \<Rightarrow> if i < length bs then Some (bs ! i) else None)"

text \<open>The loop of \<open>s2n_stuffer_read_hex\<close>: \<open>base\<close> is where \<open>in\<close> points, \<open>n\<close> the iterations left.\<close>

fun read_hex_loop :: "bytes option \<Rightarrow> nat \<Rightarrow> bytes option \<Rightarrow> nat \<Rightarrow> nat \<Rightarrow> unit result \<times> bytes option" where
  "read_hex_loop inp base out i 0 = (Inr (), out)"
| "read_hex_loop inp base out i (Suc n) =
     (case nth_opt inp (base + i * 2) of
        None \<Rightarrow> (Inl Undefined, out)
      | Some c \<Rightarrow>
          (case s2n_stuffer_hex_digit_from_char c of
             Inl e \<Rightarrow> (Inl e, out)
           | Inr hex_high \<Rightarrow>
               (case nth_opt inp (base + (i * 2 + 1)) of
                  None \<Rightarrow> (Inl Undefined, out)
                | Some c \<Rightarrow>
                    (case s2n_stuffer_hex_digit_from_char c of
                       Inl e \<Rightarrow> (Inl e, out)
                     | Inr hex_low \<Rightarrow>
                         (case out of
                            None \<Rightarrow> (Inl Undefined, out)
                          | Some o' \<Rightarrow>
                              if i < length o'
                              then read_hex_loop inp base (Some (o'[i := hex_high * 16 + hex_low])) (Suc i) n
                              else (Inl Undefined, out))))))"

definition s2n_stuffer_read_hex :: "(s2n_blob \<times> s2n_stuffer, unit) action" where
  "s2n_stuffer_read_hex = (\<lambda>(bytes_out, hex_in).
     if b_size bytes_out = 0 then (Inr (), (bytes_out, hex_in))
     else
       let hex_size = b_size bytes_out * 2 in
       if \<not> s2n_stuffer_data_available hex_in \<ge> hex_size then (Inl (Err S2N_ERR_BAD_HEX), (bytes_out, hex_in))
       else
         (case read_hex_loop (b_data (blob hex_in)) (unat (read_cursor hex_in)) (b_data bytes_out) 0
                 (unat (b_size bytes_out)) of
            (Inl e, d) \<Rightarrow> (Inl e, (bytes_out\<lparr>b_data := d\<rparr>, hex_in))
          | (Inr _, d) \<Rightarrow>
              (case s2n_stuffer_skip_read hex_size hex_in of
                 (r, hex_in) \<Rightarrow> (r, (bytes_out\<lparr>b_data := d\<rparr>, hex_in)))))"

fun write_hex_loop :: "bytes option \<Rightarrow> bytes option \<Rightarrow> nat \<Rightarrow> nat \<Rightarrow> nat \<Rightarrow> unit result \<times> bytes option" where
  "write_hex_loop inp out base i 0 = (Inr (), out)"
| "write_hex_loop inp out base i (Suc n) =
     (case (nth_opt inp i, out) of
        (Some b, Some o') \<Rightarrow>
          if base + (i * 2 + 1) < length o'
          then write_hex_loop inp
                 (Some (o'[base + i * 2 := value_to_hex ! unat (drop_bit 4 b),
                           base + (i * 2 + 1) := value_to_hex ! unat (b AND 15)])) base (Suc i) n
          else (Inl Undefined, out)
      | _ \<Rightarrow> (Inl Undefined, out))"

definition s2n_stuffer_write_hex :: "s2n_blob \<Rightarrow> (mem_stuffer, unit) action" where
  "s2n_stuffer_write_hex bytes_in st =
     (let bytes_size = (ucast (b_size bytes_in) :: u64);
          hex_size = bytes_size * 2
      in case s2n_stuffer_reserve_space (ucast hex_size) st of
           (Inl e, st) \<Rightarrow> (Inl e, st)
         | (Inr _, (mem, hex_out)) \<Rightarrow>
             (case write_hex_loop (b_data bytes_in) (b_data (blob hex_out)) (unat (write_cursor hex_out)) 0
                     (unat bytes_size) of
                (Inl e, d) \<Rightarrow> (Inl e, (mem, hex_out\<lparr>blob := (blob hex_out)\<lparr>b_data := d\<rparr>\<rparr>))
              | (Inr _, d) \<Rightarrow>
                  s2n_stuffer_skip_write (ucast hex_size) (mem, hex_out\<lparr>blob := (blob hex_out)\<lparr>b_data := d\<rparr>\<rparr>)))"

fun hex_value_loop :: "bytes \<Rightarrow> u64 \<Rightarrow> u64 result" where
  "hex_value_loop [] u = Inr u"
| "hex_value_loop (c # cs) u =
     (case s2n_stuffer_hex_digit_from_char c of
        Inl e \<Rightarrow> Inl e
      | Inr hex \<Rightarrow> hex_value_loop cs (push_bit 4 u + ucast hex))"

definition s2n_stuffer_hex_read_n_bytes :: "u8 \<Rightarrow> (s2n_stuffer, u64) action" where
  "s2n_stuffer_hex_read_n_bytes n s =
     (if \<not> n \<le> 8 then (Inl (Err S2N_ERR_SAFETY), s)
      else
        let hex_data = replicate 16 0 in
        (case s2n_blob_init (Some hex_data) (ucast n * 2) of
           Inl e \<Rightarrow> (Inl e, s)
         | Inr b \<Rightarrow>
             (case s2n_stuffer_read (b, s) of
                (Inl Undefined, (b, s)) \<Rightarrow> (Inl Undefined, s)
              | (Inl (Err _), (b, s)) \<Rightarrow> (Inl (Err S2N_ERR_BAD_HEX), s)
              | (Inr _, (b, s)) \<Rightarrow> (hex_value_loop (blob_bytes b) 0, s))))"

definition s2n_stuffer_read_uint16_hex :: "(s2n_stuffer, u16) action" where
  "s2n_stuffer_read_uint16_hex =
     bnd (s2n_stuffer_hex_read_n_bytes 2)
       (\<lambda>u64. andthen (ensure (u64 \<le> 65535) S2N_ERR_SAFETY) (ret (ucast u64)))"

definition s2n_stuffer_read_uint8_hex :: "(s2n_stuffer, u8) action" where
  "s2n_stuffer_read_uint8_hex =
     bnd (s2n_stuffer_hex_read_n_bytes 1)
       (\<lambda>u64. andthen (ensure (u64 \<le> 255) S2N_ERR_SAFETY) (ret (ucast u64)))"

text \<open>The loop fills the buffer from its end; \<open>acc\<close> is the part already written.\<close>

fun hex_digits_loop :: "nat \<Rightarrow> u64 \<Rightarrow> bytes \<Rightarrow> bytes" where
  "hex_digits_loop 0 u acc = acc"
| "hex_digits_loop (Suc i) u acc =
     hex_digits_loop i (drop_bit 4 u) (value_to_hex ! unat (u AND 15) # acc)"

definition s2n_stuffer_hex_write_n_bytes :: "u8 \<Rightarrow> u64 \<Rightarrow> (mem_stuffer, unit) action" where
  "s2n_stuffer_hex_write_n_bytes n u =
     andthen (ensure (n \<le> 8) S2N_ERR_SAFETY)
       (let digits = hex_digits_loop (unat n * 2) u []
        in s2n_stuffer_write \<lparr>b_data = Some (digits @ replicate (16 - unat n * 2) 0),
             b_size = ucast n * 2, b_allocated = 0, b_growable = False\<rparr>)"

definition s2n_stuffer_write_uint16_hex :: "u16 \<Rightarrow> (mem_stuffer, unit) action" where
  "s2n_stuffer_write_uint16_hex u = s2n_stuffer_hex_write_n_bytes 2 (ucast u)"

definition s2n_stuffer_write_uint8_hex :: "u8 \<Rightarrow> (mem_stuffer, unit) action" where
  "s2n_stuffer_write_uint8_hex u = s2n_stuffer_hex_write_n_bytes 1 (ucast u)"


section \<open>Digits\<close>

lemma digit_round_trip:
  assumes "b < 16"
  shows "s2n_stuffer_hex_digit_from_char (value_to_hex ! unat b) = Inr b"
proof -
  have "\<forall>n\<in>set [0..<16]. s2n_stuffer_hex_digit_from_char (value_to_hex ! n) = Inr (of_nat n)"
    by code_simp
  then have digit: "s2n_stuffer_hex_digit_from_char (value_to_hex ! n) = Inr (of_nat n)" if "n < 16" for n
    using that by simp
  show ?thesis
    using digit [of "unat b"] assms by (simp add: word_less_unat)
qed

lemma high_nibble: "unat (drop_bit 4 b) = unat b div 16" for b :: u8
  by (simp only: unat_drop_bit_eq) (simp add: drop_bit_eq_div)

lemma low_nibble: "unat (b AND 15) = unat b mod 16" for b :: u8
proof -
  have "b AND 15 = take_bit 4 b"
    by (simp add: take_bit_eq_mask mask_eq_exp_minus_1)
  then show ?thesis
    by (simp only: unsigned_take_bit_eq) (simp add: take_bit_eq_mod)
qed

lemma nibbles: "drop_bit 4 b < 16" "b AND 15 < 16" "drop_bit 4 b * 16 + (b AND 15) = b" for b :: u8
proof -
  show "drop_bit 4 b < 16" "b AND 15 < 16"
    using unat_u8_less [of b] by (simp_all add: word_less_unat high_nibble low_nibble)
  have "unat (drop_bit 4 b * 16 + (b AND 15)) = (unat b div 16 * 16 + unat b mod 16) mod 256"
    by (simp add: unat_word_ariths high_nibble low_nibble mod_simps)
  also have "\<dots> = unat b"
    using unat_u8_less [of b] by simp
  finally show "drop_bit 4 b * 16 + (b AND 15) = b"
    by (rule word_unat_eqI)
qed

definition hex_encode :: "bytes \<Rightarrow> bytes" where
  "hex_encode bs = concat (map (\<lambda>b. [value_to_hex ! unat (drop_bit 4 b), value_to_hex ! unat (b AND 15)]) bs)"

lemma length_hex_encode [simp]: "length (hex_encode bs) = 2 * length bs"
  by (induction bs) (simp_all add: hex_encode_def)

lemma hex_encode_nth:
  "i < length bs \<Longrightarrow> hex_encode bs ! (i * 2) = value_to_hex ! unat (drop_bit 4 (bs ! i))"
  "i < length bs \<Longrightarrow> hex_encode bs ! (i * 2 + 1) = value_to_hex ! unat (bs ! i AND 15)"
proof (induction bs arbitrary: i)
  case (Cons b bs)
  {
    case 1
    then show ?case
      using Cons.IH(1) [of "i - 1"] by (cases i) (simp_all add: hex_encode_def)
  next
    case 2
    then show ?case
      using Cons.IH(2) [of "i - 1"] by (cases i) (simp_all add: hex_encode_def)
  }
qed simp_all

text \<open>Decoding reads two digits per byte; \<open>None\<close> marks a character that is no digit.\<close>

fun hex_decode :: "bytes \<Rightarrow> bytes option" where
  "hex_decode [] = Some []"
| "hex_decode [c] = None"
| "hex_decode (c # d # cs) =
     (case (s2n_stuffer_hex_digit_from_char c, s2n_stuffer_hex_digit_from_char d, hex_decode cs) of
        (Inr h, Inr l, Some bs) \<Rightarrow> Some ((h * 16 + l) # bs)
      | _ \<Rightarrow> None)"

lemma hex_decode_encode: "hex_decode (hex_encode bs) = Some bs"
  by (induction bs) (simp_all add: hex_encode_def digit_round_trip nibbles)


section \<open>The two loops\<close>

lemma overwrite_append:
  "k + length a + length b \<le> length m \<Longrightarrow>
   overwrite (k + length a) b (overwrite k a m) = overwrite k (a @ b) m"
  by (simp add: overwrite_def add_ac)

lemma update_single: "k < length m \<Longrightarrow> m[k := h] = overwrite k [h] m"
  by (simp add: overwrite_def upd_conv_take_nth_drop)

lemma update_pair: "Suc k < length m \<Longrightarrow> m[k := h, Suc k := l] = overwrite k [h, l] m"
  using overwrite_append [of k "[h]" "[l]" m] by (simp add: update_single)

lemma write_hex_loop_spec:
  assumes "base + 2 * (length pre + length x) \<le> length m"
  shows "write_hex_loop (Some (pre @ x @ rest)) (Some m) base (length pre) (length x) =
    (Inr (), Some (overwrite (base + 2 * length pre) (hex_encode x) m))"
  using assms
proof (induction x arbitrary: pre m)
  case Nil
  then show ?case
    by (simp add: hex_encode_def)
next
  case (Cons b x)
  let ?k = "base + 2 * length pre"
  let ?h = "value_to_hex ! unat (drop_bit 4 b)" and ?l = "value_to_hex ! unat (b AND 15)"
  let ?m = "overwrite ?k [?h, ?l] m"
  have m: "m[?k := ?h, Suc ?k := ?l] = ?m"
    using Cons.prems by (intro update_pair) simp
  have len: "length ?m = length m"
    using Cons.prems by simp
  have "write_hex_loop (Some (pre @ (b # x) @ rest)) (Some m) base (length pre) (length (b # x)) =
      write_hex_loop (Some ((pre @ [b]) @ x @ rest)) (Some ?m) base (length (pre @ [b])) (length x)"
    using Cons.prems m by (simp add: nth_opt_def nth_append mult.commute)
  also have "\<dots> = (Inr (), Some (overwrite (base + 2 * length (pre @ [b])) (hex_encode x) ?m))"
    using Cons.prems len by (intro Cons.IH) simp
  also have "overwrite (base + 2 * length (pre @ [b])) (hex_encode x) ?m = overwrite ?k ([?h, ?l] @ hex_encode x) m"
    using overwrite_append [of ?k "[?h, ?l]" "hex_encode x" m] Cons.prems by simp
  finally show ?case
    by (simp add: hex_encode_def)
qed

lemma read_hex_loop_spec:
  assumes "length cs = 2 * n" and "i + n \<le> length out" and "length pre = base + 2 * i"
  shows "case hex_decode cs of
      Some bs \<Rightarrow> read_hex_loop (Some (pre @ cs @ rest)) base (Some out) i n = (Inr (), Some (overwrite i bs out)) \<and> length bs = n
    | None \<Rightarrow> \<exists>d. read_hex_loop (Some (pre @ cs @ rest)) base (Some out) i n = (Inl (Err S2N_ERR_BAD_HEX), Some d) \<and>
        length d = length out"
  using assms
proof (induction n arbitrary: cs i out pre)
  case 0
  then show ?case by simp
next
  case (Suc n)
  then obtain c d cs' where cs: "cs = c # d # cs'" "length cs' = 2 * n"
    by (cases cs; cases "tl cs") auto
  have at: "nth_opt (Some (pre @ cs @ rest)) (base + i * 2) = Some c"
    "nth_opt (Some (pre @ cs @ rest)) (base + (i * 2 + 1)) = Some d"
    using Suc.prems(3) cs by (simp_all add: nth_opt_def nth_append)
  have bad: "s2n_stuffer_hex_digit_from_char y = Inl e \<Longrightarrow> e = Err S2N_ERR_BAD_HEX" for y e
    by (auto simp: s2n_stuffer_hex_digit_from_char_def split: if_splits)
  show ?case
  proof (cases "\<exists>h l. s2n_stuffer_hex_digit_from_char c = Inr h \<and> s2n_stuffer_hex_digit_from_char d = Inr l")
    case False
    then have "\<exists>e. read_hex_loop (Some (pre @ cs @ rest)) base (Some out) i (Suc n) = (Inl (Err S2N_ERR_BAD_HEX), Some out)"
      using at bad by (auto split: sum.splits)
    moreover have "hex_decode cs = None"
      using False cs by (auto split: sum.splits)
    ultimately show ?thesis
      by auto
  next
    case True
    then obtain h l where hl: "s2n_stuffer_hex_digit_from_char c = Inr h" "s2n_stuffer_hex_digit_from_char d = Inr l"
      by blast
    let ?out = "overwrite i [h * 16 + l] out"
    have step: "read_hex_loop (Some (pre @ cs @ rest)) base (Some out) i (Suc n) =
        read_hex_loop (Some ((pre @ [c, d]) @ cs' @ rest)) base (Some ?out) (Suc i) n"
      using at hl Suc.prems(2) by (simp add: update_single cs)
    have len: "length ?out = length out"
      using Suc.prems(2) by simp
    note IH = Suc.IH [of cs' "Suc i" ?out "pre @ [c, d]"]
    show ?thesis
    proof (cases "hex_decode cs'")
      case None
      then show ?thesis
        using IH cs step hl len Suc.prems by auto
    next
      case (Some bs)
      then have "length bs = n" "read_hex_loop (Some ((pre @ [c, d]) @ cs' @ rest)) base (Some ?out) (Suc i) n =
          (Inr (), Some (overwrite (Suc i) bs ?out))"
        using IH cs len Suc.prems by auto
      moreover have "overwrite (Suc i) bs ?out = overwrite i ((h * 16 + l) # bs) out"
        using overwrite_append [of i "[h * 16 + l]" bs out] calculation(1) Suc.prems(2) by simp
      ultimately show ?thesis
        using step Some hl cs by simp
    qed
  qed
qed


section \<open>Reading and writing byte strings\<close>

lemma unat_double: "unat (n :: u32) * 2 \<le> UINT32_MAX \<Longrightarrow> unat (n * 2) = unat n * 2"
  using word_mult_unat [of n 2] by simp

lemma unat_double_size: "unat (ucast (ucast (n :: u32) * 2 :: u64) :: u32) = unat n * 2 mod 4294967296"
proof -
  have "unat (ucast n * 2 :: u64) = unat n * 2"
    using word_mult_unat [of "ucast n :: u64" 2] unat_u32_less [of n] by simp
  then show ?thesis
    by (simp add: unat_ucast_mod)
qed

lemma stuffer_split:
  assumes wf: "stuffer_wf s" and "n \<le> length (unread s)" and "0 < n"
  obtains pre rest where "b_data (blob s) = Some (pre @ take n (unread s) @ rest)" and "length pre = unat (read_cursor s)"
proof -
  have len: "unat (read_cursor s) + n \<le> length (smem s)"
    using assms(2) stuffer_wf_cursors [OF wf] assms(3) length_unread [OF wf] by linarith
  then obtain m where m: "b_data (blob s) = Some m"
    using assms(3) by (cases "b_data (blob s)") (auto simp: smem_def)
  have t: "take n (unread s) = take n (drop (unat (read_cursor s)) m)"
    using assms(2) m length_unread [OF wf] by (simp add: unread_def written_def smem_def drop_take min_def)
  have "m = take (unat (read_cursor s)) m @ take n (unread s) @ drop (unat (read_cursor s) + n) m"
    unfolding t by (metis add.commute append_take_drop_id drop_drop)
  then show thesis
    using that [of "take (unat (read_cursor s)) m" "drop (unat (read_cursor s) + n) m"] m len
    by (simp add: smem_def)
qed

lemma read_hex_spec:
  assumes wf: "stuffer_wf s" and b: "blob_wf b" and small: "unat (b_size b) * 2 \<le> UINT32_MAX"
    and enough: "unat (b_size b) * 2 \<le> length (unread s)"
  shows "case hex_decode (take (unat (b_size b) * 2) (unread s)) of
      Some bs \<Rightarrow> \<exists>b' s'. s2n_stuffer_read_hex (b, s) = (Inr (), (b', s')) \<and> blob_bytes b' = bs \<and>
        b_size b' = b_size b \<and> stuffer_wf s' \<and> unread s' = drop (unat (b_size b) * 2) (unread s)
    | None \<Rightarrow> \<exists>b'. s2n_stuffer_read_hex (b, s) = (Inl (Err S2N_ERR_BAD_HEX), (b', s))"
proof (cases "b_size b = 0")
  case True
  then show ?thesis
    using wf b by (auto simp: s2n_stuffer_read_hex_def blob_bytes_def split: option.splits)
next
  case False
  let ?n = "unat (b_size b)" and ?cs = "take (unat (b_size b) * 2) (unread s)"
  have dbl: "unat (b_size b * 2) = ?n * 2"
    using small by (rule unat_double)
  have avail: "b_size b * 2 \<le> s2n_stuffer_data_available s"
    using enough dbl by (simp add: data_available_le [OF wf])
  obtain out where out: "b_data b = Some out" "?n \<le> length out"
    using blob_wf_data [OF b] False by metis
  have "0 < ?n * 2"
    using False by (simp add: unat_gt_0)
  then obtain pre rest where m: "b_data (blob s) = Some (pre @ ?cs @ rest)" "length pre = unat (read_cursor s)"
    using stuffer_split [OF wf enough] by metis
  have "length ?cs = 2 * ?n"
    using enough by simp
  note loop = read_hex_loop_spec [OF this, of 0 out pre "unat (read_cursor s)" rest]
  have le: "unat (b_size b * 2) \<le> length (unread s)"
    using enough dbl by simp
  note sk = skip_read_ok [OF wf le]
  show ?thesis
  proof (cases "hex_decode ?cs")
    case None
    then show ?thesis
      using loop out m avail False by (auto simp: s2n_stuffer_read_hex_def Let_def)
  next
    case (Some bs)
    then have l: "read_hex_loop (b_data (blob s)) (unat (read_cursor s)) (b_data b) 0 ?n = (Inr (), Some (overwrite 0 bs out))"
      "length bs = ?n"
      using loop out m by auto
    have "s2n_stuffer_read_hex (b, s) = (Inr (), (b\<lparr>b_data := Some (overwrite 0 bs out)\<rparr>,
        s\<lparr>read_cursor := read_cursor s + b_size b * 2\<rparr>))"
      using l avail False sk(1) by (simp add: s2n_stuffer_read_hex_def Let_def)
    then show ?thesis
      using Some sk dbl l(2) out by (simp add: blob_bytes_def overwrite_def)
  qed
qed

lemma blob_data_split:
  assumes "blob_wf b" and "b_size b \<noteq> 0"
  obtains rest where "b_data b = Some (blob_bytes b @ rest)"
proof -
  obtain m where m: "b_data b = Some m"
    using blob_wf_data [OF assms(1)] assms(2) by metis
  then show thesis
    using that [of "drop (unat (b_size b)) m"] by (simp add: blob_bytes_def)
qed

lemma write_hex_spec:
  assumes mem: "mem_ok mem" and wf: "stuffer_wf s" and b: "blob_wf b" and small: "unat (b_size b) * 2 \<le> UINT32_MAX"
    and run: "s2n_stuffer_write_hex b (mem, s) = (r, (mem', s'))"
  obtains (fail) e where "r = Inl (Err e)" and "mem_same mem mem'" and "stuffer_wf s'" and "only_blob s s'"
  | (ok) "r = Inr ()" and "mem_same mem mem'" and "appended (hex_encode (blob_bytes b)) s s'"
proof -
  let ?n = "ucast (ucast (b_size b) * 2 :: u64) :: u32" and ?E = "hex_encode (blob_bytes b)"
  have n: "unat ?n = unat (b_size b) * 2"
    using small by (simp add: unat_double_size)
  have E: "length ?E = unat ?n"
    using length_blob_bytes [OF b] n by simp
  obtain r1 mem1 t where res: "s2n_stuffer_reserve_space ?n (mem, s) = (r1, (mem1, t))"
    by (cases "s2n_stuffer_reserve_space ?n (mem, s)") auto
  have g: "regrown (unat (write_cursor s) + unat ?n) (mem, s) (r1, (mem1, t))"
    using reserve_space_spec [OF mem wf, of ?n] res by simp
  show thesis
  proof (cases r1)
    case (Inl e)
    then obtain e' where "e = Err e'"
      using g by (cases e) (auto simp: regrown_def)
    then show thesis
      using run res g Inl by (intro fail [of e']) (auto simp: s2n_stuffer_write_hex_def regrown_def Let_def)
  next
    case (Inr u)
    have t: "stuffer_wf t" "only_blob s t" "mem_same mem mem1"
      "unat (write_cursor s) + unat ?n \<le> unat (b_size (blob t))"
      "take (unat (high_water_mark s)) (smem t) = take (unat (high_water_mark s)) (smem s)"
      using g Inr by (auto simp: regrown_def)
    have w: "write_cursor t = write_cursor s"
      using t(2) by (rule only_blob_fields)
    have len: "unat (write_cursor s) + unat ?n \<le> length (smem t)"
      using t(4) stuffer_wf_cursors(4) [OF t(1)] by linarith
    let ?f = "overwrite (unat (write_cursor s)) ?E"
    let ?t = "set_data (map_option ?f (b_data (blob t))) t"
    have loop: "write_hex_loop (b_data b) (b_data (blob t)) (unat (write_cursor t)) 0 (unat (b_size b)) =
        (Inr (), map_option ?f (b_data (blob t)))"
    proof (cases "b_size b = 0")
      case True
      then have "?E = []"
        using E n by (simp add: hex_encode_def)
      then show ?thesis
        using True by (cases "b_data (blob t)") simp_all
    next
      case False
      then obtain rest where bd: "b_data b = Some (blob_bytes b @ rest)"
        using blob_data_split [OF b] by blast
      have "0 < unat ?n"
        using False n by (simp add: unat_gt_0)
      then obtain m where m: "b_data (blob t) = Some m"
        using len by (cases "b_data (blob t)") (auto simp: smem_def)
      then show ?thesis
        using write_hex_loop_spec [of "unat (write_cursor t)" "[]" "blob_bytes b" m rest] bd len n w
          length_blob_bytes [OF b] by (simp add: smem_def mult.commute)
    qed
    have wft: "stuffer_wf ?t"
      using len E by (intro stuffer_wf_set_data t(1)) simp
    have room: "unat ?n \<le> unat (s2n_stuffer_space_remaining ?t)"
      using t(4) w by (simp add: unat_space_remaining [OF wft])
    have st: "r = Inr ()" "mem' = mem1" "s' = advanced ?n ?t"
      using run res Inr loop skip_write_room [OF room, of mem1]
      by (simp_all add: s2n_stuffer_write_hex_def Let_def set_data_def)
    have le: "unat (write_cursor ?t) + unat ?n \<le> unat (b_size (blob ?t))"
      using t(4) w by simp
    note adv = advanced_wf [OF wft le]
    have "take (unat (write_cursor s)) (smem t) = written s"
      using take_eq_shorter [OF t(5) stuffer_wf_cursors(2) [OF wf]] by (simp add: written_def)
    then have "written s' = written s @ ?E"
      using take_overwrite_end [of "unat (write_cursor s)" "smem t" ?E] adv(2) w st(3) E len
      by (cases "b_data (blob t)") (simp_all add: written_def smem_def)
    then have "appended ?E s s'"
      using adv w st(3) E t(2) by (simp add: appended_def only_blob_fields)
    then show thesis
      using st t(3) by (intro ok) simp_all
  qed
qed


section \<open>Claims\<close>


definition example_hex :: s2n_stuffer where
  "example_hex = \<lparr>blob = \<lparr>b_data = Some [52, 102, 65, 48], b_size = 4, b_allocated = 0, b_growable = False\<rparr>,
     read_cursor = 0, write_cursor = 4, high_water_mark = 4, alloced = False, growable = False, tainted = False\<rparr>"

lemma example_hex_ok [simp]: "stuffer_wf example_hex" "unread example_hex = [52, 102, 65, 48]"
  by (simp_all add: example_hex_def stuffer_wf_iff blob_wf_def s2n_blob_validate_def s2n_mem_is_readable_def
      unread_def written_def smem_def)

lemma example_digits: "hex_decode [52, 102, 65, 48] = Some [79, 160]"
  by code_simp


text \<open>
  C19. Writing a byte string in hexadecimal and reading it back into a blob of the same size gives the
  same byte string and leaves nothing unread.
\<close>
theorem hex_round_trip:
  assumes "mem_ok mem" and "stuffer_wf s" and "unread s = []" and "blob_wf b" and "unat (b_size b) * 2 \<le> UINT32_MAX"
    and "s2n_stuffer_write_hex b (mem, s) = (Inr (), (mem', s'))" and "blob_wf out" and "b_size out = b_size b"
  shows "\<exists>out' s''. s2n_stuffer_read_hex (out, s') = (Inr (), (out', s'')) \<and> blob_bytes out' = blob_bytes b \<and>
    unread s'' = []"
proof -
  from assms(1,2,4,5,6) have app: "appended (hex_encode (blob_bytes b)) s s'"
    by (rule write_hex_spec) simp_all
  have s': "stuffer_wf s'" "unread s' = hex_encode (blob_bytes b)"
    using app appended_unread [OF assms(2) app] assms(3) by (simp_all add: appended_def)
  have len: "length (unread s') = unat (b_size out) * 2"
    using s'(2) length_blob_bytes [OF assms(4)] assms(8) by simp
  then have "take (unat (b_size out) * 2) (unread s') = unread s'"
    by simp
  then have "hex_decode (take (unat (b_size out) * 2) (unread s')) = Some (blob_bytes b)"
    using s'(2) by (simp add: hex_decode_encode)
  then show ?thesis
    using read_hex_spec [OF s'(1) assms(7)] assms(5,8) len by auto
qed

lemma hex_round_trip_witness:
  "mem_ok (example_mem Free_no_mlock_impl) \<and> stuffer_wf example_fresh \<and> blob_wf example_blob \<and>
   (\<exists>mem' s' out' s''. s2n_stuffer_write_hex example_blob (example_mem Free_no_mlock_impl, example_fresh) =
      (Inr (), (mem', s')) \<and> s2n_stuffer_read_hex (example_blob, s') = (Inr (), (out', s'')) \<and>
      blob_bytes out' = [7, 8])"
proof -
  let ?mem = "example_mem Free_no_mlock_impl"
  have loop: "write_hex_loop (Some [7, 8]) (Some [0, 0, 0, 0]) 0 0 2 = (Inr (), Some [48, 55, 48, 56])"
    by code_simp
  have "\<exists>mem' s'. s2n_stuffer_write_hex example_blob (?mem, example_fresh) = (Inr (), (mem', s'))"
    by (simp add: s2n_stuffer_write_hex_def stuffer_run example_fresh_def s2n_stuffer_init_def example_blob_def loop)
  then obtain mem' s' where run: "s2n_stuffer_write_hex example_blob (?mem, example_fresh) = (Inr (), (mem', s'))"
    by blast
  have "unat (b_size example_blob) = 2" "blob_bytes example_blob = [7, 8]"
    by (simp_all add: example_blob_def blob_bytes_def)
  then show ?thesis
    using hex_round_trip [OF _ _ _ _ _ run, of example_blob] run by auto
qed

text \<open>
  The size check of \<open>s2n_stuffer_read_hex\<close> multiplies in 32 bits.  A blob of \<open>2 ^ 31\<close> bytes passes it
  with nothing to read, and the loop then reads outside the stuffer.
\<close>
lemma read_hex_size_wraps:
  assumes "b_size b = 2147483648" and "b_data (blob s) = None"
  shows "fst (s2n_stuffer_read_hex (b, s)) = Inl Undefined"
proof -
  have "b_size b * 2 = 0"
    unfolding assms(1) by (rule word_unat_eqI) (simp add: unat_word_ariths)
  moreover have "b_size b \<noteq> 0"
    by (simp add: assms(1))
  moreover from this obtain k where "unat (b_size b) = Suc k"
    using not0_implies_Suc unat_eq_zero by blast
  ultimately show ?thesis
    using assms(2) by (simp only: s2n_stuffer_read_hex_def prod.case) (simp add: nth_opt_def)
qed

end
