(* ===== verification/Stuffer_Base64.thy ===== *)
theory Stuffer_Base64
  imports Stuffer_Text
begin

text \<open>
  Base64 text in stuffers (\<open>stuffer/s2n_stuffer_base64.c\<close>).

  The codec itself belongs to libcrypto: \<open>EVP_DecodeBlock\<close> and \<open>EVP_EncodeBlock\<close> are parameters that
  map the input bytes to the return value and the bytes stored at the output pointer.  What the
  decoder relies on is \<open>evp_decode_ok\<close>: three bytes are stored for every four characters.
\<close>

section \<open>Operations\<close>

definition s2n_is_base64_char :: "u8 \<Rightarrow> bool" where
  "s2n_is_base64_char c =
     (let bit_of = (\<lambda>b. if b then 1 else 0 :: u8);
          out = 0 XOR (bit_of (c \<ge> 65) AND bit_of (c \<le> 90));
          out = out XOR (bit_of (c \<ge> 97) AND bit_of (c \<le> 122));
          out = out XOR (bit_of (c \<ge> 48) AND bit_of (c \<le> 57));
          out = out XOR bit_of (c = 43);
          out = out XOR bit_of (c = 47);
          out = out XOR bit_of (c = 61)
      in out = 1)"

type_synonym evp_block = "bytes \<Rightarrow> int \<times> bytes"

definition pad_step :: "u32 \<Rightarrow> s2n_stuffer \<Rightarrow> (s2n_stuffer, unit) action" where
  "pad_step back inp out =
     (case byte_at inp (read_cursor inp - back) of
        None \<Rightarrow> (Inl Undefined, out)
      | Some c \<Rightarrow> (Inr (), if c = 61 then out\<lparr>write_cursor := write_cursor out - 1\<rparr> else out))"

definition s2n_stuffer_read_base64 :: "evp_block \<Rightarrow> (two_stuffers, unit) action" where
  "s2n_stuffer_read_base64 EVP_DecodeBlock = (\<lambda>(inp, st).
     let base64_groups = unat (s2n_stuffer_data_available inp) div 4 in
     if base64_groups = 0 then (Inr (), (inp, st))
     else if base64_groups * 4 > 2147483647 then (Inl Undefined, (inp, st))
     else
       let base64_data_size = of_nat (base64_groups * 4) :: u32;
           binary_output_size = base64_groups * 3;
           base64_data_offset = read_cursor inp
       in case s2n_stuffer_skip_read base64_data_size inp of
            (Inl e, inp) \<Rightarrow> (Inl e, (inp, st))
          | (Inr _, inp) \<Rightarrow>
              let binary_output_offset = write_cursor (snd st) in
              (case s2n_stuffer_skip_write (of_nat binary_output_size) st of
                 (Inl e, st) \<Rightarrow> (Inl e, (inp, st))
               | (Inr _, (mem, out)) \<Rightarrow>
                   (case b_data (blob inp) of
                      None \<Rightarrow> (Inl Undefined, (inp, (mem, out)))
                    | Some m \<Rightarrow>
                        (case mem_read m (unat base64_data_offset) (base64_groups * 4) of
                           None \<Rightarrow> (Inl Undefined, (inp, (mem, out)))
                         | Some chars \<Rightarrow>
                             let (res, decoded) = EVP_DecodeBlock chars in
                             (case block [
                                  stuffer_memcpy binary_output_offset (Some decoded) (of_nat (length decoded)),
                                  ensure (res = int binary_output_size) S2N_ERR_INVALID_BASE64,
                                  ensure (read_cursor inp \<ge> 2) S2N_ERR_SAFETY,
                                  pad_step 1 inp,
                                  pad_step 2 inp] out of
                                (r, out) \<Rightarrow> (r, (inp, (mem, out))))))))"

definition s2n_stuffer_write_base64 :: "evp_block \<Rightarrow> (two_stuffers, unit) action" where
  "s2n_stuffer_write_base64 EVP_EncodeBlock = (\<lambda>(inp, st).
     let binary_data_size = sint (s2n_stuffer_data_available inp) in
     if binary_data_size = 0 then (Inr (), (inp, st))
     else
       let base64_groups = (if binary_data_size < 0 then - ((- binary_data_size) div 3) else binary_data_size div 3);
           base64_groups = (if binary_data_size - base64_groups * 3 \<noteq> 0 then base64_groups + 1 else base64_groups);
           base64_output_size = base64_groups * 4 + 1
       in if base64_output_size > 2147483647 \<or> base64_output_size < - 2147483648 then (Inl Undefined, (inp, st))
       else
         let binary_data_offset = read_cursor inp in
         (case s2n_stuffer_skip_read (word_of_int binary_data_size) inp of
            (Inl e, inp) \<Rightarrow> (Inl e, (inp, st))
          | (Inr _, inp) \<Rightarrow>
              let base64_output_offset = write_cursor (snd st) in
              (case s2n_stuffer_skip_write (word_of_int base64_output_size) st of
                 (Inl e, st) \<Rightarrow> (Inl e, (inp, st))
               | (Inr _, (mem, out)) \<Rightarrow>
                   if binary_data_size < 0 then (Inl Undefined, (inp, (mem, out)))
                   else case b_data (blob inp) of
                      None \<Rightarrow> (Inl Undefined, (inp, (mem, out)))
                    | Some m \<Rightarrow>
                        (case mem_read m (unat binary_data_offset) (nat binary_data_size) of
                           None \<Rightarrow> (Inl Undefined, (inp, (mem, out)))
                         | Some data \<Rightarrow>
                             let (res, encoded) = EVP_EncodeBlock data in
                             (case block [
                                  stuffer_memcpy base64_output_offset (Some encoded) (of_nat (length encoded)),
                                  ensure (res = base64_output_size - 1) S2N_ERR_INVALID_BASE64,
                                  s2n_stuffer_wipe_n 1] out of
                                (r, out) \<Rightarrow> (r, (inp, (mem, out))))))))"


section \<open>What the code relies on\<close>

definition evp_decode_ok :: "evp_block \<Rightarrow> bool" where
  "evp_decode_ok f \<longleftrightarrow>
     (\<forall>cs. length (snd (f cs)) \<le> length cs div 4 * 3 \<and>
        (fst (f cs) = int (length cs div 4 * 3) \<longrightarrow> length (snd (f cs)) = length cs div 4 * 3))"

text \<open>The number of padding characters the code finds at the end of the text.\<close>

definition pad_count :: "bytes \<Rightarrow> nat" where
  "pad_count cs = (if cs ! (length cs - 1) = 61 then 1 else 0) + (if cs ! (length cs - 2) = 61 then 1 else 0)"

lemma base64_char_iff:
  "s2n_is_base64_char c \<longleftrightarrow> (65 \<le> c \<and> c \<le> 90) \<or> (97 \<le> c \<and> c \<le> 122) \<or> (48 \<le> c \<and> c \<le> 57) \<or>
     c = 43 \<or> c = 47 \<or> c = 61"
proof -
  consider "65 \<le> c \<and> c \<le> 90" | "97 \<le> c \<and> c \<le> 122" | "48 \<le> c \<and> c \<le> 57" | "c = 43" | "c = 47" | "c = 61"
    | "\<not> (65 \<le> c \<and> c \<le> 90)" "\<not> (97 \<le> c \<and> c \<le> 122)" "\<not> (48 \<le> c \<and> c \<le> 57)" "c \<noteq> 43" "c \<noteq> 47" "c \<noteq> 61"
    by blast
  then show ?thesis
    by cases (auto simp: s2n_is_base64_char_def Let_def word_le_unat)
qed

lemma byte_behind_read:
  assumes wf: "stuffer_wf s" and "unat n \<le> length (unread s)" and "0 < unat k" and "unat k \<le> unat n"
  shows "byte_at (s\<lparr>read_cursor := read_cursor s + n\<rparr>) (read_cursor s + n - k) =
    Some (take (unat n) (unread s) ! (unat n - unat k))"
proof -
  have rn: "unat (read_cursor s + n) = unat (read_cursor s) + unat n"
    using skip_read_ok(2) [OF wf assms(2)] .
  have rk: "unat (read_cursor s + n - k) = unat (read_cursor s) + unat n - unat k"
    using assms(4) rn by (subst word_sub_unat) (simp_all add: word_le_unat)
  have len: "unat (read_cursor s) + unat n \<le> length (smem s)"
    using assms(2) stuffer_wf_cursors [OF wf] assms(3,4) length_unread [OF wf] by linarith
  then obtain m where m: "b_data (blob s) = Some m"
    using assms(3,4) by (cases "b_data (blob s)") (auto simp: smem_def)
  have "unat (read_cursor s) + (unat n - unat k) < unat (write_cursor s)"
    using assms length_unread [OF wf] by linarith
  then have "unread s ! (unat n - unat k) = m ! (unat (read_cursor s) + (unat n - unat k))"
    using m len by (simp add: unread_def written_def smem_def)
  then show ?thesis
    using m rk len assms(3,4) by (simp add: byte_at_def smem_def)
qed

lemma shrink_written:
  assumes wf: "stuffer_wf s" and "unat k \<le> length (unread s)"
  shows "stuffer_wf (s\<lparr>write_cursor := write_cursor s - k\<rparr>)"
    and "unread (s\<lparr>write_cursor := write_cursor s - k\<rparr>) = take (length (unread s) - unat k) (unread s)"
proof -
  have w: "unat (write_cursor s - k) = unat (write_cursor s) - unat k" "unat k \<le> unat (write_cursor s) - unat (read_cursor s)"
    using assms(2) length_unread [OF wf] by (simp_all add: word_sub_unat word_le_unat)
  show "stuffer_wf (s\<lparr>write_cursor := write_cursor s - k\<rparr>)"
    using wf w stuffer_wf_cursors(1) [OF wf] by (auto simp: stuffer_wf_iff)
  show "unread (s\<lparr>write_cursor := write_cursor s - k\<rparr>) = take (length (unread s) - unat k) (unread s)"
    using w stuffer_wf_cursors(1) [OF wf]
    by (simp add: length_unread [OF wf]) (simp add: unread_def written_def smem_def drop_take add.commute)
qed

lemma pad_steps:
  assumes wf: "stuffer_wf s" and n: "unat n \<le> length (unread s)" "2 \<le> unat n" and out: "stuffer_wf out" "3 \<le> length (unread out)"
  defines "cs \<equiv> take (unat n) (unread s)" and "s' \<equiv> s\<lparr>read_cursor := read_cursor s + n\<rparr>"
  obtains out' where "block [ensure (read_cursor s' \<ge> 2) S2N_ERR_SAFETY, pad_step 1 s', pad_step 2 s'] out = (Inr (), out')"
    and "stuffer_wf out'" and "unread out' = take (length (unread out) - pad_count cs) (unread out)"
proof -
  have len: "length cs = unat n"
    using n(1) by (simp add: cs_def)
  have "unat (read_cursor s') = unat (read_cursor s) + unat n"
    using skip_read_ok(2) [OF wf n(1)] by (simp add: s'_def)
  then have two: "2 \<le> read_cursor s'"
    using n(2) by (simp add: word_le_unat)
  have b1: "byte_at s' (read_cursor s' - 1) = Some (cs ! (length cs - 1))"
    and b2: "byte_at s' (read_cursor s' - 2) = Some (cs ! (length cs - 2))"
    using byte_behind_read [OF wf n(1), of 1] byte_behind_read [OF wf n(1), of 2] n(2) len by (simp_all add: s'_def cs_def)
  let ?k = "of_nat (pad_count cs) :: u32"
  have k: "unat ?k = pad_count cs" "pad_count cs \<le> 2"
    by (simp_all add: pad_count_def)
  have "block [ensure (read_cursor s' \<ge> 2) S2N_ERR_SAFETY, pad_step 1 s', pad_step 2 s'] out =
      (Inr (), out\<lparr>write_cursor := write_cursor out - ?k\<rparr>)"
    using two b1 b2 by (simp add: ensure_def pad_step_def pad_count_def diff_diff_eq)
  then show thesis
    using that [of "out\<lparr>write_cursor := write_cursor out - ?k\<rparr>"] shrink_written [OF out(1), of ?k] k out(2) by simp
qed


section \<open>Claims\<close>

text \<open>
  C20. Reading base64 hands over exactly the decoded bytes.  For less than 2 GiB of text and a libcrypto
  decoder that stores what it documents, the call never leaves the two buffers; when it succeeds
  it has consumed the complete groups of four characters and appended the decoded bytes without
  the zero bytes that stand for padding.
\<close>
theorem s2n_stuffer_read_base64_correct:
  assumes evp: "evp_decode_ok EVP_DecodeBlock" and mem: "mem_ok mem" and inp: "stuffer_wf inp" and out: "stuffer_wf out"
    and small: "length (unread inp) \<le> 2147483647"
    and run: "s2n_stuffer_read_base64 EVP_DecodeBlock (inp, (mem, out)) = (r, (inp', (mem', out')))"
  shows "r \<noteq> Inl Undefined \<and> stuffer_wf inp' \<and> stuffer_wf out' \<and>
    (r = Inr () \<longrightarrow>
       (let g = length (unread inp) div 4; cs = take (g * 4) (unread inp) in
        unread inp' = drop (g * 4) (unread inp) \<and>
        (g = 0 \<longrightarrow> out' = out) \<and>
        (g \<noteq> 0 \<longrightarrow> unread out' = unread out @ take (g * 3 - pad_count cs) (snd (EVP_DecodeBlock cs)))))"
proof -
  let ?g = "length (unread inp) div 4"
  let ?cs = "take (?g * 4) (unread inp)" and ?n = "of_nat (?g * 4) :: u32" and ?k = "of_nat (?g * 3) :: u32"
  have g: "unat (s2n_stuffer_data_available inp) div 4 = ?g"
    by (simp add: unat_data_available [OF inp])
  have g4: "?g * 4 \<le> length (unread inp)" "?g * 4 \<le> 2147483647"
    using small by linarith+
  then have n: "unat ?n = ?g * 4" "unat ?k = ?g * 3"
    by (intro unat_of_nat_u32; linarith)+
  show ?thesis
  proof (cases "?g = 0")
    case True
    then show ?thesis
      using run g inp out by (auto simp: s2n_stuffer_read_base64_def Let_def)
  next
    case False
    have le: "unat ?n \<le> length (unread inp)"
      using n g4 by simp
    note sk = skip_read_ok [OF inp le]
    let ?inp = "inp\<lparr>read_cursor := read_cursor inp + ?n\<rparr>"
    obtain r1 mem1 o1 where w: "s2n_stuffer_skip_write ?k (mem, out) = (r1, (mem1, o1))"
      by (cases "s2n_stuffer_skip_write ?k (mem, out)") auto
    have pos: "0 < ?g * 4"
      using False by simp
    obtain m where m: "b_data (blob inp) = Some m"
      and rd: "mem_read m (unat (read_cursor inp)) (?g * 4) = Some ?cs"
    proof -
      have len: "unat (read_cursor inp) + ?g * 4 \<le> length (smem inp)"
        using g4(1) pos stuffer_wf_cursors [OF inp] length_unread [OF inp] by linarith
      then obtain m where m: "b_data (blob inp) = Some m"
        using pos by (cases "b_data (blob inp)") (auto simp: smem_def)
      have "unat (read_cursor inp) + ?g * 4 \<le> unat (write_cursor inp)"
        using g4(1) pos length_unread [OF inp] by linarith
      then have "mem_read m (unat (read_cursor inp)) (?g * 4) = Some ?cs"
        using len m by (simp add: mem_read_def smem_def unread_def written_def drop_take min_def)
      with m show thesis by (rule that)
    qed
    obtain res dec where dec: "EVP_DecodeBlock ?cs = (res, dec)"
      by (cases "EVP_DecodeBlock ?cs")
    have "length ?cs = ?g * 4"
      using g4(1) by simp
    then have "length ?cs div 4 = ?g"
      by simp
    then have dl: "length dec \<le> ?g * 3" "res = int (?g * 3) \<Longrightarrow> length dec = ?g * 3"
      using evp dec unfolding evp_decode_ok_def by (metis fst_conv snd_conv)+
    from mem out w show ?thesis
    proof (cases rule: skip_write_spec)
      case (fail e)
      then have "r = Inl (Err e)" "inp' = ?inp" "out' = o1"
        using run g g4 False sk(1) w by (auto simp: s2n_stuffer_read_base64_def Let_def)
      then show ?thesis
        using fail sk by simp
    next
      case (ok t)
      let ?d = "of_nat (length dec) :: u32"
      have d: "unat ?d = length dec"
        using dl(1) g4 by simp
      have fit: "unat (write_cursor out) + unat ?d \<le> unat (b_size (blob o1))"
        using ok dl(1) d n by simp
      note cp = stuffer_memcpy_ok [OF ok(6) fit, of dec]
      let ?o = "set_data (map_option (overwrite (unat (write_cursor out)) dec) (b_data (blob o1))) o1"
      have cp1: "stuffer_memcpy (write_cursor out) (Some dec) ?d o1 = (Inr (), ?o)" and wfo: "stuffer_wf ?o"
        using cp d by simp_all
      have tail: "s2n_stuffer_read_base64 EVP_DecodeBlock (inp, (mem, out)) =
          (case block [ensure (res = int (?g * 3)) S2N_ERR_INVALID_BASE64,
               ensure (read_cursor ?inp \<ge> 2) S2N_ERR_SAFETY, pad_step 1 ?inp, pad_step 2 ?inp] ?o of
             (r, o') \<Rightarrow> (r, (?inp, (mem1, o'))))"
        using g g4 False sk(1) w ok(1) m rd dec cp1
        by (simp add: s2n_stuffer_read_base64_def Let_def)
      show ?thesis
      proof (cases "res = int (?g * 3)")
        case False
        then have "r = Inl (Err S2N_ERR_INVALID_BASE64)" "inp' = ?inp" "out' = ?o"
          using run tail by (simp_all add: ensure_def)
        then show ?thesis
          using sk wfo by simp
      next
        case True
        have len: "unat (write_cursor out) + unat ?k \<le> length (smem o1)"
          using ok stuffer_wf_cursors(4) [OF ok(6)] by simp
        have "written ?o = written out @ dec"
          using take_overwrite_end [of "unat (write_cursor out)" "smem o1" dec] dl(2) [OF True] len ok n
          by (cases "b_data (blob o1)") (simp_all add: written_def smem_def)
        then have un: "unread ?o = unread out @ dec"
          using ok stuffer_wf_cursors(1) [OF out] by (simp add: unread_def length_written [OF out] only_blob_fields)
        have three: "3 \<le> length (unread ?o)"
          using un dl(2) [OF True] False by simp
        have two: "2 \<le> unat ?n"
          using n False by simp
        from inp le two wfo three obtain o' where o':
          "block [ensure (read_cursor ?inp \<ge> 2) S2N_ERR_SAFETY, pad_step 1 ?inp, pad_step 2 ?inp] ?o = (Inr (), o')"
          "stuffer_wf o'" "unread o' = take (length (unread ?o) - pad_count (take (unat ?n) (unread inp))) (unread ?o)"
          by (rule pad_steps)
        have st: "r = Inr ()" "inp' = ?inp" "out' = o'"
          using run tail True o'(1) by (simp_all add: ensure_def)
        have "pad_count ?cs \<le> ?g * 3"
          using False by (simp add: pad_count_def)
        then have "unread o' = unread out @ take (?g * 3 - pad_count ?cs) dec"
          using o'(3) un n dl(2) [OF True] by (simp add: take_append) linarith
        then show ?thesis
          using st o'(2) sk n False dec by (simp add: Let_def)
      qed
    qed
  qed
qed

definition example_decode :: evp_block where
  "example_decode cs = (if cs = [84, 87, 69, 61] then (3, [77, 97, 0]) else (- 1, []))"

lemma evp_decode_ok_example: "evp_decode_ok example_decode"
  by (simp add: evp_decode_ok_def example_decode_def)

definition example_base64 :: s2n_stuffer where
  "example_base64 = \<lparr>blob = \<lparr>b_data = Some [84, 87, 69, 61, 10], b_size = 5, b_allocated = 0, b_growable = False\<rparr>,
     read_cursor = 0, write_cursor = 5, high_water_mark = 5, alloced = False, growable = False, tainted = False\<rparr>"

lemma example_base64_ok: "stuffer_wf example_base64" "unread example_base64 = [84, 87, 69, 61, 10]"
  by (simp_all add: example_base64_def stuffer_wf_iff blob_wf_def s2n_blob_validate_def s2n_mem_is_readable_def
      unread_def written_def smem_def)

lemma s2n_stuffer_read_base64_witness:
  "evp_decode_ok example_decode \<and> mem_ok (example_mem Free_no_mlock_impl) \<and> stuffer_wf example_base64 \<and>
   (\<exists>inp' mem' out'. s2n_stuffer_read_base64 example_decode (example_base64, (example_mem Free_no_mlock_impl, example_fresh)) =
      (Inr (), (inp', (mem', out'))) \<and> unread inp' = [10] \<and> unread out' = [77, 97])"
proof -
  let ?mem = "example_mem Free_no_mlock_impl"
  have "\<exists>inp' mem' out'. s2n_stuffer_read_base64 example_decode (example_base64, (?mem, example_fresh)) =
      (Inr (), (inp', (mem', out')))"
    by (simp add: s2n_stuffer_read_base64_def skip_read_eq s2n_stuffer_data_available_def stuffer_run checked_memcpy_def
        mem_read_def mem_write_def example_decode_def example_base64_def example_fresh_def s2n_stuffer_init_def
        pad_step_def byte_at_def)
  then obtain inp' mem' out' where run: "s2n_stuffer_read_base64 example_decode (example_base64, (?mem, example_fresh)) =
      (Inr (), (inp', (mem', out')))"
    by blast
  show ?thesis
    using s2n_stuffer_read_base64_correct [OF evp_decode_ok_example _ _ _ _ run] run evp_decode_ok_example example_base64_ok
    by (simp add: Let_def pad_count_def example_decode_def)
qed

end
