(* ===== verification/Sequence.thy ===== *)
theory Sequence
  imports Mem
begin

text \<open>
  Record sequence numbers (\<open>crypto/s2n_sequence.c\<close>).

  A sequence number is a blob that holds a big-endian counter.  Both loops run from the last byte to
  the first; the index of the source is \<open>Suc i\<close> here, and an index outside the blob's memory is
  \<open>Undefined\<close>.  \<open>be_value\<close> is the number the bytes denote.
\<close>

section \<open>Operations\<close>

fun increment_loop :: "bytes \<Rightarrow> nat \<Rightarrow> unit result \<times> bytes" where
  "increment_loop m 0 = (Inr (), m)"
| "increment_loop m (Suc i) =
     (if i < length m then
        let m' = m[i := m ! i + 1] in
        if m' ! i \<noteq> 0 then (Inr (), m')
        else if i = 0 then (Inl (Err S2N_ERR_RECORD_LIMIT), m')
        else increment_loop m' i
      else (Inl Undefined, m))"

definition s2n_increment_sequence_number :: "(s2n_blob, unit) action" where
  "s2n_increment_sequence_number b =
     (if b_size b = 0 then (Inr (), b)
      else case b_data b of
        None \<Rightarrow> (Inl Undefined, b)
      | Some m \<Rightarrow> (case increment_loop m (unat (b_size b)) of (r, m') \<Rightarrow> (r, b\<lparr>b_data := Some m'\<rparr>)))"

text \<open>The shift is a \<open>uint8_t\<close>, so it wraps; a shift of 64 bits or more is undefined in C.\<close>

fun uint64_loop :: "bytes \<Rightarrow> nat \<Rightarrow> u8 \<Rightarrow> u64 \<Rightarrow> u64 result" where
  "uint64_loop m 0 shift output = Inr output"
| "uint64_loop m (Suc i) shift output =
     (if i < length m \<and> shift < 64
      then uint64_loop m i (shift + 8) (output + push_bit (unat shift) (ucast (m ! i)))
      else Inl Undefined)"

definition s2n_sequence_number_to_uint64 :: "s2n_blob \<Rightarrow> u64 result" where
  "s2n_sequence_number_to_uint64 b =
     (if b_size b = 0 then Inr 0
      else case b_data b of
        None \<Rightarrow> Inl Undefined
      | Some m \<Rightarrow> uint64_loop m (unat (b_size b)) 0 0)"


section \<open>The number a counter denotes\<close>

fun be_value :: "bytes \<Rightarrow> nat" where
  "be_value [] = 0"
| "be_value (b # bs) = unat b * 256 ^ length bs + be_value bs"

lemma be_value_append: "be_value (xs @ ys) = be_value xs * 256 ^ length ys + be_value ys"
  by (induction xs) (simp_all add: algebra_simps power_add)

lemma be_value_bound: "be_value bs < 256 ^ length bs"
proof (induction bs)
  case (Cons b bs)
  have "unat b \<le> 255"
    using unat_u8_less [of b] by simp
  then have "unat b * 256 ^ length bs \<le> 255 * 256 ^ length bs"
    by (rule mult_right_mono) simp
  then have "unat b * 256 ^ length bs + be_value bs < 255 * 256 ^ length bs + 256 ^ length bs"
    using Cons.IH by linarith
  then show ?case
    by simp
qed simp

lemma be_value_inj: "length xs = length ys \<Longrightarrow> be_value xs = be_value ys \<Longrightarrow> xs = ys"
proof (induction xs ys rule: list_induct2)
  case (Cons x xs y ys)
  have len: "(256 :: nat) ^ length xs = 256 ^ length ys" and pos: "(256 :: nat) ^ length ys > 0"
    using Cons.hyps by simp_all
  have "unat x = (unat x * 256 ^ length xs + be_value xs) div 256 ^ length xs"
    using be_value_bound [of xs] by simp
  also have "\<dots> = (unat y * 256 ^ length ys + be_value ys) div 256 ^ length ys"
    using Cons.prems len by simp
  also have "\<dots> = unat y"
    using be_value_bound [of ys] by simp
  finally have "x = y"
    by (simp add: word_unat_eq_iff)
  then show ?case
    using Cons.IH Cons.prems len by simp
qed simp

lemma be_value_zeros [simp]: "be_value (replicate n 0) = 0"
  by (induction n) simp_all

lemma unat_succ_u8: "(b :: u8) + 1 \<noteq> 0 \<Longrightarrow> unat (b + 1) = unat b + 1"
  by (metis Suc_eq_plus1 add.commute unatSuc)

lemma succ_zero_u8: "(b :: u8) + 1 = 0 \<Longrightarrow> unat b = 255"
proof -
  assume "b + 1 = 0"
  then have "b = 255"
    by (simp add: eq_neg_iff_add_eq_0 [symmetric])
  then show ?thesis
    by simp
qed


section \<open>Behaviour\<close>

text \<open>One step of the carry: the loop either adds one to the first \<open>n\<close> bytes, or wraps them all.\<close>

lemma increment_loop_spec:
  assumes "n \<le> length m"
  shows "\<exists>m'. snd (increment_loop m n) = m' \<and> length m' = length m \<and> drop n m' = drop n m \<and>
    (if be_value (take n m) + 1 < 256 ^ n
     then fst (increment_loop m n) = Inr () \<and> be_value (take n m') = be_value (take n m) + 1
     else take n m' = replicate n 0 \<and>
       fst (increment_loop m n) = (if n = 0 then Inr () else Inl (Err S2N_ERR_RECORD_LIMIT)))"
  using assms
proof (induction n arbitrary: m)
  case (Suc i)
  let ?m = "m[i := m ! i + 1]"
  have i: "i < length m"
    using Suc.prems by simp
  have val: "be_value (take (Suc i) x) = be_value (take i x) * 256 + unat (x ! i)" if "i < length x" for x
    using that by (simp add: take_Suc_conv_app_nth be_value_append)
  have old: "be_value (take (Suc i) m) = be_value (take i m) * 256 + unat (m ! i)"
    using i by (rule val)
  have bound: "be_value (take i m) + 1 \<le> 256 ^ i"
    using be_value_bound [of "take i m"] i by simp
  show ?case
  proof (cases "m ! i + 1 = 0")
    case False
    have "unat (m ! i) + 1 \<le> 255"
      using unat_succ_u8 [OF False] unat_u8_less [of "m ! i + 1"] by simp
    then have "be_value (take (Suc i) m) + 1 < 256 ^ Suc i"
      using old bound by simp
    moreover have "be_value (take (Suc i) ?m) = be_value (take (Suc i) m) + 1"
      using i val [of ?m] old unat_succ_u8 [OF False] by simp
    moreover have "increment_loop m (Suc i) = (Inr (), ?m)"
      using i False by simp
    ultimately show ?thesis
      by (metis Suc.prems drop_update_cancel fst_conv length_list_update lessI snd_conv)
  next
    case True
    have full: "be_value (take (Suc i) m) = be_value (take i m) * 256 + 255"
      using old succ_zero_u8 [OF True] by simp
    show ?thesis
    proof (cases "i = 0")
      case True0: True
      show ?thesis
        using True True0 i full by (cases m) (simp_all add: Let_def)
    next
      case pos: False
      have run: "increment_loop m (Suc i) = increment_loop ?m i"
        using i True pos by simp
      from Suc.IH [of ?m] i obtain m' where m': "snd (increment_loop ?m i) = m'" "length m' = length m"
        "drop i m' = drop i ?m"
        "if be_value (take i m) + 1 < 256 ^ i
         then fst (increment_loop ?m i) = Inr () \<and> be_value (take i m') = be_value (take i m) + 1
         else take i m' = replicate i 0 \<and> fst (increment_loop ?m i) = Inl (Err S2N_ERR_RECORD_LIMIT)"
        using pos by auto
      have at_i: "m' ! i = 0"
        using m'(2,3) i True
        by (metis drop_eq_nths hd_drop_conv_nth length_list_update nth_list_update_eq)
      have tail: "drop (Suc i) m' = drop (Suc i) m"
        using m'(3) by (metis drop_Suc drop_update_cancel lessI tl_drop)
      have "take (Suc i) m' = take i m' @ [0]"
        using at_i m'(2) i by (simp add: take_Suc_conv_app_nth)
      then show ?thesis
        using m' tail run full val [of m'] at_i i
        by (auto simp: replicate_append_same algebra_simps split: if_splits)
    qed
  qed
qed simp


lemma uint64_loop_spec:
  assumes "n \<le> length m" and "n + k \<le> 8"
  shows "uint64_loop m n (of_nat (8 * k)) acc = Inr (acc + push_bit (8 * k) (of_nat (be_value (take n m))))"
  using assms
proof (induction n arbitrary: k acc)
  case (Suc i)
  have i: "i < length m" and k: "k < 8"
    using Suc.prems by simp_all
  have shift: "unat (of_nat (8 * k) :: u8) = 8 * k"
    using k by (subst unat_of_nat) simp
  have small: "(of_nat (8 * k) :: u8) < 64"
    using k shift by (simp add: word_less_nat_alt)
  have step: "uint64_loop m (Suc i) (of_nat (8 * k)) acc =
      uint64_loop m i (of_nat (8 * Suc k)) (acc + push_bit (8 * k) (ucast (m ! i)))"
    using i small shift by (simp add: add.commute)
  have "(of_nat (be_value (take (Suc i) m)) :: u64) =
      push_bit 8 (of_nat (be_value (take i m))) + ucast (m ! i)"
    using i by (simp add: take_Suc_conv_app_nth be_value_append push_bit_eq_mult)
  then have "push_bit (8 * k) (of_nat (be_value (take (Suc i) m)) :: u64) =
      push_bit (8 * Suc k) (of_nat (be_value (take i m))) + push_bit (8 * k) (ucast (m ! i))"
    by (simp add: push_bit_add ac_simps)
  moreover have "uint64_loop m i (of_nat (8 * Suc k)) x =
      Inr (x + push_bit (8 * Suc k) (of_nat (be_value (take i m))))" for x
    using Suc.IH [of "Suc k" x] Suc.prems by simp
  ultimately show ?case
    unfolding step by (simp only: add.assoc add.commute add.left_commute)
qed simp


section \<open>Claims\<close>

text \<open>
  C27. Sequence numbers count.  For a blob whose memory holds its size, an increment adds one to the
  big-endian number in it unless the number is the largest of that size; exactly then it fails with
  \<open>S2N_ERR_RECORD_LIMIT\<close>, and the bytes have wrapped to zero.  Bytes after the number are untouched.
  For a number of at most eight bytes \<open>s2n_sequence_number_to_uint64\<close> returns that number.
\<close>
theorem sequence_number_correct:
  assumes "b_data b = Some m" and "n = unat (b_size b)" and "0 < n" and "n \<le> length m"
  shows "(\<exists>m'. snd (s2n_increment_sequence_number b) = b\<lparr>b_data := Some m'\<rparr> \<and> drop n m' = drop n m \<and>
      (if be_value (take n m) + 1 < 256 ^ n
       then fst (s2n_increment_sequence_number b) = Inr () \<and> be_value (take n m') = be_value (take n m) + 1
       else fst (s2n_increment_sequence_number b) = Inl (Err S2N_ERR_RECORD_LIMIT) \<and>
         take n m' = replicate n 0)) \<and>
    (n \<le> 8 \<longrightarrow> (\<exists>u. s2n_sequence_number_to_uint64 b = Inr u \<and> unat u = be_value (take n m)))"
proof
  have nz: "b_size b \<noteq> 0"
    using assms(2,3) by auto
  have run: "s2n_increment_sequence_number b =
      (fst (increment_loop m n), b\<lparr>b_data := Some (snd (increment_loop m n))\<rparr>)"
    using assms(1,2) nz by (simp add: s2n_increment_sequence_number_def split: prod.splits)
  show "\<exists>m'. snd (s2n_increment_sequence_number b) = b\<lparr>b_data := Some m'\<rparr> \<and> drop n m' = drop n m \<and>
      (if be_value (take n m) + 1 < 256 ^ n
       then fst (s2n_increment_sequence_number b) = Inr () \<and> be_value (take n m') = be_value (take n m) + 1
       else fst (s2n_increment_sequence_number b) = Inl (Err S2N_ERR_RECORD_LIMIT) \<and>
         take n m' = replicate n 0)"
    using increment_loop_spec [OF assms(4)] assms(3) by (auto simp: run split: if_splits)
  show "n \<le> 8 \<longrightarrow> (\<exists>u. s2n_sequence_number_to_uint64 b = Inr u \<and> unat u = be_value (take n m))"
  proof
    assume "n \<le> 8"
    have "be_value (take n m) < 256 ^ n"
      using be_value_bound [of "take n m"] assms(4) by simp
    also have "\<dots> \<le> 256 ^ 8"
      using \<open>n \<le> 8\<close> by (rule power_increasing) simp
    finally have "unat (of_nat (be_value (take n m)) :: u64) = be_value (take n m)"
      by (subst unat_of_nat) simp
    then show "\<exists>u. s2n_sequence_number_to_uint64 b = Inr u \<and> unat u = be_value (take n m)"
      using uint64_loop_spec [OF assms(4), of 0 0] \<open>n \<le> 8\<close> assms(1,2) nz
      by (simp add: s2n_sequence_number_to_uint64_def)
  qed
qed

definition example_sequence :: s2n_blob where
  "example_sequence = \<lparr>b_data = Some [0, 1, 255, 9], b_size = 3, b_allocated = 0, b_growable = False\<rparr>"

lemma sequence_number_witness:
  "fst (s2n_increment_sequence_number example_sequence) = Inr () \<and>
   b_data (snd (s2n_increment_sequence_number example_sequence)) = Some [0, 2, 0, 9] \<and>
   (\<exists>u. s2n_sequence_number_to_uint64 example_sequence = Inr u \<and> unat u = 511)"
proof (intro conjI)
  show "fst (s2n_increment_sequence_number example_sequence) = Inr ()"
    and "b_data (snd (s2n_increment_sequence_number example_sequence)) = Some [0, 2, 0, 9]"
    by code_simp+
  have "(3 :: nat) = unat (b_size example_sequence)" and "b_data example_sequence = Some [0, 1, 255, 9]"
    and "be_value (take 3 [0, 1, 255, 9]) = 511"
    by (simp_all add: example_sequence_def)
  then show "\<exists>u. s2n_sequence_number_to_uint64 example_sequence = Inr u \<and> unat u = 511"
    using sequence_number_correct [of example_sequence "[0, 1, 255, 9]" 3] by simp
qed

end
