(* ===== verification/Cipher_Suites.thy ===== *)
theory Cipher_Suites
  imports Errno
begin

text \<open>
  Cipher suites (\<open>tls/s2n_cipher_suites.c\<close>, \<open>tls/s2n_cipher_suites.h\<close>): the record algorithms, the suites, the table
  of all suites in the order of their IANA values, the initialisation that picks the record algorithm of each
  suite, and the binary search in the table; and the key exchanges of \<open>tls/s2n_kex.c\<close> as far as they are data.

  The static objects of the source are the constructors of the types \<open>s2n_cipher\<close>, \<open>s2n_kex\<close>, \<open>record_alg_ref\<close>
  and \<open>cipher_suite_ref\<close>; a pointer to one of them is the constructor, and the association lists give the
  initial contents.  The suites are modified by \<open>s2n_cipher_suites_init\<close> and \<open>s2n_cipher_suites_cleanup\<close>, so
  there is a state with the contents of each suite.  Which ciphers libcrypto offers, whether post-quantum
  key exchange is enabled, and whether the allocations for the SSLv3 copies succeed are parameters.
\<close>

section \<open>Algorithms\<close>

abbreviation (input) S2N_UNKNOWN_PROTOCOL_VERSION :: u8 where "S2N_UNKNOWN_PROTOCOL_VERSION \<equiv> 0"
abbreviation (input) S2N_SSLv2 :: u8 where "S2N_SSLv2 \<equiv> 20"
abbreviation (input) S2N_SSLv3 :: u8 where "S2N_SSLv3 \<equiv> 30"
abbreviation (input) S2N_TLS10 :: u8 where "S2N_TLS10 \<equiv> 31"
abbreviation (input) S2N_TLS11 :: u8 where "S2N_TLS11 \<equiv> 32"
abbreviation (input) S2N_TLS12 :: u8 where "S2N_TLS12 \<equiv> 33"
abbreviation (input) S2N_TLS13 :: u8 where "S2N_TLS13 \<equiv> 34"

abbreviation (input) UINT64_MAX :: u64 where "UINT64_MAX \<equiv> 18446744073709551615"

abbreviation (input) S2N_TLS12_AES_GCM_AEAD_NONCE :: u32 where "S2N_TLS12_AES_GCM_AEAD_NONCE \<equiv> 1"
abbreviation (input) S2N_TLS12_CHACHA_POLY_AEAD_NONCE :: u32 where "S2N_TLS12_CHACHA_POLY_AEAD_NONCE \<equiv> 2"
abbreviation (input) S2N_TLS13_RECORD_AEAD_NONCE :: u32 where "S2N_TLS13_RECORD_AEAD_NONCE \<equiv> 4"
abbreviation (input) S2N_TLS13_AES_GCM_MAXIMUM_RECORD_NUMBER :: u64 where
  "S2N_TLS13_AES_GCM_MAXIMUM_RECORD_NUMBER \<equiv> 23726565"

datatype s2n_cipher = s2n_null_cipher | s2n_rc4 | s2n_3des | s2n_aes128 | s2n_aes128_sha | s2n_aes128_sha256 | s2n_aes256 |
  s2n_aes256_sha | s2n_aes256_sha256 | s2n_aes128_gcm | s2n_aes256_gcm | s2n_chacha20_poly1305 | s2n_tls13_aes128_gcm |
  s2n_tls13_aes256_gcm

datatype s2n_hmac_algorithm = S2N_HMAC_NONE | S2N_HMAC_MD5 | S2N_HMAC_SHA1 | S2N_HMAC_SHA224 | S2N_HMAC_SHA256 |
  S2N_HMAC_SHA384 | S2N_HMAC_SHA512 | S2N_HMAC_SSLv3_MD5 | S2N_HMAC_SSLv3_SHA1

datatype s2n_authentication_method = S2N_AUTHENTICATION_RSA | S2N_AUTHENTICATION_ECDSA | S2N_AUTHENTICATION_METHOD_SENTINEL

datatype s2n_kex = s2n_kem | s2n_rsa | s2n_dhe | s2n_ecdhe | s2n_hybrid_ecdhe_kem | s2n_tls13_kex

definition kex_is_ephemeral :: "s2n_kex \<Rightarrow> bool" where
  "kex_is_ephemeral kex \<longleftrightarrow> kex \<noteq> s2n_rsa"

fun kex_hybrid :: "s2n_kex \<Rightarrow> s2n_kex list" where
  "kex_hybrid s2n_hybrid_ecdhe_kem = [s2n_ecdhe, s2n_kem]"
| "kex_hybrid _ = []"

definition s2n_kex_includes :: "s2n_kex option \<Rightarrow> s2n_kex option \<Rightarrow> bool" where
  "s2n_kex_includes kex query =
     (if kex = query then True
      else case (kex, query) of (Some k, Some q) \<Rightarrow> q \<in> set (kex_hybrid k) | _ \<Rightarrow> False)"

record s2n_record_algorithm =
  ra_cipher :: s2n_cipher
  ra_hmac_alg :: s2n_hmac_algorithm
  ra_flags :: u32
  encryption_limit :: u64

datatype record_alg_ref = s2n_record_alg_null | s2n_record_alg_rc4_md5 | s2n_record_alg_rc4_sslv3_md5 | s2n_record_alg_rc4_sha |
  s2n_record_alg_rc4_sslv3_sha | s2n_record_alg_3des_sha | s2n_record_alg_3des_sslv3_sha | s2n_record_alg_aes128_sha |
  s2n_record_alg_aes128_sslv3_sha | s2n_record_alg_aes128_sha_composite | s2n_record_alg_aes128_sha256 |
  s2n_record_alg_aes128_sha256_composite | s2n_record_alg_aes256_sha | s2n_record_alg_aes256_sslv3_sha |
  s2n_record_alg_aes256_sha_composite | s2n_record_alg_aes256_sha256 | s2n_record_alg_aes256_sha256_composite |
  s2n_record_alg_aes256_sha384 | s2n_record_alg_aes128_gcm | s2n_record_alg_aes256_gcm |
  s2n_record_alg_chacha20_poly1305 | s2n_tls13_record_alg_aes128_gcm | s2n_tls13_record_alg_aes256_gcm |
  s2n_tls13_record_alg_chacha20_poly1305

fun record_algorithm :: "record_alg_ref \<Rightarrow> s2n_record_algorithm" where
  "record_algorithm s2n_record_alg_null =
     \<lparr>ra_cipher = s2n_null_cipher, ra_hmac_alg = S2N_HMAC_NONE, ra_flags = 0, encryption_limit = UINT64_MAX\<rparr>"
| "record_algorithm s2n_record_alg_rc4_md5 =
     \<lparr>ra_cipher = s2n_rc4, ra_hmac_alg = S2N_HMAC_MD5, ra_flags = 0, encryption_limit = UINT64_MAX\<rparr>"
| "record_algorithm s2n_record_alg_rc4_sslv3_md5 =
     \<lparr>ra_cipher = s2n_rc4, ra_hmac_alg = S2N_HMAC_SSLv3_MD5, ra_flags = 0, encryption_limit = UINT64_MAX\<rparr>"
| "record_algorithm s2n_record_alg_rc4_sha =
     \<lparr>ra_cipher = s2n_rc4, ra_hmac_alg = S2N_HMAC_SHA1, ra_flags = 0, encryption_limit = UINT64_MAX\<rparr>"
| "record_algorithm s2n_record_alg_rc4_sslv3_sha =
     \<lparr>ra_cipher = s2n_rc4, ra_hmac_alg = S2N_HMAC_SSLv3_SHA1, ra_flags = 0, encryption_limit = UINT64_MAX\<rparr>"
| "record_algorithm s2n_record_alg_3des_sha =
     \<lparr>ra_cipher = s2n_3des, ra_hmac_alg = S2N_HMAC_SHA1, ra_flags = 0, encryption_limit = UINT64_MAX\<rparr>"
| "record_algorithm s2n_record_alg_3des_sslv3_sha =
     \<lparr>ra_cipher = s2n_3des, ra_hmac_alg = S2N_HMAC_SSLv3_SHA1, ra_flags = 0, encryption_limit = UINT64_MAX\<rparr>"
| "record_algorithm s2n_record_alg_aes128_sha =
     \<lparr>ra_cipher = s2n_aes128, ra_hmac_alg = S2N_HMAC_SHA1, ra_flags = 0, encryption_limit = UINT64_MAX\<rparr>"
| "record_algorithm s2n_record_alg_aes128_sslv3_sha =
     \<lparr>ra_cipher = s2n_aes128, ra_hmac_alg = S2N_HMAC_SSLv3_SHA1, ra_flags = 0, encryption_limit = UINT64_MAX\<rparr>"
| "record_algorithm s2n_record_alg_aes128_sha_composite =
     \<lparr>ra_cipher = s2n_aes128_sha, ra_hmac_alg = S2N_HMAC_NONE, ra_flags = 0, encryption_limit = UINT64_MAX\<rparr>"
| "record_algorithm s2n_record_alg_aes128_sha256 =
     \<lparr>ra_cipher = s2n_aes128, ra_hmac_alg = S2N_HMAC_SHA256, ra_flags = 0, encryption_limit = UINT64_MAX\<rparr>"
| "record_algorithm s2n_record_alg_aes128_sha256_composite =
     \<lparr>ra_cipher = s2n_aes128_sha256, ra_hmac_alg = S2N_HMAC_NONE, ra_flags = 0, encryption_limit = UINT64_MAX\<rparr>"
| "record_algorithm s2n_record_alg_aes256_sha =
     \<lparr>ra_cipher = s2n_aes256, ra_hmac_alg = S2N_HMAC_SHA1, ra_flags = 0, encryption_limit = UINT64_MAX\<rparr>"
| "record_algorithm s2n_record_alg_aes256_sslv3_sha =
     \<lparr>ra_cipher = s2n_aes256, ra_hmac_alg = S2N_HMAC_SSLv3_SHA1, ra_flags = 0, encryption_limit = UINT64_MAX\<rparr>"
| "record_algorithm s2n_record_alg_aes256_sha_composite =
     \<lparr>ra_cipher = s2n_aes256_sha, ra_hmac_alg = S2N_HMAC_NONE, ra_flags = 0, encryption_limit = UINT64_MAX\<rparr>"
| "record_algorithm s2n_record_alg_aes256_sha256 =
     \<lparr>ra_cipher = s2n_aes256, ra_hmac_alg = S2N_HMAC_SHA256, ra_flags = 0, encryption_limit = UINT64_MAX\<rparr>"
| "record_algorithm s2n_record_alg_aes256_sha256_composite =
     \<lparr>ra_cipher = s2n_aes256_sha256, ra_hmac_alg = S2N_HMAC_NONE, ra_flags = 0, encryption_limit = UINT64_MAX\<rparr>"
| "record_algorithm s2n_record_alg_aes256_sha384 =
     \<lparr>ra_cipher = s2n_aes256, ra_hmac_alg = S2N_HMAC_SHA384, ra_flags = 0, encryption_limit = UINT64_MAX\<rparr>"
| "record_algorithm s2n_record_alg_aes128_gcm =
     \<lparr>ra_cipher = s2n_aes128_gcm, ra_hmac_alg = S2N_HMAC_NONE, ra_flags = S2N_TLS12_AES_GCM_AEAD_NONCE, encryption_limit = UINT64_MAX\<rparr>"
| "record_algorithm s2n_record_alg_aes256_gcm =
     \<lparr>ra_cipher = s2n_aes256_gcm, ra_hmac_alg = S2N_HMAC_NONE, ra_flags = S2N_TLS12_AES_GCM_AEAD_NONCE, encryption_limit = UINT64_MAX\<rparr>"
| "record_algorithm s2n_record_alg_chacha20_poly1305 =
     \<lparr>ra_cipher = s2n_chacha20_poly1305, ra_hmac_alg = S2N_HMAC_NONE, ra_flags = S2N_TLS12_CHACHA_POLY_AEAD_NONCE, encryption_limit = UINT64_MAX\<rparr>"
| "record_algorithm s2n_tls13_record_alg_aes128_gcm =
     \<lparr>ra_cipher = s2n_tls13_aes128_gcm, ra_hmac_alg = S2N_HMAC_NONE, ra_flags = S2N_TLS13_RECORD_AEAD_NONCE, encryption_limit = S2N_TLS13_AES_GCM_MAXIMUM_RECORD_NUMBER\<rparr>"
| "record_algorithm s2n_tls13_record_alg_aes256_gcm =
     \<lparr>ra_cipher = s2n_tls13_aes256_gcm, ra_hmac_alg = S2N_HMAC_NONE, ra_flags = S2N_TLS13_RECORD_AEAD_NONCE, encryption_limit = S2N_TLS13_AES_GCM_MAXIMUM_RECORD_NUMBER\<rparr>"
| "record_algorithm s2n_tls13_record_alg_chacha20_poly1305 =
     \<lparr>ra_cipher = s2n_chacha20_poly1305, ra_hmac_alg = S2N_HMAC_NONE, ra_flags = S2N_TLS13_RECORD_AEAD_NONCE, encryption_limit = UINT64_MAX\<rparr>"


section \<open>Suites\<close>

record s2n_cipher_suite =
  available :: bool
  suite_name :: string
  iana_name :: string
  iana_value :: bytes
  key_exchange_alg :: s2n_kex
  auth_method :: s2n_authentication_method
  record_alg :: "record_alg_ref option"
  all_record_algs :: "record_alg_ref list"
  sslv3_record_alg :: "record_alg_ref option"
  prf_alg :: s2n_hmac_algorithm
  minimum_required_tls_version :: u8

datatype cipher_suite_ref = s2n_null_cipher_suite | s2n_rsa_with_rc4_128_md5 | s2n_rsa_with_rc4_128_sha | s2n_rsa_with_3des_ede_cbc_sha |
  s2n_dhe_rsa_with_3des_ede_cbc_sha | s2n_rsa_with_aes_128_cbc_sha | s2n_dhe_rsa_with_aes_128_cbc_sha |
  s2n_rsa_with_aes_256_cbc_sha | s2n_dhe_rsa_with_aes_256_cbc_sha | s2n_rsa_with_aes_128_cbc_sha256 |
  s2n_rsa_with_aes_256_cbc_sha256 | s2n_dhe_rsa_with_aes_128_cbc_sha256 | s2n_dhe_rsa_with_aes_256_cbc_sha256 |
  s2n_rsa_with_aes_128_gcm_sha256 | s2n_rsa_with_aes_256_gcm_sha384 | s2n_dhe_rsa_with_aes_128_gcm_sha256 |
  s2n_dhe_rsa_with_aes_256_gcm_sha384 | s2n_ecdhe_ecdsa_with_aes_128_cbc_sha | s2n_ecdhe_ecdsa_with_aes_256_cbc_sha |
  s2n_ecdhe_rsa_with_rc4_128_sha | s2n_ecdhe_rsa_with_3des_ede_cbc_sha | s2n_ecdhe_rsa_with_aes_128_cbc_sha |
  s2n_ecdhe_rsa_with_aes_256_cbc_sha | s2n_ecdhe_ecdsa_with_aes_128_cbc_sha256 |
  s2n_ecdhe_ecdsa_with_aes_256_cbc_sha384 | s2n_ecdhe_rsa_with_aes_128_cbc_sha256 |
  s2n_ecdhe_rsa_with_aes_256_cbc_sha384 | s2n_ecdhe_ecdsa_with_aes_128_gcm_sha256 |
  s2n_ecdhe_ecdsa_with_aes_256_gcm_sha384 | s2n_ecdhe_rsa_with_aes_128_gcm_sha256 |
  s2n_ecdhe_rsa_with_aes_256_gcm_sha384 | s2n_ecdhe_rsa_with_chacha20_poly1305_sha256 |
  s2n_ecdhe_ecdsa_with_chacha20_poly1305_sha256 | s2n_dhe_rsa_with_chacha20_poly1305_sha256 |
  s2n_tls13_aes_128_gcm_sha256 | s2n_tls13_aes_256_gcm_sha384 | s2n_tls13_chacha20_poly1305_sha256

definition cipher_suites_1 :: "(cipher_suite_ref \<times> s2n_cipher_suite) list" where
  "cipher_suites_1 = [
     (s2n_null_cipher_suite,
       \<lparr>available = True, suite_name = ''TLS_NULL_WITH_NULL_NULL'',
         iana_name = ''TLS_NULL_WITH_NULL_NULL'', iana_value = [0x00, 0x00],
         key_exchange_alg = s2n_rsa, auth_method = S2N_AUTHENTICATION_RSA, record_alg = Some s2n_record_alg_null,
         all_record_algs = [],
         sslv3_record_alg = None, prf_alg = S2N_HMAC_NONE, minimum_required_tls_version = 0\<rparr>),

     (s2n_rsa_with_rc4_128_md5,
       \<lparr>available = False, suite_name = ''RC4-MD5'',
         iana_name = ''TLS_RSA_WITH_RC4_128_MD5'', iana_value = [0x00, 0x04],
         key_exchange_alg = s2n_rsa, auth_method = S2N_AUTHENTICATION_RSA, record_alg = None,
         all_record_algs = [s2n_record_alg_rc4_md5],
         sslv3_record_alg = Some s2n_record_alg_rc4_sslv3_md5, prf_alg = S2N_HMAC_SHA256, minimum_required_tls_version = S2N_SSLv3\<rparr>),

     (s2n_rsa_with_rc4_128_sha,
       \<lparr>available = False, suite_name = ''RC4-SHA'',
         iana_name = ''TLS_RSA_WITH_RC4_128_SHA'', iana_value = [0x00, 0x05],
         key_exchange_alg = s2n_rsa, auth_method = S2N_AUTHENTICATION_RSA, record_alg = None,
         all_record_algs = [s2n_record_alg_rc4_sha],
         sslv3_record_alg = Some s2n_record_alg_rc4_sslv3_sha, prf_alg = S2N_HMAC_SHA256, minimum_required_tls_version = S2N_SSLv3\<rparr>),

     (s2n_rsa_with_3des_ede_cbc_sha,
       \<lparr>available = False, suite_name = ''DES-CBC3-SHA'',
         iana_name = ''TLS_RSA_WITH_3DES_EDE_CBC_SHA'', iana_value = [0x00, 0x0A],
         key_exchange_alg = s2n_rsa, auth_method = S2N_AUTHENTICATION_RSA, record_alg = None,
         all_record_algs = [s2n_record_alg_3des_sha],
         sslv3_record_alg = Some s2n_record_alg_3des_sslv3_sha, prf_alg = S2N_HMAC_SHA256, minimum_required_tls_version = S2N_SSLv3\<rparr>),

     (s2n_dhe_rsa_with_3des_ede_cbc_sha,
       \<lparr>available = False, suite_name = ''DHE-RSA-DES-CBC3-SHA'',
         iana_name = ''TLS_DHE_RSA_WITH_3DES_EDE_CBC_SHA'', iana_value = [0x00, 0x16],
         key_exchange_alg = s2n_dhe, auth_method = S2N_AUTHENTICATION_RSA, record_alg = None,
         all_record_algs = [s2n_record_alg_3des_sha],
         sslv3_record_alg = Some s2n_record_alg_3des_sslv3_sha, prf_alg = S2N_HMAC_SHA256, minimum_required_tls_version = S2N_SSLv3\<rparr>),

     (s2n_rsa_with_aes_128_cbc_sha,
       \<lparr>available = False, suite_name = ''AES128-SHA'',
         iana_name = ''TLS_RSA_WITH_AES_128_CBC_SHA'', iana_value = [0x00, 0x2F],
         key_exchange_alg = s2n_rsa, auth_method = S2N_AUTHENTICATION_RSA, record_alg = None,
         all_record_algs = [s2n_record_alg_aes128_sha_composite, s2n_record_alg_aes128_sha],
         sslv3_record_alg = Some s2n_record_alg_aes128_sslv3_sha, prf_alg = S2N_HMAC_SHA256, minimum_required_tls_version = S2N_SSLv3\<rparr>),

     (s2n_dhe_rsa_with_aes_128_cbc_sha,
       \<lparr>available = False, suite_name = ''DHE-RSA-AES128-SHA'',
         iana_name = ''TLS_DHE_RSA_WITH_AES_128_CBC_SHA'', iana_value = [0x00, 0x33],
         key_exchange_alg = s2n_dhe, auth_method = S2N_AUTHENTICATION_RSA, record_alg = None,
         all_record_algs = [s2n_record_alg_aes128_sha_composite, s2n_record_alg_aes128_sha],
         sslv3_record_alg = Some s2n_record_alg_aes128_sslv3_sha, prf_alg = S2N_HMAC_SHA256, minimum_required_tls_version = S2N_SSLv3\<rparr>),

     (s2n_rsa_with_aes_256_cbc_sha,
       \<lparr>available = False, suite_name = ''AES256-SHA'',
         iana_name = ''TLS_RSA_WITH_AES_256_CBC_SHA'', iana_value = [0x00, 0x35],
         key_exchange_alg = s2n_rsa, auth_method = S2N_AUTHENTICATION_RSA, record_alg = None,
         all_record_algs = [s2n_record_alg_aes256_sha_composite, s2n_record_alg_aes256_sha],
         sslv3_record_alg = Some s2n_record_alg_aes256_sslv3_sha, prf_alg = S2N_HMAC_SHA256, minimum_required_tls_version = S2N_SSLv3\<rparr>),

     (s2n_dhe_rsa_with_aes_256_cbc_sha,
       \<lparr>available = False, suite_name = ''DHE-RSA-AES256-SHA'',
         iana_name = ''TLS_DHE_RSA_WITH_AES_256_CBC_SHA'', iana_value = [0x00, 0x39],
         key_exchange_alg = s2n_dhe, auth_method = S2N_AUTHENTICATION_RSA, record_alg = None,
         all_record_algs = [s2n_record_alg_aes256_sha_composite, s2n_record_alg_aes256_sha],
         sslv3_record_alg = Some s2n_record_alg_aes256_sslv3_sha, prf_alg = S2N_HMAC_SHA256, minimum_required_tls_version = S2N_SSLv3\<rparr>),

     (s2n_rsa_with_aes_128_cbc_sha256,
       \<lparr>available = False, suite_name = ''AES128-SHA256'',
         iana_name = ''TLS_RSA_WITH_AES_128_CBC_SHA256'', iana_value = [0x00, 0x3C],
         key_exchange_alg = s2n_rsa, auth_method = S2N_AUTHENTICATION_RSA, record_alg = None,
         all_record_algs = [s2n_record_alg_aes128_sha256_composite, s2n_record_alg_aes128_sha256],
         sslv3_record_alg = None, prf_alg = S2N_HMAC_SHA256, minimum_required_tls_version = S2N_TLS12\<rparr>)]"

definition cipher_suites_2 :: "(cipher_suite_ref \<times> s2n_cipher_suite) list" where
  "cipher_suites_2 = [
     (s2n_rsa_with_aes_256_cbc_sha256,
       \<lparr>available = False, suite_name = ''AES256-SHA256'',
         iana_name = ''TLS_RSA_WITH_AES_256_CBC_SHA256'', iana_value = [0x00, 0x3D],
         key_exchange_alg = s2n_rsa, auth_method = S2N_AUTHENTICATION_RSA, record_alg = None,
         all_record_algs = [s2n_record_alg_aes256_sha256_composite, s2n_record_alg_aes256_sha256],
         sslv3_record_alg = None, prf_alg = S2N_HMAC_SHA256, minimum_required_tls_version = S2N_TLS12\<rparr>),

     (s2n_dhe_rsa_with_aes_128_cbc_sha256,
       \<lparr>available = False, suite_name = ''DHE-RSA-AES128-SHA256'',
         iana_name = ''TLS_DHE_RSA_WITH_AES_128_CBC_SHA256'', iana_value = [0x00, 0x67],
         key_exchange_alg = s2n_dhe, auth_method = S2N_AUTHENTICATION_RSA, record_alg = None,
         all_record_algs = [s2n_record_alg_aes128_sha256_composite, s2n_record_alg_aes128_sha256],
         sslv3_record_alg = None, prf_alg = S2N_HMAC_SHA256, minimum_required_tls_version = S2N_TLS12\<rparr>),

     (s2n_dhe_rsa_with_aes_256_cbc_sha256,
       \<lparr>available = False, suite_name = ''DHE-RSA-AES256-SHA256'',
         iana_name = ''TLS_DHE_RSA_WITH_AES_256_CBC_SHA256'', iana_value = [0x00, 0x6B],
         key_exchange_alg = s2n_dhe, auth_method = S2N_AUTHENTICATION_RSA, record_alg = None,
         all_record_algs = [s2n_record_alg_aes256_sha256_composite, s2n_record_alg_aes256_sha256],
         sslv3_record_alg = None, prf_alg = S2N_HMAC_SHA256, minimum_required_tls_version = S2N_TLS12\<rparr>),

     (s2n_rsa_with_aes_128_gcm_sha256,
       \<lparr>available = False, suite_name = ''AES128-GCM-SHA256'',
         iana_name = ''TLS_RSA_WITH_AES_128_GCM_SHA256'', iana_value = [0x00, 0x9C],
         key_exchange_alg = s2n_rsa, auth_method = S2N_AUTHENTICATION_RSA, record_alg = None,
         all_record_algs = [s2n_record_alg_aes128_gcm],
         sslv3_record_alg = None, prf_alg = S2N_HMAC_SHA256, minimum_required_tls_version = S2N_TLS12\<rparr>),

     (s2n_rsa_with_aes_256_gcm_sha384,
       \<lparr>available = False, suite_name = ''AES256-GCM-SHA384'',
         iana_name = ''TLS_RSA_WITH_AES_256_GCM_SHA384'', iana_value = [0x00, 0x9D],
         key_exchange_alg = s2n_rsa, auth_method = S2N_AUTHENTICATION_RSA, record_alg = None,
         all_record_algs = [s2n_record_alg_aes256_gcm],
         sslv3_record_alg = None, prf_alg = S2N_HMAC_SHA384, minimum_required_tls_version = S2N_TLS12\<rparr>),

     (s2n_dhe_rsa_with_aes_128_gcm_sha256,
       \<lparr>available = False, suite_name = ''DHE-RSA-AES128-GCM-SHA256'',
         iana_name = ''TLS_DHE_RSA_WITH_AES_128_GCM_SHA256'', iana_value = [0x00, 0x9E],
         key_exchange_alg = s2n_dhe, auth_method = S2N_AUTHENTICATION_RSA, record_alg = None,
         all_record_algs = [s2n_record_alg_aes128_gcm],
         sslv3_record_alg = None, prf_alg = S2N_HMAC_SHA256, minimum_required_tls_version = S2N_TLS12\<rparr>),

     (s2n_dhe_rsa_with_aes_256_gcm_sha384,
       \<lparr>available = False, suite_name = ''DHE-RSA-AES256-GCM-SHA384'',
         iana_name = ''TLS_DHE_RSA_WITH_AES_256_GCM_SHA384'', iana_value = [0x00, 0x9F],
         key_exchange_alg = s2n_dhe, auth_method = S2N_AUTHENTICATION_RSA, record_alg = None,
         all_record_algs = [s2n_record_alg_aes256_gcm],
         sslv3_record_alg = None, prf_alg = S2N_HMAC_SHA384, minimum_required_tls_version = S2N_TLS12\<rparr>),

     (s2n_ecdhe_ecdsa_with_aes_128_cbc_sha,
       \<lparr>available = False, suite_name = ''ECDHE-ECDSA-AES128-SHA'',
         iana_name = ''TLS_ECDHE_ECDSA_WITH_AES_128_CBC_SHA'', iana_value = [0xC0, 0x09],
         key_exchange_alg = s2n_ecdhe, auth_method = S2N_AUTHENTICATION_ECDSA, record_alg = None,
         all_record_algs = [s2n_record_alg_aes128_sha_composite, s2n_record_alg_aes128_sha],
         sslv3_record_alg = Some s2n_record_alg_aes128_sslv3_sha, prf_alg = S2N_HMAC_SHA256, minimum_required_tls_version = S2N_SSLv3\<rparr>),

     (s2n_ecdhe_ecdsa_with_aes_256_cbc_sha,
       \<lparr>available = False, suite_name = ''ECDHE-ECDSA-AES256-SHA'',
         iana_name = ''TLS_ECDHE_ECDSA_WITH_AES_256_CBC_SHA'', iana_value = [0xC0, 0x0A],
         key_exchange_alg = s2n_ecdhe, auth_method = S2N_AUTHENTICATION_ECDSA, record_alg = None,
         all_record_algs = [s2n_record_alg_aes256_sha_composite, s2n_record_alg_aes256_sha],
         sslv3_record_alg = Some s2n_record_alg_aes256_sslv3_sha, prf_alg = S2N_HMAC_SHA256, minimum_required_tls_version = S2N_SSLv3\<rparr>),

     (s2n_ecdhe_rsa_with_rc4_128_sha,
       \<lparr>available = False, suite_name = ''ECDHE-RSA-RC4-SHA'',
         iana_name = ''TLS_ECDHE_RSA_WITH_RC4_128_SHA'', iana_value = [0xC0, 0x11],
         key_exchange_alg = s2n_ecdhe, auth_method = S2N_AUTHENTICATION_RSA, record_alg = None,
         all_record_algs = [s2n_record_alg_rc4_sha],
         sslv3_record_alg = Some s2n_record_alg_rc4_sslv3_sha, prf_alg = S2N_HMAC_SHA256, minimum_required_tls_version = S2N_SSLv3\<rparr>)]"

definition cipher_suites_3 :: "(cipher_suite_ref \<times> s2n_cipher_suite) list" where
  "cipher_suites_3 = [
     (s2n_ecdhe_rsa_with_3des_ede_cbc_sha,
       \<lparr>available = False, suite_name = ''ECDHE-RSA-DES-CBC3-SHA'',
         iana_name = ''TLS_ECDHE_RSA_WITH_3DES_EDE_CBC_SHA'', iana_value = [0xC0, 0x12],
         key_exchange_alg = s2n_ecdhe, auth_method = S2N_AUTHENTICATION_RSA, record_alg = None,
         all_record_algs = [s2n_record_alg_3des_sha],
         sslv3_record_alg = Some s2n_record_alg_3des_sslv3_sha, prf_alg = S2N_HMAC_SHA256, minimum_required_tls_version = S2N_SSLv3\<rparr>),

     (s2n_ecdhe_rsa_with_aes_128_cbc_sha,
       \<lparr>available = False, suite_name = ''ECDHE-RSA-AES128-SHA'',
         iana_name = ''TLS_ECDHE_RSA_WITH_AES_128_CBC_SHA'', iana_value = [0xC0, 0x13],
         key_exchange_alg = s2n_ecdhe, auth_method = S2N_AUTHENTICATION_RSA, record_alg = None,
         all_record_algs = [s2n_record_alg_aes128_sha_composite, s2n_record_alg_aes128_sha],
         sslv3_record_alg = Some s2n_record_alg_aes128_sslv3_sha, prf_alg = S2N_HMAC_SHA256, minimum_required_tls_version = S2N_SSLv3\<rparr>),

     (s2n_ecdhe_rsa_with_aes_256_cbc_sha,
       \<lparr>available = False, suite_name = ''ECDHE-RSA-AES256-SHA'',
         iana_name = ''TLS_ECDHE_RSA_WITH_AES_256_CBC_SHA'', iana_value = [0xC0, 0x14],
         key_exchange_alg = s2n_ecdhe, auth_method = S2N_AUTHENTICATION_RSA, record_alg = None,
         all_record_algs = [s2n_record_alg_aes256_sha_composite, s2n_record_alg_aes256_sha],
         sslv3_record_alg = Some s2n_record_alg_aes256_sslv3_sha, prf_alg = S2N_HMAC_SHA256, minimum_required_tls_version = S2N_SSLv3\<rparr>),

     (s2n_ecdhe_ecdsa_with_aes_128_cbc_sha256,
       \<lparr>available = False, suite_name = ''ECDHE-ECDSA-AES128-SHA256'',
         iana_name = ''TLS_ECDHE_ECDSA_WITH_AES_128_CBC_SHA256'', iana_value = [0xC0, 0x23],
         key_exchange_alg = s2n_ecdhe, auth_method = S2N_AUTHENTICATION_ECDSA, record_alg = None,
         all_record_algs = [s2n_record_alg_aes128_sha256_composite, s2n_record_alg_aes128_sha256],
         sslv3_record_alg = None, prf_alg = S2N_HMAC_SHA256, minimum_required_tls_version = S2N_TLS12\<rparr>),

     (s2n_ecdhe_ecdsa_with_aes_256_cbc_sha384,
       \<lparr>available = False, suite_name = ''ECDHE-ECDSA-AES256-SHA384'',
         iana_name = ''TLS_ECDHE_ECDSA_WITH_AES_256_CBC_SHA384'', iana_value = [0xC0, 0x24],
         key_exchange_alg = s2n_ecdhe, auth_method = S2N_AUTHENTICATION_ECDSA, record_alg = None,
         all_record_algs = [s2n_record_alg_aes256_sha384],
         sslv3_record_alg = None, prf_alg = S2N_HMAC_SHA384, minimum_required_tls_version = S2N_TLS12\<rparr>),

     (s2n_ecdhe_rsa_with_aes_128_cbc_sha256,
       \<lparr>available = False, suite_name = ''ECDHE-RSA-AES128-SHA256'',
         iana_name = ''TLS_ECDHE_RSA_WITH_AES_128_CBC_SHA256'', iana_value = [0xC0, 0x27],
         key_exchange_alg = s2n_ecdhe, auth_method = S2N_AUTHENTICATION_RSA, record_alg = None,
         all_record_algs = [s2n_record_alg_aes128_sha256_composite, s2n_record_alg_aes128_sha256],
         sslv3_record_alg = None, prf_alg = S2N_HMAC_SHA256, minimum_required_tls_version = S2N_TLS12\<rparr>),

     (s2n_ecdhe_rsa_with_aes_256_cbc_sha384,
       \<lparr>available = False, suite_name = ''ECDHE-RSA-AES256-SHA384'',
         iana_name = ''TLS_ECDHE_RSA_WITH_AES_256_CBC_SHA384'', iana_value = [0xC0, 0x28],
         key_exchange_alg = s2n_ecdhe, auth_method = S2N_AUTHENTICATION_RSA, record_alg = None,
         all_record_algs = [s2n_record_alg_aes256_sha384],
         sslv3_record_alg = None, prf_alg = S2N_HMAC_SHA384, minimum_required_tls_version = S2N_TLS12\<rparr>),

     (s2n_ecdhe_ecdsa_with_aes_128_gcm_sha256,
       \<lparr>available = False, suite_name = ''ECDHE-ECDSA-AES128-GCM-SHA256'',
         iana_name = ''TLS_ECDHE_ECDSA_WITH_AES_128_GCM_SHA256'', iana_value = [0xC0, 0x2B],
         key_exchange_alg = s2n_ecdhe, auth_method = S2N_AUTHENTICATION_ECDSA, record_alg = None,
         all_record_algs = [s2n_record_alg_aes128_gcm],
         sslv3_record_alg = None, prf_alg = S2N_HMAC_SHA256, minimum_required_tls_version = S2N_TLS12\<rparr>),

     (s2n_ecdhe_ecdsa_with_aes_256_gcm_sha384,
       \<lparr>available = False, suite_name = ''ECDHE-ECDSA-AES256-GCM-SHA384'',
         iana_name = ''TLS_ECDHE_ECDSA_WITH_AES_256_GCM_SHA384'', iana_value = [0xC0, 0x2C],
         key_exchange_alg = s2n_ecdhe, auth_method = S2N_AUTHENTICATION_ECDSA, record_alg = None,
         all_record_algs = [s2n_record_alg_aes256_gcm],
         sslv3_record_alg = None, prf_alg = S2N_HMAC_SHA384, minimum_required_tls_version = S2N_TLS12\<rparr>),

     (s2n_ecdhe_rsa_with_aes_128_gcm_sha256,
       \<lparr>available = False, suite_name = ''ECDHE-RSA-AES128-GCM-SHA256'',
         iana_name = ''TLS_ECDHE_RSA_WITH_AES_128_GCM_SHA256'', iana_value = [0xC0, 0x2F],
         key_exchange_alg = s2n_ecdhe, auth_method = S2N_AUTHENTICATION_RSA, record_alg = None,
         all_record_algs = [s2n_record_alg_aes128_gcm],
         sslv3_record_alg = None, prf_alg = S2N_HMAC_SHA256, minimum_required_tls_version = S2N_TLS12\<rparr>)]"

definition cipher_suites_4 :: "(cipher_suite_ref \<times> s2n_cipher_suite) list" where
  "cipher_suites_4 = [
     (s2n_ecdhe_rsa_with_aes_256_gcm_sha384,
       \<lparr>available = False, suite_name = ''ECDHE-RSA-AES256-GCM-SHA384'',
         iana_name = ''TLS_ECDHE_RSA_WITH_AES_256_GCM_SHA384'', iana_value = [0xC0, 0x30],
         key_exchange_alg = s2n_ecdhe, auth_method = S2N_AUTHENTICATION_RSA, record_alg = None,
         all_record_algs = [s2n_record_alg_aes256_gcm],
         sslv3_record_alg = None, prf_alg = S2N_HMAC_SHA384, minimum_required_tls_version = S2N_TLS12\<rparr>),

     (s2n_ecdhe_rsa_with_chacha20_poly1305_sha256,
       \<lparr>available = False, suite_name = ''ECDHE-RSA-CHACHA20-POLY1305'',
         iana_name = ''TLS_ECDHE_RSA_WITH_CHACHA20_POLY1305_SHA256'', iana_value = [0xCC, 0xA8],
         key_exchange_alg = s2n_ecdhe, auth_method = S2N_AUTHENTICATION_RSA, record_alg = None,
         all_record_algs = [s2n_record_alg_chacha20_poly1305],
         sslv3_record_alg = None, prf_alg = S2N_HMAC_SHA256, minimum_required_tls_version = S2N_TLS12\<rparr>),

     (s2n_ecdhe_ecdsa_with_chacha20_poly1305_sha256,
       \<lparr>available = False, suite_name = ''ECDHE-ECDSA-CHACHA20-POLY1305'',
         iana_name = ''TLS_ECDHE_ECDSA_WITH_CHACHA20_POLY1305_SHA256'', iana_value = [0xCC, 0xA9],
         key_exchange_alg = s2n_ecdhe, auth_method = S2N_AUTHENTICATION_ECDSA, record_alg = None,
         all_record_algs = [s2n_record_alg_chacha20_poly1305],
         sslv3_record_alg = None, prf_alg = S2N_HMAC_SHA256, minimum_required_tls_version = S2N_TLS12\<rparr>),

     (s2n_dhe_rsa_with_chacha20_poly1305_sha256,
       \<lparr>available = False, suite_name = ''DHE-RSA-CHACHA20-POLY1305'',
         iana_name = ''TLS_DHE_RSA_WITH_CHACHA20_POLY1305_SHA256'', iana_value = [0xCC, 0xAA],
         key_exchange_alg = s2n_dhe, auth_method = S2N_AUTHENTICATION_RSA, record_alg = None,
         all_record_algs = [s2n_record_alg_chacha20_poly1305],
         sslv3_record_alg = None, prf_alg = S2N_HMAC_SHA256, minimum_required_tls_version = S2N_TLS12\<rparr>),

     (s2n_tls13_aes_128_gcm_sha256,
       \<lparr>available = False, suite_name = ''TLS_AES_128_GCM_SHA256'',
         iana_name = ''TLS_AES_128_GCM_SHA256'', iana_value = [0x13, 0x01],
         key_exchange_alg = s2n_tls13_kex, auth_method = S2N_AUTHENTICATION_METHOD_SENTINEL, record_alg = None,
         all_record_algs = [s2n_tls13_record_alg_aes128_gcm],
         sslv3_record_alg = None, prf_alg = S2N_HMAC_SHA256, minimum_required_tls_version = S2N_TLS13\<rparr>),

     (s2n_tls13_aes_256_gcm_sha384,
       \<lparr>available = False, suite_name = ''TLS_AES_256_GCM_SHA384'',
         iana_name = ''TLS_AES_256_GCM_SHA384'', iana_value = [0x13, 0x02],
         key_exchange_alg = s2n_tls13_kex, auth_method = S2N_AUTHENTICATION_METHOD_SENTINEL, record_alg = None,
         all_record_algs = [s2n_tls13_record_alg_aes256_gcm],
         sslv3_record_alg = None, prf_alg = S2N_HMAC_SHA384, minimum_required_tls_version = S2N_TLS13\<rparr>),

     (s2n_tls13_chacha20_poly1305_sha256,
       \<lparr>available = False, suite_name = ''TLS_CHACHA20_POLY1305_SHA256'',
         iana_name = ''TLS_CHACHA20_POLY1305_SHA256'', iana_value = [0x13, 0x03],
         key_exchange_alg = s2n_tls13_kex, auth_method = S2N_AUTHENTICATION_METHOD_SENTINEL, record_alg = None,
         all_record_algs = [s2n_tls13_record_alg_chacha20_poly1305],
         sslv3_record_alg = None, prf_alg = S2N_HMAC_SHA256, minimum_required_tls_version = S2N_TLS13\<rparr>)]"

definition static_suite :: "cipher_suite_ref \<Rightarrow> s2n_cipher_suite" where
  "static_suite r = the (map_of (cipher_suites_1 @ cipher_suites_2 @ cipher_suites_3 @ cipher_suites_4) r)"

definition s2n_all_cipher_suites :: "cipher_suite_ref list" where
  "s2n_all_cipher_suites = [
     s2n_rsa_with_rc4_128_md5, s2n_rsa_with_rc4_128_sha, s2n_rsa_with_3des_ede_cbc_sha,
     s2n_dhe_rsa_with_3des_ede_cbc_sha, s2n_rsa_with_aes_128_cbc_sha, s2n_dhe_rsa_with_aes_128_cbc_sha,
     s2n_rsa_with_aes_256_cbc_sha, s2n_dhe_rsa_with_aes_256_cbc_sha, s2n_rsa_with_aes_128_cbc_sha256,
     s2n_rsa_with_aes_256_cbc_sha256, s2n_dhe_rsa_with_aes_128_cbc_sha256, s2n_dhe_rsa_with_aes_256_cbc_sha256,
     s2n_rsa_with_aes_128_gcm_sha256, s2n_rsa_with_aes_256_gcm_sha384, s2n_dhe_rsa_with_aes_128_gcm_sha256,
     s2n_dhe_rsa_with_aes_256_gcm_sha384, s2n_tls13_aes_128_gcm_sha256, s2n_tls13_aes_256_gcm_sha384,
     s2n_tls13_chacha20_poly1305_sha256, s2n_ecdhe_ecdsa_with_aes_128_cbc_sha, s2n_ecdhe_ecdsa_with_aes_256_cbc_sha,
     s2n_ecdhe_rsa_with_rc4_128_sha, s2n_ecdhe_rsa_with_3des_ede_cbc_sha, s2n_ecdhe_rsa_with_aes_128_cbc_sha,
     s2n_ecdhe_rsa_with_aes_256_cbc_sha, s2n_ecdhe_ecdsa_with_aes_128_cbc_sha256,
     s2n_ecdhe_ecdsa_with_aes_256_cbc_sha384, s2n_ecdhe_rsa_with_aes_128_cbc_sha256,
     s2n_ecdhe_rsa_with_aes_256_cbc_sha384, s2n_ecdhe_ecdsa_with_aes_128_gcm_sha256,
     s2n_ecdhe_ecdsa_with_aes_256_gcm_sha384, s2n_ecdhe_rsa_with_aes_128_gcm_sha256,
     s2n_ecdhe_rsa_with_aes_256_gcm_sha384, s2n_ecdhe_rsa_with_chacha20_poly1305_sha256,
     s2n_ecdhe_ecdsa_with_chacha20_poly1305_sha256, s2n_dhe_rsa_with_chacha20_poly1305_sha256]"

definition s2n_all_tls12_cipher_suites :: "cipher_suite_ref list" where
  "s2n_all_tls12_cipher_suites = [
     s2n_rsa_with_rc4_128_md5, s2n_rsa_with_rc4_128_sha, s2n_rsa_with_3des_ede_cbc_sha,
     s2n_dhe_rsa_with_3des_ede_cbc_sha, s2n_rsa_with_aes_128_cbc_sha, s2n_dhe_rsa_with_aes_128_cbc_sha,
     s2n_rsa_with_aes_256_cbc_sha, s2n_dhe_rsa_with_aes_256_cbc_sha, s2n_rsa_with_aes_128_cbc_sha256,
     s2n_rsa_with_aes_256_cbc_sha256, s2n_dhe_rsa_with_aes_128_cbc_sha256, s2n_dhe_rsa_with_aes_256_cbc_sha256,
     s2n_rsa_with_aes_128_gcm_sha256, s2n_rsa_with_aes_256_gcm_sha384, s2n_dhe_rsa_with_aes_128_gcm_sha256,
     s2n_dhe_rsa_with_aes_256_gcm_sha384, s2n_ecdhe_ecdsa_with_aes_128_cbc_sha, s2n_ecdhe_ecdsa_with_aes_256_cbc_sha,
     s2n_ecdhe_rsa_with_rc4_128_sha, s2n_ecdhe_rsa_with_3des_ede_cbc_sha, s2n_ecdhe_rsa_with_aes_128_cbc_sha,
     s2n_ecdhe_rsa_with_aes_256_cbc_sha, s2n_ecdhe_ecdsa_with_aes_128_cbc_sha256,
     s2n_ecdhe_ecdsa_with_aes_256_cbc_sha384, s2n_ecdhe_rsa_with_aes_128_cbc_sha256,
     s2n_ecdhe_rsa_with_aes_256_cbc_sha384, s2n_ecdhe_ecdsa_with_aes_128_gcm_sha256,
     s2n_ecdhe_ecdsa_with_aes_256_gcm_sha384, s2n_ecdhe_rsa_with_aes_128_gcm_sha256,
     s2n_ecdhe_rsa_with_aes_256_gcm_sha384, s2n_ecdhe_rsa_with_chacha20_poly1305_sha256,
     s2n_ecdhe_ecdsa_with_chacha20_poly1305_sha256, s2n_dhe_rsa_with_chacha20_poly1305_sha256]"

definition s2n_all_fips_cipher_suites :: "cipher_suite_ref list" where
  "s2n_all_fips_cipher_suites = [
     s2n_dhe_rsa_with_aes_128_cbc_sha, s2n_dhe_rsa_with_aes_256_cbc_sha, s2n_dhe_rsa_with_aes_128_cbc_sha256,
     s2n_dhe_rsa_with_aes_256_cbc_sha256, s2n_dhe_rsa_with_aes_128_gcm_sha256, s2n_dhe_rsa_with_aes_256_gcm_sha384,
     s2n_tls13_aes_128_gcm_sha256, s2n_tls13_aes_256_gcm_sha384, s2n_ecdhe_ecdsa_with_aes_128_cbc_sha,
     s2n_ecdhe_ecdsa_with_aes_256_cbc_sha, s2n_ecdhe_rsa_with_aes_128_cbc_sha, s2n_ecdhe_rsa_with_aes_256_cbc_sha,
     s2n_ecdhe_ecdsa_with_aes_128_cbc_sha256, s2n_ecdhe_ecdsa_with_aes_256_cbc_sha384,
     s2n_ecdhe_rsa_with_aes_128_cbc_sha256, s2n_ecdhe_rsa_with_aes_256_cbc_sha384,
     s2n_ecdhe_ecdsa_with_aes_128_gcm_sha256, s2n_ecdhe_ecdsa_with_aes_256_gcm_sha384,
     s2n_ecdhe_rsa_with_aes_128_gcm_sha256, s2n_ecdhe_rsa_with_aes_256_gcm_sha384]"

definition s2n_all_ecdsa_cipher_suites :: "cipher_suite_ref list" where
  "s2n_all_ecdsa_cipher_suites = [
     s2n_ecdhe_ecdsa_with_aes_128_cbc_sha, s2n_ecdhe_ecdsa_with_aes_256_cbc_sha,
     s2n_ecdhe_ecdsa_with_aes_128_cbc_sha256, s2n_ecdhe_ecdsa_with_aes_256_cbc_sha384,
     s2n_ecdhe_ecdsa_with_aes_128_gcm_sha256, s2n_ecdhe_ecdsa_with_aes_256_gcm_sha384,
     s2n_ecdhe_ecdsa_with_chacha20_poly1305_sha256]"

definition s2n_all_rsa_kex_cipher_suites :: "cipher_suite_ref list" where
  "s2n_all_rsa_kex_cipher_suites = [
     s2n_rsa_with_aes_128_cbc_sha, s2n_rsa_with_rc4_128_md5, s2n_rsa_with_rc4_128_sha, s2n_rsa_with_3des_ede_cbc_sha,
     s2n_rsa_with_aes_128_cbc_sha, s2n_rsa_with_aes_256_cbc_sha, s2n_rsa_with_aes_128_cbc_sha256,
     s2n_rsa_with_aes_256_cbc_sha256, s2n_rsa_with_aes_128_gcm_sha256, s2n_rsa_with_aes_256_gcm_sha384]"

definition s2n_ecdsa_priority_cipher_suites :: "cipher_suite_ref list" where
  "s2n_ecdsa_priority_cipher_suites = [
     s2n_ecdhe_ecdsa_with_aes_128_cbc_sha, s2n_ecdhe_ecdsa_with_aes_256_cbc_sha,
     s2n_ecdhe_ecdsa_with_aes_128_cbc_sha256, s2n_ecdhe_ecdsa_with_aes_256_cbc_sha384,
     s2n_ecdhe_ecdsa_with_aes_128_gcm_sha256, s2n_ecdhe_ecdsa_with_aes_256_gcm_sha384,
     s2n_ecdhe_ecdsa_with_chacha20_poly1305_sha256, s2n_rsa_with_rc4_128_md5, s2n_rsa_with_rc4_128_sha,
     s2n_rsa_with_3des_ede_cbc_sha, s2n_dhe_rsa_with_3des_ede_cbc_sha, s2n_rsa_with_aes_128_cbc_sha,
     s2n_dhe_rsa_with_aes_128_cbc_sha, s2n_rsa_with_aes_256_cbc_sha, s2n_dhe_rsa_with_aes_256_cbc_sha,
     s2n_rsa_with_aes_128_cbc_sha256, s2n_rsa_with_aes_256_cbc_sha256, s2n_dhe_rsa_with_aes_128_cbc_sha256,
     s2n_dhe_rsa_with_aes_256_cbc_sha256, s2n_rsa_with_aes_128_gcm_sha256, s2n_rsa_with_aes_256_gcm_sha384,
     s2n_dhe_rsa_with_aes_128_gcm_sha256, s2n_dhe_rsa_with_aes_256_gcm_sha384, s2n_ecdhe_rsa_with_rc4_128_sha,
     s2n_ecdhe_rsa_with_3des_ede_cbc_sha, s2n_ecdhe_rsa_with_aes_128_cbc_sha, s2n_ecdhe_rsa_with_aes_256_cbc_sha,
     s2n_ecdhe_rsa_with_aes_128_cbc_sha256, s2n_ecdhe_rsa_with_aes_256_cbc_sha384,
     s2n_ecdhe_rsa_with_aes_128_gcm_sha256, s2n_ecdhe_rsa_with_aes_256_gcm_sha384,
     s2n_ecdhe_rsa_with_chacha20_poly1305_sha256, s2n_dhe_rsa_with_chacha20_poly1305_sha256]"

definition s2n_all_tls13_cipher_suites :: "cipher_suite_ref list" where
  "s2n_all_tls13_cipher_suites = [
     s2n_tls13_aes_128_gcm_sha256, s2n_tls13_aes_256_gcm_sha384, s2n_tls13_chacha20_poly1305_sha256]"


section \<open>Initialisation\<close>

text \<open>The field \<open>sslv3_cipher_suite\<close> points to the suite itself or to a copy on the heap.\<close>

datatype suite_ptr = Suite cipher_suite_ref | Sslv3_copy cipher_suite_ref

record cipher_suites_state =
  suite_obj :: "cipher_suite_ref \<Rightarrow> s2n_cipher_suite"
  sslv3_obj :: "cipher_suite_ref \<Rightarrow> s2n_cipher_suite"
  sslv3_cipher_suite :: "cipher_suite_ref \<Rightarrow> suite_ptr option"
  should_init_crypto :: bool
  crypto_initialized :: bool

definition initial_suites :: cipher_suites_state where
  "initial_suites = \<lparr>suite_obj = static_suite, sslv3_obj = static_suite, sslv3_cipher_suite = (\<lambda>_. None),
     should_init_crypto = True, crypto_initialized = False\<rparr>"

fun suite_at :: "cipher_suites_state \<Rightarrow> suite_ptr \<Rightarrow> s2n_cipher_suite" where
  "suite_at st (Suite r) = suite_obj st r"
| "suite_at st (Sslv3_copy r) = sslv3_obj st r"

text \<open>What the initialisation finds outside: the ciphers libcrypto offers, the post-quantum switch, and the results of
  the allocations and releases.\<close>

record cipher_env =
  is_available :: "s2n_cipher \<Rightarrow> bool"
  s2n_pq_is_enabled :: bool
  dup_suite :: "cipher_suite_ref \<Rightarrow> unit result"
  free_suite :: "cipher_suite_ref \<Rightarrow> unit result"

definition s2n_crypto_disable_init :: "(cipher_suites_state, unit) action" where
  "s2n_crypto_disable_init = block [
     ensure_st (\<lambda>st. \<not> crypto_initialized st) S2N_ERR_INITIALIZED,
     modify (\<lambda>st. st\<lparr>should_init_crypto := False\<rparr>)]"

definition choose_record_alg :: "cipher_env \<Rightarrow> s2n_cipher_suite \<Rightarrow> s2n_cipher_suite" where
  "choose_record_alg ce cur_suite =
     (let cur_suite = cur_suite\<lparr>available := False, record_alg := None\<rparr>;
          cur_suite = (case find (\<lambda>a. is_available ce (ra_cipher (record_algorithm a))) (all_record_algs cur_suite) of
              None \<Rightarrow> cur_suite | Some a \<Rightarrow> cur_suite\<lparr>available := True, record_alg := Some a\<rparr>)
      in if s2n_kex_includes (Some (key_exchange_alg cur_suite)) (Some s2n_kem) \<and> \<not> s2n_pq_is_enabled ce
         then cur_suite\<lparr>available := False, record_alg := None\<rparr> else cur_suite)"

definition init_suite :: "cipher_env \<Rightarrow> cipher_suite_ref \<Rightarrow> (cipher_suites_state, unit) action" where
  "init_suite ce r st =
     (let cur_suite = choose_record_alg ce (suite_obj st r);
          st = st\<lparr>suite_obj := (suite_obj st)(r := cur_suite)\<rparr>
      in case sslv3_record_alg cur_suite of
           Some a \<Rightarrow>
             if is_available ce (ra_cipher (record_algorithm a)) then
               (case dup_suite ce r of
                  Inl e \<Rightarrow> (Inl e, st)
                | Inr _ \<Rightarrow> (Inr (), st\<lparr>
                    sslv3_obj := (sslv3_obj st)(r := cur_suite\<lparr>available := True, record_alg := Some a\<rparr>),
                    sslv3_cipher_suite := (sslv3_cipher_suite st)(r := Some (Sslv3_copy r))\<rparr>))
             else (Inr (), st\<lparr>sslv3_cipher_suite := (sslv3_cipher_suite st)(r := Some (Suite r))\<rparr>)
         | None \<Rightarrow> (Inr (), st\<lparr>sslv3_cipher_suite := (sslv3_cipher_suite st)(r := Some (Suite r))\<rparr>))"

text \<open>The call of \<open>OPENSSL_init_crypto\<close> has no effect on the state of the library.\<close>

definition s2n_cipher_suites_init :: "cipher_env \<Rightarrow> (cipher_suites_state, unit) action" where
  "s2n_cipher_suites_init ce = andthen (block (map (init_suite ce) s2n_all_cipher_suites))
     (modify (\<lambda>st. st\<lparr>crypto_initialized := True\<rparr>))"

definition cleanup_suite :: "cipher_env \<Rightarrow> cipher_suite_ref \<Rightarrow> (cipher_suites_state, unit) action" where
  "cleanup_suite ce r st =
     (let st = st\<lparr>suite_obj := (suite_obj st)(r := (suite_obj st r)\<lparr>available := False, record_alg := None\<rparr>)\<rparr>;
          done = (Inr (), st\<lparr>sslv3_cipher_suite := (sslv3_cipher_suite st)(r := None)\<rparr>)
      in if sslv3_cipher_suite st r \<noteq> Some (Suite r) then
           (case free_suite ce r of Inl e \<Rightarrow> (Inl e, st) | Inr _ \<Rightarrow> done)
         else done)"

definition s2n_cipher_suites_cleanup :: "cipher_env \<Rightarrow> (cipher_suites_state, unit) action" where
  "s2n_cipher_suites_cleanup ce = block (map (cleanup_suite ce) s2n_all_cipher_suites)"


section \<open>Lookup\<close>

abbreviation (input) S2N_TLS_CIPHER_SUITE_LEN :: nat where "S2N_TLS_CIPHER_SUITE_LEN \<equiv> 2"

text \<open>The sign of the result of \<open>memcmp\<close> on buffers of equal length.\<close>

fun memcmp :: "bytes \<Rightarrow> bytes \<Rightarrow> int" where
  "memcmp (a # as) (b # bs) = (if a < b then - 1 else if b < a then 1 else memcmp as bs)"
| "memcmp _ _ = 0"

function from_iana_loop :: "bytes \<Rightarrow> int \<Rightarrow> int \<Rightarrow> cipher_suite_ref result" where
  "from_iana_loop iana low hi =
     (if low \<le> hi then
        (let mid = low + (hi - low) div 2;
             suite = s2n_all_cipher_suites ! nat mid;
             m = memcmp (iana_value (static_suite suite)) iana
         in if m = 0 then Inr suite
            else if m > 0 then from_iana_loop iana low (mid - 1)
            else from_iana_loop iana (mid + 1) hi)
      else Inl (Err S2N_ERR_CIPHER_NOT_SUPPORTED))"
  by pat_completeness auto
termination
  by (relation "measure (\<lambda>(iana, low, hi). nat (hi - low + 1))") auto

definition s2n_cipher_suite_from_iana :: "bytes option \<Rightarrow> nat \<Rightarrow> cipher_suite_ref result" where
  "s2n_cipher_suite_from_iana iana iana_len =
     (case iana of None \<Rightarrow> Inl (Err S2N_ERR_NULL) | Some bs \<Rightarrow>
      if iana_len \<noteq> S2N_TLS_CIPHER_SUITE_LEN then Inl (Err S2N_ERR_SAFETY)
      else from_iana_loop bs 0 (int (length s2n_all_cipher_suites) - 1))"

declare from_iana_loop.simps [simp del]

definition s2n_cipher_suite_uses_chacha20_alg :: "s2n_cipher_suite option \<Rightarrow> bool" where
  "s2n_cipher_suite_uses_chacha20_alg suite \<longleftrightarrow>
     (case suite of None \<Rightarrow> False | Some s \<Rightarrow>
      case record_alg s of None \<Rightarrow> False | Some a \<Rightarrow> ra_cipher (record_algorithm a) = s2n_chacha20_poly1305)"

definition s2n_cipher_suite_requires_ecc_extension :: "s2n_cipher_suite option \<Rightarrow> bool" where
  "s2n_cipher_suite_requires_ecc_extension cipher \<longleftrightarrow>
     (case cipher of None \<Rightarrow> False | Some c \<Rightarrow>
      minimum_required_tls_version c \<ge> S2N_TLS13 \<or> s2n_kex_includes (Some (key_exchange_alg c)) (Some s2n_ecdhe))"

definition s2n_cipher_suite_requires_pq_extension :: "s2n_cipher_suite option \<Rightarrow> bool" where
  "s2n_cipher_suite_requires_pq_extension cipher \<longleftrightarrow>
     (case cipher of None \<Rightarrow> False | Some c \<Rightarrow> s2n_kex_includes (Some (key_exchange_alg c)) (Some s2n_kem))"


section \<open>The table of suites\<close>

lemmas static_suites_defs = cipher_suites_1_def cipher_suites_2_def cipher_suites_3_def cipher_suites_4_def

definition iana_of :: "cipher_suite_ref \<Rightarrow> bytes" where
  "iana_of r = iana_value (static_suite r)"

definition iana_key :: "bytes \<Rightarrow> nat" where
  "iana_key bs = 256 * unat (bs ! 0) + unat (bs ! 1)"

lemma all_suites_ianas:
  "map iana_of s2n_all_cipher_suites =
    [[0x00, 0x04], [0x00, 0x05], [0x00, 0x0A], [0x00, 0x16], [0x00, 0x2F], [0x00, 0x33], [0x00, 0x35], [0x00, 0x39],
     [0x00, 0x3C], [0x00, 0x3D], [0x00, 0x67], [0x00, 0x6B], [0x00, 0x9C], [0x00, 0x9D], [0x00, 0x9E], [0x00, 0x9F],
     [0x13, 0x01], [0x13, 0x02], [0x13, 0x03], [0xC0, 0x09], [0xC0, 0x0A], [0xC0, 0x11], [0xC0, 0x12], [0xC0, 0x13],
     [0xC0, 0x14], [0xC0, 0x23], [0xC0, 0x24], [0xC0, 0x27], [0xC0, 0x28], [0xC0, 0x2B], [0xC0, 0x2C], [0xC0, 0x2F],
     [0xC0, 0x30], [0xCC, 0xA8], [0xCC, 0xA9], [0xCC, 0xAA]]"
  by code_simp

lemma all_suites_sorted: "sorted_wrt (<) (map iana_key (map iana_of s2n_all_cipher_suites))"
  unfolding all_suites_ianas by (simp add: iana_key_def)

lemma length_all_suites [simp]: "length s2n_all_cipher_suites = 36"
  by (simp add: s2n_all_cipher_suites_def)

lemma iana_of_length: "r \<in> set s2n_all_cipher_suites \<Longrightarrow> length (iana_of r) = 2"
proof -
  assume "r \<in> set s2n_all_cipher_suites"
  then have "iana_of r \<in> set (map iana_of s2n_all_cipher_suites)"
    by simp
  then show ?thesis
    unfolding all_suites_ianas by auto
qed

lemma iana_key_less: "i < j \<Longrightarrow> j < 36 \<Longrightarrow>
  iana_key (iana_of (s2n_all_cipher_suites ! i)) < iana_key (iana_of (s2n_all_cipher_suites ! j))"
  using sorted_wrt_nth_less [OF all_suites_sorted, of i j] by simp

lemma memcmp_key:
  assumes "length xs = 2" and "length ys = 2"
  shows "memcmp xs ys = 0 \<longleftrightarrow> xs = ys" and "memcmp xs ys > 0 \<longleftrightarrow> iana_key ys < iana_key xs"
proof -
  obtain a b c d where l: "xs = [a, b]" "ys = [c, d]"
    using assms by (auto simp: length_Suc_conv numeral_2_eq_2)
  have "unat b < 256" "unat d < 256"
    using unsigned_less [of b] unsigned_less [of d] by simp_all
  then show "memcmp xs ys = 0 \<longleftrightarrow> xs = ys" "memcmp xs ys > 0 \<longleftrightarrow> iana_key ys < iana_key xs"
    by (auto simp: l iana_key_def word_less_nat_alt word_unat_eq_iff)
qed

lemma mid_bounds:
  fixes low hi :: int
  assumes "low \<le> hi" and "0 \<le> low" and "hi < 36"
  shows "low \<le> low + (hi - low) div 2" and "low + (hi - low) div 2 \<le> hi" and "nat (low + (hi - low) div 2) < 36"
  using assms by linarith+

lemma from_iana_loop_eq:
  assumes "low \<le> hi"
  shows "from_iana_loop iana low hi =
    (let mid = low + (hi - low) div 2; suite = s2n_all_cipher_suites ! nat mid; m = memcmp (iana_of suite) iana
     in if m = 0 then Inr suite else if m > 0 then from_iana_loop iana low (mid - 1) else from_iana_loop iana (mid + 1) hi)"
  using assms by (subst from_iana_loop.simps) (simp add: iana_of_def Let_def)

lemma from_iana_loop_found:
  assumes "from_iana_loop iana low hi = Inr r" and "0 \<le> low" and "hi < 36" and "length iana = 2"
  shows "r \<in> set s2n_all_cipher_suites \<and> iana_of r = iana"
  using assms
proof (induction "nat (hi - low + 1)" arbitrary: low hi rule: less_induct)
  case less
  let ?mid = "low + (hi - low) div 2"
  let ?suite = "s2n_all_cipher_suites ! nat ?mid"
  have le: "low \<le> hi"
    using less(2) by (subst (asm) from_iana_loop.simps) (simp split: if_splits)
  note mid = mid_bounds [OF le less(3,4)]
  have mem: "?suite \<in> set s2n_all_cipher_suites"
    using mid(3) by (intro nth_mem) simp
  show ?case
    using less.hyps [of "?mid - 1" low] less.hyps [of hi "?mid + 1"] less(2-5) le mid mem
      memcmp_key(1) [OF iana_of_length [OF mem] less(5)]
    by (auto simp: from_iana_loop_eq [OF le] Let_def split: if_splits)
qed

lemma from_iana_loop_finds:
  assumes "i < 36" and "low \<le> int i" and "int i \<le> hi" and "0 \<le> low" and "hi < 36"
  shows "from_iana_loop (iana_of (s2n_all_cipher_suites ! i)) low hi = Inr (s2n_all_cipher_suites ! i)"
  using assms
proof (induction "nat (hi - low + 1)" arbitrary: low hi rule: less_induct)
  case less
  let ?mid = "low + (hi - low) div 2" and ?iana = "iana_of (s2n_all_cipher_suites ! i)"
  let ?suite = "s2n_all_cipher_suites ! nat ?mid"
  have le: "low \<le> hi"
    using less(3,4) by simp
  note mid = mid_bounds [OF le less(5,6)]
  have len: "length (iana_of ?suite) = 2" "length ?iana = 2"
    using mid(3) less(2) by (auto intro!: iana_of_length nth_mem)
  note cmp = memcmp_key [OF len]
  consider "nat ?mid = i" | "i < nat ?mid" | "nat ?mid < i"
    by linarith
  then show ?case
  proof cases
    case 1
    then show ?thesis
      using cmp(1) by (simp add: from_iana_loop_eq [OF le] Let_def)
  next
    case 2
    then have "memcmp (iana_of ?suite) ?iana > 0"
      using cmp(2) iana_key_less [OF 2] mid(3) by simp
    then show ?thesis
      using less.hyps [of "?mid - 1" low] 2 less(2-6) mid by (simp add: from_iana_loop_eq [OF le] Let_def)
  next
    case 3
    then have "iana_key (iana_of ?suite) < iana_key ?iana"
      using iana_key_less [OF 3] less(2) by simp
    then have "\<not> memcmp (iana_of ?suite) ?iana > 0" "memcmp (iana_of ?suite) ?iana \<noteq> 0"
      using cmp by (simp_all, metis less_irrefl)
    then show ?thesis
      using less.hyps [of hi "?mid + 1"] 3 less(2-6) mid by (simp add: from_iana_loop_eq [OF le] Let_def)
  qed
qed

lemma from_iana_loop_error: "from_iana_loop iana low hi = Inl e \<Longrightarrow> e = Err S2N_ERR_CIPHER_NOT_SUPPORTED"
proof (induction iana low hi rule: from_iana_loop.induct)
  case (1 iana low hi)
  show ?case
    using 1(3) [unfolded from_iana_loop.simps [of iana low hi]] 1(1,2) by (simp add: Let_def split: if_splits)
qed


section \<open>What the initialisation leaves\<close>

definition sslv3_choice :: "cipher_env \<Rightarrow> cipher_suite_ref \<Rightarrow> s2n_cipher_suite \<Rightarrow> suite_ptr" where
  "sslv3_choice ce r suite =
     (case sslv3_record_alg suite of
        Some a \<Rightarrow> if is_available ce (ra_cipher (record_algorithm a)) then Sslv3_copy r else Suite r
      | None \<Rightarrow> Suite r)"

definition initialised :: "cipher_env \<Rightarrow> cipher_suites_state \<Rightarrow> cipher_suite_ref \<Rightarrow> cipher_suites_state \<Rightarrow> bool" where
  "initialised ce st r st' \<longleftrightarrow>
     suite_obj st' r = choose_record_alg ce (suite_obj st r) \<and>
     sslv3_cipher_suite st' r = Some (sslv3_choice ce r (suite_obj st r)) \<and>
     (sslv3_choice ce r (suite_obj st r) = Sslv3_copy r \<longrightarrow>
        sslv3_obj st' r = (choose_record_alg ce (suite_obj st r))\<lparr>available := True, record_alg := sslv3_record_alg (suite_obj st r)\<rparr>)"

definition untouched :: "cipher_suites_state \<Rightarrow> cipher_suite_ref \<Rightarrow> cipher_suites_state \<Rightarrow> bool" where
  "untouched st r st' \<longleftrightarrow> suite_obj st' r = suite_obj st r \<and> sslv3_obj st' r = sslv3_obj st r \<and>
     sslv3_cipher_suite st' r = sslv3_cipher_suite st r"

lemma choose_record_alg_fields [simp]:
  "sslv3_record_alg (choose_record_alg ce s) = sslv3_record_alg s" "iana_value (choose_record_alg ce s) = iana_value s"
  "prf_alg (choose_record_alg ce s) = prf_alg s" "auth_method (choose_record_alg ce s) = auth_method s"
  "minimum_required_tls_version (choose_record_alg ce s) = minimum_required_tls_version s"
  "key_exchange_alg (choose_record_alg ce s) = key_exchange_alg s"
  by (simp_all add: choose_record_alg_def Let_def split: option.splits)

lemma init_suite_spec:
  assumes "init_suite ce r st = (Inr (), st')"
  shows "initialised ce st r st'" and "r' \<noteq> r \<Longrightarrow> untouched st r' st'"
  using assms
  by (auto simp: init_suite_def initialised_def untouched_def sslv3_choice_def Let_def split: option.splits if_splits sum.splits)

lemma init_suites_spec:
  assumes "block (map (init_suite ce) rs) st = (Inr (), st')" and "distinct rs"
  shows "(r \<in> set rs \<longrightarrow> initialised ce st r st') \<and> (r \<notin> set rs \<longrightarrow> untouched st r st')"
  using assms
proof (induction rs arbitrary: st)
  case Nil
  then show ?case by (simp add: untouched_def)
next
  case (Cons a rs)
  obtain st1 where st1: "init_suite ce a st = (Inr (), st1)" "block (map (init_suite ce) rs) st1 = (Inr (), st')"
    using Cons.prems(1) by (auto split: prod.splits sum.splits)
  have rest: "(r \<in> set rs \<longrightarrow> initialised ce st1 r st') \<and> (r \<notin> set rs \<longrightarrow> untouched st1 r st')"
    using Cons.IH [OF st1(2)] Cons.prems(2) by simp
  show ?case
  proof (cases "r = a")
    case True
    then show ?thesis
      using rest init_suite_spec(1) [OF st1(1)] Cons.prems(2) by (auto simp: initialised_def untouched_def)
  next
    case False
    then show ?thesis
      using rest init_suite_spec(2) [OF st1(1) False] by (auto simp: initialised_def untouched_def)
  qed
qed

lemma distinct_all_suites: "distinct s2n_all_cipher_suites"
  by (simp add: s2n_all_cipher_suites_def)

lemma init_spec:
  assumes "s2n_cipher_suites_init ce st = (Inr (), st')" and "r \<in> set s2n_all_cipher_suites"
  shows "initialised ce st r st'"
proof -
  obtain st1 where st1: "block (map (init_suite ce) s2n_all_cipher_suites) st = (Inr (), st1)"
      "st' = st1\<lparr>crypto_initialized := True\<rparr>"
    using assms(1) unfolding s2n_cipher_suites_init_def by (elim andthen_InrE) (simp add: modify_def)
  then show ?thesis
    using init_suites_spec [OF st1(1) distinct_all_suites, of r] assms(2) by (simp add: initialised_def)
qed

lemma choose_record_alg_available:
  "available (choose_record_alg ce s) \<longleftrightarrow>
     (\<exists>a\<in>set (all_record_algs s). is_available ce (ra_cipher (record_algorithm a))) \<and>
     (s2n_kex_includes (Some (key_exchange_alg s)) (Some s2n_kem) \<longrightarrow> s2n_pq_is_enabled ce)"
  "available (choose_record_alg ce s) \<Longrightarrow>
     record_alg (choose_record_alg ce s) = find (\<lambda>a. is_available ce (ra_cipher (record_algorithm a))) (all_record_algs s) \<and>
     record_alg (choose_record_alg ce s) \<noteq> None"
proof -
  let ?P = "\<lambda>a. is_available ce (ra_cipher (record_algorithm a))" and ?as = "all_record_algs s"
  have "(\<exists>a\<in>set ?as. ?P a) \<longleftrightarrow> find ?P ?as \<noteq> None"
    by (auto simp: find_None_iff)
  then show "available (choose_record_alg ce s) \<longleftrightarrow> (\<exists>a\<in>set ?as. ?P a) \<and>
     (s2n_kex_includes (Some (key_exchange_alg s)) (Some s2n_kem) \<longrightarrow> s2n_pq_is_enabled ce)"
    by (auto simp: choose_record_alg_def Let_def)
  show "available (choose_record_alg ce s) \<Longrightarrow>
     record_alg (choose_record_alg ce s) = find ?P ?as \<and> record_alg (choose_record_alg ce s) \<noteq> None"
    by (cases "find ?P ?as") (auto simp: choose_record_alg_def Let_def split: if_splits)
qed


section \<open>Claims\<close>

text \<open>
  C36. The binary search of \<open>s2n_cipher_suite_from_iana\<close> always ends and finds what a search of the whole table finds:
  the suite with the given two bytes as its IANA value when there is one, and the error for an unsupported
  cipher otherwise.
\<close>
theorem cipher_suite_lookup_correct:
  assumes "length bs = 2"
  shows "s2n_cipher_suite_from_iana (Some bs) 2 =
    (case find (\<lambda>r. iana_value (static_suite r) = bs) s2n_all_cipher_suites of
       Some r \<Rightarrow> Inr r
     | None \<Rightarrow> Inl (Err S2N_ERR_CIPHER_NOT_SUPPORTED))"
proof (cases "find (\<lambda>r. iana_value (static_suite r) = bs) s2n_all_cipher_suites")
  case None
  then have no: "\<And>r. r \<in> set s2n_all_cipher_suites \<Longrightarrow> iana_of r \<noteq> bs"
    by (simp add: find_None_iff iana_of_def)
  then show ?thesis
    using None assms from_iana_loop_found [of bs 0 35] from_iana_loop_error [of bs 0 35]
    by (cases "from_iana_loop bs 0 35") (auto simp: s2n_cipher_suite_from_iana_def)
next
  case (Some r)
  then obtain i where i: "i < 36" "iana_of (s2n_all_cipher_suites ! i) = bs" "r = s2n_all_cipher_suites ! i"
    by (auto simp: find_Some_iff iana_of_def)
  then show ?thesis
    using Some from_iana_loop_finds [of i 0 35] by (simp add: s2n_cipher_suite_from_iana_def)
qed

lemma cipher_suite_lookup_witness:
  "s2n_cipher_suite_from_iana (Some [0x13, 0x01]) 2 = Inr s2n_tls13_aes_128_gcm_sha256 \<and>
   s2n_cipher_suite_from_iana (Some [0xFF, 0x0C]) 2 = Inl (Err S2N_ERR_CIPHER_NOT_SUPPORTED)"
proof -
  have "find (\<lambda>r. iana_value (static_suite r) = [0x13, 0x01]) s2n_all_cipher_suites = Some s2n_tls13_aes_128_gcm_sha256"
    "find (\<lambda>r. iana_value (static_suite r) = [0xFF, 0x0C]) s2n_all_cipher_suites = None"
    by code_simp+
  then show ?thesis
    using cipher_suite_lookup_correct [of "[0x13, 0x01]"] cipher_suite_lookup_correct [of "[0xFF, 0x0C]"] by simp
qed

text \<open>
  C37. What the initialisation decides.  After a successful \<open>s2n_cipher_suites_init\<close> every suite of the table is
  available exactly when libcrypto offers the cipher of one of its record algorithms, and post-quantum key
  exchange is enabled if it needs it; its record algorithm is then the first offered one in its order of
  priority; and for SSLv3 it leads to itself or to a copy that uses the SSLv3 record algorithm.
\<close>
theorem cipher_suites_init_correct:
  assumes "s2n_cipher_suites_init ce st = (Inr (), st')" and "r \<in> set s2n_all_cipher_suites"
  shows "(available (suite_obj st' r) \<longleftrightarrow>
      (\<exists>a\<in>set (all_record_algs (suite_obj st r)). is_available ce (ra_cipher (record_algorithm a))) \<and>
      (s2n_kex_includes (Some (key_exchange_alg (suite_obj st r))) (Some s2n_kem) \<longrightarrow> s2n_pq_is_enabled ce)) \<and>
    (available (suite_obj st' r) \<longrightarrow> record_alg (suite_obj st' r) \<noteq> None \<and> record_alg (suite_obj st' r) =
      find (\<lambda>a. is_available ce (ra_cipher (record_algorithm a))) (all_record_algs (suite_obj st r))) \<and>
    (\<exists>p. sslv3_cipher_suite st' r = Some p \<and> iana_value (suite_at st' p) = iana_value (suite_obj st r) \<and>
      (p = Suite r \<or> available (suite_at st' p) \<and> record_alg (suite_at st' p) = sslv3_record_alg (suite_obj st r) \<and>
        sslv3_record_alg (suite_obj st r) \<noteq> None))"
proof -
  have init: "initialised ce st r st'"
    using assms by (rule init_spec)
  let ?p = "sslv3_choice ce r (suite_obj st r)"
  have "sslv3_cipher_suite st' r = Some ?p" "iana_value (suite_at st' ?p) = iana_value (suite_obj st r)"
    "?p = Suite r \<or> available (suite_at st' ?p) \<and> record_alg (suite_at st' ?p) = sslv3_record_alg (suite_obj st r) \<and>
        sslv3_record_alg (suite_obj st r) \<noteq> None"
    using init by (auto simp: initialised_def sslv3_choice_def split: option.splits if_splits)
  moreover have eq: "suite_obj st' r = choose_record_alg ce (suite_obj st r)"
    using init by (simp add: initialised_def)
  moreover note choose_record_alg_available [of ce "suite_obj st r"]
  ultimately show ?thesis
    unfolding eq by (intro conjI impI exI [of _ ?p]) blast+
qed

definition example_ciphers :: cipher_env where
  "example_ciphers = \<lparr>is_available = (\<lambda>c. c \<noteq> s2n_rc4 \<and> c \<noteq> s2n_aes128_sha), s2n_pq_is_enabled = False,
     dup_suite = (\<lambda>_. Inr ()), free_suite = (\<lambda>_. Inr ())\<rparr>"

lemma init_succeeds:
  assumes "\<And>r. dup_suite ce r = Inr ()"
  shows "\<exists>st'. s2n_cipher_suites_init ce st = (Inr (), st')"
proof -
  have one: "\<exists>st'. init_suite ce r st = (Inr (), st')" for r st
    using assms by (auto simp: init_suite_def Let_def split: option.splits)
  have "\<exists>st'. block (map (init_suite ce) rs) st = (Inr (), st')" for rs st
  proof (induction rs arbitrary: st)
    case (Cons r rs)
    then show ?case
      using one [of r st] by auto
  qed simp
  then show ?thesis
    by (auto simp: s2n_cipher_suites_init_def andthen_def bnd_def modify_def dest: spec [of _ s2n_all_cipher_suites]
        split: prod.splits sum.splits) (metis Inr_not_Inl Pair_inject old.sum.exhaust)
qed

lemma cipher_suites_init_witness:
  "\<exists>st'. s2n_cipher_suites_init example_ciphers initial_suites = (Inr (), st') \<and>
     record_alg (suite_obj st' s2n_rsa_with_aes_128_cbc_sha) = Some s2n_record_alg_aes128_sha"
proof -
  obtain st' where st': "s2n_cipher_suites_init example_ciphers initial_suites = (Inr (), st')"
    using init_succeeds [of example_ciphers initial_suites] by (auto simp: example_ciphers_def)
  have "all_record_algs (static_suite s2n_rsa_with_aes_128_cbc_sha) =
      [s2n_record_alg_aes128_sha_composite, s2n_record_alg_aes128_sha]"
    "key_exchange_alg (static_suite s2n_rsa_with_aes_128_cbc_sha) = s2n_rsa"
    by code_simp+
  then have "record_alg (suite_obj st' s2n_rsa_with_aes_128_cbc_sha) = Some s2n_record_alg_aes128_sha"
    using cipher_suites_init_correct [OF st', of s2n_rsa_with_aes_128_cbc_sha]
    by (simp add: initial_suites_def example_ciphers_def s2n_all_cipher_suites_def s2n_kex_includes_def)
  then show ?thesis
    using st' by blast
qed

end
