(* ===== verification/Connection.thy ===== *)
theory Connection
  imports Stuffer_Network Cipher_Suites
begin

text \<open>
  The connection (\<open>struct s2n_connection\<close> in \<open>tls/s2n_connection.h\<close>) and its small accessors in
  \<open>tls/s2n_connection.c\<close>, \<open>tls/s2n_quic_support.c\<close>, \<open>tls/s2n_tls13.c\<close>, \<open>tls/s2n_resume.c\<close> and
  \<open>utils/s2n_socket.c\<close>.

  The record has the fields the modelled components read or write.  What the other parts of the
  program keep in a connection (keys, hashes, certificates, sockets) is the type parameter
  \<open>'env\<close> of the field \<open>env\<close>; code that is not modelled is an arbitrary action on the whole record.
  The clock of the configuration is a function from the number of earlier calls (\<open>clock_calls\<close>) to
  the time it reports, \<open>None\<close> when the callback fails.
  The statics of the allocator travel with the connection in the field \<open>mem\<close>, because the stuffers
  of a connection may grow.
\<close>

section \<open>Types\<close>

datatype s2n_mode = S2N_SERVER | S2N_CLIENT

datatype message_type_t = CLIENT_HELLO | SERVER_HELLO | SERVER_CERT | SERVER_NEW_SESSION_TICKET
  | SERVER_CERT_STATUS | SERVER_KEY | SERVER_CERT_REQ | SERVER_HELLO_DONE | CLIENT_CERT | CLIENT_KEY
  | CLIENT_CERT_VERIFY | CLIENT_CHANGE_CIPHER_SPEC | CLIENT_NPN | CLIENT_FINISHED
  | SERVER_CHANGE_CIPHER_SPEC | SERVER_FINISHED | ENCRYPTED_EXTENSIONS | SERVER_CERT_VERIFY
  | HELLO_RETRY_MSG | END_OF_EARLY_DATA | APPLICATION_DATA

datatype s2n_state_machine = S2N_STATE_MACHINE_INITIAL | S2N_STATE_MACHINE_TLS12 | S2N_STATE_MACHINE_TLS13

datatype s2n_cert_auth_type = S2N_CERT_AUTH_NONE | S2N_CERT_AUTH_REQUIRED | S2N_CERT_AUTH_OPTIONAL

datatype s2n_session_ticket_status = S2N_NO_TICKET | S2N_DECRYPT_TICKET | S2N_NEW_TICKET

datatype s2n_early_data_state = S2N_UNKNOWN_EARLY_DATA_STATE | S2N_EARLY_DATA_REQUESTED
  | S2N_EARLY_DATA_NOT_REQUESTED | S2N_EARLY_DATA_ACCEPTED | S2N_EARLY_DATA_REJECTED
  | S2N_END_OF_EARLY_DATA | S2N_EARLY_DATA_STATES_COUNT

datatype s2n_alert_behavior = S2N_ALERT_FAIL_ON_WARNINGS | S2N_ALERT_IGNORE_WARNINGS

datatype s2n_blocked_status = S2N_NOT_BLOCKED | S2N_BLOCKED_ON_READ | S2N_BLOCKED_ON_WRITE
  | S2N_BLOCKED_ON_APPLICATION_INPUT | S2N_BLOCKED_ON_EARLY_DATA

datatype s2n_io_status = S2N_IO_WRITABLE | S2N_IO_READABLE | S2N_IO_FULL_DUPLEX | S2N_IO_CLOSED

datatype s2n_psk_type = S2N_PSK_TYPE_RESUMPTION | S2N_PSK_TYPE_EXTERNAL

abbreviation (input) TLS_CHANGE_CIPHER_SPEC :: u8 where "TLS_CHANGE_CIPHER_SPEC \<equiv> 20"
abbreviation (input) TLS_ALERT :: u8 where "TLS_ALERT \<equiv> 21"
abbreviation (input) TLS_HANDSHAKE :: u8 where "TLS_HANDSHAKE \<equiv> 22"
abbreviation (input) TLS_APPLICATION_DATA :: u8 where "TLS_APPLICATION_DATA \<equiv> 23"
abbreviation (input) SSLv2_CLIENT_HELLO :: u8 where "SSLv2_CLIENT_HELLO \<equiv> 1"
abbreviation (input) S2N_TLS_SESSION_ID_MAX_LEN :: nat where "S2N_TLS_SESSION_ID_MAX_LEN \<equiv> 32"

record s2n_crypto_parameters =
  cipher_suite :: "s2n_cipher_suite option"

record s2n_early_data_config =
  ed_max_early_data_size :: u32
  ed_protocol_version :: u8
  ed_cipher_suite :: "s2n_cipher_suite option"
  ed_application_protocol :: s2n_blob
  ed_context :: s2n_blob

record s2n_psk =
  psk_type :: s2n_psk_type
  hmac_alg :: s2n_hmac_algorithm
  early_data_config :: s2n_early_data_config

record s2n_psk_parameters =
  psk_list :: "s2n_psk list"
  chosen_psk :: "s2n_psk option"
  chosen_psk_wire_index :: u16

record s2n_config =
  use_tickets :: bool
  config_quic_enabled :: bool
  use_session_cache :: bool
  custom_blinding_set :: bool
  max_blinding :: u32
  monotonic_clock :: "nat \<Rightarrow> u64 option"
  alert_behavior :: s2n_alert_behavior
  config_client_cert_auth_type_overridden :: bool
  config_client_cert_auth_type :: s2n_cert_auth_type
  config_server_max_early_data_size :: u32

record s2n_handshake =
  io :: s2n_stuffer
  finished_len :: u8
  handshake_type :: u32
  message_number :: int
  end_of_messages :: message_type_t
  early_data_async_conn :: bool
  paused :: bool
  renegotiation :: bool
  hs_state_machine :: s2n_state_machine

text \<open>The contexts of the built-in socket I/O (\<open>utils/s2n_socket.h\<close>).  The file descriptor is represented by
  the socket options the code sets on it, \<open>socket_rcvlowat\<close> and \<open>socket_cork\<close>.\<close>

record s2n_socket_read_io_context =
  tcp_quickack_set :: bool
  original_rcvlowat_is_set :: bool
  original_rcvlowat_val :: int
  socket_rcvlowat :: int

record s2n_socket_write_io_context =
  original_cork_is_set :: bool
  original_cork_val :: int
  socket_cork :: int

record 'env s2n_connection =
  corked_io :: bool
  client_session_resumed :: bool
  quic_enabled :: bool
  managed_send_io :: bool
  managed_recv_io :: bool
  early_data_expected :: bool
  server_max_early_data_size_overridden :: bool
  ems_negotiated :: bool
  dynamic_buffers :: bool
  npn_negotiated :: bool
  deserialized_conn :: bool
  config :: "s2n_config option"
  has_send :: bool
  has_recv :: bool
  send_io_context :: "s2n_socket_write_io_context option"
  recv_io_context :: "s2n_socket_read_io_context option"
  extension_requests_sent :: bytes
  extension_requests_received :: bytes
  extension_responses_received :: bytes
  mode :: s2n_mode
  built_in_blinding :: bool
  write_timer :: u64
  clock_calls :: nat
  delay :: u64
  session_id :: bytes
  session_id_len :: u8
  client_hello_version :: u8
  client_protocol_version :: u8
  server_protocol_version :: u8
  actual_protocol_version :: u8
  secure :: "s2n_crypto_parameters option"
  psk_params :: s2n_psk_parameters
  client_cert_auth_type_overridden :: bool
  client_cert_auth_type :: s2n_cert_auth_type
  header_in :: s2n_stuffer
  buffer_in :: s2n_stuffer
  conn_in :: s2n_stuffer
  conn_out :: s2n_stuffer
  alert_in :: s2n_stuffer
  writer_alert_out :: u8
  reader_alert_out :: u8
  reader_warning_out :: u8
  alert_sent :: bool
  error_alert_received :: bool
  close_notify_received :: bool
  handshake :: s2n_handshake
  early_data_bytes :: u64
  read_closed :: bool
  write_closed :: bool
  application_protocol :: bytes
  session_ticket_status :: s2n_session_ticket_status
  negotiate_in_use :: bool
  early_data_state :: s2n_early_data_state
  server_max_early_data_size :: u32
  server_early_data_context :: s2n_blob
  mem :: s2n_mem
  env :: 'env

type_synonym ('env, 'a) conn_action = "('env s2n_connection, 'a) action"

text \<open>Running an action on one stuffer of the connection.\<close>

definition on_io :: "(mem_stuffer, 'a) action \<Rightarrow> ('env, 'a) conn_action" where
  "on_io = zoom (\<lambda>c. (mem c, io (handshake c)))
     (\<lambda>(m, s) c. c\<lparr>mem := m, handshake := (handshake c)\<lparr>io := s\<rparr>\<rparr>)"

definition on_in :: "(s2n_stuffer, 'a) action \<Rightarrow> ('env, 'a) conn_action" where
  "on_in = zoom conn_in (\<lambda>s c. c\<lparr>conn_in := s\<rparr>)"

definition on_out :: "(mem_stuffer, 'a) action \<Rightarrow> ('env, 'a) conn_action" where
  "on_out = zoom (\<lambda>c. (mem c, conn_out c)) (\<lambda>(m, s) c. c\<lparr>mem := m, conn_out := s\<rparr>)"

definition on_buffer_in :: "(mem_stuffer, 'a) action \<Rightarrow> ('env, 'a) conn_action" where
  "on_buffer_in = zoom (\<lambda>c. (mem c, buffer_in c)) (\<lambda>(m, s) c. c\<lparr>mem := m, buffer_in := s\<rparr>)"

definition on_alert_in :: "(s2n_stuffer, 'a) action \<Rightarrow> ('env, 'a) conn_action" where
  "on_alert_in = zoom alert_in (\<lambda>s c. c\<lparr>alert_in := s\<rparr>)"

definition copy_in_to_io :: "u32 \<Rightarrow> ('env, unit) conn_action" where
  "copy_in_to_io n = zoom (\<lambda>c. (conn_in c, (mem c, io (handshake c))))
     (\<lambda>(i, (m, s)) c. c\<lparr>conn_in := i, mem := m, handshake := (handshake c)\<lparr>io := s\<rparr>\<rparr>)
     (s2n_stuffer_copy n)"

definition copy_in_to_alert_in :: "u32 \<Rightarrow> ('env, unit) conn_action" where
  "copy_in_to_alert_in n = zoom (\<lambda>c. (conn_in c, (mem c, alert_in c)))
     (\<lambda>(i, (m, s)) c. c\<lparr>conn_in := i, mem := m, alert_in := s\<rparr>)
     (s2n_stuffer_copy n)"

definition on_handshake :: "(s2n_handshake \<Rightarrow> s2n_handshake) \<Rightarrow> 'env s2n_connection \<Rightarrow> 'env s2n_connection" where
  "on_handshake f c = c\<lparr>handshake := f (handshake c)\<rparr>"


section \<open>Error types\<close>

datatype s2n_error_type = S2N_ERR_T_OK | S2N_ERR_T_IO | S2N_ERR_T_CLOSED | S2N_ERR_T_BLOCKED
  | S2N_ERR_T_ALERT | S2N_ERR_T_PROTO | S2N_ERR_T_INTERNAL | S2N_ERR_T_USAGE

text \<open>\<open>s2n_error_get_type\<close> shifts the code right by \<open>S2N_ERR_NUM_VALUE_BITS\<close>; \<open>None\<close> stands for a
  number that is no error type.\<close>

definition s2n_error_get_type :: "s2n_error \<Rightarrow> s2n_error_type option" where
  "s2n_error_get_type e =
     (let n = e div 2 ^ 26;
          types = [S2N_ERR_T_OK, S2N_ERR_T_IO, S2N_ERR_T_CLOSED, S2N_ERR_T_BLOCKED, S2N_ERR_T_ALERT,
                   S2N_ERR_T_PROTO, S2N_ERR_T_INTERNAL, S2N_ERR_T_USAGE]
      in if n < length types then Some (types ! n) else None)"

definition S2N_ERROR_IS_BLOCKING :: "s2n_error \<Rightarrow> bool" where
  "S2N_ERROR_IS_BLOCKING e \<longleftrightarrow> s2n_error_get_type e = Some S2N_ERR_T_BLOCKED"


section \<open>Accessors\<close>

definition s2n_connection_get_protocol_version :: "'env s2n_connection \<Rightarrow> u8" where
  "s2n_connection_get_protocol_version conn =
     (if actual_protocol_version conn \<noteq> S2N_UNKNOWN_PROTOCOL_VERSION then actual_protocol_version conn
      else if mode conn = S2N_CLIENT then client_protocol_version conn
      else server_protocol_version conn)"

definition s2n_connection_is_quic_enabled :: "'env s2n_connection \<Rightarrow> bool" where
  "s2n_connection_is_quic_enabled conn \<longleftrightarrow>
     quic_enabled conn \<or> (case config conn of None \<Rightarrow> False | Some cfg \<Rightarrow> config_quic_enabled cfg)"

definition s2n_is_middlebox_compat_enabled :: "'env s2n_connection \<Rightarrow> bool" where
  "s2n_is_middlebox_compat_enabled conn \<longleftrightarrow>
     s2n_connection_get_protocol_version conn \<ge> S2N_TLS13 \<and> \<not> s2n_connection_is_quic_enabled conn"

definition s2n_connection_and_config_get_client_auth_type ::
  "'env s2n_connection \<Rightarrow> s2n_config option \<Rightarrow> s2n_cert_auth_type result" where
  "s2n_connection_and_config_get_client_auth_type conn cfg_ptr =
     (case cfg_ptr of
        None \<Rightarrow> Inl (Err S2N_ERR_NULL)
      | Some cfg \<Rightarrow>
          if client_cert_auth_type_overridden conn then Inr (client_cert_auth_type conn)
          else if config_client_cert_auth_type_overridden cfg then Inr (config_client_cert_auth_type cfg)
          else if mode conn = S2N_CLIENT then Inr S2N_CERT_AUTH_OPTIONAL
          else Inr S2N_CERT_AUTH_NONE)"

definition s2n_connection_get_client_auth_type :: "'env s2n_connection \<Rightarrow> s2n_cert_auth_type result" where
  "s2n_connection_get_client_auth_type conn =
     s2n_connection_and_config_get_client_auth_type conn (config conn)"

definition s2n_connection_set_client_auth_type :: "s2n_cert_auth_type \<Rightarrow> ('env, unit) conn_action" where
  "s2n_connection_set_client_auth_type t conn =
     (Inr (), conn\<lparr>client_cert_auth_type_overridden := True, client_cert_auth_type := t\<rparr>)"

text \<open>The result is \<open>-1\<close>, 0 or 1 in C; \<open>Inl\<close> is \<open>-1\<close>.\<close>

definition s2n_connection_is_client_auth_enabled :: "'env s2n_connection \<Rightarrow> bool result" where
  "s2n_connection_is_client_auth_enabled conn =
     (case s2n_connection_get_client_auth_type conn of
        Inl e \<Rightarrow> Inl e
      | Inr t \<Rightarrow> Inr (t \<noteq> S2N_CERT_AUTH_NONE))"

text \<open>The test is on the \<open>int\<close> that \<open>s2n_connection_is_client_auth_enabled\<close> returns, so an error counts
  as enabled.\<close>

definition s2n_allowed_to_cache_connection :: "'env s2n_connection \<Rightarrow> bool result" where
  "s2n_allowed_to_cache_connection conn =
     (if s2n_connection_is_client_auth_enabled conn \<noteq> Inr False then Inr False
      else case config conn of
        None \<Rightarrow> Inl (Err S2N_ERR_NULL)
      | Some cfg \<Rightarrow> Inr (use_session_cache cfg))"

definition s2n_connection_is_managed_corked :: "'env s2n_connection \<Rightarrow> bool" where
  "s2n_connection_is_managed_corked conn \<longleftrightarrow> managed_send_io conn \<and> corked_io conn"

definition s2n_connection_set_closed :: "('env, unit) conn_action" where
  "s2n_connection_set_closed conn = (Inr (), conn\<lparr>read_closed := True, write_closed := True\<rparr>)"

definition s2n_connection_check_io_status :: "'env s2n_connection \<Rightarrow> s2n_io_status \<Rightarrow> bool" where
  "s2n_connection_check_io_status conn status =
     (let full_duplex = (\<not> read_closed conn \<and> \<not> write_closed conn) in
      if s2n_connection_get_protocol_version conn < S2N_TLS13 then
        (case status of
           S2N_IO_WRITABLE \<Rightarrow> full_duplex
         | S2N_IO_READABLE \<Rightarrow> full_duplex
         | S2N_IO_FULL_DUPLEX \<Rightarrow> full_duplex
         | S2N_IO_CLOSED \<Rightarrow> \<not> full_duplex)
      else
        (case status of
           S2N_IO_WRITABLE \<Rightarrow> \<not> write_closed conn
         | S2N_IO_READABLE \<Rightarrow> \<not> read_closed conn
         | S2N_IO_FULL_DUPLEX \<Rightarrow> full_duplex
         | S2N_IO_CLOSED \<Rightarrow> read_closed conn \<and> write_closed conn))"

definition s2n_connection_dynamic_free_out_buffer :: "('env, unit) conn_action" where
  "s2n_connection_dynamic_free_out_buffer conn =
     (if dynamic_buffers conn \<and> s2n_stuffer_is_consumed (conn_out conn)
      then on_out (andthen s2n_stuffer_free_without_wipe (s2n_stuffer_growable_alloc 0)) conn
      else (Inr (), conn))"

definition s2n_connection_dynamic_free_in_buffer :: "('env, unit) conn_action" where
  "s2n_connection_dynamic_free_in_buffer conn =
     (if dynamic_buffers conn \<and> s2n_stuffer_is_consumed (buffer_in conn)
      then on_buffer_in (andthen s2n_stuffer_free_without_wipe (s2n_stuffer_growable_alloc 0)) conn
      else (Inr (), conn))"


section \<open>A concrete connection\<close>

text \<open>A server connection before the handshake, used to evaluate the model on concrete inputs.\<close>

definition example_config :: s2n_config where
  "example_config = \<lparr>use_tickets = False, config_quic_enabled = False, use_session_cache = False,
     custom_blinding_set = False, max_blinding = 0, monotonic_clock = (\<lambda>n. Some (of_nat (100 * n))),
     alert_behavior = S2N_ALERT_FAIL_ON_WARNINGS, config_client_cert_auth_type_overridden = False,
     config_client_cert_auth_type = S2N_CERT_AUTH_NONE, config_server_max_early_data_size = 0\<rparr>"

definition static_stuffer :: "bytes \<Rightarrow> nat \<Rightarrow> s2n_stuffer" where
  "static_stuffer bs room = empty_stuffer\<lparr>
     blob := \<lparr>b_data = Some (bs @ replicate room 0), b_size = of_nat (length bs + room),
              b_allocated = 0, b_growable = False\<rparr>,
     write_cursor := of_nat (length bs), high_water_mark := of_nat (length bs)\<rparr>"

definition example_handshake :: s2n_handshake where
  "example_handshake = \<lparr>io = static_stuffer [] 64, finished_len = 0, handshake_type = 0,
     message_number = 0, end_of_messages = APPLICATION_DATA, early_data_async_conn = False,
     paused = False, renegotiation = False, hs_state_machine = S2N_STATE_MACHINE_INITIAL\<rparr>"

definition example_suite :: s2n_cipher_suite where
  "example_suite = \<lparr>available = True, suite_name = ''TLS_AES_128_GCM_SHA256'', iana_name = ''TLS_AES_128_GCM_SHA256'',
     iana_value = [0x13, 0x01], key_exchange_alg = s2n_tls13_kex, auth_method = S2N_AUTHENTICATION_METHOD_SENTINEL,
     record_alg = Some s2n_tls13_record_alg_aes128_gcm, all_record_algs = [s2n_tls13_record_alg_aes128_gcm],
     sslv3_record_alg = None, prf_alg = S2N_HMAC_SHA256, minimum_required_tls_version = S2N_TLS13\<rparr>"

definition example_conn :: "s2n_mode \<Rightarrow> unit s2n_connection" where
  "example_conn m = \<lparr>
     corked_io = False, client_session_resumed = False, quic_enabled = False, managed_send_io = False,
     managed_recv_io = False, early_data_expected = False, server_max_early_data_size_overridden = False,
     ems_negotiated = False, dynamic_buffers = False, npn_negotiated = False, deserialized_conn = False,
     config = Some example_config, has_send = True, has_recv = True, send_io_context = None,
     recv_io_context = None, extension_requests_sent = replicate 22 0,
     extension_requests_received = replicate 22 0, extension_responses_received = replicate 22 0,
     mode = m, built_in_blinding = True, write_timer = 0, clock_calls = 0, delay = 0,
     session_id = replicate 32 0, session_id_len = 0, client_hello_version = 0,
     client_protocol_version = S2N_TLS13, server_protocol_version = S2N_TLS13,
     actual_protocol_version = S2N_TLS12,
     secure = Some \<lparr>cipher_suite = Some example_suite\<rparr>,
     psk_params = \<lparr>psk_list = [], chosen_psk = None, chosen_psk_wire_index = 0\<rparr>,
     client_cert_auth_type_overridden = False, client_cert_auth_type = S2N_CERT_AUTH_NONE,
     header_in = static_stuffer [] 5, buffer_in = static_stuffer [] 64, conn_in = static_stuffer [] 64,
     conn_out = static_stuffer [] 64, alert_in = static_stuffer [] 2, writer_alert_out = 0,
     reader_alert_out = 0, reader_warning_out = 0, alert_sent = False, error_alert_received = False,
     close_notify_received = False, handshake = example_handshake, early_data_bytes = 0,
     read_closed = False, write_closed = False, application_protocol = replicate 256 0,
     session_ticket_status = S2N_NO_TICKET, negotiate_in_use = False,
     early_data_state = S2N_UNKNOWN_EARLY_DATA_STATE, server_max_early_data_size = 0,
     server_early_data_context = empty_blob, mem = example_mem Free_no_mlock_impl, env = ()\<rparr>"

lemma static_stuffer_wf:
  assumes "length bs + room < 4294967296" and "0 < length bs + room"
  shows "stuffer_wf (static_stuffer bs room)"
proof -
  have len: "unat (of_nat (length bs + room) :: u32) = length bs + room"
    using assms(1) by (rule unat_of_nat_u32)
  have k: "unat (of_nat (length bs) :: u32) = length bs"
    using assms(1) by (intro unat_of_nat_u32) simp
  show ?thesis
    using assms
    by (simp add: static_stuffer_def stuffer_wf_def s2n_stuffer_validate_def blob_wf_def s2n_blob_validate_def
        s2n_mem_is_readable_def empty_stuffer_def word_le_nat_alt len k del: of_nat_add)
qed

lemma static_stuffer_unread [simp]:
  assumes "length bs + room < 4294967296"
  shows "unread (static_stuffer bs room) = bs"
proof -
  have k: "unat (of_nat (length bs) :: u32) = length bs"
    using assms by (intro unat_of_nat_u32) simp
  show ?thesis
    by (simp add: static_stuffer_def unread_def written_def smem_def empty_stuffer_def k)
qed

end
