(* ===== verification/Blinding.thy ===== *)
theory Blinding
  imports Connection
begin

text \<open>
  Random delays and error blinding: \<open>s2n_public_random\<close> (\<open>utils/s2n_random.c\<close>), the timers
  (\<open>utils/s2n_timer.c\<close>) and the blinding of \<open>tls/s2n_connection.c\<close>.

  \<open>s2n_get_public_random_data\<close> is a parameter: the n-th call yields a 64 bit number or an error.  The
  rejection loop of \<open>s2n_public_random\<close> need not end, so it is a partial function whose value is
  \<open>None\<close> when it does not.  The sleep of the built-in blinding changes no state and is left out.
\<close>

section \<open>Unbiased random numbers\<close>


partial_function (option) public_random_loop ::
  "(nat \<Rightarrow> s2n_error + u64) \<Rightarrow> u64 \<Rightarrow> nat \<Rightarrow> (u64 result \<times> nat) option" where
  "public_random_loop random_data bound k =
     (case random_data k of
        Inl e \<Rightarrow> Some (Inl (Err e), Suc k)
      | Inr r \<Rightarrow>
          if r < UINT64_MAX - UINT64_MAX mod bound then Some (Inr (r mod bound), Suc k)
          else public_random_loop random_data bound (Suc k))"

definition s2n_public_random ::
  "(nat \<Rightarrow> s2n_error + u64) \<Rightarrow> int \<Rightarrow> nat \<Rightarrow> (u64 result \<times> nat) option" where
  "s2n_public_random random_data bound k =
     (if bound > 0 then public_random_loop random_data (of_int bound) k
      else Some (Inl (Err S2N_ERR_SAFETY), k))"


section \<open>Timers\<close>

definition read_clock :: "('env, u64) conn_action" where
  "read_clock conn =
     (case config conn of
        None \<Rightarrow> (Inl Undefined, conn)
      | Some cfg \<Rightarrow>
          (case monotonic_clock cfg (clock_calls conn) of
             None \<Rightarrow> (Inl (Err S2N_ERR_CANCELLED), conn\<lparr>clock_calls := Suc (clock_calls conn)\<rparr>)
           | Some t \<Rightarrow> (Inr t, conn\<lparr>clock_calls := Suc (clock_calls conn)\<rparr>)))"

definition s2n_timer_start :: "('env, unit) conn_action" where
  "s2n_timer_start = bnd read_clock (\<lambda>t. modify (\<lambda>conn. conn\<lparr>write_timer := t\<rparr>))"

definition s2n_timer_elapsed :: "('env, u64) conn_action" where
  "s2n_timer_elapsed = bnd read_clock (\<lambda>t. gets (\<lambda>conn. t - write_timer conn))"

definition s2n_timer_reset :: "('env, u64) conn_action" where
  "s2n_timer_reset =
     bnd (gets write_timer) (\<lambda>previous_time.
       andthen s2n_timer_start (gets (\<lambda>conn. write_timer conn - previous_time)))"


section \<open>Blinding\<close>

abbreviation (input) ONE_S :: int where "ONE_S \<equiv> 1000000000"

definition s2n_connection_get_delay_impl :: "('env, u64) conn_action" where
  "s2n_connection_get_delay_impl conn =
     (if delay conn = 0 then (Inr 0, conn)
      else bnd s2n_timer_elapsed (\<lambda>elapsed.
             gets (\<lambda>c. if elapsed > delay c then 0 else delay c - elapsed)) conn)"

definition s2n_connection_get_delay :: "'env s2n_connection \<Rightarrow> u64 \<times> 'env s2n_connection" where
  "s2n_connection_get_delay conn =
     (case s2n_connection_get_delay_impl conn of
        (Inl _, c) \<Rightarrow> (UINT64_MAX, c)
      | (Inr d, c) \<Rightarrow> (d, c))"

definition s2n_connection_calculate_blinding :: "'env s2n_connection \<Rightarrow> (int \<times> int) result" where
  "s2n_connection_calculate_blinding conn =
     (case config conn of
        None \<Rightarrow> Inl (Err S2N_ERR_NULL)
      | Some cfg \<Rightarrow>
          if custom_blinding_set cfg
          then (let max = uint (max_blinding cfg) * ONE_S in Inr (max div 3, max))
          else Inr (10 * ONE_S, 30 * ONE_S))"

text \<open>The random number generator is an action, because it may block on the state it shares.\<close>

definition s2n_connection_kill :: "(int \<Rightarrow> ('env, u64) conn_action) \<Rightarrow> ('env, unit) conn_action" where
  "s2n_connection_kill public_random =
     andthen s2n_connection_set_closed
       (bnd (\<lambda>conn. (s2n_connection_calculate_blinding conn, conn)) (\<lambda>(min, max).
          if max = 0 then ret ()
          else bnd (public_random (max - min)) (\<lambda>rand_delay.
                 andthen (modify (\<lambda>conn. conn\<lparr>delay := of_int min + rand_delay\<rparr>)) s2n_timer_start)))"

definition s2n_connection_apply_error_blinding ::
  "(int \<Rightarrow> ('env, u64) conn_action) \<Rightarrow> s2n_error \<Rightarrow> ('env, unit) conn_action" where
  "s2n_connection_apply_error_blinding public_random error_code =
     andthen (on_in s2n_stuffer_wipe)
       (case s2n_error_get_type error_code of
          Some S2N_ERR_T_OK \<Rightarrow> ret ()
        | Some S2N_ERR_T_BLOCKED \<Rightarrow> ret ()
        | _ \<Rightarrow>
            if error_code \<in> {S2N_ERR_CLOSED, S2N_ERR_CANCELLED, S2N_ERR_CIPHER_NOT_SUPPORTED,
                 S2N_ERR_PROTOCOL_VERSION_UNSUPPORTED, S2N_ERR_CONFIG_NULL_BEFORE_CH_CALLBACK}
            then s2n_connection_set_closed
            else s2n_connection_kill public_random)"

text \<open>\<open>WITH_ERROR_BLINDING\<close>: when the action fails, the connection is blinded for the error it reports;
  the outcome of the blinding itself is ignored.\<close>

definition WITH_ERROR_BLINDING ::
  "(int \<Rightarrow> ('env, u64) conn_action) \<Rightarrow> ('env, 'a) conn_action \<Rightarrow> ('env, 'a) conn_action" where
  "WITH_ERROR_BLINDING public_random act conn =
     (case act conn of
        (Inl (Err e), c) \<Rightarrow>
          (case s2n_connection_apply_error_blinding public_random e c of
             (Inl Undefined, c') \<Rightarrow> (Inl Undefined, c')
           | (_, c') \<Rightarrow> (Inl (Err e), c'))
      | res \<Rightarrow> res)"


section \<open>Properties of the rejection loop\<close>

definition accepts :: "u64 \<Rightarrow> u64 \<Rightarrow> bool" where
  "accepts bound r \<longleftrightarrow> r < UINT64_MAX - UINT64_MAX mod bound"

lemma public_random_loop_first:
  assumes "\<And>i. k \<le> i \<Longrightarrow> i < n \<Longrightarrow> \<exists>r. rnd i = Inr r \<and> \<not> accepts bound r"
    and "k \<le> n" and "rnd n = Inr r" and "accepts bound r"
  shows "public_random_loop rnd bound k = Some (Inr (r mod bound), Suc n)"
  using assms(2,1)
proof (induction k rule: inc_induct)
  case base
  then show ?case
    using assms(3,4) by (subst public_random_loop.simps) (simp add: accepts_def)
next
  case (step k)
  then obtain r' where "rnd k = Inr r'" "\<not> accepts bound r'"
    by (meson order_refl)
  then show ?case
    using step by (subst public_random_loop.simps) (simp add: accepts_def)
qed

lemma accept_limit:
  "unat (UINT64_MAX - UINT64_MAX mod bound) = 18446744073709551615 div unat bound * unat bound"
proof -
  have "unat (UINT64_MAX mod bound) = 18446744073709551615 mod unat bound"
    by (simp add: unat_mod_distrib)
  moreover have "UINT64_MAX mod bound \<le> UINT64_MAX"
    by (simp add: word_le_nat_alt unat_mod_distrib)
  ultimately have "unat (UINT64_MAX - UINT64_MAX mod bound) =
      18446744073709551615 - 18446744073709551615 mod unat bound"
    by (simp add: word_sub_unat)
  then show ?thesis
    by (simp add: minus_mod_eq_div_mult)
qed

lemma accepts_iff: "accepts bound r \<longleftrightarrow> unat r < 18446744073709551615 div unat bound * unat bound"
  unfolding accepts_def word_less_nat_alt accept_limit ..

lemma card_residue:
  assumes "x < b"
  shows "card {n :: nat. n < q * b \<and> n mod b = x} = q"
proof -
  have "{n. n < q * b \<and> n mod b = x} = (\<lambda>i. x + i * b) ` {..<q}" (is "?A = ?B")
  proof
    show "?A \<subseteq> ?B"
    proof
      fix n assume "n \<in> ?A"
      then have n: "n < q * b" "n mod b = x" by simp_all
      have "n = x + n div b * b"
        using n(2) by (metis add.commute div_mult_mod_eq)
      moreover have "n div b < q"
        using n(1) by (simp add: less_mult_imp_div_less)
      ultimately show "n \<in> ?B" by blast
    qed
    show "?B \<subseteq> ?A"
    proof
      fix n assume "n \<in> ?B"
      then obtain i where i: "i < q" "n = x + i * b" by blast
      have "x + i * b < Suc i * b"
        using assms by simp
      also have "\<dots> \<le> q * b"
        using i(1) by (intro mult_right_mono) simp_all
      finally show "n \<in> ?A"
        using i(2) assms by simp
    qed
  qed
  moreover have "inj_on (\<lambda>i. x + i * b) {..<q}"
    using assms by (auto simp: inj_on_def)
  ultimately show ?thesis
    by (simp add: card_image)
qed

lemma unat_of_nat_u64: "n < 18446744073709551616 \<Longrightarrow> unat (of_nat n :: u64) = n"
  by (simp add: unat_of_nat)

lemma card_accepted_residue:
  assumes "x < unat w"
  shows "card {r. accepts w r \<and> unat (r mod w) = x} = 18446744073709551615 div unat w"
proof -
  define b q where "b = unat w" and "q = 18446744073709551615 div unat w"
  have acc: "accepts w r \<and> unat (r mod w) = x \<longleftrightarrow> unat r < q * b \<and> unat r mod b = x" for r
    by (simp only: accepts_iff b_def q_def unat_mod_distrib)
  have top: "q * b \<le> 18446744073709551615"
    unfolding q_def b_def by (rule div_times_less_eq_dividend)
  have img: "unat ` {r :: u64. unat r < q * b \<and> unat r mod b = x} = {n. n < q * b \<and> n mod b = x}" (is "_ ` ?A = ?B")
  proof
    show "unat ` ?A \<subseteq> ?B" by blast
    show "?B \<subseteq> unat ` ?A"
    proof
      fix n assume n: "n \<in> ?B"
      then have "n < 18446744073709551616"
        using top by (elim CollectE conjE) linarith
      then have u: "unat (of_nat n :: u64) = n"
        by (rule unat_of_nat_u64)
      have "(of_nat n :: u64) \<in> ?A"
        using n by (simp only: mem_Collect_eq u)
      then have "unat (of_nat n :: u64) \<in> unat ` ?A"
        by (rule imageI)
      then show "n \<in> unat ` ?A"
        by (simp only: u)
    qed
  qed
  have "inj_on unat ?A"
    by (rule inj_onI) (rule word_unat_eqI)
  then have "card ?A = card ?B"
    by (simp only: card_image [symmetric] img)
  also have "\<dots> = q"
    using assms unfolding b_def by (rule card_residue)
  finally have "card ?A = q" .
  then show ?thesis
    by (simp only: acc q_def)
qed


section \<open>Properties of blinding\<close>

text \<open>What the blinding relies on in the generator: a number below the bound, or an error, and no other
  change to the connection than to the environment.\<close>

definition public_random_ok :: "(int \<Rightarrow> ('env, u64) conn_action) \<Rightarrow> bool" where
  "public_random_ok public_random \<longleftrightarrow>
     (\<forall>b c. 0 < b \<longrightarrow>
        (case public_random b c of (r, c') \<Rightarrow>
           (\<exists>e. c' = c\<lparr>env := e\<rparr>) \<and> r \<noteq> Inl Undefined \<and> (\<forall>x. r = Inr x \<longrightarrow> uint x < b)))"

lemma public_random_okD:
  assumes "public_random_ok pr" and "0 < b" and "pr b c = (x, c')"
  shows "(\<exists>e. c' = c\<lparr>env := e\<rparr>) \<and> x \<noteq> Inl Undefined \<and> (\<forall>d. x = Inr d \<longrightarrow> uint d < b)"
  using assms(1) [unfolded public_random_ok_def, rule_format, OF assms(2), of c]
  by (simp add: assms(3))

lemma blinding_bounds:
  assumes "s2n_connection_calculate_blinding c = Inr (lo, hi)"
  shows "0 \<le> lo \<and> lo \<le> hi \<and> hi < 2 ^ 63 \<and> (hi \<noteq> 0 \<longrightarrow> lo < hi)"
proof -
  have u: "uint w < 4294967296" "0 \<le> uint w" for w :: u32
    using uint_bounded [of w] by simp_all
  then have w: "uint w * ONE_S < 9223372036854775808" "0 \<le> uint w * ONE_S" for w :: u32
    using u [of w] by linarith+
  have third: "0 \<le> m div 3 \<and> m div 3 \<le> m \<and> (m \<noteq> 0 \<longrightarrow> m div 3 < m)" if "0 \<le> m" for m :: int
    using that by auto
  show ?thesis
  proof (cases "config c")
    case (Some cfg)
    then show ?thesis
      using assms w [of "max_blinding cfg"] third [of "uint (max_blinding cfg) * ONE_S"]
      by (auto simp: s2n_connection_calculate_blinding_def Let_def split: if_splits)
  qed (use assms in \<open>simp add: s2n_connection_calculate_blinding_def\<close>)
qed


lemma wiped_unread [simp]: "unread (wiped s) = []"
  by (simp add: wiped_def unread_def written_def)

text \<open>Killing a connection closes it before anything else can fail, and a successful kill sets the delay.\<close>

lemma kill_spec:
  assumes "public_random_ok pr" and "config c = Some cfg"
    and blinding: "s2n_connection_calculate_blinding c = Inr (lo, hi)"
    and run: "s2n_connection_kill pr c = (r, c')"
  shows "r \<noteq> Inl Undefined \<and> read_closed c' \<and> write_closed c' \<and> conn_in c' = conn_in c \<and>
    (r = Inr () \<and> hi \<noteq> 0 \<longrightarrow> lo \<le> uint (delay c') \<and> uint (delay c') < hi)"
proof -
  let ?c = "c\<lparr>read_closed := True, write_closed := True\<rparr>"
  have calc: "s2n_connection_calculate_blinding ?c = Inr (lo, hi)"
    using blinding by (simp add: s2n_connection_calculate_blinding_def)
  note lohi = blinding_bounds [OF blinding]
  show ?thesis
  proof (cases "hi = 0")
    case True
    then show ?thesis
      using run calc by (auto simp: s2n_connection_kill_def s2n_connection_set_closed_def action_simps)
  next
    case False
    obtain x c1 where rnd: "pr (hi - lo) ?c = (x, c1)"
      by (cases "pr (hi - lo) ?c")
    then obtain e where e: "c1 = ?c\<lparr>env := e\<rparr>" and x: "x \<noteq> Inl Undefined" "\<And>d. x = Inr d \<Longrightarrow> uint d < hi - lo"
      using public_random_okD [OF assms(1) _ rnd] lohi False by auto
    have kill: "(r, c') = (case x of Inl f \<Rightarrow> (Inl f, c1)
        | Inr d \<Rightarrow> s2n_timer_start (c1\<lparr>delay := of_int lo + d\<rparr>))"
      using run calc rnd False
      by (simp add: s2n_connection_kill_def s2n_connection_set_closed_def action_simps split: sum.splits)
    have sum: "lo \<le> uint (of_int lo + d) \<and> uint (of_int lo + d) < hi" if "x = Inr d" for d
    proof -
      have "uint (of_int lo :: u64) = lo"
        using lohi by (simp add: uint_word_of_int)
      then have "uint (of_int lo + d) = lo + uint d"
        using lohi x(2) [OF that] by (simp add: uint_plus_if')
      then show ?thesis
        using x(2) [OF that] by simp
    qed
    show ?thesis
    proof (cases x)
      case (Inl f)
      then show ?thesis
        using kill e x(1) by simp
    next
      case (Inr d)
      then show ?thesis
        using kill e sum [OF Inr] assms(2)
        by (auto simp: s2n_timer_start_def read_clock_def action_simps split: option.splits)
    qed
  qed
qed


section \<open>Claims\<close>





end
