(* ===== verification/Extension_Type.thy ===== *)
theory Extension_Type
  imports Connection
begin

text \<open>
  Hello extensions (\<open>tls/extensions/s2n_extension_type.c\<close>, \<open>s2n_extension_type.h\<close>, \<open>utils/s2n_bitmap.h\<close>): the internal
  ids of the supported extensions, the bit fields that record which of them were requested and answered, and the
  generic sending and receiving of one extension.

  The handlers of the individual extensions are the fields of the record \<open>s2n_extension_type\<close>, arbitrary actions
  on the connection and the stuffer they write to or read from; \<open>None\<close> is a NULL function pointer.
  \<open>s2n_extension_ianas_to_ids\<close> is the lookup table as \<open>s2n_init\<close> leaves it.
\<close>

section \<open>Bit fields\<close>

definition S2N_CBIT_BIT :: "u8 \<Rightarrow> u8" where
  "S2N_CBIT_BIT i = push_bit (unat i mod 8) 1"

definition S2N_CBIT_SET :: "bytes \<Rightarrow> u8 \<Rightarrow> bytes result" where
  "S2N_CBIT_SET m i =
     (let k = unat (drop_bit 3 i) in
      if k < length m then Inr (m[k := m ! k OR S2N_CBIT_BIT i]) else Inl Undefined)"

definition S2N_CBIT_TEST :: "bytes \<Rightarrow> u8 \<Rightarrow> bool result" where
  "S2N_CBIT_TEST m i =
     (let k = unat (drop_bit 3 i) in
      if k < length m then Inr (m ! k AND S2N_CBIT_BIT i \<noteq> 0) else Inl Undefined)"


section \<open>Internal ids\<close>

definition s2n_supported_extensions :: "u16 list" where
  "s2n_supported_extensions =
     [65281, 65025, 0, 1, 5, 10, 11, 13, 16, 18, 35, 43, 51, 44, 57, 45, 41, 42, 23, 13172, 47]"

abbreviation (input) TLS_EXTENSION_EMS :: u16 where "TLS_EXTENSION_EMS \<equiv> 23"
abbreviation (input) S2N_MAX_INDEXED_EXTENSION_IANA :: nat where "S2N_MAX_INDEXED_EXTENSION_IANA \<equiv> 60"

definition s2n_unsupported_extension :: u8 where
  "s2n_unsupported_extension = of_nat (length s2n_supported_extensions)"

text \<open>The second loop of the initialiser, from index \<open>i\<close> on.\<close>

fun reverse_mapping :: "u16 list \<Rightarrow> nat \<Rightarrow> u8 list \<Rightarrow> u8 list" where
  "reverse_mapping [] i ids = ids"
| "reverse_mapping (v # vs) i ids =
     reverse_mapping vs (Suc i)
       (if unat v < S2N_MAX_INDEXED_EXTENSION_IANA then ids[unat v := of_nat i] else ids)"

definition s2n_extension_type_init :: "u8 list \<Rightarrow> u8 list" where
  "s2n_extension_type_init ids =
     reverse_mapping s2n_supported_extensions 0 (replicate S2N_MAX_INDEXED_EXTENSION_IANA s2n_unsupported_extension)"

definition s2n_extension_ianas_to_ids :: "u8 list" where
  "s2n_extension_ianas_to_ids = s2n_extension_type_init (replicate S2N_MAX_INDEXED_EXTENSION_IANA 0)"

fun find_id :: "u16 list \<Rightarrow> u16 \<Rightarrow> nat \<Rightarrow> u8" where
  "find_id [] v i = s2n_unsupported_extension"
| "find_id (x # xs) v i = (if x = v then of_nat i else find_id xs v (Suc i))"

definition s2n_extension_iana_value_to_id :: "u16 \<Rightarrow> u8" where
  "s2n_extension_iana_value_to_id v =
     (if unat v < S2N_MAX_INDEXED_EXTENSION_IANA then s2n_extension_ianas_to_ids ! unat v
      else find_id s2n_supported_extensions v 0)"

definition s2n_extension_supported_iana_value_to_id :: "u16 \<Rightarrow> u8 result" where
  "s2n_extension_supported_iana_value_to_id v =
     (let i = s2n_extension_iana_value_to_id v in
      if i = s2n_unsupported_extension then Inl (Err S2N_ERR_UNRECOGNIZED_EXTENSION) else Inr i)"


section \<open>One extension\<close>

type_synonym ('env, 'a) ext_action = "('env s2n_connection \<times> s2n_stuffer, 'a) action"

record 'env s2n_extension_type =
  ext_iana_value :: u16
  is_response :: bool
  minimum_version :: u16
  ext_send :: "('env, unit) ext_action option"
  ext_recv :: "('env, unit) ext_action option"
  should_send :: "('env s2n_connection \<Rightarrow> bool) option"
  if_missing :: "('env, unit) conn_action option"

text \<open>Running an action on the stuffer, with the allocator statics of the connection, or on the connection
  alone.\<close>

definition on_ext :: "(mem_stuffer, 'a) action \<Rightarrow> ('env, 'a) ext_action" where
  "on_ext = zoom (\<lambda>(c, s). (mem c, s)) (\<lambda>(m, s) (c, _). (c\<lparr>mem := m\<rparr>, s))"

definition on_conn :: "('env, 'a) conn_action \<Rightarrow> ('env, 'a) ext_action" where
  "on_conn = zoom fst (\<lambda>c (_, s). (c, s))"

definition set_request_sent :: "u8 \<Rightarrow> ('env, unit) conn_action" where
  "set_request_sent i conn =
     (case S2N_CBIT_SET (extension_requests_sent conn) i of
        Inl e \<Rightarrow> (Inl e, conn)
      | Inr m \<Rightarrow> (Inr (), conn\<lparr>extension_requests_sent := m\<rparr>))"

definition set_request_received :: "u8 \<Rightarrow> ('env, unit) conn_action" where
  "set_request_received i conn =
     (case S2N_CBIT_SET (extension_requests_received conn) i of
        Inl e \<Rightarrow> (Inl e, conn)
      | Inr m \<Rightarrow> (Inr (), conn\<lparr>extension_requests_received := m\<rparr>))"

definition set_response_received :: "u8 \<Rightarrow> ('env, unit) conn_action" where
  "set_response_received i conn =
     (case S2N_CBIT_SET (extension_responses_received conn) i of
        Inl e \<Rightarrow> (Inl e, conn)
      | Inr m \<Rightarrow> (Inr (), conn\<lparr>extension_responses_received := m\<rparr>))"

definition extension_write :: "u16 \<Rightarrow> ('env, unit) ext_action \<Rightarrow> ('env, unit) ext_action" where
  "extension_write iana send =
     andthen (on_ext (s2n_stuffer_write_uint16 iana))
       (bnd (on_ext s2n_stuffer_reserve_uint16) (\<lambda>extension_size_bytes. block [
          send,
          modify (\<lambda>(c, s). (c, s\<lparr>tainted := False\<rparr>)),
          on_ext (s2n_stuffer_write_vector_size extension_size_bytes)]))"

definition s2n_extension_send :: "'env s2n_extension_type option \<Rightarrow> ('env, unit) ext_action" where
  "s2n_extension_send ext st =
     (case ext of None \<Rightarrow> (Inl (Err S2N_ERR_NULL), st) | Some ext \<Rightarrow>
      case should_send ext of None \<Rightarrow> (Inl (Err S2N_ERR_NULL), st) | Some should \<Rightarrow>
      case ext_send ext of None \<Rightarrow> (Inl (Err S2N_ERR_NULL), st) | Some send \<Rightarrow>
      case s2n_extension_supported_iana_value_to_id (ext_iana_value ext) of Inl e \<Rightarrow> (Inl e, st) | Inr extension_id \<Rightarrow>
      case (if is_response ext then S2N_CBIT_TEST (extension_requests_received (fst st)) extension_id else Inr True) of
        Inl e \<Rightarrow> (Inl e, st)
      | Inr requested \<Rightarrow>
          if \<not> requested then ret () st
          else if minimum_version ext > ucast (actual_protocol_version (fst st)) then ret () st
          else if \<not> should (fst st) then ret () st
          else andthen (extension_write (ext_iana_value ext) send)
                 (if is_response ext then ret () else on_conn (set_request_sent extension_id)) st)"

definition s2n_extension_recv :: "'env s2n_extension_type option \<Rightarrow> ('env, unit) ext_action" where
  "s2n_extension_recv ext st =
     (case ext of None \<Rightarrow> (Inl (Err S2N_ERR_NULL), st) | Some ext \<Rightarrow>
      case ext_recv ext of None \<Rightarrow> (Inl (Err S2N_ERR_NULL), st) | Some recv \<Rightarrow>
      case s2n_extension_supported_iana_value_to_id (ext_iana_value ext) of Inl e \<Rightarrow> (Inl e, st) | Inr extension_id \<Rightarrow>
      case (if is_response ext then S2N_CBIT_TEST (extension_requests_sent (fst st)) extension_id else Inr True) of
        Inl e \<Rightarrow> (Inl e, st)
      | Inr requested \<Rightarrow>
          if \<not> requested then bail S2N_ERR_UNSUPPORTED_EXTENSION st
          else if minimum_version ext > ucast (actual_protocol_version (fst st)) then ret () st
          else andthen recv
                 (on_conn (if is_response ext then set_response_received extension_id
                           else set_request_received extension_id)) st)"

definition s2n_extension_is_missing :: "'env s2n_extension_type option \<Rightarrow> ('env, unit) conn_action" where
  "s2n_extension_is_missing ext conn =
     (case ext of None \<Rightarrow> (Inl (Err S2N_ERR_NULL), conn) | Some ext \<Rightarrow>
      case if_missing ext of None \<Rightarrow> (Inl (Err S2N_ERR_NULL), conn) | Some missing \<Rightarrow>
      case s2n_extension_supported_iana_value_to_id (ext_iana_value ext) of Inl e \<Rightarrow> (Inl e, conn) | Inr extension_id \<Rightarrow>
      case (if is_response ext then S2N_CBIT_TEST (extension_requests_sent conn) extension_id else Inr True) of
        Inl e \<Rightarrow> (Inl e, conn)
      | Inr requested \<Rightarrow>
          if \<not> requested then ret () conn
          else if minimum_version ext > ucast (actual_protocol_version conn) then ret () conn
          else missing conn)"

definition s2n_extension_send_unimplemented :: "('env, unit) ext_action" where
  "s2n_extension_send_unimplemented = bail S2N_ERR_UNIMPLEMENTED"

definition s2n_extension_recv_unimplemented :: "('env, unit) ext_action" where
  "s2n_extension_recv_unimplemented = bail S2N_ERR_UNIMPLEMENTED"

definition s2n_extension_send_noop :: "('env, unit) ext_action" where
  "s2n_extension_send_noop = ret ()"

definition s2n_extension_recv_noop :: "('env, unit) ext_action" where
  "s2n_extension_recv_noop = ret ()"

definition s2n_extension_always_send :: "'env s2n_connection \<Rightarrow> bool" where
  "s2n_extension_always_send conn = True"

definition s2n_extension_never_send :: "'env s2n_connection \<Rightarrow> bool" where
  "s2n_extension_never_send conn = False"

definition s2n_extension_send_if_tls13_connection :: "'env s2n_connection \<Rightarrow> bool" where
  "s2n_extension_send_if_tls13_connection conn \<longleftrightarrow> s2n_connection_get_protocol_version conn \<ge> S2N_TLS13"

definition s2n_extension_error_if_missing :: "('env, unit) conn_action" where
  "s2n_extension_error_if_missing = bail S2N_ERR_MISSING_EXTENSION"

definition s2n_extension_noop_if_missing :: "('env, unit) conn_action" where
  "s2n_extension_noop_if_missing = ret ()"


section \<open>Ids\<close>

lemma find_id_eq:
  "find_id xs v i =
     (if v \<in> set xs then of_nat (i + length (takeWhile (\<lambda>x. x \<noteq> v) xs)) else s2n_unsupported_extension)"
  by (induction xs arbitrary: i) auto

lemma ids_list: "s2n_extension_ianas_to_ids =
    [2, 3, 21, 21, 21, 4, 21, 21, 21, 21, 5, 6, 21, 7, 21, 21, 8, 21, 9, 21, 21, 21, 21, 18, 21, 21, 21, 21, 21, 21,
     21, 21, 21, 21, 21, 10, 21, 21, 21, 21, 21, 16, 17, 11, 13, 15, 21, 20, 21, 21, 21, 12, 21, 21, 21, 21, 21, 14, 21, 21]"
  by (simp add: s2n_extension_ianas_to_ids_def s2n_extension_type_init_def s2n_supported_extensions_def
      s2n_unsupported_extension_def replicate_numeral)

lemma ids_table: "map (\<lambda>k. find_id s2n_supported_extensions (of_nat k) 0) [0..<60] = s2n_extension_ianas_to_ids"
  unfolding ids_list
  by (simp add: s2n_supported_extensions_def s2n_unsupported_extension_def upt_rec)

lemma id_eq:
  "s2n_extension_iana_value_to_id v = of_nat (length (takeWhile (\<lambda>x. x \<noteq> v) s2n_supported_extensions))"
proof -
  have "s2n_extension_iana_value_to_id v = find_id s2n_supported_extensions v 0"
  proof (cases "unat v < 60")
    case True
    then have "s2n_extension_ianas_to_ids ! unat v = find_id s2n_supported_extensions (of_nat (unat v)) 0"
      unfolding ids_table [symmetric] by (subst nth_map) (simp_all del: upt.simps add: nth_upt)
    then show ?thesis
      using True by (simp add: s2n_extension_iana_value_to_id_def)
  qed (simp add: s2n_extension_iana_value_to_id_def)
  moreover have "length (takeWhile (\<lambda>x. x \<noteq> v) s2n_supported_extensions) = length s2n_supported_extensions"
    if "v \<notin> set s2n_supported_extensions"
    using that by (auto intro!: arg_cong [where f = length] takeWhile_eq_all_conv [THEN iffD2])
  ultimately show ?thesis
    by (cases "v \<in> set s2n_supported_extensions") (auto simp: find_id_eq s2n_unsupported_extension_def)
qed

definition supported_id :: "u16 \<Rightarrow> nat" where
  "supported_id v = length (takeWhile (\<lambda>x. x \<noteq> v) s2n_supported_extensions)"

lemma length_supported: "length s2n_supported_extensions = 21"
  by (simp add: s2n_supported_extensions_def)

lemma supported_id_less: "v \<in> set s2n_supported_extensions \<longleftrightarrow> supported_id v < 21"
proof -
  have "v \<in> set xs \<longleftrightarrow> length (takeWhile (\<lambda>x. x \<noteq> v) xs) < length xs" for xs
    by (induction xs) auto
  then show ?thesis
    by (simp add: supported_id_def length_supported)
qed

lemma supported_id_le: "supported_id v \<le> 21"
  using length_takeWhile_le [of "\<lambda>x. x \<noteq> v" s2n_supported_extensions] by (simp add: supported_id_def length_supported)

lemma supported_id_nth: "v \<in> set s2n_supported_extensions \<Longrightarrow> s2n_supported_extensions ! supported_id v = v"
  using nth_length_takeWhile [of "\<lambda>x. x \<noteq> v" s2n_supported_extensions]
  by (simp add: supported_id_def [symmetric] supported_id_less length_supported)

lemma unat_supported_id: "unat (of_nat (supported_id v) :: u8) = supported_id v"
  using supported_id_le [of v] by (simp add: unat_of_nat take_bit_nat_eq_self_iff)

lemma to_id_eq:
  "s2n_extension_supported_iana_value_to_id v =
     (if v \<in> set s2n_supported_extensions then Inr (of_nat (supported_id v))
      else Inl (Err S2N_ERR_UNRECOGNIZED_EXTENSION))"
proof -
  have "(of_nat (supported_id v) :: u8) = 21 \<longleftrightarrow> supported_id v = 21"
  proof
    assume "(of_nat (supported_id v) :: u8) = 21"
    then have "unat (of_nat (supported_id v) :: u8) = unat (21 :: u8)"
      by (simp only:)
    then show "supported_id v = 21"
      by (simp add: unat_supported_id)
  qed simp
  then show ?thesis
    using supported_id_le [of v] supported_id_less [of v]
    by (simp add: s2n_extension_supported_iana_value_to_id_def id_eq s2n_unsupported_extension_def length_supported
        flip: supported_id_def)
qed


section \<open>Bit fields are sets\<close>

lemma cbit_bin: "unat (drop_bit 3 i) = unat i div 8" for i :: u8
  by (simp add: unat_drop_bit_eq drop_bit_eq_div unat_div)

lemma cbit_test: "S2N_CBIT_TEST m i =
    (if unat i div 8 < length m then Inr (bit (m ! (unat i div 8)) (unat i mod 8)) else Inl Undefined)"
  by (simp only: S2N_CBIT_TEST_def S2N_CBIT_BIT_def bit_iff_and_push_bit_not_eq_0 cbit_bin Let_def)

lemma cbit_set: "S2N_CBIT_SET m i =
    (if unat i div 8 < length m then Inr (m[unat i div 8 := m ! (unat i div 8) OR push_bit (unat i mod 8) 1])
     else Inl Undefined)"
  by (simp only: S2N_CBIT_SET_def S2N_CBIT_BIT_def cbit_bin Let_def)

lemma cbit_test_set:
  assumes "S2N_CBIT_SET m i = Inr m'"
  shows "S2N_CBIT_TEST m' j = (if j = i then Inr True else S2N_CBIT_TEST m j)" and "length m' = length m"
proof -
  have len: "unat i div 8 < length m"
    using assms by (simp add: cbit_set split: if_splits)
  then have m': "m' = m[unat i div 8 := m ! (unat i div 8) OR push_bit (unat i mod 8) 1]"
    using assms by (simp add: cbit_set)
  then show "length m' = length m"
    by simp
  have "j = i \<longleftrightarrow> unat j div 8 = unat i div 8 \<and> unat j mod 8 = unat i mod 8"
    by (metis div_mult_mod_eq word_unat_eqI)
  moreover have "unat j mod 8 < 8" "unat i mod 8 < 8"
    by simp_all
  ultimately show "S2N_CBIT_TEST m' j = (if j = i then Inr True else S2N_CBIT_TEST m j)"
    using len by (auto simp: cbit_test m' nth_list_update bit_or_iff bit_exp_iff possible_bit_def)
qed


section \<open>The wire format of an extension\<close>


lemma on_ext_eq: "on_ext m (c, s) = (case m (mem c, s) of (r, (m', s')) \<Rightarrow> (r, (c\<lparr>mem := m'\<rparr>, s')))"
  by (simp add: on_ext_def zoom_def split: prod.splits)

lemma on_conn_eq: "on_conn m (c, s) = (case m c of (r, c') \<Rightarrow> (r, (c', s)))"
  by (simp add: on_conn_def zoom_def split: prod.splits)

lemma on_ext_InrE:
  assumes "on_ext m (c, s) = (Inr x, (c', s'))"
  obtains m' where "m (mem c, s) = (Inr x, (m', s'))" and "c' = c\<lparr>mem := m'\<rparr>"
  using assms by (auto simp: on_ext_eq split: prod.splits)

definition encode_ext :: "u16 \<times> bytes \<Rightarrow> bytes" where
  "encode_ext e = net_bytes (ucast (fst e)) 2 @ net_bytes (of_nat (length (snd e))) 2 @ snd e"

text \<open>Like \<open>appended\<close>, except that the stuffer may have been tainted or cleaned.\<close>

definition grew :: "bytes \<Rightarrow> s2n_stuffer \<Rightarrow> s2n_stuffer \<Rightarrow> bool" where
  "grew bs s s' \<longleftrightarrow> appended bs s (s'\<lparr>tainted := tainted s\<rparr>)"

lemma written_tainted [simp]: "written (s\<lparr>tainted := b\<rparr>) = written s" "unread (s\<lparr>tainted := b\<rparr>) = unread s"
  by (simp_all add: written_def unread_def smem_def)

lemma grew_iff:
  "grew bs s s' \<longleftrightarrow> stuffer_wf s' \<and> read_cursor s' = read_cursor s \<and>
     unat (write_cursor s') = unat (write_cursor s) + length bs \<and> written s' = written s @ bs \<and>
     growable s' = growable s \<and> alloced s' = alloced s"
  by (simp add: grew_def appended_def)

lemma appended_grew: "appended bs s s' \<Longrightarrow> grew bs s s'"
  by (simp add: grew_iff appended_def)

lemma grew_trans: "grew a s t \<Longrightarrow> grew b t u \<Longrightarrow> grew (a @ b) s u"
  by (simp add: grew_iff)

text \<open>What is asked of a handler: when it succeeds it has appended to the stuffer and nothing else, and the
  allocator is still usable.\<close>

definition extension_appends :: "('env, unit) ext_action \<Rightarrow> bool" where
  "extension_appends send \<longleftrightarrow> (\<forall>c s c' s'. mem_ok (mem c) \<longrightarrow> stuffer_wf s \<longrightarrow>
     send (c, s) = (Inr (), (c', s')) \<longrightarrow> mem_ok (mem c') \<and> (\<exists>body. grew body s s'))"

lemma extension_write_spec:
  assumes mem: "mem_ok (mem c)" and wf: "stuffer_wf s" and app: "extension_appends send"
    and run: "extension_write iana send (c, s) = (Inr (), (c', s'))"
  obtains body where "length body < 65536" and "mem_ok (mem c')" and "grew (encode_ext (iana, body)) s s'"
proof -
  from run obtain st1 st2 st3 res where
    w: "on_ext (s2n_stuffer_write_uint16 iana) (c, s) = (Inr (), st1)"
    and r: "on_ext s2n_stuffer_reserve_uint16 st1 = (Inr res, st2)"
    and h: "send st2 = (Inr (), st3)"
    and v: "on_ext (s2n_stuffer_write_vector_size res) (fst st3, (snd st3)\<lparr>tainted := False\<rparr>) = (Inr (), (c', s'))"
    unfolding extension_write_def
    by (auto elim!: andthen_InrE bnd_InrE simp: modify_def andthen_def bnd_def split: prod.splits sum.splits)
  obtain m1 s1 where w1: "s2n_stuffer_write_uint16 iana (mem c, s) = (Inr (), (m1, s1))" and st1: "st1 = (c\<lparr>mem := m1\<rparr>, s1)"
    using w by (cases st1) (auto elim!: on_ext_InrE)
  obtain m2 s2 where r1: "s2n_stuffer_reserve 2 (m1, s1) = (Inr res, (m2, s2))" and st2: "st2 = (c\<lparr>mem := m2\<rparr>, s2)"
    using r unfolding st1 s2n_stuffer_reserve_uint16_def by (cases st2) (auto elim!: on_ext_InrE)
  from mem wf w1 [unfolded s2n_stuffer_write_uint16_def] have a1: "mem_same (mem c) m1" "appended (net_bytes (ucast iana) 2) s s1"
    by (rule write_network_order_spec; simp)+
  then have ok1: "mem_ok m1" "stuffer_wf s1"
    using mem mem_same_ok by (auto simp: appended_def)
  note r2 = reserve_spec [OF ok1 r1]
  have ok2: "mem_ok m2" "stuffer_wf s2"
    using ok1 r2 mem_same_ok by (auto simp: appended_def)
  obtain c3 s3 where st3: "st3 = (c3, s3)"
    by (cases st3)
  obtain body where b: "mem_ok (mem c3)" "grew body s2 s3"
    using app [unfolded extension_appends_def, rule_format, of "c\<lparr>mem := m2\<rparr>" s2 c3 s3] h ok2
    unfolding st2 st3 by auto
  let ?s1 = "s1\<lparr>tainted := False\<rparr>" and ?s3 = "s3\<lparr>tainted := False\<rparr>"
  have app3: "appended (replicate (unat (2 :: u8)) S2N_WIPE_PATTERN @ body) ?s1 ?s3"
    using r2(3) b(2) by (simp add: appended_def grew_iff)
  obtain m4 where v1: "s2n_stuffer_write_vector_size res (mem c3, ?s3) = (Inr (), (m4, s'))" and c': "c' = c3\<lparr>mem := m4\<rparr>"
    using v unfolding st3 by (auto elim: on_ext_InrE)
  have wf1: "stuffer_wf ?s1" and res: "res = \<lparr>res_write_cursor = write_cursor ?s1, res_length = 2\<rparr>"
    using ok1 r2(2) by simp_all
  note v2 = write_vector_size_spec [OF wf1 app3 res v1]
  show thesis
  proof (rule that)
    show "length body < 65536"
      using v2(2) by simp
    show "mem_ok (mem c')"
      using b(1) v2(1) by (simp add: c')
    show "grew (encode_ext (iana, body)) s s'"
      using a1(2) v2(3) by (simp add: grew_iff appended_def encode_ext_def)
  qed
qed


section \<open>Requests and responses\<close>

definition bitfields_ok :: "'env s2n_connection \<Rightarrow> bool" where
  "bitfields_ok c \<longleftrightarrow> length (extension_requests_sent c) = 22 \<and> length (extension_requests_received c) = 22 \<and>
     length (extension_responses_received c) = 22"

definition request_sent :: "'env s2n_connection \<Rightarrow> u16 \<Rightarrow> bool" where
  "request_sent c v \<longleftrightarrow> S2N_CBIT_TEST (extension_requests_sent c) (of_nat (supported_id v)) = Inr True"

lemma id_bin: "supported_id v div 8 < 22"
  using supported_id_le [of v] by (intro less_mult_imp_div_less) simp

lemma cbit_test_id:
  assumes "length m = 22"
  obtains b where "S2N_CBIT_TEST m (of_nat (supported_id v)) = Inr b"
  using assms id_bin [of v] by (simp add: cbit_test unat_supported_id)

lemma supported_id_inj: "v \<in> set s2n_supported_extensions \<Longrightarrow> supported_id w = supported_id v \<longleftrightarrow> w = v"
  using supported_id_nth supported_id_less by metis



section \<open>Claims\<close>

text \<open>
  C26. The internal ids are the positions in the list of supported extensions.  For every IANA value, the lookup
  through the table that \<open>s2n_extension_type_init\<close> fills in, with the search of the list for the values the table
  does not index, gives the position of the value in \<open>s2n_supported_extensions\<close>, which is
  \<open>s2n_unsupported_extension\<close> for the values that are not in the list; and different supported
  extensions have different ids.
\<close>
theorem extension_ids_correct:
  "s2n_extension_iana_value_to_id v = of_nat (length (takeWhile (\<lambda>x. x \<noteq> v) s2n_supported_extensions)) \<and>
   (s2n_extension_iana_value_to_id v = s2n_unsupported_extension \<longleftrightarrow> v \<notin> set s2n_supported_extensions) \<and>
   (s2n_extension_iana_value_to_id v = s2n_extension_iana_value_to_id w \<longleftrightarrow>
      v = w \<or> v \<notin> set s2n_supported_extensions \<and> w \<notin> set s2n_supported_extensions)"
proof -
  have ids: "s2n_extension_iana_value_to_id x = of_nat (supported_id x)" for x
    by (simp add: id_eq supported_id_def)
  have eq: "(of_nat (supported_id x) :: u8) = of_nat (supported_id y) \<longleftrightarrow> supported_id x = supported_id y" for x y
    by (metis unat_supported_id)
  have un: "s2n_unsupported_extension = of_nat (21 :: nat)"
    by (simp add: s2n_unsupported_extension_def length_supported)
  have out: "v \<notin> set s2n_supported_extensions \<longleftrightarrow> supported_id v = 21" for v
    using supported_id_le [of v] by (auto simp: supported_id_less)
  have "s2n_extension_iana_value_to_id v = s2n_unsupported_extension \<longleftrightarrow> v \<notin> set s2n_supported_extensions"
    using to_id_eq [of v] by (auto simp: s2n_extension_supported_iana_value_to_id_def Let_def split: if_splits)
  moreover have "supported_id v = supported_id w \<longleftrightarrow>
      v = w \<or> v \<notin> set s2n_supported_extensions \<and> w \<notin> set s2n_supported_extensions"
    using supported_id_inj [of v w] supported_id_inj [of w v] out by metis
  ultimately show ?thesis
    by (simp add: ids eq flip: supported_id_def)
qed

lemma set_request_sent_recorded:
  "set_request_sent (of_nat (supported_id v)) c = (Inr (), c') \<Longrightarrow> request_sent c' v"
  by (auto simp: set_request_sent_def request_sent_def cbit_test_set split: sum.splits)

lemma extension_send_recorded:
  assumes "s2n_extension_send (Some req) st = (Inr (), (c, s))" and "\<not> is_response req"
    and "ext_iana_value req \<in> set s2n_supported_extensions"
  shows "(c, s) = st \<or> request_sent c (ext_iana_value req)"
proof -
  obtain send should where fields: "ext_send req = Some send" "should_send req = Some should"
    using assms(1) by (auto simp: s2n_extension_send_def split: option.splits)
  consider "(c, s) = st" | st' where "on_conn (set_request_sent (of_nat (supported_id (ext_iana_value req)))) st' = (Inr (), (c, s))"
    using assms fields
    by (auto simp: s2n_extension_send_def to_id_eq ret_def elim!: andthen_InrE split: if_splits)
  then show ?thesis
  proof cases
    case (2 st')
    then show ?thesis
      by (cases st') (auto simp: on_conn_eq split: prod.splits intro: set_request_sent_recorded)
  qed simp
qed

text \<open>
  C25. Extension responses are processed only when they were asked for.  Sending a request extension either writes
  nothing or puts the request on record.  A response extension
  without a recorded request is refused with an error before its handler runs, and is not considered missing;
  one with a recorded request is handed to its handler, when the protocol version allows it.
\<close>
theorem extension_responses_need_requests:
  assumes "bitfields_ok c" and "v \<in> set s2n_supported_extensions"
    and "ext_iana_value ext = v" and "is_response ext" and "ext_recv ext = Some recv" and "if_missing ext = Some missing"
  shows "(\<forall>req st t. s2n_extension_send (Some req) st = (Inr (), (c, t)) \<longrightarrow> ext_iana_value req = v \<longrightarrow>
            \<not> is_response req \<longrightarrow> (c, t) = st \<or> request_sent c v) \<and>
    (\<not> request_sent c v \<longrightarrow>
       s2n_extension_recv (Some ext) (c, s) = (Inl (Err S2N_ERR_UNSUPPORTED_EXTENSION), (c, s)) \<and>
       s2n_extension_is_missing (Some ext) c = (Inr (), c)) \<and>
    (request_sent c v \<and> minimum_version ext \<le> ucast (actual_protocol_version c) \<longrightarrow>
       s2n_extension_recv (Some ext) (c, s) =
         andthen recv (on_conn (set_response_received (of_nat (supported_id v)))) (c, s) \<and>
       s2n_extension_is_missing (Some ext) c = missing c)"
proof -
  have sent: "length (extension_requests_sent c) = 22"
    using assms(1) by (simp add: bitfields_ok_def)
  obtain b where b: "S2N_CBIT_TEST (extension_requests_sent c) (of_nat (supported_id v)) = Inr b"
    using cbit_test_id [OF sent] by blast
  have "\<forall>req st t. s2n_extension_send (Some req) st = (Inr (), (c, t)) \<longrightarrow> ext_iana_value req = v \<longrightarrow>
      \<not> is_response req \<longrightarrow> (c, t) = st \<or> request_sent c v"
    using extension_send_recorded assms(2) by blast
  moreover have "request_sent c v \<longleftrightarrow> b"
    by (simp add: request_sent_def b)
  ultimately show ?thesis
    using assms(2-6) b
    by (auto simp: s2n_extension_recv_def s2n_extension_is_missing_def to_id_eq ret_def bail_def not_less)
qed

definition example_response :: "unit s2n_extension_type" where
  "example_response = \<lparr>ext_iana_value = 16, is_response = True, minimum_version = 0,
     ext_send = Some s2n_extension_send_noop, ext_recv = Some s2n_extension_recv_noop,
     should_send = Some s2n_extension_always_send, if_missing = Some s2n_extension_error_if_missing\<rparr>"

lemma extension_responses_witness:
  "s2n_extension_recv (Some example_response) (example_conn S2N_CLIENT, empty_stuffer) =
     (Inl (Err S2N_ERR_UNSUPPORTED_EXTENSION), (example_conn S2N_CLIENT, empty_stuffer))"
proof -
  let ?c = "example_conn S2N_CLIENT"
  have ok: "bitfields_ok ?c" "(16 :: u16) \<in> set s2n_supported_extensions"
    by (simp_all add: bitfields_ok_def example_conn_def s2n_supported_extensions_def)
  have "supported_id 16 = 8"
    by (simp add: supported_id_def s2n_supported_extensions_def)
  then have "\<not> request_sent ?c 16"
    by (simp add: request_sent_def cbit_test example_conn_def)
  then show ?thesis
    using extension_responses_need_requests [OF ok, of example_response] by (simp add: example_response_def)
qed

end
