(* ===== verification/Extension_List.thy ===== *)
theory Extension_List
  imports Extension_Type "HOL-Library.Sublist"
begin

text \<open>
  Lists of hello extensions (\<open>tls/extensions/s2n_extension_list.c\<close>): sending the extensions of a message as a
  length-prefixed list, parsing such a list into one slot per supported extension, and processing the slots.

  The array of slots is a list indexed by the internal id.  The bytes of a parsed extension stay in the
  memory they were received in: a slot holds a blob that views it from its first byte on.  A list of extension
  types (\<open>s2n_extension_type_list_get\<close>) is a parameter, because its handlers are.
\<close>

section \<open>Parsing\<close>

record s2n_parsed_extension =
  pe_extension :: s2n_blob
  pe_extension_type :: u16
  pe_wire_index :: u16
  processed :: bool

record s2n_parsed_extensions_list =
  parsed_extensions :: "s2n_parsed_extension list"
  pe_raw :: s2n_blob
  pe_count :: u16

definition empty_slot :: s2n_parsed_extension where
  "empty_slot = \<lparr>pe_extension = empty_blob, pe_extension_type = 0, pe_wire_index = 0, processed = False\<rparr>"

definition s2n_parsed_extension_is_empty :: "s2n_parsed_extension \<Rightarrow> bool" where
  "s2n_parsed_extension_is_empty p \<longleftrightarrow> b_data (pe_extension p) = None"

text \<open>\<open>POSIX_ENSURE(call == S2N_SUCCESS, e)\<close>: a failing call is reported as \<open>e\<close>.\<close>

definition with_error :: "s2n_error \<Rightarrow> ('s, 'a) action \<Rightarrow> ('s, 'a) action" where
  "with_error e m s = (case m s of (Inl (Err _), s') \<Rightarrow> (Inl (Err e), s') | res \<Rightarrow> res)"

text \<open>The pointer returned by \<open>s2n_stuffer_raw_read\<close>, as the memory from there on; NULL when it fails.\<close>

definition raw_read_pointer :: "u32 \<Rightarrow> (s2n_stuffer, bytes option) action" where
  "raw_read_pointer n s =
     (case s2n_stuffer_raw_read n s of
        (Inl (Err _), s') \<Rightarrow> (Inr None, s')
      | (Inl Undefined, s') \<Rightarrow> (Inl Undefined, s')
      | (Inr None, s') \<Rightarrow> (Inr None, s')
      | (Inr (Some off), s') \<Rightarrow> (Inr (map_option (drop (unat off)) (b_data (blob s'))), s'))"

type_synonym parse_state = "s2n_stuffer \<times> s2n_parsed_extension list \<times> u16"

definition fill_slot :: "u16 \<Rightarrow> bytes option \<Rightarrow> u16 \<Rightarrow> (s2n_parsed_extension list \<times> u16, unit) action" where
  "fill_slot extension_type extension_data extension_size = (\<lambda>(slots, wire_index).
     case s2n_extension_supported_iana_value_to_id extension_type of
       Inl _ \<Rightarrow> (Inr (), (slots, wire_index))
     | Inr i \<Rightarrow>
         if \<not> unat i < length slots then (Inl Undefined, (slots, wire_index))
         else if \<not> s2n_parsed_extension_is_empty (slots ! unat i)
           then (Inl (Err S2N_ERR_DUPLICATE_EXTENSION), (slots, wire_index))
         else
           let p = (slots ! unat i)\<lparr>pe_extension_type := extension_type, pe_wire_index := wire_index\<rparr> in
           case s2n_blob_init extension_data (ucast extension_size) of
             Inl e \<Rightarrow> (Inl e, (slots[unat i := p], wire_index))
           | Inr b \<Rightarrow> (Inr (), (slots[unat i := p\<lparr>pe_extension := b\<rparr>], wire_index + 1)))"

definition s2n_extension_parse :: "(parse_state, unit) action" where
  "s2n_extension_parse = (\<lambda>(inp, slots).
     case with_error S2N_ERR_BAD_MESSAGE s2n_stuffer_read_uint16 inp of
       (Inl e, inp) \<Rightarrow> (Inl e, (inp, slots))
     | (Inr extension_type, inp) \<Rightarrow>
     case with_error S2N_ERR_BAD_MESSAGE s2n_stuffer_read_uint16 inp of
       (Inl e, inp) \<Rightarrow> (Inl e, (inp, slots))
     | (Inr extension_size, inp) \<Rightarrow>
     case raw_read_pointer (ucast extension_size) inp of
       (Inl e, inp) \<Rightarrow> (Inl e, (inp, slots))
     | (Inr extension_data, inp) \<Rightarrow>
         if extension_data = None then (Inl (Err S2N_ERR_BAD_MESSAGE), (inp, slots))
         else case fill_slot extension_type extension_data extension_size slots of
           (r, slots) \<Rightarrow> (r, (inp, slots)))"

lemma avail_drop:
  fixes n :: u32
  assumes "n \<le> s2n_stuffer_data_available s" and "n \<noteq> 0"
  shows "unat (s2n_stuffer_data_available (s\<lparr>read_cursor := read_cursor s + n\<rparr>)) < unat (s2n_stuffer_data_available s)"
proof -
  have "s2n_stuffer_data_available (s\<lparr>read_cursor := read_cursor s + n\<rparr>) = s2n_stuffer_data_available s - n"
    by (simp add: s2n_stuffer_data_available_def)
  moreover have "0 < unat n"
    using assms(2) by (simp add: unat_gt_0)
  moreover have "unat n \<le> unat (s2n_stuffer_data_available s)"
    using assms(1) by (simp add: word_le_unat)
  ultimately show ?thesis
    using word_sub_unat [OF assms(1)] by simp
qed


lemma read_bytes_avail:
  assumes "s2n_stuffer_read_bytes d n s = (Inr x, s')"
  shows "n \<le> s2n_stuffer_data_available s \<and> s' = s\<lparr>read_cursor := read_cursor s + n\<rparr>"
  using assms
  by (auto simp: s2n_stuffer_read_bytes_def skip_read_eq andthen_def bnd_def ensure_def ensure_st_def bail_def ret_def
      split: if_splits option.splits sum.splits prod.splits)

lemma read_uint16_avail:
  assumes "s2n_stuffer_read_uint16 s = (Inr x, s')"
  shows "unat (s2n_stuffer_data_available s') < unat (s2n_stuffer_data_available s)"
proof -
  obtain y where "s2n_stuffer_read_bytes (Some [0, 0]) 2 s = (Inr y, s')"
    using assms by (auto simp: s2n_stuffer_read_uint16_def ret_def elim!: bnd_InrE)
  from read_bytes_avail [OF this] show ?thesis
    using avail_drop [of 2 s] by simp
qed

lemma raw_read_avail:
  assumes "raw_read_pointer n s = (Inr x, s')"
  shows "unat (s2n_stuffer_data_available s') \<le> unat (s2n_stuffer_data_available s)"
proof -
  have "s2n_stuffer_data_available s' = s2n_stuffer_data_available s \<or>
      n \<le> s2n_stuffer_data_available s \<and> s2n_stuffer_data_available s' = s2n_stuffer_data_available s - n"
    using assms
    by (auto simp: raw_read_pointer_def s2n_stuffer_raw_read_def skip_read_eq andthen_def bnd_def modify_def gets_def
        s2n_stuffer_data_available_def split: if_splits option.splits sum.splits prod.splits failure.splits)
  then show ?thesis
    using word_sub_unat [of n "s2n_stuffer_data_available s"] by auto
qed

lemma with_error_Inr: "with_error e m s = (Inr x, s') \<longleftrightarrow> m s = (Inr x, s')"
  by (auto simp: with_error_def split: prod.splits sum.splits failure.splits)

lemma extension_parse_avail:
  assumes "s2n_extension_parse st = (Inr x, st')"
  shows "unat (s2n_stuffer_data_available (fst st')) < unat (s2n_stuffer_data_available (fst st))"
proof -
  obtain t s1 l s2 d where "s2n_stuffer_read_uint16 (fst st) = (Inr t, s1)" "s2n_stuffer_read_uint16 s1 = (Inr l, s2)"
    "raw_read_pointer (ucast l) s2 = (Inr d, fst st')"
    using assms
    by (cases st) (auto simp: s2n_extension_parse_def with_error_Inr split: prod.splits sum.splits if_splits)
  then show ?thesis
    using read_uint16_avail raw_read_avail by (meson le_less_trans less_trans)
qed

text \<open>The loop of \<open>s2n_extension_list_parse\<close>; every round consumes at least the header of an extension.\<close>

function extension_parse_loop :: "(parse_state, unit) action" where
  "extension_parse_loop st =
     (if s2n_stuffer_data_available (fst st) \<noteq> 0 then
        (case s2n_extension_parse st of
           (Inl e, st') \<Rightarrow> (Inl e, st')
         | (Inr _, st') \<Rightarrow> extension_parse_loop st')
      else (Inr (), st))"
  by auto

termination
  by (relation "measure (\<lambda>st. unat (s2n_stuffer_data_available (fst st)))")
    (auto dest: extension_parse_avail [OF sym])

declare extension_parse_loop.simps [simp del]

definition s2n_extension_list_parse :: "(mem_stuffer \<times> s2n_parsed_extensions_list, unit) action" where
  "s2n_extension_list_parse = (\<lambda>((m, inp), l).
     let l = l\<lparr>parsed_extensions := replicate (length s2n_supported_extensions) empty_slot\<rparr>;
         (r, inp) = s2n_stuffer_read_uint16 inp;
         total_extensions_size = (case r of Inr n \<Rightarrow> n | Inl _ \<Rightarrow> 0)
     in if r = Inl Undefined then (Inl Undefined, ((m, inp), l)) else
     case raw_read_pointer (ucast total_extensions_size) inp of
       (Inl e, inp) \<Rightarrow> (Inl e, ((m, inp), l))
     | (Inr extensions_data, inp) \<Rightarrow>
         if extensions_data = None then (Inl (Err S2N_ERR_BAD_MESSAGE), ((m, inp), l))
         else case s2n_blob_init extensions_data (ucast total_extensions_size) of
           Inl e \<Rightarrow> (Inl e, ((m, inp), l))
         | Inr b \<Rightarrow>
             (case s2n_stuffer_skip_write (ucast total_extensions_size) (m, s2n_stuffer_init b) of
                (Inl e, (m, _)) \<Rightarrow> (Inl e, ((m, inp), l\<lparr>pe_raw := b\<rparr>))
              | (Inr _, (m, extensions_stuffer)) \<Rightarrow>
                  (case extension_parse_loop (extensions_stuffer, (parsed_extensions l, 0)) of
                     (Inl e, (_, (slots, _))) \<Rightarrow> (Inl e, ((m, inp), l\<lparr>pe_raw := b, parsed_extensions := slots\<rparr>))
                   | (Inr _, (_, (slots, wire_index))) \<Rightarrow>
                       (Inr (), ((m, inp), l\<lparr>pe_raw := b, parsed_extensions := slots, pe_count := wire_index\<rparr>)))))"


section \<open>Processing\<close>

type_synonym 'env process_state = "'env s2n_connection \<times> s2n_parsed_extensions_list"

definition s2n_extension_process_impl ::
  "'env s2n_extension_type \<Rightarrow> s2n_parsed_extension \<Rightarrow> ('env, unit) conn_action" where
  "s2n_extension_process_impl ext p conn =
     (if processed p then (Inr (), conn)
      else if s2n_parsed_extension_is_empty p then s2n_extension_is_missing (Some ext) conn
      else if pe_extension_type p \<noteq> ext_iana_value ext then (Inl (Err S2N_ERR_INVALID_PARSED_EXTENSIONS), conn)
      else
        (case s2n_stuffer_skip_write (b_size (pe_extension p)) (mem conn, s2n_stuffer_init (pe_extension p)) of
           (Inl e, (m, _)) \<Rightarrow> (Inl e, conn\<lparr>mem := m\<rparr>)
         | (Inr _, (m, extension_stuffer)) \<Rightarrow>
             (case s2n_extension_recv (Some ext) (conn\<lparr>mem := m\<rparr>, extension_stuffer) of
                (r, (conn, _)) \<Rightarrow> (r, conn))))"

definition s2n_extension_process :: "'env s2n_extension_type option \<Rightarrow> ('env process_state, unit) action" where
  "s2n_extension_process ext = (\<lambda>(conn, l).
     case ext of None \<Rightarrow> (Inl (Err S2N_ERR_NULL), (conn, l)) | Some ext \<Rightarrow>
     case s2n_extension_supported_iana_value_to_id (ext_iana_value ext) of
       Inl e \<Rightarrow> (Inl e, (conn, l))
     | Inr i \<Rightarrow>
         if \<not> unat i < length (parsed_extensions l) then (Inl Undefined, (conn, l))
         else
           let p = parsed_extensions l ! unat i in
           (case s2n_extension_process_impl ext p conn of
              (Inl e, conn) \<Rightarrow> (Inl e, (conn, l))
            | (Inr _, conn) \<Rightarrow>
                (Inr (), (conn, l\<lparr>parsed_extensions := (parsed_extensions l)[unat i := p\<lparr>processed := True\<rparr>]\<rparr>))))"

definition s2n_extension_list_process ::
  "'env s2n_extension_type option list \<Rightarrow> ('env process_state, unit) action" where
  "s2n_extension_list_process types = block (map s2n_extension_process types)"

definition empty_extensions_list :: s2n_parsed_extensions_list where
  "empty_extensions_list = \<lparr>parsed_extensions = replicate (length s2n_supported_extensions) empty_slot,
     pe_raw = empty_blob, pe_count = 0\<rparr>"

definition s2n_extension_list_recv :: "'env s2n_extension_type option list \<Rightarrow> ('env, unit) ext_action" where
  "s2n_extension_list_recv types = (\<lambda>(conn, inp).
     case s2n_extension_list_parse ((mem conn, inp), empty_extensions_list) of
       (Inl e, ((m, inp), _)) \<Rightarrow> (Inl e, (conn\<lparr>mem := m\<rparr>, inp))
     | (Inr _, ((m, inp), l)) \<Rightarrow>
         (case s2n_extension_list_process types (conn\<lparr>mem := m\<rparr>, l) of (r, (conn, _)) \<Rightarrow> (r, (conn, inp))))"

definition s2n_extension_list_send :: "'env s2n_extension_type option list \<Rightarrow> ('env, unit) ext_action" where
  "s2n_extension_list_send types =
     bnd (on_ext s2n_stuffer_reserve_uint16) (\<lambda>total_extensions_size.
       block (map s2n_extension_send types @ [on_ext (s2n_stuffer_write_vector_size total_extensions_size)]))"



section \<open>The wire format of a list\<close>

definition u16_of :: "u8 \<Rightarrow> u8 \<Rightarrow> u16" where
  "u16_of a b = push_bit 8 (ucast a) OR ucast b"

lemma net_bytes_pair: "net_bytes (ucast w) 2 = [ucast (drop_bit 8 w), ucast w]" for w :: u16
  by (rule nth_equalityI)
    (auto simp: net_bytes_nth less_2_cases_iff drop_bit_ucast_up ucast_ucast_down)

lemma net_bytes_u16_of: "net_bytes (ucast (u16_of a b)) 2 = [a, b]"
proof -
  have "(ucast (drop_bit 8 (u16_of a b)) :: u8) = a" "(ucast (u16_of a b) :: u8) = b"
    by (rule bit_word_eqI; auto simp: u16_of_def bit_simps dest: bit_imp_le_length)+
  then show ?thesis
    by (simp only: net_bytes_pair)
qed

lemma u16_of_net_bytes: "net_bytes (ucast w) 2 = [a, b] \<longleftrightarrow> w = u16_of a b"
proof
  assume "net_bytes (ucast w) 2 = [a, b]"
  then have "a = net_bytes (ucast w) 2 ! 0" "b = net_bytes (ucast w) 2 ! 1"
    by simp_all
  then show "w = u16_of a b"
    unfolding u16_of_def by (simp only: net_bytes_16)
qed (simp add: net_bytes_u16_of)

fun split_exts :: "bytes \<Rightarrow> (u16 \<times> bytes) list option" where
  "split_exts [] = Some []"
| "split_exts (a # b # c # d # r) =
     (let n = unat (u16_of c d) in
      if n \<le> length r then map_option (Cons (u16_of a b, take n r)) (split_exts (drop n r)) else None)"
| "split_exts _ = None"

lemma raw_read_front:
  assumes wf: "stuffer_wf s" and u: "unread s = body @ rest" and n: "length body = unat n" and m: "b_data (blob s) = Some m"
  obtains s' d where "raw_read_pointer n s = (Inr (Some d), s')" and "stuffer_wf s'" and "unread s' = rest"
    and "take (unat n) d = body" and "unat n \<le> length d" and "blob s' = blob s"
proof -
  let ?s = "s\<lparr>read_cursor := read_cursor s + n\<rparr>"
  have le: "unat n \<le> length (unread s)"
    using u n by simp
  note skip = skip_read_ok [OF wf le]
  have run: "raw_read_pointer n s = (Inr (Some (drop (unat (read_cursor s)) m)), ?s\<lparr>tainted := True\<rparr>)"
    by (simp add: raw_read_pointer_def s2n_stuffer_raw_read_def andthen_def bnd_def modify_def gets_def skip(1) m)
  have "unread s = take (unat (write_cursor s) - unat (read_cursor s)) (drop (unat (read_cursor s)) m)"
    by (simp add: unread_def written_def smem_def m drop_take)
  then have "take (unat n) (drop (unat (read_cursor s)) m) = take (unat n) (unread s)"
    using le length_unread [OF wf] by (simp add: min.absorb1)
  moreover have "unat n \<le> length (drop (unat (read_cursor s)) m)"
    using le length_unread [OF wf] stuffer_wf_cursors [OF wf] m by (simp add: smem_def)
  ultimately show thesis
    using run skip(3,4) u n by (intro that [OF run]) simp_all
qed

lemma raw_read_short:
  assumes "stuffer_wf s" and "length (unread s) < unat n"
  shows "raw_read_pointer n s = (Inr None, s)"
  by (simp add: raw_read_pointer_def s2n_stuffer_raw_read_def andthen_def bnd_def skip_read_short [OF assms])

lemma read_uint16_short:
  assumes "stuffer_wf s" and "length (unread s) < 2"
  shows "s2n_stuffer_read_uint16 s = (Inl (Err S2N_ERR_STUFFER_OUT_OF_DATA), s)"
  unfolding s2n_stuffer_read_uint16_def using assms by (intro read_int_short) simp_all

lemma extension_parse_header:
  assumes "stuffer_wf s" and "unread s = a # b # c # d # r"
  obtains s' where "stuffer_wf s'" and "unread s' = r" and "blob s' = blob s" and
    "\<And>slots. s2n_extension_parse (s, slots) =
       (case raw_read_pointer (ucast (u16_of c d)) s' of
          (Inl e, inp) \<Rightarrow> (Inl e, (inp, slots))
        | (Inr extension_data, inp) \<Rightarrow>
            if extension_data = None then (Inl (Err S2N_ERR_BAD_MESSAGE), (inp, slots))
            else case fill_slot (u16_of a b) extension_data (u16_of c d) slots of
              (r, slots) \<Rightarrow> (r, (inp, slots)))"
proof -
  let ?s1 = "s\<lparr>read_cursor := read_cursor s + 2\<rparr>"
  have u: "unread s = net_bytes (ucast (u16_of a b)) 2 @ c # d # r"
    using assms(2) by (simp add: net_bytes_u16_of)
  note r1 = read_uint16_front [OF assms(1) u]
  have u1: "unread ?s1 = net_bytes (ucast (u16_of c d)) 2 @ r"
    using r1(3) by (simp add: net_bytes_u16_of)
  note r2 = read_uint16_front [OF r1(2) u1]
  show thesis
    by (rule that [OF r2(2,3)]) (simp_all add: s2n_extension_parse_def with_error_def r1(1) r2(1))
qed

lemma extension_parse_short:
  assumes "stuffer_wf s" and "length (unread s) < 4"
  shows "fst (s2n_extension_parse (s, slots)) = Inl (Err S2N_ERR_BAD_MESSAGE)"
proof (cases "length (unread s) < 2")
  case True
  then show ?thesis
    by (simp add: s2n_extension_parse_def with_error_def read_uint16_short [OF assms(1)])
next
  case False
  then obtain a b r where u: "unread s = net_bytes (ucast (u16_of a b)) 2 @ r"
    by (metis append_Cons append_Nil length_0_conv list.exhaust list.size(4) net_bytes_u16_of not_less_eq numeral_2_eq_2
        One_nat_def add.right_neutral add_Suc_right zero_less_Suc)
  note r1 = read_uint16_front [OF assms(1) u]
  have "length (unread (s\<lparr>read_cursor := read_cursor s + 2\<rparr>)) < 2"
    using assms(2) u r1(3) by simp
  then show ?thesis
    by (simp add: s2n_extension_parse_def with_error_def r1(1) read_uint16_short [OF r1(2)])
qed



section \<open>The slots after parsing\<close>

abbreviation known :: "u16 \<Rightarrow> bool" where
  "known v \<equiv> v \<in> set s2n_supported_extensions"

definition known_types :: "(u16 \<times> bytes) list \<Rightarrow> u16 list" where
  "known_types exts = filter known (map fst exts)"

definition slot :: "s2n_parsed_extension list \<Rightarrow> u16 \<Rightarrow> s2n_parsed_extension" where
  "slot slots v = slots ! supported_id v"

definition slot_body :: "s2n_parsed_extension list \<Rightarrow> u16 \<Rightarrow> bytes option" where
  "slot_body slots v =
     (if s2n_parsed_extension_is_empty (slot slots v) then None else Some (blob_bytes (pe_extension (slot slots v))))"

text \<open>The slots hold the known extensions of a list of extensions, each under its own type and numbered in the
  order of the list.\<close>

definition represents :: "s2n_parsed_extension list \<Rightarrow> u16 \<Rightarrow> (u16 \<times> bytes) list \<Rightarrow> bool" where
  "represents slots w exts \<longleftrightarrow> length slots = 21 \<and> w = of_nat (length (known_types exts)) \<and>
     (\<forall>v. known v \<longrightarrow> slot_body slots v = map_of exts v \<and> \<not> processed (slot slots v) \<and>
        (map_of exts v \<noteq> None \<longrightarrow> pe_extension_type (slot slots v) = v \<and> blob_wf (pe_extension (slot slots v)) \<and>
           pe_wire_index (slot slots v) = of_nat (length (takeWhile (\<lambda>x. x \<noteq> v) (known_types exts)))))"

lemma known_types_simps [simp]:
  "known_types [] = []" "known_types (e # es) = (if known (fst e) then [fst e] else []) @ known_types es"
  "known_types (xs @ ys) = known_types xs @ known_types ys"
  by (simp_all add: known_types_def)

lemma set_known_types: "known v \<Longrightarrow> v \<in> set (known_types exts) \<longleftrightarrow> map_of exts v \<noteq> None"
  by (auto simp: known_types_def map_of_eq_None_iff image_iff)

lemma represents_empty: "represents (replicate 21 empty_slot) 0 []"
  using supported_id_less
  by (simp add: represents_def slot_body_def slot_def empty_slot_def s2n_parsed_extension_is_empty_def empty_blob_def)

lemma slot_update:
  assumes "length slots = 21" and "known t" and "known v"
  shows "slot (slots[supported_id t := p]) v = (if v = t then p else slot slots v)"
  using assms supported_id_inj [OF assms(2), of v] supported_id_less [of t]
  by (auto simp: slot_def nth_list_update)

lemma fill_slot_known:
  assumes rep: "represents slots w exts" and t: "known t" and new: "map_of exts t = None"
    and d: "take (unat l) d = body" "unat l \<le> length d"
  obtains slots' w' where "fill_slot t (Some d) l (slots, w) = (Inr (), (slots', w'))"
    and "represents slots' w' (exts @ [(t, body)])"
proof -
  let ?b = "\<lparr>b_data = Some d, b_size = ucast l, b_allocated = 0, b_growable = False\<rparr>"
  let ?p = "(slot slots t)\<lparr>pe_extension_type := t, pe_wire_index := w, pe_extension := ?b\<rparr>"
  let ?slots = "slots[supported_id t := ?p]"
  have len: "length slots = 21" and w: "w = of_nat (length (known_types exts))"
    using rep by (simp_all add: represents_def)
  have l: "unat (ucast l :: u32) = unat l"
    using unat_less_2p [of l] by (intro unat_ucast_small) simp
  have b: "blob_bytes ?b = body" "blob_wf ?b"
    using d l by (simp_all add: blob_bytes_def blob_wf_def s2n_blob_validate_def s2n_mem_is_readable_def)
  have "slot_body slots t = None"
    using rep t new by (simp add: represents_def)
  then have empty: "s2n_parsed_extension_is_empty (slots ! supported_id t)"
    by (simp add: slot_body_def slot_def split: if_splits)
  have run: "fill_slot t (Some d) l (slots, w) = (Inr (), (?slots, w + 1))"
    using t len empty supported_id_less [of t]
    by (simp add: fill_slot_def to_id_eq unat_supported_id Let_def s2n_blob_init_def s2n_mem_is_readable_def slot_def)
  have notin: "t \<notin> set (known_types exts)"
    using new t by (simp add: set_known_types)
  have "represents ?slots (w + 1) (exts @ [(t, body)])"
    unfolding represents_def
  proof (intro conjI allI impI)
    show "length ?slots = 21" "w + 1 = of_nat (length (known_types (exts @ [(t, body)])))"
      using len w t by simp_all
    fix v assume v: "known v"
    note s = slot_update [OF len t v] slot_update [OF len t t]
    have rv: "slot_body slots v = map_of exts v" "\<not> processed (slot slots v)"
      using rep v by (simp_all add: represents_def)
    have "slot_body ?slots v = (if v = t then Some body else slot_body slots v)"
      using b by (simp add: slot_body_def s s2n_parsed_extension_is_empty_def)
    then show "slot_body ?slots v = map_of (exts @ [(t, body)]) v" "\<not> processed (slot ?slots v)"
      using rv new rep t by (auto simp: s map_add_def represents_def split: option.splits)
    assume "map_of (exts @ [(t, body)]) v \<noteq> None"
    then have "v = t \<or> map_of exts v \<noteq> None"
      by (auto simp: map_add_def split: option.splits if_splits)
    moreover have "length (takeWhile (\<lambda>x. x \<noteq> v) (known_types (exts @ [(t, body)]))) =
        length (takeWhile (\<lambda>x. x \<noteq> v) (known_types exts))" if "map_of exts v \<noteq> None"
      using that v set_known_types [of v exts] by (simp add: takeWhile_append1)
    moreover have "takeWhile (\<lambda>x. x \<noteq> t) (known_types (exts @ [(t, body)])) = known_types exts"
      using notin t by (subst known_types_simps(3), subst takeWhile_append2) auto
    ultimately show "pe_extension_type (slot ?slots v) = v" "blob_wf (pe_extension (slot ?slots v))"
      "pe_wire_index (slot ?slots v) = of_nat (length (takeWhile (\<lambda>x. x \<noteq> v) (known_types (exts @ [(t, body)]))))"
      using rep v new b w by (auto simp: represents_def s)
  qed
  with run show thesis
    by (rule that)
qed

lemma fill_slot_unknown:
  assumes "represents slots w exts" and "\<not> known t"
  shows "fill_slot t d l (slots, w) = (Inr (), (slots, w))" and "represents slots w (exts @ [(t, body)])"
  using assms by (auto simp: fill_slot_def to_id_eq represents_def map_add_def split: option.splits)

lemma fill_slot_duplicate:
  assumes "represents slots w exts" and "known t" and "map_of exts t \<noteq> None"
  shows "fill_slot t d l (slots, w) = (Inl (Err S2N_ERR_DUPLICATE_EXTENSION), (slots, w))"
proof -
  have "slot_body slots t \<noteq> None" and len: "length slots = 21"
    using assms by (simp_all add: represents_def)
  then have "\<not> s2n_parsed_extension_is_empty (slots ! supported_id t)"
    by (auto simp: slot_body_def slot_def)
  then show ?thesis
    using assms(2) len supported_id_less [of t]
    by (simp add: fill_slot_def to_id_eq unat_supported_id)
qed


lemma data_available_zero: "stuffer_wf s \<Longrightarrow> s2n_stuffer_data_available s = 0 \<longleftrightarrow> unread s = []"
  using unat_data_available [of s] by (auto simp: unat_eq_zero)

lemma extension_parse_body:
  assumes wf: "stuffer_wf s" and m: "b_data (blob s) = Some m" and u: "unread s = a # b # c # d # body @ rest"
    and len: "length body = unat (u16_of c d)"
  obtains s' mem where "stuffer_wf s'" and "unread s' = rest" and "blob s' = blob s"
    and "take (unat (u16_of c d)) mem = body" and "unat (u16_of c d) \<le> length mem"
    and "\<And>slots. s2n_extension_parse (s, slots) =
      (case fill_slot (u16_of a b) (Some mem) (u16_of c d) slots of (r, slots) \<Rightarrow> (r, (s', slots)))"
proof -
  let ?n = "ucast (u16_of c d) :: u32"
  have n: "unat ?n = unat (u16_of c d)"
    using unat_less_2p [of "u16_of c d"] by (intro unat_ucast_small) simp
  show thesis
  proof (rule extension_parse_header [OF wf u])
    fix s1 assume s1: "stuffer_wf s1" "unread s1 = body @ rest" "blob s1 = blob s"
      and run: "\<And>slots. s2n_extension_parse (s, slots) =
       (case raw_read_pointer ?n s1 of
          (Inl e, inp) \<Rightarrow> (Inl e, (inp, slots))
        | (Inr extension_data, inp) \<Rightarrow>
            if extension_data = None then (Inl (Err S2N_ERR_BAD_MESSAGE), (inp, slots))
            else case fill_slot (u16_of a b) extension_data (u16_of c d) slots of
              (r, slots) \<Rightarrow> (r, (inp, slots)))"
    have m1: "b_data (blob s1) = Some m" and len1: "length body = unat ?n"
      using m len by (simp_all add: s1(3) n)
    show thesis
    proof (rule raw_read_front [OF s1(1,2) len1 m1])
      fix s' mem
      assume "raw_read_pointer ?n s1 = (Inr (Some mem), s')" "stuffer_wf s'" "unread s' = rest"
        "take (unat ?n) mem = body" "unat ?n \<le> length mem" "blob s' = blob s1"
      then show thesis
        by (intro that [of s' mem]) (simp_all add: s1(3) run n)
    qed
  qed
qed

lemma extension_parse_long:
  assumes wf: "stuffer_wf s" and u: "unread s = a # b # c # d # r" and short: "length r < unat (u16_of c d)"
  shows "fst (s2n_extension_parse (s, slots)) = Inl (Err S2N_ERR_BAD_MESSAGE)"
proof -
  have n: "unat (ucast (u16_of c d) :: u32) = unat (u16_of c d)"
    using unat_less_2p [of "u16_of c d"] by (intro unat_ucast_small) simp
  show ?thesis
  proof (rule extension_parse_header [OF wf u])
    fix s' assume "stuffer_wf s'" "unread s' = r" and run: "\<And>slots. s2n_extension_parse (s, slots) =
       (case raw_read_pointer (ucast (u16_of c d)) s' of
          (Inl e, inp) \<Rightarrow> (Inl e, (inp, slots))
        | (Inr extension_data, inp) \<Rightarrow>
            if extension_data = None then (Inl (Err S2N_ERR_BAD_MESSAGE), (inp, slots))
            else case fill_slot (u16_of a b) extension_data (u16_of c d) slots of
              (r, slots) \<Rightarrow> (r, (inp, slots)))"
    then have "raw_read_pointer (ucast (u16_of c d)) s' = (Inr None, s')"
      using short by (intro raw_read_short) (simp_all only: n)
    then show ?thesis
      by (simp add: run)
  qed
qed

lemma parse_loop_step:
  assumes "stuffer_wf s" and "unread s \<noteq> []"
  shows "extension_parse_loop (s, slots) =
    (case s2n_extension_parse (s, slots) of (Inl e, st') \<Rightarrow> (Inl e, st') | (Inr _, st') \<Rightarrow> extension_parse_loop st')"
  by (subst extension_parse_loop.simps) (simp add: data_available_zero assms)

lemma parse_loop_bad:
  assumes "stuffer_wf s" and "unread s \<noteq> []" and "fst (s2n_extension_parse (s, slots)) = Inl e"
  shows "fst (extension_parse_loop (s, slots)) = Inl e"
  using assms(3) by (cases "s2n_extension_parse (s, slots)") (simp add: parse_loop_step [OF assms(1,2)])


text \<open>The loop against the list of extensions on the wire.\<close>

lemma parse_loop_spec:
  assumes "stuffer_wf s" and "b_data (blob s) = Some m" and "represents slots w exts" and "distinct (known_types exts)"
  shows "case split_exts (unread s) of
      None \<Rightarrow> fst (extension_parse_loop (s, (slots, w))) \<in> {Inl (Err S2N_ERR_BAD_MESSAGE), Inl (Err S2N_ERR_DUPLICATE_EXTENSION)}
    | Some tl_exts \<Rightarrow>
        if distinct (known_types (exts @ tl_exts))
        then \<exists>s' slots' w'. extension_parse_loop (s, (slots, w)) = (Inr (), (s', (slots', w'))) \<and>
               represents slots' w' (exts @ tl_exts)
        else fst (extension_parse_loop (s, (slots, w))) = Inl (Err S2N_ERR_DUPLICATE_EXTENSION)"
  using assms
proof (induction "unread s" arbitrary: s slots w exts rule: split_exts.induct)
  case 1
  then have "extension_parse_loop (s, (slots, w)) = (Inr (), (s, (slots, w)))"
    by (subst extension_parse_loop.simps) (simp add: data_available_zero)
  then show ?case
    using 1 by simp
next
  case (2 a b c d r)
  note u = 2(2) [symmetric] and wf = 2(3) and m = 2(4) and rep = 2(5) and dist = 2(6)
  let ?n = "unat (u16_of c d)" and ?t = "u16_of a b"
  have ne: "unread s \<noteq> []"
    using u by simp
  show ?case
  proof (cases "?n \<le> length r")
    case False
    then have "fst (extension_parse_loop (s, (slots, w))) = Inl (Err S2N_ERR_BAD_MESSAGE)"
      by (intro parse_loop_bad [OF wf ne] extension_parse_long [OF wf u]) simp
    then show ?thesis
      using False u by (simp add: Let_def)
  next
    case True
    define body where "body = take ?n r"
    have u': "unread s = a # b # c # d # body @ drop ?n r" and len: "length body = ?n"
      using u True by (simp_all add: body_def)
    show ?thesis
    proof (rule extension_parse_body [OF wf m u' len])
      fix s' mem
      assume s': "stuffer_wf s'" "unread s' = drop ?n r" "blob s' = blob s" "take ?n mem = body" "?n \<le> length mem"
        and run: "\<And>slots. s2n_extension_parse (s, slots) =
          (case fill_slot ?t (Some mem) (u16_of c d) slots of (r, slots) \<Rightarrow> (r, (s', slots)))"
      have m': "b_data (blob s') = Some m"
        using m s'(3) by simp
      have split: "split_exts (unread s) = map_option (Cons (?t, body)) (split_exts (unread s'))"
        using True u s'(2) by (simp add: Let_def body_def)
      show ?thesis
      proof (cases "known ?t \<and> map_of exts ?t \<noteq> None")
        case dup: True
        then have "fst (extension_parse_loop (s, (slots, w))) = Inl (Err S2N_ERR_DUPLICATE_EXTENSION)"
          by (intro parse_loop_bad [OF wf ne]) (simp add: run fill_slot_duplicate [OF rep])
        moreover have "?t \<in> set (known_types exts)"
          using dup by (simp add: set_known_types)
        ultimately show ?thesis
          using dup by (auto simp: split split: option.splits)
      next
        case fresh: False
        then obtain slots' w' where fill: "fill_slot ?t (Some mem) (u16_of c d) (slots, w) = (Inr (), (slots', w'))"
          and rep': "represents slots' w' (exts @ [(?t, body)])"
          using fill_slot_unknown [OF rep, of ?t] fill_slot_known [OF rep _ _ s'(4,5), of ?t] by metis
        have "known ?t \<Longrightarrow> ?t \<notin> set (known_types exts)"
          using fresh by (simp add: set_known_types)
        then have dist': "distinct (known_types (exts @ [(?t, body)]))"
          using dist by simp
        have loop: "extension_parse_loop (s, (slots, w)) = extension_parse_loop (s', (slots', w'))"
          by (simp add: parse_loop_step [OF wf ne] run fill)
        show ?thesis
          using 2(1) [OF refl True s'(2) [symmetric] s'(1) m' rep' dist'] unfolding split loop
          by (cases "split_exts (unread s')") (simp_all only: option.case option.map append_assoc append_Cons append_Nil)
      qed
    qed
  qed
next
  case "3_1"
  then show ?case
    by (auto simp flip: "3_1"(1) intro!: parse_loop_bad extension_parse_short)
next
  case "3_2"
  then show ?case
    by (auto simp flip: "3_2"(1) intro!: parse_loop_bad extension_parse_short)
next
  case "3_3"
  then show ?case
    by (auto simp flip: "3_3"(1) intro!: parse_loop_bad extension_parse_short)
qed


lemma ucast_of_nat_u16: "n < 65536 \<Longrightarrow> (ucast (of_nat n :: u16) :: u64) = of_nat n" "n < 65536 \<Longrightarrow> unat (of_nat n :: u16) = n"
proof -
  assume "n < 65536"
  then show n: "unat (of_nat n :: u16) = n"
    by (simp add: unat_of_nat take_bit_nat_eq_self_iff)
  show "(ucast (of_nat n :: u16) :: u64) = of_nat n"
    using of_nat_unat [of "of_nat n :: u16", where ?'a = u64] by (simp only: n)
qed

lemma init_written:
  assumes "unat n \<le> length d"
  shows "s2n_stuffer_skip_write n (m, s2n_stuffer_init \<lparr>b_data = Some d, b_size = n, b_allocated = 0, b_growable = False\<rparr>) =
      (Inr (), (m, advanced n (s2n_stuffer_init \<lparr>b_data = Some d, b_size = n, b_allocated = 0, b_growable = False\<rparr>)))"
    and "stuffer_wf (advanced n (s2n_stuffer_init \<lparr>b_data = Some d, b_size = n, b_allocated = 0, b_growable = False\<rparr>))"
    and "unread (advanced n (s2n_stuffer_init \<lparr>b_data = Some d, b_size = n, b_allocated = 0, b_growable = False\<rparr>)) = take (unat n) d"
proof -
  let ?b = "\<lparr>b_data = Some d, b_size = n, b_allocated = 0, b_growable = False\<rparr>"
  have wf: "stuffer_wf (s2n_stuffer_init ?b)"
    using assms by (intro stuffer_wf_init) (simp add: blob_wf_def s2n_blob_validate_def s2n_mem_is_readable_def)
  show "s2n_stuffer_skip_write n (m, s2n_stuffer_init ?b) = (Inr (), (m, advanced n (s2n_stuffer_init ?b)))"
    by (rule skip_write_room) (simp add: s2n_stuffer_space_remaining_def s2n_stuffer_init_def)
  show "stuffer_wf (advanced n (s2n_stuffer_init ?b))"
    using wf by (rule advanced_wf) (simp add: s2n_stuffer_init_def)
  show "unread (advanced n (s2n_stuffer_init ?b)) = take (unat n) d"
    by (simp add: unread_def written_def smem_def s2n_stuffer_init_def)
qed

lemma list_parse_spec:
  assumes wf: "stuffer_wf inp" and u: "unread inp = net_bytes (of_nat (length wire)) 2 @ wire @ rest"
    and len: "length wire < 65536"
  obtains inp' res where "stuffer_wf inp'" and "unread inp' = rest"
    and "s2n_extension_list_parse ((m, inp), l) = (fst res, ((m, inp'), snd res))"
    and "case split_exts wire of
      None \<Rightarrow> fst res \<in> {Inl (Err S2N_ERR_BAD_MESSAGE), Inl (Err S2N_ERR_DUPLICATE_EXTENSION)}
    | Some exts \<Rightarrow>
        if distinct (known_types exts)
        then fst res = Inr () \<and> represents (parsed_extensions (snd res)) (pe_count (snd res)) exts
        else fst res = Inl (Err S2N_ERR_DUPLICATE_EXTENSION)"
proof -
  let ?w = "of_nat (length wire) :: u16" and ?n = "ucast (of_nat (length wire) :: u16) :: u32"
  let ?s1 = "inp\<lparr>read_cursor := read_cursor inp + 2\<rparr>"
  have n: "unat ?n = length wire"
    using len by (simp add: unat_ucast_small ucast_of_nat_u16)
  have u0: "unread inp = net_bytes (ucast ?w) 2 @ wire @ rest"
    using u len by (simp add: ucast_of_nat_u16)
  note r1 = read_uint16_front [OF wf u0]
  have "write_cursor inp \<noteq> 0"
    using length_unread [OF wf] u by auto
  then obtain mm where mm: "b_data (blob ?s1) = Some mm"
    using blob_wf_data_some [OF wf] by auto
  obtain inp' d where i: "raw_read_pointer ?n ?s1 = (Inr (Some d), inp')" "stuffer_wf inp'" "unread inp' = rest"
    "take (unat ?n) d = wire" "unat ?n \<le> length d"
    by (rule raw_read_front [OF r1(2,3) n [symmetric] mm])
  let ?b = "\<lparr>b_data = Some d, b_size = ?n, b_allocated = 0, b_growable = False\<rparr>"
  note e = init_written [OF i(5)]
  let ?e = "advanced ?n (s2n_stuffer_init ?b)"
  have mem: "b_data (blob ?e) = Some d"
    by (simp add: s2n_stuffer_init_def)
  let ?slots = "replicate (length s2n_supported_extensions) empty_slot"
  note loop = parse_loop_spec [OF e(2) mem represents_empty, simplified e(3) i(4)]
  obtain r es slots w where lp: "extension_parse_loop (?e, (?slots, 0)) = (r, (es, (slots, w)))"
    by (cases "extension_parse_loop (?e, (?slots, 0))") auto
  let ?l = "l\<lparr>parsed_extensions := slots, pe_raw := ?b\<rparr>"
  have run: "s2n_extension_list_parse ((m, inp), l) =
      (r, ((m, inp'), case r of Inl _ \<Rightarrow> ?l | Inr _ \<Rightarrow> ?l\<lparr>pe_count := w\<rparr>))"
    by (simp add: s2n_extension_list_parse_def r1(1) i(1) s2n_blob_init_def s2n_mem_is_readable_def e(1) lp split: sum.splits)
  show thesis
    by (rule that [OF i(2,3), of "(r, case r of Inl _ \<Rightarrow> ?l | Inr _ \<Rightarrow> ?l\<lparr>pe_count := w\<rparr>)"])
       (use run loop lp in \<open>auto simp: length_supported split: option.splits sum.splits if_splits\<close>)
qed


lemma split_encode:
  assumes "\<forall>e\<in>set es. length (snd e) < 65536"
  shows "split_exts (concat (map encode_ext es)) = Some es"
  using assms
proof (induction es)
  case (Cons e es)
  obtain v body where e: "e = (v, body)"
    by (cases e)
  let ?w = "of_nat (length body) :: u16"
  have body: "length body < 65536"
    using Cons.prems e by simp
  obtain a b where v: "net_bytes (ucast v) 2 = [a, b]" "v = u16_of a b"
    using net_bytes_pair [of v] u16_of_net_bytes by blast
  obtain c d where w: "net_bytes (ucast ?w) 2 = [c, d]" "?w = u16_of c d"
    using net_bytes_pair [of ?w] u16_of_net_bytes by blast
  have "encode_ext e = a # b # c # d # body"
    using v(1) w(1) body by (simp add: e encode_ext_def ucast_of_nat_u16)
  moreover have "unat (u16_of c d) = length body"
    using body w(2) by (simp flip: w(2) add: ucast_of_nat_u16)
  ultimately show ?case
    using Cons v(2) by (simp add: Let_def e)
qed simp


section \<open>Sending\<close>

definition handlers_append :: "'env s2n_extension_type option list \<Rightarrow> bool" where
  "handlers_append types \<longleftrightarrow> (\<forall>e send. Some e \<in> set types \<longrightarrow> ext_send e = Some send \<longrightarrow> extension_appends send)"

lemma on_conn_set_request_mem:
  "on_conn (set_request_sent i) (c, s) = (r, (c', s')) \<Longrightarrow> mem c' = mem c \<and> s' = s"
  by (auto simp: on_conn_eq set_request_sent_def split: sum.splits)

lemma extension_send_spec:
  assumes mem: "mem_ok (mem c)" and wf: "stuffer_wf s"
    and app: "\<And>send. ext_send ext = Some send \<Longrightarrow> extension_appends send"
    and run: "s2n_extension_send (Some ext) (c, s) = (Inr (), (c', s'))"
  obtains es where "mem_ok (mem c')" and "grew (concat (map encode_ext es)) s s'"
    and "es = [] \<or> (\<exists>body. es = [(ext_iana_value ext, body)] \<and> length body < 65536 \<and> known (ext_iana_value ext))"
proof -
  obtain send where send: "ext_send ext = Some send"
    using run by (auto simp: s2n_extension_send_def split: option.splits)
  consider (skip) "(c', s') = (c, s)" | (sent) c1 s1 where "known (ext_iana_value ext)"
    "extension_write (ext_iana_value ext) send (c, s) = (Inr (), (c1, s1))" "mem c' = mem c1" "s' = s1"
    using run send
    by (auto simp: s2n_extension_send_def to_id_eq ret_def elim!: andthen_InrE dest: on_conn_set_request_mem
        split: option.splits sum.splits if_splits)
  then show thesis
  proof cases
    case skip
    then show thesis
      using mem wf by (intro that [of "[]"]) (simp_all add: grew_iff)
  next
    case (sent c1 s1)
    obtain body where "length body < 65536" "mem_ok (mem c1)" "grew (encode_ext (ext_iana_value ext, body)) s s1"
      using extension_write_spec [OF mem wf app [OF send] sent(2)] by blast
    then show thesis
      using sent by (intro that [of "[(ext_iana_value ext, body)]"]) simp_all
  qed
qed

lemma extensions_send_spec:
  assumes "mem_ok (mem c)" and "stuffer_wf s" and "handlers_append types"
    and "block (map s2n_extension_send types) (c, s) = (Inr (), (c', s'))"
  shows "\<exists>es. mem_ok (mem c') \<and> grew (concat (map encode_ext es)) s s' \<and>
    subseq (map fst es) (map (\<lambda>e. ext_iana_value (the e)) types) \<and>
    (\<forall>e\<in>set es. length (snd e) < 65536 \<and> known (fst e))"
  using assms
proof (induction types arbitrary: c s)
  case Nil
  then show ?case
    by (auto simp: ret_def grew_iff intro!: exI [of _ "[]"])
next
  case (Cons ty types)
  obtain st where one: "s2n_extension_send ty (c, s) = (Inr (), st)" and tl: "block (map s2n_extension_send types) st = (Inr (), (c', s'))"
    using Cons.prems(4) by (auto elim!: andthen_InrE split: prod.splits sum.splits)
  obtain c1 s1 where st: "st = (c1, s1)"
    by (cases st)
  obtain ext where ty: "ty = Some ext"
    using one by (cases ty) (auto simp: s2n_extension_send_def)
  have app: "\<And>send. ext_send ext = Some send \<Longrightarrow> extension_appends send"
    using Cons.prems(3) by (simp add: handlers_append_def ty)
  obtain es1 where es1: "mem_ok (mem c1)" "grew (concat (map encode_ext es1)) s s1"
    "es1 = [] \<or> (\<exists>body. es1 = [(ext_iana_value ext, body)] \<and> length body < 65536 \<and> known (ext_iana_value ext))"
    using extension_send_spec [OF Cons.prems(1,2) app one [unfolded ty st]] by blast
  have "stuffer_wf s1" "handlers_append types"
    using es1(2) Cons.prems(3) by (auto simp: grew_iff handlers_append_def)
  then obtain es where es: "mem_ok (mem c')" "grew (concat (map encode_ext es)) s1 s'"
    "subseq (map fst es) (map (\<lambda>e. ext_iana_value (the e)) types)"
    "\<forall>e\<in>set es. length (snd e) < 65536 \<and> known (fst e)"
    using Cons.IH es1(1) tl [unfolded st] by blast
  show ?case
    using es es1(3) grew_trans [OF es1(2) es(2)]
    by (intro exI [of _ "es1 @ es"]) (auto simp: ty)
qed


lemma block_snocE:
  assumes "block (ms @ [m]) s = (Inr (), t)"
  obtains s1 where "block ms s = (Inr (), s1)" and "m s1 = (Inr (), t)"
  using assms
proof (induction ms arbitrary: s thesis)
  case Nil
  then show ?case
    by (auto simp: ret_def elim!: andthen_InrE split: prod.splits sum.splits)
next
  case (Cons n ms)
  obtain s0 where n: "n s = (Inr (), s0)" and tl: "block (ms @ [m]) s0 = (Inr (), t)"
    using Cons.prems(2) by (auto split: prod.splits sum.splits)
  obtain s1 where "block ms s0 = (Inr (), s1)" "m s1 = (Inr (), t)"
    using Cons.IH [OF _ tl] by blast
  then show ?case
    using n by (intro Cons.prems(1) [of s1]) simp_all
qed

lemma list_send_spec:
  assumes mem: "mem_ok (mem c)" and wf: "stuffer_wf s" and app: "handlers_append types"
    and run: "s2n_extension_list_send types (c, s) = (Inr (), (c', s'))"
  obtains es where "mem_ok (mem c')" and "length (concat (map encode_ext es)) < 65536"
    and "grew (net_bytes (of_nat (length (concat (map encode_ext es)))) 2 @ concat (map encode_ext es)) s s'"
    and "subseq (map fst es) (map (\<lambda>e. ext_iana_value (the e)) types)"
    and "\<forall>e\<in>set es. length (snd e) < 65536 \<and> known (fst e)"
proof -
  obtain res st where r: "on_ext s2n_stuffer_reserve_uint16 (c, s) = (Inr res, st)"
    and b: "block (map s2n_extension_send types @ [on_ext (s2n_stuffer_write_vector_size res)]) st = (Inr (), (c', s'))"
    using run unfolding s2n_extension_list_send_def by (auto elim!: bnd_InrE)
  obtain m1 s1 where r1: "s2n_stuffer_reserve 2 (mem c, s) = (Inr res, (m1, s1))" and st: "st = (c\<lparr>mem := m1\<rparr>, s1)"
    using r unfolding s2n_stuffer_reserve_uint16_def by (cases st) (auto elim!: on_ext_InrE)
  note r2 = reserve_spec [OF mem wf r1]
  have ok1: "mem_ok m1" "stuffer_wf s1"
    using r2 mem mem_same_ok by (auto simp: appended_def)
  obtain c2 s2 where sends: "block (map s2n_extension_send types) st = (Inr (), (c2, s2))"
    and v: "on_ext (s2n_stuffer_write_vector_size res) (c2, s2) = (Inr (), (c', s'))"
    using block_snocE [OF b] by (metis surj_pair)
  obtain es where es: "mem_ok (mem c2)" "grew (concat (map encode_ext es)) s1 s2"
    "subseq (map fst es) (map (\<lambda>e. ext_iana_value (the e)) types)" "\<forall>e\<in>set es. length (snd e) < 65536 \<and> known (fst e)"
    using extensions_send_spec [OF _ ok1(2) app sends [unfolded st]] ok1(1) by auto
  let ?body = "concat (map encode_ext es)" and ?s = "s\<lparr>tainted := tainted s2\<rparr>"
  have wf': "stuffer_wf ?s" and res: "res = \<lparr>res_write_cursor = write_cursor ?s, res_length = 2\<rparr>"
    using wf r2(2) by simp_all
  have app2: "appended (replicate (unat (2 :: u8)) S2N_WIPE_PATTERN @ ?body) ?s s2"
    using r2(3) es(2) by (simp add: appended_def grew_iff)
  obtain m3 where v1: "s2n_stuffer_write_vector_size res (mem c2, s2) = (Inr (), (m3, s'))" and c': "c' = c2\<lparr>mem := m3\<rparr>"
    using v by (auto elim: on_ext_InrE)
  note v2 = write_vector_size_spec [OF wf' app2 res v1]
  have "grew (net_bytes (of_nat (length ?body)) 2 @ ?body) s s'"
    using v2(3) by (simp add: appended_def grew_iff)
  with es v2(1,2) show thesis
    by (intro that [of es]) (simp_all add: c')
qed


section \<open>Claims\<close>

text \<open>
  C24. Parsing an extension list is exact.  On a length-prefixed list, \<open>s2n_extension_list_parse\<close> consumes exactly the
  list.  It succeeds when the list is well formed and no supported extension occurs twice, and then the slot of
  every supported extension holds the body that the list has for it, under its own type, numbered by its place among
  the supported extensions, and is empty when the list has none; unknown extensions are ignored.  A
  repeated extension is reported as a duplicate, and a malformed list is an error.
\<close>
theorem extension_list_parse_correct:
  assumes "stuffer_wf inp" and "unread inp = net_bytes (of_nat (length wire)) 2 @ wire @ rest" and "length wire < 65536"
  shows "case s2n_extension_list_parse ((m, inp), l) of (r, ((m', inp'), l')) \<Rightarrow>
    m' = m \<and> stuffer_wf inp' \<and> unread inp' = rest \<and>
    (case split_exts wire of
      None \<Rightarrow> r \<in> {Inl (Err S2N_ERR_BAD_MESSAGE), Inl (Err S2N_ERR_DUPLICATE_EXTENSION)}
    | Some exts \<Rightarrow>
        if distinct (known_types exts) then r = Inr () \<and> represents (parsed_extensions l') (pe_count l') exts
        else r = Inl (Err S2N_ERR_DUPLICATE_EXTENSION))"
  by (rule list_parse_spec [OF assms, of m l]) simp

definition example_extensions :: s2n_stuffer where
  "example_extensions = static_stuffer [0, 9, 0, 16, 0, 1, 7, 0, 23, 0, 0, 99] 0"

lemma extension_list_parse_witness:
  "case s2n_extension_list_parse ((example_mem Free_no_mlock_impl, example_extensions), empty_extensions_list) of (r, (_, l')) \<Rightarrow>
     r = Inr () \<and> represents (parsed_extensions l') (pe_count l') [(16, [7]), (23, [])]"
proof -
  have wf: "stuffer_wf example_extensions" and u: "unread example_extensions = [0, 9] @ [0, 16, 0, 1, 7, 0, 23, 0, 0] @ [99]"
    unfolding example_extensions_def by (rule static_stuffer_wf) simp_all
  have "net_bytes (of_nat (length [0 :: u8, 16, 0, 1, 7, 0, 23, 0, 0])) 2 = [0, 9]"
    by code_simp
  moreover have "split_exts [0, 16, 0, 1, 7, 0, 23, 0, 0] = Some [(16, [7]), (23, [])]"
    by (simp add: u16_of_def Let_def)
  moreover have "distinct (known_types [(16, [7]), (23, [])])"
    by (simp add: s2n_supported_extensions_def)
  ultimately show ?thesis
    using extension_list_parse_correct [OF wf, of "[0, 16, 0, 1, 7, 0, 23, 0, 0]" "[99]"
        "example_mem Free_no_mlock_impl" empty_extensions_list] u
    by (auto split: prod.splits)
qed


text \<open>
  C23. What one side sends the other side parses.  Whatever the handlers of the extensions append, when
  \<open>s2n_extension_list_send\<close> succeeds it has appended a length-prefixed list of extensions, in the order of the list of
  types and with their bodies; and a peer that receives these bytes parses them without error into slots that
  hold exactly these extensions, provided no two types of the list have the same IANA value.
\<close>
theorem extension_list_round_trip:
  assumes "mem_ok (mem c)" and "stuffer_wf out" and "handlers_append types"
    and "distinct (map (\<lambda>e. ext_iana_value (the e)) types)"
    and "s2n_extension_list_send types (c, out) = (Inr (), (c', out'))"
    and "stuffer_wf inp" and "unread inp = drop (length (written out)) (written out') @ rest"
  shows "\<exists>es. subseq (map fst es) (map (\<lambda>e. ext_iana_value (the e)) types) \<and>
    written out' = written out @ net_bytes (of_nat (length (concat (map encode_ext es)))) 2 @ concat (map encode_ext es) \<and>
    (case s2n_extension_list_parse ((m, inp), l) of (r, ((m', inp'), l')) \<Rightarrow>
       r = Inr () \<and> unread inp' = rest \<and> represents (parsed_extensions l') (pe_count l') es)"
proof -
  obtain es where es: "length (concat (map encode_ext es)) < 65536"
    "grew (net_bytes (of_nat (length (concat (map encode_ext es)))) 2 @ concat (map encode_ext es)) out out'"
    "subseq (map fst es) (map (\<lambda>e. ext_iana_value (the e)) types)"
    "\<forall>e\<in>set es. length (snd e) < 65536 \<and> known (fst e)"
    by (rule list_send_spec [OF assms(1-3,5)])
  let ?wire = "concat (map encode_ext es)"
  have w: "written out' = written out @ net_bytes (of_nat (length ?wire)) 2 @ ?wire"
    using es(2) by (simp add: grew_iff)
  have u: "unread inp = net_bytes (of_nat (length ?wire)) 2 @ ?wire @ rest"
    using assms(7) by (simp add: w)
  have "distinct (map fst es)"
    using es(3) assms(4) by (auto simp: subseq_conv_nths intro: distinct_nthsI)
  then have "distinct (known_types es)"
    by (simp add: known_types_def)
  moreover have "split_exts ?wire = Some es"
    using es(4) by (intro split_encode) simp
  ultimately show ?thesis
    using es(3) w by (intro exI [of _ es]) (rule list_parse_spec [OF assms(6) u es(1), of m l], simp)
qed

definition example_types :: "unit s2n_extension_type option list" where
  "example_types = [Some \<lparr>ext_iana_value = 16, is_response = False, minimum_version = 0,
     ext_send = Some (on_ext (s2n_stuffer_write_uint8 7)), ext_recv = Some s2n_extension_recv_noop,
     should_send = Some s2n_extension_always_send, if_missing = Some s2n_extension_noop_if_missing\<rparr>]"

lemma example_send: "fst (s2n_extension_list_send example_types (example_conn S2N_CLIENT, static_stuffer [] 16)) = Inr ()"
proof -
  have id: "s2n_extension_supported_iana_value_to_id 16 = Inr 8"
    by (simp add: to_id_eq s2n_supported_extensions_def supported_id_def)
  have fields: "extension_requests_sent (example_conn S2N_CLIENT) = replicate 22 0"
    by (simp add: example_conn_def)
  have nb: "net_bytes (ucast (16 :: u16)) 2 = [0, 16]" "net_bytes (ucast (1 :: u32)) 2 = [0, 1]"
    "net_bytes (ucast (5 :: u32)) 2 = [0, 5]"
    by code_simp+
  show ?thesis
    using nb
    by (simp add: s2n_extension_list_send_def example_types_def bnd_def on_ext_eq s2n_stuffer_reserve_uint16_def
        s2n_stuffer_reserve_def andthen_def stuffer_run stuffer_memset_def mem_write_def static_stuffer_def empty_stuffer_def
        replicate_numeral s2n_extension_send_def id s2n_extension_always_send_def extension_write_def fields
        s2n_stuffer_write_uint8_def s2n_stuffer_write_uint16_def s2n_stuffer_write_network_order_def
        checked_memcpy_def mem_read_def modify_def s2n_stuffer_write_vector_size_def s2n_stuffer_get_vector_size_def
        s2n_stuffer_reservation_validate_def s2n_stuffer_write_reservation_def s2n_stuffer_write_reservation_impl_def
        length_matches_value_check_def of_result_def on_conn_eq set_request_sent_def cbit_set)
qed


lemma example_appends: "handlers_append example_types"
proof -
  have "mem_ok m \<and> grew [7] s s'"
    if "mem_ok (mem c)" "stuffer_wf s" and run: "s2n_stuffer_write_uint8 7 (mem c, s) = (Inr (), (m, s'))"
    for c :: "unit s2n_connection" and s m s'
    using that(1,2) run by (rule write_uint8_spec) (use that(1) in \<open>auto intro: appended_grew mem_same_ok\<close>)
  then show ?thesis
    by (auto simp: handlers_append_def example_types_def extension_appends_def elim!: on_ext_InrE) blast+
qed

lemma extension_list_round_trip_witness:
  "\<exists>c' out' (es :: (u16 \<times> bytes) list). s2n_extension_list_send example_types (example_conn S2N_CLIENT, static_stuffer [] 16) = (Inr (), (c', out')) \<and>
     fst (s2n_extension_list_parse ((example_mem Free_no_mlock_impl, out'), empty_extensions_list)) = Inr () \<and>
     subseq (map fst es) [16 :: u16]"
proof -
  let ?c = "example_conn S2N_CLIENT" and ?out = "static_stuffer [] 16"
  have mem: "mem_ok (mem ?c)"
    by (simp add: example_conn_def)
  have wf: "stuffer_wf ?out" and w: "written ?out = []"
    by (rule static_stuffer_wf) (simp_all add: static_stuffer_def written_def)
  have dist: "distinct (map (\<lambda>e. ext_iana_value (the e)) example_types)"
    by (simp add: example_types_def)
  obtain c' out' where run: "s2n_extension_list_send example_types (?c, ?out) = (Inr (), (c', out'))"
    using example_send by (cases "s2n_extension_list_send example_types (?c, ?out)") auto
  obtain bs where "grew bs ?out out'"
    by (rule list_send_spec [OF mem wf example_appends run]) blast
  then have wf': "stuffer_wf out'" and u: "unread out' = drop (length (written ?out)) (written out') @ []"
    using w by (simp_all add: grew_iff unread_def static_stuffer_def empty_stuffer_def)
  obtain r m' inp' l' where p: "s2n_extension_list_parse ((example_mem Free_no_mlock_impl, out'), empty_extensions_list) =
      (r, ((m', inp'), l'))"
    by (metis surj_pair)
  have "\<exists>es :: (u16 \<times> bytes) list. subseq (map fst es) (map (\<lambda>e. ext_iana_value (the e)) example_types) \<and> r = Inr ()"
    using extension_list_round_trip [OF mem wf example_appends dist run wf' u,
        of "example_mem Free_no_mlock_impl" empty_extensions_list] unfolding p by auto
  then show ?thesis
    using run p by (auto simp: example_types_def)
qed

end
