(* ===== verification/Cipher_Preferences.thy ===== *)
theory Cipher_Preferences
  imports Cipher_Suites
begin

text \<open>
  The cipher preference lists of \<open>tls/s2n_cipher_preferences.c\<close> and the test lists of \<open>tls/s2n_cipher_suites.c\<close>.
  The objects of a part of the file are the constructors of an enumeration type and a function gives their contents;
  the count of the C structure is the length of its array.
\<close>

record s2n_cipher_preferences =
  suites :: "cipher_suite_ref list"
  allow_chacha20_boosting :: bool

definition S2N_TLS13_CIPHER_SUITES_20190801 :: "cipher_suite_ref list" where
  "S2N_TLS13_CIPHER_SUITES_20190801 = [s2n_tls13_aes_256_gcm_sha384, s2n_tls13_aes_128_gcm_sha256, s2n_tls13_chacha20_poly1305_sha256]"

definition S2N_TLS13_CLOUDFRONT_CIPHER_SUITES_20200716 :: "cipher_suite_ref list" where
  "S2N_TLS13_CLOUDFRONT_CIPHER_SUITES_20200716 = [s2n_tls13_aes_128_gcm_sha256, s2n_tls13_aes_256_gcm_sha384, s2n_tls13_chacha20_poly1305_sha256]"

datatype cipher_preferences_ref_1 = cipher_preferences_20190801 | cipher_preferences_20210831 | cipher_preferences_default_fips |
  cipher_preferences_20140601 | cipher_preferences_20141001 | cipher_preferences_20150202 | cipher_preferences_20150214

fun cipher_preferences_1 :: "cipher_preferences_ref_1 \<Rightarrow> s2n_cipher_preferences" where
  "cipher_preferences_1 cipher_preferences_20190801 = \<lparr>suites = S2N_TLS13_CIPHER_SUITES_20190801 @
         [s2n_ecdhe_rsa_with_aes_128_gcm_sha256, s2n_ecdhe_rsa_with_aes_256_gcm_sha384,
         s2n_ecdhe_rsa_with_chacha20_poly1305_sha256, s2n_ecdhe_rsa_with_aes_128_cbc_sha,
         s2n_ecdhe_rsa_with_aes_128_cbc_sha256, s2n_ecdhe_rsa_with_aes_256_cbc_sha, s2n_rsa_with_aes_128_gcm_sha256,
         s2n_rsa_with_aes_128_cbc_sha256, s2n_rsa_with_aes_128_cbc_sha],
     allow_chacha20_boosting = False\<rparr>"
| "cipher_preferences_1 cipher_preferences_20210831 = \<lparr>suites = S2N_TLS13_CLOUDFRONT_CIPHER_SUITES_20200716 @
         [s2n_ecdhe_ecdsa_with_aes_128_gcm_sha256, s2n_ecdhe_rsa_with_aes_128_gcm_sha256,
         s2n_ecdhe_ecdsa_with_aes_256_gcm_sha384, s2n_ecdhe_rsa_with_aes_256_gcm_sha384,
         s2n_ecdhe_ecdsa_with_chacha20_poly1305_sha256, s2n_ecdhe_rsa_with_chacha20_poly1305_sha256,
         s2n_ecdhe_ecdsa_with_aes_128_cbc_sha, s2n_ecdhe_rsa_with_aes_128_cbc_sha,
         s2n_ecdhe_ecdsa_with_aes_128_cbc_sha256, s2n_ecdhe_rsa_with_aes_128_cbc_sha256,
         s2n_ecdhe_ecdsa_with_aes_256_cbc_sha, s2n_ecdhe_rsa_with_aes_256_cbc_sha, s2n_rsa_with_aes_128_gcm_sha256,
         s2n_rsa_with_aes_128_cbc_sha256, s2n_rsa_with_aes_128_cbc_sha],
     allow_chacha20_boosting = False\<rparr>"
| "cipher_preferences_1 cipher_preferences_default_fips = \<lparr>suites = [s2n_ecdhe_ecdsa_with_aes_128_gcm_sha256, s2n_ecdhe_ecdsa_with_aes_256_gcm_sha384,
         s2n_ecdhe_ecdsa_with_aes_128_cbc_sha256, s2n_ecdhe_ecdsa_with_aes_256_cbc_sha384,
         s2n_ecdhe_rsa_with_aes_128_gcm_sha256, s2n_ecdhe_rsa_with_aes_256_gcm_sha384,
         s2n_ecdhe_rsa_with_aes_128_cbc_sha256, s2n_ecdhe_rsa_with_aes_256_cbc_sha384,
         s2n_dhe_rsa_with_aes_128_cbc_sha256, s2n_dhe_rsa_with_aes_256_cbc_sha256,
         s2n_dhe_rsa_with_aes_128_gcm_sha256, s2n_dhe_rsa_with_aes_256_gcm_sha384],
     allow_chacha20_boosting = False\<rparr>"
| "cipher_preferences_1 cipher_preferences_20140601 = \<lparr>suites = [s2n_dhe_rsa_with_aes_128_cbc_sha256, s2n_dhe_rsa_with_aes_128_cbc_sha, s2n_dhe_rsa_with_3des_ede_cbc_sha,
         s2n_rsa_with_aes_128_cbc_sha256, s2n_rsa_with_aes_128_cbc_sha, s2n_rsa_with_3des_ede_cbc_sha,
         s2n_rsa_with_rc4_128_sha, s2n_rsa_with_rc4_128_md5],
     allow_chacha20_boosting = False\<rparr>"
| "cipher_preferences_1 cipher_preferences_20141001 = \<lparr>suites = [s2n_dhe_rsa_with_aes_128_cbc_sha256, s2n_dhe_rsa_with_aes_128_cbc_sha, s2n_dhe_rsa_with_3des_ede_cbc_sha,
         s2n_rsa_with_aes_128_cbc_sha256, s2n_rsa_with_aes_128_cbc_sha, s2n_rsa_with_3des_ede_cbc_sha,
         s2n_rsa_with_rc4_128_sha, s2n_rsa_with_rc4_128_md5],
     allow_chacha20_boosting = False\<rparr>"
| "cipher_preferences_1 cipher_preferences_20150202 = \<lparr>suites = [s2n_dhe_rsa_with_aes_128_cbc_sha256, s2n_dhe_rsa_with_aes_128_cbc_sha, s2n_dhe_rsa_with_3des_ede_cbc_sha,
         s2n_rsa_with_aes_128_cbc_sha256, s2n_rsa_with_aes_128_cbc_sha, s2n_rsa_with_3des_ede_cbc_sha],
     allow_chacha20_boosting = False\<rparr>"
| "cipher_preferences_1 cipher_preferences_20150214 = \<lparr>suites = [s2n_dhe_rsa_with_aes_128_gcm_sha256, s2n_dhe_rsa_with_aes_128_cbc_sha256, s2n_dhe_rsa_with_aes_128_cbc_sha,
         s2n_dhe_rsa_with_3des_ede_cbc_sha, s2n_rsa_with_aes_128_gcm_sha256, s2n_rsa_with_aes_128_cbc_sha256,
         s2n_rsa_with_aes_128_cbc_sha, s2n_rsa_with_3des_ede_cbc_sha],
     allow_chacha20_boosting = False\<rparr>"

datatype cipher_preferences_ref_2 = cipher_preferences_20160411 | cipher_preferences_20150306 | cipher_preferences_20160804 | cipher_preferences_20160824 |
  cipher_preferences_20170210 | cipher_preferences_20230317

fun cipher_preferences_2 :: "cipher_preferences_ref_2 \<Rightarrow> s2n_cipher_preferences" where
  "cipher_preferences_2 cipher_preferences_20160411 = \<lparr>suites = [s2n_ecdhe_rsa_with_aes_128_cbc_sha, s2n_ecdhe_rsa_with_aes_128_gcm_sha256,
         s2n_ecdhe_rsa_with_aes_256_gcm_sha384, s2n_ecdhe_rsa_with_aes_128_cbc_sha256,
         s2n_ecdhe_rsa_with_aes_256_cbc_sha, s2n_ecdhe_rsa_with_aes_256_cbc_sha384, s2n_rsa_with_aes_128_cbc_sha,
         s2n_rsa_with_aes_128_gcm_sha256, s2n_rsa_with_aes_256_gcm_sha384, s2n_rsa_with_aes_128_cbc_sha256,
         s2n_rsa_with_aes_256_cbc_sha, s2n_rsa_with_aes_256_cbc_sha256, s2n_rsa_with_3des_ede_cbc_sha],
     allow_chacha20_boosting = False\<rparr>"
| "cipher_preferences_2 cipher_preferences_20150306 = \<lparr>suites = [s2n_ecdhe_rsa_with_aes_128_gcm_sha256, s2n_ecdhe_rsa_with_aes_256_gcm_sha384,
         s2n_ecdhe_rsa_with_aes_128_cbc_sha, s2n_ecdhe_rsa_with_aes_128_cbc_sha256,
         s2n_ecdhe_rsa_with_3des_ede_cbc_sha, s2n_ecdhe_rsa_with_aes_256_cbc_sha, s2n_rsa_with_aes_128_gcm_sha256,
         s2n_rsa_with_aes_128_cbc_sha256, s2n_rsa_with_aes_128_cbc_sha, s2n_rsa_with_3des_ede_cbc_sha],
     allow_chacha20_boosting = False\<rparr>"
| "cipher_preferences_2 cipher_preferences_20160804 = \<lparr>suites = [s2n_ecdhe_rsa_with_aes_128_gcm_sha256, s2n_ecdhe_rsa_with_aes_256_gcm_sha384,
         s2n_ecdhe_rsa_with_aes_128_cbc_sha, s2n_ecdhe_rsa_with_aes_128_cbc_sha256,
         s2n_ecdhe_rsa_with_aes_256_cbc_sha, s2n_ecdhe_rsa_with_aes_256_cbc_sha384, s2n_rsa_with_aes_128_gcm_sha256,
         s2n_rsa_with_aes_256_gcm_sha384, s2n_rsa_with_aes_128_cbc_sha, s2n_rsa_with_aes_128_cbc_sha256,
         s2n_rsa_with_aes_256_cbc_sha, s2n_rsa_with_aes_256_cbc_sha256, s2n_rsa_with_3des_ede_cbc_sha],
     allow_chacha20_boosting = False\<rparr>"
| "cipher_preferences_2 cipher_preferences_20160824 = \<lparr>suites = [s2n_ecdhe_rsa_with_aes_128_gcm_sha256, s2n_ecdhe_rsa_with_aes_256_gcm_sha384,
         s2n_ecdhe_rsa_with_aes_128_cbc_sha, s2n_ecdhe_rsa_with_aes_128_cbc_sha256,
         s2n_ecdhe_rsa_with_aes_256_cbc_sha, s2n_rsa_with_aes_128_gcm_sha256, s2n_rsa_with_aes_128_cbc_sha256,
         s2n_rsa_with_aes_128_cbc_sha],
     allow_chacha20_boosting = False\<rparr>"
| "cipher_preferences_2 cipher_preferences_20170210 = \<lparr>suites = [s2n_ecdhe_rsa_with_aes_128_gcm_sha256, s2n_ecdhe_rsa_with_aes_256_gcm_sha384,
         s2n_ecdhe_rsa_with_chacha20_poly1305_sha256, s2n_ecdhe_rsa_with_aes_128_cbc_sha,
         s2n_ecdhe_rsa_with_aes_128_cbc_sha256, s2n_ecdhe_rsa_with_aes_256_cbc_sha, s2n_rsa_with_aes_128_gcm_sha256,
         s2n_rsa_with_aes_128_cbc_sha256, s2n_rsa_with_aes_128_cbc_sha],
     allow_chacha20_boosting = False\<rparr>"
| "cipher_preferences_2 cipher_preferences_20230317 = \<lparr>suites = [s2n_ecdhe_ecdsa_with_aes_128_gcm_sha256, s2n_ecdhe_ecdsa_with_aes_256_gcm_sha384,
         s2n_ecdhe_ecdsa_with_aes_128_cbc_sha256, s2n_ecdhe_ecdsa_with_aes_256_cbc_sha384,
         s2n_ecdhe_rsa_with_aes_128_gcm_sha256, s2n_ecdhe_rsa_with_aes_256_gcm_sha384,
         s2n_ecdhe_rsa_with_aes_128_cbc_sha256, s2n_ecdhe_rsa_with_aes_256_cbc_sha384, s2n_tls13_aes_128_gcm_sha256,
         s2n_tls13_aes_256_gcm_sha384],
     allow_chacha20_boosting = False\<rparr>"

datatype cipher_preferences_ref_3 = cipher_preferences_20240331 | cipher_preferences_20190122 | cipher_preferences_20190121 | cipher_preferences_20190120 |
  cipher_preferences_20190214

fun cipher_preferences_3 :: "cipher_preferences_ref_3 \<Rightarrow> s2n_cipher_preferences" where
  "cipher_preferences_3 cipher_preferences_20240331 = \<lparr>suites = [s2n_ecdhe_ecdsa_with_aes_128_gcm_sha256, s2n_ecdhe_ecdsa_with_aes_256_gcm_sha384,
         s2n_ecdhe_ecdsa_with_aes_128_cbc_sha256, s2n_ecdhe_ecdsa_with_aes_256_cbc_sha384,
         s2n_ecdhe_rsa_with_aes_128_gcm_sha256, s2n_ecdhe_rsa_with_aes_256_gcm_sha384,
         s2n_ecdhe_rsa_with_aes_128_cbc_sha256, s2n_ecdhe_rsa_with_aes_256_cbc_sha384],
     allow_chacha20_boosting = False\<rparr>"
| "cipher_preferences_3 cipher_preferences_20190122 = \<lparr>suites = [s2n_ecdhe_rsa_with_chacha20_poly1305_sha256, s2n_ecdhe_rsa_with_aes_128_cbc_sha,
         s2n_ecdhe_rsa_with_aes_128_gcm_sha256, s2n_ecdhe_rsa_with_aes_256_gcm_sha384,
         s2n_ecdhe_rsa_with_aes_128_cbc_sha256, s2n_ecdhe_rsa_with_aes_256_cbc_sha,
         s2n_ecdhe_rsa_with_aes_256_cbc_sha384, s2n_rsa_with_aes_128_cbc_sha, s2n_rsa_with_aes_128_gcm_sha256,
         s2n_rsa_with_aes_256_gcm_sha384, s2n_rsa_with_aes_128_cbc_sha256, s2n_rsa_with_aes_256_cbc_sha,
         s2n_rsa_with_aes_256_cbc_sha256, s2n_rsa_with_3des_ede_cbc_sha],
     allow_chacha20_boosting = False\<rparr>"
| "cipher_preferences_3 cipher_preferences_20190121 = \<lparr>suites = [s2n_ecdhe_rsa_with_aes_128_gcm_sha256, s2n_ecdhe_rsa_with_aes_256_gcm_sha384,
         s2n_ecdhe_rsa_with_chacha20_poly1305_sha256, s2n_ecdhe_rsa_with_aes_128_cbc_sha,
         s2n_ecdhe_rsa_with_aes_128_cbc_sha256, s2n_ecdhe_rsa_with_aes_256_cbc_sha,
         s2n_ecdhe_rsa_with_aes_256_cbc_sha384, s2n_rsa_with_aes_128_gcm_sha256, s2n_rsa_with_aes_256_gcm_sha384,
         s2n_rsa_with_aes_128_cbc_sha, s2n_rsa_with_aes_128_cbc_sha256, s2n_rsa_with_aes_256_cbc_sha,
         s2n_rsa_with_aes_256_cbc_sha256, s2n_rsa_with_3des_ede_cbc_sha],
     allow_chacha20_boosting = False\<rparr>"
| "cipher_preferences_3 cipher_preferences_20190120 = \<lparr>suites = [s2n_ecdhe_rsa_with_aes_128_cbc_sha, s2n_ecdhe_rsa_with_aes_128_gcm_sha256,
         s2n_ecdhe_rsa_with_aes_256_gcm_sha384, s2n_ecdhe_rsa_with_chacha20_poly1305_sha256,
         s2n_ecdhe_rsa_with_aes_128_cbc_sha256, s2n_ecdhe_rsa_with_aes_256_cbc_sha,
         s2n_ecdhe_rsa_with_aes_256_cbc_sha384, s2n_rsa_with_aes_128_cbc_sha, s2n_rsa_with_aes_128_gcm_sha256,
         s2n_rsa_with_aes_256_gcm_sha384, s2n_rsa_with_aes_128_cbc_sha256, s2n_rsa_with_aes_256_cbc_sha,
         s2n_rsa_with_aes_256_cbc_sha256, s2n_rsa_with_3des_ede_cbc_sha],
     allow_chacha20_boosting = False\<rparr>"
| "cipher_preferences_3 cipher_preferences_20190214 = \<lparr>suites = [s2n_ecdhe_ecdsa_with_aes_128_cbc_sha, s2n_ecdhe_rsa_with_aes_128_cbc_sha,
         s2n_ecdhe_ecdsa_with_aes_128_gcm_sha256, s2n_ecdhe_rsa_with_aes_128_gcm_sha256,
         s2n_ecdhe_ecdsa_with_aes_256_gcm_sha384, s2n_ecdhe_rsa_with_aes_256_gcm_sha384,
         s2n_ecdhe_ecdsa_with_aes_128_cbc_sha256, s2n_ecdhe_rsa_with_aes_128_cbc_sha256,
         s2n_ecdhe_ecdsa_with_aes_256_cbc_sha, s2n_ecdhe_rsa_with_aes_256_cbc_sha,
         s2n_ecdhe_ecdsa_with_aes_256_cbc_sha384, s2n_ecdhe_rsa_with_aes_256_cbc_sha384,
         s2n_rsa_with_aes_128_cbc_sha, s2n_rsa_with_aes_128_gcm_sha256, s2n_rsa_with_aes_256_gcm_sha384,
         s2n_rsa_with_aes_128_cbc_sha256, s2n_rsa_with_aes_256_cbc_sha, s2n_rsa_with_aes_256_cbc_sha256,
         s2n_rsa_with_3des_ede_cbc_sha, s2n_dhe_rsa_with_aes_128_cbc_sha, s2n_dhe_rsa_with_aes_128_gcm_sha256,
         s2n_dhe_rsa_with_aes_256_gcm_sha384, s2n_dhe_rsa_with_aes_128_cbc_sha256, s2n_dhe_rsa_with_aes_256_cbc_sha,
         s2n_dhe_rsa_with_aes_256_cbc_sha256],
     allow_chacha20_boosting = False\<rparr>"

datatype cipher_preferences_ref_4 = cipher_preferences_20190214_gcm | cipher_preferences_20210825 | cipher_preferences_20210825_gcm |
  cipher_preferences_20241008

fun cipher_preferences_4 :: "cipher_preferences_ref_4 \<Rightarrow> s2n_cipher_preferences" where
  "cipher_preferences_4 cipher_preferences_20190214_gcm = \<lparr>suites = [s2n_ecdhe_ecdsa_with_aes_128_gcm_sha256, s2n_ecdhe_rsa_with_aes_128_gcm_sha256,
         s2n_ecdhe_ecdsa_with_aes_256_gcm_sha384, s2n_ecdhe_rsa_with_aes_256_gcm_sha384,
         s2n_ecdhe_ecdsa_with_aes_128_cbc_sha, s2n_ecdhe_rsa_with_aes_128_cbc_sha,
         s2n_ecdhe_ecdsa_with_aes_128_cbc_sha256, s2n_ecdhe_rsa_with_aes_128_cbc_sha256,
         s2n_ecdhe_ecdsa_with_aes_256_cbc_sha, s2n_ecdhe_rsa_with_aes_256_cbc_sha,
         s2n_ecdhe_ecdsa_with_aes_256_cbc_sha384, s2n_ecdhe_rsa_with_aes_256_cbc_sha384,
         s2n_rsa_with_aes_128_gcm_sha256, s2n_rsa_with_aes_256_gcm_sha384, s2n_rsa_with_aes_128_cbc_sha,
         s2n_rsa_with_aes_128_cbc_sha256, s2n_rsa_with_aes_256_cbc_sha, s2n_rsa_with_aes_256_cbc_sha256,
         s2n_rsa_with_3des_ede_cbc_sha, s2n_dhe_rsa_with_aes_128_gcm_sha256, s2n_dhe_rsa_with_aes_256_gcm_sha384,
         s2n_dhe_rsa_with_aes_128_cbc_sha, s2n_dhe_rsa_with_aes_128_cbc_sha256, s2n_dhe_rsa_with_aes_256_cbc_sha,
         s2n_dhe_rsa_with_aes_256_cbc_sha256],
     allow_chacha20_boosting = False\<rparr>"
| "cipher_preferences_4 cipher_preferences_20210825 = \<lparr>suites = S2N_TLS13_CLOUDFRONT_CIPHER_SUITES_20200716 @
         [s2n_ecdhe_ecdsa_with_aes_128_cbc_sha, s2n_ecdhe_rsa_with_aes_128_cbc_sha,
         s2n_ecdhe_ecdsa_with_aes_128_gcm_sha256, s2n_ecdhe_rsa_with_aes_128_gcm_sha256,
         s2n_ecdhe_ecdsa_with_aes_256_gcm_sha384, s2n_ecdhe_rsa_with_aes_256_gcm_sha384,
         s2n_ecdhe_ecdsa_with_aes_128_cbc_sha256, s2n_ecdhe_rsa_with_aes_128_cbc_sha256,
         s2n_ecdhe_ecdsa_with_aes_256_cbc_sha, s2n_ecdhe_rsa_with_aes_256_cbc_sha,
         s2n_ecdhe_ecdsa_with_aes_256_cbc_sha384, s2n_ecdhe_rsa_with_aes_256_cbc_sha384,
         s2n_rsa_with_aes_128_cbc_sha, s2n_rsa_with_aes_128_gcm_sha256, s2n_rsa_with_aes_256_gcm_sha384,
         s2n_rsa_with_aes_128_cbc_sha256, s2n_rsa_with_aes_256_cbc_sha, s2n_rsa_with_aes_256_cbc_sha256,
         s2n_rsa_with_3des_ede_cbc_sha, s2n_dhe_rsa_with_aes_128_cbc_sha, s2n_dhe_rsa_with_aes_128_gcm_sha256,
         s2n_dhe_rsa_with_aes_256_gcm_sha384, s2n_dhe_rsa_with_aes_128_cbc_sha256, s2n_dhe_rsa_with_aes_256_cbc_sha,
         s2n_dhe_rsa_with_aes_256_cbc_sha256],
     allow_chacha20_boosting = False\<rparr>"
| "cipher_preferences_4 cipher_preferences_20210825_gcm = \<lparr>suites = S2N_TLS13_CLOUDFRONT_CIPHER_SUITES_20200716 @
         [s2n_ecdhe_ecdsa_with_aes_128_gcm_sha256, s2n_ecdhe_rsa_with_aes_128_gcm_sha256,
         s2n_ecdhe_ecdsa_with_aes_256_gcm_sha384, s2n_ecdhe_rsa_with_aes_256_gcm_sha384,
         s2n_ecdhe_ecdsa_with_aes_128_cbc_sha, s2n_ecdhe_rsa_with_aes_128_cbc_sha,
         s2n_ecdhe_ecdsa_with_aes_128_cbc_sha256, s2n_ecdhe_rsa_with_aes_128_cbc_sha256,
         s2n_ecdhe_ecdsa_with_aes_256_cbc_sha, s2n_ecdhe_rsa_with_aes_256_cbc_sha,
         s2n_ecdhe_ecdsa_with_aes_256_cbc_sha384, s2n_ecdhe_rsa_with_aes_256_cbc_sha384,
         s2n_rsa_with_aes_128_gcm_sha256, s2n_rsa_with_aes_256_gcm_sha384, s2n_rsa_with_aes_128_cbc_sha,
         s2n_rsa_with_aes_128_cbc_sha256, s2n_rsa_with_aes_256_cbc_sha, s2n_rsa_with_aes_256_cbc_sha256,
         s2n_rsa_with_3des_ede_cbc_sha, s2n_dhe_rsa_with_aes_128_gcm_sha256, s2n_dhe_rsa_with_aes_256_gcm_sha384,
         s2n_dhe_rsa_with_aes_128_cbc_sha, s2n_dhe_rsa_with_aes_128_cbc_sha256, s2n_dhe_rsa_with_aes_256_cbc_sha,
         s2n_dhe_rsa_with_aes_256_cbc_sha256],
     allow_chacha20_boosting = False\<rparr>"
| "cipher_preferences_4 cipher_preferences_20241008 = \<lparr>suites = S2N_TLS13_CLOUDFRONT_CIPHER_SUITES_20200716 @
         [s2n_ecdhe_ecdsa_with_aes_128_cbc_sha, s2n_ecdhe_rsa_with_aes_128_cbc_sha,
         s2n_ecdhe_ecdsa_with_aes_128_gcm_sha256, s2n_ecdhe_rsa_with_aes_128_gcm_sha256,
         s2n_ecdhe_ecdsa_with_aes_256_gcm_sha384, s2n_ecdhe_rsa_with_aes_256_gcm_sha384,
         s2n_ecdhe_ecdsa_with_aes_128_cbc_sha256, s2n_ecdhe_rsa_with_aes_128_cbc_sha256,
         s2n_ecdhe_ecdsa_with_aes_256_cbc_sha, s2n_ecdhe_rsa_with_aes_256_cbc_sha,
         s2n_ecdhe_ecdsa_with_aes_256_cbc_sha384, s2n_ecdhe_rsa_with_aes_256_cbc_sha384,
         s2n_rsa_with_aes_128_cbc_sha, s2n_rsa_with_aes_128_gcm_sha256, s2n_rsa_with_aes_256_gcm_sha384,
         s2n_rsa_with_aes_128_cbc_sha256, s2n_rsa_with_aes_256_cbc_sha, s2n_rsa_with_aes_256_cbc_sha256,
         s2n_dhe_rsa_with_aes_128_cbc_sha, s2n_dhe_rsa_with_aes_128_gcm_sha256, s2n_dhe_rsa_with_aes_256_gcm_sha384,
         s2n_dhe_rsa_with_aes_128_cbc_sha256, s2n_dhe_rsa_with_aes_256_cbc_sha, s2n_dhe_rsa_with_aes_256_cbc_sha256],
     allow_chacha20_boosting = False\<rparr>"

datatype cipher_preferences_ref_5 = cipher_preferences_20241008_gcm | cipher_preferences_20241009 | cipher_preferences_null | cipher_preferences_20170328 |
  cipher_preferences_20170328_gcm | cipher_preferences_20170405

fun cipher_preferences_5 :: "cipher_preferences_ref_5 \<Rightarrow> s2n_cipher_preferences" where
  "cipher_preferences_5 cipher_preferences_20241008_gcm = \<lparr>suites = S2N_TLS13_CLOUDFRONT_CIPHER_SUITES_20200716 @
         [s2n_ecdhe_ecdsa_with_aes_128_gcm_sha256, s2n_ecdhe_rsa_with_aes_128_gcm_sha256,
         s2n_ecdhe_ecdsa_with_aes_256_gcm_sha384, s2n_ecdhe_rsa_with_aes_256_gcm_sha384,
         s2n_ecdhe_ecdsa_with_aes_128_cbc_sha, s2n_ecdhe_rsa_with_aes_128_cbc_sha,
         s2n_ecdhe_ecdsa_with_aes_128_cbc_sha256, s2n_ecdhe_rsa_with_aes_128_cbc_sha256,
         s2n_ecdhe_ecdsa_with_aes_256_cbc_sha, s2n_ecdhe_rsa_with_aes_256_cbc_sha,
         s2n_ecdhe_ecdsa_with_aes_256_cbc_sha384, s2n_ecdhe_rsa_with_aes_256_cbc_sha384,
         s2n_rsa_with_aes_128_gcm_sha256, s2n_rsa_with_aes_256_gcm_sha384, s2n_rsa_with_aes_128_cbc_sha,
         s2n_rsa_with_aes_128_cbc_sha256, s2n_rsa_with_aes_256_cbc_sha, s2n_rsa_with_aes_256_cbc_sha256,
         s2n_dhe_rsa_with_aes_128_gcm_sha256, s2n_dhe_rsa_with_aes_256_gcm_sha384, s2n_dhe_rsa_with_aes_128_cbc_sha,
         s2n_dhe_rsa_with_aes_128_cbc_sha256, s2n_dhe_rsa_with_aes_256_cbc_sha, s2n_dhe_rsa_with_aes_256_cbc_sha256],
     allow_chacha20_boosting = False\<rparr>"
| "cipher_preferences_5 cipher_preferences_20241009 = \<lparr>suites = S2N_TLS13_CIPHER_SUITES_20190801 @
         [s2n_ecdhe_rsa_with_aes_256_gcm_sha384, s2n_ecdhe_rsa_with_aes_128_gcm_sha256,
         s2n_ecdhe_rsa_with_aes_256_cbc_sha384, s2n_ecdhe_rsa_with_aes_256_cbc_sha,
         s2n_ecdhe_rsa_with_aes_128_cbc_sha256, s2n_dhe_rsa_with_aes_256_cbc_sha256,
         s2n_dhe_rsa_with_aes_128_cbc_sha256, s2n_dhe_rsa_with_aes_256_cbc_sha, s2n_dhe_rsa_with_aes_128_cbc_sha],
     allow_chacha20_boosting = False\<rparr>"
| "cipher_preferences_5 cipher_preferences_null = \<lparr>suites = [s2n_null_cipher_suite],
     allow_chacha20_boosting = False\<rparr>"
| "cipher_preferences_5 cipher_preferences_20170328 = \<lparr>suites = [s2n_ecdhe_rsa_with_aes_128_cbc_sha, s2n_ecdhe_rsa_with_aes_128_gcm_sha256,
         s2n_ecdhe_rsa_with_aes_256_gcm_sha384, s2n_ecdhe_rsa_with_aes_128_cbc_sha256,
         s2n_ecdhe_rsa_with_aes_256_cbc_sha, s2n_ecdhe_rsa_with_aes_256_cbc_sha384, s2n_rsa_with_aes_128_cbc_sha,
         s2n_rsa_with_aes_128_gcm_sha256, s2n_rsa_with_aes_256_gcm_sha384, s2n_rsa_with_aes_128_cbc_sha256,
         s2n_rsa_with_aes_256_cbc_sha, s2n_rsa_with_aes_256_cbc_sha256, s2n_rsa_with_3des_ede_cbc_sha,
         s2n_dhe_rsa_with_aes_128_cbc_sha, s2n_dhe_rsa_with_aes_128_gcm_sha256, s2n_dhe_rsa_with_aes_256_gcm_sha384,
         s2n_dhe_rsa_with_aes_128_cbc_sha256, s2n_dhe_rsa_with_aes_256_cbc_sha, s2n_dhe_rsa_with_aes_256_cbc_sha256],
     allow_chacha20_boosting = False\<rparr>"
| "cipher_preferences_5 cipher_preferences_20170328_gcm = \<lparr>suites = [s2n_ecdhe_rsa_with_aes_128_gcm_sha256, s2n_ecdhe_rsa_with_aes_256_gcm_sha384,
         s2n_ecdhe_rsa_with_aes_128_cbc_sha, s2n_ecdhe_rsa_with_aes_128_cbc_sha256,
         s2n_ecdhe_rsa_with_aes_256_cbc_sha, s2n_ecdhe_rsa_with_aes_256_cbc_sha384, s2n_rsa_with_aes_128_gcm_sha256,
         s2n_rsa_with_aes_256_gcm_sha384, s2n_rsa_with_aes_128_cbc_sha, s2n_rsa_with_aes_128_cbc_sha256,
         s2n_rsa_with_aes_256_cbc_sha, s2n_rsa_with_aes_256_cbc_sha256, s2n_rsa_with_3des_ede_cbc_sha,
         s2n_dhe_rsa_with_aes_128_gcm_sha256, s2n_dhe_rsa_with_aes_256_gcm_sha384, s2n_dhe_rsa_with_aes_128_cbc_sha,
         s2n_dhe_rsa_with_aes_128_cbc_sha256, s2n_dhe_rsa_with_aes_256_cbc_sha, s2n_dhe_rsa_with_aes_256_cbc_sha256],
     allow_chacha20_boosting = False\<rparr>"
| "cipher_preferences_5 cipher_preferences_20170405 = \<lparr>suites = [s2n_ecdhe_rsa_with_aes_128_cbc_sha256, s2n_ecdhe_rsa_with_aes_256_cbc_sha384,
         s2n_ecdhe_rsa_with_aes_128_gcm_sha256, s2n_ecdhe_rsa_with_aes_256_gcm_sha384, s2n_rsa_with_aes_128_cbc_sha,
         s2n_rsa_with_aes_128_gcm_sha256, s2n_rsa_with_aes_256_gcm_sha384, s2n_rsa_with_aes_128_cbc_sha256,
         s2n_rsa_with_aes_256_cbc_sha, s2n_rsa_with_aes_256_cbc_sha256, s2n_rsa_with_3des_ede_cbc_sha],
     allow_chacha20_boosting = False\<rparr>"

datatype cipher_preferences_ref_6 = cipher_preferences_20170405_gcm | cipher_preferences_20170718 | cipher_preferences_20170718_gcm |
  elb_security_policy_2015_04 | elb_security_policy_2016_08 | elb_security_policy_tls_1_2_2017_01

fun cipher_preferences_6 :: "cipher_preferences_ref_6 \<Rightarrow> s2n_cipher_preferences" where
  "cipher_preferences_6 cipher_preferences_20170405_gcm = \<lparr>suites = [s2n_ecdhe_rsa_with_aes_128_gcm_sha256, s2n_ecdhe_rsa_with_aes_256_gcm_sha384,
         s2n_ecdhe_rsa_with_aes_128_cbc_sha256, s2n_ecdhe_rsa_with_aes_256_cbc_sha384,
         s2n_rsa_with_aes_128_gcm_sha256, s2n_rsa_with_aes_256_gcm_sha384, s2n_rsa_with_aes_128_cbc_sha,
         s2n_rsa_with_aes_128_cbc_sha256, s2n_rsa_with_aes_256_cbc_sha, s2n_rsa_with_aes_256_cbc_sha256,
         s2n_rsa_with_3des_ede_cbc_sha],
     allow_chacha20_boosting = False\<rparr>"
| "cipher_preferences_6 cipher_preferences_20170718 = \<lparr>suites = [s2n_ecdhe_rsa_with_aes_128_cbc_sha, s2n_ecdhe_rsa_with_aes_128_gcm_sha256,
         s2n_ecdhe_rsa_with_aes_256_gcm_sha384, s2n_ecdhe_rsa_with_aes_128_cbc_sha256,
         s2n_ecdhe_rsa_with_aes_256_cbc_sha, s2n_ecdhe_rsa_with_aes_256_cbc_sha384, s2n_rsa_with_aes_128_cbc_sha,
         s2n_rsa_with_aes_128_gcm_sha256, s2n_rsa_with_aes_256_gcm_sha384, s2n_rsa_with_aes_128_cbc_sha256,
         s2n_rsa_with_aes_256_cbc_sha, s2n_rsa_with_aes_256_cbc_sha256],
     allow_chacha20_boosting = False\<rparr>"
| "cipher_preferences_6 cipher_preferences_20170718_gcm = \<lparr>suites = [s2n_ecdhe_rsa_with_aes_128_gcm_sha256, s2n_ecdhe_rsa_with_aes_256_gcm_sha384,
         s2n_ecdhe_rsa_with_aes_128_cbc_sha, s2n_ecdhe_rsa_with_aes_128_cbc_sha256,
         s2n_ecdhe_rsa_with_aes_256_cbc_sha, s2n_ecdhe_rsa_with_aes_256_cbc_sha384, s2n_rsa_with_aes_128_gcm_sha256,
         s2n_rsa_with_aes_256_gcm_sha384, s2n_rsa_with_aes_128_cbc_sha, s2n_rsa_with_aes_128_cbc_sha256,
         s2n_rsa_with_aes_256_cbc_sha, s2n_rsa_with_aes_256_cbc_sha256],
     allow_chacha20_boosting = False\<rparr>"
| "cipher_preferences_6 elb_security_policy_2015_04 = \<lparr>suites = [s2n_ecdhe_ecdsa_with_aes_128_gcm_sha256, s2n_ecdhe_rsa_with_aes_128_gcm_sha256,
         s2n_ecdhe_ecdsa_with_aes_128_cbc_sha256, s2n_ecdhe_rsa_with_aes_128_cbc_sha256,
         s2n_ecdhe_ecdsa_with_aes_128_cbc_sha, s2n_ecdhe_rsa_with_aes_128_cbc_sha,
         s2n_ecdhe_ecdsa_with_aes_256_gcm_sha384, s2n_ecdhe_rsa_with_aes_256_gcm_sha384,
         s2n_ecdhe_ecdsa_with_aes_256_cbc_sha384, s2n_ecdhe_rsa_with_aes_256_cbc_sha384,
         s2n_ecdhe_rsa_with_aes_256_cbc_sha, s2n_ecdhe_ecdsa_with_aes_256_cbc_sha, s2n_rsa_with_aes_128_gcm_sha256,
         s2n_rsa_with_aes_128_cbc_sha256, s2n_rsa_with_aes_128_cbc_sha, s2n_rsa_with_aes_256_gcm_sha384,
         s2n_rsa_with_aes_256_cbc_sha256, s2n_rsa_with_aes_256_cbc_sha, s2n_rsa_with_3des_ede_cbc_sha],
     allow_chacha20_boosting = False\<rparr>"
| "cipher_preferences_6 elb_security_policy_2016_08 = \<lparr>suites = [s2n_ecdhe_ecdsa_with_aes_128_gcm_sha256, s2n_ecdhe_rsa_with_aes_128_gcm_sha256,
         s2n_ecdhe_ecdsa_with_aes_128_cbc_sha256, s2n_ecdhe_rsa_with_aes_128_cbc_sha256,
         s2n_ecdhe_ecdsa_with_aes_128_cbc_sha, s2n_ecdhe_rsa_with_aes_128_cbc_sha,
         s2n_ecdhe_ecdsa_with_aes_256_gcm_sha384, s2n_ecdhe_rsa_with_aes_256_gcm_sha384,
         s2n_ecdhe_ecdsa_with_aes_256_cbc_sha384, s2n_ecdhe_rsa_with_aes_256_cbc_sha384,
         s2n_ecdhe_rsa_with_aes_256_cbc_sha, s2n_ecdhe_ecdsa_with_aes_256_cbc_sha, s2n_rsa_with_aes_128_gcm_sha256,
         s2n_rsa_with_aes_128_cbc_sha256, s2n_rsa_with_aes_128_cbc_sha, s2n_rsa_with_aes_256_gcm_sha384,
         s2n_rsa_with_aes_256_cbc_sha256, s2n_rsa_with_aes_256_cbc_sha],
     allow_chacha20_boosting = False\<rparr>"
| "cipher_preferences_6 elb_security_policy_tls_1_2_2017_01 = \<lparr>suites = [s2n_ecdhe_ecdsa_with_aes_128_gcm_sha256, s2n_ecdhe_rsa_with_aes_128_gcm_sha256,
         s2n_ecdhe_ecdsa_with_aes_128_cbc_sha256, s2n_ecdhe_rsa_with_aes_128_cbc_sha256,
         s2n_ecdhe_ecdsa_with_aes_256_gcm_sha384, s2n_ecdhe_rsa_with_aes_256_gcm_sha384,
         s2n_ecdhe_ecdsa_with_aes_256_cbc_sha384, s2n_ecdhe_rsa_with_aes_256_cbc_sha384,
         s2n_rsa_with_aes_128_gcm_sha256, s2n_rsa_with_aes_128_cbc_sha256, s2n_rsa_with_aes_256_gcm_sha384,
         s2n_rsa_with_aes_256_cbc_sha256],
     allow_chacha20_boosting = False\<rparr>"

datatype cipher_preferences_ref_7 = elb_security_policy_tls_1_1_2017_01 | elb_security_policy_tls_1_2_ext_2018_06 | elb_security_policy_fs_2018_06 |
  elb_security_policy_fs_1_2_2019_08 | elb_security_policy_fs_1_1_2019_08 | elb_security_policy_fs_1_2_Res_2019_08

fun cipher_preferences_7 :: "cipher_preferences_ref_7 \<Rightarrow> s2n_cipher_preferences" where
  "cipher_preferences_7 elb_security_policy_tls_1_1_2017_01 = \<lparr>suites = [s2n_ecdhe_ecdsa_with_aes_128_gcm_sha256, s2n_ecdhe_rsa_with_aes_128_gcm_sha256,
         s2n_ecdhe_ecdsa_with_aes_128_cbc_sha256, s2n_ecdhe_rsa_with_aes_128_cbc_sha256,
         s2n_ecdhe_ecdsa_with_aes_128_cbc_sha, s2n_ecdhe_rsa_with_aes_128_cbc_sha,
         s2n_ecdhe_ecdsa_with_aes_256_gcm_sha384, s2n_ecdhe_rsa_with_aes_256_gcm_sha384,
         s2n_ecdhe_ecdsa_with_aes_256_cbc_sha384, s2n_ecdhe_rsa_with_aes_256_cbc_sha384,
         s2n_ecdhe_rsa_with_aes_256_cbc_sha, s2n_ecdhe_ecdsa_with_aes_256_cbc_sha, s2n_rsa_with_aes_128_gcm_sha256,
         s2n_rsa_with_aes_128_cbc_sha256, s2n_rsa_with_aes_128_cbc_sha, s2n_rsa_with_aes_256_gcm_sha384,
         s2n_rsa_with_aes_256_cbc_sha256, s2n_rsa_with_aes_256_cbc_sha],
     allow_chacha20_boosting = False\<rparr>"
| "cipher_preferences_7 elb_security_policy_tls_1_2_ext_2018_06 = \<lparr>suites = [s2n_ecdhe_ecdsa_with_aes_128_gcm_sha256, s2n_ecdhe_rsa_with_aes_128_gcm_sha256,
         s2n_ecdhe_ecdsa_with_aes_128_cbc_sha256, s2n_ecdhe_rsa_with_aes_128_cbc_sha256,
         s2n_ecdhe_ecdsa_with_aes_128_cbc_sha, s2n_ecdhe_rsa_with_aes_128_cbc_sha,
         s2n_ecdhe_ecdsa_with_aes_256_gcm_sha384, s2n_ecdhe_rsa_with_aes_256_gcm_sha384,
         s2n_ecdhe_ecdsa_with_aes_256_cbc_sha384, s2n_ecdhe_rsa_with_aes_256_cbc_sha384,
         s2n_ecdhe_rsa_with_aes_256_cbc_sha, s2n_ecdhe_ecdsa_with_aes_256_cbc_sha, s2n_rsa_with_aes_128_gcm_sha256,
         s2n_rsa_with_aes_128_cbc_sha256, s2n_rsa_with_aes_128_cbc_sha, s2n_rsa_with_aes_256_gcm_sha384,
         s2n_rsa_with_aes_256_cbc_sha256, s2n_rsa_with_aes_256_cbc_sha],
     allow_chacha20_boosting = False\<rparr>"
| "cipher_preferences_7 elb_security_policy_fs_2018_06 = \<lparr>suites = [s2n_ecdhe_ecdsa_with_aes_128_gcm_sha256, s2n_ecdhe_rsa_with_aes_128_gcm_sha256,
         s2n_ecdhe_ecdsa_with_aes_128_cbc_sha256, s2n_ecdhe_rsa_with_aes_128_cbc_sha256,
         s2n_ecdhe_ecdsa_with_aes_128_cbc_sha, s2n_ecdhe_rsa_with_aes_128_cbc_sha,
         s2n_ecdhe_ecdsa_with_aes_256_gcm_sha384, s2n_ecdhe_rsa_with_aes_256_gcm_sha384,
         s2n_ecdhe_ecdsa_with_aes_256_cbc_sha384, s2n_ecdhe_rsa_with_aes_256_cbc_sha384,
         s2n_ecdhe_rsa_with_aes_256_cbc_sha, s2n_ecdhe_ecdsa_with_aes_256_cbc_sha],
     allow_chacha20_boosting = False\<rparr>"
| "cipher_preferences_7 elb_security_policy_fs_1_2_2019_08 = \<lparr>suites = [s2n_ecdhe_ecdsa_with_aes_128_gcm_sha256, s2n_ecdhe_rsa_with_aes_128_gcm_sha256,
         s2n_ecdhe_ecdsa_with_aes_128_cbc_sha256, s2n_ecdhe_rsa_with_aes_128_cbc_sha256,
         s2n_ecdhe_ecdsa_with_aes_128_cbc_sha, s2n_ecdhe_rsa_with_aes_128_cbc_sha,
         s2n_ecdhe_ecdsa_with_aes_256_gcm_sha384, s2n_ecdhe_rsa_with_aes_256_gcm_sha384,
         s2n_ecdhe_ecdsa_with_aes_256_cbc_sha384, s2n_ecdhe_rsa_with_aes_256_cbc_sha384,
         s2n_ecdhe_rsa_with_aes_256_cbc_sha, s2n_ecdhe_ecdsa_with_aes_256_cbc_sha],
     allow_chacha20_boosting = False\<rparr>"
| "cipher_preferences_7 elb_security_policy_fs_1_1_2019_08 = \<lparr>suites = [s2n_ecdhe_ecdsa_with_aes_128_gcm_sha256, s2n_ecdhe_rsa_with_aes_128_gcm_sha256,
         s2n_ecdhe_ecdsa_with_aes_128_cbc_sha256, s2n_ecdhe_rsa_with_aes_128_cbc_sha256,
         s2n_ecdhe_ecdsa_with_aes_128_cbc_sha, s2n_ecdhe_rsa_with_aes_128_cbc_sha,
         s2n_ecdhe_ecdsa_with_aes_256_gcm_sha384, s2n_ecdhe_rsa_with_aes_256_gcm_sha384,
         s2n_ecdhe_ecdsa_with_aes_256_cbc_sha384, s2n_ecdhe_rsa_with_aes_256_cbc_sha384,
         s2n_ecdhe_rsa_with_aes_256_cbc_sha, s2n_ecdhe_ecdsa_with_aes_256_cbc_sha],
     allow_chacha20_boosting = False\<rparr>"
| "cipher_preferences_7 elb_security_policy_fs_1_2_Res_2019_08 = \<lparr>suites = [s2n_ecdhe_ecdsa_with_aes_128_gcm_sha256, s2n_ecdhe_rsa_with_aes_128_gcm_sha256,
         s2n_ecdhe_ecdsa_with_aes_128_cbc_sha256, s2n_ecdhe_rsa_with_aes_128_cbc_sha256,
         s2n_ecdhe_ecdsa_with_aes_256_gcm_sha384, s2n_ecdhe_rsa_with_aes_256_gcm_sha384,
         s2n_ecdhe_ecdsa_with_aes_256_cbc_sha384, s2n_ecdhe_rsa_with_aes_256_cbc_sha384],
     allow_chacha20_boosting = False\<rparr>"

datatype cipher_preferences_ref_8 = elb_security_policy_tls13_1_2_Ext2_2021_06 | cipher_preferences_cloudfront_upstream |
  cipher_preferences_cloudfront_ssl_v_3 | cipher_preferences_cloudfront_tls_1_0_2014 |
  cipher_preferences_cloudfront_tls_1_0_2016

fun cipher_preferences_8 :: "cipher_preferences_ref_8 \<Rightarrow> s2n_cipher_preferences" where
  "cipher_preferences_8 elb_security_policy_tls13_1_2_Ext2_2021_06 = \<lparr>suites = S2N_TLS13_CLOUDFRONT_CIPHER_SUITES_20200716 @
         [s2n_ecdhe_ecdsa_with_aes_128_gcm_sha256, s2n_ecdhe_rsa_with_aes_128_gcm_sha256,
         s2n_ecdhe_ecdsa_with_aes_128_cbc_sha256, s2n_ecdhe_rsa_with_aes_128_cbc_sha256,
         s2n_ecdhe_ecdsa_with_aes_128_cbc_sha, s2n_ecdhe_rsa_with_aes_128_cbc_sha,
         s2n_ecdhe_ecdsa_with_aes_256_gcm_sha384, s2n_ecdhe_rsa_with_aes_256_gcm_sha384,
         s2n_ecdhe_ecdsa_with_aes_256_cbc_sha384, s2n_ecdhe_rsa_with_aes_256_cbc_sha384,
         s2n_ecdhe_rsa_with_aes_256_cbc_sha, s2n_ecdhe_ecdsa_with_aes_256_cbc_sha, s2n_rsa_with_aes_128_gcm_sha256,
         s2n_rsa_with_aes_128_cbc_sha256, s2n_rsa_with_aes_128_cbc_sha, s2n_rsa_with_aes_256_gcm_sha384,
         s2n_rsa_with_aes_256_cbc_sha256, s2n_rsa_with_aes_256_cbc_sha],
     allow_chacha20_boosting = False\<rparr>"
| "cipher_preferences_8 cipher_preferences_cloudfront_upstream = \<lparr>suites = [s2n_ecdhe_ecdsa_with_aes_256_gcm_sha384, s2n_ecdhe_rsa_with_aes_256_gcm_sha384,
         s2n_ecdhe_ecdsa_with_aes_128_gcm_sha256, s2n_ecdhe_rsa_with_aes_128_gcm_sha256,
         s2n_ecdhe_ecdsa_with_aes_256_cbc_sha384, s2n_ecdhe_rsa_with_aes_256_cbc_sha384,
         s2n_ecdhe_ecdsa_with_aes_256_cbc_sha, s2n_ecdhe_rsa_with_aes_256_cbc_sha,
         s2n_ecdhe_ecdsa_with_aes_128_cbc_sha256, s2n_ecdhe_rsa_with_aes_128_cbc_sha256,
         s2n_ecdhe_ecdsa_with_aes_128_cbc_sha, s2n_ecdhe_rsa_with_aes_128_cbc_sha, s2n_rsa_with_aes_256_gcm_sha384,
         s2n_rsa_with_aes_128_gcm_sha256, s2n_rsa_with_aes_256_cbc_sha, s2n_rsa_with_aes_128_cbc_sha256,
         s2n_rsa_with_aes_128_cbc_sha, s2n_rsa_with_3des_ede_cbc_sha, s2n_rsa_with_rc4_128_md5],
     allow_chacha20_boosting = False\<rparr>"
| "cipher_preferences_8 cipher_preferences_cloudfront_ssl_v_3 = \<lparr>suites = S2N_TLS13_CLOUDFRONT_CIPHER_SUITES_20200716 @
         [s2n_ecdhe_rsa_with_aes_128_gcm_sha256, s2n_ecdhe_rsa_with_aes_128_cbc_sha256,
         s2n_ecdhe_rsa_with_aes_128_cbc_sha, s2n_ecdhe_rsa_with_aes_256_gcm_sha384,
         s2n_ecdhe_rsa_with_chacha20_poly1305_sha256, s2n_ecdhe_rsa_with_aes_256_cbc_sha384,
         s2n_ecdhe_rsa_with_aes_256_cbc_sha, s2n_rsa_with_aes_128_gcm_sha256, s2n_rsa_with_aes_256_gcm_sha384,
         s2n_rsa_with_aes_128_cbc_sha256, s2n_rsa_with_aes_256_cbc_sha, s2n_rsa_with_aes_128_cbc_sha,
         s2n_rsa_with_3des_ede_cbc_sha, s2n_rsa_with_rc4_128_md5],
     allow_chacha20_boosting = False\<rparr>"
| "cipher_preferences_8 cipher_preferences_cloudfront_tls_1_0_2014 = \<lparr>suites = S2N_TLS13_CLOUDFRONT_CIPHER_SUITES_20200716 @
         [s2n_ecdhe_ecdsa_with_aes_128_gcm_sha256, s2n_ecdhe_rsa_with_aes_128_gcm_sha256,
         s2n_ecdhe_ecdsa_with_aes_128_cbc_sha256, s2n_ecdhe_rsa_with_aes_128_cbc_sha256,
         s2n_ecdhe_ecdsa_with_aes_128_cbc_sha, s2n_ecdhe_rsa_with_aes_128_cbc_sha,
         s2n_ecdhe_ecdsa_with_aes_256_gcm_sha384, s2n_ecdhe_rsa_with_aes_256_gcm_sha384,
         s2n_ecdhe_ecdsa_with_chacha20_poly1305_sha256, s2n_ecdhe_rsa_with_chacha20_poly1305_sha256,
         s2n_ecdhe_ecdsa_with_aes_256_cbc_sha384, s2n_ecdhe_rsa_with_aes_256_cbc_sha384,
         s2n_ecdhe_ecdsa_with_aes_256_cbc_sha, s2n_ecdhe_rsa_with_aes_256_cbc_sha, s2n_rsa_with_aes_128_gcm_sha256,
         s2n_rsa_with_aes_256_gcm_sha384, s2n_rsa_with_aes_128_cbc_sha256, s2n_rsa_with_aes_256_cbc_sha,
         s2n_rsa_with_aes_128_cbc_sha, s2n_rsa_with_3des_ede_cbc_sha],
     allow_chacha20_boosting = False\<rparr>"
| "cipher_preferences_8 cipher_preferences_cloudfront_tls_1_0_2016 = \<lparr>suites = S2N_TLS13_CLOUDFRONT_CIPHER_SUITES_20200716 @
         [s2n_ecdhe_ecdsa_with_aes_128_gcm_sha256, s2n_ecdhe_rsa_with_aes_128_gcm_sha256,
         s2n_ecdhe_ecdsa_with_aes_128_cbc_sha256, s2n_ecdhe_rsa_with_aes_128_cbc_sha256,
         s2n_ecdhe_ecdsa_with_aes_128_cbc_sha, s2n_ecdhe_rsa_with_aes_128_cbc_sha,
         s2n_ecdhe_ecdsa_with_aes_256_gcm_sha384, s2n_ecdhe_rsa_with_aes_256_gcm_sha384,
         s2n_ecdhe_ecdsa_with_chacha20_poly1305_sha256, s2n_ecdhe_rsa_with_chacha20_poly1305_sha256,
         s2n_ecdhe_ecdsa_with_aes_256_cbc_sha384, s2n_ecdhe_rsa_with_aes_256_cbc_sha384,
         s2n_ecdhe_ecdsa_with_aes_256_cbc_sha, s2n_ecdhe_rsa_with_aes_256_cbc_sha, s2n_rsa_with_aes_128_gcm_sha256,
         s2n_rsa_with_aes_256_gcm_sha384, s2n_rsa_with_aes_128_cbc_sha256, s2n_rsa_with_aes_256_cbc_sha,
         s2n_rsa_with_aes_128_cbc_sha],
     allow_chacha20_boosting = False\<rparr>"

datatype cipher_preferences_ref_9 = cipher_preferences_cloudfront_tls_1_1_2016 | cipher_preferences_cloudfront_tls_1_2_2017 |
  cipher_preferences_cloudfront_tls_1_2_2018 | cipher_preferences_cloudfront_ssl_v_3_legacy |
  cipher_preferences_cloudfront_tls_1_0_2014_legacy

fun cipher_preferences_9 :: "cipher_preferences_ref_9 \<Rightarrow> s2n_cipher_preferences" where
  "cipher_preferences_9 cipher_preferences_cloudfront_tls_1_1_2016 = \<lparr>suites = S2N_TLS13_CLOUDFRONT_CIPHER_SUITES_20200716 @
         [s2n_ecdhe_ecdsa_with_aes_128_gcm_sha256, s2n_ecdhe_rsa_with_aes_128_gcm_sha256,
         s2n_ecdhe_ecdsa_with_aes_128_cbc_sha256, s2n_ecdhe_rsa_with_aes_128_cbc_sha256,
         s2n_ecdhe_ecdsa_with_aes_128_cbc_sha, s2n_ecdhe_rsa_with_aes_128_cbc_sha,
         s2n_ecdhe_ecdsa_with_aes_256_gcm_sha384, s2n_ecdhe_rsa_with_aes_256_gcm_sha384,
         s2n_ecdhe_ecdsa_with_chacha20_poly1305_sha256, s2n_ecdhe_rsa_with_chacha20_poly1305_sha256,
         s2n_ecdhe_ecdsa_with_aes_256_cbc_sha384, s2n_ecdhe_rsa_with_aes_256_cbc_sha384,
         s2n_ecdhe_ecdsa_with_aes_256_cbc_sha, s2n_ecdhe_rsa_with_aes_256_cbc_sha, s2n_rsa_with_aes_128_gcm_sha256,
         s2n_rsa_with_aes_256_gcm_sha384, s2n_rsa_with_aes_128_cbc_sha256, s2n_rsa_with_aes_256_cbc_sha,
         s2n_rsa_with_aes_128_cbc_sha],
     allow_chacha20_boosting = False\<rparr>"
| "cipher_preferences_9 cipher_preferences_cloudfront_tls_1_2_2017 = \<lparr>suites = S2N_TLS13_CLOUDFRONT_CIPHER_SUITES_20200716 @
         [s2n_ecdhe_ecdsa_with_aes_128_gcm_sha256, s2n_ecdhe_rsa_with_aes_128_gcm_sha256,
         s2n_ecdhe_ecdsa_with_aes_128_cbc_sha256, s2n_ecdhe_rsa_with_aes_128_cbc_sha256,
         s2n_ecdhe_ecdsa_with_aes_256_gcm_sha384, s2n_ecdhe_rsa_with_aes_256_gcm_sha384,
         s2n_ecdhe_ecdsa_with_chacha20_poly1305_sha256, s2n_ecdhe_rsa_with_chacha20_poly1305_sha256,
         s2n_ecdhe_ecdsa_with_aes_256_cbc_sha384, s2n_ecdhe_rsa_with_aes_256_cbc_sha384,
         s2n_ecdhe_ecdsa_with_aes_256_cbc_sha, s2n_ecdhe_rsa_with_aes_256_cbc_sha,
         s2n_ecdhe_ecdsa_with_aes_128_cbc_sha, s2n_ecdhe_rsa_with_aes_128_cbc_sha, s2n_rsa_with_aes_128_gcm_sha256,
         s2n_rsa_with_aes_256_gcm_sha384, s2n_rsa_with_aes_128_cbc_sha256],
     allow_chacha20_boosting = False\<rparr>"
| "cipher_preferences_9 cipher_preferences_cloudfront_tls_1_2_2018 = \<lparr>suites = S2N_TLS13_CLOUDFRONT_CIPHER_SUITES_20200716 @
         [s2n_ecdhe_ecdsa_with_aes_128_gcm_sha256, s2n_ecdhe_rsa_with_aes_128_gcm_sha256,
         s2n_ecdhe_ecdsa_with_aes_128_cbc_sha256, s2n_ecdhe_rsa_with_aes_128_cbc_sha256,
         s2n_ecdhe_ecdsa_with_aes_256_gcm_sha384, s2n_ecdhe_rsa_with_aes_256_gcm_sha384,
         s2n_ecdhe_ecdsa_with_chacha20_poly1305_sha256, s2n_ecdhe_rsa_with_chacha20_poly1305_sha256,
         s2n_ecdhe_ecdsa_with_aes_256_cbc_sha384, s2n_ecdhe_rsa_with_aes_256_cbc_sha384,
         s2n_rsa_with_aes_128_gcm_sha256, s2n_rsa_with_aes_256_gcm_sha384, s2n_rsa_with_aes_128_cbc_sha256],
     allow_chacha20_boosting = False\<rparr>"
| "cipher_preferences_9 cipher_preferences_cloudfront_ssl_v_3_legacy = \<lparr>suites = [s2n_ecdhe_ecdsa_with_aes_128_gcm_sha256, s2n_ecdhe_rsa_with_aes_128_gcm_sha256,
         s2n_ecdhe_ecdsa_with_aes_128_cbc_sha256, s2n_ecdhe_rsa_with_aes_128_cbc_sha256,
         s2n_ecdhe_ecdsa_with_aes_128_cbc_sha, s2n_ecdhe_rsa_with_aes_128_cbc_sha,
         s2n_ecdhe_ecdsa_with_aes_256_gcm_sha384, s2n_ecdhe_rsa_with_aes_256_gcm_sha384,
         s2n_ecdhe_ecdsa_with_aes_256_cbc_sha384, s2n_ecdhe_rsa_with_aes_256_cbc_sha384,
         s2n_ecdhe_ecdsa_with_aes_256_cbc_sha, s2n_ecdhe_rsa_with_aes_256_cbc_sha, s2n_rsa_with_aes_128_gcm_sha256,
         s2n_rsa_with_aes_256_gcm_sha384, s2n_rsa_with_aes_128_cbc_sha256, s2n_rsa_with_aes_256_cbc_sha,
         s2n_rsa_with_aes_128_cbc_sha, s2n_rsa_with_3des_ede_cbc_sha, s2n_rsa_with_rc4_128_md5],
     allow_chacha20_boosting = False\<rparr>"
| "cipher_preferences_9 cipher_preferences_cloudfront_tls_1_0_2014_legacy = \<lparr>suites = [s2n_ecdhe_ecdsa_with_aes_128_gcm_sha256, s2n_ecdhe_rsa_with_aes_128_gcm_sha256,
         s2n_ecdhe_ecdsa_with_aes_128_cbc_sha256, s2n_ecdhe_rsa_with_aes_128_cbc_sha256,
         s2n_ecdhe_ecdsa_with_aes_128_cbc_sha, s2n_ecdhe_rsa_with_aes_128_cbc_sha,
         s2n_ecdhe_ecdsa_with_aes_256_gcm_sha384, s2n_ecdhe_rsa_with_aes_256_gcm_sha384,
         s2n_ecdhe_ecdsa_with_aes_256_cbc_sha384, s2n_ecdhe_rsa_with_aes_256_cbc_sha384,
         s2n_ecdhe_ecdsa_with_aes_256_cbc_sha, s2n_ecdhe_rsa_with_aes_256_cbc_sha, s2n_rsa_with_aes_128_gcm_sha256,
         s2n_rsa_with_aes_256_gcm_sha384, s2n_rsa_with_aes_128_cbc_sha256, s2n_rsa_with_aes_256_cbc_sha,
         s2n_rsa_with_aes_128_cbc_sha, s2n_rsa_with_3des_ede_cbc_sha],
     allow_chacha20_boosting = False\<rparr>"

datatype cipher_preferences_ref_10 = cipher_preferences_cloudfront_tls_1_0_2016_legacy | cipher_preferences_cloudfront_tls_1_1_2016_legacy |
  cipher_preferences_cloudfront_tls_1_2_2018_legacy | cipher_preferences_cloudfront_tls_1_2_2019_legacy |
  cipher_preferences_cloudfront_upstream_tls10 | cipher_preferences_cloudfront_upstream_tls11

fun cipher_preferences_10 :: "cipher_preferences_ref_10 \<Rightarrow> s2n_cipher_preferences" where
  "cipher_preferences_10 cipher_preferences_cloudfront_tls_1_0_2016_legacy = \<lparr>suites = [s2n_ecdhe_ecdsa_with_aes_128_gcm_sha256, s2n_ecdhe_rsa_with_aes_128_gcm_sha256,
         s2n_ecdhe_ecdsa_with_aes_128_cbc_sha256, s2n_ecdhe_rsa_with_aes_128_cbc_sha256,
         s2n_ecdhe_ecdsa_with_aes_128_cbc_sha, s2n_ecdhe_rsa_with_aes_128_cbc_sha,
         s2n_ecdhe_ecdsa_with_aes_256_gcm_sha384, s2n_ecdhe_rsa_with_aes_256_gcm_sha384,
         s2n_ecdhe_ecdsa_with_aes_256_cbc_sha384, s2n_ecdhe_rsa_with_aes_256_cbc_sha384,
         s2n_ecdhe_ecdsa_with_aes_256_cbc_sha, s2n_ecdhe_rsa_with_aes_256_cbc_sha, s2n_rsa_with_aes_128_gcm_sha256,
         s2n_rsa_with_aes_256_gcm_sha384, s2n_rsa_with_aes_128_cbc_sha256, s2n_rsa_with_aes_256_cbc_sha,
         s2n_rsa_with_aes_128_cbc_sha],
     allow_chacha20_boosting = False\<rparr>"
| "cipher_preferences_10 cipher_preferences_cloudfront_tls_1_1_2016_legacy = \<lparr>suites = [s2n_ecdhe_ecdsa_with_aes_128_gcm_sha256, s2n_ecdhe_rsa_with_aes_128_gcm_sha256,
         s2n_ecdhe_ecdsa_with_aes_128_cbc_sha256, s2n_ecdhe_rsa_with_aes_128_cbc_sha256,
         s2n_ecdhe_ecdsa_with_aes_128_cbc_sha, s2n_ecdhe_rsa_with_aes_128_cbc_sha,
         s2n_ecdhe_ecdsa_with_aes_256_gcm_sha384, s2n_ecdhe_rsa_with_aes_256_gcm_sha384,
         s2n_ecdhe_ecdsa_with_aes_256_cbc_sha384, s2n_ecdhe_rsa_with_aes_256_cbc_sha384,
         s2n_ecdhe_ecdsa_with_aes_256_cbc_sha, s2n_ecdhe_rsa_with_aes_256_cbc_sha, s2n_rsa_with_aes_128_gcm_sha256,
         s2n_rsa_with_aes_256_gcm_sha384, s2n_rsa_with_aes_128_cbc_sha256, s2n_rsa_with_aes_256_cbc_sha,
         s2n_rsa_with_aes_128_cbc_sha],
     allow_chacha20_boosting = False\<rparr>"
| "cipher_preferences_10 cipher_preferences_cloudfront_tls_1_2_2018_legacy = \<lparr>suites = [s2n_ecdhe_ecdsa_with_aes_128_gcm_sha256, s2n_ecdhe_rsa_with_aes_128_gcm_sha256,
         s2n_ecdhe_ecdsa_with_aes_128_cbc_sha256, s2n_ecdhe_rsa_with_aes_128_cbc_sha256,
         s2n_ecdhe_ecdsa_with_aes_256_gcm_sha384, s2n_ecdhe_rsa_with_aes_256_gcm_sha384,
         s2n_ecdhe_ecdsa_with_aes_256_cbc_sha384, s2n_ecdhe_rsa_with_aes_256_cbc_sha384,
         s2n_rsa_with_aes_128_gcm_sha256, s2n_rsa_with_aes_256_gcm_sha384, s2n_rsa_with_aes_128_cbc_sha256],
     allow_chacha20_boosting = False\<rparr>"
| "cipher_preferences_10 cipher_preferences_cloudfront_tls_1_2_2019_legacy = \<lparr>suites = [s2n_ecdhe_ecdsa_with_aes_128_gcm_sha256, s2n_ecdhe_rsa_with_aes_128_gcm_sha256,
         s2n_ecdhe_ecdsa_with_aes_256_gcm_sha384, s2n_ecdhe_rsa_with_aes_256_gcm_sha384,
         s2n_ecdhe_ecdsa_with_aes_256_cbc_sha384, s2n_ecdhe_rsa_with_aes_256_cbc_sha384,
         s2n_ecdhe_ecdsa_with_aes_128_cbc_sha256, s2n_ecdhe_rsa_with_aes_128_cbc_sha256],
     allow_chacha20_boosting = False\<rparr>"
| "cipher_preferences_10 cipher_preferences_cloudfront_upstream_tls10 = \<lparr>suites = [s2n_ecdhe_ecdsa_with_aes_256_gcm_sha384, s2n_ecdhe_rsa_with_aes_256_gcm_sha384,
         s2n_ecdhe_ecdsa_with_aes_128_gcm_sha256, s2n_ecdhe_rsa_with_aes_128_gcm_sha256,
         s2n_ecdhe_ecdsa_with_aes_256_cbc_sha384, s2n_ecdhe_rsa_with_aes_256_cbc_sha384,
         s2n_ecdhe_ecdsa_with_aes_256_cbc_sha, s2n_ecdhe_rsa_with_aes_256_cbc_sha,
         s2n_ecdhe_ecdsa_with_aes_128_cbc_sha256, s2n_ecdhe_rsa_with_aes_128_cbc_sha256,
         s2n_ecdhe_ecdsa_with_aes_128_cbc_sha, s2n_ecdhe_rsa_with_aes_128_cbc_sha, s2n_rsa_with_aes_256_gcm_sha384,
         s2n_rsa_with_aes_128_gcm_sha256, s2n_rsa_with_aes_256_cbc_sha, s2n_rsa_with_aes_128_cbc_sha256,
         s2n_rsa_with_aes_128_cbc_sha, s2n_rsa_with_3des_ede_cbc_sha, s2n_rsa_with_rc4_128_md5],
     allow_chacha20_boosting = False\<rparr>"
| "cipher_preferences_10 cipher_preferences_cloudfront_upstream_tls11 = \<lparr>suites = [s2n_ecdhe_ecdsa_with_aes_256_gcm_sha384, s2n_ecdhe_rsa_with_aes_256_gcm_sha384,
         s2n_ecdhe_ecdsa_with_aes_128_gcm_sha256, s2n_ecdhe_rsa_with_aes_128_gcm_sha256,
         s2n_ecdhe_ecdsa_with_aes_256_cbc_sha384, s2n_ecdhe_rsa_with_aes_256_cbc_sha384,
         s2n_ecdhe_ecdsa_with_aes_256_cbc_sha, s2n_ecdhe_rsa_with_aes_256_cbc_sha,
         s2n_ecdhe_ecdsa_with_aes_128_cbc_sha256, s2n_ecdhe_rsa_with_aes_128_cbc_sha256,
         s2n_ecdhe_ecdsa_with_aes_128_cbc_sha, s2n_ecdhe_rsa_with_aes_128_cbc_sha, s2n_rsa_with_aes_256_gcm_sha384,
         s2n_rsa_with_aes_128_gcm_sha256, s2n_rsa_with_aes_256_cbc_sha, s2n_rsa_with_aes_128_cbc_sha256,
         s2n_rsa_with_aes_128_cbc_sha, s2n_rsa_with_3des_ede_cbc_sha, s2n_rsa_with_rc4_128_md5],
     allow_chacha20_boosting = False\<rparr>"

datatype cipher_preferences_ref_11 = cipher_preferences_cloudfront_upstream_tls12 | cipher_preferences_cloudfront_tls_1_2_2019 |
  cipher_preferences_cloudfront_tls_1_2_2021 | cipher_preferences_cloudfront_tls_1_2_2021_chacha20_boosted |
  cipher_preferences_aws_crt_sdk_ssl_v3 | cipher_preferences_aws_crt_sdk_default | cipher_preferences_aws_crt_sdk_tls_13

fun cipher_preferences_11 :: "cipher_preferences_ref_11 \<Rightarrow> s2n_cipher_preferences" where
  "cipher_preferences_11 cipher_preferences_cloudfront_upstream_tls12 = \<lparr>suites = [s2n_ecdhe_ecdsa_with_aes_256_gcm_sha384, s2n_ecdhe_rsa_with_aes_256_gcm_sha384,
         s2n_ecdhe_ecdsa_with_aes_128_gcm_sha256, s2n_ecdhe_rsa_with_aes_128_gcm_sha256,
         s2n_ecdhe_ecdsa_with_aes_256_cbc_sha384, s2n_ecdhe_rsa_with_aes_256_cbc_sha384,
         s2n_ecdhe_ecdsa_with_aes_256_cbc_sha, s2n_ecdhe_rsa_with_aes_256_cbc_sha,
         s2n_ecdhe_ecdsa_with_aes_128_cbc_sha256, s2n_ecdhe_rsa_with_aes_128_cbc_sha256,
         s2n_ecdhe_ecdsa_with_aes_128_cbc_sha, s2n_ecdhe_rsa_with_aes_128_cbc_sha, s2n_rsa_with_aes_256_gcm_sha384,
         s2n_rsa_with_aes_128_gcm_sha256, s2n_rsa_with_aes_256_cbc_sha, s2n_rsa_with_aes_128_cbc_sha256,
         s2n_rsa_with_aes_128_cbc_sha, s2n_rsa_with_3des_ede_cbc_sha, s2n_rsa_with_rc4_128_md5],
     allow_chacha20_boosting = False\<rparr>"
| "cipher_preferences_11 cipher_preferences_cloudfront_tls_1_2_2019 = \<lparr>suites = S2N_TLS13_CLOUDFRONT_CIPHER_SUITES_20200716 @
         [s2n_ecdhe_ecdsa_with_aes_128_gcm_sha256, s2n_ecdhe_rsa_with_aes_128_gcm_sha256,
         s2n_ecdhe_ecdsa_with_aes_256_gcm_sha384, s2n_ecdhe_rsa_with_aes_256_gcm_sha384,
         s2n_ecdhe_ecdsa_with_chacha20_poly1305_sha256, s2n_ecdhe_rsa_with_chacha20_poly1305_sha256,
         s2n_ecdhe_ecdsa_with_aes_256_cbc_sha384, s2n_ecdhe_rsa_with_aes_256_cbc_sha384,
         s2n_ecdhe_ecdsa_with_aes_128_cbc_sha256, s2n_ecdhe_rsa_with_aes_128_cbc_sha256],
     allow_chacha20_boosting = False\<rparr>"
| "cipher_preferences_11 cipher_preferences_cloudfront_tls_1_2_2021 = \<lparr>suites = S2N_TLS13_CLOUDFRONT_CIPHER_SUITES_20200716 @
         [s2n_ecdhe_ecdsa_with_aes_128_gcm_sha256, s2n_ecdhe_rsa_with_aes_128_gcm_sha256,
         s2n_ecdhe_ecdsa_with_aes_256_gcm_sha384, s2n_ecdhe_rsa_with_aes_256_gcm_sha384,
         s2n_ecdhe_ecdsa_with_chacha20_poly1305_sha256, s2n_ecdhe_rsa_with_chacha20_poly1305_sha256],
     allow_chacha20_boosting = False\<rparr>"
| "cipher_preferences_11 cipher_preferences_cloudfront_tls_1_2_2021_chacha20_boosted = \<lparr>suites = S2N_TLS13_CLOUDFRONT_CIPHER_SUITES_20200716 @
         [s2n_ecdhe_ecdsa_with_aes_128_gcm_sha256, s2n_ecdhe_rsa_with_aes_128_gcm_sha256,
         s2n_ecdhe_ecdsa_with_aes_256_gcm_sha384, s2n_ecdhe_rsa_with_aes_256_gcm_sha384,
         s2n_ecdhe_ecdsa_with_chacha20_poly1305_sha256, s2n_ecdhe_rsa_with_chacha20_poly1305_sha256],
     allow_chacha20_boosting = True\<rparr>"
| "cipher_preferences_11 cipher_preferences_aws_crt_sdk_ssl_v3 = \<lparr>suites = S2N_TLS13_CLOUDFRONT_CIPHER_SUITES_20200716 @
         [s2n_ecdhe_ecdsa_with_aes_128_gcm_sha256, s2n_ecdhe_rsa_with_aes_128_gcm_sha256,
         s2n_ecdhe_ecdsa_with_aes_256_gcm_sha384, s2n_ecdhe_rsa_with_aes_256_gcm_sha384,
         s2n_ecdhe_ecdsa_with_chacha20_poly1305_sha256, s2n_ecdhe_rsa_with_chacha20_poly1305_sha256,
         s2n_ecdhe_ecdsa_with_aes_128_cbc_sha256, s2n_ecdhe_rsa_with_aes_128_cbc_sha256,
         s2n_ecdhe_ecdsa_with_aes_256_cbc_sha384, s2n_ecdhe_rsa_with_aes_256_cbc_sha384,
         s2n_ecdhe_ecdsa_with_aes_128_cbc_sha, s2n_ecdhe_rsa_with_aes_128_cbc_sha,
         s2n_ecdhe_ecdsa_with_aes_256_cbc_sha, s2n_ecdhe_rsa_with_aes_256_cbc_sha, s2n_rsa_with_aes_128_gcm_sha256,
         s2n_rsa_with_aes_256_gcm_sha384, s2n_rsa_with_aes_128_cbc_sha256, s2n_rsa_with_aes_256_cbc_sha256,
         s2n_rsa_with_aes_128_cbc_sha, s2n_rsa_with_aes_256_cbc_sha, s2n_rsa_with_3des_ede_cbc_sha,
         s2n_rsa_with_rc4_128_md5],
     allow_chacha20_boosting = False\<rparr>"
| "cipher_preferences_11 cipher_preferences_aws_crt_sdk_default = \<lparr>suites = S2N_TLS13_CLOUDFRONT_CIPHER_SUITES_20200716 @
         [s2n_ecdhe_ecdsa_with_aes_128_gcm_sha256, s2n_ecdhe_rsa_with_aes_128_gcm_sha256,
         s2n_ecdhe_ecdsa_with_aes_256_gcm_sha384, s2n_ecdhe_rsa_with_aes_256_gcm_sha384,
         s2n_ecdhe_ecdsa_with_chacha20_poly1305_sha256, s2n_ecdhe_rsa_with_chacha20_poly1305_sha256,
         s2n_ecdhe_ecdsa_with_aes_128_cbc_sha256, s2n_ecdhe_rsa_with_aes_128_cbc_sha256,
         s2n_ecdhe_ecdsa_with_aes_256_cbc_sha384, s2n_ecdhe_rsa_with_aes_256_cbc_sha384,
         s2n_ecdhe_ecdsa_with_aes_128_cbc_sha, s2n_ecdhe_rsa_with_aes_128_cbc_sha,
         s2n_ecdhe_ecdsa_with_aes_256_cbc_sha, s2n_ecdhe_rsa_with_aes_256_cbc_sha, s2n_rsa_with_aes_128_gcm_sha256,
         s2n_rsa_with_aes_256_gcm_sha384, s2n_rsa_with_aes_128_cbc_sha256, s2n_rsa_with_aes_256_cbc_sha256,
         s2n_rsa_with_aes_128_cbc_sha, s2n_rsa_with_aes_256_cbc_sha],
     allow_chacha20_boosting = False\<rparr>"
| "cipher_preferences_11 cipher_preferences_aws_crt_sdk_tls_13 = \<lparr>suites = S2N_TLS13_CLOUDFRONT_CIPHER_SUITES_20200716,
     allow_chacha20_boosting = False\<rparr>"

datatype cipher_preferences_ref_12 = cipher_preferences_kms_tls_1_0_2018_10 | cipher_preferences_kms_tls_1_0_2021_08 |
  cipher_preferences_kms_pq_tls_1_0_2019_06 | cipher_preferences_kms_pq_tls_1_0_2020_02 |
  cipher_preferences_kms_pq_tls_1_0_2020_07 | cipher_preferences_pq_tls_1_0_2020_12 |
  cipher_preferences_pq_tls_1_1_2021_05_17

fun cipher_preferences_12 :: "cipher_preferences_ref_12 \<Rightarrow> s2n_cipher_preferences" where
  "cipher_preferences_12 cipher_preferences_kms_tls_1_0_2018_10 = \<lparr>suites = [s2n_ecdhe_rsa_with_aes_256_gcm_sha384, s2n_ecdhe_rsa_with_aes_128_gcm_sha256,
         s2n_ecdhe_rsa_with_aes_256_cbc_sha384, s2n_ecdhe_rsa_with_aes_256_cbc_sha,
         s2n_ecdhe_rsa_with_aes_128_cbc_sha256, s2n_ecdhe_rsa_with_3des_ede_cbc_sha,
         s2n_dhe_rsa_with_aes_256_cbc_sha256, s2n_dhe_rsa_with_aes_128_cbc_sha256, s2n_dhe_rsa_with_aes_256_cbc_sha,
         s2n_dhe_rsa_with_aes_128_cbc_sha],
     allow_chacha20_boosting = False\<rparr>"
| "cipher_preferences_12 cipher_preferences_kms_tls_1_0_2021_08 = \<lparr>suites = S2N_TLS13_CLOUDFRONT_CIPHER_SUITES_20200716 @
         [s2n_ecdhe_rsa_with_aes_256_gcm_sha384, s2n_ecdhe_rsa_with_aes_128_gcm_sha256,
         s2n_ecdhe_rsa_with_aes_256_cbc_sha384, s2n_ecdhe_rsa_with_aes_256_cbc_sha,
         s2n_ecdhe_rsa_with_aes_128_cbc_sha256, s2n_ecdhe_rsa_with_3des_ede_cbc_sha,
         s2n_dhe_rsa_with_aes_256_cbc_sha256, s2n_dhe_rsa_with_aes_128_cbc_sha256, s2n_dhe_rsa_with_aes_256_cbc_sha,
         s2n_dhe_rsa_with_aes_128_cbc_sha],
     allow_chacha20_boosting = False\<rparr>"
| "cipher_preferences_12 cipher_preferences_kms_pq_tls_1_0_2019_06 = \<lparr>suites = [s2n_ecdhe_rsa_with_aes_256_gcm_sha384, s2n_ecdhe_rsa_with_aes_128_gcm_sha256,
         s2n_ecdhe_rsa_with_aes_256_cbc_sha384, s2n_ecdhe_rsa_with_aes_256_cbc_sha,
         s2n_ecdhe_rsa_with_aes_128_cbc_sha256, s2n_ecdhe_rsa_with_3des_ede_cbc_sha,
         s2n_dhe_rsa_with_aes_256_cbc_sha256, s2n_dhe_rsa_with_aes_128_cbc_sha256, s2n_dhe_rsa_with_aes_256_cbc_sha,
         s2n_dhe_rsa_with_aes_128_cbc_sha],
     allow_chacha20_boosting = False\<rparr>"
| "cipher_preferences_12 cipher_preferences_kms_pq_tls_1_0_2020_02 = \<lparr>suites = [s2n_ecdhe_rsa_with_aes_256_gcm_sha384, s2n_ecdhe_rsa_with_aes_128_gcm_sha256,
         s2n_ecdhe_rsa_with_aes_256_cbc_sha384, s2n_ecdhe_rsa_with_aes_256_cbc_sha,
         s2n_ecdhe_rsa_with_aes_128_cbc_sha256, s2n_ecdhe_rsa_with_3des_ede_cbc_sha,
         s2n_dhe_rsa_with_aes_256_cbc_sha256, s2n_dhe_rsa_with_aes_128_cbc_sha256, s2n_dhe_rsa_with_aes_256_cbc_sha,
         s2n_dhe_rsa_with_aes_128_cbc_sha],
     allow_chacha20_boosting = False\<rparr>"
| "cipher_preferences_12 cipher_preferences_kms_pq_tls_1_0_2020_07 = \<lparr>suites = [s2n_ecdhe_rsa_with_aes_256_gcm_sha384, s2n_ecdhe_rsa_with_aes_128_gcm_sha256,
         s2n_ecdhe_rsa_with_aes_256_cbc_sha384, s2n_ecdhe_rsa_with_aes_256_cbc_sha,
         s2n_ecdhe_rsa_with_aes_128_cbc_sha256, s2n_ecdhe_rsa_with_3des_ede_cbc_sha,
         s2n_dhe_rsa_with_aes_256_cbc_sha256, s2n_dhe_rsa_with_aes_128_cbc_sha256, s2n_dhe_rsa_with_aes_256_cbc_sha,
         s2n_dhe_rsa_with_aes_128_cbc_sha],
     allow_chacha20_boosting = False\<rparr>"
| "cipher_preferences_12 cipher_preferences_pq_tls_1_0_2020_12 = \<lparr>suites = S2N_TLS13_CIPHER_SUITES_20190801 @
         [s2n_ecdhe_rsa_with_aes_256_gcm_sha384, s2n_ecdhe_rsa_with_aes_128_gcm_sha256,
         s2n_ecdhe_rsa_with_aes_256_cbc_sha384, s2n_ecdhe_rsa_with_aes_256_cbc_sha,
         s2n_ecdhe_rsa_with_aes_128_cbc_sha256, s2n_ecdhe_rsa_with_3des_ede_cbc_sha,
         s2n_dhe_rsa_with_aes_256_cbc_sha256, s2n_dhe_rsa_with_aes_128_cbc_sha256, s2n_dhe_rsa_with_aes_256_cbc_sha,
         s2n_dhe_rsa_with_aes_128_cbc_sha],
     allow_chacha20_boosting = False\<rparr>"
| "cipher_preferences_12 cipher_preferences_pq_tls_1_1_2021_05_17 = \<lparr>suites = [s2n_ecdhe_ecdsa_with_aes_128_gcm_sha256, s2n_ecdhe_rsa_with_aes_128_gcm_sha256,
         s2n_ecdhe_ecdsa_with_aes_128_cbc_sha256, s2n_ecdhe_rsa_with_aes_128_cbc_sha256,
         s2n_ecdhe_ecdsa_with_aes_128_cbc_sha, s2n_ecdhe_rsa_with_aes_128_cbc_sha,
         s2n_ecdhe_ecdsa_with_aes_256_gcm_sha384, s2n_ecdhe_rsa_with_aes_256_gcm_sha384,
         s2n_ecdhe_ecdsa_with_aes_256_cbc_sha384, s2n_ecdhe_rsa_with_aes_256_cbc_sha384,
         s2n_ecdhe_rsa_with_aes_256_cbc_sha, s2n_ecdhe_ecdsa_with_aes_256_cbc_sha, s2n_rsa_with_aes_128_gcm_sha256,
         s2n_rsa_with_aes_128_cbc_sha256, s2n_rsa_with_aes_128_cbc_sha, s2n_rsa_with_aes_256_gcm_sha384,
         s2n_rsa_with_aes_256_cbc_sha256, s2n_rsa_with_aes_256_cbc_sha],
     allow_chacha20_boosting = False\<rparr>"

datatype cipher_preferences_ref_13 = cipher_preferences_pq_tls_1_0_2021_05_18 | cipher_preferences_pq_tls_1_0_2021_05_19 |
  cipher_preferences_pq_tls_1_1_2021_05_21 | cipher_preferences_pq_tls_1_0_2021_05_22

fun cipher_preferences_13 :: "cipher_preferences_ref_13 \<Rightarrow> s2n_cipher_preferences" where
  "cipher_preferences_13 cipher_preferences_pq_tls_1_0_2021_05_18 = \<lparr>suites = [s2n_ecdhe_ecdsa_with_aes_128_cbc_sha, s2n_ecdhe_rsa_with_aes_128_cbc_sha,
         s2n_ecdhe_ecdsa_with_aes_128_gcm_sha256, s2n_ecdhe_rsa_with_aes_128_gcm_sha256,
         s2n_ecdhe_ecdsa_with_aes_256_gcm_sha384, s2n_ecdhe_rsa_with_aes_256_gcm_sha384,
         s2n_ecdhe_ecdsa_with_aes_128_cbc_sha256, s2n_ecdhe_rsa_with_aes_128_cbc_sha256,
         s2n_ecdhe_ecdsa_with_aes_256_cbc_sha, s2n_ecdhe_rsa_with_aes_256_cbc_sha,
         s2n_ecdhe_ecdsa_with_aes_256_cbc_sha384, s2n_ecdhe_rsa_with_aes_256_cbc_sha384,
         s2n_rsa_with_aes_128_cbc_sha, s2n_rsa_with_aes_128_gcm_sha256, s2n_rsa_with_aes_256_gcm_sha384,
         s2n_rsa_with_aes_128_cbc_sha256, s2n_rsa_with_aes_256_cbc_sha, s2n_rsa_with_aes_256_cbc_sha256,
         s2n_rsa_with_3des_ede_cbc_sha, s2n_dhe_rsa_with_aes_128_cbc_sha, s2n_dhe_rsa_with_aes_128_gcm_sha256,
         s2n_dhe_rsa_with_aes_256_gcm_sha384, s2n_dhe_rsa_with_aes_128_cbc_sha256, s2n_dhe_rsa_with_aes_256_cbc_sha,
         s2n_dhe_rsa_with_aes_256_cbc_sha256],
     allow_chacha20_boosting = False\<rparr>"
| "cipher_preferences_13 cipher_preferences_pq_tls_1_0_2021_05_19 = \<lparr>suites = [s2n_ecdhe_ecdsa_with_aes_128_gcm_sha256, s2n_ecdhe_rsa_with_aes_128_gcm_sha256,
         s2n_ecdhe_ecdsa_with_aes_128_cbc_sha256, s2n_ecdhe_rsa_with_aes_128_cbc_sha256,
         s2n_ecdhe_ecdsa_with_aes_128_cbc_sha, s2n_ecdhe_rsa_with_aes_128_cbc_sha,
         s2n_ecdhe_ecdsa_with_aes_256_gcm_sha384, s2n_ecdhe_rsa_with_aes_256_gcm_sha384,
         s2n_ecdhe_ecdsa_with_aes_256_cbc_sha384, s2n_ecdhe_rsa_with_aes_256_cbc_sha384,
         s2n_ecdhe_rsa_with_aes_256_cbc_sha, s2n_ecdhe_ecdsa_with_aes_256_cbc_sha, s2n_rsa_with_aes_128_gcm_sha256,
         s2n_rsa_with_aes_128_cbc_sha256, s2n_rsa_with_aes_128_cbc_sha, s2n_rsa_with_aes_256_gcm_sha384,
         s2n_rsa_with_aes_256_cbc_sha256, s2n_rsa_with_aes_256_cbc_sha],
     allow_chacha20_boosting = False\<rparr>"
| "cipher_preferences_13 cipher_preferences_pq_tls_1_1_2021_05_21 = \<lparr>suites = S2N_TLS13_CLOUDFRONT_CIPHER_SUITES_20200716 @
         [s2n_ecdhe_ecdsa_with_aes_128_gcm_sha256, s2n_ecdhe_rsa_with_aes_128_gcm_sha256,
         s2n_ecdhe_ecdsa_with_aes_128_cbc_sha256, s2n_ecdhe_rsa_with_aes_128_cbc_sha256,
         s2n_ecdhe_ecdsa_with_aes_128_cbc_sha, s2n_ecdhe_rsa_with_aes_128_cbc_sha,
         s2n_ecdhe_ecdsa_with_aes_256_gcm_sha384, s2n_ecdhe_rsa_with_aes_256_gcm_sha384,
         s2n_ecdhe_ecdsa_with_aes_256_cbc_sha384, s2n_ecdhe_rsa_with_aes_256_cbc_sha384,
         s2n_ecdhe_rsa_with_aes_256_cbc_sha, s2n_ecdhe_ecdsa_with_aes_256_cbc_sha, s2n_rsa_with_aes_128_gcm_sha256,
         s2n_rsa_with_aes_128_cbc_sha256, s2n_rsa_with_aes_128_cbc_sha, s2n_rsa_with_aes_256_gcm_sha384,
         s2n_rsa_with_aes_256_cbc_sha256, s2n_rsa_with_aes_256_cbc_sha],
     allow_chacha20_boosting = False\<rparr>"
| "cipher_preferences_13 cipher_preferences_pq_tls_1_0_2021_05_22 = \<lparr>suites = S2N_TLS13_CLOUDFRONT_CIPHER_SUITES_20200716 @
         [s2n_ecdhe_ecdsa_with_aes_128_cbc_sha, s2n_ecdhe_rsa_with_aes_128_cbc_sha,
         s2n_ecdhe_ecdsa_with_aes_128_gcm_sha256, s2n_ecdhe_rsa_with_aes_128_gcm_sha256,
         s2n_ecdhe_ecdsa_with_aes_256_gcm_sha384, s2n_ecdhe_rsa_with_aes_256_gcm_sha384,
         s2n_ecdhe_ecdsa_with_aes_128_cbc_sha256, s2n_ecdhe_rsa_with_aes_128_cbc_sha256,
         s2n_ecdhe_ecdsa_with_aes_256_cbc_sha, s2n_ecdhe_rsa_with_aes_256_cbc_sha,
         s2n_ecdhe_ecdsa_with_aes_256_cbc_sha384, s2n_ecdhe_rsa_with_aes_256_cbc_sha384,
         s2n_rsa_with_aes_128_cbc_sha, s2n_rsa_with_aes_128_gcm_sha256, s2n_rsa_with_aes_256_gcm_sha384,
         s2n_rsa_with_aes_128_cbc_sha256, s2n_rsa_with_aes_256_cbc_sha, s2n_rsa_with_aes_256_cbc_sha256,
         s2n_rsa_with_3des_ede_cbc_sha, s2n_dhe_rsa_with_aes_128_cbc_sha, s2n_dhe_rsa_with_aes_128_gcm_sha256,
         s2n_dhe_rsa_with_aes_256_gcm_sha384, s2n_dhe_rsa_with_aes_128_cbc_sha256, s2n_dhe_rsa_with_aes_256_cbc_sha,
         s2n_dhe_rsa_with_aes_256_cbc_sha256],
     allow_chacha20_boosting = False\<rparr>"

datatype cipher_preferences_ref_14 = cipher_preferences_pq_tls_1_0_2021_05_23 | cipher_preferences_pq_tls_1_0_2021_05_24 |
  cipher_preferences_pq_tls_1_0_2021_05_25 | cipher_preferences_pq_tls_1_0_2021_05_26

fun cipher_preferences_14 :: "cipher_preferences_ref_14 \<Rightarrow> s2n_cipher_preferences" where
  "cipher_preferences_14 cipher_preferences_pq_tls_1_0_2021_05_23 = \<lparr>suites = S2N_TLS13_CLOUDFRONT_CIPHER_SUITES_20200716 @
         [s2n_ecdhe_ecdsa_with_aes_128_gcm_sha256, s2n_ecdhe_rsa_with_aes_128_gcm_sha256,
         s2n_ecdhe_ecdsa_with_aes_128_cbc_sha256, s2n_ecdhe_rsa_with_aes_128_cbc_sha256,
         s2n_ecdhe_ecdsa_with_aes_128_cbc_sha, s2n_ecdhe_rsa_with_aes_128_cbc_sha,
         s2n_ecdhe_ecdsa_with_aes_256_gcm_sha384, s2n_ecdhe_rsa_with_aes_256_gcm_sha384,
         s2n_ecdhe_ecdsa_with_aes_256_cbc_sha384, s2n_ecdhe_rsa_with_aes_256_cbc_sha384,
         s2n_ecdhe_rsa_with_aes_256_cbc_sha, s2n_ecdhe_ecdsa_with_aes_256_cbc_sha, s2n_rsa_with_aes_128_gcm_sha256,
         s2n_rsa_with_aes_128_cbc_sha256, s2n_rsa_with_aes_128_cbc_sha, s2n_rsa_with_aes_256_gcm_sha384,
         s2n_rsa_with_aes_256_cbc_sha256, s2n_rsa_with_aes_256_cbc_sha],
     allow_chacha20_boosting = False\<rparr>"
| "cipher_preferences_14 cipher_preferences_pq_tls_1_0_2021_05_24 = \<lparr>suites = S2N_TLS13_CIPHER_SUITES_20190801 @
         [s2n_ecdhe_rsa_with_aes_256_gcm_sha384, s2n_ecdhe_rsa_with_aes_128_gcm_sha256,
         s2n_ecdhe_rsa_with_aes_256_cbc_sha384, s2n_ecdhe_rsa_with_aes_256_cbc_sha,
         s2n_ecdhe_rsa_with_aes_128_cbc_sha256, s2n_ecdhe_rsa_with_3des_ede_cbc_sha,
         s2n_dhe_rsa_with_aes_256_cbc_sha256, s2n_dhe_rsa_with_aes_128_cbc_sha256, s2n_dhe_rsa_with_aes_256_cbc_sha,
         s2n_dhe_rsa_with_aes_128_cbc_sha],
     allow_chacha20_boosting = False\<rparr>"
| "cipher_preferences_14 cipher_preferences_pq_tls_1_0_2021_05_25 = \<lparr>suites = [s2n_ecdhe_ecdsa_with_aes_128_gcm_sha256, s2n_ecdhe_rsa_with_aes_128_gcm_sha256,
         s2n_ecdhe_ecdsa_with_aes_256_gcm_sha384, s2n_ecdhe_rsa_with_aes_256_gcm_sha384,
         s2n_ecdhe_ecdsa_with_aes_128_cbc_sha, s2n_ecdhe_rsa_with_aes_128_cbc_sha,
         s2n_ecdhe_ecdsa_with_aes_128_cbc_sha256, s2n_ecdhe_rsa_with_aes_128_cbc_sha256,
         s2n_ecdhe_ecdsa_with_aes_256_cbc_sha, s2n_ecdhe_rsa_with_aes_256_cbc_sha,
         s2n_ecdhe_ecdsa_with_aes_256_cbc_sha384, s2n_ecdhe_rsa_with_aes_256_cbc_sha384,
         s2n_rsa_with_aes_128_gcm_sha256, s2n_rsa_with_aes_256_gcm_sha384, s2n_rsa_with_aes_128_cbc_sha,
         s2n_rsa_with_aes_128_cbc_sha256, s2n_rsa_with_aes_256_cbc_sha, s2n_rsa_with_aes_256_cbc_sha256,
         s2n_rsa_with_3des_ede_cbc_sha, s2n_dhe_rsa_with_aes_128_gcm_sha256, s2n_dhe_rsa_with_aes_256_gcm_sha384,
         s2n_dhe_rsa_with_aes_128_cbc_sha, s2n_dhe_rsa_with_aes_128_cbc_sha256, s2n_dhe_rsa_with_aes_256_cbc_sha,
         s2n_dhe_rsa_with_aes_256_cbc_sha256],
     allow_chacha20_boosting = False\<rparr>"
| "cipher_preferences_14 cipher_preferences_pq_tls_1_0_2021_05_26 = \<lparr>suites = S2N_TLS13_CLOUDFRONT_CIPHER_SUITES_20200716 @
         [s2n_ecdhe_ecdsa_with_aes_128_gcm_sha256, s2n_ecdhe_rsa_with_aes_128_gcm_sha256,
         s2n_ecdhe_ecdsa_with_aes_256_gcm_sha384, s2n_ecdhe_rsa_with_aes_256_gcm_sha384,
         s2n_ecdhe_ecdsa_with_aes_128_cbc_sha, s2n_ecdhe_rsa_with_aes_128_cbc_sha,
         s2n_ecdhe_ecdsa_with_aes_128_cbc_sha256, s2n_ecdhe_rsa_with_aes_128_cbc_sha256,
         s2n_ecdhe_ecdsa_with_aes_256_cbc_sha, s2n_ecdhe_rsa_with_aes_256_cbc_sha,
         s2n_ecdhe_ecdsa_with_aes_256_cbc_sha384, s2n_ecdhe_rsa_with_aes_256_cbc_sha384,
         s2n_rsa_with_aes_128_gcm_sha256, s2n_rsa_with_aes_256_gcm_sha384, s2n_rsa_with_aes_128_cbc_sha,
         s2n_rsa_with_aes_128_cbc_sha256, s2n_rsa_with_aes_256_cbc_sha, s2n_rsa_with_aes_256_cbc_sha256,
         s2n_rsa_with_3des_ede_cbc_sha, s2n_dhe_rsa_with_aes_128_gcm_sha256, s2n_dhe_rsa_with_aes_256_gcm_sha384,
         s2n_dhe_rsa_with_aes_128_cbc_sha, s2n_dhe_rsa_with_aes_128_cbc_sha256, s2n_dhe_rsa_with_aes_256_cbc_sha,
         s2n_dhe_rsa_with_aes_256_cbc_sha256],
     allow_chacha20_boosting = False\<rparr>"

datatype cipher_preferences_ref_15 = cipher_preferences_pq_tls_1_3_2023_06_01 | cipher_preferences_20231213 | cipher_preferences_20231214 |
  cipher_preferences_kms_fips_tls_1_2_2018_10 | cipher_preferences_kms_fips_tls_1_2_2021_08 |
  cipher_preferences_20210816 | cipher_preferences_20210816_gcm

fun cipher_preferences_15 :: "cipher_preferences_ref_15 \<Rightarrow> s2n_cipher_preferences" where
  "cipher_preferences_15 cipher_preferences_pq_tls_1_3_2023_06_01 = \<lparr>suites = S2N_TLS13_CIPHER_SUITES_20190801 @
         [s2n_ecdhe_ecdsa_with_aes_128_gcm_sha256, s2n_ecdhe_rsa_with_aes_128_gcm_sha256,
         s2n_ecdhe_ecdsa_with_aes_256_gcm_sha384, s2n_ecdhe_rsa_with_aes_256_gcm_sha384,
         s2n_ecdhe_ecdsa_with_aes_128_cbc_sha, s2n_ecdhe_rsa_with_aes_128_cbc_sha,
         s2n_ecdhe_ecdsa_with_aes_128_cbc_sha256, s2n_ecdhe_rsa_with_aes_128_cbc_sha256,
         s2n_ecdhe_ecdsa_with_aes_256_cbc_sha, s2n_ecdhe_rsa_with_aes_256_cbc_sha,
         s2n_ecdhe_ecdsa_with_aes_256_cbc_sha384, s2n_ecdhe_rsa_with_aes_256_cbc_sha384,
         s2n_rsa_with_aes_128_gcm_sha256, s2n_rsa_with_aes_256_gcm_sha384, s2n_rsa_with_aes_128_cbc_sha,
         s2n_rsa_with_aes_128_cbc_sha256, s2n_rsa_with_aes_256_cbc_sha, s2n_rsa_with_aes_256_cbc_sha256,
         s2n_rsa_with_3des_ede_cbc_sha, s2n_dhe_rsa_with_aes_128_gcm_sha256, s2n_dhe_rsa_with_aes_256_gcm_sha384,
         s2n_dhe_rsa_with_aes_128_cbc_sha, s2n_dhe_rsa_with_aes_128_cbc_sha256, s2n_dhe_rsa_with_aes_256_cbc_sha,
         s2n_dhe_rsa_with_aes_256_cbc_sha256],
     allow_chacha20_boosting = False\<rparr>"
| "cipher_preferences_15 cipher_preferences_20231213 = \<lparr>suites = [s2n_tls13_aes_128_gcm_sha256, s2n_tls13_aes_256_gcm_sha384, s2n_ecdhe_ecdsa_with_aes_128_gcm_sha256,
         s2n_ecdhe_rsa_with_aes_128_gcm_sha256, s2n_ecdhe_ecdsa_with_aes_256_gcm_sha384,
         s2n_ecdhe_rsa_with_aes_256_gcm_sha384, s2n_ecdhe_ecdsa_with_aes_128_cbc_sha256,
         s2n_ecdhe_rsa_with_aes_128_cbc_sha256, s2n_ecdhe_ecdsa_with_aes_256_cbc_sha384,
         s2n_ecdhe_rsa_with_aes_256_cbc_sha384, s2n_rsa_with_aes_128_gcm_sha256, s2n_rsa_with_aes_256_gcm_sha384,
         s2n_rsa_with_aes_128_cbc_sha256, s2n_rsa_with_aes_256_cbc_sha256],
     allow_chacha20_boosting = False\<rparr>"
| "cipher_preferences_15 cipher_preferences_20231214 = \<lparr>suites = [s2n_tls13_aes_128_gcm_sha256, s2n_tls13_aes_256_gcm_sha384, s2n_ecdhe_ecdsa_with_aes_128_gcm_sha256,
         s2n_ecdhe_rsa_with_aes_128_gcm_sha256, s2n_ecdhe_ecdsa_with_aes_256_gcm_sha384,
         s2n_ecdhe_rsa_with_aes_256_gcm_sha384, s2n_ecdhe_ecdsa_with_aes_128_cbc_sha256,
         s2n_ecdhe_rsa_with_aes_128_cbc_sha256, s2n_ecdhe_ecdsa_with_aes_256_cbc_sha384,
         s2n_ecdhe_rsa_with_aes_256_cbc_sha384],
     allow_chacha20_boosting = False\<rparr>"
| "cipher_preferences_15 cipher_preferences_kms_fips_tls_1_2_2018_10 = \<lparr>suites = [s2n_ecdhe_rsa_with_aes_256_gcm_sha384, s2n_ecdhe_rsa_with_aes_128_gcm_sha256,
         s2n_ecdhe_rsa_with_aes_256_cbc_sha384, s2n_ecdhe_rsa_with_aes_128_cbc_sha256,
         s2n_dhe_rsa_with_aes_256_cbc_sha256, s2n_dhe_rsa_with_aes_128_cbc_sha256],
     allow_chacha20_boosting = False\<rparr>"
| "cipher_preferences_15 cipher_preferences_kms_fips_tls_1_2_2021_08 = \<lparr>suites = [s2n_tls13_aes_128_gcm_sha256, s2n_tls13_aes_256_gcm_sha384, s2n_ecdhe_rsa_with_aes_256_gcm_sha384,
         s2n_ecdhe_rsa_with_aes_128_gcm_sha256, s2n_ecdhe_rsa_with_aes_256_cbc_sha384,
         s2n_ecdhe_rsa_with_aes_128_cbc_sha256, s2n_dhe_rsa_with_aes_256_cbc_sha256,
         s2n_dhe_rsa_with_aes_128_cbc_sha256],
     allow_chacha20_boosting = False\<rparr>"
| "cipher_preferences_15 cipher_preferences_20210816 = \<lparr>suites = [s2n_ecdhe_ecdsa_with_aes_256_cbc_sha384, s2n_ecdhe_rsa_with_aes_256_cbc_sha384,
         s2n_ecdhe_ecdsa_with_aes_256_gcm_sha384, s2n_ecdhe_rsa_with_aes_256_gcm_sha384],
     allow_chacha20_boosting = False\<rparr>"
| "cipher_preferences_15 cipher_preferences_20210816_gcm = \<lparr>suites = [s2n_ecdhe_ecdsa_with_aes_256_gcm_sha384, s2n_ecdhe_rsa_with_aes_256_gcm_sha384,
         s2n_ecdhe_ecdsa_with_aes_256_cbc_sha384, s2n_ecdhe_rsa_with_aes_256_cbc_sha384],
     allow_chacha20_boosting = False\<rparr>"

datatype cipher_preferences_ref_16 = cipher_preferences_20240603 | cipher_preferences_rfc9151 | cipher_preferences_20250211

fun cipher_preferences_16 :: "cipher_preferences_ref_16 \<Rightarrow> s2n_cipher_preferences" where
  "cipher_preferences_16 cipher_preferences_20240603 = \<lparr>suites = [s2n_tls13_aes_128_gcm_sha256, s2n_tls13_aes_256_gcm_sha384, s2n_tls13_chacha20_poly1305_sha256,
         s2n_ecdhe_ecdsa_with_aes_128_gcm_sha256, s2n_ecdhe_ecdsa_with_aes_128_cbc_sha256,
         s2n_ecdhe_ecdsa_with_aes_256_gcm_sha384, s2n_ecdhe_ecdsa_with_aes_256_cbc_sha384,
         s2n_ecdhe_ecdsa_with_chacha20_poly1305_sha256, s2n_ecdhe_rsa_with_aes_128_gcm_sha256,
         s2n_ecdhe_rsa_with_aes_128_cbc_sha256, s2n_ecdhe_rsa_with_aes_256_gcm_sha384,
         s2n_ecdhe_rsa_with_aes_256_cbc_sha384, s2n_ecdhe_rsa_with_chacha20_poly1305_sha256,
         s2n_ecdhe_ecdsa_with_aes_128_cbc_sha, s2n_ecdhe_ecdsa_with_aes_256_cbc_sha,
         s2n_ecdhe_rsa_with_aes_128_cbc_sha, s2n_ecdhe_rsa_with_aes_256_cbc_sha, s2n_dhe_rsa_with_aes_128_gcm_sha256,
         s2n_dhe_rsa_with_aes_128_cbc_sha256, s2n_dhe_rsa_with_aes_256_gcm_sha384,
         s2n_dhe_rsa_with_aes_256_cbc_sha256, s2n_dhe_rsa_with_aes_128_cbc_sha, s2n_dhe_rsa_with_aes_256_cbc_sha,
         s2n_ecdhe_rsa_with_3des_ede_cbc_sha, s2n_dhe_rsa_with_3des_ede_cbc_sha, s2n_rsa_with_aes_128_gcm_sha256,
         s2n_rsa_with_aes_128_cbc_sha256, s2n_rsa_with_aes_256_gcm_sha384, s2n_rsa_with_aes_256_cbc_sha256,
         s2n_rsa_with_aes_128_cbc_sha, s2n_rsa_with_aes_256_cbc_sha, s2n_rsa_with_3des_ede_cbc_sha],
     allow_chacha20_boosting = True\<rparr>"
| "cipher_preferences_16 cipher_preferences_rfc9151 = \<lparr>suites = [s2n_ecdhe_ecdsa_with_aes_256_gcm_sha384, s2n_ecdhe_rsa_with_aes_256_gcm_sha384,
         s2n_rsa_with_aes_256_gcm_sha384, s2n_dhe_rsa_with_aes_256_gcm_sha384, s2n_tls13_aes_256_gcm_sha384],
     allow_chacha20_boosting = False\<rparr>"
| "cipher_preferences_16 cipher_preferences_20250211 = \<lparr>suites = [s2n_tls13_aes_256_gcm_sha384],
     allow_chacha20_boosting = False\<rparr>"

datatype test_cipher_preferences_ref = cipher_preferences_test_all | cipher_preferences_test_all_tls12 | cipher_preferences_test_all_fips |
  cipher_preferences_test_all_ecdsa | cipher_preferences_test_all_rsa_kex | cipher_preferences_test_ecdsa_priority |
  cipher_preferences_test_all_tls13

fun test_cipher_preferences :: "test_cipher_preferences_ref \<Rightarrow> s2n_cipher_preferences" where
  "test_cipher_preferences cipher_preferences_test_all = \<lparr>suites = s2n_all_cipher_suites, allow_chacha20_boosting = False\<rparr>"
| "test_cipher_preferences cipher_preferences_test_all_tls12 = \<lparr>suites = s2n_all_tls12_cipher_suites, allow_chacha20_boosting = False\<rparr>"
| "test_cipher_preferences cipher_preferences_test_all_fips = \<lparr>suites = s2n_all_fips_cipher_suites, allow_chacha20_boosting = False\<rparr>"
| "test_cipher_preferences cipher_preferences_test_all_ecdsa = \<lparr>suites = s2n_all_ecdsa_cipher_suites, allow_chacha20_boosting = False\<rparr>"
| "test_cipher_preferences cipher_preferences_test_all_rsa_kex = \<lparr>suites = s2n_all_rsa_kex_cipher_suites, allow_chacha20_boosting = False\<rparr>"
| "test_cipher_preferences cipher_preferences_test_ecdsa_priority = \<lparr>suites = s2n_ecdsa_priority_cipher_suites, allow_chacha20_boosting = False\<rparr>"
| "test_cipher_preferences cipher_preferences_test_all_tls13 = \<lparr>suites = s2n_all_tls13_cipher_suites, allow_chacha20_boosting = False\<rparr>"

end
