(* ===== verification/Policy_Parameters.thy ===== *)
theory Policy_Parameters
  imports Cipher_Suites
begin

text \<open>
  The parameters of the security policies: named curves (\<open>crypto/s2n_ecc_evp.c\<close>) and their preference lists
  (\<open>tls/s2n_ecc_preferences.c\<close>), signature schemes (\<open>tls/s2n_signature_scheme.c\<close>), key encapsulation mechanisms and
  hybrid groups (\<open>tls/s2n_kem.c\<close>, \<open>tls/s2n_kem_preferences.c\<close>) and certificate keys (\<open>tls/s2n_certificate_keys.c\<close>).

  As in \<open>Cipher_Suites\<close>, the static objects are the constructors of enumeration types and functions give their
  contents; a preference list is the array of its C structure, whose length is the count.  The object identifiers of
  OpenSSL are a datatype, because they are distinct numbers.  \<open>evp\<close> is the build option \<open>EVP_APIS_SUPPORTED\<close>, without
  which x25519 is left out of the lists.
\<close>

section \<open>Curves\<close>

datatype nid = NID_undef | NID_md5_sha1 | NID_sha1WithRSAEncryption | NID_sha224WithRSAEncryption | NID_sha256WithRSAEncryption |
  NID_sha384WithRSAEncryption | NID_sha512WithRSAEncryption | NID_ecdsa_with_SHA1 | NID_ecdsa_with_SHA224 |
  NID_ecdsa_with_SHA256 | NID_ecdsa_with_SHA384 | NID_ecdsa_with_SHA512 | NID_rsassaPss | NID_rsaEncryption |
  NID_X9_62_prime256v1 | NID_secp384r1 | NID_secp521r1 | NID_X25519 | NID_KYBER512_R3 | NID_KYBER768_R3 | NID_KYBER1024_R3 |
  NID_MLKEM768 | NID_other int

datatype curve_ref = s2n_ecc_curve_secp256r1 | s2n_ecc_curve_secp384r1 | s2n_ecc_curve_secp521r1 | s2n_ecc_curve_x25519 |
  s2n_unsupported_curve

record s2n_ecc_named_curve =
  curve_iana_id :: u16
  curve_libcrypto_nid :: nid
  curve_name :: "string option"
  share_size :: u8

fun ecc_named_curve :: "bool \<Rightarrow> curve_ref \<Rightarrow> s2n_ecc_named_curve" where
  "ecc_named_curve evp s2n_ecc_curve_secp256r1 = \<lparr>curve_iana_id = 23, curve_libcrypto_nid = NID_X9_62_prime256v1,
     curve_name = Some ''secp256r1'', share_size = 65\<rparr>"
| "ecc_named_curve evp s2n_ecc_curve_secp384r1 = \<lparr>curve_iana_id = 24, curve_libcrypto_nid = NID_secp384r1,
     curve_name = Some ''secp384r1'', share_size = 97\<rparr>"
| "ecc_named_curve evp s2n_ecc_curve_secp521r1 = \<lparr>curve_iana_id = 25, curve_libcrypto_nid = NID_secp521r1,
     curve_name = Some ''secp521r1'', share_size = 133\<rparr>"
| "ecc_named_curve evp s2n_ecc_curve_x25519 =
     (if evp then \<lparr>curve_iana_id = 29, curve_libcrypto_nid = NID_X25519, curve_name = Some ''x25519'', share_size = 32\<rparr>
      else \<lparr>curve_iana_id = 0, curve_libcrypto_nid = NID_undef, curve_name = None, share_size = 0\<rparr>)"
| "ecc_named_curve evp s2n_unsupported_curve = \<lparr>curve_iana_id = 0, curve_libcrypto_nid = NID_X9_62_prime256v1,
     curve_name = Some ''unsupported'', share_size = 65\<rparr>"

definition if_evp :: "bool \<Rightarrow> curve_ref \<Rightarrow> curve_ref list" where
  "if_evp evp c = (if evp then [c] else [])"

definition s2n_all_supported_curves_list :: "bool \<Rightarrow> curve_ref list" where
  "s2n_all_supported_curves_list evp = [s2n_ecc_curve_secp256r1, s2n_ecc_curve_secp384r1]
     @ if_evp evp s2n_ecc_curve_x25519 @ [s2n_ecc_curve_secp521r1]"

datatype ecc_preferences_ref = s2n_ecc_preferences_20240501 |
  s2n_ecc_preferences_20140601 |
  s2n_ecc_preferences_20200310 |
  s2n_ecc_preferences_20230623 |
  s2n_ecc_preferences_default_fips |
  s2n_ecc_preferences_20201021 |
  s2n_ecc_preferences_20210816 |
  s2n_ecc_preferences_20240603 |
  s2n_ecc_preferences_test_all |
  s2n_ecc_preferences_null

fun ecc_preferences :: "bool \<Rightarrow> ecc_preferences_ref \<Rightarrow> curve_ref list" where
  "ecc_preferences evp s2n_ecc_preferences_20240501 = [s2n_ecc_curve_secp256r1] @ if_evp evp s2n_ecc_curve_x25519
        @ [s2n_ecc_curve_secp384r1, s2n_ecc_curve_secp521r1]"
| "ecc_preferences evp s2n_ecc_preferences_20140601 = [s2n_ecc_curve_secp256r1, s2n_ecc_curve_secp384r1]"
| "ecc_preferences evp s2n_ecc_preferences_20200310 = if_evp evp s2n_ecc_curve_x25519 @ [s2n_ecc_curve_secp256r1, s2n_ecc_curve_secp384r1]"
| "ecc_preferences evp s2n_ecc_preferences_20230623 = [s2n_ecc_curve_secp256r1] @ if_evp evp s2n_ecc_curve_x25519
        @ [s2n_ecc_curve_secp384r1]"
| "ecc_preferences evp s2n_ecc_preferences_default_fips = [s2n_ecc_curve_secp256r1, s2n_ecc_curve_secp384r1]"
| "ecc_preferences evp s2n_ecc_preferences_20201021 = [s2n_ecc_curve_secp256r1, s2n_ecc_curve_secp384r1, s2n_ecc_curve_secp521r1]"
| "ecc_preferences evp s2n_ecc_preferences_20210816 = [s2n_ecc_curve_secp384r1]"
| "ecc_preferences evp s2n_ecc_preferences_20240603 = if_evp evp s2n_ecc_curve_x25519
        @ [s2n_ecc_curve_secp256r1, s2n_ecc_curve_secp384r1, s2n_ecc_curve_secp521r1]"
| "ecc_preferences evp s2n_ecc_preferences_test_all = if_evp evp s2n_ecc_curve_x25519
        @ [s2n_ecc_curve_secp256r1, s2n_ecc_curve_secp384r1, s2n_ecc_curve_secp521r1]"
| "ecc_preferences evp s2n_ecc_preferences_null = []"

definition curve_supported :: "bool \<Rightarrow> curve_ref \<Rightarrow> bool" where
  "curve_supported evp c \<longleftrightarrow>
     curve_iana_id (ecc_named_curve evp c) \<in> set (map (\<lambda>d. curve_iana_id (ecc_named_curve evp d)) (s2n_all_supported_curves_list evp))"

definition s2n_check_ecc_preferences_curves_list :: "bool \<Rightarrow> curve_ref list \<Rightarrow> unit result" where
  "s2n_check_ecc_preferences_curves_list evp ecc_curves =
     (if list_all (curve_supported evp) ecc_curves then Inr () else Inl (Err S2N_ERR_ECDHE_UNSUPPORTED_CURVE))"

definition s2n_ecc_preferences_includes_curve :: "bool \<Rightarrow> curve_ref list option \<Rightarrow> u16 \<Rightarrow> bool" where
  "s2n_ecc_preferences_includes_curve evp prefs query_iana_id =
     (case prefs of None \<Rightarrow> False | Some cs \<Rightarrow> list_ex (\<lambda>c. query_iana_id = curve_iana_id (ecc_named_curve evp c)) cs)"


section \<open>Signature schemes\<close>

datatype s2n_hash_algorithm = S2N_HASH_NONE | S2N_HASH_MD5 | S2N_HASH_SHA1 | S2N_HASH_SHA224 | S2N_HASH_SHA256 |
  S2N_HASH_SHA384 | S2N_HASH_SHA512 | S2N_HASH_MD5_SHA1

datatype s2n_signature_algorithm = S2N_SIGNATURE_ANONYMOUS | S2N_SIGNATURE_RSA | S2N_SIGNATURE_ECDSA |
  S2N_SIGNATURE_RSA_PSS_RSAE | S2N_SIGNATURE_RSA_PSS_PSS

record s2n_signature_scheme =
  sig_iana_value :: u16
  sig_iana_name :: string
  hash_alg :: s2n_hash_algorithm
  sig_alg :: s2n_signature_algorithm
  minimum_protocol_version :: u8
  maximum_protocol_version :: u8
  sig_libcrypto_nid :: nid
  signature_curve :: "curve_ref option"

datatype sig_scheme_ref = s2n_null_sig_scheme | s2n_rsa_pkcs1_md5_sha1 | s2n_rsa_pkcs1_sha1 | s2n_rsa_pkcs1_sha224 | s2n_rsa_pkcs1_sha256 |
  s2n_rsa_pkcs1_sha384 | s2n_rsa_pkcs1_sha512 | s2n_ecdsa_sha1 | s2n_ecdsa_sha224 | s2n_ecdsa_sha256 | s2n_ecdsa_sha384 |
  s2n_ecdsa_sha512 | s2n_rsa_pss_rsae_sha256 | s2n_rsa_pss_rsae_sha384 | s2n_rsa_pss_rsae_sha512 |
  s2n_rsa_pss_pss_sha256 | s2n_rsa_pss_pss_sha384 | s2n_rsa_pss_pss_sha512

fun signature_scheme :: "sig_scheme_ref \<Rightarrow> s2n_signature_scheme" where
  "signature_scheme s2n_null_sig_scheme = 
     \<lparr>sig_iana_value = 0, sig_iana_name = ''null_sha0'', hash_alg = S2N_HASH_NONE, sig_alg = S2N_SIGNATURE_ANONYMOUS,
         minimum_protocol_version = 0, maximum_protocol_version = 0, sig_libcrypto_nid = NID_undef,
         signature_curve = None\<rparr>"
| "signature_scheme s2n_rsa_pkcs1_md5_sha1 = 
     \<lparr>sig_iana_value = 0xFFFF, sig_iana_name = ''legacy_rsa_pkcs1_md5_sha1'', hash_alg = S2N_HASH_MD5_SHA1, sig_alg = S2N_SIGNATURE_RSA,
         minimum_protocol_version = 0, maximum_protocol_version = S2N_TLS12, sig_libcrypto_nid = NID_md5_sha1,
         signature_curve = None\<rparr>"
| "signature_scheme s2n_rsa_pkcs1_sha1 = 
     \<lparr>sig_iana_value = 0x0201, sig_iana_name = ''rsa_pkcs1_sha1'', hash_alg = S2N_HASH_SHA1, sig_alg = S2N_SIGNATURE_RSA,
         minimum_protocol_version = 0, maximum_protocol_version = S2N_TLS12, sig_libcrypto_nid = NID_sha1WithRSAEncryption,
         signature_curve = None\<rparr>"
| "signature_scheme s2n_rsa_pkcs1_sha224 = 
     \<lparr>sig_iana_value = 0x0301, sig_iana_name = ''legacy_rsa_pkcs1_sha224'', hash_alg = S2N_HASH_SHA224, sig_alg = S2N_SIGNATURE_RSA,
         minimum_protocol_version = 0, maximum_protocol_version = S2N_TLS12, sig_libcrypto_nid = NID_sha224WithRSAEncryption,
         signature_curve = None\<rparr>"
| "signature_scheme s2n_rsa_pkcs1_sha256 = 
     \<lparr>sig_iana_value = 0x0401, sig_iana_name = ''rsa_pkcs1_sha256'', hash_alg = S2N_HASH_SHA256, sig_alg = S2N_SIGNATURE_RSA,
         minimum_protocol_version = 0, maximum_protocol_version = S2N_TLS12, sig_libcrypto_nid = NID_sha256WithRSAEncryption,
         signature_curve = None\<rparr>"
| "signature_scheme s2n_rsa_pkcs1_sha384 = 
     \<lparr>sig_iana_value = 0x0501, sig_iana_name = ''rsa_pkcs1_sha384'', hash_alg = S2N_HASH_SHA384, sig_alg = S2N_SIGNATURE_RSA,
         minimum_protocol_version = 0, maximum_protocol_version = S2N_TLS12, sig_libcrypto_nid = NID_sha384WithRSAEncryption,
         signature_curve = None\<rparr>"
| "signature_scheme s2n_rsa_pkcs1_sha512 = 
     \<lparr>sig_iana_value = 0x0601, sig_iana_name = ''rsa_pkcs1_sha512'', hash_alg = S2N_HASH_SHA512, sig_alg = S2N_SIGNATURE_RSA,
         minimum_protocol_version = 0, maximum_protocol_version = S2N_TLS12, sig_libcrypto_nid = NID_sha512WithRSAEncryption,
         signature_curve = None\<rparr>"
| "signature_scheme s2n_ecdsa_sha1 = 
     \<lparr>sig_iana_value = 0x0203, sig_iana_name = ''ecdsa_sha1'', hash_alg = S2N_HASH_SHA1, sig_alg = S2N_SIGNATURE_ECDSA,
         minimum_protocol_version = 0, maximum_protocol_version = S2N_TLS12, sig_libcrypto_nid = NID_ecdsa_with_SHA1,
         signature_curve = None\<rparr>"
| "signature_scheme s2n_ecdsa_sha224 = 
     \<lparr>sig_iana_value = 0x0303, sig_iana_name = ''legacy_ecdsa_sha224'', hash_alg = S2N_HASH_SHA224, sig_alg = S2N_SIGNATURE_ECDSA,
         minimum_protocol_version = 0, maximum_protocol_version = S2N_TLS12, sig_libcrypto_nid = NID_ecdsa_with_SHA224,
         signature_curve = None\<rparr>"
| "signature_scheme s2n_ecdsa_sha256 = 
     \<lparr>sig_iana_value = 0x0403, sig_iana_name = ''ecdsa_sha256'', hash_alg = S2N_HASH_SHA256, sig_alg = S2N_SIGNATURE_ECDSA,
         minimum_protocol_version = 0, maximum_protocol_version = 0, sig_libcrypto_nid = NID_ecdsa_with_SHA256,
         signature_curve = Some s2n_ecc_curve_secp256r1\<rparr>"
| "signature_scheme s2n_ecdsa_sha384 = 
     \<lparr>sig_iana_value = 0x0503, sig_iana_name = ''ecdsa_sha384'', hash_alg = S2N_HASH_SHA384, sig_alg = S2N_SIGNATURE_ECDSA,
         minimum_protocol_version = 0, maximum_protocol_version = 0, sig_libcrypto_nid = NID_ecdsa_with_SHA384,
         signature_curve = Some s2n_ecc_curve_secp384r1\<rparr>"
| "signature_scheme s2n_ecdsa_sha512 = 
     \<lparr>sig_iana_value = 0x0603, sig_iana_name = ''ecdsa_sha512'', hash_alg = S2N_HASH_SHA512, sig_alg = S2N_SIGNATURE_ECDSA,
         minimum_protocol_version = 0, maximum_protocol_version = 0, sig_libcrypto_nid = NID_ecdsa_with_SHA512,
         signature_curve = Some s2n_ecc_curve_secp521r1\<rparr>"
| "signature_scheme s2n_rsa_pss_rsae_sha256 = 
     \<lparr>sig_iana_value = 0x0804, sig_iana_name = ''rsa_pss_rsae_sha256'', hash_alg = S2N_HASH_SHA256, sig_alg = S2N_SIGNATURE_RSA_PSS_RSAE,
         minimum_protocol_version = 0, maximum_protocol_version = 0, sig_libcrypto_nid = NID_rsassaPss,
         signature_curve = None\<rparr>"
| "signature_scheme s2n_rsa_pss_rsae_sha384 = 
     \<lparr>sig_iana_value = 0x0805, sig_iana_name = ''rsa_pss_rsae_sha384'', hash_alg = S2N_HASH_SHA384, sig_alg = S2N_SIGNATURE_RSA_PSS_RSAE,
         minimum_protocol_version = 0, maximum_protocol_version = 0, sig_libcrypto_nid = NID_rsassaPss,
         signature_curve = None\<rparr>"
| "signature_scheme s2n_rsa_pss_rsae_sha512 = 
     \<lparr>sig_iana_value = 0x0806, sig_iana_name = ''rsa_pss_rsae_sha512'', hash_alg = S2N_HASH_SHA512, sig_alg = S2N_SIGNATURE_RSA_PSS_RSAE,
         minimum_protocol_version = 0, maximum_protocol_version = 0, sig_libcrypto_nid = NID_rsassaPss,
         signature_curve = None\<rparr>"
| "signature_scheme s2n_rsa_pss_pss_sha256 = 
     \<lparr>sig_iana_value = 0x0809, sig_iana_name = ''rsa_pss_pss_sha256'', hash_alg = S2N_HASH_SHA256, sig_alg = S2N_SIGNATURE_RSA_PSS_PSS,
         minimum_protocol_version = S2N_TLS12, maximum_protocol_version = 0, sig_libcrypto_nid = NID_rsassaPss,
         signature_curve = None\<rparr>"
| "signature_scheme s2n_rsa_pss_pss_sha384 = 
     \<lparr>sig_iana_value = 0x080A, sig_iana_name = ''rsa_pss_pss_sha384'', hash_alg = S2N_HASH_SHA384, sig_alg = S2N_SIGNATURE_RSA_PSS_PSS,
         minimum_protocol_version = S2N_TLS12, maximum_protocol_version = 0, sig_libcrypto_nid = NID_rsassaPss,
         signature_curve = None\<rparr>"
| "signature_scheme s2n_rsa_pss_pss_sha512 = 
     \<lparr>sig_iana_value = 0x080B, sig_iana_name = ''rsa_pss_pss_sha512'', hash_alg = S2N_HASH_SHA512, sig_alg = S2N_SIGNATURE_RSA_PSS_PSS,
         minimum_protocol_version = S2N_TLS12, maximum_protocol_version = 0, sig_libcrypto_nid = NID_rsassaPss,
         signature_curve = None\<rparr>"

datatype signature_preferences_ref_1 = s2n_signature_preferences_all | s2n_signature_preferences_20240501

fun signature_preferences_1 :: "signature_preferences_ref_1 \<Rightarrow> sig_scheme_ref list" where
  "signature_preferences_1 s2n_signature_preferences_all = [s2n_rsa_pkcs1_md5_sha1, s2n_rsa_pkcs1_sha1, s2n_rsa_pkcs1_sha224, s2n_rsa_pkcs1_sha256, s2n_rsa_pkcs1_sha384,
        s2n_rsa_pkcs1_sha512, s2n_ecdsa_sha1, s2n_ecdsa_sha224, s2n_ecdsa_sha256, s2n_ecdsa_sha384, s2n_ecdsa_sha512,
        s2n_rsa_pss_rsae_sha256, s2n_rsa_pss_rsae_sha384, s2n_rsa_pss_rsae_sha512, s2n_rsa_pss_pss_sha256,
        s2n_rsa_pss_pss_sha384, s2n_rsa_pss_pss_sha512]"
| "signature_preferences_1 s2n_signature_preferences_20240501 = [s2n_ecdsa_sha256, s2n_ecdsa_sha384, s2n_ecdsa_sha512, s2n_rsa_pss_pss_sha256, s2n_rsa_pss_pss_sha384,
        s2n_rsa_pss_pss_sha512, s2n_rsa_pss_rsae_sha256, s2n_rsa_pss_rsae_sha384, s2n_rsa_pss_rsae_sha512,
        s2n_rsa_pkcs1_sha256, s2n_rsa_pkcs1_sha384, s2n_rsa_pkcs1_sha512]"

datatype signature_preferences_ref_2 = s2n_signature_preferences_default_fips | s2n_signature_preferences_20230317 | s2n_signature_preferences_20140601 |
  s2n_signature_preferences_20200207 | s2n_signature_preferences_20201021 | s2n_signature_preferences_null

fun signature_preferences_2 :: "signature_preferences_ref_2 \<Rightarrow> sig_scheme_ref list" where
  "signature_preferences_2 s2n_signature_preferences_default_fips = [s2n_rsa_pkcs1_sha256, s2n_rsa_pkcs1_sha384, s2n_rsa_pkcs1_sha512, s2n_ecdsa_sha256, s2n_ecdsa_sha384,
        s2n_ecdsa_sha512, s2n_ecdsa_sha224]"
| "signature_preferences_2 s2n_signature_preferences_20230317 = [s2n_rsa_pss_rsae_sha256, s2n_rsa_pss_rsae_sha384, s2n_rsa_pss_rsae_sha512, s2n_rsa_pkcs1_sha256,
        s2n_rsa_pkcs1_sha384, s2n_rsa_pkcs1_sha512, s2n_ecdsa_sha256, s2n_ecdsa_sha384, s2n_ecdsa_sha512,
        s2n_rsa_pss_pss_sha256, s2n_rsa_pss_pss_sha384, s2n_rsa_pss_pss_sha512]"
| "signature_preferences_2 s2n_signature_preferences_20140601 = [s2n_rsa_pkcs1_sha256, s2n_rsa_pkcs1_sha384, s2n_rsa_pkcs1_sha512, s2n_rsa_pkcs1_sha224, s2n_ecdsa_sha256,
        s2n_ecdsa_sha384, s2n_ecdsa_sha512, s2n_ecdsa_sha224, s2n_rsa_pkcs1_sha1, s2n_ecdsa_sha1]"
| "signature_preferences_2 s2n_signature_preferences_20200207 = [s2n_rsa_pss_pss_sha256, s2n_rsa_pss_pss_sha384, s2n_rsa_pss_pss_sha512, s2n_rsa_pss_rsae_sha256,
        s2n_rsa_pss_rsae_sha384, s2n_rsa_pss_rsae_sha512, s2n_rsa_pkcs1_sha256, s2n_rsa_pkcs1_sha384,
        s2n_rsa_pkcs1_sha512, s2n_rsa_pkcs1_sha224, s2n_ecdsa_sha256, s2n_ecdsa_sha384, s2n_ecdsa_sha512,
        s2n_ecdsa_sha224, s2n_rsa_pkcs1_sha1, s2n_ecdsa_sha1]"
| "signature_preferences_2 s2n_signature_preferences_20201021 = [s2n_rsa_pss_pss_sha256, s2n_rsa_pss_pss_sha384, s2n_rsa_pss_pss_sha512, s2n_rsa_pss_rsae_sha256,
        s2n_rsa_pss_rsae_sha384, s2n_rsa_pss_rsae_sha512, s2n_rsa_pkcs1_sha256, s2n_rsa_pkcs1_sha384,
        s2n_rsa_pkcs1_sha512, s2n_rsa_pkcs1_sha224, s2n_ecdsa_sha256, s2n_ecdsa_sha384, s2n_ecdsa_sha512,
        s2n_ecdsa_sha224, s2n_rsa_pkcs1_sha1, s2n_ecdsa_sha1]"
| "signature_preferences_2 s2n_signature_preferences_null = []"

datatype signature_preferences_ref_3 = s2n_certificate_signature_preferences_20201110 | s2n_signature_preferences_20210816 |
  s2n_signature_preferences_rfc9151 | s2n_certificate_signature_preferences_rfc9151 |
  s2n_signature_preferences_20240521 | s2n_signature_preferences_test_all_fips

fun signature_preferences_3 :: "signature_preferences_ref_3 \<Rightarrow> sig_scheme_ref list" where
  "signature_preferences_3 s2n_certificate_signature_preferences_20201110 = [s2n_rsa_pss_pss_sha256, s2n_rsa_pss_pss_sha384, s2n_rsa_pss_pss_sha512, s2n_rsa_pss_rsae_sha256,
        s2n_rsa_pss_rsae_sha384, s2n_rsa_pss_rsae_sha512, s2n_rsa_pkcs1_sha256, s2n_rsa_pkcs1_sha384,
        s2n_rsa_pkcs1_sha512, s2n_rsa_pkcs1_sha224, s2n_ecdsa_sha256, s2n_ecdsa_sha384, s2n_ecdsa_sha512,
        s2n_ecdsa_sha224]"
| "signature_preferences_3 s2n_signature_preferences_20210816 = [s2n_rsa_pkcs1_sha384, s2n_rsa_pkcs1_sha512, s2n_ecdsa_sha384, s2n_ecdsa_sha512]"
| "signature_preferences_3 s2n_signature_preferences_rfc9151 = [s2n_ecdsa_sha384, s2n_rsa_pss_pss_sha384, s2n_rsa_pss_rsae_sha384, s2n_rsa_pkcs1_sha384]"
| "signature_preferences_3 s2n_certificate_signature_preferences_rfc9151 = [s2n_ecdsa_sha384, s2n_rsa_pkcs1_sha384]"
| "signature_preferences_3 s2n_signature_preferences_20240521 = [s2n_ecdsa_sha256, s2n_ecdsa_sha384, s2n_ecdsa_sha512, s2n_rsa_pss_pss_sha256, s2n_rsa_pss_pss_sha384,
        s2n_rsa_pss_pss_sha512, s2n_rsa_pss_rsae_sha256, s2n_rsa_pss_rsae_sha384, s2n_rsa_pss_rsae_sha512,
        s2n_rsa_pkcs1_sha256, s2n_rsa_pkcs1_sha384, s2n_rsa_pkcs1_sha512, s2n_rsa_pkcs1_sha224, s2n_ecdsa_sha1,
        s2n_rsa_pkcs1_sha1]"
| "signature_preferences_3 s2n_signature_preferences_test_all_fips = [s2n_rsa_pss_pss_sha256, s2n_rsa_pss_pss_sha384, s2n_rsa_pss_pss_sha512, s2n_rsa_pss_rsae_sha256,
        s2n_rsa_pss_rsae_sha384, s2n_rsa_pss_rsae_sha512, s2n_rsa_pkcs1_sha256, s2n_rsa_pkcs1_sha384,
        s2n_rsa_pkcs1_sha512, s2n_rsa_pkcs1_sha224, s2n_ecdsa_sha256, s2n_ecdsa_sha384, s2n_ecdsa_sha512,
        s2n_ecdsa_sha224]"


section \<open>Key encapsulation\<close>

datatype kem_ref = s2n_mlkem_768 | s2n_kyber_512_r3 | s2n_kyber_768_r3 | s2n_kyber_1024_r3

text \<open>
  What the build found libcrypto to offer: the macros \<open>S2N_LIBCRYPTO_SUPPORTS_EVP_KEM\<close> and
  \<open>S2N_LIBCRYPTO_SUPPORTS_MLKEM\<close>.  They select the object identifiers below (\<open>tls/s2n_kem.h\<close>) and are what the
  functions of the same names return (\<open>crypto/s2n_pq.c\<close>).
\<close>

record kem_support =
  s2n_libcrypto_supports_evp_kem :: bool
  s2n_libcrypto_supports_mlkem :: bool

record s2n_kem_struct =
  kem_name :: string
  kem_nid :: nid
  kem_extension_id :: u16
  public_key_length :: u16
  private_key_length :: u16
  shared_secret_key_length :: u16
  ciphertext_length :: u16

fun kem :: "kem_support \<Rightarrow> kem_ref \<Rightarrow> s2n_kem_struct" where
  "kem ks s2n_mlkem_768 = \<lparr>kem_name = ''mlkem768'', kem_nid = (if s2n_libcrypto_supports_mlkem ks then NID_MLKEM768 else NID_undef),
     kem_extension_id = 0, public_key_length = 1184, private_key_length = 2400, shared_secret_key_length = 32,
     ciphertext_length = 1088\<rparr>"
| "kem ks s2n_kyber_512_r3 = \<lparr>kem_name = ''kyber512r3'', kem_nid = (if s2n_libcrypto_supports_evp_kem ks then NID_KYBER512_R3 else NID_undef),
     kem_extension_id = 28, public_key_length = 800, private_key_length = 1632, shared_secret_key_length = 32,
     ciphertext_length = 768\<rparr>"
| "kem ks s2n_kyber_768_r3 = \<lparr>kem_name = ''kyber768r3'', kem_nid = (if s2n_libcrypto_supports_evp_kem ks then NID_KYBER768_R3 else NID_undef),
     kem_extension_id = 0, public_key_length = 1184, private_key_length = 2400, shared_secret_key_length = 32,
     ciphertext_length = 1088\<rparr>"
| "kem ks s2n_kyber_1024_r3 = \<lparr>kem_name = ''kyber1024r3'', kem_nid = (if s2n_libcrypto_supports_evp_kem ks then NID_KYBER1024_R3 else NID_undef),
     kem_extension_id = 0, public_key_length = 1568, private_key_length = 3168, shared_secret_key_length = 32,
     ciphertext_length = 1568\<rparr>"

text \<open>\<open>kem_mapping\<close>: the mechanisms of the cipher suite \<open>TLS_ECDHE_KYBER_RSA_WITH_AES_256_GCM_SHA384\<close>.\<close>

definition kem_mapping :: "(bytes \<times> kem_ref list) list" where
  "kem_mapping = [([0xFF, 0x0C], [s2n_kyber_512_r3])]"

datatype kem_group_ref = s2n_secp256r1_mlkem_768 | s2n_x25519_mlkem_768 | s2n_secp256r1_kyber_512_r3 |
  s2n_secp256r1_kyber_768_r3 | s2n_secp384r1_kyber_768_r3 | s2n_secp521r1_kyber_1024_r3 | s2n_x25519_kyber_512_r3 |
  s2n_x25519_kyber_768_r3

record s2n_kem_group =
  group_name :: string
  group_iana_id :: u16
  group_curve :: curve_ref
  group_kem :: kem_ref
  send_kem_first :: bool

fun kem_group :: "kem_group_ref \<Rightarrow> s2n_kem_group" where
  "kem_group s2n_secp256r1_mlkem_768 = \<lparr>group_name = ''SecP256r1MLKEM768'', group_iana_id = 0x11EB,
     group_curve = s2n_ecc_curve_secp256r1, group_kem = s2n_mlkem_768, send_kem_first = False\<rparr>"
| "kem_group s2n_x25519_mlkem_768 = \<lparr>group_name = ''X25519MLKEM768'', group_iana_id = 0x11EC,
     group_curve = s2n_ecc_curve_x25519, group_kem = s2n_mlkem_768, send_kem_first = True\<rparr>"
| "kem_group s2n_secp256r1_kyber_512_r3 = \<lparr>group_name = ''secp256r1_kyber-512-r3'', group_iana_id = 0x2F3A,
     group_curve = s2n_ecc_curve_secp256r1, group_kem = s2n_kyber_512_r3, send_kem_first = False\<rparr>"
| "kem_group s2n_secp256r1_kyber_768_r3 = \<lparr>group_name = ''SecP256r1Kyber768Draft00'', group_iana_id = 0x639A,
     group_curve = s2n_ecc_curve_secp256r1, group_kem = s2n_kyber_768_r3, send_kem_first = False\<rparr>"
| "kem_group s2n_secp384r1_kyber_768_r3 = \<lparr>group_name = ''secp384r1_kyber-768-r3'', group_iana_id = 0x2F3C,
     group_curve = s2n_ecc_curve_secp384r1, group_kem = s2n_kyber_768_r3, send_kem_first = False\<rparr>"
| "kem_group s2n_secp521r1_kyber_1024_r3 = \<lparr>group_name = ''secp521r1_kyber-1024-r3'', group_iana_id = 0x2F3D,
     group_curve = s2n_ecc_curve_secp521r1, group_kem = s2n_kyber_1024_r3, send_kem_first = False\<rparr>"
| "kem_group s2n_x25519_kyber_512_r3 = \<lparr>group_name = ''x25519_kyber-512-r3'', group_iana_id = 0x2F39,
     group_curve = s2n_ecc_curve_x25519, group_kem = s2n_kyber_512_r3, send_kem_first = False\<rparr>"
| "kem_group s2n_x25519_kyber_768_r3 = \<lparr>group_name = ''X25519Kyber768Draft00'', group_iana_id = 0x6399,
     group_curve = s2n_ecc_curve_x25519, group_kem = s2n_kyber_768_r3, send_kem_first = False\<rparr>"

definition ALL_SUPPORTED_KEM_GROUPS :: "kem_group_ref list" where
  "ALL_SUPPORTED_KEM_GROUPS = [s2n_x25519_mlkem_768, s2n_secp256r1_mlkem_768, s2n_secp256r1_kyber_768_r3,
     s2n_x25519_kyber_768_r3, s2n_secp384r1_kyber_768_r3, s2n_secp521r1_kyber_1024_r3, s2n_secp256r1_kyber_512_r3,
     s2n_x25519_kyber_512_r3]"

text \<open>The counts of the source are kept next to the arrays they count; \<open>None\<close> is the pointer \<open>NULL\<close>.\<close>

record s2n_kem_preferences =
  kem_count :: u8
  kems :: "kem_ref list option"
  tls13_kem_group_count :: u8
  tls13_kem_groups :: "kem_group_ref list option"
  tls13_pq_hybrid_draft_revision :: u8

definition pq_kem_groups_r3_2021_05 :: "kem_group_ref list" where
  "pq_kem_groups_r3_2021_05 = [s2n_x25519_kyber_512_r3, s2n_secp256r1_kyber_512_r3]"

definition pq_kem_groups_r3_2023_06 :: "kem_group_ref list" where
  "pq_kem_groups_r3_2023_06 = [s2n_secp256r1_kyber_768_r3, s2n_x25519_kyber_768_r3, s2n_secp384r1_kyber_768_r3,
        s2n_secp521r1_kyber_1024_r3, s2n_secp256r1_kyber_512_r3, s2n_x25519_kyber_512_r3]"

definition pq_kem_groups_r3_2023_12 :: "kem_group_ref list" where
  "pq_kem_groups_r3_2023_12 = [s2n_secp256r1_kyber_768_r3, s2n_secp384r1_kyber_768_r3, s2n_secp521r1_kyber_1024_r3,
        s2n_secp256r1_kyber_512_r3]"

definition pq_kem_groups_ietf_2024_10 :: "kem_group_ref list" where
  "pq_kem_groups_ietf_2024_10 = [s2n_x25519_mlkem_768, s2n_secp256r1_mlkem_768]"

definition pq_kem_groups_mixed_2024_10 :: "kem_group_ref list" where
  "pq_kem_groups_mixed_2024_10 = [s2n_x25519_mlkem_768, s2n_secp256r1_mlkem_768, s2n_secp256r1_kyber_768_r3,
        s2n_x25519_kyber_768_r3, s2n_secp384r1_kyber_768_r3, s2n_secp521r1_kyber_1024_r3, s2n_secp256r1_kyber_512_r3,
        s2n_x25519_kyber_512_r3]"

text \<open>Preferences for TLS 1.3 groups only; \<open>s2n_array_len\<close> is the length of the array.\<close>

definition tls13_only :: "kem_group_ref list \<Rightarrow> u8 \<Rightarrow> s2n_kem_preferences" where
  "tls13_only groups revision = \<lparr>kem_count = 0, kems = None, tls13_kem_group_count = of_nat (length groups),
     tls13_kem_groups = Some groups, tls13_pq_hybrid_draft_revision = revision\<rparr>"

datatype kem_preferences_ref = kem_preferences_pq_tls_1_0_2021_05 |
  kem_preferences_pq_tls_1_0_2023_01 |
  kem_preferences_pq_tls_1_3_2023_06 |
  kem_preferences_pq_tls_1_3_2023_12 |
  kem_preferences_pq_tls_1_3_ietf_2024_10 |
  kem_preferences_pq_tls_1_3_mixed_2024_10 |
  kem_preferences_all |
  kem_preferences_null

fun kem_preferences :: "kem_preferences_ref \<Rightarrow> s2n_kem_preferences" where
  "kem_preferences kem_preferences_pq_tls_1_0_2021_05 = tls13_only pq_kem_groups_r3_2021_05 0"
| "kem_preferences kem_preferences_pq_tls_1_0_2023_01 = tls13_only pq_kem_groups_r3_2021_05 5"
| "kem_preferences kem_preferences_pq_tls_1_3_2023_06 = tls13_only pq_kem_groups_r3_2023_06 5"
| "kem_preferences kem_preferences_pq_tls_1_3_2023_12 = tls13_only pq_kem_groups_r3_2023_12 5"
| "kem_preferences kem_preferences_pq_tls_1_3_ietf_2024_10 = tls13_only pq_kem_groups_ietf_2024_10 5"
| "kem_preferences kem_preferences_pq_tls_1_3_mixed_2024_10 = tls13_only pq_kem_groups_mixed_2024_10 5"
| "kem_preferences kem_preferences_all = tls13_only ALL_SUPPORTED_KEM_GROUPS 5"
| "kem_preferences kem_preferences_null = \<lparr>kem_count = 0, kems = None, tls13_kem_group_count = 0, tls13_kem_groups = None,
        tls13_pq_hybrid_draft_revision = 0\<rparr>"

definition kem_groups_of :: "s2n_kem_preferences \<Rightarrow> kem_group_ref list" where
  "kem_groups_of kp = (case tls13_kem_groups kp of None \<Rightarrow> [] | Some gs \<Rightarrow> take (unat (tls13_kem_group_count kp)) gs)"

definition s2n_kem_preferences_includes_tls13_kem_group :: "s2n_kem_preferences option \<Rightarrow> u16 \<Rightarrow> bool" where
  "s2n_kem_preferences_includes_tls13_kem_group prefs query_iana_id =
     (case prefs of None \<Rightarrow> False | Some kp \<Rightarrow> list_ex (\<lambda>g. query_iana_id = group_iana_id (kem_group g)) (kem_groups_of kp))"

definition s2n_tls13_client_must_use_hybrid_kem_length_prefix :: "s2n_kem_preferences option \<Rightarrow> bool" where
  "s2n_tls13_client_must_use_hybrid_kem_length_prefix prefs =
     (case prefs of None \<Rightarrow> False | Some kp \<Rightarrow> tls13_pq_hybrid_draft_revision kp = 0)"

definition s2n_kem_is_available :: "kem_support \<Rightarrow> kem_ref option \<Rightarrow> bool" where
  "s2n_kem_is_available ks k =
     (case k of None \<Rightarrow> False | Some r \<Rightarrow>
      if kem_nid (kem ks r) = NID_undef then False
      else s2n_libcrypto_supports_evp_kem ks \<and> (r = s2n_mlkem_768 \<longrightarrow> s2n_libcrypto_supports_mlkem ks))"

definition s2n_kem_group_is_available :: "bool \<Rightarrow> kem_support \<Rightarrow> kem_group_ref option \<Rightarrow> bool" where
  "s2n_kem_group_is_available evp ks g =
     (case g of None \<Rightarrow> False | Some r \<Rightarrow>
      s2n_kem_is_available ks (Some (group_kem (kem_group r))) \<and> (group_curve (kem_group r) = s2n_ecc_curve_x25519 \<longrightarrow> evp))"

definition s2n_kem_preferences_groups_available :: "bool \<Rightarrow> kem_support \<Rightarrow> s2n_kem_preferences option \<Rightarrow> u32 result" where
  "s2n_kem_preferences_groups_available evp ks prefs =
     (case prefs of None \<Rightarrow> Inl (Err S2N_ERR_NULL) | Some kp \<Rightarrow>
      Inr (of_nat (length (filter (\<lambda>g. s2n_kem_group_is_available evp ks (Some g)) (kem_groups_of kp)))))"

definition s2n_kem_preferences_get_highest_priority_group ::
  "bool \<Rightarrow> kem_support \<Rightarrow> s2n_kem_preferences option \<Rightarrow> kem_group_ref option" where
  "s2n_kem_preferences_get_highest_priority_group evp ks prefs =
     (case prefs of None \<Rightarrow> None | Some kp \<Rightarrow> find (\<lambda>g. s2n_kem_group_is_available evp ks (Some g)) (kem_groups_of kp))"

definition s2n_cipher_suite_to_kem :: "bytes \<Rightarrow> kem_ref list result" where
  "s2n_cipher_suite_to_kem iana =
     (case find (\<lambda>(v, _). iana = v) kem_mapping of
        None \<Rightarrow> Inl (Err S2N_ERR_KEM_UNSUPPORTED_PARAMS) | Some (_, ks) \<Rightarrow> Inr ks)"

definition s2n_get_kem_from_extension_id :: "kem_support \<Rightarrow> u16 \<Rightarrow> kem_ref result" where
  "s2n_get_kem_from_extension_id ks kem_id =
     (case find (\<lambda>k. kem_extension_id (kem ks k) = kem_id) (concat (map snd kem_mapping)) of
        None \<Rightarrow> Inl (Err S2N_ERR_KEM_UNSUPPORTED_PARAMS) | Some k \<Rightarrow> Inr k)"

definition s2n_kem_check_kem_compatibility :: "kem_support \<Rightarrow> bytes \<Rightarrow> kem_ref \<Rightarrow> bool result" where
  "s2n_kem_check_kem_compatibility ks iana candidate_kem =
     (case s2n_cipher_suite_to_kem iana of Inl e \<Rightarrow> Inl e | Inr compatible_kems \<Rightarrow>
      Inr (list_ex (\<lambda>k. kem_extension_id (kem ks candidate_kem) = kem_extension_id (kem ks k)) compatible_kems))"

fun s2n_choose_kem_without_peer_pref_list :: "kem_support \<Rightarrow> bytes \<Rightarrow> kem_ref list \<Rightarrow> kem_ref result" where
  "s2n_choose_kem_without_peer_pref_list ks iana [] = Inl (Err S2N_ERR_KEM_UNSUPPORTED_PARAMS)"
| "s2n_choose_kem_without_peer_pref_list ks iana (k # rest) =
     (case s2n_kem_check_kem_compatibility ks iana k of
        Inl e \<Rightarrow> Inl e
      | Inr True \<Rightarrow> Inr k
      | Inr False \<Rightarrow> s2n_choose_kem_without_peer_pref_list ks iana rest)"


section \<open>Certificate keys\<close>

datatype certificate_key_ref = s2n_rsa_rsae_1024 | s2n_rsa_rsae_2048 | s2n_rsa_rsae_3072 | s2n_rsa_rsae_4096 |
  s2n_rsa_pss_1024 | s2n_rsa_pss_2048 | s2n_rsa_pss_3072 | s2n_rsa_pss_4096 | s2n_ec_p256 | s2n_ec_p384 | s2n_ec_p521

record s2n_certificate_key =
  key_name :: string
  public_key_libcrypto_nid :: nid
  key_bits :: u16

fun certificate_key :: "certificate_key_ref \<Rightarrow> s2n_certificate_key" where
  "certificate_key s2n_rsa_rsae_1024 = \<lparr>key_name = ''rsa_1024'', public_key_libcrypto_nid = NID_rsaEncryption, key_bits = 1024\<rparr>"
| "certificate_key s2n_rsa_rsae_2048 = \<lparr>key_name = ''rsa_2048'', public_key_libcrypto_nid = NID_rsaEncryption, key_bits = 2048\<rparr>"
| "certificate_key s2n_rsa_rsae_3072 = \<lparr>key_name = ''rsa_3072'', public_key_libcrypto_nid = NID_rsaEncryption, key_bits = 3072\<rparr>"
| "certificate_key s2n_rsa_rsae_4096 = \<lparr>key_name = ''rsa_4096'', public_key_libcrypto_nid = NID_rsaEncryption, key_bits = 4096\<rparr>"
| "certificate_key s2n_rsa_pss_1024 = \<lparr>key_name = ''rsa_pss_1024'', public_key_libcrypto_nid = NID_rsassaPss, key_bits = 1024\<rparr>"
| "certificate_key s2n_rsa_pss_2048 = \<lparr>key_name = ''rsa_pss_2048'', public_key_libcrypto_nid = NID_rsassaPss, key_bits = 2048\<rparr>"
| "certificate_key s2n_rsa_pss_3072 = \<lparr>key_name = ''rsa_pss_3072'', public_key_libcrypto_nid = NID_rsassaPss, key_bits = 3072\<rparr>"
| "certificate_key s2n_rsa_pss_4096 = \<lparr>key_name = ''rsa_pss_4096'', public_key_libcrypto_nid = NID_rsassaPss, key_bits = 4096\<rparr>"
| "certificate_key s2n_ec_p256 = \<lparr>key_name = ''ecdsa_p256'', public_key_libcrypto_nid = NID_X9_62_prime256v1, key_bits = 256\<rparr>"
| "certificate_key s2n_ec_p384 = \<lparr>key_name = ''ecdsa_p384'', public_key_libcrypto_nid = NID_secp384r1, key_bits = 384\<rparr>"
| "certificate_key s2n_ec_p521 = \<lparr>key_name = ''ecdsa_p521'', public_key_libcrypto_nid = NID_secp521r1, key_bits = 521\<rparr>"

definition s2n_certificate_keys_rfc9151 :: "certificate_key_ref list" where
  "s2n_certificate_keys_rfc9151 = [s2n_ec_p384, s2n_rsa_rsae_3072, s2n_rsa_rsae_4096, s2n_rsa_pss_3072, s2n_rsa_pss_4096]"

text \<open>The preference list \<open>s2n_certificate_key_preferences_rfc9151\<close> is this array with its length.\<close>

definition s2n_certificate_key_preferences_rfc9151 :: "certificate_key_ref list" where
  "s2n_certificate_key_preferences_rfc9151 = s2n_certificate_keys_rfc9151"

end
