(* ===== verification/Policy_Table.thy ===== *)
theory Policy_Table
  imports Cipher_Preferences Policy_Parameters
begin

text \<open>
  The security policies of \<open>tls/s2n_security_policies.c\<close>, the table of their versions and the versions that were
  withdrawn.  The structure is that of \<open>tls/s2n_security_policies.h\<close>; a pointer to a preference list is the list, or
  \<open>None\<close> when it is \<open>NULL\<close>, and the array of booleans \<open>rules\<close> is the list of the rules that are set.
\<close>

datatype s2n_security_rule_id = S2N_PERFECT_FORWARD_SECRECY | S2N_FIPS_140_3

record s2n_security_policy =
  sp_minimum_protocol_version :: u8
  sp_cipher_preferences :: "s2n_cipher_preferences option"
  sp_kem_preferences :: "s2n_kem_preferences option"
  sp_signature_preferences :: "sig_scheme_ref list option"
  sp_certificate_signature_preferences :: "sig_scheme_ref list option"
  sp_ecc_preferences :: "curve_ref list option"
  sp_certificate_key_preferences :: "certificate_key_ref list option"
  certificate_preferences_apply_locally :: bool
  rules :: "s2n_security_rule_id list"

datatype security_policy_ref_1 = security_policy_20240501 | security_policy_20240502 | security_policy_20240503 | security_policy_20240730 |
  security_policy_20241001 | security_policy_20241001_pq_mixed | security_policy_20240603 | security_policy_20170210 |
  security_policy_20240417 | security_policy_20240416 | security_policy_20230317 | security_policy_20240331

fun security_policies_1 :: "bool \<Rightarrow> security_policy_ref_1 \<Rightarrow> s2n_security_policy" where
  "security_policies_1 evp security_policy_20240501 = \<lparr>sp_minimum_protocol_version = S2N_TLS12,
     sp_cipher_preferences = Some (cipher_preferences_3 cipher_preferences_20240331),
     sp_kem_preferences = Some (kem_preferences kem_preferences_null),
     sp_signature_preferences = Some (signature_preferences_1 s2n_signature_preferences_20240501),
     sp_certificate_signature_preferences = None,
     sp_ecc_preferences = Some (ecc_preferences evp s2n_ecc_preferences_20240501), sp_certificate_key_preferences = None,
     certificate_preferences_apply_locally = False, rules = [S2N_PERFECT_FORWARD_SECRECY]\<rparr>"
| "security_policies_1 evp security_policy_20240502 = \<lparr>sp_minimum_protocol_version = S2N_TLS12,
     sp_cipher_preferences = Some (cipher_preferences_3 cipher_preferences_20240331),
     sp_kem_preferences = Some (kem_preferences kem_preferences_null),
     sp_signature_preferences = Some (signature_preferences_1 s2n_signature_preferences_20240501),
     sp_certificate_signature_preferences = Some (signature_preferences_3 s2n_certificate_signature_preferences_20201110),
     sp_ecc_preferences = Some (ecc_preferences evp s2n_ecc_preferences_20201021), sp_certificate_key_preferences = None,
     certificate_preferences_apply_locally = False, rules = [S2N_PERFECT_FORWARD_SECRECY, S2N_FIPS_140_3]\<rparr>"
| "security_policies_1 evp security_policy_20240503 = \<lparr>sp_minimum_protocol_version = S2N_TLS12,
     sp_cipher_preferences = Some (cipher_preferences_11 cipher_preferences_cloudfront_tls_1_2_2019),
     sp_kem_preferences = Some (kem_preferences kem_preferences_null),
     sp_signature_preferences = Some (signature_preferences_1 s2n_signature_preferences_20240501),
     sp_certificate_signature_preferences = Some (signature_preferences_3 s2n_certificate_signature_preferences_20201110),
     sp_ecc_preferences = Some (ecc_preferences evp s2n_ecc_preferences_20240501), sp_certificate_key_preferences = None,
     certificate_preferences_apply_locally = False, rules = [S2N_PERFECT_FORWARD_SECRECY]\<rparr>"
| "security_policies_1 evp security_policy_20240730 = \<lparr>sp_minimum_protocol_version = S2N_TLS12,
     sp_cipher_preferences = Some (cipher_preferences_11 cipher_preferences_cloudfront_tls_1_2_2019),
     sp_kem_preferences = Some (kem_preferences kem_preferences_pq_tls_1_3_2023_06),
     sp_signature_preferences = Some (signature_preferences_1 s2n_signature_preferences_20240501),
     sp_certificate_signature_preferences = Some (signature_preferences_3 s2n_certificate_signature_preferences_20201110),
     sp_ecc_preferences = Some (ecc_preferences evp s2n_ecc_preferences_20240501), sp_certificate_key_preferences = None,
     certificate_preferences_apply_locally = False, rules = [S2N_PERFECT_FORWARD_SECRECY]\<rparr>"
| "security_policies_1 evp security_policy_20241001 = \<lparr>sp_minimum_protocol_version = S2N_TLS12,
     sp_cipher_preferences = Some (cipher_preferences_11 cipher_preferences_cloudfront_tls_1_2_2019),
     sp_kem_preferences = Some (kem_preferences kem_preferences_pq_tls_1_3_ietf_2024_10),
     sp_signature_preferences = Some (signature_preferences_1 s2n_signature_preferences_20240501),
     sp_certificate_signature_preferences = Some (signature_preferences_3 s2n_certificate_signature_preferences_20201110),
     sp_ecc_preferences = Some (ecc_preferences evp s2n_ecc_preferences_20240501), sp_certificate_key_preferences = None,
     certificate_preferences_apply_locally = False, rules = [S2N_PERFECT_FORWARD_SECRECY]\<rparr>"
| "security_policies_1 evp security_policy_20241001_pq_mixed = \<lparr>sp_minimum_protocol_version = S2N_TLS12,
     sp_cipher_preferences = Some (cipher_preferences_11 cipher_preferences_cloudfront_tls_1_2_2019),
     sp_kem_preferences = Some (kem_preferences kem_preferences_pq_tls_1_3_mixed_2024_10),
     sp_signature_preferences = Some (signature_preferences_1 s2n_signature_preferences_20240501),
     sp_certificate_signature_preferences = Some (signature_preferences_3 s2n_certificate_signature_preferences_20201110),
     sp_ecc_preferences = Some (ecc_preferences evp s2n_ecc_preferences_20240501), sp_certificate_key_preferences = None,
     certificate_preferences_apply_locally = False, rules = [S2N_PERFECT_FORWARD_SECRECY]\<rparr>"
| "security_policies_1 evp security_policy_20240603 = \<lparr>sp_minimum_protocol_version = S2N_TLS12,
     sp_cipher_preferences = Some (cipher_preferences_16 cipher_preferences_20240603),
     sp_kem_preferences = Some (kem_preferences kem_preferences_null),
     sp_signature_preferences = Some (signature_preferences_1 s2n_signature_preferences_20240501),
     sp_certificate_signature_preferences = Some (signature_preferences_3 s2n_certificate_signature_preferences_20201110),
     sp_ecc_preferences = Some (ecc_preferences evp s2n_ecc_preferences_20240603), sp_certificate_key_preferences = None,
     certificate_preferences_apply_locally = False, rules = []\<rparr>"
| "security_policies_1 evp security_policy_20170210 = \<lparr>sp_minimum_protocol_version = S2N_TLS10,
     sp_cipher_preferences = Some (cipher_preferences_2 cipher_preferences_20170210),
     sp_kem_preferences = Some (kem_preferences kem_preferences_null),
     sp_signature_preferences = Some (signature_preferences_2 s2n_signature_preferences_20140601),
     sp_certificate_signature_preferences = None,
     sp_ecc_preferences = Some (ecc_preferences evp s2n_ecc_preferences_20140601), sp_certificate_key_preferences = None,
     certificate_preferences_apply_locally = False, rules = []\<rparr>"
| "security_policies_1 evp security_policy_20240417 = \<lparr>sp_minimum_protocol_version = S2N_TLS10,
     sp_cipher_preferences = Some (cipher_preferences_1 cipher_preferences_20210831),
     sp_kem_preferences = Some (kem_preferences kem_preferences_null),
     sp_signature_preferences = Some (signature_preferences_2 s2n_signature_preferences_20200207),
     sp_certificate_signature_preferences = Some (signature_preferences_3 s2n_certificate_signature_preferences_20201110),
     sp_ecc_preferences = Some (ecc_preferences evp s2n_ecc_preferences_20200310), sp_certificate_key_preferences = None,
     certificate_preferences_apply_locally = False, rules = []\<rparr>"
| "security_policies_1 evp security_policy_20240416 = \<lparr>sp_minimum_protocol_version = S2N_TLS12,
     sp_cipher_preferences = Some (cipher_preferences_1 cipher_preferences_default_fips),
     sp_kem_preferences = Some (kem_preferences kem_preferences_null),
     sp_signature_preferences = Some (signature_preferences_2 s2n_signature_preferences_default_fips),
     sp_certificate_signature_preferences = Some (signature_preferences_2 s2n_signature_preferences_default_fips),
     sp_ecc_preferences = Some (ecc_preferences evp s2n_ecc_preferences_default_fips), sp_certificate_key_preferences = None,
     certificate_preferences_apply_locally = False, rules = [S2N_PERFECT_FORWARD_SECRECY, S2N_FIPS_140_3]\<rparr>"
| "security_policies_1 evp security_policy_20230317 = \<lparr>sp_minimum_protocol_version = S2N_TLS12,
     sp_cipher_preferences = Some (cipher_preferences_2 cipher_preferences_20230317),
     sp_kem_preferences = Some (kem_preferences kem_preferences_null),
     sp_signature_preferences = Some (signature_preferences_2 s2n_signature_preferences_20230317),
     sp_certificate_signature_preferences = Some (signature_preferences_2 s2n_signature_preferences_20230317),
     sp_ecc_preferences = Some (ecc_preferences evp s2n_ecc_preferences_20201021), sp_certificate_key_preferences = None,
     certificate_preferences_apply_locally = False, rules = [S2N_PERFECT_FORWARD_SECRECY, S2N_FIPS_140_3]\<rparr>"
| "security_policies_1 evp security_policy_20240331 = \<lparr>sp_minimum_protocol_version = S2N_TLS12,
     sp_cipher_preferences = Some (cipher_preferences_3 cipher_preferences_20240331),
     sp_kem_preferences = Some (kem_preferences kem_preferences_null),
     sp_signature_preferences = Some (signature_preferences_2 s2n_signature_preferences_20230317),
     sp_certificate_signature_preferences = Some (signature_preferences_2 s2n_signature_preferences_20230317),
     sp_ecc_preferences = Some (ecc_preferences evp s2n_ecc_preferences_20201021), sp_certificate_key_preferences = None,
     certificate_preferences_apply_locally = False, rules = [S2N_PERFECT_FORWARD_SECRECY, S2N_FIPS_140_3]\<rparr>"

datatype security_policy_ref_2 = security_policy_20190801 | security_policy_20190802 | security_policy_20170405 | security_policy_20170405_gcm |
  security_policy_elb_2015_04 | security_policy_elb_2016_08 | security_policy_elb_tls_1_1_2017_01 |
  security_policy_elb_tls_1_2_2017_01 | security_policy_elb_tls_1_2_ext_2018_06 | security_policy_elb_fs_2018_06 |
  security_policy_elb_fs_1_2_2019_08 | security_policy_elb_fs_1_1_2019_08 | security_policy_elb_fs_1_2_Res_2019_08 |
  security_policy_cloudfront_upstream | security_policy_cloudfront_upstream_tls10 |
  security_policy_cloudfront_upstream_tls11

fun security_policies_2 :: "bool \<Rightarrow> security_policy_ref_2 \<Rightarrow> s2n_security_policy" where
  "security_policies_2 evp security_policy_20190801 = \<lparr>sp_minimum_protocol_version = S2N_TLS10,
     sp_cipher_preferences = Some (cipher_preferences_1 cipher_preferences_20190801),
     sp_kem_preferences = Some (kem_preferences kem_preferences_null),
     sp_signature_preferences = Some (signature_preferences_2 s2n_signature_preferences_20200207),
     sp_certificate_signature_preferences = None,
     sp_ecc_preferences = Some (ecc_preferences evp s2n_ecc_preferences_20200310), sp_certificate_key_preferences = None,
     certificate_preferences_apply_locally = False, rules = []\<rparr>"
| "security_policies_2 evp security_policy_20190802 = \<lparr>sp_minimum_protocol_version = S2N_TLS10,
     sp_cipher_preferences = Some (cipher_preferences_1 cipher_preferences_20190801),
     sp_kem_preferences = Some (kem_preferences kem_preferences_null),
     sp_signature_preferences = Some (signature_preferences_2 s2n_signature_preferences_20200207),
     sp_certificate_signature_preferences = None,
     sp_ecc_preferences = Some (ecc_preferences evp s2n_ecc_preferences_20140601), sp_certificate_key_preferences = None,
     certificate_preferences_apply_locally = False, rules = []\<rparr>"
| "security_policies_2 evp security_policy_20170405 = \<lparr>sp_minimum_protocol_version = S2N_TLS10,
     sp_cipher_preferences = Some (cipher_preferences_5 cipher_preferences_20170405),
     sp_kem_preferences = Some (kem_preferences kem_preferences_null),
     sp_signature_preferences = Some (signature_preferences_2 s2n_signature_preferences_20140601),
     sp_certificate_signature_preferences = None,
     sp_ecc_preferences = Some (ecc_preferences evp s2n_ecc_preferences_20140601), sp_certificate_key_preferences = None,
     certificate_preferences_apply_locally = False, rules = []\<rparr>"
| "security_policies_2 evp security_policy_20170405_gcm = \<lparr>sp_minimum_protocol_version = S2N_TLS10,
     sp_cipher_preferences = Some (cipher_preferences_6 cipher_preferences_20170405_gcm),
     sp_kem_preferences = Some (kem_preferences kem_preferences_null),
     sp_signature_preferences = Some (signature_preferences_2 s2n_signature_preferences_20140601),
     sp_certificate_signature_preferences = None,
     sp_ecc_preferences = Some (ecc_preferences evp s2n_ecc_preferences_20140601), sp_certificate_key_preferences = None,
     certificate_preferences_apply_locally = False, rules = []\<rparr>"
| "security_policies_2 evp security_policy_elb_2015_04 = \<lparr>sp_minimum_protocol_version = S2N_TLS10,
     sp_cipher_preferences = Some (cipher_preferences_6 elb_security_policy_2015_04),
     sp_kem_preferences = Some (kem_preferences kem_preferences_null),
     sp_signature_preferences = Some (signature_preferences_2 s2n_signature_preferences_20140601),
     sp_certificate_signature_preferences = None,
     sp_ecc_preferences = Some (ecc_preferences evp s2n_ecc_preferences_20140601), sp_certificate_key_preferences = None,
     certificate_preferences_apply_locally = False, rules = []\<rparr>"
| "security_policies_2 evp security_policy_elb_2016_08 = \<lparr>sp_minimum_protocol_version = S2N_TLS10,
     sp_cipher_preferences = Some (cipher_preferences_6 elb_security_policy_2016_08),
     sp_kem_preferences = Some (kem_preferences kem_preferences_null),
     sp_signature_preferences = Some (signature_preferences_2 s2n_signature_preferences_20140601),
     sp_certificate_signature_preferences = None,
     sp_ecc_preferences = Some (ecc_preferences evp s2n_ecc_preferences_20140601), sp_certificate_key_preferences = None,
     certificate_preferences_apply_locally = False, rules = []\<rparr>"
| "security_policies_2 evp security_policy_elb_tls_1_1_2017_01 = \<lparr>sp_minimum_protocol_version = S2N_TLS11,
     sp_cipher_preferences = Some (cipher_preferences_7 elb_security_policy_tls_1_1_2017_01),
     sp_kem_preferences = Some (kem_preferences kem_preferences_null),
     sp_signature_preferences = Some (signature_preferences_2 s2n_signature_preferences_20140601),
     sp_certificate_signature_preferences = None,
     sp_ecc_preferences = Some (ecc_preferences evp s2n_ecc_preferences_20140601), sp_certificate_key_preferences = None,
     certificate_preferences_apply_locally = False, rules = []\<rparr>"
| "security_policies_2 evp security_policy_elb_tls_1_2_2017_01 = \<lparr>sp_minimum_protocol_version = S2N_TLS12,
     sp_cipher_preferences = Some (cipher_preferences_6 elb_security_policy_tls_1_2_2017_01),
     sp_kem_preferences = Some (kem_preferences kem_preferences_null),
     sp_signature_preferences = Some (signature_preferences_2 s2n_signature_preferences_20140601),
     sp_certificate_signature_preferences = None,
     sp_ecc_preferences = Some (ecc_preferences evp s2n_ecc_preferences_20140601), sp_certificate_key_preferences = None,
     certificate_preferences_apply_locally = False, rules = []\<rparr>"
| "security_policies_2 evp security_policy_elb_tls_1_2_ext_2018_06 = \<lparr>sp_minimum_protocol_version = S2N_TLS12,
     sp_cipher_preferences = Some (cipher_preferences_7 elb_security_policy_tls_1_2_ext_2018_06),
     sp_kem_preferences = Some (kem_preferences kem_preferences_null),
     sp_signature_preferences = Some (signature_preferences_2 s2n_signature_preferences_20140601),
     sp_certificate_signature_preferences = None,
     sp_ecc_preferences = Some (ecc_preferences evp s2n_ecc_preferences_20140601), sp_certificate_key_preferences = None,
     certificate_preferences_apply_locally = False, rules = []\<rparr>"
| "security_policies_2 evp security_policy_elb_fs_2018_06 = \<lparr>sp_minimum_protocol_version = S2N_TLS10,
     sp_cipher_preferences = Some (cipher_preferences_7 elb_security_policy_fs_2018_06),
     sp_kem_preferences = Some (kem_preferences kem_preferences_null),
     sp_signature_preferences = Some (signature_preferences_2 s2n_signature_preferences_20140601),
     sp_certificate_signature_preferences = None,
     sp_ecc_preferences = Some (ecc_preferences evp s2n_ecc_preferences_20140601), sp_certificate_key_preferences = None,
     certificate_preferences_apply_locally = False, rules = [S2N_PERFECT_FORWARD_SECRECY]\<rparr>"
| "security_policies_2 evp security_policy_elb_fs_1_2_2019_08 = \<lparr>sp_minimum_protocol_version = S2N_TLS12,
     sp_cipher_preferences = Some (cipher_preferences_7 elb_security_policy_fs_1_2_2019_08),
     sp_kem_preferences = Some (kem_preferences kem_preferences_null),
     sp_signature_preferences = Some (signature_preferences_2 s2n_signature_preferences_20140601),
     sp_certificate_signature_preferences = None,
     sp_ecc_preferences = Some (ecc_preferences evp s2n_ecc_preferences_20140601), sp_certificate_key_preferences = None,
     certificate_preferences_apply_locally = False, rules = [S2N_PERFECT_FORWARD_SECRECY]\<rparr>"
| "security_policies_2 evp security_policy_elb_fs_1_1_2019_08 = \<lparr>sp_minimum_protocol_version = S2N_TLS11,
     sp_cipher_preferences = Some (cipher_preferences_7 elb_security_policy_fs_1_1_2019_08),
     sp_kem_preferences = Some (kem_preferences kem_preferences_null),
     sp_signature_preferences = Some (signature_preferences_2 s2n_signature_preferences_20140601),
     sp_certificate_signature_preferences = None,
     sp_ecc_preferences = Some (ecc_preferences evp s2n_ecc_preferences_20140601), sp_certificate_key_preferences = None,
     certificate_preferences_apply_locally = False, rules = [S2N_PERFECT_FORWARD_SECRECY]\<rparr>"
| "security_policies_2 evp security_policy_elb_fs_1_2_Res_2019_08 = \<lparr>sp_minimum_protocol_version = S2N_TLS12,
     sp_cipher_preferences = Some (cipher_preferences_7 elb_security_policy_fs_1_2_Res_2019_08),
     sp_kem_preferences = Some (kem_preferences kem_preferences_null),
     sp_signature_preferences = Some (signature_preferences_2 s2n_signature_preferences_20140601),
     sp_certificate_signature_preferences = None,
     sp_ecc_preferences = Some (ecc_preferences evp s2n_ecc_preferences_20140601), sp_certificate_key_preferences = None,
     certificate_preferences_apply_locally = False, rules = [S2N_PERFECT_FORWARD_SECRECY]\<rparr>"
| "security_policies_2 evp security_policy_cloudfront_upstream = \<lparr>sp_minimum_protocol_version = S2N_SSLv3,
     sp_cipher_preferences = Some (cipher_preferences_8 cipher_preferences_cloudfront_upstream),
     sp_kem_preferences = Some (kem_preferences kem_preferences_null),
     sp_signature_preferences = Some (signature_preferences_2 s2n_signature_preferences_20140601),
     sp_certificate_signature_preferences = None,
     sp_ecc_preferences = Some (ecc_preferences evp s2n_ecc_preferences_20230623), sp_certificate_key_preferences = None,
     certificate_preferences_apply_locally = False, rules = []\<rparr>"
| "security_policies_2 evp security_policy_cloudfront_upstream_tls10 = \<lparr>sp_minimum_protocol_version = S2N_TLS10,
     sp_cipher_preferences = Some (cipher_preferences_10 cipher_preferences_cloudfront_upstream_tls10),
     sp_kem_preferences = Some (kem_preferences kem_preferences_null),
     sp_signature_preferences = Some (signature_preferences_2 s2n_signature_preferences_20140601),
     sp_certificate_signature_preferences = None,
     sp_ecc_preferences = Some (ecc_preferences evp s2n_ecc_preferences_20230623), sp_certificate_key_preferences = None,
     certificate_preferences_apply_locally = False, rules = []\<rparr>"
| "security_policies_2 evp security_policy_cloudfront_upstream_tls11 = \<lparr>sp_minimum_protocol_version = S2N_TLS11,
     sp_cipher_preferences = Some (cipher_preferences_10 cipher_preferences_cloudfront_upstream_tls11),
     sp_kem_preferences = Some (kem_preferences kem_preferences_null),
     sp_signature_preferences = Some (signature_preferences_2 s2n_signature_preferences_20140601),
     sp_certificate_signature_preferences = None,
     sp_ecc_preferences = Some (ecc_preferences evp s2n_ecc_preferences_20230623), sp_certificate_key_preferences = None,
     certificate_preferences_apply_locally = False, rules = []\<rparr>"

datatype security_policy_ref_3 = security_policy_cloudfront_upstream_tls12 | security_policy_cloudfront_ssl_v_3 |
  security_policy_cloudfront_tls_1_0_2014 | security_policy_cloudfront_tls_1_0_2016 | security_policy_20241106 |
  security_policy_cloudfront_tls_1_1_2016 | security_policy_cloudfront_tls_1_2_2017 |
  security_policy_cloudfront_tls_1_2_2018 | security_policy_cloudfront_tls_1_2_2019 |
  security_policy_cloudfront_tls_1_2_2021 | security_policy_cloudfront_tls_1_2_2021_chacha20_boosted |
  security_policy_cloudfront_ssl_v_3_legacy | security_policy_cloudfront_tls_1_0_2014_legacy |
  security_policy_cloudfront_tls_1_0_2016_legacy | security_policy_cloudfront_tls_1_1_2016_legacy |
  security_policy_cloudfront_tls_1_2_2018_legacy | security_policy_cloudfront_tls_1_2_2019_legacy

fun security_policies_3 :: "bool \<Rightarrow> security_policy_ref_3 \<Rightarrow> s2n_security_policy" where
  "security_policies_3 evp security_policy_cloudfront_upstream_tls12 = \<lparr>sp_minimum_protocol_version = S2N_TLS12,
     sp_cipher_preferences = Some (cipher_preferences_11 cipher_preferences_cloudfront_upstream_tls12),
     sp_kem_preferences = Some (kem_preferences kem_preferences_null),
     sp_signature_preferences = Some (signature_preferences_2 s2n_signature_preferences_20140601),
     sp_certificate_signature_preferences = None,
     sp_ecc_preferences = Some (ecc_preferences evp s2n_ecc_preferences_20230623), sp_certificate_key_preferences = None,
     certificate_preferences_apply_locally = False, rules = []\<rparr>"
| "security_policies_3 evp security_policy_cloudfront_ssl_v_3 = \<lparr>sp_minimum_protocol_version = S2N_SSLv3,
     sp_cipher_preferences = Some (cipher_preferences_8 cipher_preferences_cloudfront_ssl_v_3),
     sp_kem_preferences = Some (kem_preferences kem_preferences_null),
     sp_signature_preferences = Some (signature_preferences_2 s2n_signature_preferences_20200207),
     sp_certificate_signature_preferences = None,
     sp_ecc_preferences = Some (ecc_preferences evp s2n_ecc_preferences_20200310), sp_certificate_key_preferences = None,
     certificate_preferences_apply_locally = False, rules = []\<rparr>"
| "security_policies_3 evp security_policy_cloudfront_tls_1_0_2014 = \<lparr>sp_minimum_protocol_version = S2N_TLS10,
     sp_cipher_preferences = Some (cipher_preferences_8 cipher_preferences_cloudfront_tls_1_0_2014),
     sp_kem_preferences = Some (kem_preferences kem_preferences_null),
     sp_signature_preferences = Some (signature_preferences_2 s2n_signature_preferences_20200207),
     sp_certificate_signature_preferences = None,
     sp_ecc_preferences = Some (ecc_preferences evp s2n_ecc_preferences_20200310), sp_certificate_key_preferences = None,
     certificate_preferences_apply_locally = False, rules = []\<rparr>"
| "security_policies_3 evp security_policy_cloudfront_tls_1_0_2016 = \<lparr>sp_minimum_protocol_version = S2N_TLS10,
     sp_cipher_preferences = Some (cipher_preferences_8 cipher_preferences_cloudfront_tls_1_0_2016),
     sp_kem_preferences = Some (kem_preferences kem_preferences_null),
     sp_signature_preferences = Some (signature_preferences_2 s2n_signature_preferences_20200207),
     sp_certificate_signature_preferences = None,
     sp_ecc_preferences = Some (ecc_preferences evp s2n_ecc_preferences_20200310), sp_certificate_key_preferences = None,
     certificate_preferences_apply_locally = False, rules = []\<rparr>"
| "security_policies_3 evp security_policy_20241106 = \<lparr>sp_minimum_protocol_version = S2N_TLS12,
     sp_cipher_preferences = Some (cipher_preferences_8 cipher_preferences_cloudfront_tls_1_0_2016),
     sp_kem_preferences = Some (kem_preferences kem_preferences_null),
     sp_signature_preferences = Some (signature_preferences_2 s2n_signature_preferences_20200207),
     sp_certificate_signature_preferences = None,
     sp_ecc_preferences = Some (ecc_preferences evp s2n_ecc_preferences_20200310), sp_certificate_key_preferences = None,
     certificate_preferences_apply_locally = False, rules = []\<rparr>"
| "security_policies_3 evp security_policy_cloudfront_tls_1_1_2016 = \<lparr>sp_minimum_protocol_version = S2N_TLS11,
     sp_cipher_preferences = Some (cipher_preferences_9 cipher_preferences_cloudfront_tls_1_1_2016),
     sp_kem_preferences = Some (kem_preferences kem_preferences_null),
     sp_signature_preferences = Some (signature_preferences_2 s2n_signature_preferences_20200207),
     sp_certificate_signature_preferences = None,
     sp_ecc_preferences = Some (ecc_preferences evp s2n_ecc_preferences_20200310), sp_certificate_key_preferences = None,
     certificate_preferences_apply_locally = False, rules = []\<rparr>"
| "security_policies_3 evp security_policy_cloudfront_tls_1_2_2017 = \<lparr>sp_minimum_protocol_version = S2N_TLS12,
     sp_cipher_preferences = Some (cipher_preferences_9 cipher_preferences_cloudfront_tls_1_2_2017),
     sp_kem_preferences = Some (kem_preferences kem_preferences_null),
     sp_signature_preferences = Some (signature_preferences_2 s2n_signature_preferences_20200207),
     sp_certificate_signature_preferences = None,
     sp_ecc_preferences = Some (ecc_preferences evp s2n_ecc_preferences_20200310), sp_certificate_key_preferences = None,
     certificate_preferences_apply_locally = False, rules = []\<rparr>"
| "security_policies_3 evp security_policy_cloudfront_tls_1_2_2018 = \<lparr>sp_minimum_protocol_version = S2N_TLS12,
     sp_cipher_preferences = Some (cipher_preferences_9 cipher_preferences_cloudfront_tls_1_2_2018),
     sp_kem_preferences = Some (kem_preferences kem_preferences_null),
     sp_signature_preferences = Some (signature_preferences_2 s2n_signature_preferences_20200207),
     sp_certificate_signature_preferences = None,
     sp_ecc_preferences = Some (ecc_preferences evp s2n_ecc_preferences_20200310), sp_certificate_key_preferences = None,
     certificate_preferences_apply_locally = False, rules = []\<rparr>"
| "security_policies_3 evp security_policy_cloudfront_tls_1_2_2019 = \<lparr>sp_minimum_protocol_version = S2N_TLS12,
     sp_cipher_preferences = Some (cipher_preferences_11 cipher_preferences_cloudfront_tls_1_2_2019),
     sp_kem_preferences = Some (kem_preferences kem_preferences_null),
     sp_signature_preferences = Some (signature_preferences_2 s2n_signature_preferences_20200207),
     sp_certificate_signature_preferences = None,
     sp_ecc_preferences = Some (ecc_preferences evp s2n_ecc_preferences_20200310), sp_certificate_key_preferences = None,
     certificate_preferences_apply_locally = False, rules = [S2N_PERFECT_FORWARD_SECRECY]\<rparr>"
| "security_policies_3 evp security_policy_cloudfront_tls_1_2_2021 = \<lparr>sp_minimum_protocol_version = S2N_TLS12,
     sp_cipher_preferences = Some (cipher_preferences_11 cipher_preferences_cloudfront_tls_1_2_2021),
     sp_kem_preferences = Some (kem_preferences kem_preferences_null),
     sp_signature_preferences = Some (signature_preferences_2 s2n_signature_preferences_20200207),
     sp_certificate_signature_preferences = None,
     sp_ecc_preferences = Some (ecc_preferences evp s2n_ecc_preferences_20200310), sp_certificate_key_preferences = None,
     certificate_preferences_apply_locally = False, rules = [S2N_PERFECT_FORWARD_SECRECY]\<rparr>"
| "security_policies_3 evp security_policy_cloudfront_tls_1_2_2021_chacha20_boosted = \<lparr>sp_minimum_protocol_version = S2N_TLS12,
     sp_cipher_preferences = Some (cipher_preferences_11 cipher_preferences_cloudfront_tls_1_2_2021_chacha20_boosted),
     sp_kem_preferences = Some (kem_preferences kem_preferences_null),
     sp_signature_preferences = Some (signature_preferences_2 s2n_signature_preferences_20200207),
     sp_certificate_signature_preferences = None,
     sp_ecc_preferences = Some (ecc_preferences evp s2n_ecc_preferences_20200310), sp_certificate_key_preferences = None,
     certificate_preferences_apply_locally = False, rules = [S2N_PERFECT_FORWARD_SECRECY]\<rparr>"
| "security_policies_3 evp security_policy_cloudfront_ssl_v_3_legacy = \<lparr>sp_minimum_protocol_version = S2N_SSLv3,
     sp_cipher_preferences = Some (cipher_preferences_9 cipher_preferences_cloudfront_ssl_v_3_legacy),
     sp_kem_preferences = Some (kem_preferences kem_preferences_null),
     sp_signature_preferences = Some (signature_preferences_2 s2n_signature_preferences_20140601),
     sp_certificate_signature_preferences = None,
     sp_ecc_preferences = Some (ecc_preferences evp s2n_ecc_preferences_20140601), sp_certificate_key_preferences = None,
     certificate_preferences_apply_locally = False, rules = []\<rparr>"
| "security_policies_3 evp security_policy_cloudfront_tls_1_0_2014_legacy = \<lparr>sp_minimum_protocol_version = S2N_TLS10,
     sp_cipher_preferences = Some (cipher_preferences_9 cipher_preferences_cloudfront_tls_1_0_2014_legacy),
     sp_kem_preferences = Some (kem_preferences kem_preferences_null),
     sp_signature_preferences = Some (signature_preferences_2 s2n_signature_preferences_20140601),
     sp_certificate_signature_preferences = None,
     sp_ecc_preferences = Some (ecc_preferences evp s2n_ecc_preferences_20140601), sp_certificate_key_preferences = None,
     certificate_preferences_apply_locally = False, rules = []\<rparr>"
| "security_policies_3 evp security_policy_cloudfront_tls_1_0_2016_legacy = \<lparr>sp_minimum_protocol_version = S2N_TLS10,
     sp_cipher_preferences = Some (cipher_preferences_10 cipher_preferences_cloudfront_tls_1_0_2016_legacy),
     sp_kem_preferences = Some (kem_preferences kem_preferences_null),
     sp_signature_preferences = Some (signature_preferences_2 s2n_signature_preferences_20140601),
     sp_certificate_signature_preferences = None,
     sp_ecc_preferences = Some (ecc_preferences evp s2n_ecc_preferences_20140601), sp_certificate_key_preferences = None,
     certificate_preferences_apply_locally = False, rules = []\<rparr>"
| "security_policies_3 evp security_policy_cloudfront_tls_1_1_2016_legacy = \<lparr>sp_minimum_protocol_version = S2N_TLS11,
     sp_cipher_preferences = Some (cipher_preferences_10 cipher_preferences_cloudfront_tls_1_1_2016_legacy),
     sp_kem_preferences = Some (kem_preferences kem_preferences_null),
     sp_signature_preferences = Some (signature_preferences_2 s2n_signature_preferences_20140601),
     sp_certificate_signature_preferences = None,
     sp_ecc_preferences = Some (ecc_preferences evp s2n_ecc_preferences_20140601), sp_certificate_key_preferences = None,
     certificate_preferences_apply_locally = False, rules = []\<rparr>"
| "security_policies_3 evp security_policy_cloudfront_tls_1_2_2018_legacy = \<lparr>sp_minimum_protocol_version = S2N_TLS12,
     sp_cipher_preferences = Some (cipher_preferences_10 cipher_preferences_cloudfront_tls_1_2_2018_legacy),
     sp_kem_preferences = Some (kem_preferences kem_preferences_null),
     sp_signature_preferences = Some (signature_preferences_2 s2n_signature_preferences_20140601),
     sp_certificate_signature_preferences = None,
     sp_ecc_preferences = Some (ecc_preferences evp s2n_ecc_preferences_20140601), sp_certificate_key_preferences = None,
     certificate_preferences_apply_locally = False, rules = []\<rparr>"
| "security_policies_3 evp security_policy_cloudfront_tls_1_2_2019_legacy = \<lparr>sp_minimum_protocol_version = S2N_TLS12,
     sp_cipher_preferences = Some (cipher_preferences_10 cipher_preferences_cloudfront_tls_1_2_2019_legacy),
     sp_kem_preferences = Some (kem_preferences kem_preferences_null),
     sp_signature_preferences = Some (signature_preferences_2 s2n_signature_preferences_20140601),
     sp_certificate_signature_preferences = None,
     sp_ecc_preferences = Some (ecc_preferences evp s2n_ecc_preferences_20140601), sp_certificate_key_preferences = None,
     certificate_preferences_apply_locally = False, rules = [S2N_PERFECT_FORWARD_SECRECY]\<rparr>"

datatype security_policy_ref_4 = security_policy_aws_crt_sdk_ssl_v3 | security_policy_aws_crt_sdk_tls_10 | security_policy_aws_crt_sdk_tls_11 |
  security_policy_aws_crt_sdk_tls_12 | security_policy_aws_crt_sdk_tls_13 | security_policy_aws_crt_sdk_ssl_v3_06_23 |
  security_policy_aws_crt_sdk_tls_10_06_23 | security_policy_aws_crt_sdk_tls_11_06_23 |
  security_policy_aws_crt_sdk_tls_12_06_23 | security_policy_aws_crt_sdk_tls_13_06_23 |
  security_policy_kms_tls_1_0_2018_10 | security_policy_kms_tls_1_0_2021_08 | security_policy_kms_tls_1_2_2023_06 |
  security_policy_kms_pq_tls_1_0_2019_06 | security_policy_kms_pq_tls_1_0_2020_02

fun security_policies_4 :: "bool \<Rightarrow> security_policy_ref_4 \<Rightarrow> s2n_security_policy" where
  "security_policies_4 evp security_policy_aws_crt_sdk_ssl_v3 = \<lparr>sp_minimum_protocol_version = S2N_SSLv3,
     sp_cipher_preferences = Some (cipher_preferences_11 cipher_preferences_aws_crt_sdk_ssl_v3),
     sp_kem_preferences = Some (kem_preferences kem_preferences_null),
     sp_signature_preferences = Some (signature_preferences_2 s2n_signature_preferences_20200207),
     sp_certificate_signature_preferences = None,
     sp_ecc_preferences = Some (ecc_preferences evp s2n_ecc_preferences_20200310), sp_certificate_key_preferences = None,
     certificate_preferences_apply_locally = False, rules = []\<rparr>"
| "security_policies_4 evp security_policy_aws_crt_sdk_tls_10 = \<lparr>sp_minimum_protocol_version = S2N_TLS10,
     sp_cipher_preferences = Some (cipher_preferences_11 cipher_preferences_aws_crt_sdk_default),
     sp_kem_preferences = Some (kem_preferences kem_preferences_null),
     sp_signature_preferences = Some (signature_preferences_2 s2n_signature_preferences_20200207),
     sp_certificate_signature_preferences = None,
     sp_ecc_preferences = Some (ecc_preferences evp s2n_ecc_preferences_20200310), sp_certificate_key_preferences = None,
     certificate_preferences_apply_locally = False, rules = []\<rparr>"
| "security_policies_4 evp security_policy_aws_crt_sdk_tls_11 = \<lparr>sp_minimum_protocol_version = S2N_TLS11,
     sp_cipher_preferences = Some (cipher_preferences_11 cipher_preferences_aws_crt_sdk_default),
     sp_kem_preferences = Some (kem_preferences kem_preferences_null),
     sp_signature_preferences = Some (signature_preferences_2 s2n_signature_preferences_20200207),
     sp_certificate_signature_preferences = None,
     sp_ecc_preferences = Some (ecc_preferences evp s2n_ecc_preferences_20200310), sp_certificate_key_preferences = None,
     certificate_preferences_apply_locally = False, rules = []\<rparr>"
| "security_policies_4 evp security_policy_aws_crt_sdk_tls_12 = \<lparr>sp_minimum_protocol_version = S2N_TLS12,
     sp_cipher_preferences = Some (cipher_preferences_11 cipher_preferences_aws_crt_sdk_default),
     sp_kem_preferences = Some (kem_preferences kem_preferences_null),
     sp_signature_preferences = Some (signature_preferences_2 s2n_signature_preferences_20200207),
     sp_certificate_signature_preferences = None,
     sp_ecc_preferences = Some (ecc_preferences evp s2n_ecc_preferences_20200310), sp_certificate_key_preferences = None,
     certificate_preferences_apply_locally = False, rules = []\<rparr>"
| "security_policies_4 evp security_policy_aws_crt_sdk_tls_13 = \<lparr>sp_minimum_protocol_version = S2N_TLS13,
     sp_cipher_preferences = Some (cipher_preferences_11 cipher_preferences_aws_crt_sdk_tls_13),
     sp_kem_preferences = Some (kem_preferences kem_preferences_null),
     sp_signature_preferences = Some (signature_preferences_2 s2n_signature_preferences_20200207),
     sp_certificate_signature_preferences = None,
     sp_ecc_preferences = Some (ecc_preferences evp s2n_ecc_preferences_20200310), sp_certificate_key_preferences = None,
     certificate_preferences_apply_locally = False, rules = [S2N_PERFECT_FORWARD_SECRECY]\<rparr>"
| "security_policies_4 evp security_policy_aws_crt_sdk_ssl_v3_06_23 = \<lparr>sp_minimum_protocol_version = S2N_SSLv3,
     sp_cipher_preferences = Some (cipher_preferences_11 cipher_preferences_aws_crt_sdk_ssl_v3),
     sp_kem_preferences = Some (kem_preferences kem_preferences_null),
     sp_signature_preferences = Some (signature_preferences_2 s2n_signature_preferences_20200207),
     sp_certificate_signature_preferences = None,
     sp_ecc_preferences = Some (ecc_preferences evp s2n_ecc_preferences_20230623), sp_certificate_key_preferences = None,
     certificate_preferences_apply_locally = False, rules = []\<rparr>"
| "security_policies_4 evp security_policy_aws_crt_sdk_tls_10_06_23 = \<lparr>sp_minimum_protocol_version = S2N_TLS10,
     sp_cipher_preferences = Some (cipher_preferences_11 cipher_preferences_aws_crt_sdk_default),
     sp_kem_preferences = Some (kem_preferences kem_preferences_null),
     sp_signature_preferences = Some (signature_preferences_2 s2n_signature_preferences_20200207),
     sp_certificate_signature_preferences = None,
     sp_ecc_preferences = Some (ecc_preferences evp s2n_ecc_preferences_20230623), sp_certificate_key_preferences = None,
     certificate_preferences_apply_locally = False, rules = []\<rparr>"
| "security_policies_4 evp security_policy_aws_crt_sdk_tls_11_06_23 = \<lparr>sp_minimum_protocol_version = S2N_TLS11,
     sp_cipher_preferences = Some (cipher_preferences_11 cipher_preferences_aws_crt_sdk_default),
     sp_kem_preferences = Some (kem_preferences kem_preferences_null),
     sp_signature_preferences = Some (signature_preferences_2 s2n_signature_preferences_20200207),
     sp_certificate_signature_preferences = None,
     sp_ecc_preferences = Some (ecc_preferences evp s2n_ecc_preferences_20230623), sp_certificate_key_preferences = None,
     certificate_preferences_apply_locally = False, rules = []\<rparr>"
| "security_policies_4 evp security_policy_aws_crt_sdk_tls_12_06_23 = \<lparr>sp_minimum_protocol_version = S2N_TLS12,
     sp_cipher_preferences = Some (cipher_preferences_11 cipher_preferences_aws_crt_sdk_default),
     sp_kem_preferences = Some (kem_preferences kem_preferences_null),
     sp_signature_preferences = Some (signature_preferences_2 s2n_signature_preferences_20200207),
     sp_certificate_signature_preferences = None,
     sp_ecc_preferences = Some (ecc_preferences evp s2n_ecc_preferences_20230623), sp_certificate_key_preferences = None,
     certificate_preferences_apply_locally = False, rules = []\<rparr>"
| "security_policies_4 evp security_policy_aws_crt_sdk_tls_13_06_23 = \<lparr>sp_minimum_protocol_version = S2N_TLS13,
     sp_cipher_preferences = Some (cipher_preferences_11 cipher_preferences_aws_crt_sdk_tls_13),
     sp_kem_preferences = Some (kem_preferences kem_preferences_null),
     sp_signature_preferences = Some (signature_preferences_2 s2n_signature_preferences_20200207),
     sp_certificate_signature_preferences = None,
     sp_ecc_preferences = Some (ecc_preferences evp s2n_ecc_preferences_20230623), sp_certificate_key_preferences = None,
     certificate_preferences_apply_locally = False, rules = [S2N_PERFECT_FORWARD_SECRECY]\<rparr>"
| "security_policies_4 evp security_policy_kms_tls_1_0_2018_10 = \<lparr>sp_minimum_protocol_version = S2N_TLS10,
     sp_cipher_preferences = Some (cipher_preferences_12 cipher_preferences_kms_tls_1_0_2018_10),
     sp_kem_preferences = Some (kem_preferences kem_preferences_null),
     sp_signature_preferences = Some (signature_preferences_2 s2n_signature_preferences_20140601),
     sp_certificate_signature_preferences = None,
     sp_ecc_preferences = Some (ecc_preferences evp s2n_ecc_preferences_20140601), sp_certificate_key_preferences = None,
     certificate_preferences_apply_locally = False, rules = [S2N_PERFECT_FORWARD_SECRECY]\<rparr>"
| "security_policies_4 evp security_policy_kms_tls_1_0_2021_08 = \<lparr>sp_minimum_protocol_version = S2N_TLS10,
     sp_cipher_preferences = Some (cipher_preferences_12 cipher_preferences_kms_tls_1_0_2021_08),
     sp_kem_preferences = Some (kem_preferences kem_preferences_null),
     sp_signature_preferences = Some (signature_preferences_2 s2n_signature_preferences_20200207),
     sp_certificate_signature_preferences = None,
     sp_ecc_preferences = Some (ecc_preferences evp s2n_ecc_preferences_20200310), sp_certificate_key_preferences = None,
     certificate_preferences_apply_locally = False, rules = [S2N_PERFECT_FORWARD_SECRECY]\<rparr>"
| "security_policies_4 evp security_policy_kms_tls_1_2_2023_06 = \<lparr>sp_minimum_protocol_version = S2N_TLS12,
     sp_cipher_preferences = Some (cipher_preferences_12 cipher_preferences_kms_tls_1_0_2021_08),
     sp_kem_preferences = Some (kem_preferences kem_preferences_null),
     sp_signature_preferences = Some (signature_preferences_2 s2n_signature_preferences_20200207),
     sp_certificate_signature_preferences = None,
     sp_ecc_preferences = Some (ecc_preferences evp s2n_ecc_preferences_20200310), sp_certificate_key_preferences = None,
     certificate_preferences_apply_locally = False, rules = [S2N_PERFECT_FORWARD_SECRECY]\<rparr>"
| "security_policies_4 evp security_policy_kms_pq_tls_1_0_2019_06 = \<lparr>sp_minimum_protocol_version = S2N_TLS10,
     sp_cipher_preferences = Some (cipher_preferences_12 cipher_preferences_kms_pq_tls_1_0_2019_06),
     sp_kem_preferences = Some (kem_preferences kem_preferences_null),
     sp_signature_preferences = Some (signature_preferences_2 s2n_signature_preferences_20140601),
     sp_certificate_signature_preferences = None,
     sp_ecc_preferences = Some (ecc_preferences evp s2n_ecc_preferences_20140601), sp_certificate_key_preferences = None,
     certificate_preferences_apply_locally = False, rules = [S2N_PERFECT_FORWARD_SECRECY]\<rparr>"
| "security_policies_4 evp security_policy_kms_pq_tls_1_0_2020_02 = \<lparr>sp_minimum_protocol_version = S2N_TLS10,
     sp_cipher_preferences = Some (cipher_preferences_12 cipher_preferences_kms_pq_tls_1_0_2020_02),
     sp_kem_preferences = Some (kem_preferences kem_preferences_null),
     sp_signature_preferences = Some (signature_preferences_2 s2n_signature_preferences_20140601),
     sp_certificate_signature_preferences = None,
     sp_ecc_preferences = Some (ecc_preferences evp s2n_ecc_preferences_20140601), sp_certificate_key_preferences = None,
     certificate_preferences_apply_locally = False, rules = [S2N_PERFECT_FORWARD_SECRECY]\<rparr>"

datatype security_policy_ref_5 = security_policy_kms_pq_tls_1_0_2020_07 | security_policy_pq_tls_1_0_2020_12 | security_policy_pq_tls_1_1_2021_05_17 |
  security_policy_pq_tls_1_0_2021_05_18 | security_policy_pq_tls_1_0_2021_05_19 |
  security_policy_pq_tls_1_0_2021_05_20 | security_policy_pq_tls_1_1_2021_05_21 |
  security_policy_pq_tls_1_0_2021_05_22 | security_policy_pq_tls_1_0_2021_05_23 |
  security_policy_pq_tls_1_0_2021_05_24 | security_policy_pq_tls_1_0_2021_05_25 |
  security_policy_pq_tls_1_0_2021_05_26 | security_policy_pq_tls_1_0_2023_01_24 |
  security_policy_pq_tls_1_2_2023_04_07 | security_policy_pq_tls_1_2_2023_04_08 | security_policy_pq_tls_1_2_2023_04_09

fun security_policies_5 :: "bool \<Rightarrow> security_policy_ref_5 \<Rightarrow> s2n_security_policy" where
  "security_policies_5 evp security_policy_kms_pq_tls_1_0_2020_07 = \<lparr>sp_minimum_protocol_version = S2N_TLS10,
     sp_cipher_preferences = Some (cipher_preferences_12 cipher_preferences_kms_pq_tls_1_0_2020_07),
     sp_kem_preferences = Some (kem_preferences kem_preferences_pq_tls_1_0_2021_05),
     sp_signature_preferences = Some (signature_preferences_2 s2n_signature_preferences_20140601),
     sp_certificate_signature_preferences = None,
     sp_ecc_preferences = Some (ecc_preferences evp s2n_ecc_preferences_20140601), sp_certificate_key_preferences = None,
     certificate_preferences_apply_locally = False, rules = [S2N_PERFECT_FORWARD_SECRECY]\<rparr>"
| "security_policies_5 evp security_policy_pq_tls_1_0_2020_12 = \<lparr>sp_minimum_protocol_version = S2N_TLS10,
     sp_cipher_preferences = Some (cipher_preferences_12 cipher_preferences_pq_tls_1_0_2020_12),
     sp_kem_preferences = Some (kem_preferences kem_preferences_pq_tls_1_0_2021_05),
     sp_signature_preferences = Some (signature_preferences_2 s2n_signature_preferences_20200207),
     sp_certificate_signature_preferences = None,
     sp_ecc_preferences = Some (ecc_preferences evp s2n_ecc_preferences_20200310), sp_certificate_key_preferences = None,
     certificate_preferences_apply_locally = False, rules = [S2N_PERFECT_FORWARD_SECRECY]\<rparr>"
| "security_policies_5 evp security_policy_pq_tls_1_1_2021_05_17 = \<lparr>sp_minimum_protocol_version = S2N_TLS11,
     sp_cipher_preferences = Some (cipher_preferences_12 cipher_preferences_pq_tls_1_1_2021_05_17),
     sp_kem_preferences = Some (kem_preferences kem_preferences_pq_tls_1_0_2021_05),
     sp_signature_preferences = Some (signature_preferences_2 s2n_signature_preferences_20140601),
     sp_certificate_signature_preferences = None,
     sp_ecc_preferences = Some (ecc_preferences evp s2n_ecc_preferences_20200310), sp_certificate_key_preferences = None,
     certificate_preferences_apply_locally = False, rules = []\<rparr>"
| "security_policies_5 evp security_policy_pq_tls_1_0_2021_05_18 = \<lparr>sp_minimum_protocol_version = S2N_TLS10,
     sp_cipher_preferences = Some (cipher_preferences_13 cipher_preferences_pq_tls_1_0_2021_05_18),
     sp_kem_preferences = Some (kem_preferences kem_preferences_pq_tls_1_0_2021_05),
     sp_signature_preferences = Some (signature_preferences_2 s2n_signature_preferences_20140601),
     sp_certificate_signature_preferences = None,
     sp_ecc_preferences = Some (ecc_preferences evp s2n_ecc_preferences_20200310), sp_certificate_key_preferences = None,
     certificate_preferences_apply_locally = False, rules = []\<rparr>"
| "security_policies_5 evp security_policy_pq_tls_1_0_2021_05_19 = \<lparr>sp_minimum_protocol_version = S2N_TLS10,
     sp_cipher_preferences = Some (cipher_preferences_13 cipher_preferences_pq_tls_1_0_2021_05_19),
     sp_kem_preferences = Some (kem_preferences kem_preferences_pq_tls_1_0_2021_05),
     sp_signature_preferences = Some (signature_preferences_2 s2n_signature_preferences_20140601),
     sp_certificate_signature_preferences = None,
     sp_ecc_preferences = Some (ecc_preferences evp s2n_ecc_preferences_20200310), sp_certificate_key_preferences = None,
     certificate_preferences_apply_locally = False, rules = []\<rparr>"
| "security_policies_5 evp security_policy_pq_tls_1_0_2021_05_20 = \<lparr>sp_minimum_protocol_version = S2N_TLS10,
     sp_cipher_preferences = Some (cipher_preferences_12 cipher_preferences_kms_pq_tls_1_0_2020_07),
     sp_kem_preferences = Some (kem_preferences kem_preferences_pq_tls_1_0_2021_05),
     sp_signature_preferences = Some (signature_preferences_2 s2n_signature_preferences_20140601),
     sp_certificate_signature_preferences = None,
     sp_ecc_preferences = Some (ecc_preferences evp s2n_ecc_preferences_20200310), sp_certificate_key_preferences = None,
     certificate_preferences_apply_locally = False, rules = [S2N_PERFECT_FORWARD_SECRECY]\<rparr>"
| "security_policies_5 evp security_policy_pq_tls_1_1_2021_05_21 = \<lparr>sp_minimum_protocol_version = S2N_TLS11,
     sp_cipher_preferences = Some (cipher_preferences_13 cipher_preferences_pq_tls_1_1_2021_05_21),
     sp_kem_preferences = Some (kem_preferences kem_preferences_pq_tls_1_0_2021_05),
     sp_signature_preferences = Some (signature_preferences_2 s2n_signature_preferences_20200207),
     sp_certificate_signature_preferences = None,
     sp_ecc_preferences = Some (ecc_preferences evp s2n_ecc_preferences_20200310), sp_certificate_key_preferences = None,
     certificate_preferences_apply_locally = False, rules = []\<rparr>"
| "security_policies_5 evp security_policy_pq_tls_1_0_2021_05_22 = \<lparr>sp_minimum_protocol_version = S2N_TLS10,
     sp_cipher_preferences = Some (cipher_preferences_13 cipher_preferences_pq_tls_1_0_2021_05_22),
     sp_kem_preferences = Some (kem_preferences kem_preferences_pq_tls_1_0_2021_05),
     sp_signature_preferences = Some (signature_preferences_2 s2n_signature_preferences_20200207),
     sp_certificate_signature_preferences = None,
     sp_ecc_preferences = Some (ecc_preferences evp s2n_ecc_preferences_20200310), sp_certificate_key_preferences = None,
     certificate_preferences_apply_locally = False, rules = []\<rparr>"
| "security_policies_5 evp security_policy_pq_tls_1_0_2021_05_23 = \<lparr>sp_minimum_protocol_version = S2N_TLS10,
     sp_cipher_preferences = Some (cipher_preferences_14 cipher_preferences_pq_tls_1_0_2021_05_23),
     sp_kem_preferences = Some (kem_preferences kem_preferences_pq_tls_1_0_2021_05),
     sp_signature_preferences = Some (signature_preferences_2 s2n_signature_preferences_20200207),
     sp_certificate_signature_preferences = None,
     sp_ecc_preferences = Some (ecc_preferences evp s2n_ecc_preferences_20200310), sp_certificate_key_preferences = None,
     certificate_preferences_apply_locally = False, rules = []\<rparr>"
| "security_policies_5 evp security_policy_pq_tls_1_0_2021_05_24 = \<lparr>sp_minimum_protocol_version = S2N_TLS10,
     sp_cipher_preferences = Some (cipher_preferences_14 cipher_preferences_pq_tls_1_0_2021_05_24),
     sp_kem_preferences = Some (kem_preferences kem_preferences_pq_tls_1_0_2021_05),
     sp_signature_preferences = Some (signature_preferences_2 s2n_signature_preferences_20200207),
     sp_certificate_signature_preferences = None,
     sp_ecc_preferences = Some (ecc_preferences evp s2n_ecc_preferences_20200310), sp_certificate_key_preferences = None,
     certificate_preferences_apply_locally = False, rules = [S2N_PERFECT_FORWARD_SECRECY]\<rparr>"
| "security_policies_5 evp security_policy_pq_tls_1_0_2021_05_25 = \<lparr>sp_minimum_protocol_version = S2N_TLS10,
     sp_cipher_preferences = Some (cipher_preferences_14 cipher_preferences_pq_tls_1_0_2021_05_25),
     sp_kem_preferences = Some (kem_preferences kem_preferences_pq_tls_1_0_2021_05),
     sp_signature_preferences = Some (signature_preferences_2 s2n_signature_preferences_20140601),
     sp_certificate_signature_preferences = None,
     sp_ecc_preferences = Some (ecc_preferences evp s2n_ecc_preferences_20200310), sp_certificate_key_preferences = None,
     certificate_preferences_apply_locally = False, rules = []\<rparr>"
| "security_policies_5 evp security_policy_pq_tls_1_0_2021_05_26 = \<lparr>sp_minimum_protocol_version = S2N_TLS10,
     sp_cipher_preferences = Some (cipher_preferences_14 cipher_preferences_pq_tls_1_0_2021_05_26),
     sp_kem_preferences = Some (kem_preferences kem_preferences_pq_tls_1_0_2021_05),
     sp_signature_preferences = Some (signature_preferences_2 s2n_signature_preferences_20200207),
     sp_certificate_signature_preferences = None,
     sp_ecc_preferences = Some (ecc_preferences evp s2n_ecc_preferences_20200310), sp_certificate_key_preferences = None,
     certificate_preferences_apply_locally = False, rules = []\<rparr>"
| "security_policies_5 evp security_policy_pq_tls_1_0_2023_01_24 = \<lparr>sp_minimum_protocol_version = S2N_TLS10,
     sp_cipher_preferences = Some (cipher_preferences_14 cipher_preferences_pq_tls_1_0_2021_05_24),
     sp_kem_preferences = Some (kem_preferences kem_preferences_pq_tls_1_0_2023_01),
     sp_signature_preferences = Some (signature_preferences_2 s2n_signature_preferences_20200207),
     sp_certificate_signature_preferences = None,
     sp_ecc_preferences = Some (ecc_preferences evp s2n_ecc_preferences_20200310), sp_certificate_key_preferences = None,
     certificate_preferences_apply_locally = False, rules = [S2N_PERFECT_FORWARD_SECRECY]\<rparr>"
| "security_policies_5 evp security_policy_pq_tls_1_2_2023_04_07 = \<lparr>sp_minimum_protocol_version = S2N_TLS12,
     sp_cipher_preferences = Some (cipher_preferences_13 cipher_preferences_pq_tls_1_1_2021_05_21),
     sp_kem_preferences = Some (kem_preferences kem_preferences_pq_tls_1_0_2021_05),
     sp_signature_preferences = Some (signature_preferences_2 s2n_signature_preferences_20200207),
     sp_certificate_signature_preferences = None,
     sp_ecc_preferences = Some (ecc_preferences evp s2n_ecc_preferences_20200310), sp_certificate_key_preferences = None,
     certificate_preferences_apply_locally = False, rules = []\<rparr>"
| "security_policies_5 evp security_policy_pq_tls_1_2_2023_04_08 = \<lparr>sp_minimum_protocol_version = S2N_TLS12,
     sp_cipher_preferences = Some (cipher_preferences_13 cipher_preferences_pq_tls_1_0_2021_05_22),
     sp_kem_preferences = Some (kem_preferences kem_preferences_pq_tls_1_0_2021_05),
     sp_signature_preferences = Some (signature_preferences_2 s2n_signature_preferences_20200207),
     sp_certificate_signature_preferences = None,
     sp_ecc_preferences = Some (ecc_preferences evp s2n_ecc_preferences_20200310), sp_certificate_key_preferences = None,
     certificate_preferences_apply_locally = False, rules = []\<rparr>"
| "security_policies_5 evp security_policy_pq_tls_1_2_2023_04_09 = \<lparr>sp_minimum_protocol_version = S2N_TLS12,
     sp_cipher_preferences = Some (cipher_preferences_14 cipher_preferences_pq_tls_1_0_2021_05_24),
     sp_kem_preferences = Some (kem_preferences kem_preferences_pq_tls_1_0_2021_05),
     sp_signature_preferences = Some (signature_preferences_2 s2n_signature_preferences_20200207),
     sp_certificate_signature_preferences = None,
     sp_ecc_preferences = Some (ecc_preferences evp s2n_ecc_preferences_20200310), sp_certificate_key_preferences = None,
     certificate_preferences_apply_locally = False, rules = [S2N_PERFECT_FORWARD_SECRECY]\<rparr>"

datatype security_policy_ref_6 = security_policy_pq_tls_1_2_2023_04_10 | security_policy_pq_tls_1_3_2023_06_01 |
  security_policy_pq_tls_1_2_2023_10_07 | security_policy_pq_tls_1_2_2023_10_08 |
  security_policy_pq_tls_1_2_2023_10_09 | security_policy_pq_tls_1_2_2023_10_10 | security_policy_pq_20231213 |
  security_policy_pq_20231214 | security_policy_pq_20231215 | security_policy_aws_crt_sdk_tls_12_06_23_pq |
  security_policy_pq_tls_1_2_2024_10_07 | security_policy_pq_tls_1_2_2024_10_08 |
  security_policy_pq_tls_1_2_2024_10_08_gcm | security_policy_pq_tls_1_2_2024_10_09 |
  security_policy_kms_fips_tls_1_2_2018_10

fun security_policies_6 :: "bool \<Rightarrow> security_policy_ref_6 \<Rightarrow> s2n_security_policy" where
  "security_policies_6 evp security_policy_pq_tls_1_2_2023_04_10 = \<lparr>sp_minimum_protocol_version = S2N_TLS12,
     sp_cipher_preferences = Some (cipher_preferences_14 cipher_preferences_pq_tls_1_0_2021_05_26),
     sp_kem_preferences = Some (kem_preferences kem_preferences_pq_tls_1_0_2021_05),
     sp_signature_preferences = Some (signature_preferences_2 s2n_signature_preferences_20200207),
     sp_certificate_signature_preferences = None,
     sp_ecc_preferences = Some (ecc_preferences evp s2n_ecc_preferences_20200310), sp_certificate_key_preferences = None,
     certificate_preferences_apply_locally = False, rules = []\<rparr>"
| "security_policies_6 evp security_policy_pq_tls_1_3_2023_06_01 = \<lparr>sp_minimum_protocol_version = S2N_TLS12,
     sp_cipher_preferences = Some (cipher_preferences_15 cipher_preferences_pq_tls_1_3_2023_06_01),
     sp_kem_preferences = Some (kem_preferences kem_preferences_pq_tls_1_3_2023_06),
     sp_signature_preferences = Some (signature_preferences_2 s2n_signature_preferences_20200207),
     sp_certificate_signature_preferences = None,
     sp_ecc_preferences = Some (ecc_preferences evp s2n_ecc_preferences_20201021), sp_certificate_key_preferences = None,
     certificate_preferences_apply_locally = False, rules = []\<rparr>"
| "security_policies_6 evp security_policy_pq_tls_1_2_2023_10_07 = \<lparr>sp_minimum_protocol_version = S2N_TLS12,
     sp_cipher_preferences = Some (cipher_preferences_13 cipher_preferences_pq_tls_1_1_2021_05_21),
     sp_kem_preferences = Some (kem_preferences kem_preferences_pq_tls_1_3_2023_06),
     sp_signature_preferences = Some (signature_preferences_2 s2n_signature_preferences_20200207),
     sp_certificate_signature_preferences = None,
     sp_ecc_preferences = Some (ecc_preferences evp s2n_ecc_preferences_20200310), sp_certificate_key_preferences = None,
     certificate_preferences_apply_locally = False, rules = []\<rparr>"
| "security_policies_6 evp security_policy_pq_tls_1_2_2023_10_08 = \<lparr>sp_minimum_protocol_version = S2N_TLS12,
     sp_cipher_preferences = Some (cipher_preferences_13 cipher_preferences_pq_tls_1_0_2021_05_22),
     sp_kem_preferences = Some (kem_preferences kem_preferences_pq_tls_1_3_2023_06),
     sp_signature_preferences = Some (signature_preferences_2 s2n_signature_preferences_20200207),
     sp_certificate_signature_preferences = None,
     sp_ecc_preferences = Some (ecc_preferences evp s2n_ecc_preferences_20200310), sp_certificate_key_preferences = None,
     certificate_preferences_apply_locally = False, rules = []\<rparr>"
| "security_policies_6 evp security_policy_pq_tls_1_2_2023_10_09 = \<lparr>sp_minimum_protocol_version = S2N_TLS12,
     sp_cipher_preferences = Some (cipher_preferences_14 cipher_preferences_pq_tls_1_0_2021_05_24),
     sp_kem_preferences = Some (kem_preferences kem_preferences_pq_tls_1_3_2023_06),
     sp_signature_preferences = Some (signature_preferences_2 s2n_signature_preferences_20200207),
     sp_certificate_signature_preferences = None,
     sp_ecc_preferences = Some (ecc_preferences evp s2n_ecc_preferences_20200310), sp_certificate_key_preferences = None,
     certificate_preferences_apply_locally = False, rules = [S2N_PERFECT_FORWARD_SECRECY]\<rparr>"
| "security_policies_6 evp security_policy_pq_tls_1_2_2023_10_10 = \<lparr>sp_minimum_protocol_version = S2N_TLS12,
     sp_cipher_preferences = Some (cipher_preferences_14 cipher_preferences_pq_tls_1_0_2021_05_26),
     sp_kem_preferences = Some (kem_preferences kem_preferences_pq_tls_1_3_2023_06),
     sp_signature_preferences = Some (signature_preferences_2 s2n_signature_preferences_20200207),
     sp_certificate_signature_preferences = None,
     sp_ecc_preferences = Some (ecc_preferences evp s2n_ecc_preferences_20200310), sp_certificate_key_preferences = None,
     certificate_preferences_apply_locally = False, rules = []\<rparr>"
| "security_policies_6 evp security_policy_pq_20231213 = \<lparr>sp_minimum_protocol_version = S2N_TLS12,
     sp_cipher_preferences = Some (cipher_preferences_15 cipher_preferences_20231213),
     sp_kem_preferences = Some (kem_preferences kem_preferences_pq_tls_1_3_2023_12),
     sp_signature_preferences = Some (signature_preferences_2 s2n_signature_preferences_20230317),
     sp_certificate_signature_preferences = None,
     sp_ecc_preferences = Some (ecc_preferences evp s2n_ecc_preferences_20201021), sp_certificate_key_preferences = None,
     certificate_preferences_apply_locally = False, rules = []\<rparr>"
| "security_policies_6 evp security_policy_pq_20231214 = \<lparr>sp_minimum_protocol_version = S2N_TLS12,
     sp_cipher_preferences = Some (cipher_preferences_15 cipher_preferences_20231214),
     sp_kem_preferences = Some (kem_preferences kem_preferences_pq_tls_1_3_2023_12),
     sp_signature_preferences = Some (signature_preferences_2 s2n_signature_preferences_20230317),
     sp_certificate_signature_preferences = None,
     sp_ecc_preferences = Some (ecc_preferences evp s2n_ecc_preferences_20201021), sp_certificate_key_preferences = None,
     certificate_preferences_apply_locally = False, rules = [S2N_FIPS_140_3]\<rparr>"
| "security_policies_6 evp security_policy_pq_20231215 = \<lparr>sp_minimum_protocol_version = S2N_TLS12,
     sp_cipher_preferences = Some (cipher_preferences_15 cipher_preferences_kms_fips_tls_1_2_2021_08),
     sp_kem_preferences = Some (kem_preferences kem_preferences_pq_tls_1_3_2023_12),
     sp_signature_preferences = Some (signature_preferences_2 s2n_signature_preferences_20230317),
     sp_certificate_signature_preferences = None,
     sp_ecc_preferences = Some (ecc_preferences evp s2n_ecc_preferences_20201021), sp_certificate_key_preferences = None,
     certificate_preferences_apply_locally = False, rules = [S2N_FIPS_140_3]\<rparr>"
| "security_policies_6 evp security_policy_aws_crt_sdk_tls_12_06_23_pq = \<lparr>sp_minimum_protocol_version = S2N_TLS12,
     sp_cipher_preferences = Some (cipher_preferences_11 cipher_preferences_aws_crt_sdk_default),
     sp_kem_preferences = Some (kem_preferences kem_preferences_pq_tls_1_3_mixed_2024_10),
     sp_signature_preferences = Some (signature_preferences_2 s2n_signature_preferences_20200207),
     sp_certificate_signature_preferences = None,
     sp_ecc_preferences = Some (ecc_preferences evp s2n_ecc_preferences_20230623), sp_certificate_key_preferences = None,
     certificate_preferences_apply_locally = False, rules = []\<rparr>"
| "security_policies_6 evp security_policy_pq_tls_1_2_2024_10_07 = \<lparr>sp_minimum_protocol_version = S2N_TLS12,
     sp_cipher_preferences = Some (cipher_preferences_8 elb_security_policy_tls13_1_2_Ext2_2021_06),
     sp_kem_preferences = Some (kem_preferences kem_preferences_pq_tls_1_3_mixed_2024_10),
     sp_signature_preferences = Some (signature_preferences_2 s2n_signature_preferences_20200207),
     sp_certificate_signature_preferences = None,
     sp_ecc_preferences = Some (ecc_preferences evp s2n_ecc_preferences_20200310), sp_certificate_key_preferences = None,
     certificate_preferences_apply_locally = False, rules = []\<rparr>"
| "security_policies_6 evp security_policy_pq_tls_1_2_2024_10_08 = \<lparr>sp_minimum_protocol_version = S2N_TLS12,
     sp_cipher_preferences = Some (cipher_preferences_4 cipher_preferences_20241008),
     sp_kem_preferences = Some (kem_preferences kem_preferences_pq_tls_1_3_mixed_2024_10),
     sp_signature_preferences = Some (signature_preferences_2 s2n_signature_preferences_20200207),
     sp_certificate_signature_preferences = None,
     sp_ecc_preferences = Some (ecc_preferences evp s2n_ecc_preferences_20200310), sp_certificate_key_preferences = None,
     certificate_preferences_apply_locally = False, rules = []\<rparr>"
| "security_policies_6 evp security_policy_pq_tls_1_2_2024_10_08_gcm = \<lparr>sp_minimum_protocol_version = S2N_TLS12,
     sp_cipher_preferences = Some (cipher_preferences_5 cipher_preferences_20241008_gcm),
     sp_kem_preferences = Some (kem_preferences kem_preferences_pq_tls_1_3_mixed_2024_10),
     sp_signature_preferences = Some (signature_preferences_2 s2n_signature_preferences_20200207),
     sp_certificate_signature_preferences = None,
     sp_ecc_preferences = Some (ecc_preferences evp s2n_ecc_preferences_20200310), sp_certificate_key_preferences = None,
     certificate_preferences_apply_locally = False, rules = []\<rparr>"
| "security_policies_6 evp security_policy_pq_tls_1_2_2024_10_09 = \<lparr>sp_minimum_protocol_version = S2N_TLS12,
     sp_cipher_preferences = Some (cipher_preferences_5 cipher_preferences_20241009),
     sp_kem_preferences = Some (kem_preferences kem_preferences_pq_tls_1_3_mixed_2024_10),
     sp_signature_preferences = Some (signature_preferences_2 s2n_signature_preferences_20200207),
     sp_certificate_signature_preferences = None,
     sp_ecc_preferences = Some (ecc_preferences evp s2n_ecc_preferences_20200310), sp_certificate_key_preferences = None,
     certificate_preferences_apply_locally = False, rules = [S2N_PERFECT_FORWARD_SECRECY]\<rparr>"
| "security_policies_6 evp security_policy_kms_fips_tls_1_2_2018_10 = \<lparr>sp_minimum_protocol_version = S2N_TLS12,
     sp_cipher_preferences = Some (cipher_preferences_15 cipher_preferences_kms_fips_tls_1_2_2018_10),
     sp_kem_preferences = Some (kem_preferences kem_preferences_null),
     sp_signature_preferences = Some (signature_preferences_2 s2n_signature_preferences_20140601),
     sp_certificate_signature_preferences = None,
     sp_ecc_preferences = Some (ecc_preferences evp s2n_ecc_preferences_20140601), sp_certificate_key_preferences = None,
     certificate_preferences_apply_locally = False, rules = [S2N_PERFECT_FORWARD_SECRECY]\<rparr>"

datatype security_policy_ref_7 = security_policy_kms_fips_tls_1_2_2021_08 | security_policy_kms_fips_tls_1_2_2024_10 | security_policy_20140601 |
  security_policy_20141001 | security_policy_20150202 | security_policy_20150214 | security_policy_20160411 |
  security_policy_20150306 | security_policy_20160804 | security_policy_20160824 | security_policy_20190122 |
  security_policy_20190121 | security_policy_20190120 | security_policy_20190214 | security_policy_20190214_gcm |
  security_policy_20210825 | security_policy_20210825_gcm

fun security_policies_7 :: "bool \<Rightarrow> security_policy_ref_7 \<Rightarrow> s2n_security_policy" where
  "security_policies_7 evp security_policy_kms_fips_tls_1_2_2021_08 = \<lparr>sp_minimum_protocol_version = S2N_TLS12,
     sp_cipher_preferences = Some (cipher_preferences_15 cipher_preferences_kms_fips_tls_1_2_2021_08),
     sp_kem_preferences = Some (kem_preferences kem_preferences_null),
     sp_signature_preferences = Some (signature_preferences_2 s2n_signature_preferences_20200207),
     sp_certificate_signature_preferences = None,
     sp_ecc_preferences = Some (ecc_preferences evp s2n_ecc_preferences_20140601), sp_certificate_key_preferences = None,
     certificate_preferences_apply_locally = False, rules = [S2N_PERFECT_FORWARD_SECRECY]\<rparr>"
| "security_policies_7 evp security_policy_kms_fips_tls_1_2_2024_10 = \<lparr>sp_minimum_protocol_version = S2N_TLS12,
     sp_cipher_preferences = Some (cipher_preferences_15 cipher_preferences_kms_fips_tls_1_2_2021_08),
     sp_kem_preferences = Some (kem_preferences kem_preferences_pq_tls_1_3_ietf_2024_10),
     sp_signature_preferences = Some (signature_preferences_2 s2n_signature_preferences_20230317),
     sp_certificate_signature_preferences = None,
     sp_ecc_preferences = Some (ecc_preferences evp s2n_ecc_preferences_20201021), sp_certificate_key_preferences = None,
     certificate_preferences_apply_locally = False, rules = [S2N_PERFECT_FORWARD_SECRECY, S2N_FIPS_140_3]\<rparr>"
| "security_policies_7 evp security_policy_20140601 = \<lparr>sp_minimum_protocol_version = S2N_SSLv3,
     sp_cipher_preferences = Some (cipher_preferences_1 cipher_preferences_20140601),
     sp_kem_preferences = Some (kem_preferences kem_preferences_null),
     sp_signature_preferences = Some (signature_preferences_2 s2n_signature_preferences_20140601),
     sp_certificate_signature_preferences = None,
     sp_ecc_preferences = Some (ecc_preferences evp s2n_ecc_preferences_20140601), sp_certificate_key_preferences = None,
     certificate_preferences_apply_locally = False, rules = []\<rparr>"
| "security_policies_7 evp security_policy_20141001 = \<lparr>sp_minimum_protocol_version = S2N_TLS10,
     sp_cipher_preferences = Some (cipher_preferences_1 cipher_preferences_20141001),
     sp_kem_preferences = Some (kem_preferences kem_preferences_null),
     sp_signature_preferences = Some (signature_preferences_2 s2n_signature_preferences_20140601),
     sp_certificate_signature_preferences = None,
     sp_ecc_preferences = Some (ecc_preferences evp s2n_ecc_preferences_20140601), sp_certificate_key_preferences = None,
     certificate_preferences_apply_locally = False, rules = []\<rparr>"
| "security_policies_7 evp security_policy_20150202 = \<lparr>sp_minimum_protocol_version = S2N_TLS10,
     sp_cipher_preferences = Some (cipher_preferences_1 cipher_preferences_20150202),
     sp_kem_preferences = Some (kem_preferences kem_preferences_null),
     sp_signature_preferences = Some (signature_preferences_2 s2n_signature_preferences_20140601),
     sp_certificate_signature_preferences = None,
     sp_ecc_preferences = Some (ecc_preferences evp s2n_ecc_preferences_20140601), sp_certificate_key_preferences = None,
     certificate_preferences_apply_locally = False, rules = []\<rparr>"
| "security_policies_7 evp security_policy_20150214 = \<lparr>sp_minimum_protocol_version = S2N_TLS10,
     sp_cipher_preferences = Some (cipher_preferences_1 cipher_preferences_20150214),
     sp_kem_preferences = Some (kem_preferences kem_preferences_null),
     sp_signature_preferences = Some (signature_preferences_2 s2n_signature_preferences_20140601),
     sp_certificate_signature_preferences = None,
     sp_ecc_preferences = Some (ecc_preferences evp s2n_ecc_preferences_20140601), sp_certificate_key_preferences = None,
     certificate_preferences_apply_locally = False, rules = []\<rparr>"
| "security_policies_7 evp security_policy_20160411 = \<lparr>sp_minimum_protocol_version = S2N_TLS10,
     sp_cipher_preferences = Some (cipher_preferences_2 cipher_preferences_20160411),
     sp_kem_preferences = Some (kem_preferences kem_preferences_null),
     sp_signature_preferences = Some (signature_preferences_2 s2n_signature_preferences_20140601),
     sp_certificate_signature_preferences = None,
     sp_ecc_preferences = Some (ecc_preferences evp s2n_ecc_preferences_20140601), sp_certificate_key_preferences = None,
     certificate_preferences_apply_locally = False, rules = []\<rparr>"
| "security_policies_7 evp security_policy_20150306 = \<lparr>sp_minimum_protocol_version = S2N_TLS10,
     sp_cipher_preferences = Some (cipher_preferences_2 cipher_preferences_20150306),
     sp_kem_preferences = Some (kem_preferences kem_preferences_null),
     sp_signature_preferences = Some (signature_preferences_2 s2n_signature_preferences_20140601),
     sp_certificate_signature_preferences = None,
     sp_ecc_preferences = Some (ecc_preferences evp s2n_ecc_preferences_20140601), sp_certificate_key_preferences = None,
     certificate_preferences_apply_locally = False, rules = []\<rparr>"
| "security_policies_7 evp security_policy_20160804 = \<lparr>sp_minimum_protocol_version = S2N_TLS10,
     sp_cipher_preferences = Some (cipher_preferences_2 cipher_preferences_20160804),
     sp_kem_preferences = Some (kem_preferences kem_preferences_null),
     sp_signature_preferences = Some (signature_preferences_2 s2n_signature_preferences_20140601),
     sp_certificate_signature_preferences = None,
     sp_ecc_preferences = Some (ecc_preferences evp s2n_ecc_preferences_20140601), sp_certificate_key_preferences = None,
     certificate_preferences_apply_locally = False, rules = []\<rparr>"
| "security_policies_7 evp security_policy_20160824 = \<lparr>sp_minimum_protocol_version = S2N_TLS10,
     sp_cipher_preferences = Some (cipher_preferences_2 cipher_preferences_20160824),
     sp_kem_preferences = Some (kem_preferences kem_preferences_null),
     sp_signature_preferences = Some (signature_preferences_2 s2n_signature_preferences_20140601),
     sp_certificate_signature_preferences = None,
     sp_ecc_preferences = Some (ecc_preferences evp s2n_ecc_preferences_20140601), sp_certificate_key_preferences = None,
     certificate_preferences_apply_locally = False, rules = []\<rparr>"
| "security_policies_7 evp security_policy_20190122 = \<lparr>sp_minimum_protocol_version = S2N_TLS10,
     sp_cipher_preferences = Some (cipher_preferences_3 cipher_preferences_20190122),
     sp_kem_preferences = Some (kem_preferences kem_preferences_null),
     sp_signature_preferences = Some (signature_preferences_2 s2n_signature_preferences_20140601),
     sp_certificate_signature_preferences = None,
     sp_ecc_preferences = Some (ecc_preferences evp s2n_ecc_preferences_20140601), sp_certificate_key_preferences = None,
     certificate_preferences_apply_locally = False, rules = []\<rparr>"
| "security_policies_7 evp security_policy_20190121 = \<lparr>sp_minimum_protocol_version = S2N_TLS10,
     sp_cipher_preferences = Some (cipher_preferences_3 cipher_preferences_20190121),
     sp_kem_preferences = Some (kem_preferences kem_preferences_null),
     sp_signature_preferences = Some (signature_preferences_2 s2n_signature_preferences_20140601),
     sp_certificate_signature_preferences = None,
     sp_ecc_preferences = Some (ecc_preferences evp s2n_ecc_preferences_20140601), sp_certificate_key_preferences = None,
     certificate_preferences_apply_locally = False, rules = []\<rparr>"
| "security_policies_7 evp security_policy_20190120 = \<lparr>sp_minimum_protocol_version = S2N_TLS10,
     sp_cipher_preferences = Some (cipher_preferences_3 cipher_preferences_20190120),
     sp_kem_preferences = Some (kem_preferences kem_preferences_null),
     sp_signature_preferences = Some (signature_preferences_2 s2n_signature_preferences_20140601),
     sp_certificate_signature_preferences = None,
     sp_ecc_preferences = Some (ecc_preferences evp s2n_ecc_preferences_20140601), sp_certificate_key_preferences = None,
     certificate_preferences_apply_locally = False, rules = []\<rparr>"
| "security_policies_7 evp security_policy_20190214 = \<lparr>sp_minimum_protocol_version = S2N_TLS10,
     sp_cipher_preferences = Some (cipher_preferences_3 cipher_preferences_20190214),
     sp_kem_preferences = Some (kem_preferences kem_preferences_null),
     sp_signature_preferences = Some (signature_preferences_2 s2n_signature_preferences_20140601),
     sp_certificate_signature_preferences = None,
     sp_ecc_preferences = Some (ecc_preferences evp s2n_ecc_preferences_20140601), sp_certificate_key_preferences = None,
     certificate_preferences_apply_locally = False, rules = []\<rparr>"
| "security_policies_7 evp security_policy_20190214_gcm = \<lparr>sp_minimum_protocol_version = S2N_TLS10,
     sp_cipher_preferences = Some (cipher_preferences_4 cipher_preferences_20190214_gcm),
     sp_kem_preferences = Some (kem_preferences kem_preferences_null),
     sp_signature_preferences = Some (signature_preferences_2 s2n_signature_preferences_20140601),
     sp_certificate_signature_preferences = None,
     sp_ecc_preferences = Some (ecc_preferences evp s2n_ecc_preferences_20140601), sp_certificate_key_preferences = None,
     certificate_preferences_apply_locally = False, rules = []\<rparr>"
| "security_policies_7 evp security_policy_20210825 = \<lparr>sp_minimum_protocol_version = S2N_TLS10,
     sp_cipher_preferences = Some (cipher_preferences_4 cipher_preferences_20210825),
     sp_kem_preferences = Some (kem_preferences kem_preferences_null),
     sp_signature_preferences = Some (signature_preferences_2 s2n_signature_preferences_20200207),
     sp_certificate_signature_preferences = None,
     sp_ecc_preferences = Some (ecc_preferences evp s2n_ecc_preferences_20200310), sp_certificate_key_preferences = None,
     certificate_preferences_apply_locally = False, rules = []\<rparr>"
| "security_policies_7 evp security_policy_20210825_gcm = \<lparr>sp_minimum_protocol_version = S2N_TLS10,
     sp_cipher_preferences = Some (cipher_preferences_4 cipher_preferences_20210825_gcm),
     sp_kem_preferences = Some (kem_preferences kem_preferences_null),
     sp_signature_preferences = Some (signature_preferences_2 s2n_signature_preferences_20200207),
     sp_certificate_signature_preferences = None,
     sp_ecc_preferences = Some (ecc_preferences evp s2n_ecc_preferences_20200310), sp_certificate_key_preferences = None,
     certificate_preferences_apply_locally = False, rules = []\<rparr>"

datatype security_policy_ref_8 = security_policy_20170328 | security_policy_20170328_gcm | security_policy_20170718 | security_policy_20170718_gcm |
  security_policy_20201021 | security_policy_20210816 | security_policy_20210816_gcm | security_policy_rfc9151 |
  security_policy_20250211 | security_policy_test_all | security_policy_test_all_tls12 | security_policy_test_all_fips |
  security_policy_test_all_ecdsa | security_policy_test_all_rsa_kex

fun security_policies_8 :: "bool \<Rightarrow> security_policy_ref_8 \<Rightarrow> s2n_security_policy" where
  "security_policies_8 evp security_policy_20170328 = \<lparr>sp_minimum_protocol_version = S2N_TLS10,
     sp_cipher_preferences = Some (cipher_preferences_5 cipher_preferences_20170328),
     sp_kem_preferences = Some (kem_preferences kem_preferences_null),
     sp_signature_preferences = Some (signature_preferences_2 s2n_signature_preferences_20140601),
     sp_certificate_signature_preferences = None,
     sp_ecc_preferences = Some (ecc_preferences evp s2n_ecc_preferences_20140601), sp_certificate_key_preferences = None,
     certificate_preferences_apply_locally = False, rules = []\<rparr>"
| "security_policies_8 evp security_policy_20170328_gcm = \<lparr>sp_minimum_protocol_version = S2N_TLS10,
     sp_cipher_preferences = Some (cipher_preferences_5 cipher_preferences_20170328_gcm),
     sp_kem_preferences = Some (kem_preferences kem_preferences_null),
     sp_signature_preferences = Some (signature_preferences_2 s2n_signature_preferences_20140601),
     sp_certificate_signature_preferences = None,
     sp_ecc_preferences = Some (ecc_preferences evp s2n_ecc_preferences_20140601), sp_certificate_key_preferences = None,
     certificate_preferences_apply_locally = False, rules = []\<rparr>"
| "security_policies_8 evp security_policy_20170718 = \<lparr>sp_minimum_protocol_version = S2N_TLS10,
     sp_cipher_preferences = Some (cipher_preferences_6 cipher_preferences_20170718),
     sp_kem_preferences = Some (kem_preferences kem_preferences_null),
     sp_signature_preferences = Some (signature_preferences_2 s2n_signature_preferences_20140601),
     sp_certificate_signature_preferences = None,
     sp_ecc_preferences = Some (ecc_preferences evp s2n_ecc_preferences_20140601), sp_certificate_key_preferences = None,
     certificate_preferences_apply_locally = False, rules = []\<rparr>"
| "security_policies_8 evp security_policy_20170718_gcm = \<lparr>sp_minimum_protocol_version = S2N_TLS10,
     sp_cipher_preferences = Some (cipher_preferences_6 cipher_preferences_20170718_gcm),
     sp_kem_preferences = Some (kem_preferences kem_preferences_null),
     sp_signature_preferences = Some (signature_preferences_2 s2n_signature_preferences_20140601),
     sp_certificate_signature_preferences = None,
     sp_ecc_preferences = Some (ecc_preferences evp s2n_ecc_preferences_20140601), sp_certificate_key_preferences = None,
     certificate_preferences_apply_locally = False, rules = []\<rparr>"
| "security_policies_8 evp security_policy_20201021 = \<lparr>sp_minimum_protocol_version = S2N_TLS10,
     sp_cipher_preferences = Some (cipher_preferences_3 cipher_preferences_20190122),
     sp_kem_preferences = Some (kem_preferences kem_preferences_null),
     sp_signature_preferences = Some (signature_preferences_2 s2n_signature_preferences_20201021),
     sp_certificate_signature_preferences = None,
     sp_ecc_preferences = Some (ecc_preferences evp s2n_ecc_preferences_20201021), sp_certificate_key_preferences = None,
     certificate_preferences_apply_locally = False, rules = []\<rparr>"
| "security_policies_8 evp security_policy_20210816 = \<lparr>sp_minimum_protocol_version = S2N_TLS12,
     sp_cipher_preferences = Some (cipher_preferences_15 cipher_preferences_20210816),
     sp_kem_preferences = Some (kem_preferences kem_preferences_null),
     sp_signature_preferences = Some (signature_preferences_3 s2n_signature_preferences_20210816),
     sp_certificate_signature_preferences = None,
     sp_ecc_preferences = Some (ecc_preferences evp s2n_ecc_preferences_20210816), sp_certificate_key_preferences = None,
     certificate_preferences_apply_locally = False, rules = [S2N_PERFECT_FORWARD_SECRECY, S2N_FIPS_140_3]\<rparr>"
| "security_policies_8 evp security_policy_20210816_gcm = \<lparr>sp_minimum_protocol_version = S2N_TLS12,
     sp_cipher_preferences = Some (cipher_preferences_15 cipher_preferences_20210816_gcm),
     sp_kem_preferences = Some (kem_preferences kem_preferences_null),
     sp_signature_preferences = Some (signature_preferences_3 s2n_signature_preferences_20210816),
     sp_certificate_signature_preferences = None,
     sp_ecc_preferences = Some (ecc_preferences evp s2n_ecc_preferences_20210816), sp_certificate_key_preferences = None,
     certificate_preferences_apply_locally = False, rules = [S2N_PERFECT_FORWARD_SECRECY, S2N_FIPS_140_3]\<rparr>"
| "security_policies_8 evp security_policy_rfc9151 = \<lparr>sp_minimum_protocol_version = S2N_TLS12,
     sp_cipher_preferences = Some (cipher_preferences_16 cipher_preferences_rfc9151),
     sp_kem_preferences = Some (kem_preferences kem_preferences_null),
     sp_signature_preferences = Some (signature_preferences_3 s2n_signature_preferences_rfc9151),
     sp_certificate_signature_preferences = Some (signature_preferences_3 s2n_certificate_signature_preferences_rfc9151),
     sp_ecc_preferences = Some (ecc_preferences evp s2n_ecc_preferences_20210816), sp_certificate_key_preferences = Some s2n_certificate_key_preferences_rfc9151,
     certificate_preferences_apply_locally = True, rules = []\<rparr>"
| "security_policies_8 evp security_policy_20250211 = \<lparr>sp_minimum_protocol_version = S2N_TLS13,
     sp_cipher_preferences = Some (cipher_preferences_16 cipher_preferences_20250211),
     sp_kem_preferences = Some (kem_preferences kem_preferences_null),
     sp_signature_preferences = Some (signature_preferences_3 s2n_signature_preferences_rfc9151),
     sp_certificate_signature_preferences = Some (signature_preferences_3 s2n_certificate_signature_preferences_20201110),
     sp_ecc_preferences = Some (ecc_preferences evp s2n_ecc_preferences_20210816), sp_certificate_key_preferences = None,
     certificate_preferences_apply_locally = False, rules = [S2N_PERFECT_FORWARD_SECRECY]\<rparr>"
| "security_policies_8 evp security_policy_test_all = \<lparr>sp_minimum_protocol_version = S2N_SSLv3,
     sp_cipher_preferences = Some (test_cipher_preferences cipher_preferences_test_all),
     sp_kem_preferences = Some (kem_preferences kem_preferences_all),
     sp_signature_preferences = Some (signature_preferences_1 s2n_signature_preferences_all),
     sp_certificate_signature_preferences = None,
     sp_ecc_preferences = Some (ecc_preferences evp s2n_ecc_preferences_test_all), sp_certificate_key_preferences = None,
     certificate_preferences_apply_locally = False, rules = []\<rparr>"
| "security_policies_8 evp security_policy_test_all_tls12 = \<lparr>sp_minimum_protocol_version = S2N_SSLv3,
     sp_cipher_preferences = Some (test_cipher_preferences cipher_preferences_test_all_tls12),
     sp_kem_preferences = Some (kem_preferences kem_preferences_pq_tls_1_0_2021_05),
     sp_signature_preferences = Some (signature_preferences_2 s2n_signature_preferences_20201021),
     sp_certificate_signature_preferences = None,
     sp_ecc_preferences = Some (ecc_preferences evp s2n_ecc_preferences_20201021), sp_certificate_key_preferences = None,
     certificate_preferences_apply_locally = False, rules = []\<rparr>"
| "security_policies_8 evp security_policy_test_all_fips = \<lparr>sp_minimum_protocol_version = S2N_TLS12,
     sp_cipher_preferences = Some (test_cipher_preferences cipher_preferences_test_all_fips),
     sp_kem_preferences = Some (kem_preferences kem_preferences_null),
     sp_signature_preferences = Some (signature_preferences_3 s2n_signature_preferences_test_all_fips),
     sp_certificate_signature_preferences = None,
     sp_ecc_preferences = Some (ecc_preferences evp s2n_ecc_preferences_20201021), sp_certificate_key_preferences = None,
     certificate_preferences_apply_locally = False, rules = [S2N_FIPS_140_3]\<rparr>"
| "security_policies_8 evp security_policy_test_all_ecdsa = \<lparr>sp_minimum_protocol_version = S2N_TLS10,
     sp_cipher_preferences = Some (test_cipher_preferences cipher_preferences_test_all_ecdsa),
     sp_kem_preferences = Some (kem_preferences kem_preferences_null),
     sp_signature_preferences = Some (signature_preferences_2 s2n_signature_preferences_20201021),
     sp_certificate_signature_preferences = None,
     sp_ecc_preferences = Some (ecc_preferences evp s2n_ecc_preferences_test_all), sp_certificate_key_preferences = None,
     certificate_preferences_apply_locally = False, rules = [S2N_PERFECT_FORWARD_SECRECY]\<rparr>"
| "security_policies_8 evp security_policy_test_all_rsa_kex = \<lparr>sp_minimum_protocol_version = S2N_TLS10,
     sp_cipher_preferences = Some (test_cipher_preferences cipher_preferences_test_all_rsa_kex),
     sp_kem_preferences = Some (kem_preferences kem_preferences_null),
     sp_signature_preferences = Some (signature_preferences_2 s2n_signature_preferences_20140601),
     sp_certificate_signature_preferences = None,
     sp_ecc_preferences = Some (ecc_preferences evp s2n_ecc_preferences_20140601), sp_certificate_key_preferences = None,
     certificate_preferences_apply_locally = False, rules = []\<rparr>"

datatype security_policy_ref_9 = security_policy_test_all_tls13 | security_policy_test_ecdsa_priority | security_policy_null

fun security_policies_9 :: "bool \<Rightarrow> security_policy_ref_9 \<Rightarrow> s2n_security_policy" where
  "security_policies_9 evp security_policy_test_all_tls13 = \<lparr>sp_minimum_protocol_version = S2N_SSLv3,
     sp_cipher_preferences = Some (test_cipher_preferences cipher_preferences_test_all_tls13),
     sp_kem_preferences = Some (kem_preferences kem_preferences_null),
     sp_signature_preferences = Some (signature_preferences_2 s2n_signature_preferences_20201021),
     sp_certificate_signature_preferences = None,
     sp_ecc_preferences = Some (ecc_preferences evp s2n_ecc_preferences_test_all), sp_certificate_key_preferences = None,
     certificate_preferences_apply_locally = False, rules = [S2N_PERFECT_FORWARD_SECRECY]\<rparr>"
| "security_policies_9 evp security_policy_test_ecdsa_priority = \<lparr>sp_minimum_protocol_version = S2N_SSLv3,
     sp_cipher_preferences = Some (test_cipher_preferences cipher_preferences_test_ecdsa_priority),
     sp_kem_preferences = Some (kem_preferences kem_preferences_null),
     sp_signature_preferences = Some (signature_preferences_2 s2n_signature_preferences_20201021),
     sp_certificate_signature_preferences = None,
     sp_ecc_preferences = Some (ecc_preferences evp s2n_ecc_preferences_test_all), sp_certificate_key_preferences = None,
     certificate_preferences_apply_locally = False, rules = []\<rparr>"
| "security_policies_9 evp security_policy_null = \<lparr>sp_minimum_protocol_version = S2N_TLS10,
     sp_cipher_preferences = Some (cipher_preferences_5 cipher_preferences_null),
     sp_kem_preferences = Some (kem_preferences kem_preferences_null),
     sp_signature_preferences = Some (signature_preferences_2 s2n_signature_preferences_null),
     sp_certificate_signature_preferences = None,
     sp_ecc_preferences = Some (ecc_preferences evp s2n_ecc_preferences_null), sp_certificate_key_preferences = None,
     certificate_preferences_apply_locally = False, rules = []\<rparr>"

text \<open>A pointer to a policy: to one of the objects above, or to an object outside the library's tables.\<close>

datatype policy_ptr = Policies_1 security_policy_ref_1 | Policies_2 security_policy_ref_2 | Policies_3 security_policy_ref_3 | Policies_4 security_policy_ref_4 | Policies_5 security_policy_ref_5 | Policies_6 security_policy_ref_6 | Policies_7 security_policy_ref_7 | Policies_8 security_policy_ref_8 | Policies_9 security_policy_ref_9 |
  Other_policy s2n_security_policy

fun policy_at :: "bool \<Rightarrow> policy_ptr \<Rightarrow> s2n_security_policy" where
  "policy_at evp (Policies_1 r) = security_policies_1 evp r"
| "policy_at evp (Policies_2 r) = security_policies_2 evp r"
| "policy_at evp (Policies_3 r) = security_policies_3 evp r"
| "policy_at evp (Policies_4 r) = security_policies_4 evp r"
| "policy_at evp (Policies_5 r) = security_policies_5 evp r"
| "policy_at evp (Policies_6 r) = security_policies_6 evp r"
| "policy_at evp (Policies_7 r) = security_policies_7 evp r"
| "policy_at evp (Policies_8 r) = security_policies_8 evp r"
| "policy_at evp (Policies_9 r) = security_policies_9 evp r"
| "policy_at evp (Other_policy p) = p"

definition selection_table :: "(string \<times> policy_ptr) list" where
  "selection_table = [
     (''default'', Policies_1 security_policy_20240501),
     (''default_tls13'', Policies_1 security_policy_20240503),
     (''default_fips'', Policies_1 security_policy_20240502),
     (''default_pq'', Policies_1 security_policy_20241001),
     (''20241106'', Policies_3 security_policy_20241106),
     (''20240501'', Policies_1 security_policy_20240501),
     (''20240502'', Policies_1 security_policy_20240502),
     (''20240503'', Policies_1 security_policy_20240503),
     (''20230317'', Policies_1 security_policy_20230317),
     (''20240331'', Policies_1 security_policy_20240331),
     (''20240417'', Policies_1 security_policy_20240417),
     (''20240416'', Policies_1 security_policy_20240416),
     (''20240730'', Policies_1 security_policy_20240730),
     (''20241001'', Policies_1 security_policy_20241001),
     (''20241001_pq_mixed'', Policies_1 security_policy_20241001_pq_mixed),
     (''ELBSecurityPolicy-TLS-1-0-2015-04'', Policies_2 security_policy_elb_2015_04),
     (''ELBSecurityPolicy-TLS-1-0-2015-05'', Policies_2 security_policy_elb_2016_08),
     (''ELBSecurityPolicy-2016-08'', Policies_2 security_policy_elb_2016_08),
     (''ELBSecurityPolicy-TLS-1-1-2017-01'', Policies_2 security_policy_elb_tls_1_1_2017_01),
     (''ELBSecurityPolicy-TLS-1-2-2017-01'', Policies_2 security_policy_elb_tls_1_2_2017_01),
     (''ELBSecurityPolicy-TLS-1-2-Ext-2018-06'', Policies_2 security_policy_elb_tls_1_2_ext_2018_06),
     (''ELBSecurityPolicy-FS-2018-06'', Policies_2 security_policy_elb_fs_2018_06),
     (''ELBSecurityPolicy-FS-1-2-2019-08'', Policies_2 security_policy_elb_fs_1_2_2019_08),
     (''ELBSecurityPolicy-FS-1-1-2019-08'', Policies_2 security_policy_elb_fs_1_1_2019_08),
     (''ELBSecurityPolicy-FS-1-2-Res-2019-08'', Policies_2 security_policy_elb_fs_1_2_Res_2019_08),
     (''CloudFront-Upstream'', Policies_2 security_policy_cloudfront_upstream),
     (''CloudFront-Upstream-TLS-1-0'', Policies_2 security_policy_cloudfront_upstream_tls10),
     (''CloudFront-Upstream-TLS-1-1'', Policies_2 security_policy_cloudfront_upstream_tls11),
     (''CloudFront-Upstream-TLS-1-2'', Policies_3 security_policy_cloudfront_upstream_tls12),
     (''CloudFront-SSL-v-3'', Policies_3 security_policy_cloudfront_ssl_v_3),
     (''CloudFront-TLS-1-0-2014'', Policies_3 security_policy_cloudfront_tls_1_0_2014),
     (''CloudFront-TLS-1-0-2016'', Policies_3 security_policy_cloudfront_tls_1_0_2016),
     (''CloudFront-TLS-1-1-2016'', Policies_3 security_policy_cloudfront_tls_1_1_2016),
     (''CloudFront-TLS-1-2-2017'', Policies_3 security_policy_cloudfront_tls_1_2_2017),
     (''CloudFront-TLS-1-2-2018'', Policies_3 security_policy_cloudfront_tls_1_2_2018),
     (''CloudFront-TLS-1-2-2019'', Policies_3 security_policy_cloudfront_tls_1_2_2019),
     (''CloudFront-TLS-1-2-2021'', Policies_3 security_policy_cloudfront_tls_1_2_2021),
     (''CloudFront-TLS-1-2-2021-Chacha20-Boosted'', Policies_3 security_policy_cloudfront_tls_1_2_2021_chacha20_boosted),
     (''CloudFront-SSL-v-3-Legacy'', Policies_3 security_policy_cloudfront_ssl_v_3_legacy),
     (''CloudFront-TLS-1-0-2014-Legacy'', Policies_3 security_policy_cloudfront_tls_1_0_2014_legacy),
     (''CloudFront-TLS-1-0-2016-Legacy'', Policies_3 security_policy_cloudfront_tls_1_0_2016_legacy),
     (''CloudFront-TLS-1-1-2016-Legacy'', Policies_3 security_policy_cloudfront_tls_1_1_2016_legacy),
     (''CloudFront-TLS-1-2-2018-Legacy'', Policies_3 security_policy_cloudfront_tls_1_2_2018_legacy),
     (''CloudFront-TLS-1-2-2019-Legacy'', Policies_3 security_policy_cloudfront_tls_1_2_2019_legacy),
     (''AWS-CRT-SDK-SSLv3.0'', Policies_4 security_policy_aws_crt_sdk_ssl_v3),
     (''AWS-CRT-SDK-TLSv1.0'', Policies_4 security_policy_aws_crt_sdk_tls_10),
     (''AWS-CRT-SDK-TLSv1.1'', Policies_4 security_policy_aws_crt_sdk_tls_11),
     (''AWS-CRT-SDK-TLSv1.2'', Policies_4 security_policy_aws_crt_sdk_tls_12),
     (''AWS-CRT-SDK-TLSv1.3'', Policies_4 security_policy_aws_crt_sdk_tls_13),
     (''AWS-CRT-SDK-SSLv3.0-2023'', Policies_4 security_policy_aws_crt_sdk_ssl_v3_06_23),
     (''AWS-CRT-SDK-TLSv1.0-2023'', Policies_4 security_policy_aws_crt_sdk_tls_10_06_23),
     (''AWS-CRT-SDK-TLSv1.1-2023'', Policies_4 security_policy_aws_crt_sdk_tls_11_06_23),
     (''AWS-CRT-SDK-TLSv1.2-2023'', Policies_4 security_policy_aws_crt_sdk_tls_12_06_23),
     (''AWS-CRT-SDK-TLSv1.2-2023-PQ'', Policies_6 security_policy_aws_crt_sdk_tls_12_06_23_pq),
     (''AWS-CRT-SDK-TLSv1.3-2023'', Policies_4 security_policy_aws_crt_sdk_tls_13_06_23),
     (''KMS-TLS-1-0-2018-10'', Policies_4 security_policy_kms_tls_1_0_2018_10),
     (''KMS-TLS-1-0-2021-08'', Policies_4 security_policy_kms_tls_1_0_2021_08),
     (''KMS-TLS-1-2-2023-06'', Policies_4 security_policy_kms_tls_1_2_2023_06),
     (''KMS-FIPS-TLS-1-2-2018-10'', Policies_6 security_policy_kms_fips_tls_1_2_2018_10),
     (''KMS-FIPS-TLS-1-2-2021-08'', Policies_7 security_policy_kms_fips_tls_1_2_2021_08),
     (''KMS-FIPS-TLS-1-2-2024-10'', Policies_7 security_policy_kms_fips_tls_1_2_2024_10),
     (''PQ-TLS-1-0-2023-01-24'', Policies_5 security_policy_pq_tls_1_0_2023_01_24),
     (''PQ-TLS-1-2-2023-04-07'', Policies_5 security_policy_pq_tls_1_2_2023_04_07),
     (''PQ-TLS-1-2-2023-04-08'', Policies_5 security_policy_pq_tls_1_2_2023_04_08),
     (''PQ-TLS-1-2-2023-04-09'', Policies_5 security_policy_pq_tls_1_2_2023_04_09),
     (''PQ-TLS-1-2-2023-04-10'', Policies_6 security_policy_pq_tls_1_2_2023_04_10),
     (''PQ-TLS-1-3-2023-06-01'', Policies_6 security_policy_pq_tls_1_3_2023_06_01),
     (''PQ-TLS-1-2-2023-10-07'', Policies_6 security_policy_pq_tls_1_2_2023_10_07),
     (''PQ-TLS-1-2-2023-10-08'', Policies_6 security_policy_pq_tls_1_2_2023_10_08),
     (''PQ-TLS-1-2-2023-10-09'', Policies_6 security_policy_pq_tls_1_2_2023_10_09),
     (''PQ-TLS-1-2-2023-10-10'', Policies_6 security_policy_pq_tls_1_2_2023_10_10),
     (''PQ-TLS-1-2-2023-12-13'', Policies_6 security_policy_pq_20231213),
     (''PQ-TLS-1-2-2023-12-14'', Policies_6 security_policy_pq_20231214),
     (''PQ-TLS-1-2-2023-12-15'', Policies_6 security_policy_pq_20231215),
     (''PQ-TLS-1-2-2024-10-07'', Policies_6 security_policy_pq_tls_1_2_2024_10_07),
     (''PQ-TLS-1-2-2024-10-08'', Policies_6 security_policy_pq_tls_1_2_2024_10_08),
     (''PQ-TLS-1-2-2024-10-08_gcm'', Policies_6 security_policy_pq_tls_1_2_2024_10_08_gcm),
     (''PQ-TLS-1-2-2024-10-09'', Policies_6 security_policy_pq_tls_1_2_2024_10_09),
     (''20140601'', Policies_7 security_policy_20140601),
     (''20141001'', Policies_7 security_policy_20141001),
     (''20150202'', Policies_7 security_policy_20150202),
     (''20150214'', Policies_7 security_policy_20150214),
     (''20150306'', Policies_7 security_policy_20150306),
     (''20160411'', Policies_7 security_policy_20160411),
     (''20160804'', Policies_7 security_policy_20160804),
     (''20160824'', Policies_7 security_policy_20160824),
     (''20170210'', Policies_1 security_policy_20170210),
     (''20170328'', Policies_8 security_policy_20170328),
     (''20170328_gcm'', Policies_8 security_policy_20170328_gcm),
     (''20190214'', Policies_7 security_policy_20190214),
     (''20190214_gcm'', Policies_7 security_policy_20190214_gcm),
     (''20210825'', Policies_7 security_policy_20210825),
     (''20210825_gcm'', Policies_7 security_policy_20210825_gcm),
     (''20170405'', Policies_2 security_policy_20170405),
     (''20170405_gcm'', Policies_2 security_policy_20170405_gcm),
     (''20170718'', Policies_8 security_policy_20170718),
     (''20170718_gcm'', Policies_8 security_policy_20170718_gcm),
     (''20190120'', Policies_7 security_policy_20190120),
     (''20190121'', Policies_7 security_policy_20190121),
     (''20190122'', Policies_7 security_policy_20190122),
     (''20190801'', Policies_2 security_policy_20190801),
     (''20190802'', Policies_2 security_policy_20190802),
     (''20200207'', Policies_9 security_policy_test_all_tls13),
     (''20201021'', Policies_8 security_policy_20201021),
     (''20210816'', Policies_8 security_policy_20210816),
     (''20210816_GCM'', Policies_8 security_policy_20210816_gcm),
     (''20240603'', Policies_1 security_policy_20240603),
     (''20250211'', Policies_8 security_policy_20250211),
     (''rfc9151'', Policies_8 security_policy_rfc9151),
     (''test_all'', Policies_8 security_policy_test_all),
     (''test_all_fips'', Policies_8 security_policy_test_all_fips),
     (''test_all_ecdsa'', Policies_8 security_policy_test_all_ecdsa),
     (''test_all_rsa_kex'', Policies_8 security_policy_test_all_rsa_kex),
     (''test_ecdsa_priority'', Policies_9 security_policy_test_ecdsa_priority),
     (''test_all_tls12'', Policies_8 security_policy_test_all_tls12),
     (''test_all_tls13'', Policies_9 security_policy_test_all_tls13),
     (''null'', Policies_9 security_policy_null)]"

definition deprecated_security_policies :: "string list" where
  "deprecated_security_policies = [
     ''KMS-PQ-TLS-1-0-2019-06'',
     ''KMS-PQ-TLS-1-0-2020-02'',
     ''KMS-PQ-TLS-1-0-2020-07'',
     ''PQ-TLS-1-0-2020-12'',
     ''PQ-TLS-1-1-2021-05-17'',
     ''PQ-TLS-1-0-2021-05-18'',
     ''PQ-TLS-1-0-2021-05-19'',
     ''PQ-TLS-1-0-2021-05-20'',
     ''PQ-TLS-1-1-2021-05-21'',
     ''PQ-TLS-1-0-2021-05-22'',
     ''PQ-TLS-1-0-2021-05-23'',
     ''PQ-TLS-1-0-2021-05-24'',
     ''PQ-TLS-1-0-2021-05-25'',
     ''PQ-TLS-1-0-2021-05-26'',
     ''PQ-SIKE-TEST-TLS-1-0-2019-11'',
     ''PQ-SIKE-TEST-TLS-1-0-2020-02'']"

end
