(* ===== verification/Security_Rules.thy ===== *)
theory Security_Rules
  imports Policy_Table Stuffer_Text
begin

text \<open>
  Security rules (\<open>tls/s2n_security_rules.c\<close>) and the rules of FIPS 140-3 (\<open>crypto/s2n_fips_rules.c\<close>).

  A rule looks at every algorithm a policy lists and at its minimum version.  The structure that collects the result
  records whether a violation was found and, when asked to, writes a line for each into a stuffer.  The state of the
  actions is that structure with the memory its stuffer lives in.

  \<open>vsnprintf\<close> is not part of the library: the parameter \<open>vp\<close> gives, for a format and its arguments, what the two calls
  of it return and the text.  A format with more conversions than arguments, or a null pointer for a string, is
  undefined in C.
\<close>

section \<open>Rules\<close>

record s2n_security_rule =
  rule_name :: string
  validate_cipher_suite :: "s2n_cipher_suite \<Rightarrow> bool"
  validate_sig_scheme :: "s2n_signature_scheme \<Rightarrow> bool"
  validate_cert_sig_scheme :: "s2n_signature_scheme \<Rightarrow> bool"
  validate_curve :: "curve_ref \<Rightarrow> bool"
  validate_hybrid_group :: "kem_group_ref \<Rightarrow> bool"
  validate_version :: "u8 \<Rightarrow> bool"

definition fips_hash_algs :: "s2n_hash_algorithm list" where
  "fips_hash_algs = [S2N_HASH_SHA224, S2N_HASH_SHA256, S2N_HASH_SHA384, S2N_HASH_SHA512]"

definition s2n_fips_validate_hash_algorithm :: "s2n_hash_algorithm \<Rightarrow> bool" where
  "s2n_fips_validate_hash_algorithm alg \<longleftrightarrow> alg \<in> set fips_hash_algs"

definition fips_cipher_suite_ianas :: "bytes list" where
  "fips_cipher_suite_ianas = [
     [0xC0, 0x2B], [0xC0, 0x2C], [0xC0, 0x23], [0xC0, 0x24], [0xC0, 0x09], [0xC0, 0x0A], [0xC0, 0x2F], [0xC0,
     0x30], [0x00, 0x9E], [0x00, 0x9F], [0xC0, 0x27], [0xC0, 0x28], [0x00, 0x67], [0x00, 0x6B], [0xC0, 0x13],
     [0xC0, 0x14], [0x00, 0x33], [0x00, 0x39], [0x13, 0x01], [0x13, 0x02]]"

definition s2n_fips_validate_cipher_suite :: "s2n_cipher_suite \<Rightarrow> bool" where
  "s2n_fips_validate_cipher_suite suite \<longleftrightarrow>
     list_ex (\<lambda>v. v ! 0 = iana_value suite ! 0 \<and> v ! 1 = iana_value suite ! 1) fips_cipher_suite_ianas"

definition s2n_fips_validate_signature_scheme :: "s2n_signature_scheme \<Rightarrow> bool" where
  "s2n_fips_validate_signature_scheme scheme = s2n_fips_validate_hash_algorithm (hash_alg scheme)"

definition fips_curves :: "curve_ref list" where
  "fips_curves = [s2n_ecc_curve_secp256r1, s2n_ecc_curve_secp384r1, s2n_ecc_curve_secp521r1]"

definition s2n_fips_validate_curve :: "curve_ref \<Rightarrow> bool" where
  "s2n_fips_validate_curve curve \<longleftrightarrow> curve \<in> set fips_curves"

definition fips_kems :: "kem_ref list" where
  "fips_kems = [s2n_mlkem_768]"

definition s2n_fips_validate_kem :: "kem_ref \<Rightarrow> bool" where
  "s2n_fips_validate_kem k \<longleftrightarrow> k \<in> set fips_kems"

definition s2n_fips_validate_hybrid_group :: "kem_group_ref \<Rightarrow> bool" where
  "s2n_fips_validate_hybrid_group g =
     (if send_kem_first (kem_group g) then s2n_fips_validate_kem (group_kem (kem_group g))
      else s2n_fips_validate_curve (group_curve (kem_group g)))"

definition s2n_fips_validate_version :: "u8 \<Rightarrow> bool" where
  "s2n_fips_validate_version version \<longleftrightarrow> version \<ge> S2N_TLS12"

definition s2n_security_rule_validate_forward_secret :: "s2n_cipher_suite \<Rightarrow> bool" where
  "s2n_security_rule_validate_forward_secret suite = kex_is_ephemeral (key_exchange_alg suite)"

fun security_rule_definitions :: "s2n_security_rule_id \<Rightarrow> s2n_security_rule" where
  "security_rule_definitions S2N_PERFECT_FORWARD_SECRECY = \<lparr>rule_name = ''Perfect Forward Secrecy'',
     validate_cipher_suite = s2n_security_rule_validate_forward_secret, validate_sig_scheme = (\<lambda>_. True),
     validate_cert_sig_scheme = (\<lambda>_. True), validate_curve = (\<lambda>_. True), validate_hybrid_group = (\<lambda>_. True),
     validate_version = (\<lambda>_. True)\<rparr>"
| "security_rule_definitions S2N_FIPS_140_3 = \<lparr>rule_name = ''FIPS 140-3 (2019)'',
     validate_cipher_suite = s2n_fips_validate_cipher_suite, validate_sig_scheme = s2n_fips_validate_signature_scheme,
     validate_cert_sig_scheme = s2n_fips_validate_signature_scheme, validate_curve = s2n_fips_validate_curve,
     validate_hybrid_group = s2n_fips_validate_hybrid_group, validate_version = s2n_fips_validate_version\<rparr>"


section \<open>Results\<close>

record s2n_security_rule_result =
  found_error :: bool
  write_output :: bool
  result_output :: s2n_stuffer

type_synonym rule_state = "s2n_mem \<times> s2n_security_rule_result"

definition empty_result :: s2n_security_rule_result where
  "empty_result = \<lparr>found_error = False, write_output = False, result_output = empty_stuffer\<rparr>"

datatype printf_arg = Str "string option" | Num nat

type_synonym vprint = "string \<Rightarrow> printf_arg list \<Rightarrow> int \<times> int \<times> bytes"

definition conversions :: "string \<Rightarrow> nat" where
  "conversions fmt = length (filter (\<lambda>c. c = CHR ''%'') fmt)"

definition printable :: "string \<Rightarrow> printf_arg list \<Rightarrow> bool" where
  "printable fmt args \<longleftrightarrow> conversions fmt \<le> length args \<and> Str None \<notin> set args"

definition on_output :: "(mem_stuffer, 'a) action \<Rightarrow> (rule_state, 'a) action" where
  "on_output = zoom (\<lambda>(mem, r). (mem, result_output r)) (\<lambda>(mem, s) (_, r). (mem, r\<lparr>result_output := s\<rparr>))"

definition s2n_security_rule_result_process ::
  "vprint \<Rightarrow> bool \<Rightarrow> string \<Rightarrow> printf_arg list \<Rightarrow> (rule_state, unit) action" where
  "s2n_security_rule_result_process vp condition fmt args = (\<lambda>(mem, r).
     if condition then (Inr (), (mem, r))
     else
       let r = r\<lparr>found_error := True\<rparr> in
       if \<not> write_output r then (Inr (), (mem, r))
       else if \<not> printable fmt args then (Inl Undefined, (mem, r))
       else case vp fmt args of (str_len, written_len, txt) \<Rightarrow>
         block [on_output (s2n_stuffer_vprintf str_len written_len txt), on_output (s2n_stuffer_write_uint8 10)] (mem, r))"

definition s2n_security_policy_get_version :: "policy_ptr option \<Rightarrow> string result" where
  "s2n_security_policy_get_version policy =
     (case find (\<lambda>(_, p). Some p = policy) selection_table of
        None \<Rightarrow> Inl (Err S2N_ERR_INVALID_SECURITY_POLICY) | Some (v, _) \<Rightarrow> Inr v)"

abbreviation error_msg_format_name :: string where
  "error_msg_format_name \<equiv> ''%s: policy %s: %s: %s (#%i)''"

abbreviation error_msg_format_basic :: string where
  "error_msg_format_basic \<equiv> ''%s: policy %s: %s: %i''"

text \<open>One loop of \<open>s2n_security_rule_validate_policy\<close>: an item is its verdict and the arguments that end the line.\<close>

definition check_items ::
  "vprint \<Rightarrow> string \<Rightarrow> string \<Rightarrow> string \<Rightarrow> (bool \<times> printf_arg list) list \<Rightarrow> (rule_state, unit) action" where
  "check_items vp rname pname what items =
     block (map (\<lambda>(is_valid, args). s2n_security_rule_result_process vp is_valid error_msg_format_name
       ([Str (Some rname), Str (Some pname), Str (Some what)] @ args)) items)"

definition with_ref :: "'a option \<Rightarrow> ('a \<Rightarrow> (rule_state, unit) action) \<Rightarrow> (rule_state, unit) action" where
  "with_ref x f = (case x of None \<Rightarrow> bail S2N_ERR_NULL | Some y \<Rightarrow> f y)"

definition s2n_security_rule_validate_policy ::
  "bool \<Rightarrow> vprint \<Rightarrow> s2n_security_rule \<Rightarrow> policy_ptr \<Rightarrow> (rule_state, unit) action" where
  "s2n_security_rule_validate_policy evp vp rule ptr =
     (let policy = policy_at evp ptr;
          pname = (case s2n_security_policy_get_version (Some ptr) of Inl _ \<Rightarrow> ''unnamed'' | Inr v \<Rightarrow> v);
          check = check_items vp (rule_name rule) pname
      in block [
        with_ref (sp_cipher_preferences policy) (\<lambda>cp. check ''cipher suite''
          (map (\<lambda>(i, c). (validate_cipher_suite rule (static_suite c), [Str (Some (iana_name (static_suite c))), Num (i + 1)]))
            (List.enumerate 0 (suites cp)))),
        with_ref (sp_signature_preferences policy) (\<lambda>sp. check ''signature scheme''
          (map (\<lambda>s. (validate_sig_scheme rule (signature_scheme s), [Str (Some (sig_iana_name (signature_scheme s)))])) sp)),
        (case sp_certificate_signature_preferences policy of None \<Rightarrow> ret () | Some sp \<Rightarrow> check ''certificate signature scheme''
          (map (\<lambda>s. (validate_cert_sig_scheme rule (signature_scheme s), [Str (Some (sig_iana_name (signature_scheme s)))])) sp)),
        with_ref (sp_ecc_preferences policy) (\<lambda>ep. check ''curve''
          (map (\<lambda>(i, c). (validate_curve rule c, [Str (curve_name (ecc_named_curve evp c)), Num (i + 1)]))
            (List.enumerate 0 ep))),
        with_ref (sp_kem_preferences policy) (\<lambda>kp. check ''kem_group''
          (map (\<lambda>(i, g). (validate_hybrid_group rule g, [Str (Some (group_name (kem_group g))), Num (i + 1)]))
            (List.enumerate 0 (kem_groups_of kp)))),
        s2n_security_rule_result_process vp (validate_version rule (sp_minimum_protocol_version policy)) error_msg_format_basic
          [Str (Some (rule_name rule)), Str (Some pname), Str (Some ''min version''), Num (unat (sp_minimum_protocol_version policy))]])"

definition s2n_security_policy_validate_security_rules ::
  "bool \<Rightarrow> vprint \<Rightarrow> policy_ptr option \<Rightarrow> (rule_state, unit) action" where
  "s2n_security_policy_validate_security_rules evp vp policy =
     with_ref policy (\<lambda>ptr. block (map (\<lambda>rule_id.
       if rule_id \<in> set (rules (policy_at evp ptr))
       then s2n_security_rule_validate_policy evp vp (security_rule_definitions rule_id) ptr else ret ())
       [S2N_PERFECT_FORWARD_SECRECY, S2N_FIPS_140_3]))"

definition s2n_security_rule_result_init_output :: "(rule_state, unit) action" where
  "s2n_security_rule_result_init_output = block [
     on_output (s2n_stuffer_growable_alloc 0),
     modify (\<lambda>(mem, r). (mem, r\<lparr>write_output := True\<rparr>))]"

definition s2n_security_rule_result_free :: "(rule_state, unit) action" where
  "s2n_security_rule_result_free = block [
     on_output s2n_stuffer_free,
     modify (\<lambda>(mem, r). (mem, empty_result))]"


section \<open>What the rules demand\<close>

text \<open>A policy obeys a rule when the rule accepts everything the policy lists.\<close>

definition has_preferences :: "s2n_security_policy \<Rightarrow> bool" where
  "has_preferences p \<longleftrightarrow> sp_cipher_preferences p \<noteq> None \<and> sp_signature_preferences p \<noteq> None \<and>
     sp_ecc_preferences p \<noteq> None \<and> sp_kem_preferences p \<noteq> None"

definition obeys :: "s2n_security_rule \<Rightarrow> s2n_security_policy \<Rightarrow> bool" where
  "obeys rule p \<longleftrightarrow>
     list_all (\<lambda>c. validate_cipher_suite rule (static_suite c)) (suites (the (sp_cipher_preferences p))) \<and>
     list_all (\<lambda>s. validate_sig_scheme rule (signature_scheme s)) (the (sp_signature_preferences p)) \<and>
     (case sp_certificate_signature_preferences p of None \<Rightarrow> True
      | Some sp \<Rightarrow> list_all (\<lambda>s. validate_cert_sig_scheme rule (signature_scheme s)) sp) \<and>
     list_all (validate_curve rule) (the (sp_ecc_preferences p)) \<and>
     list_all (validate_hybrid_group rule) (kem_groups_of (the (sp_kem_preferences p))) \<and>
     validate_version rule (sp_minimum_protocol_version p)"

text \<open>The action that a check without output is: it can only raise the flag.\<close>

definition flags :: "bool \<Rightarrow> (rule_state, unit) action \<Rightarrow> bool" where
  "flags ok m \<longleftrightarrow> (\<forall>mem r. \<not> write_output r \<longrightarrow> m (mem, r) = (Inr (), (mem, r\<lparr>found_error := found_error r \<or> \<not> ok\<rparr>)))"

lemma flagsD: "flags ok m \<Longrightarrow> \<not> write_output r \<Longrightarrow> m (mem, r) = (Inr (), (mem, r\<lparr>found_error := found_error r \<or> \<not> ok\<rparr>))"
  by (simp add: flags_def)

lemma flags_ret: "flags True (ret ())"
  by (simp add: flags_def ret_def)

lemma flags_process: "flags c (s2n_security_rule_result_process vp c fmt args)"
  by (auto simp: flags_def s2n_security_rule_result_process_def Let_def)

lemma flags_Nil: "flags True (block [])"
  by (simp add: flags_def)

lemma flags_Cons: "flags c m \<Longrightarrow> flags d (block ms) \<Longrightarrow> flags (c \<and> d) (block (m # ms))"
  by (auto simp: flags_def disj_assoc)

lemma flags_check_items: "flags (list_all fst items) (check_items vp rn pn what items)"
proof (induction items)
  case Nil
  show ?case by (simp add: check_items_def flags_Nil del: block.simps)
next
  case (Cons x items)
  then show ?case
    using flags_Cons [OF flags_process] by (cases x) (simp add: check_items_def del: block.simps)
qed

lemma list_all_enumerate: "list_all fst (map (\<lambda>(i, c). (P c, h i c)) (List.enumerate n xs)) = list_all P xs"
  by (induction xs arbitrary: n) simp_all

lemma list_all_verdicts: "list_all fst (map (\<lambda>s. (P s, h s)) xs) = list_all P xs"
  by (induction xs) simp_all

lemma with_ref_Some [simp]: "with_ref (Some x) f = f x"
  by (simp add: with_ref_def)

lemma flags_enumerated:
  "flags (list_all P xs) (check_items vp rn pn what (map (\<lambda>(i, c). (P c, h i c)) (List.enumerate 0 xs)))"
  using flags_check_items [of "map (\<lambda>(i, c). (P c, h i c)) (List.enumerate 0 xs)"] by (simp add: list_all_enumerate)

lemma flags_listed: "flags (list_all P xs) (check_items vp rn pn what (map (\<lambda>s. (P s, h s)) xs))"
  using flags_check_items [of "map (\<lambda>s. (P s, h s)) xs"] by (simp add: list_all_verdicts)

lemma flags_optional:
  "flags (case x of None \<Rightarrow> True | Some sp \<Rightarrow> list_all P sp)
     (case x of None \<Rightarrow> ret () | Some sp \<Rightarrow> check_items vp rn pn what (map (\<lambda>s. (P s, h s)) sp))"
  by (cases x) (simp_all add: flags_ret flags_listed)

lemma flags_cong: "flags c m \<Longrightarrow> c = d \<Longrightarrow> flags d m"
  by simp

lemmas flags_rules = flags_Cons flags_Nil flags_process flags_enumerated flags_listed flags_optional

lemma flags_validate_policy:
  assumes "has_preferences (policy_at evp ptr)"
  shows "flags (obeys rule (policy_at evp ptr)) (s2n_security_rule_validate_policy evp vp rule ptr)"
proof -
  obtain cp sp ep kp where prefs: "sp_cipher_preferences (policy_at evp ptr) = Some cp"
      "sp_signature_preferences (policy_at evp ptr) = Some sp" "sp_ecc_preferences (policy_at evp ptr) = Some ep"
      "sp_kem_preferences (policy_at evp ptr) = Some kp"
    using assms by (auto simp: has_preferences_def)
  show ?thesis
    unfolding s2n_security_rule_validate_policy_def Let_def prefs with_ref_Some
    by (rule flags_cong, (rule flags_rules)+) (simp add: obeys_def prefs)
qed

definition obeys_rules :: "s2n_security_policy \<Rightarrow> bool" where
  "obeys_rules p \<longleftrightarrow> list_all (\<lambda>rule_id. obeys (security_rule_definitions rule_id) p) (rules p)"

lemma flags_if: "(P \<Longrightarrow> flags c m) \<Longrightarrow> flags (P \<longrightarrow> c) (if P then m else ret ())"
  by (simp add: flags_ret)

lemma obeys_rules_iff: "obeys_rules p \<longleftrightarrow>
    (S2N_PERFECT_FORWARD_SECRECY \<in> set (rules p) \<longrightarrow> obeys (security_rule_definitions S2N_PERFECT_FORWARD_SECRECY) p) \<and>
    (S2N_FIPS_140_3 \<in> set (rules p) \<longrightarrow> obeys (security_rule_definitions S2N_FIPS_140_3) p)"
proof -
  have all_ids: "(\<forall>i. Q i) \<longleftrightarrow> Q S2N_PERFECT_FORWARD_SECRECY \<and> Q S2N_FIPS_140_3" for Q
    by (rule iffI, blast, rule allI, case_tac i, simp_all)
  show ?thesis
    unfolding obeys_rules_def list_all_iff Ball_def by (rule all_ids)
qed

lemma flags_validate_security_rules:
  assumes "has_preferences (policy_at evp ptr)"
  shows "flags (obeys_rules (policy_at evp ptr)) (s2n_security_policy_validate_security_rules evp vp (Some ptr))"
  unfolding s2n_security_policy_validate_security_rules_def with_ref_Some list.map
  by (rule flags_cong, (rule flags_Cons flags_Nil flags_if flags_validate_policy [OF assms])+)
    (simp only: obeys_rules_iff simp_thms)

text \<open>
  C34. Without output, and for a policy whose lists are present, checking the security rules never fails, and it raises
  the error flag exactly when one of the rules the policy declares rejects a cipher suite, signature scheme,
  certificate signature scheme, curve, hybrid group or the minimum version of the policy.
\<close>

theorem security_rules_checked:
  assumes "has_preferences (policy_at evp ptr)" and "\<not> write_output r"
  shows "s2n_security_policy_validate_security_rules evp vp (Some ptr) (mem, r) =
    (Inr (), (mem, r\<lparr>found_error := found_error r \<or> \<not> obeys_rules (policy_at evp ptr)\<rparr>))"
  by (rule flagsD [OF flags_validate_security_rules [OF assms(1)] assms(2)])

definition weak_policy :: s2n_security_policy where
  "weak_policy = \<lparr>sp_minimum_protocol_version = S2N_TLS12,
     sp_cipher_preferences = Some \<lparr>suites = [s2n_tls13_aes_128_gcm_sha256], allow_chacha20_boosting = False\<rparr>,
     sp_kem_preferences = Some (kem_preferences kem_preferences_null), sp_signature_preferences = Some [s2n_rsa_pkcs1_sha1],
     sp_certificate_signature_preferences = None, sp_ecc_preferences = Some [s2n_ecc_curve_secp256r1],
     sp_certificate_key_preferences = None, certificate_preferences_apply_locally = False, rules = [S2N_FIPS_140_3]\<rparr>"

lemma weak_policy_violates: "\<not> obeys_rules weak_policy"
  by code_simp

lemma weak_policy_has: "has_preferences weak_policy"
  by (simp add: has_preferences_def weak_policy_def)

theorem security_rules_checked_witness:
  "s2n_security_policy_validate_security_rules True (\<lambda>_ _. (0, 0, [])) (Some (Other_policy weak_policy))
      (example_mem Free_no_mlock_impl, empty_result) =
    (Inr (), (example_mem Free_no_mlock_impl, empty_result\<lparr>found_error := True\<rparr>))"
  using security_rules_checked [of True "Other_policy weak_policy" empty_result "\<lambda>_ _. (0, 0, [])" "example_mem Free_no_mlock_impl"]
  by (simp add: weak_policy_has weak_policy_violates empty_result_def)

lemma check_items_valid: "list_all fst items \<Longrightarrow> check_items vp rn pn what items (mem, r) = (Inr (), (mem, r))"
  by (induction items) (auto simp: check_items_def s2n_security_rule_result_process_def)

lemma signature_line_unprintable: "\<not> printable error_msg_format_name [a, b, c, d]"
  by (simp add: printable_def conversions_def)

lemma check_items_unprintable:
  assumes "write_output r" and "\<not> list_all P xs"
  shows "check_items vp rn pn what (map (\<lambda>s. (P s, [Str (Some (h s))])) xs) (mem, r) = (Inl Undefined, (mem, r\<lparr>found_error := True\<rparr>))"
  using assms
  by (induction xs) (auto simp: check_items_def s2n_security_rule_result_process_def Let_def signature_line_unprintable)

text \<open>
  C35. When the violations are to be printed, a policy that a rule rejects only for one of its signature schemes makes
  the check undefined: the line for a signature scheme has five conversions and is given four arguments.
\<close>

theorem signature_violation_undefined:
  assumes "has_preferences (policy_at evp ptr)" and "write_output r"
    and "list_all (\<lambda>c. validate_cipher_suite rule (static_suite c)) (suites (the (sp_cipher_preferences (policy_at evp ptr))))"
    and "\<not> list_all (\<lambda>s. validate_sig_scheme rule (signature_scheme s)) (the (sp_signature_preferences (policy_at evp ptr)))"
  shows "s2n_security_rule_validate_policy evp vp rule ptr (mem, r) = (Inl Undefined, (mem, r\<lparr>found_error := True\<rparr>))"
proof -
  obtain cp sp where prefs: "sp_cipher_preferences (policy_at evp ptr) = Some cp"
      "sp_signature_preferences (policy_at evp ptr) = Some sp"
    using assms(1) by (auto simp: has_preferences_def)
  show ?thesis
    using assms(3) check_items_unprintable [OF assms(2), of "\<lambda>s. validate_sig_scheme rule (signature_scheme s)" sp
        vp "rule_name rule" _ "''signature scheme''" "\<lambda>s. sig_iana_name (signature_scheme s)" mem] assms(4)
    by (simp add: s2n_security_rule_validate_policy_def Let_def prefs check_items_valid list_all_enumerate)
qed

lemma weak_policy_signature:
  "list_all (\<lambda>c. validate_cipher_suite (security_rule_definitions S2N_FIPS_140_3) (static_suite c))
     (suites (the (sp_cipher_preferences weak_policy)))"
  "\<not> list_all (\<lambda>s. validate_sig_scheme (security_rule_definitions S2N_FIPS_140_3) (signature_scheme s))
     (the (sp_signature_preferences weak_policy))"
  by code_simp+

theorem signature_violation_undefined_witness:
  "s2n_security_rule_validate_policy True (\<lambda>_ _. (0, 0, [])) (security_rule_definitions S2N_FIPS_140_3)
     (Other_policy weak_policy) (example_mem Free_no_mlock_impl, empty_result\<lparr>write_output := True\<rparr>) =
   (Inl Undefined, (example_mem Free_no_mlock_impl, empty_result\<lparr>write_output := True, found_error := True\<rparr>))"
  using signature_violation_undefined [of True "Other_policy weak_policy" "empty_result\<lparr>write_output := True\<rparr>"
      "security_rule_definitions S2N_FIPS_140_3"] weak_policy_has weak_policy_signature
  by (simp del: security_rule_definitions.simps)

end
