(* ===== verification/Security_Policies.thy ===== *)
theory Security_Policies
  imports Security_Rules
begin

text \<open>
  The functions of \<open>tls/s2n_security_policies.c\<close> on the table of policies: the lookup of a version, the initialisation,
  which checks every policy and caches what its cipher suites need, and the questions answered from that cache.  A row
  of the table has three bits next to its version and policy.  \<open>strcasecmp\<close> compares the letters of ASCII without case.
\<close>

section \<open>Versions\<close>

definition to_lower :: "char \<Rightarrow> char" where
  "to_lower c = (if 65 \<le> (of_char c :: int) \<and> of_char c \<le> (90 :: int) then char_of ((of_char c :: int) + 32) else c)"

definition same_version :: "string \<Rightarrow> string \<Rightarrow> bool" where
  "same_version a b \<longleftrightarrow> map to_lower a = map to_lower b"

definition s2n_find_security_policy_from_version :: "string option \<Rightarrow> policy_ptr result" where
  "s2n_find_security_policy_from_version version =
     (case version of None \<Rightarrow> Inl (Err S2N_ERR_NULL) | Some v \<Rightarrow>
      case find (\<lambda>(w, _). same_version v w) selection_table of
        Some (_, p) \<Rightarrow> Inr p
      | None \<Rightarrow>
          if list_ex (same_version v) deprecated_security_policies then Inl (Err S2N_ERR_DEPRECATED_SECURITY_POLICY)
          else Inl (Err S2N_ERR_INVALID_SECURITY_POLICY))"


section \<open>Initialisation\<close>

record s2n_security_policy_selection =
  sel_version :: string
  sel_policy :: policy_ptr
  ecc_extension_required :: bool
  pq_kem_extension_required :: bool
  supports_tls13 :: bool

definition security_policy_selection :: "s2n_security_policy_selection list" where
  "security_policy_selection = map (\<lambda>(v, p). \<lparr>sel_version = v, sel_policy = p, ecc_extension_required = False,
     pq_kem_extension_required = False, supports_tls13 = False\<rparr>) selection_table"

definition s2n_is_valid_tls13_cipher :: "bytes \<Rightarrow> bool" where
  "s2n_is_valid_tls13_cipher iana \<longleftrightarrow> iana ! 0 = 0x13 \<and> iana ! 1 \<ge> 0x01 \<and> iana ! 1 \<le> 0x05"

definition s2n_validate_kem_preferences :: "s2n_kem_preferences \<Rightarrow> bool \<Rightarrow> unit result" where
  "s2n_validate_kem_preferences kp pq_required =
     (if (tls13_kem_group_count kp = 0) \<noteq> (tls13_kem_groups kp = None) then Inl (Err S2N_ERR_INVALID_SECURITY_POLICY)
      else if (kem_count kp = 0) \<noteq> (kems kp = None) then Inl (Err S2N_ERR_INVALID_SECURITY_POLICY)
      else if \<not> tls13_kem_group_count kp \<le> 8 then Inl (Err S2N_ERR_ARRAY_INDEX_OOB)
      else if pq_required then
        (if \<not> kem_count kp > 0 then Inl (Err S2N_ERR_INVALID_SECURITY_POLICY)
         else if kems kp = None then Inl (Err S2N_ERR_INVALID_SECURITY_POLICY) else Inr ())
      else
        (if kem_count kp \<noteq> 0 then Inl (Err S2N_ERR_INVALID_SECURITY_POLICY)
         else if kems kp \<noteq> None then Inl (Err S2N_ERR_INVALID_SECURITY_POLICY) else Inr ()))"

abbreviation NUM_RSA_PSS_SCHEMES :: nat where "NUM_RSA_PSS_SCHEMES \<equiv> 6"

definition s2n_validate_certificate_signature_preferences :: "sig_scheme_ref list \<Rightarrow> unit result" where
  "s2n_validate_certificate_signature_preferences sp =
     (let n = length (filter (\<lambda>s. sig_libcrypto_nid (signature_scheme s) = NID_rsassaPss) sp) in
      if n = NUM_RSA_PSS_SCHEMES \<or> n = 0 then Inr () else Inl (Err S2N_ERR_INVALID_SECURITY_POLICY))"

definition init_suite_flags :: "u8 \<Rightarrow> s2n_cipher_suite \<Rightarrow> (s2n_security_policy_selection, unit) action" where
  "init_suite_flags count cipher row =
     (let tls13 = minimum_required_tls_version cipher \<ge> S2N_TLS13;
          row = (if tls13 then row\<lparr>supports_tls13 := True\<rparr> else row)
      in if s2n_is_valid_tls13_cipher (iana_value cipher) \<noteq> tls13 then (Inl (Err S2N_ERR_INVALID_SECURITY_POLICY), row)
         else
           let row = (if s2n_cipher_suite_requires_ecc_extension (Some cipher) then row\<lparr>ecc_extension_required := True\<rparr> else row);
               row = (if s2n_cipher_suite_requires_pq_extension (Some cipher) \<and> count > 0
                      then row\<lparr>pq_kem_extension_required := True\<rparr> else row)
           in (Inr (), row))"

text \<open>One turn of the loop of \<open>s2n_security_policies_init\<close>.\<close>

definition init_row ::
  "bool \<Rightarrow> bool \<Rightarrow> vprint \<Rightarrow> s2n_mem \<Rightarrow> (s2n_security_policy_selection, unit) action" where
  "init_row evp in_unit_test vp mem row =
     (let ptr = sel_policy row; policy = policy_at evp ptr in
      case sp_cipher_preferences policy of None \<Rightarrow> (Inl (Err S2N_ERR_NULL), row) | Some cp \<Rightarrow>
      case sp_kem_preferences policy of None \<Rightarrow> (Inl (Err S2N_ERR_NULL), row) | Some kp \<Rightarrow>
      case sp_ecc_preferences policy of None \<Rightarrow> (Inl (Err S2N_ERR_NULL), row) | Some ep \<Rightarrow>
      block [
        of_result (s2n_check_ecc_preferences_curves_list evp ep),
        of_result (case sp_certificate_signature_preferences policy of None \<Rightarrow> Inr ()
          | Some sp \<Rightarrow> s2n_validate_certificate_signature_preferences sp),
        ensure (ptr \<noteq> Policies_9 security_policy_null \<longrightarrow> ep \<noteq> []) S2N_ERR_INVALID_SECURITY_POLICY,
        block (map (\<lambda>c. init_suite_flags (kem_count kp) (static_suite c)) (suites cp)),
        (\<lambda>row. (s2n_validate_kem_preferences kp (pq_kem_extension_required row), row)),
        (if in_unit_test then ret ()
         else case s2n_security_policy_validate_security_rules evp vp (Some ptr) (mem, empty_result) of
                (Inl e, _) \<Rightarrow> of_result (Inl e)
              | (Inr _, (_, r)) \<Rightarrow> ensure (\<not> found_error r) S2N_ERR_INVALID_SECURITY_POLICY)] row)"

fun init_rows :: "bool \<Rightarrow> bool \<Rightarrow> vprint \<Rightarrow> s2n_mem \<Rightarrow> (s2n_security_policy_selection list, unit) action" where
  "init_rows evp t vp mem [] = (Inr (), [])"
| "init_rows evp t vp mem (row # rest) =
     (case init_row evp t vp mem row of
        (Inl e, row') \<Rightarrow> (Inl e, row' # rest)
      | (Inr _, row') \<Rightarrow> (case init_rows evp t vp mem rest of (r, rest') \<Rightarrow> (r, row' # rest')))"

definition s2n_security_policies_init ::
  "bool \<Rightarrow> bool \<Rightarrow> vprint \<Rightarrow> s2n_mem \<Rightarrow> (s2n_security_policy_selection list, unit) action" where
  "s2n_security_policies_init = init_rows"


section \<open>Questions about a policy\<close>

definition policy_suites :: "s2n_security_policy \<Rightarrow> s2n_cipher_suite list" where
  "policy_suites p = (case sp_cipher_preferences p of None \<Rightarrow> [] | Some cp \<Rightarrow> map static_suite (suites cp))"

definition row_of :: "s2n_security_policy_selection list \<Rightarrow> policy_ptr \<Rightarrow> s2n_security_policy_selection option" where
  "row_of rows p = find (\<lambda>row. sel_policy row = p) rows"

definition s2n_ecc_is_extension_required :: "bool \<Rightarrow> s2n_security_policy_selection list \<Rightarrow> policy_ptr option \<Rightarrow> bool" where
  "s2n_ecc_is_extension_required evp rows policy =
     (case policy of None \<Rightarrow> False | Some p \<Rightarrow>
      case row_of rows p of Some row \<Rightarrow> ecc_extension_required row
      | None \<Rightarrow> list_ex (\<lambda>c. s2n_cipher_suite_requires_ecc_extension (Some c)) (policy_suites (policy_at evp p)))"

definition s2n_pq_kem_is_extension_required :: "bool \<Rightarrow> s2n_security_policy_selection list \<Rightarrow> policy_ptr option \<Rightarrow> bool" where
  "s2n_pq_kem_is_extension_required evp rows policy =
     (case policy of None \<Rightarrow> False | Some p \<Rightarrow>
      case row_of rows p of Some row \<Rightarrow> pq_kem_extension_required row
      | None \<Rightarrow>
          if (case sp_kem_preferences (policy_at evp p) of None \<Rightarrow> False | Some kp \<Rightarrow> kem_count kp = 0) then False
          else list_ex (\<lambda>c. s2n_cipher_suite_requires_pq_extension (Some c)) (policy_suites (policy_at evp p)))"

definition s2n_security_policy_supports_tls13 :: "bool \<Rightarrow> s2n_security_policy_selection list \<Rightarrow> policy_ptr option \<Rightarrow> bool" where
  "s2n_security_policy_supports_tls13 evp rows policy =
     (case policy of None \<Rightarrow> False | Some p \<Rightarrow>
      case row_of rows p of Some row \<Rightarrow> supports_tls13 row
      | None \<Rightarrow> list_ex (\<lambda>c. minimum_required_tls_version c \<ge> S2N_TLS13) (policy_suites (policy_at evp p)))"

end
