(* ===== verification/Suite_Facts.thy ===== *)
theory Suite_Facts
  imports Security_Policies
begin

text \<open>
  What the checks of the security policies find for each cipher suite and signature scheme of the library.  With these
  facts a policy is checked by looking at its lists, not at the structures behind them.
\<close>

definition suite_consistent :: "cipher_suite_ref \<Rightarrow> bool" where
  "suite_consistent c \<longleftrightarrow>
     s2n_is_valid_tls13_cipher (iana_value (static_suite c)) = (minimum_required_tls_version (static_suite c) \<ge> S2N_TLS13)"

text \<open>One pass over the table of suites shows a fact for every suite.\<close>

definition suite_table :: "(cipher_suite_ref \<times> s2n_cipher_suite) list" where
  "suite_table = cipher_suites_1 @ cipher_suites_2 @ cipher_suites_3 @ cipher_suites_4"

lemma suite_table_keys: "map fst suite_table = [
     s2n_null_cipher_suite, s2n_rsa_with_rc4_128_md5, s2n_rsa_with_rc4_128_sha, s2n_rsa_with_3des_ede_cbc_sha,
     s2n_dhe_rsa_with_3des_ede_cbc_sha, s2n_rsa_with_aes_128_cbc_sha, s2n_dhe_rsa_with_aes_128_cbc_sha,
     s2n_rsa_with_aes_256_cbc_sha, s2n_dhe_rsa_with_aes_256_cbc_sha, s2n_rsa_with_aes_128_cbc_sha256,
     s2n_rsa_with_aes_256_cbc_sha256, s2n_dhe_rsa_with_aes_128_cbc_sha256,
     s2n_dhe_rsa_with_aes_256_cbc_sha256, s2n_rsa_with_aes_128_gcm_sha256, s2n_rsa_with_aes_256_gcm_sha384,
     s2n_dhe_rsa_with_aes_128_gcm_sha256, s2n_dhe_rsa_with_aes_256_gcm_sha384,
     s2n_ecdhe_ecdsa_with_aes_128_cbc_sha, s2n_ecdhe_ecdsa_with_aes_256_cbc_sha,
     s2n_ecdhe_rsa_with_rc4_128_sha, s2n_ecdhe_rsa_with_3des_ede_cbc_sha, s2n_ecdhe_rsa_with_aes_128_cbc_sha,
     s2n_ecdhe_rsa_with_aes_256_cbc_sha, s2n_ecdhe_ecdsa_with_aes_128_cbc_sha256,
     s2n_ecdhe_ecdsa_with_aes_256_cbc_sha384, s2n_ecdhe_rsa_with_aes_128_cbc_sha256,
     s2n_ecdhe_rsa_with_aes_256_cbc_sha384, s2n_ecdhe_ecdsa_with_aes_128_gcm_sha256,
     s2n_ecdhe_ecdsa_with_aes_256_gcm_sha384, s2n_ecdhe_rsa_with_aes_128_gcm_sha256,
     s2n_ecdhe_rsa_with_aes_256_gcm_sha384, s2n_ecdhe_rsa_with_chacha20_poly1305_sha256,
     s2n_ecdhe_ecdsa_with_chacha20_poly1305_sha256, s2n_dhe_rsa_with_chacha20_poly1305_sha256,
     s2n_tls13_aes_128_gcm_sha256, s2n_tls13_aes_256_gcm_sha384, s2n_tls13_chacha20_poly1305_sha256]"
  by (simp only: suite_table_def static_suites_defs append.simps list.map fst_conv)

lemma suite_listed: "c \<in> set (map fst suite_table)"
  unfolding suite_table_keys by (cases c) simp_all

lemma static_suiteI:
  assumes "list_all (\<lambda>(r, s). P r s) suite_table"
  shows "P c (static_suite c)"
proof -
  obtain s where s: "map_of suite_table c = Some s"
    using suite_listed [of c] by (cases "map_of suite_table c") (simp_all add: map_of_eq_None_iff)
  then have "(c, s) \<in> set suite_table"
    by (rule map_of_SomeD)
  with assms have "P c s"
    by (auto simp: list_all_iff)
  with s show ?thesis
    by (simp add: static_suite_def suite_table_def)
qed

lemma suite_consistent_all: "suite_consistent c"
  unfolding suite_consistent_def by (rule static_suiteI) code_simp

lemma suite_forward_secret: "s2n_security_rule_validate_forward_secret (static_suite c) \<longleftrightarrow> c \<notin> {s2n_null_cipher_suite,
    s2n_rsa_with_rc4_128_md5, s2n_rsa_with_rc4_128_sha, s2n_rsa_with_3des_ede_cbc_sha, s2n_rsa_with_aes_128_cbc_sha,
    s2n_rsa_with_aes_256_cbc_sha, s2n_rsa_with_aes_128_cbc_sha256, s2n_rsa_with_aes_256_cbc_sha256,
    s2n_rsa_with_aes_128_gcm_sha256, s2n_rsa_with_aes_256_gcm_sha384}"
  by (rule static_suiteI) code_simp

lemma suite_no_pq: "\<not> s2n_cipher_suite_requires_pq_extension (Some (static_suite c))"
  by (rule static_suiteI) code_simp

lemma suite_fips: "s2n_fips_validate_cipher_suite (static_suite c) \<longleftrightarrow> c \<in> set s2n_all_fips_cipher_suites"
  by (rule static_suiteI) code_simp

lemma scheme_fips: "s2n_fips_validate_signature_scheme (signature_scheme s) \<longleftrightarrow>
    s \<notin> {s2n_null_sig_scheme, s2n_rsa_pkcs1_md5_sha1, s2n_rsa_pkcs1_sha1, s2n_ecdsa_sha1}"
  by (cases s) (simp_all add: s2n_fips_validate_signature_scheme_def s2n_fips_validate_hash_algorithm_def fips_hash_algs_def)

end
