(* ===== verification/Policy_Init.thy ===== *)
theory Policy_Init
  imports Suite_Facts
begin

text \<open>
  The initialisation of the security policies: \<open>s2n_security_policies_init\<close> accepts every policy of the table, in every
  build, and the bits it caches are those the contents of the policies give.
\<close>

section \<open>The table after initialisation\<close>

text \<open>What a row caches: what the contents of its policy say.\<close>

definition needs_ecc :: "s2n_security_policy \<Rightarrow> bool" where
  "needs_ecc p = list_ex (\<lambda>c. s2n_cipher_suite_requires_ecc_extension (Some c)) (policy_suites p)"

definition needs_pq :: "s2n_security_policy \<Rightarrow> bool" where
  "needs_pq p \<longleftrightarrow> list_ex (\<lambda>c. s2n_cipher_suite_requires_pq_extension (Some c)) (policy_suites p) \<and>
     (case sp_kem_preferences p of None \<Rightarrow> True | Some kp \<Rightarrow> kem_count kp > 0)"

definition has_tls13 :: "s2n_security_policy \<Rightarrow> bool" where
  "has_tls13 p = list_ex (\<lambda>c. minimum_required_tls_version c \<ge> S2N_TLS13) (policy_suites p)"

definition cached :: "bool \<Rightarrow> s2n_security_policy_selection \<Rightarrow> s2n_security_policy_selection" where
  "cached evp row = (let p = policy_at evp (sel_policy row) in
     row\<lparr>ecc_extension_required := ecc_extension_required row \<or> needs_ecc p,
       pq_kem_extension_required := pq_kem_extension_required row \<or> needs_pq p,
       supports_tls13 := supports_tls13 row \<or> has_tls13 p\<rparr>)"

definition policy_ok :: "bool \<Rightarrow> policy_ptr \<Rightarrow> bool" where
  "policy_ok evp ptr \<longleftrightarrow> (let p = policy_at evp ptr in
     has_preferences p \<and>
     s2n_check_ecc_preferences_curves_list evp (the (sp_ecc_preferences p)) = Inr () \<and>
     (case sp_certificate_signature_preferences p of None \<Rightarrow> True
      | Some sp \<Rightarrow> s2n_validate_certificate_signature_preferences sp = Inr ()) \<and>
     (ptr \<noteq> Policies_9 security_policy_null \<longrightarrow> the (sp_ecc_preferences p) \<noteq> []) \<and>
     list_all suite_consistent (suites (the (sp_cipher_preferences p))) \<and>
     s2n_validate_kem_preferences (the (sp_kem_preferences p)) (needs_pq p) = Inr () \<and>
     obeys_rules p)"

lemma init_suites_flags:
  assumes "list_all suite_consistent cs"
  shows "block (map (\<lambda>c. init_suite_flags n (static_suite c)) cs) row = (Inr (),
    row\<lparr>ecc_extension_required := ecc_extension_required row \<or>
          list_ex (\<lambda>c. s2n_cipher_suite_requires_ecc_extension (Some (static_suite c))) cs,
        pq_kem_extension_required := pq_kem_extension_required row \<or>
          (list_ex (\<lambda>c. s2n_cipher_suite_requires_pq_extension (Some (static_suite c))) cs \<and> n > 0),
        supports_tls13 := supports_tls13 row \<or>
          list_ex (\<lambda>c. minimum_required_tls_version (static_suite c) \<ge> S2N_TLS13) cs\<rparr>)"
  using assms
proof (induction cs arbitrary: row)
  case Nil
  show ?case by simp
next
  case (Cons c cs)
  have step: "init_suite_flags n (static_suite c) row = (Inr (),
    row\<lparr>ecc_extension_required := ecc_extension_required row \<or> s2n_cipher_suite_requires_ecc_extension (Some (static_suite c)),
        pq_kem_extension_required := pq_kem_extension_required row \<or>
          (s2n_cipher_suite_requires_pq_extension (Some (static_suite c)) \<and> n > 0),
        supports_tls13 := supports_tls13 row \<or> minimum_required_tls_version (static_suite c) \<ge> S2N_TLS13\<rparr>)"
    using Cons.prems by (cases row) (auto simp: init_suite_flags_def Let_def suite_consistent_def)
  show ?case
    using Cons.prems by (simp add: step Cons.IH disj_assoc conj_disj_distribR)
qed

lemma empty_result_flag: "\<not> found_error empty_result"
  by (simp add: empty_result_def)

lemma init_row_cached:
  assumes ok: "policy_ok evp (sel_policy row)" and "\<not> pq_kem_extension_required row"
  shows "init_row evp t vp mem row = (Inr (), cached evp row)"
proof -
  let ?p = "policy_at evp (sel_policy row)"
  have has: "has_preferences ?p"
    using ok by (simp add: policy_ok_def Let_def)
  then obtain cp kp ep where prefs: "sp_cipher_preferences ?p = Some cp" "sp_kem_preferences ?p = Some kp"
      "sp_ecc_preferences ?p = Some ep"
    by (auto simp: has_preferences_def)
  have rules: "s2n_security_policy_validate_security_rules evp vp (Some (sel_policy row)) (mem, empty_result) =
      (Inr (), (mem, empty_result))"
    using flagsD [OF flags_validate_security_rules [OF has], of empty_result vp mem] ok
    by (simp add: policy_ok_def Let_def empty_result_def)
  have certs: "(case sp_certificate_signature_preferences ?p of None \<Rightarrow> Inr ()
      | Some sp \<Rightarrow> s2n_validate_certificate_signature_preferences sp) = Inr ()"
    using ok by (auto simp: policy_ok_def Let_def split: option.splits)
  have suites: "list_all suite_consistent (suites cp)"
    using ok by (simp add: policy_ok_def Let_def prefs)
  have needs: "needs_ecc ?p = list_ex (\<lambda>c. s2n_cipher_suite_requires_ecc_extension (Some (static_suite c))) (suites cp)"
      "needs_pq ?p \<longleftrightarrow> list_ex (\<lambda>c. s2n_cipher_suite_requires_pq_extension (Some (static_suite c))) (suites cp) \<and> kem_count kp > 0"
      "has_tls13 ?p = list_ex (\<lambda>c. minimum_required_tls_version (static_suite c) \<ge> S2N_TLS13) (suites cp)"
    by (simp_all add: needs_ecc_def needs_pq_def has_tls13_def policy_suites_def prefs list_ex_iff)
  show ?thesis
    using ok assms(2)
    by (simp add: init_row_def Let_def prefs certs rules init_suites_flags [OF suites] action_simps policy_ok_def
        cached_def needs empty_result_flag)
qed

lemma init_rows_cached:
  assumes "list_all (\<lambda>row. policy_ok evp (sel_policy row) \<and> \<not> pq_kem_extension_required row) rows"
  shows "init_rows evp t vp mem rows = (Inr (), map (cached evp) rows)"
  using assms by (induction rows) (simp_all add: init_row_cached)

section \<open>Every policy of the table is accepted\<close>

lemma needs_pq_none: "\<not> needs_pq p"
  by (auto simp: needs_pq_def policy_suites_def list_ex_iff suite_no_pq split: option.splits)

lemma consistent_suites: "list_all suite_consistent cs"
  by (simp add: list_all_iff suite_consistent_all)

lemma curves_supported:
  "s2n_check_ecc_preferences_curves_list evp (ecc_preferences evp r) = Inr ()"
  by (cases r; cases evp) (simp_all add: s2n_check_ecc_preferences_curves_list_def curve_supported_def
      s2n_all_supported_curves_list_def if_evp_def)

lemma kem_preferences_valid: "s2n_validate_kem_preferences (kem_preferences r) False = Inr ()"
  by (cases r) (simp_all add: s2n_validate_kem_preferences_def tls13_only_def pq_kem_groups_r3_2021_05_def
      pq_kem_groups_r3_2023_06_def pq_kem_groups_r3_2023_12_def pq_kem_groups_ietf_2024_10_def
      pq_kem_groups_mixed_2024_10_def ALL_SUPPORTED_KEM_GROUPS_def)

lemma ecc_preferences_some: "ecc_preferences evp r \<noteq> [] \<longleftrightarrow> r \<noteq> s2n_ecc_preferences_null"
  by (cases r) simp_all

lemma curves_fips: "list_all s2n_fips_validate_curve (ecc_preferences evp r) \<longleftrightarrow> \<not> evp \<or>
    r \<in> {s2n_ecc_preferences_20140601, s2n_ecc_preferences_default_fips, s2n_ecc_preferences_20201021,
      s2n_ecc_preferences_20210816, s2n_ecc_preferences_null}"
  by (cases r; cases evp) (simp_all add: s2n_fips_validate_curve_def fips_curves_def if_evp_def)

lemma groups_fips: "list_all s2n_fips_validate_hybrid_group (kem_groups_of (kem_preferences r)) \<longleftrightarrow>
    r \<in> {kem_preferences_pq_tls_1_3_2023_12, kem_preferences_pq_tls_1_3_ietf_2024_10, kem_preferences_null}"
  by (cases r) (simp_all add: kem_groups_of_def tls13_only_def pq_kem_groups_r3_2021_05_def
      pq_kem_groups_r3_2023_06_def pq_kem_groups_r3_2023_12_def pq_kem_groups_ietf_2024_10_def
      pq_kem_groups_mixed_2024_10_def ALL_SUPPORTED_KEM_GROUPS_def s2n_fips_validate_hybrid_group_def
      s2n_fips_validate_kem_def fips_kems_def s2n_fips_validate_curve_def fips_curves_def)

lemma scheme_pss: "sig_libcrypto_nid (signature_scheme s) = NID_rsassaPss \<longleftrightarrow>
    s \<in> {s2n_rsa_pss_rsae_sha256, s2n_rsa_pss_rsae_sha384, s2n_rsa_pss_rsae_sha512,
      s2n_rsa_pss_pss_sha256, s2n_rsa_pss_pss_sha384, s2n_rsa_pss_pss_sha512}"
  by (cases s) simp_all

lemma list_all_True: "list_all (\<lambda>_. True) xs"
  by (simp add: list_all_iff)

lemmas policy_check_simps = policy_ok_def Let_def has_preferences_def consistent_suites needs_pq_none curves_supported
  kem_preferences_valid ecc_preferences_some obeys_rules_def obeys_def suite_forward_secret suite_fips scheme_fips
  curves_fips groups_fips scheme_pss list_all_True s2n_fips_validate_version_def
  s2n_validate_certificate_signature_preferences_def s2n_all_fips_cipher_suites_def s2n_all_ecdsa_cipher_suites_def
  s2n_all_tls13_cipher_suites_def S2N_TLS13_CIPHER_SUITES_20190801_def S2N_TLS13_CLOUDFRONT_CIPHER_SUITES_20200716_def

lemmas contents = ecc_preferences.simps kem_preferences.simps signature_scheme.simps

lemma policies_1_ok: "policy_ok evp (Policies_1 r)"
  by (cases r) (simp_all add: policy_check_simps del: contents)

lemma policies_2_ok: "policy_ok evp (Policies_2 r)"
  by (cases r) (simp_all add: policy_check_simps del: contents)

lemma policies_3_ok: "policy_ok evp (Policies_3 r)"
  by (cases r) (simp_all add: policy_check_simps del: contents)

lemma policies_4_ok: "policy_ok evp (Policies_4 r)"
  by (cases r) (simp_all add: policy_check_simps del: contents)

lemma policies_5_ok: "policy_ok evp (Policies_5 r)"
  by (cases r) (simp_all add: policy_check_simps del: contents)

lemma policies_6_ok: "policy_ok evp (Policies_6 r)"
  by (cases r) (simp_all add: policy_check_simps del: contents)

lemma policies_7_ok: "policy_ok evp (Policies_7 r)"
  by (cases r) (simp_all add: policy_check_simps del: contents)

lemma policies_8_ok: "policy_ok evp (Policies_8 r)"
  by (cases r) (simp_all add: policy_check_simps del: contents)

lemma policies_9_ok: "policy_ok evp (Policies_9 r)"
  by (cases r) (simp_all add: policy_check_simps del: contents)

lemma selection_policies_ok: "list_all (\<lambda>(_, p). policy_ok evp p) selection_table"
  by (simp add: selection_table_def policies_1_ok policies_2_ok policies_3_ok policies_4_ok policies_5_ok policies_6_ok
      policies_7_ok policies_8_ok policies_9_ok)

lemma init_table:
  "s2n_security_policies_init evp t vp mem security_policy_selection = (Inr (), map (cached evp) security_policy_selection)"
  unfolding s2n_security_policies_init_def
  by (rule init_rows_cached)
    (use selection_policies_ok [of evp] in \<open>auto simp: security_policy_selection_def list_all_iff\<close>)

lemma row_of_cached:
  "row_of (map (cached evp) rows) p = map_option (cached evp) (row_of rows p)"
  by (induction rows) (simp_all add: row_of_def cached_def Let_def)

lemma row_of_selection:
  assumes "row_of security_policy_selection p = Some row"
  shows "sel_policy row = p" and "\<not> ecc_extension_required row" and "\<not> pq_kem_extension_required row" and "\<not> supports_tls13 row"
  using assms unfolding row_of_def find_Some_iff
  by (auto simp: security_policy_selection_def split: prod.splits)

text \<open>
  C31. Initialising the security policies succeeds in every build, with and without x25519 and in and out of unit
  tests: every policy of the table passes every check, its security rules included.  Afterwards the questions whether
  a policy needs the elliptic curve extension, needs the post-quantum extension and supports TLS 1.3 are answered from
  the bits of the table as its cipher suites demand, for policies of the table and for all others.
\<close>

theorem security_policies_init_correct:
  "\<exists>rows. s2n_security_policies_init evp in_unit_test vp mem security_policy_selection = (Inr (), rows) \<and>
    (\<forall>p. s2n_ecc_is_extension_required evp rows (Some p) = needs_ecc (policy_at evp p)) \<and>
    (\<forall>p. s2n_pq_kem_is_extension_required evp rows (Some p) = needs_pq (policy_at evp p)) \<and>
    (\<forall>p. s2n_security_policy_supports_tls13 evp rows (Some p) = has_tls13 (policy_at evp p))"
proof (intro exI conjI allI)
  show "s2n_security_policies_init evp in_unit_test vp mem security_policy_selection =
      (Inr (), map (cached evp) security_policy_selection)"
    by (rule init_table)
  fix p
  show "s2n_ecc_is_extension_required evp (map (cached evp) security_policy_selection) (Some p) = needs_ecc (policy_at evp p)"
    "s2n_pq_kem_is_extension_required evp (map (cached evp) security_policy_selection) (Some p) = needs_pq (policy_at evp p)"
    "s2n_security_policy_supports_tls13 evp (map (cached evp) security_policy_selection) (Some p) = has_tls13 (policy_at evp p)"
    by (cases "row_of security_policy_selection p";
        auto simp: s2n_ecc_is_extension_required_def s2n_pq_kem_is_extension_required_def
          s2n_security_policy_supports_tls13_def row_of_cached row_of_selection cached_def Let_def
          needs_ecc_def needs_pq_def has_tls13_def word_gt_0 split: option.splits)+
qed

end
