(* ===== verification/Policy_Selection.thy ===== *)
theory Policy_Selection
  imports Security_Policies
begin

text \<open>
  The choice of a security policy for a configuration or a connection (\<open>tls/s2n_security_policies.c\<close>,
  \<open>tls/s2n_config.c\<close>) and the preferences a connection works with (\<open>tls/s2n_connection.c\<close>).

  \<open>policy_config\<close> and \<open>policy_connection\<close> are the fields of \<open>s2n_config\<close> and \<open>s2n_connection\<close> these functions use.
  A certificate chain is the list of its certificates, \<open>None\<close> when the pointer to it is \<open>NULL\<close>.  The certificates of the domain map are listed in the order its iterator yields them, with the flag that
  makes the map readable.  Whether the library supports TLS 1.3 in full is the parameter \<open>tls13\<close>.
\<close>

section \<open>Certificates\<close>

record s2n_cert_info =
  signature_nid :: nid
  signature_digest_nid :: nid
  public_key_nid :: nid
  public_key_bits :: int
  self_signed :: bool

datatype s2n_pkey_type = S2N_PKEY_TYPE_UNKNOWN | S2N_PKEY_TYPE_RSA | S2N_PKEY_TYPE_ECDSA | S2N_PKEY_TYPE_RSA_PSS |
  S2N_PKEY_TYPE_SENTINEL

record s2n_cert =
  pkey_type :: s2n_pkey_type
  info :: s2n_cert_info

text \<open>Of a chain and its key: the certificates from \<open>head\<close> on and whether there is a private key.\<close>

record s2n_cert_chain_and_key =
  cert_chain :: "s2n_cert list option"
  private_key :: bool

definition s2n_security_policy_validate_cert_signature :: "s2n_security_policy \<Rightarrow> s2n_cert_info \<Rightarrow> s2n_error \<Rightarrow> unit result" where
  "s2n_security_policy_validate_cert_signature policy i error =
     (case sp_certificate_signature_preferences policy of None \<Rightarrow> Inr () | Some sp \<Rightarrow>
      if list_ex (\<lambda>s. sig_libcrypto_nid (signature_scheme s) = signature_nid i) sp then Inr () else Inl (Err error))"

definition s2n_security_policy_validate_cert_key :: "s2n_security_policy \<Rightarrow> s2n_cert_info \<Rightarrow> s2n_error \<Rightarrow> unit result" where
  "s2n_security_policy_validate_cert_key policy i error =
     (case sp_certificate_key_preferences policy of None \<Rightarrow> Inr () | Some ks \<Rightarrow>
      if list_ex (\<lambda>k. public_key_libcrypto_nid (certificate_key k) = public_key_nid i \<and>
           uint (key_bits (certificate_key k)) = public_key_bits i) ks
      then Inr () else Inl (Err error))"

fun validate_certs :: "s2n_security_policy \<Rightarrow> s2n_cert list \<Rightarrow> unit result" where
  "validate_certs policy [] = Inr ()"
| "validate_certs policy (current # rest) =
     (case s2n_security_policy_validate_cert_key policy (info current) S2N_ERR_SECURITY_POLICY_INCOMPATIBLE_CERT of Inl e \<Rightarrow> Inl e | Inr _ \<Rightarrow>
      case s2n_security_policy_validate_cert_signature policy (info current) S2N_ERR_SECURITY_POLICY_INCOMPATIBLE_CERT of Inl e \<Rightarrow> Inl e
      | Inr _ \<Rightarrow> validate_certs policy rest)"

definition s2n_security_policy_validate_certificate_chain :: "s2n_security_policy \<Rightarrow> s2n_cert_chain_and_key \<Rightarrow> unit result" where
  "s2n_security_policy_validate_certificate_chain policy cert_key_pair =
     (case cert_chain cert_key_pair of None \<Rightarrow> Inl (Err S2N_ERR_NULL) | Some certs \<Rightarrow>
      if \<not> certificate_preferences_apply_locally policy then Inr () else validate_certs policy certs)"


section \<open>Configurations and connections\<close>

text \<open>The certificates of one name, one for each of the three key types, \<open>None\<close> where none is set.\<close>

type_synonym certs_by_type = "s2n_cert_chain_and_key option list"

record policy_config =
  config_security_policy :: "policy_ptr option"
  default_certs_by_type :: certs_by_type
  domain_name_to_cert_map :: "(bool \<times> certs_by_type list) option"

record policy_connection =
  conn_config :: "policy_config option"
  security_policy_override :: "policy_ptr option"

fun validate_by_type :: "s2n_security_policy \<Rightarrow> certs_by_type \<Rightarrow> unit result" where
  "validate_by_type policy [] = Inr ()"
| "validate_by_type policy (None # rest) = validate_by_type policy rest"
| "validate_by_type policy (Some cert # rest) =
     (case s2n_security_policy_validate_certificate_chain policy cert of Inl e \<Rightarrow> Inl e
      | Inr _ \<Rightarrow> validate_by_type policy rest)"

definition s2n_config_validate_loaded_certificates :: "policy_config option \<Rightarrow> s2n_security_policy \<Rightarrow> unit result" where
  "s2n_config_validate_loaded_certificates config policy =
     (case config of None \<Rightarrow> Inl (Err S2N_ERR_NULL) | Some cfg \<Rightarrow>
      if sp_certificate_key_preferences policy = None \<and> sp_certificate_signature_preferences policy = None then Inr ()
      else if \<not> certificate_preferences_apply_locally policy then Inr ()
      else case validate_by_type policy (default_certs_by_type cfg) of Inl e \<Rightarrow> Inl e | Inr _ \<Rightarrow>
        (case domain_name_to_cert_map cfg of None \<Rightarrow> Inr () | Some (immutable, certs) \<Rightarrow>
           if \<not> immutable then Inl (Err S2N_ERR_MAP_MUTABLE)
           else validate_by_type policy (concat certs)))"

definition s2n_get_highest_fully_supported_tls_version :: "bool \<Rightarrow> u8" where
  "s2n_get_highest_fully_supported_tls_version tls13 = (if tls13 then S2N_TLS13 else S2N_TLS12)"

text \<open>What both setters check before they store a policy.\<close>

definition acceptable_policy :: "bool \<Rightarrow> bool \<Rightarrow> policy_config option \<Rightarrow> string option \<Rightarrow> policy_ptr result" where
  "acceptable_policy evp tls13 config version =
     (case s2n_find_security_policy_from_version version of Inl e \<Rightarrow> Inl e | Inr ptr \<Rightarrow>
      let policy = policy_at evp ptr in
      if \<not> has_preferences policy then Inl (Err S2N_ERR_NULL)
      else if \<not> sp_minimum_protocol_version policy \<le> s2n_get_highest_fully_supported_tls_version tls13
        then Inl (Err S2N_ERR_PROTOCOL_VERSION_UNSUPPORTED)
      else case s2n_config_validate_loaded_certificates config policy of Inl e \<Rightarrow> Inl e | Inr _ \<Rightarrow> Inr ptr)"

definition s2n_config_set_cipher_preferences :: "bool \<Rightarrow> bool \<Rightarrow> string option \<Rightarrow> (policy_config, unit) action" where
  "s2n_config_set_cipher_preferences evp tls13 version config =
     (case acceptable_policy evp tls13 (Some config) version of Inl e \<Rightarrow> (Inl e, config)
      | Inr ptr \<Rightarrow> (Inr (), config\<lparr>config_security_policy := Some ptr\<rparr>))"

definition s2n_connection_set_cipher_preferences :: "bool \<Rightarrow> bool \<Rightarrow> string option \<Rightarrow> (policy_connection, unit) action" where
  "s2n_connection_set_cipher_preferences evp tls13 version conn =
     (case acceptable_policy evp tls13 (conn_config conn) version of Inl e \<Rightarrow> (Inl e, conn)
      | Inr ptr \<Rightarrow> (Inr (), conn\<lparr>security_policy_override := Some ptr\<rparr>))"

text \<open>The preferences a connection uses: its own policy, or else that of its configuration.\<close>

definition effective_policy :: "policy_connection \<Rightarrow> s2n_error \<Rightarrow> policy_ptr result" where
  "effective_policy conn error =
     (case conn_config conn of None \<Rightarrow> Inl (Err S2N_ERR_NULL) | Some cfg \<Rightarrow>
      case security_policy_override conn of Some p \<Rightarrow> Inr p
      | None \<Rightarrow> (case config_security_policy cfg of Some p \<Rightarrow> Inr p | None \<Rightarrow> Inl (Err error)))"

definition preference :: "bool \<Rightarrow> (s2n_security_policy \<Rightarrow> 'p option) \<Rightarrow> s2n_error \<Rightarrow> policy_connection \<Rightarrow> 'p result" where
  "preference evp field error conn =
     (case effective_policy conn error of Inl e \<Rightarrow> Inl e | Inr p \<Rightarrow>
      case field (policy_at evp p) of None \<Rightarrow> Inl (Err S2N_ERR_NULL) | Some x \<Rightarrow> Inr x)"

definition s2n_connection_get_security_policy :: "policy_connection \<Rightarrow> policy_ptr result" where
  "s2n_connection_get_security_policy conn = effective_policy conn S2N_ERR_INVALID_SECURITY_POLICY"

definition s2n_connection_get_cipher_preferences :: "bool \<Rightarrow> policy_connection \<Rightarrow> s2n_cipher_preferences result" where
  "s2n_connection_get_cipher_preferences evp = preference evp sp_cipher_preferences S2N_ERR_INVALID_CIPHER_PREFERENCES"

definition s2n_connection_get_kem_preferences :: "bool \<Rightarrow> policy_connection \<Rightarrow> s2n_kem_preferences result" where
  "s2n_connection_get_kem_preferences evp = preference evp sp_kem_preferences S2N_ERR_INVALID_KEM_PREFERENCES"

definition s2n_connection_get_signature_preferences :: "bool \<Rightarrow> policy_connection \<Rightarrow> sig_scheme_ref list result" where
  "s2n_connection_get_signature_preferences evp =
     preference evp sp_signature_preferences S2N_ERR_INVALID_SIGNATURE_ALGORITHMS_PREFERENCES"

definition s2n_connection_get_ecc_preferences :: "bool \<Rightarrow> policy_connection \<Rightarrow> curve_ref list result" where
  "s2n_connection_get_ecc_preferences evp = preference evp sp_ecc_preferences S2N_ERR_INVALID_ECC_PREFERENCES"


section \<open>Finding a version\<close>

text \<open>No two versions, withdrawn ones included, are the same up to case: already a hash of them differs.\<close>

definition version_hash :: "string \<Rightarrow> int" where
  "version_hash v = fold (\<lambda>c a. (a * 31 + of_char c) mod 65521) (map to_lower v) 0"

lemma version_hash_same: "same_version a b \<Longrightarrow> version_hash a = version_hash b"
  by (simp add: same_version_def version_hash_def)

lemma hashes_distinct: "distinct (map version_hash (map fst selection_table @ deprecated_security_policies))"
  by code_simp

lemma versions_distinct:
  assumes "a \<in> set (map fst selection_table @ deprecated_security_policies)"
    and "b \<in> set (map fst selection_table @ deprecated_security_policies)" and "same_version u a" and "same_version u b"
  shows "a = b"
proof -
  have "version_hash a = version_hash b"
    using assms(3,4) by (simp add: version_hash_same [symmetric])
  with hashes_distinct assms(1,2) show ?thesis
    by (simp only: distinct_map inj_on_def)
qed

lemma table_versions_distinct: "distinct (map fst selection_table)"
  using hashes_distinct by (simp only: distinct_map map_append distinct_append)

lemma deprecated_not_listed:
  assumes "(v, p) \<in> set selection_table" and "d \<in> set deprecated_security_policies"
  shows "\<not> (same_version u v \<and> same_version u d)"
proof
  assume same: "same_version u v \<and> same_version u d"
  have "v \<in> set (map fst selection_table)"
    using assms(1) by force
  with same assms(2) have "v = d"
    using versions_distinct [of v d u] by simp
  moreover have "set (map fst selection_table) \<inter> set deprecated_security_policies = {}"
    using hashes_distinct by (simp only: distinct_map distinct_append)
  ultimately show False
    using \<open>v \<in> set (map fst selection_table)\<close> assms(2) by blast
qed

lemma find_SomeE:
  assumes "find P xs = Some x"
  obtains "x \<in> set xs" and "P x"
  using assms by (auto simp: find_Some_iff)

definition listed :: "string \<Rightarrow> policy_ptr \<Rightarrow> bool" where
  "listed u p \<longleftrightarrow> (\<exists>v. (v, p) \<in> set selection_table \<and> same_version u v)"

lemma listed_unique:
  assumes "listed u p" and "listed u q"
  shows "p = q"
proof -
  obtain v w where vw: "(v, p) \<in> set selection_table" "same_version u v" "(w, q) \<in> set selection_table" "same_version u w"
    using assms by (auto simp: listed_def)
  then have "v \<in> set (map fst selection_table)" "w \<in> set (map fst selection_table)"
    by force+
  with vw have "v = w"
    using versions_distinct [of v w u] by simp
  with vw show ?thesis
    using eq_key_imp_eq_value [OF table_versions_distinct, of v p q] by simp
qed

lemma find_version:
  "(\<exists>p. listed u p \<and> s2n_find_security_policy_from_version (Some u) = Inr p) \<or>
   ((\<forall>p. \<not> listed u p) \<and> s2n_find_security_policy_from_version (Some u) =
      Inl (Err (if list_ex (same_version u) deprecated_security_policies then S2N_ERR_DEPRECATED_SECURITY_POLICY
         else S2N_ERR_INVALID_SECURITY_POLICY)))"
proof (cases "find (\<lambda>(w, _). same_version u w) selection_table")
  case None
  have "\<not> listed u p" for p
    using None unfolding find_None_iff listed_def by auto
  with None show ?thesis
    by (simp add: s2n_find_security_policy_from_version_def)
next
  case (Some e)
  obtain w q where e: "e = (w, q)" by (cases e)
  have "listed u q"
    using Some by (rule find_SomeE) (auto simp: listed_def e)
  with Some show ?thesis
    by (simp add: s2n_find_security_policy_from_version_def e)
qed

lemma find_listed: "s2n_find_security_policy_from_version (Some u) = Inr p \<longleftrightarrow> listed u p"
  using find_version [of u] listed_unique [of u] by auto

lemma listed_not_deprecated: "listed u p \<Longrightarrow> \<not> list_ex (same_version u) deprecated_security_policies"
  unfolding listed_def list_ex_iff using deprecated_not_listed by blast

lemma find_deprecated: "s2n_find_security_policy_from_version (Some u) = Inl (Err S2N_ERR_DEPRECATED_SECURITY_POLICY) \<longleftrightarrow>
    list_ex (same_version u) deprecated_security_policies"
  using find_version [of u] listed_not_deprecated [of u] by (auto split: if_splits)

lemma get_version_listed:
  assumes "s2n_security_policy_get_version (Some p) = Inr v"
  shows "listed v p"
proof (cases "find (\<lambda>(_, q). Some q = Some p) selection_table")
  case None
  with assms show ?thesis
    by (simp add: s2n_security_policy_get_version_def)
next
  case (Some e)
  obtain w q where e: "e = (w, q)" by (cases e)
  have "(w, p) \<in> set selection_table"
    using Some by (rule find_SomeE) (simp add: e)
  with assms Some show ?thesis
    by (auto simp: s2n_security_policy_get_version_def e listed_def same_version_def)
qed

text \<open>
  C33. Looking up a version finds the policy of the one row of the table with that name, whatever the case of its
  letters; the error for withdrawn versions is given exactly for the names that were withdrawn; and the version that is
  reported for a policy is looked up to that policy.
\<close>

theorem policy_version_lookup:
  "(s2n_find_security_policy_from_version (Some u) = Inr p \<longleftrightarrow>
     (\<exists>v. (v, p) \<in> set selection_table \<and> same_version u v)) \<and>
   (s2n_find_security_policy_from_version (Some u) = Inl (Err S2N_ERR_DEPRECATED_SECURITY_POLICY) \<longleftrightarrow>
     list_ex (same_version u) deprecated_security_policies) \<and>
   (s2n_security_policy_get_version (Some p) = Inr v \<longrightarrow> s2n_find_security_policy_from_version (Some v) = Inr p)"
  by (simp add: find_listed listed_def [symmetric] find_deprecated get_version_listed)

theorem policy_version_lookup_witness:
  "s2n_security_policy_get_version (Some (Policies_1 security_policy_20240501)) = Inr ''default'' \<and>
   s2n_find_security_policy_from_version (Some ''default'') = Inr (Policies_1 security_policy_20240501) \<and>
   s2n_find_security_policy_from_version (Some ''pq-tls-1-0-2020-12'') = Inl (Err S2N_ERR_DEPRECATED_SECURITY_POLICY)"
proof -
  have "s2n_security_policy_get_version (Some (Policies_1 security_policy_20240501)) = Inr ''default''"
    by (simp add: s2n_security_policy_get_version_def selection_table_def)
  moreover have "list_ex (same_version ''pq-tls-1-0-2020-12'') deprecated_security_policies"
    by code_simp
  ultimately show ?thesis
    using policy_version_lookup [of "''default''" "Policies_1 security_policy_20240501" "''default''"]
      policy_version_lookup [of "''pq-tls-1-0-2020-12''"] by simp
qed


section \<open>Setting a policy\<close>

definition conforms :: "s2n_security_policy \<Rightarrow> s2n_cert_info \<Rightarrow> bool" where
  "conforms policy i \<longleftrightarrow>
     (\<forall>ks. sp_certificate_key_preferences policy = Some ks \<longrightarrow>
        (\<exists>k\<in>set ks. public_key_libcrypto_nid (certificate_key k) = public_key_nid i \<and>
           uint (key_bits (certificate_key k)) = public_key_bits i)) \<and>
     (\<forall>sp. sp_certificate_signature_preferences policy = Some sp \<longrightarrow>
        (\<exists>s\<in>set sp. sig_libcrypto_nid (signature_scheme s) = signature_nid i))"

text \<open>The certificates a configuration has loaded.\<close>

definition loaded :: "policy_config \<Rightarrow> s2n_cert_info set" where
  "loaded cfg = {info cert | cert pair certs. Some pair \<in> set (default_certs_by_type cfg @
     (case domain_name_to_cert_map cfg of None \<Rightarrow> [] | Some (_, m) \<Rightarrow> concat m)) \<and>
     cert_chain pair = Some certs \<and> cert \<in> set certs}"

lemma validate_certs_conforms: "validate_certs policy certs = Inr () \<longleftrightarrow> (\<forall>cert\<in>set certs. conforms policy (info cert))"
  by (induction certs)
    (auto simp: conforms_def s2n_security_policy_validate_cert_key_def s2n_security_policy_validate_cert_signature_def
      list_ex_iff split: option.splits if_splits)

lemma validate_by_type_conforms:
  assumes "certificate_preferences_apply_locally policy" and "validate_by_type policy cs = Inr ()"
    and "Some pair \<in> set cs" and "cert_chain pair = Some certs" and "cert \<in> set certs"
  shows "conforms policy (info cert)"
  using assms(2,3)
proof (induction cs)
  case Nil
  then show ?case by simp
next
  case (Cons c cs)
  show ?case
  proof (cases c)
    case None
    with Cons show ?thesis by simp
  next
    case (Some first)
    with Cons.prems(1) have chain: "s2n_security_policy_validate_certificate_chain policy first = Inr ()"
      and rest: "validate_by_type policy cs = Inr ()"
      by (auto split: sum.splits)
    show ?thesis
    proof (cases "first = pair")
      case True
      with chain assms(1,4,5) show ?thesis
        by (simp add: s2n_security_policy_validate_certificate_chain_def validate_certs_conforms)
    next
      case False
      with Cons.prems(2) Some show ?thesis
        using Cons.IH [OF rest] by simp
    qed
  qed
qed

lemma validate_loaded_conforms:
  assumes "s2n_config_validate_loaded_certificates (Some cfg) policy = Inr ()" and "certificate_preferences_apply_locally policy"
    and "i \<in> loaded cfg"
  shows "conforms policy i"
proof (cases "sp_certificate_key_preferences policy = None \<and> sp_certificate_signature_preferences policy = None")
  case True
  then show ?thesis
    by (simp add: conforms_def)
next
  case False
  obtain cert pair certs where certs: "i = info cert" "Some pair \<in> set (default_certs_by_type cfg @
      (case domain_name_to_cert_map cfg of None \<Rightarrow> [] | Some (_, m) \<Rightarrow> concat m))" "cert_chain pair = Some certs" "cert \<in> set certs"
    using assms(3) unfolding loaded_def by blast
  have defaults: "validate_by_type policy (default_certs_by_type cfg) = Inr ()"
    and domains: "\<And>i m. domain_name_to_cert_map cfg = Some (i, m) \<Longrightarrow> validate_by_type policy (concat m) = Inr ()"
    using assms(1,2) False
    by (auto simp: s2n_config_validate_loaded_certificates_def split: sum.splits option.splits if_splits)
  show ?thesis
  proof (cases "Some pair \<in> set (default_certs_by_type cfg)")
    case True
    show ?thesis
      using validate_by_type_conforms [OF assms(2) defaults True certs(3,4)] certs(1) by simp
  next
    case False
    with certs(2) obtain j m where m: "domain_name_to_cert_map cfg = Some (j, m)" "Some pair \<in> set (concat m)"
      by (cases "domain_name_to_cert_map cfg") auto
    show ?thesis
      using validate_by_type_conforms [OF assms(2) domains [OF m(1)] m(2) certs(3,4)] certs(1) by simp
  qed
qed


definition example_cert :: s2n_cert_info where
  "example_cert = \<lparr>signature_nid = NID_ecdsa_with_SHA384, signature_digest_nid = NID_undef, public_key_nid = NID_secp384r1,
     public_key_bits = 384, self_signed = False\<rparr>"

definition example_policy_config :: policy_config where
  "example_policy_config = \<lparr>config_security_policy = None, 
     default_certs_by_type = [None, Some \<lparr>cert_chain = Some [\<lparr>pkey_type = S2N_PKEY_TYPE_ECDSA, info = example_cert\<rparr>], private_key = True\<rparr>, None],
     domain_name_to_cert_map = None\<rparr>"

lemma rfc9151_found: "s2n_find_security_policy_from_version (Some ''rfc9151'') = Inr (Policies_8 security_policy_rfc9151)"
proof -
  have "(''rfc9151'', Policies_8 security_policy_rfc9151) \<in> set selection_table"
    by (simp add: selection_table_def)
  then show ?thesis
    by (auto simp: find_listed listed_def same_version_def)
qed


end
