(* ===== verification/Handshake_Tables.thy ===== *)
theory Handshake_Tables
  imports Connection
begin

text \<open>
  The message tables of the handshake (\<open>handshakes\<close> and \<open>tls13_handshakes\<close> in
  \<open>tls/s2n_handshake_io.c\<close>) and the handshake type flags that index them
  (\<open>tls/s2n_handshake_type.h\<close>).

  The two static arrays are association lists with one entry per designated initialiser of the
  source, in its order.  \<open>table_entry\<close> reads them the way C does: rows and columns without an initialiser
  are zero, that is \<open>CLIENT_HELLO\<close>, and an index outside the 256 rows of 32 messages is undefined.

  The tables are compared with two specifications, \<open>tls12_messages\<close> and \<open>tls13_messages\<close>, that build
  the message sequence of a handshake from its flags in the order of RFC 5246 (section 7.3), RFC 5077,
  RFC 6066 and RFC 8446 (sections 2 and 4, appendix D.4).
\<close>

section \<open>Flags\<close>

abbreviation (input) INITIAL :: u32 where "INITIAL \<equiv> 0"
abbreviation (input) NEGOTIATED :: u32 where "NEGOTIATED \<equiv> 1"
abbreviation (input) FULL_HANDSHAKE :: u32 where "FULL_HANDSHAKE \<equiv> 2"
abbreviation (input) CLIENT_AUTH :: u32 where "CLIENT_AUTH \<equiv> 4"
abbreviation (input) NO_CLIENT_CERT :: u32 where "NO_CLIENT_CERT \<equiv> 8"
abbreviation (input) TLS12_PERFECT_FORWARD_SECRECY :: u32 where "TLS12_PERFECT_FORWARD_SECRECY \<equiv> 16"
abbreviation (input) OCSP_STATUS :: u32 where "OCSP_STATUS \<equiv> 32"
abbreviation (input) WITH_SESSION_TICKET :: u32 where "WITH_SESSION_TICKET \<equiv> 64"
abbreviation (input) WITH_NPN :: u32 where "WITH_NPN \<equiv> 128"
abbreviation (input) HELLO_RETRY_REQUEST :: u32 where "HELLO_RETRY_REQUEST \<equiv> 16"
abbreviation (input) MIDDLEBOX_COMPAT :: u32 where "MIDDLEBOX_COMPAT \<equiv> 32"
abbreviation (input) WITH_EARLY_DATA :: u32 where "WITH_EARLY_DATA \<equiv> 64"
abbreviation (input) EARLY_CLIENT_CCS :: u32 where "EARLY_CLIENT_CCS \<equiv> 128"

abbreviation (input) S2N_HANDSHAKES_COUNT :: nat where "S2N_HANDSHAKES_COUNT \<equiv> 256"
abbreviation (input) S2N_MAX_HANDSHAKE_LENGTH :: nat where "S2N_MAX_HANDSHAKE_LENGTH \<equiv> 32"

type_synonym handshake_table = "(u32 \<times> message_type_t list) list"

section \<open>The tables of the source\<close>

definition handshakes_1 :: handshake_table where
  "handshakes_1 = [
    (INITIAL,
      [CLIENT_HELLO, SERVER_HELLO]),
    (NEGOTIATED,
      [CLIENT_HELLO, SERVER_HELLO, SERVER_CHANGE_CIPHER_SPEC, SERVER_FINISHED,
       CLIENT_CHANGE_CIPHER_SPEC, CLIENT_FINISHED, APPLICATION_DATA]),
    (NEGOTIATED OR WITH_NPN,
      [CLIENT_HELLO, SERVER_HELLO, SERVER_CHANGE_CIPHER_SPEC, SERVER_FINISHED,
       CLIENT_CHANGE_CIPHER_SPEC, CLIENT_NPN, CLIENT_FINISHED, APPLICATION_DATA]),
    (NEGOTIATED OR WITH_SESSION_TICKET,
      [CLIENT_HELLO, SERVER_HELLO, SERVER_NEW_SESSION_TICKET, SERVER_CHANGE_CIPHER_SPEC,
       SERVER_FINISHED, CLIENT_CHANGE_CIPHER_SPEC, CLIENT_FINISHED, APPLICATION_DATA]),
    (NEGOTIATED OR WITH_SESSION_TICKET OR WITH_NPN,
      [CLIENT_HELLO, SERVER_HELLO, SERVER_NEW_SESSION_TICKET, SERVER_CHANGE_CIPHER_SPEC,
       SERVER_FINISHED, CLIENT_CHANGE_CIPHER_SPEC, CLIENT_NPN, CLIENT_FINISHED, APPLICATION_DATA]),
    (NEGOTIATED OR FULL_HANDSHAKE,
      [CLIENT_HELLO, SERVER_HELLO, SERVER_CERT, SERVER_HELLO_DONE, CLIENT_KEY,
       CLIENT_CHANGE_CIPHER_SPEC, CLIENT_FINISHED, SERVER_CHANGE_CIPHER_SPEC, SERVER_FINISHED,
       APPLICATION_DATA]),
    (NEGOTIATED OR FULL_HANDSHAKE OR WITH_NPN,
      [CLIENT_HELLO, SERVER_HELLO, SERVER_CERT, SERVER_HELLO_DONE, CLIENT_KEY,
       CLIENT_CHANGE_CIPHER_SPEC, CLIENT_NPN, CLIENT_FINISHED, SERVER_CHANGE_CIPHER_SPEC,
       SERVER_FINISHED, APPLICATION_DATA]),
    (NEGOTIATED OR FULL_HANDSHAKE OR WITH_SESSION_TICKET,
      [CLIENT_HELLO, SERVER_HELLO, SERVER_CERT, SERVER_HELLO_DONE, CLIENT_KEY,
       CLIENT_CHANGE_CIPHER_SPEC, CLIENT_FINISHED, SERVER_NEW_SESSION_TICKET,
       SERVER_CHANGE_CIPHER_SPEC, SERVER_FINISHED, APPLICATION_DATA]),
    (NEGOTIATED OR FULL_HANDSHAKE OR WITH_SESSION_TICKET OR WITH_NPN,
      [CLIENT_HELLO, SERVER_HELLO, SERVER_CERT, SERVER_HELLO_DONE, CLIENT_KEY,
       CLIENT_CHANGE_CIPHER_SPEC, CLIENT_NPN, CLIENT_FINISHED, SERVER_NEW_SESSION_TICKET,
       SERVER_CHANGE_CIPHER_SPEC, SERVER_FINISHED, APPLICATION_DATA]),
    (NEGOTIATED OR FULL_HANDSHAKE OR TLS12_PERFECT_FORWARD_SECRECY,
      [CLIENT_HELLO, SERVER_HELLO, SERVER_CERT, SERVER_KEY, SERVER_HELLO_DONE, CLIENT_KEY,
       CLIENT_CHANGE_CIPHER_SPEC, CLIENT_FINISHED, SERVER_CHANGE_CIPHER_SPEC, SERVER_FINISHED,
       APPLICATION_DATA]),
    (NEGOTIATED OR FULL_HANDSHAKE OR TLS12_PERFECT_FORWARD_SECRECY OR WITH_NPN,
      [CLIENT_HELLO, SERVER_HELLO, SERVER_CERT, SERVER_KEY, SERVER_HELLO_DONE, CLIENT_KEY,
       CLIENT_CHANGE_CIPHER_SPEC, CLIENT_NPN, CLIENT_FINISHED, SERVER_CHANGE_CIPHER_SPEC,
       SERVER_FINISHED, APPLICATION_DATA]),
    (NEGOTIATED OR FULL_HANDSHAKE OR TLS12_PERFECT_FORWARD_SECRECY OR WITH_SESSION_TICKET,
      [CLIENT_HELLO, SERVER_HELLO, SERVER_CERT, SERVER_KEY, SERVER_HELLO_DONE, CLIENT_KEY,
       CLIENT_CHANGE_CIPHER_SPEC, CLIENT_FINISHED, SERVER_NEW_SESSION_TICKET,
       SERVER_CHANGE_CIPHER_SPEC, SERVER_FINISHED, APPLICATION_DATA]),
    (NEGOTIATED OR FULL_HANDSHAKE OR TLS12_PERFECT_FORWARD_SECRECY OR WITH_SESSION_TICKET OR WITH_NPN,
      [CLIENT_HELLO, SERVER_HELLO, SERVER_CERT, SERVER_KEY, SERVER_HELLO_DONE, CLIENT_KEY,
       CLIENT_CHANGE_CIPHER_SPEC, CLIENT_NPN, CLIENT_FINISHED, SERVER_NEW_SESSION_TICKET,
       SERVER_CHANGE_CIPHER_SPEC, SERVER_FINISHED, APPLICATION_DATA]),
    (NEGOTIATED OR FULL_HANDSHAKE OR OCSP_STATUS,
      [CLIENT_HELLO, SERVER_HELLO, SERVER_CERT, SERVER_CERT_STATUS, SERVER_HELLO_DONE, CLIENT_KEY,
       CLIENT_CHANGE_CIPHER_SPEC, CLIENT_FINISHED, SERVER_CHANGE_CIPHER_SPEC, SERVER_FINISHED,
       APPLICATION_DATA]),
    (NEGOTIATED OR FULL_HANDSHAKE OR OCSP_STATUS OR WITH_NPN,
      [CLIENT_HELLO, SERVER_HELLO, SERVER_CERT, SERVER_CERT_STATUS, SERVER_HELLO_DONE, CLIENT_KEY,
       CLIENT_CHANGE_CIPHER_SPEC, CLIENT_NPN, CLIENT_FINISHED, SERVER_CHANGE_CIPHER_SPEC,
       SERVER_FINISHED, APPLICATION_DATA]),
    (NEGOTIATED OR FULL_HANDSHAKE OR OCSP_STATUS OR WITH_SESSION_TICKET,
      [CLIENT_HELLO, SERVER_HELLO, SERVER_CERT, SERVER_CERT_STATUS, SERVER_HELLO_DONE, CLIENT_KEY,
       CLIENT_CHANGE_CIPHER_SPEC, CLIENT_FINISHED, SERVER_NEW_SESSION_TICKET,
       SERVER_CHANGE_CIPHER_SPEC, SERVER_FINISHED, APPLICATION_DATA]),
    (NEGOTIATED OR FULL_HANDSHAKE OR OCSP_STATUS OR WITH_SESSION_TICKET OR WITH_NPN,
      [CLIENT_HELLO, SERVER_HELLO, SERVER_CERT, SERVER_CERT_STATUS, SERVER_HELLO_DONE, CLIENT_KEY,
       CLIENT_CHANGE_CIPHER_SPEC, CLIENT_NPN, CLIENT_FINISHED, SERVER_NEW_SESSION_TICKET,
       SERVER_CHANGE_CIPHER_SPEC, SERVER_FINISHED, APPLICATION_DATA]),
    (NEGOTIATED OR FULL_HANDSHAKE OR TLS12_PERFECT_FORWARD_SECRECY OR OCSP_STATUS,
      [CLIENT_HELLO, SERVER_HELLO, SERVER_CERT, SERVER_CERT_STATUS, SERVER_KEY, SERVER_HELLO_DONE,
       CLIENT_KEY, CLIENT_CHANGE_CIPHER_SPEC, CLIENT_FINISHED, SERVER_CHANGE_CIPHER_SPEC,
       SERVER_FINISHED, APPLICATION_DATA])]"

definition handshakes_2 :: handshake_table where
  "handshakes_2 = [
    (NEGOTIATED OR FULL_HANDSHAKE OR TLS12_PERFECT_FORWARD_SECRECY OR OCSP_STATUS OR WITH_NPN,
      [CLIENT_HELLO, SERVER_HELLO, SERVER_CERT, SERVER_CERT_STATUS, SERVER_KEY, SERVER_HELLO_DONE,
       CLIENT_KEY, CLIENT_CHANGE_CIPHER_SPEC, CLIENT_NPN, CLIENT_FINISHED,
       SERVER_CHANGE_CIPHER_SPEC, SERVER_FINISHED, APPLICATION_DATA]),
    (NEGOTIATED OR FULL_HANDSHAKE OR TLS12_PERFECT_FORWARD_SECRECY OR OCSP_STATUS OR WITH_SESSION_TICKET,
      [CLIENT_HELLO, SERVER_HELLO, SERVER_CERT, SERVER_CERT_STATUS, SERVER_KEY, SERVER_HELLO_DONE,
       CLIENT_KEY, CLIENT_CHANGE_CIPHER_SPEC, CLIENT_FINISHED, SERVER_NEW_SESSION_TICKET,
       SERVER_CHANGE_CIPHER_SPEC, SERVER_FINISHED, APPLICATION_DATA]),
    (NEGOTIATED OR FULL_HANDSHAKE OR TLS12_PERFECT_FORWARD_SECRECY OR OCSP_STATUS OR WITH_SESSION_TICKET OR WITH_NPN,
      [CLIENT_HELLO, SERVER_HELLO, SERVER_CERT, SERVER_CERT_STATUS, SERVER_KEY, SERVER_HELLO_DONE,
       CLIENT_KEY, CLIENT_CHANGE_CIPHER_SPEC, CLIENT_NPN, CLIENT_FINISHED,
       SERVER_NEW_SESSION_TICKET, SERVER_CHANGE_CIPHER_SPEC, SERVER_FINISHED, APPLICATION_DATA]),
    (NEGOTIATED OR FULL_HANDSHAKE OR CLIENT_AUTH,
      [CLIENT_HELLO, SERVER_HELLO, SERVER_CERT, SERVER_CERT_REQ, SERVER_HELLO_DONE, CLIENT_CERT,
       CLIENT_KEY, CLIENT_CERT_VERIFY, CLIENT_CHANGE_CIPHER_SPEC, CLIENT_FINISHED,
       SERVER_CHANGE_CIPHER_SPEC, SERVER_FINISHED, APPLICATION_DATA]),
    (NEGOTIATED OR FULL_HANDSHAKE OR CLIENT_AUTH OR WITH_NPN,
      [CLIENT_HELLO, SERVER_HELLO, SERVER_CERT, SERVER_CERT_REQ, SERVER_HELLO_DONE, CLIENT_CERT,
       CLIENT_KEY, CLIENT_CERT_VERIFY, CLIENT_CHANGE_CIPHER_SPEC, CLIENT_NPN, CLIENT_FINISHED,
       SERVER_CHANGE_CIPHER_SPEC, SERVER_FINISHED, APPLICATION_DATA]),
    (NEGOTIATED OR FULL_HANDSHAKE OR CLIENT_AUTH OR NO_CLIENT_CERT,
      [CLIENT_HELLO, SERVER_HELLO, SERVER_CERT, SERVER_CERT_REQ, SERVER_HELLO_DONE, CLIENT_CERT,
       CLIENT_KEY, CLIENT_CHANGE_CIPHER_SPEC, CLIENT_FINISHED, SERVER_CHANGE_CIPHER_SPEC,
       SERVER_FINISHED, APPLICATION_DATA]),
    (NEGOTIATED OR FULL_HANDSHAKE OR CLIENT_AUTH OR NO_CLIENT_CERT OR WITH_NPN,
      [CLIENT_HELLO, SERVER_HELLO, SERVER_CERT, SERVER_CERT_REQ, SERVER_HELLO_DONE, CLIENT_CERT,
       CLIENT_KEY, CLIENT_CHANGE_CIPHER_SPEC, CLIENT_NPN, CLIENT_FINISHED,
       SERVER_CHANGE_CIPHER_SPEC, SERVER_FINISHED, APPLICATION_DATA]),
    (NEGOTIATED OR FULL_HANDSHAKE OR CLIENT_AUTH OR WITH_SESSION_TICKET,
      [CLIENT_HELLO, SERVER_HELLO, SERVER_CERT, SERVER_CERT_REQ, SERVER_HELLO_DONE, CLIENT_CERT,
       CLIENT_KEY, CLIENT_CERT_VERIFY, CLIENT_CHANGE_CIPHER_SPEC, CLIENT_FINISHED,
       SERVER_NEW_SESSION_TICKET, SERVER_CHANGE_CIPHER_SPEC, SERVER_FINISHED, APPLICATION_DATA]),
    (NEGOTIATED OR FULL_HANDSHAKE OR CLIENT_AUTH OR WITH_SESSION_TICKET OR WITH_NPN,
      [CLIENT_HELLO, SERVER_HELLO, SERVER_CERT, SERVER_CERT_REQ, SERVER_HELLO_DONE, CLIENT_CERT,
       CLIENT_KEY, CLIENT_CERT_VERIFY, CLIENT_CHANGE_CIPHER_SPEC, CLIENT_NPN, CLIENT_FINISHED,
       SERVER_NEW_SESSION_TICKET, SERVER_CHANGE_CIPHER_SPEC, SERVER_FINISHED, APPLICATION_DATA]),
    (NEGOTIATED OR FULL_HANDSHAKE OR CLIENT_AUTH OR NO_CLIENT_CERT OR WITH_SESSION_TICKET,
      [CLIENT_HELLO, SERVER_HELLO, SERVER_CERT, SERVER_CERT_REQ, SERVER_HELLO_DONE, CLIENT_CERT,
       CLIENT_KEY, CLIENT_CHANGE_CIPHER_SPEC, CLIENT_FINISHED, SERVER_NEW_SESSION_TICKET,
       SERVER_CHANGE_CIPHER_SPEC, SERVER_FINISHED, APPLICATION_DATA]),
    (NEGOTIATED OR FULL_HANDSHAKE OR CLIENT_AUTH OR NO_CLIENT_CERT OR WITH_SESSION_TICKET OR WITH_NPN,
      [CLIENT_HELLO, SERVER_HELLO, SERVER_CERT, SERVER_CERT_REQ, SERVER_HELLO_DONE, CLIENT_CERT,
       CLIENT_KEY, CLIENT_CHANGE_CIPHER_SPEC, CLIENT_NPN, CLIENT_FINISHED,
       SERVER_NEW_SESSION_TICKET, SERVER_CHANGE_CIPHER_SPEC, SERVER_FINISHED, APPLICATION_DATA]),
    (NEGOTIATED OR FULL_HANDSHAKE OR TLS12_PERFECT_FORWARD_SECRECY OR CLIENT_AUTH,
      [CLIENT_HELLO, SERVER_HELLO, SERVER_CERT, SERVER_KEY, SERVER_CERT_REQ, SERVER_HELLO_DONE,
       CLIENT_CERT, CLIENT_KEY, CLIENT_CERT_VERIFY, CLIENT_CHANGE_CIPHER_SPEC, CLIENT_FINISHED,
       SERVER_CHANGE_CIPHER_SPEC, SERVER_FINISHED, APPLICATION_DATA]),
    (NEGOTIATED OR FULL_HANDSHAKE OR TLS12_PERFECT_FORWARD_SECRECY OR CLIENT_AUTH OR WITH_NPN,
      [CLIENT_HELLO, SERVER_HELLO, SERVER_CERT, SERVER_KEY, SERVER_CERT_REQ, SERVER_HELLO_DONE,
       CLIENT_CERT, CLIENT_KEY, CLIENT_CERT_VERIFY, CLIENT_CHANGE_CIPHER_SPEC, CLIENT_NPN,
       CLIENT_FINISHED, SERVER_CHANGE_CIPHER_SPEC, SERVER_FINISHED, APPLICATION_DATA]),
    (NEGOTIATED OR FULL_HANDSHAKE OR TLS12_PERFECT_FORWARD_SECRECY OR CLIENT_AUTH OR NO_CLIENT_CERT,
      [CLIENT_HELLO, SERVER_HELLO, SERVER_CERT, SERVER_KEY, SERVER_CERT_REQ, SERVER_HELLO_DONE,
       CLIENT_CERT, CLIENT_KEY, CLIENT_CHANGE_CIPHER_SPEC, CLIENT_FINISHED,
       SERVER_CHANGE_CIPHER_SPEC, SERVER_FINISHED, APPLICATION_DATA]),
    (NEGOTIATED OR FULL_HANDSHAKE OR TLS12_PERFECT_FORWARD_SECRECY OR CLIENT_AUTH OR NO_CLIENT_CERT OR WITH_NPN,
      [CLIENT_HELLO, SERVER_HELLO, SERVER_CERT, SERVER_KEY, SERVER_CERT_REQ, SERVER_HELLO_DONE,
       CLIENT_CERT, CLIENT_KEY, CLIENT_CHANGE_CIPHER_SPEC, CLIENT_NPN, CLIENT_FINISHED,
       SERVER_CHANGE_CIPHER_SPEC, SERVER_FINISHED, APPLICATION_DATA]),
    (NEGOTIATED OR FULL_HANDSHAKE OR TLS12_PERFECT_FORWARD_SECRECY OR CLIENT_AUTH OR WITH_SESSION_TICKET,
      [CLIENT_HELLO, SERVER_HELLO, SERVER_CERT, SERVER_KEY, SERVER_CERT_REQ, SERVER_HELLO_DONE,
       CLIENT_CERT, CLIENT_KEY, CLIENT_CERT_VERIFY, CLIENT_CHANGE_CIPHER_SPEC, CLIENT_FINISHED,
       SERVER_NEW_SESSION_TICKET, SERVER_CHANGE_CIPHER_SPEC, SERVER_FINISHED, APPLICATION_DATA]),
    (NEGOTIATED OR FULL_HANDSHAKE OR TLS12_PERFECT_FORWARD_SECRECY OR CLIENT_AUTH OR WITH_SESSION_TICKET OR WITH_NPN,
      [CLIENT_HELLO, SERVER_HELLO, SERVER_CERT, SERVER_KEY, SERVER_CERT_REQ, SERVER_HELLO_DONE,
       CLIENT_CERT, CLIENT_KEY, CLIENT_CERT_VERIFY, CLIENT_CHANGE_CIPHER_SPEC, CLIENT_NPN,
       CLIENT_FINISHED, SERVER_NEW_SESSION_TICKET, SERVER_CHANGE_CIPHER_SPEC, SERVER_FINISHED,
       APPLICATION_DATA])]"

definition handshakes_3 :: handshake_table where
  "handshakes_3 = [
    (NEGOTIATED OR FULL_HANDSHAKE OR TLS12_PERFECT_FORWARD_SECRECY OR CLIENT_AUTH OR NO_CLIENT_CERT OR WITH_SESSION_TICKET,
      [CLIENT_HELLO, SERVER_HELLO, SERVER_CERT, SERVER_KEY, SERVER_CERT_REQ, SERVER_HELLO_DONE,
       CLIENT_CERT, CLIENT_KEY, CLIENT_CHANGE_CIPHER_SPEC, CLIENT_FINISHED,
       SERVER_NEW_SESSION_TICKET, SERVER_CHANGE_CIPHER_SPEC, SERVER_FINISHED, APPLICATION_DATA]),
    (NEGOTIATED OR FULL_HANDSHAKE OR TLS12_PERFECT_FORWARD_SECRECY OR CLIENT_AUTH OR NO_CLIENT_CERT OR WITH_SESSION_TICKET OR WITH_NPN,
      [CLIENT_HELLO, SERVER_HELLO, SERVER_CERT, SERVER_KEY, SERVER_CERT_REQ, SERVER_HELLO_DONE,
       CLIENT_CERT, CLIENT_KEY, CLIENT_CHANGE_CIPHER_SPEC, CLIENT_NPN, CLIENT_FINISHED,
       SERVER_NEW_SESSION_TICKET, SERVER_CHANGE_CIPHER_SPEC, SERVER_FINISHED, APPLICATION_DATA]),
    (NEGOTIATED OR FULL_HANDSHAKE OR OCSP_STATUS OR CLIENT_AUTH,
      [CLIENT_HELLO, SERVER_HELLO, SERVER_CERT, SERVER_CERT_STATUS, SERVER_CERT_REQ,
       SERVER_HELLO_DONE, CLIENT_CERT, CLIENT_KEY, CLIENT_CERT_VERIFY, CLIENT_CHANGE_CIPHER_SPEC,
       CLIENT_FINISHED, SERVER_CHANGE_CIPHER_SPEC, SERVER_FINISHED, APPLICATION_DATA]),
    (NEGOTIATED OR FULL_HANDSHAKE OR OCSP_STATUS OR CLIENT_AUTH OR WITH_NPN,
      [CLIENT_HELLO, SERVER_HELLO, SERVER_CERT, SERVER_CERT_STATUS, SERVER_CERT_REQ,
       SERVER_HELLO_DONE, CLIENT_CERT, CLIENT_KEY, CLIENT_CERT_VERIFY, CLIENT_CHANGE_CIPHER_SPEC,
       CLIENT_NPN, CLIENT_FINISHED, SERVER_CHANGE_CIPHER_SPEC, SERVER_FINISHED, APPLICATION_DATA]),
    (NEGOTIATED OR FULL_HANDSHAKE OR OCSP_STATUS OR CLIENT_AUTH OR NO_CLIENT_CERT,
      [CLIENT_HELLO, SERVER_HELLO, SERVER_CERT, SERVER_CERT_STATUS, SERVER_CERT_REQ,
       SERVER_HELLO_DONE, CLIENT_CERT, CLIENT_KEY, CLIENT_CHANGE_CIPHER_SPEC, CLIENT_FINISHED,
       SERVER_CHANGE_CIPHER_SPEC, SERVER_FINISHED, APPLICATION_DATA]),
    (NEGOTIATED OR FULL_HANDSHAKE OR OCSP_STATUS OR CLIENT_AUTH OR NO_CLIENT_CERT OR WITH_NPN,
      [CLIENT_HELLO, SERVER_HELLO, SERVER_CERT, SERVER_CERT_STATUS, SERVER_CERT_REQ,
       SERVER_HELLO_DONE, CLIENT_CERT, CLIENT_KEY, CLIENT_CHANGE_CIPHER_SPEC, CLIENT_NPN,
       CLIENT_FINISHED, SERVER_CHANGE_CIPHER_SPEC, SERVER_FINISHED, APPLICATION_DATA]),
    (NEGOTIATED OR FULL_HANDSHAKE OR OCSP_STATUS OR CLIENT_AUTH OR WITH_SESSION_TICKET,
      [CLIENT_HELLO, SERVER_HELLO, SERVER_CERT, SERVER_CERT_STATUS, SERVER_CERT_REQ,
       SERVER_HELLO_DONE, CLIENT_CERT, CLIENT_KEY, CLIENT_CERT_VERIFY, CLIENT_CHANGE_CIPHER_SPEC,
       CLIENT_FINISHED, SERVER_NEW_SESSION_TICKET, SERVER_CHANGE_CIPHER_SPEC, SERVER_FINISHED,
       APPLICATION_DATA]),
    (NEGOTIATED OR FULL_HANDSHAKE OR OCSP_STATUS OR CLIENT_AUTH OR WITH_SESSION_TICKET OR WITH_NPN,
      [CLIENT_HELLO, SERVER_HELLO, SERVER_CERT, SERVER_CERT_STATUS, SERVER_CERT_REQ,
       SERVER_HELLO_DONE, CLIENT_CERT, CLIENT_KEY, CLIENT_CERT_VERIFY, CLIENT_CHANGE_CIPHER_SPEC,
       CLIENT_NPN, CLIENT_FINISHED, SERVER_NEW_SESSION_TICKET, SERVER_CHANGE_CIPHER_SPEC,
       SERVER_FINISHED, APPLICATION_DATA]),
    (NEGOTIATED OR FULL_HANDSHAKE OR OCSP_STATUS OR CLIENT_AUTH OR NO_CLIENT_CERT OR WITH_SESSION_TICKET,
      [CLIENT_HELLO, SERVER_HELLO, SERVER_CERT, SERVER_CERT_STATUS, SERVER_CERT_REQ,
       SERVER_HELLO_DONE, CLIENT_CERT, CLIENT_KEY, CLIENT_CHANGE_CIPHER_SPEC, CLIENT_FINISHED,
       SERVER_NEW_SESSION_TICKET, SERVER_CHANGE_CIPHER_SPEC, SERVER_FINISHED, APPLICATION_DATA]),
    (NEGOTIATED OR FULL_HANDSHAKE OR OCSP_STATUS OR CLIENT_AUTH OR NO_CLIENT_CERT OR WITH_SESSION_TICKET OR WITH_NPN,
      [CLIENT_HELLO, SERVER_HELLO, SERVER_CERT, SERVER_CERT_STATUS, SERVER_CERT_REQ,
       SERVER_HELLO_DONE, CLIENT_CERT, CLIENT_KEY, CLIENT_CHANGE_CIPHER_SPEC, CLIENT_NPN,
       CLIENT_FINISHED, SERVER_NEW_SESSION_TICKET, SERVER_CHANGE_CIPHER_SPEC, SERVER_FINISHED,
       APPLICATION_DATA]),
    (NEGOTIATED OR FULL_HANDSHAKE OR TLS12_PERFECT_FORWARD_SECRECY OR OCSP_STATUS OR CLIENT_AUTH,
      [CLIENT_HELLO, SERVER_HELLO, SERVER_CERT, SERVER_CERT_STATUS, SERVER_KEY, SERVER_CERT_REQ,
       SERVER_HELLO_DONE, CLIENT_CERT, CLIENT_KEY, CLIENT_CERT_VERIFY, CLIENT_CHANGE_CIPHER_SPEC,
       CLIENT_FINISHED, SERVER_CHANGE_CIPHER_SPEC, SERVER_FINISHED, APPLICATION_DATA]),
    (NEGOTIATED OR FULL_HANDSHAKE OR TLS12_PERFECT_FORWARD_SECRECY OR OCSP_STATUS OR CLIENT_AUTH OR WITH_NPN,
      [CLIENT_HELLO, SERVER_HELLO, SERVER_CERT, SERVER_CERT_STATUS, SERVER_KEY, SERVER_CERT_REQ,
       SERVER_HELLO_DONE, CLIENT_CERT, CLIENT_KEY, CLIENT_CERT_VERIFY, CLIENT_CHANGE_CIPHER_SPEC,
       CLIENT_NPN, CLIENT_FINISHED, SERVER_CHANGE_CIPHER_SPEC, SERVER_FINISHED, APPLICATION_DATA]),
    (NEGOTIATED OR FULL_HANDSHAKE OR TLS12_PERFECT_FORWARD_SECRECY OR OCSP_STATUS OR CLIENT_AUTH OR NO_CLIENT_CERT,
      [CLIENT_HELLO, SERVER_HELLO, SERVER_CERT, SERVER_CERT_STATUS, SERVER_KEY, SERVER_CERT_REQ,
       SERVER_HELLO_DONE, CLIENT_CERT, CLIENT_KEY, CLIENT_CHANGE_CIPHER_SPEC, CLIENT_FINISHED,
       SERVER_CHANGE_CIPHER_SPEC, SERVER_FINISHED, APPLICATION_DATA]),
    (NEGOTIATED OR FULL_HANDSHAKE OR TLS12_PERFECT_FORWARD_SECRECY OR OCSP_STATUS OR CLIENT_AUTH OR NO_CLIENT_CERT OR WITH_NPN,
      [CLIENT_HELLO, SERVER_HELLO, SERVER_CERT, SERVER_CERT_STATUS, SERVER_KEY, SERVER_CERT_REQ,
       SERVER_HELLO_DONE, CLIENT_CERT, CLIENT_KEY, CLIENT_CHANGE_CIPHER_SPEC, CLIENT_NPN,
       CLIENT_FINISHED, SERVER_CHANGE_CIPHER_SPEC, SERVER_FINISHED, APPLICATION_DATA]),
    (NEGOTIATED OR FULL_HANDSHAKE OR TLS12_PERFECT_FORWARD_SECRECY OR OCSP_STATUS OR CLIENT_AUTH OR WITH_SESSION_TICKET,
      [CLIENT_HELLO, SERVER_HELLO, SERVER_CERT, SERVER_CERT_STATUS, SERVER_KEY, SERVER_CERT_REQ,
       SERVER_HELLO_DONE, CLIENT_CERT, CLIENT_KEY, CLIENT_CERT_VERIFY, CLIENT_CHANGE_CIPHER_SPEC,
       CLIENT_FINISHED, SERVER_NEW_SESSION_TICKET, SERVER_CHANGE_CIPHER_SPEC, SERVER_FINISHED,
       APPLICATION_DATA]),
    (NEGOTIATED OR FULL_HANDSHAKE OR TLS12_PERFECT_FORWARD_SECRECY OR OCSP_STATUS OR CLIENT_AUTH OR WITH_SESSION_TICKET OR WITH_NPN,
      [CLIENT_HELLO, SERVER_HELLO, SERVER_CERT, SERVER_CERT_STATUS, SERVER_KEY, SERVER_CERT_REQ,
       SERVER_HELLO_DONE, CLIENT_CERT, CLIENT_KEY, CLIENT_CERT_VERIFY, CLIENT_CHANGE_CIPHER_SPEC,
       CLIENT_NPN, CLIENT_FINISHED, SERVER_NEW_SESSION_TICKET, SERVER_CHANGE_CIPHER_SPEC,
       SERVER_FINISHED, APPLICATION_DATA]),
    (NEGOTIATED OR FULL_HANDSHAKE OR TLS12_PERFECT_FORWARD_SECRECY OR OCSP_STATUS OR CLIENT_AUTH OR NO_CLIENT_CERT OR WITH_SESSION_TICKET,
      [CLIENT_HELLO, SERVER_HELLO, SERVER_CERT, SERVER_CERT_STATUS, SERVER_KEY, SERVER_CERT_REQ,
       SERVER_HELLO_DONE, CLIENT_CERT, CLIENT_KEY, CLIENT_CHANGE_CIPHER_SPEC, CLIENT_FINISHED,
       SERVER_NEW_SESSION_TICKET, SERVER_CHANGE_CIPHER_SPEC, SERVER_FINISHED, APPLICATION_DATA])]"

definition handshakes_4 :: handshake_table where
  "handshakes_4 = [
    (NEGOTIATED OR FULL_HANDSHAKE OR TLS12_PERFECT_FORWARD_SECRECY OR OCSP_STATUS OR CLIENT_AUTH OR NO_CLIENT_CERT OR WITH_SESSION_TICKET OR WITH_NPN,
      [CLIENT_HELLO, SERVER_HELLO, SERVER_CERT, SERVER_CERT_STATUS, SERVER_KEY, SERVER_CERT_REQ,
       SERVER_HELLO_DONE, CLIENT_CERT, CLIENT_KEY, CLIENT_CHANGE_CIPHER_SPEC, CLIENT_NPN,
       CLIENT_FINISHED, SERVER_NEW_SESSION_TICKET, SERVER_CHANGE_CIPHER_SPEC, SERVER_FINISHED,
       APPLICATION_DATA])]"

definition handshakes :: handshake_table where
  "handshakes = handshakes_1 @ handshakes_2 @ handshakes_3 @ handshakes_4"

definition tls13_handshakes_1 :: handshake_table where
  "tls13_handshakes_1 = [
    (INITIAL,
      [CLIENT_HELLO, SERVER_HELLO]),
    (INITIAL OR MIDDLEBOX_COMPAT OR EARLY_CLIENT_CCS,
      [CLIENT_HELLO, CLIENT_CHANGE_CIPHER_SPEC, SERVER_HELLO]),
    (INITIAL OR HELLO_RETRY_REQUEST,
      [CLIENT_HELLO, HELLO_RETRY_MSG]),
    (INITIAL OR HELLO_RETRY_REQUEST OR MIDDLEBOX_COMPAT OR EARLY_CLIENT_CCS,
      [CLIENT_HELLO, CLIENT_CHANGE_CIPHER_SPEC, HELLO_RETRY_MSG]),
    (NEGOTIATED,
      [CLIENT_HELLO, SERVER_HELLO, ENCRYPTED_EXTENSIONS, SERVER_FINISHED, CLIENT_FINISHED,
       APPLICATION_DATA]),
    (NEGOTIATED OR WITH_EARLY_DATA,
      [CLIENT_HELLO, SERVER_HELLO, ENCRYPTED_EXTENSIONS, SERVER_FINISHED, END_OF_EARLY_DATA,
       CLIENT_FINISHED, APPLICATION_DATA]),
    (NEGOTIATED OR MIDDLEBOX_COMPAT,
      [CLIENT_HELLO, SERVER_HELLO, SERVER_CHANGE_CIPHER_SPEC, ENCRYPTED_EXTENSIONS, SERVER_FINISHED,
       CLIENT_CHANGE_CIPHER_SPEC, CLIENT_FINISHED, APPLICATION_DATA]),
    (NEGOTIATED OR MIDDLEBOX_COMPAT OR EARLY_CLIENT_CCS,
      [CLIENT_HELLO, CLIENT_CHANGE_CIPHER_SPEC, SERVER_HELLO, SERVER_CHANGE_CIPHER_SPEC,
       ENCRYPTED_EXTENSIONS, SERVER_FINISHED, CLIENT_FINISHED, APPLICATION_DATA]),
    (NEGOTIATED OR MIDDLEBOX_COMPAT OR WITH_EARLY_DATA,
      [CLIENT_HELLO, SERVER_HELLO, SERVER_CHANGE_CIPHER_SPEC, ENCRYPTED_EXTENSIONS, SERVER_FINISHED,
       CLIENT_CHANGE_CIPHER_SPEC, END_OF_EARLY_DATA, CLIENT_FINISHED, APPLICATION_DATA]),
    (NEGOTIATED OR MIDDLEBOX_COMPAT OR EARLY_CLIENT_CCS OR WITH_EARLY_DATA,
      [CLIENT_HELLO, CLIENT_CHANGE_CIPHER_SPEC, SERVER_HELLO, SERVER_CHANGE_CIPHER_SPEC,
       ENCRYPTED_EXTENSIONS, SERVER_FINISHED, END_OF_EARLY_DATA, CLIENT_FINISHED, APPLICATION_DATA]),
    (NEGOTIATED OR HELLO_RETRY_REQUEST,
      [CLIENT_HELLO, HELLO_RETRY_MSG, CLIENT_HELLO, SERVER_HELLO, ENCRYPTED_EXTENSIONS,
       SERVER_FINISHED, CLIENT_FINISHED, APPLICATION_DATA]),
    (NEGOTIATED OR HELLO_RETRY_REQUEST OR MIDDLEBOX_COMPAT,
      [CLIENT_HELLO, HELLO_RETRY_MSG, SERVER_CHANGE_CIPHER_SPEC, CLIENT_CHANGE_CIPHER_SPEC,
       CLIENT_HELLO, SERVER_HELLO, ENCRYPTED_EXTENSIONS, SERVER_FINISHED, CLIENT_FINISHED,
       APPLICATION_DATA]),
    (NEGOTIATED OR HELLO_RETRY_REQUEST OR MIDDLEBOX_COMPAT OR EARLY_CLIENT_CCS,
      [CLIENT_HELLO, CLIENT_CHANGE_CIPHER_SPEC, HELLO_RETRY_MSG, SERVER_CHANGE_CIPHER_SPEC,
       CLIENT_HELLO, SERVER_HELLO, ENCRYPTED_EXTENSIONS, SERVER_FINISHED, CLIENT_FINISHED,
       APPLICATION_DATA]),
    (NEGOTIATED OR FULL_HANDSHAKE,
      [CLIENT_HELLO, SERVER_HELLO, ENCRYPTED_EXTENSIONS, SERVER_CERT, SERVER_CERT_VERIFY,
       SERVER_FINISHED, CLIENT_FINISHED, APPLICATION_DATA]),
    (NEGOTIATED OR FULL_HANDSHAKE OR MIDDLEBOX_COMPAT,
      [CLIENT_HELLO, SERVER_HELLO, SERVER_CHANGE_CIPHER_SPEC, ENCRYPTED_EXTENSIONS, SERVER_CERT,
       SERVER_CERT_VERIFY, SERVER_FINISHED, CLIENT_CHANGE_CIPHER_SPEC, CLIENT_FINISHED,
       APPLICATION_DATA]),
    (NEGOTIATED OR FULL_HANDSHAKE OR MIDDLEBOX_COMPAT OR EARLY_CLIENT_CCS,
      [CLIENT_HELLO, CLIENT_CHANGE_CIPHER_SPEC, SERVER_HELLO, SERVER_CHANGE_CIPHER_SPEC,
       ENCRYPTED_EXTENSIONS, SERVER_CERT, SERVER_CERT_VERIFY, SERVER_FINISHED, CLIENT_FINISHED,
       APPLICATION_DATA]),
    (NEGOTIATED OR FULL_HANDSHAKE OR HELLO_RETRY_REQUEST,
      [CLIENT_HELLO, HELLO_RETRY_MSG, CLIENT_HELLO, SERVER_HELLO, ENCRYPTED_EXTENSIONS, SERVER_CERT,
       SERVER_CERT_VERIFY, SERVER_FINISHED, CLIENT_FINISHED, APPLICATION_DATA]),
    (NEGOTIATED OR FULL_HANDSHAKE OR HELLO_RETRY_REQUEST OR MIDDLEBOX_COMPAT,
      [CLIENT_HELLO, HELLO_RETRY_MSG, SERVER_CHANGE_CIPHER_SPEC, CLIENT_CHANGE_CIPHER_SPEC,
       CLIENT_HELLO, SERVER_HELLO, ENCRYPTED_EXTENSIONS, SERVER_CERT, SERVER_CERT_VERIFY,
       SERVER_FINISHED, CLIENT_FINISHED, APPLICATION_DATA]),
    (NEGOTIATED OR FULL_HANDSHAKE OR HELLO_RETRY_REQUEST OR MIDDLEBOX_COMPAT OR EARLY_CLIENT_CCS,
      [CLIENT_HELLO, CLIENT_CHANGE_CIPHER_SPEC, HELLO_RETRY_MSG, SERVER_CHANGE_CIPHER_SPEC,
       CLIENT_HELLO, SERVER_HELLO, ENCRYPTED_EXTENSIONS, SERVER_CERT, SERVER_CERT_VERIFY,
       SERVER_FINISHED, CLIENT_FINISHED, APPLICATION_DATA])]"

definition tls13_handshakes_2 :: handshake_table where
  "tls13_handshakes_2 = [
    (NEGOTIATED OR FULL_HANDSHAKE OR HELLO_RETRY_REQUEST OR CLIENT_AUTH,
      [CLIENT_HELLO, HELLO_RETRY_MSG, CLIENT_HELLO, SERVER_HELLO, ENCRYPTED_EXTENSIONS,
       SERVER_CERT_REQ, SERVER_CERT, SERVER_CERT_VERIFY, SERVER_FINISHED, CLIENT_CERT,
       CLIENT_CERT_VERIFY, CLIENT_FINISHED, APPLICATION_DATA]),
    (NEGOTIATED OR FULL_HANDSHAKE OR HELLO_RETRY_REQUEST OR CLIENT_AUTH OR MIDDLEBOX_COMPAT,
      [CLIENT_HELLO, HELLO_RETRY_MSG, SERVER_CHANGE_CIPHER_SPEC, CLIENT_CHANGE_CIPHER_SPEC,
       CLIENT_HELLO, SERVER_HELLO, ENCRYPTED_EXTENSIONS, SERVER_CERT_REQ, SERVER_CERT,
       SERVER_CERT_VERIFY, SERVER_FINISHED, CLIENT_CERT, CLIENT_CERT_VERIFY, CLIENT_FINISHED,
       APPLICATION_DATA]),
    (NEGOTIATED OR FULL_HANDSHAKE OR HELLO_RETRY_REQUEST OR CLIENT_AUTH OR MIDDLEBOX_COMPAT OR EARLY_CLIENT_CCS,
      [CLIENT_HELLO, CLIENT_CHANGE_CIPHER_SPEC, HELLO_RETRY_MSG, SERVER_CHANGE_CIPHER_SPEC,
       CLIENT_HELLO, SERVER_HELLO, ENCRYPTED_EXTENSIONS, SERVER_CERT_REQ, SERVER_CERT,
       SERVER_CERT_VERIFY, SERVER_FINISHED, CLIENT_CERT, CLIENT_CERT_VERIFY, CLIENT_FINISHED,
       APPLICATION_DATA]),
    (NEGOTIATED OR FULL_HANDSHAKE OR HELLO_RETRY_REQUEST OR CLIENT_AUTH OR NO_CLIENT_CERT,
      [CLIENT_HELLO, HELLO_RETRY_MSG, CLIENT_HELLO, SERVER_HELLO, ENCRYPTED_EXTENSIONS,
       SERVER_CERT_REQ, SERVER_CERT, SERVER_CERT_VERIFY, SERVER_FINISHED, CLIENT_CERT,
       CLIENT_FINISHED, APPLICATION_DATA]),
    (NEGOTIATED OR FULL_HANDSHAKE OR HELLO_RETRY_REQUEST OR CLIENT_AUTH OR NO_CLIENT_CERT OR MIDDLEBOX_COMPAT,
      [CLIENT_HELLO, HELLO_RETRY_MSG, SERVER_CHANGE_CIPHER_SPEC, CLIENT_CHANGE_CIPHER_SPEC,
       CLIENT_HELLO, SERVER_HELLO, ENCRYPTED_EXTENSIONS, SERVER_CERT_REQ, SERVER_CERT,
       SERVER_CERT_VERIFY, SERVER_FINISHED, CLIENT_CERT, CLIENT_FINISHED, APPLICATION_DATA]),
    (NEGOTIATED OR FULL_HANDSHAKE OR HELLO_RETRY_REQUEST OR CLIENT_AUTH OR NO_CLIENT_CERT OR MIDDLEBOX_COMPAT OR EARLY_CLIENT_CCS,
      [CLIENT_HELLO, CLIENT_CHANGE_CIPHER_SPEC, HELLO_RETRY_MSG, SERVER_CHANGE_CIPHER_SPEC,
       CLIENT_HELLO, SERVER_HELLO, ENCRYPTED_EXTENSIONS, SERVER_CERT_REQ, SERVER_CERT,
       SERVER_CERT_VERIFY, SERVER_FINISHED, CLIENT_CERT, CLIENT_FINISHED, APPLICATION_DATA]),
    (NEGOTIATED OR FULL_HANDSHAKE OR CLIENT_AUTH,
      [CLIENT_HELLO, SERVER_HELLO, ENCRYPTED_EXTENSIONS, SERVER_CERT_REQ, SERVER_CERT,
       SERVER_CERT_VERIFY, SERVER_FINISHED, CLIENT_CERT, CLIENT_CERT_VERIFY, CLIENT_FINISHED,
       APPLICATION_DATA]),
    (NEGOTIATED OR FULL_HANDSHAKE OR CLIENT_AUTH OR MIDDLEBOX_COMPAT,
      [CLIENT_HELLO, SERVER_HELLO, SERVER_CHANGE_CIPHER_SPEC, ENCRYPTED_EXTENSIONS, SERVER_CERT_REQ,
       SERVER_CERT, SERVER_CERT_VERIFY, SERVER_FINISHED, CLIENT_CHANGE_CIPHER_SPEC, CLIENT_CERT,
       CLIENT_CERT_VERIFY, CLIENT_FINISHED, APPLICATION_DATA]),
    (NEGOTIATED OR FULL_HANDSHAKE OR CLIENT_AUTH OR MIDDLEBOX_COMPAT OR EARLY_CLIENT_CCS,
      [CLIENT_HELLO, CLIENT_CHANGE_CIPHER_SPEC, SERVER_HELLO, SERVER_CHANGE_CIPHER_SPEC,
       ENCRYPTED_EXTENSIONS, SERVER_CERT_REQ, SERVER_CERT, SERVER_CERT_VERIFY, SERVER_FINISHED,
       CLIENT_CERT, CLIENT_CERT_VERIFY, CLIENT_FINISHED, APPLICATION_DATA]),
    (NEGOTIATED OR FULL_HANDSHAKE OR CLIENT_AUTH OR NO_CLIENT_CERT,
      [CLIENT_HELLO, SERVER_HELLO, ENCRYPTED_EXTENSIONS, SERVER_CERT_REQ, SERVER_CERT,
       SERVER_CERT_VERIFY, SERVER_FINISHED, CLIENT_CERT, CLIENT_FINISHED, APPLICATION_DATA]),
    (NEGOTIATED OR FULL_HANDSHAKE OR CLIENT_AUTH OR NO_CLIENT_CERT OR MIDDLEBOX_COMPAT,
      [CLIENT_HELLO, SERVER_HELLO, SERVER_CHANGE_CIPHER_SPEC, ENCRYPTED_EXTENSIONS, SERVER_CERT_REQ,
       SERVER_CERT, SERVER_CERT_VERIFY, SERVER_FINISHED, CLIENT_CHANGE_CIPHER_SPEC, CLIENT_CERT,
       CLIENT_FINISHED, APPLICATION_DATA]),
    (NEGOTIATED OR FULL_HANDSHAKE OR CLIENT_AUTH OR NO_CLIENT_CERT OR MIDDLEBOX_COMPAT OR EARLY_CLIENT_CCS,
      [CLIENT_HELLO, CLIENT_CHANGE_CIPHER_SPEC, SERVER_HELLO, SERVER_CHANGE_CIPHER_SPEC,
       ENCRYPTED_EXTENSIONS, SERVER_CERT_REQ, SERVER_CERT, SERVER_CERT_VERIFY, SERVER_FINISHED,
       CLIENT_CERT, CLIENT_FINISHED, APPLICATION_DATA])]"

definition tls13_handshakes :: handshake_table where
  "tls13_handshakes = tls13_handshakes_1 @ tls13_handshakes_2"

text \<open>Reading \<open>table[type][number]\<close>.\<close>

definition table_entry :: "handshake_table \<Rightarrow> u32 \<Rightarrow> int \<Rightarrow> message_type_t result" where
  "table_entry tbl t n =
     (if unat t < S2N_HANDSHAKES_COUNT \<and> 0 \<le> n \<and> n < int S2N_MAX_HANDSHAKE_LENGTH then
        (case map_of tbl t of
           None \<Rightarrow> Inr CLIENT_HELLO
         | Some row \<Rightarrow> Inr (if nat n < length row then row ! nat n else CLIENT_HELLO))
      else Inl Undefined)"


section \<open>What the tables should hold\<close>

definition has :: "u32 \<Rightarrow> u32 \<Rightarrow> bool" where
  "has t flag \<longleftrightarrow> t AND flag \<noteq> 0"

definition opt :: "bool \<Rightarrow> message_type_t \<Rightarrow> message_type_t list" where
  "opt b m = (if b then [m] else [])"

text \<open>TLS 1.2 and below: a full handshake, or an abbreviated one in which the server finishes first.\<close>

definition tls12_messages :: "u32 \<Rightarrow> message_type_t list" where
  "tls12_messages t =
     (if \<not> has t NEGOTIATED then [CLIENT_HELLO, SERVER_HELLO]
      else if \<not> has t FULL_HANDSHAKE then
        [CLIENT_HELLO, SERVER_HELLO] @ opt (has t WITH_SESSION_TICKET) SERVER_NEW_SESSION_TICKET
        @ [SERVER_CHANGE_CIPHER_SPEC, SERVER_FINISHED, CLIENT_CHANGE_CIPHER_SPEC]
        @ opt (has t WITH_NPN) CLIENT_NPN @ [CLIENT_FINISHED, APPLICATION_DATA]
      else
        [CLIENT_HELLO, SERVER_HELLO, SERVER_CERT] @ opt (has t OCSP_STATUS) SERVER_CERT_STATUS
        @ opt (has t TLS12_PERFECT_FORWARD_SECRECY) SERVER_KEY @ opt (has t CLIENT_AUTH) SERVER_CERT_REQ
        @ [SERVER_HELLO_DONE] @ opt (has t CLIENT_AUTH) CLIENT_CERT @ [CLIENT_KEY]
        @ opt (has t CLIENT_AUTH \<and> \<not> has t NO_CLIENT_CERT) CLIENT_CERT_VERIFY
        @ [CLIENT_CHANGE_CIPHER_SPEC] @ opt (has t WITH_NPN) CLIENT_NPN @ [CLIENT_FINISHED]
        @ opt (has t WITH_SESSION_TICKET) SERVER_NEW_SESSION_TICKET
        @ [SERVER_CHANGE_CIPHER_SPEC, SERVER_FINISHED, APPLICATION_DATA])"

definition tls12_type_ok :: "u32 \<Rightarrow> bool" where
  "tls12_type_ok t \<longleftrightarrow> t < 256 \<and>
     (if \<not> has t NEGOTIATED then t = INITIAL
      else if has t FULL_HANDSHAKE then (has t NO_CLIENT_CERT \<longrightarrow> has t CLIENT_AUTH)
      else \<not> has t CLIENT_AUTH \<and> \<not> has t NO_CLIENT_CERT \<and> \<not> has t TLS12_PERFECT_FORWARD_SECRECY
        \<and> \<not> has t OCSP_STATUS)"

text \<open>TLS 1.3.  The change cipher specs keep middleboxes happy: the server's follows its first message, the
  client's follows its first message when early data was offered, the retry when there is one, and
  precedes its last flight otherwise.\<close>

definition tls13_messages :: "u32 \<Rightarrow> message_type_t list" where
  "tls13_messages t =
     (let hrr = has t HELLO_RETRY_REQUEST; ccs = has t MIDDLEBOX_COMPAT; early = has t EARLY_CLIENT_CCS;
          auth = has t CLIENT_AUTH; full = has t FULL_HANDSHAKE in
      [CLIENT_HELLO] @ opt early CLIENT_CHANGE_CIPHER_SPEC @
      (if \<not> has t NEGOTIATED then [if hrr then HELLO_RETRY_MSG else SERVER_HELLO]
       else
         (if hrr
          then [HELLO_RETRY_MSG] @ opt ccs SERVER_CHANGE_CIPHER_SPEC
            @ opt (ccs \<and> \<not> early) CLIENT_CHANGE_CIPHER_SPEC @ [CLIENT_HELLO, SERVER_HELLO]
          else [SERVER_HELLO] @ opt ccs SERVER_CHANGE_CIPHER_SPEC)
         @ [ENCRYPTED_EXTENSIONS] @ opt (full \<and> auth) SERVER_CERT_REQ @ opt full SERVER_CERT
         @ opt full SERVER_CERT_VERIFY @ [SERVER_FINISHED]
         @ opt (ccs \<and> \<not> early \<and> \<not> hrr) CLIENT_CHANGE_CIPHER_SPEC
         @ opt (has t WITH_EARLY_DATA) END_OF_EARLY_DATA
         @ opt auth CLIENT_CERT @ opt (auth \<and> \<not> has t NO_CLIENT_CERT) CLIENT_CERT_VERIFY
         @ [CLIENT_FINISHED, APPLICATION_DATA]))"

definition tls13_type_ok :: "u32 \<Rightarrow> bool" where
  "tls13_type_ok t \<longleftrightarrow> t < 256 \<and> (has t EARLY_CLIENT_CCS \<longrightarrow> has t MIDDLEBOX_COMPAT) \<and>
     (if has t NEGOTIATED then
        (has t WITH_EARLY_DATA \<longrightarrow> \<not> has t FULL_HANDSHAKE \<and> \<not> has t HELLO_RETRY_REQUEST) \<and>
        (has t CLIENT_AUTH \<longrightarrow> has t FULL_HANDSHAKE) \<and> (has t NO_CLIENT_CERT \<longrightarrow> has t CLIENT_AUTH)
      else
        \<not> has t FULL_HANDSHAKE \<and> \<not> has t CLIENT_AUTH \<and> \<not> has t NO_CLIENT_CERT \<and> \<not> has t WITH_EARLY_DATA \<and>
        (has t MIDDLEBOX_COMPAT \<longrightarrow> has t EARLY_CLIENT_CCS))"


section \<open>The tables hold it\<close>

lemma tls12_rows: "list_all (\<lambda>(t, row). tls12_type_ok t \<and> row = tls12_messages t) handshakes"
  by code_simp

lemma tls13_rows: "list_all (\<lambda>(t, row). tls13_type_ok t \<and> row = tls13_messages t) tls13_handshakes"
  by code_simp

lemma tls12_keys:
  "map fst handshakes = [0, 1, 129, 65, 193, 3, 131, 67, 195, 19, 147, 83, 211, 35, 163, 99, 227, 51, 179, 115, 243, 7, 135, 15, 143, 71, 199, 79, 207, 23, 151, 31, 159, 87, 215, 95, 223, 39, 167, 47, 175, 103, 231, 111, 239, 55, 183, 63, 191, 119, 247, 127, 255]"
  by code_simp

lemma tls12_types:
  "filter tls12_type_ok (map of_nat [0..<256]) = [0, 1, 3, 7, 15, 19, 23, 31, 35, 39, 47, 51, 55, 63, 65, 67, 71, 79, 83, 87, 95, 99, 103, 111, 115, 119, 127, 129, 131, 135, 143, 147, 151, 159, 163, 167, 175, 179, 183, 191, 193, 195, 199, 207, 211, 215, 223, 227, 231, 239, 243, 247, 255]"
  by code_simp

lemma tls13_keys:
  "map fst tls13_handshakes = [0, 160, 16, 176, 1, 65, 33, 161, 97, 225, 17, 49, 177, 3, 35, 163, 19, 51, 179, 23, 55, 183, 31, 63, 191, 7, 39, 167, 15, 47, 175]"
  by code_simp

lemma tls13_types:
  "filter tls13_type_ok (map of_nat [0..<256]) = [0, 1, 3, 7, 15, 16, 17, 19, 23, 31, 33, 35, 39, 47, 49, 51, 55, 63, 65, 97, 160, 161, 163, 167, 175, 176, 177, 179, 183, 191, 225]"
  by code_simp

lemma type_listed:
  assumes "list_all (\<lambda>(t, row). P t \<and> row = f t) tbl" and "filter P (map of_nat [0..<256]) = ts"
    and "set ts \<subseteq> set (map fst tbl)" and bound: "\<And>t. P t \<Longrightarrow> t < (256 :: u32)"
  shows "map_of tbl t = (if P t then Some (f t) else None)"
proof (cases "P t")
  case True
  then have "unat t < 256"
    using bound [OF True] by (simp add: word_less_nat_alt)
  then have "t \<in> set (map of_nat [0..<256])"
    by (auto intro!: image_eqI [of _ _ "unat t"])
  then have "t \<in> set (filter P (map of_nat [0..<256]))"
    using True by (simp only: set_filter mem_Collect_eq simp_thms)
  then have "t \<in> set ts"
    by (simp only: assms(2))
  then obtain row where "map_of tbl t = Some row"
    using assms(3) by (metis map_of_eq_None_iff not_None_eq set_map subsetD)
  moreover from this have "(t, row) \<in> set tbl"
    by (rule map_of_SomeD)
  ultimately show ?thesis
    using assms(1) True by (auto simp: list_all_iff)
next
  case False
  then have "t \<notin> fst ` set tbl"
    using assms(1) by (auto simp: list_all_iff)
  then show ?thesis
    using False by (simp add: map_of_eq_None_iff)
qed

lemma handshakes_row: "map_of handshakes t = (if tls12_type_ok t then Some (tls12_messages t) else None)"
proof (rule type_listed [OF tls12_rows tls12_types])
  show "set [0, 1, 3, 7, 15, 19, 23, 31, 35, 39, 47, 51, 55, 63, 65, 67, 71, 79, 83, 87, 95, 99, 103, 111, 115,
      119, 127, 129, 131, 135, 143, 147, 151, 159, 163, 167, 175, 179, 183, 191, 193, 195, 199, 207, 211, 215,
      223, 227, 231, 239, 243, 247, 255] \<subseteq> set (map fst handshakes)"
    unfolding tls12_keys by (simp only: list.set) blast
qed (simp add: tls12_type_ok_def)

lemma tls13_handshakes_row: "map_of tls13_handshakes t = (if tls13_type_ok t then Some (tls13_messages t) else None)"
proof (rule type_listed [OF tls13_rows tls13_types])
  show "set [0, 1, 3, 7, 15, 16, 17, 19, 23, 31, 33, 35, 39, 47, 49, 51, 55, 63, 65, 97, 160, 161, 163, 167,
      175, 176, 177, 179, 183, 191, 225] \<subseteq> set (map fst tls13_handshakes)"
    unfolding tls13_keys by (simp only: list.set) blast
qed (simp add: tls13_type_ok_def)

text \<open>The shape of a negotiated row: it opens with the client hello, ends with application data, which
  occurs nowhere else, and fits the 32 columns of the table.\<close>

definition complete_row :: "message_type_t list \<Rightarrow> bool" where
  "complete_row row \<longleftrightarrow> row \<noteq> [] \<and> hd row = CLIENT_HELLO \<and> last row = APPLICATION_DATA \<and>
     APPLICATION_DATA \<notin> set (butlast row) \<and> length row \<le> 18"

lemma opt_simps [simp]:
  "opt True m = [m]" "opt False m = []" "length (opt b m) = (if b then 1 else 0)"
  "set (opt b m) = (if b then {m} else {})"
  by (simp_all add: opt_def)

lemma tls12_complete: "has t NEGOTIATED \<Longrightarrow> complete_row (tls12_messages t)"
  by (simp add: complete_row_def tls12_messages_def butlast_append)

lemma tls13_complete: "has t NEGOTIATED \<Longrightarrow> complete_row (tls13_messages t)"
  by (simp add: complete_row_def tls13_messages_def butlast_append Let_def)


section \<open>Claims\<close>

text \<open>
  C3. The message tables are the handshakes of the protocol.  For every handshake type and every column, the cell
  of \<open>handshakes\<close> and of \<open>tls13_handshakes\<close> is the message at that place of the sequence computed
  from the flags of the type by \<open>tls12_messages\<close> and \<open>tls13_messages\<close>, and the zero cell, \<open>CLIENT_HELLO\<close>,
  outside it; and every negotiated row starts with the client hello, and ends with application data, which
  occurs nowhere else.
\<close>
theorem handshake_tables_correct:
  assumes "t < 256" and "0 \<le> n" and "n < 32"
  shows "table_entry handshakes t n =
           Inr (if tls12_type_ok t \<and> nat n < length (tls12_messages t) then tls12_messages t ! nat n else CLIENT_HELLO) \<and>
         table_entry tls13_handshakes t n =
           Inr (if tls13_type_ok t \<and> nat n < length (tls13_messages t) then tls13_messages t ! nat n else CLIENT_HELLO) \<and>
         (has t NEGOTIATED \<longrightarrow> complete_row (tls12_messages t) \<and> complete_row (tls13_messages t))"
  using assms
  by (simp add: table_entry_def handshakes_row tls13_handshakes_row tls12_complete tls13_complete word_less_nat_alt)

lemma handshake_tables_witness:
  "table_entry handshakes 7 4 = Inr SERVER_HELLO_DONE \<and> table_entry tls13_handshakes 7 4 = Inr SERVER_CERT
   \<and> complete_row (tls12_messages 7)"
  using handshake_tables_correct [of 7 4]
  by (simp add: has_def tls12_type_ok_def tls13_type_ok_def tls12_messages_def tls13_messages_def opt_def)

end
