(* ===== verification/Handshake_Type.thy ===== *)
theory Handshake_Type
  imports Handshake_Tables
begin

text \<open>
  The handshake type (\<open>tls/s2n_handshake_type.c\<close>, \<open>tls/s2n_handshake_type.h\<close>): a set of flags that selects a row of
  the message tables.  Flags 16 to 128 mean different things before and after TLS 1.3, so the setters check the
  protocol version and fix the state machine (\<open>s2n_conn_choose_state_machine\<close> in \<open>tls/s2n_handshake_io.c\<close>).
\<close>

section \<open>Operations\<close>

definition s2n_conn_choose_state_machine :: "u8 \<Rightarrow> ('env, unit) conn_action" where
  "s2n_conn_choose_state_machine protocol_version conn =
     (if protocol_version = S2N_UNKNOWN_PROTOCOL_VERSION then (Inl (Err S2N_ERR_SAFETY), conn)
      else if protocol_version = S2N_TLS13 then
        if hs_state_machine (handshake conn) = S2N_STATE_MACHINE_TLS12 then (Inl (Err S2N_ERR_SAFETY), conn)
        else (Inr (), on_handshake (\<lambda>h. h\<lparr>hs_state_machine := S2N_STATE_MACHINE_TLS13\<rparr>) conn)
      else
        if hs_state_machine (handshake conn) = S2N_STATE_MACHINE_TLS13 then (Inl (Err S2N_ERR_SAFETY), conn)
        else (Inr (), on_handshake (\<lambda>h. h\<lparr>hs_state_machine := S2N_STATE_MACHINE_TLS12\<rparr>) conn))"

definition or_type :: "u32 \<Rightarrow> 'env s2n_connection \<Rightarrow> 'env s2n_connection" where
  "or_type flag = on_handshake (\<lambda>h. h\<lparr>handshake_type := handshake_type h OR flag\<rparr>)"

definition s2n_handshake_type_set_flag :: "u32 \<Rightarrow> ('env, unit) conn_action" where
  "s2n_handshake_type_set_flag flag = modify (or_type flag)"

definition s2n_handshake_type_check_flag :: "'env s2n_connection \<Rightarrow> u32 \<Rightarrow> bool" where
  "s2n_handshake_type_check_flag conn flag \<longleftrightarrow> has (handshake_type (handshake conn)) flag"

definition s2n_handshake_type_set_tls12_flag :: "u32 \<Rightarrow> ('env, unit) conn_action" where
  "s2n_handshake_type_set_tls12_flag flag = block [
     ensure_st (\<lambda>conn. s2n_connection_get_protocol_version conn < S2N_TLS13) S2N_ERR_HANDSHAKE_STATE,
     modify (or_type flag),
     s2n_conn_choose_state_machine S2N_TLS12]"

definition s2n_handshake_type_unset_tls12_flag :: "u32 \<Rightarrow> ('env, unit) conn_action" where
  "s2n_handshake_type_unset_tls12_flag flag = block [
     ensure_st (\<lambda>conn. s2n_connection_get_protocol_version conn < S2N_TLS13) S2N_ERR_HANDSHAKE_STATE,
     modify (on_handshake (\<lambda>h. h\<lparr>handshake_type := handshake_type h AND NOT flag\<rparr>))]"

definition s2n_handshake_type_check_tls12_flag :: "'env s2n_connection \<Rightarrow> u32 \<Rightarrow> bool" where
  "s2n_handshake_type_check_tls12_flag conn flag \<longleftrightarrow>
     s2n_connection_get_protocol_version conn < S2N_TLS13 \<and> has (handshake_type (handshake conn)) flag"

definition s2n_handshake_type_set_tls13_flag :: "u32 \<Rightarrow> ('env, unit) conn_action" where
  "s2n_handshake_type_set_tls13_flag flag = block [
     ensure_st (\<lambda>conn. s2n_connection_get_protocol_version conn \<ge> S2N_TLS13) S2N_ERR_HANDSHAKE_STATE,
     modify (or_type flag),
     s2n_conn_choose_state_machine S2N_TLS13]"

definition s2n_handshake_type_check_tls13_flag :: "'env s2n_connection \<Rightarrow> u32 \<Rightarrow> bool" where
  "s2n_handshake_type_check_tls13_flag conn flag \<longleftrightarrow>
     s2n_connection_get_protocol_version conn \<ge> S2N_TLS13 \<and> has (handshake_type (handshake conn)) flag"

definition s2n_handshake_type_reset :: "('env, unit) conn_action" where
  "s2n_handshake_type_reset = modify (on_handshake (\<lambda>h. h\<lparr>handshake_type := 0\<rparr>))"

definition IS_NEGOTIATED :: "'env s2n_connection \<Rightarrow> bool" where
  "IS_NEGOTIATED conn = s2n_handshake_type_check_flag conn NEGOTIATED"

definition IS_FULL_HANDSHAKE :: "'env s2n_connection \<Rightarrow> bool" where
  "IS_FULL_HANDSHAKE conn = s2n_handshake_type_check_flag conn FULL_HANDSHAKE"

definition IS_RESUMPTION_HANDSHAKE :: "'env s2n_connection \<Rightarrow> bool" where
  "IS_RESUMPTION_HANDSHAKE conn \<longleftrightarrow> \<not> IS_FULL_HANDSHAKE conn \<and> IS_NEGOTIATED conn"

definition IS_CLIENT_AUTH_HANDSHAKE :: "'env s2n_connection \<Rightarrow> bool" where
  "IS_CLIENT_AUTH_HANDSHAKE conn = s2n_handshake_type_check_flag conn CLIENT_AUTH"

definition IS_CLIENT_AUTH_NO_CERT :: "'env s2n_connection \<Rightarrow> bool" where
  "IS_CLIENT_AUTH_NO_CERT conn \<longleftrightarrow>
     IS_CLIENT_AUTH_HANDSHAKE conn \<and> s2n_handshake_type_check_flag conn NO_CLIENT_CERT"

definition IS_TLS12_PERFECT_FORWARD_SECRECY_HANDSHAKE :: "'env s2n_connection \<Rightarrow> bool" where
  "IS_TLS12_PERFECT_FORWARD_SECRECY_HANDSHAKE conn =
     s2n_handshake_type_check_tls12_flag conn TLS12_PERFECT_FORWARD_SECRECY"

definition IS_OCSP_STAPLED :: "'env s2n_connection \<Rightarrow> bool" where
  "IS_OCSP_STAPLED conn = s2n_handshake_type_check_tls12_flag conn OCSP_STATUS"

definition IS_ISSUING_NEW_SESSION_TICKET :: "'env s2n_connection \<Rightarrow> bool" where
  "IS_ISSUING_NEW_SESSION_TICKET conn = s2n_handshake_type_check_tls12_flag conn WITH_SESSION_TICKET"

definition IS_NPN_HANDSHAKE :: "'env s2n_connection \<Rightarrow> bool" where
  "IS_NPN_HANDSHAKE conn = s2n_handshake_type_check_tls12_flag conn WITH_NPN"

definition IS_HELLO_RETRY_HANDSHAKE :: "'env s2n_connection \<Rightarrow> bool" where
  "IS_HELLO_RETRY_HANDSHAKE conn = s2n_handshake_type_check_tls13_flag conn HELLO_RETRY_REQUEST"

definition IS_MIDDLEBOX_COMPAT_MODE :: "'env s2n_connection \<Rightarrow> bool" where
  "IS_MIDDLEBOX_COMPAT_MODE conn = s2n_handshake_type_check_tls13_flag conn MIDDLEBOX_COMPAT"

definition IS_WITH_EARLY_DATA :: "'env s2n_connection \<Rightarrow> bool" where
  "IS_WITH_EARLY_DATA conn = s2n_handshake_type_check_tls13_flag conn WITH_EARLY_DATA"

definition IS_WITH_EARLY_CLIENT_CCS :: "'env s2n_connection \<Rightarrow> bool" where
  "IS_WITH_EARLY_CLIENT_CCS conn = s2n_handshake_type_check_tls13_flag conn EARLY_CLIENT_CCS"


section \<open>How flags combine\<close>

named_theorems flag_simps \<open>how flags combine\<close>

lemma has_or [flag_simps]: "has (t OR f) g \<longleftrightarrow> has t g \<or> has f g"
  by (simp add: has_def bit.conj_disj_distrib2 or_eq_0_iff)

lemma has_and [flag_simps]: "has (t AND m) g = has t (m AND g)"
  by (simp add: has_def and.assoc)

lemma has_zero [flag_simps]: "\<not> has t 0" "\<not> has 0 g"
  by (simp_all add: has_def)

lemma has_numeral [flag_simps]:
  "has (numeral a) (numeral b) \<longleftrightarrow> (numeral a :: u32) AND numeral b \<noteq> 0"
  "has 1 (numeral b) \<longleftrightarrow> (1 :: u32) AND numeral b \<noteq> 0"
  "has (numeral a) 1 \<longleftrightarrow> (numeral a :: u32) AND 1 \<noteq> 0"
  "has 1 1"
  by (simp_all add: has_def)

lemma less_256_has: "t < 256 \<longleftrightarrow> \<not> has t (NOT 255)"
proof
  assume "t < 256"
  then have "take_bit 8 (unat t) = unat t"
    by (simp add: word_less_nat_alt take_bit_nat_eq_self_iff)
  then have "take_bit 8 t = t"
    by (intro word_unat_eqI) (simp add: unsigned_take_bit_eq)
  then have "t AND 255 = t"
    by (simp add: take_bit_eq_mask mask_eq_decr_exp)
  then have "t AND NOT 255 = (t AND 255) AND NOT 255"
    by (simp only:)
  then have "t AND NOT 255 = 0"
    by (simp only: and.assoc bit.conj_cancel_right and_zero_eq)
  then show "\<not> has t (NOT 255)"
    by (simp add: has_def)
next
  assume "\<not> has t (NOT 255)"
  then have "t AND NOT 255 = 0"
    by (simp add: has_def)
  moreover have "t = (t AND 255) OR (t AND NOT 255)"
    by (simp add: bit.conj_disj_distrib [symmetric])
  ultimately have "t = t AND 255"
    by simp
  also have "\<dots> \<le> 255"
    by (rule word_and_le1)
  finally show "t < 256"
    by (simp add: word_le_nat_alt word_less_nat_alt)
qed

lemma or_less_256 [flag_simps]: "t OR f < 256 \<longleftrightarrow> t < 256 \<and> f < 256" for t f :: u32
  by (simp add: less_256_has has_or)

end
