(* ===== verification/Early_Data.thy ===== *)
theory Early_Data
  imports Handshake_Type
begin

text \<open>
  Early data (\<open>tls/s2n_early_data.c\<close>): the state of the negotiation, the conditions of RFC 8446 section 4.2.10
  under which it may be accepted, the size limits, and the early data configuration of a pre-shared key.

  The application's callback is an optional action on the connection that says whether it succeeded.
\<close>

section \<open>The state of the negotiation\<close>

fun valid_previous_states :: "s2n_early_data_state \<Rightarrow> s2n_early_data_state" where
  "valid_previous_states S2N_EARLY_DATA_REQUESTED = S2N_UNKNOWN_EARLY_DATA_STATE"
| "valid_previous_states S2N_EARLY_DATA_NOT_REQUESTED = S2N_UNKNOWN_EARLY_DATA_STATE"
| "valid_previous_states S2N_EARLY_DATA_REJECTED = S2N_EARLY_DATA_REQUESTED"
| "valid_previous_states S2N_EARLY_DATA_ACCEPTED = S2N_EARLY_DATA_REQUESTED"
| "valid_previous_states S2N_END_OF_EARLY_DATA = S2N_EARLY_DATA_ACCEPTED"
| "valid_previous_states _ = S2N_UNKNOWN_EARLY_DATA_STATE"

definition s2n_connection_set_early_data_state :: "s2n_early_data_state \<Rightarrow> ('env, unit) conn_action" where
  "s2n_connection_set_early_data_state next_state conn =
     (if early_data_state conn = next_state then (Inr (), conn)
      else if next_state = S2N_EARLY_DATA_STATES_COUNT then (Inl (Err S2N_ERR_INVALID_EARLY_DATA_STATE), conn)
      else if next_state = S2N_UNKNOWN_EARLY_DATA_STATE then (Inl (Err S2N_ERR_INVALID_EARLY_DATA_STATE), conn)
      else if early_data_state conn \<noteq> valid_previous_states next_state
        then (Inl (Err S2N_ERR_INVALID_EARLY_DATA_STATE), conn)
      else (Inr (), conn\<lparr>early_data_state := next_state\<rparr>))"

definition s2n_connection_set_early_data_expected :: "('env, unit) conn_action" where
  "s2n_connection_set_early_data_expected = modify (\<lambda>conn. conn\<lparr>early_data_expected := True\<rparr>)"

definition s2n_connection_set_end_of_early_data :: "('env, unit) conn_action" where
  "s2n_connection_set_end_of_early_data = modify (\<lambda>conn. conn\<lparr>early_data_expected := False\<rparr>)"


section \<open>Accepting or rejecting\<close>

text \<open>\<open>strlen\<close> on a fixed array: it reads past the end when there is no terminator.\<close>

definition c_strlen :: "bytes \<Rightarrow> nat result" where
  "c_strlen bs = (if 0 \<in> set bs then Inr (length (takeWhile (\<lambda>c. c \<noteq> 0) bs)) else Inl Undefined)"

definition s2n_early_data_validate :: "'env s2n_connection \<Rightarrow> unit result" where
  "s2n_early_data_validate conn =
     (case secure conn of
        None \<Rightarrow> Inl (Err S2N_ERR_NULL)
      | Some params \<Rightarrow>
     (case chosen_psk (psk_params conn) of
        None \<Rightarrow> Inl (Err S2N_ERR_NULL)
      | Some psk \<Rightarrow>
     (let cfg = early_data_config psk in
      if chosen_psk_wire_index (psk_params conn) \<noteq> 0 then Inl (Err S2N_ERR_SAFETY)
      else if \<not> ed_max_early_data_size cfg > 0 then Inl (Err S2N_ERR_SAFETY)
      else if ed_protocol_version cfg \<noteq> s2n_connection_get_protocol_version conn then Inl (Err S2N_ERR_SAFETY)
      else if ed_cipher_suite cfg \<noteq> cipher_suite params then Inl (Err S2N_ERR_SAFETY)
      else
     (case c_strlen (application_protocol conn) of
        Inl e \<Rightarrow> Inl e
      | Inr app_protocol_size \<Rightarrow>
          if app_protocol_size > 0 \<or> b_size (ed_application_protocol cfg) > 0 then
            if unat (b_size (ed_application_protocol cfg)) \<noteq> app_protocol_size + 1 then Inl (Err S2N_ERR_SAFETY)
            else
              (case s2n_constant_time_equals (b_data (ed_application_protocol cfg))
                      (Some (application_protocol conn)) (of_nat app_protocol_size) of
                 Inl e \<Rightarrow> Inl e
               | Inr eq \<Rightarrow> if eq then Inr () else Inl (Err S2N_ERR_SAFETY))
          else Inr ()))))"

definition s2n_early_data_is_valid_for_connection :: "'env s2n_connection \<Rightarrow> bool" where
  "s2n_early_data_is_valid_for_connection conn = is_ok (s2n_early_data_validate conn)"

definition early_data_application_cb ::
  "('env, bool) conn_action option \<Rightarrow> ('env, unit) conn_action" where
  "early_data_application_cb cb =
     (case cb of
        Some early_data_cb \<Rightarrow>
          andthen (modify (on_handshake (\<lambda>h. h\<lparr>early_data_async_conn := True\<rparr>)))
            (bnd early_data_cb (\<lambda>ok.
               andthen (ensure ok S2N_ERR_CANCELLED)
                 (\<lambda>conn. if early_data_state conn = S2N_EARLY_DATA_REQUESTED
                         then bail S2N_ERR_ASYNC_BLOCKED conn else ret () conn)))
      | None \<Rightarrow> s2n_connection_set_early_data_state S2N_EARLY_DATA_ACCEPTED)"

definition s2n_early_data_accept_or_reject ::
  "('env, bool) conn_action option \<Rightarrow> ('env, unit) conn_action" where
  "s2n_early_data_accept_or_reject cb conn =
     (if early_data_state conn \<noteq> S2N_EARLY_DATA_REQUESTED then ret () conn
      else if early_data_async_conn (handshake conn) then bail S2N_ERR_ASYNC_BLOCKED conn
      else if \<not> s2n_early_data_is_valid_for_connection conn
        then s2n_connection_set_early_data_state S2N_EARLY_DATA_REJECTED conn
      else if mode conn = S2N_CLIENT then ret () conn
      else if \<not> early_data_expected conn
        then s2n_connection_set_early_data_state S2N_EARLY_DATA_REJECTED conn
      else if config conn = None then bail S2N_ERR_NULL conn
      else early_data_application_cb cb conn)"

definition s2n_offered_early_data_reject :: "('env, unit) conn_action" where
  "s2n_offered_early_data_reject = s2n_connection_set_early_data_state S2N_EARLY_DATA_REJECTED"

definition s2n_offered_early_data_accept :: "('env, unit) conn_action" where
  "s2n_offered_early_data_accept = s2n_connection_set_early_data_state S2N_EARLY_DATA_ACCEPTED"

definition s2n_offered_early_data_get_context_length :: "'env s2n_connection \<Rightarrow> u16 result" where
  "s2n_offered_early_data_get_context_length conn =
     (case chosen_psk (psk_params conn) of
        None \<Rightarrow> Inl (Err S2N_ERR_NULL)
      | Some psk \<Rightarrow> Inr (ucast (b_size (ed_context (early_data_config psk)))))"

text \<open>The caller's buffer is passed with its contents and returned as the call leaves it.\<close>

definition s2n_offered_early_data_get_context ::
  "'env s2n_connection \<Rightarrow> bytes \<Rightarrow> u16 \<Rightarrow> bytes result" where
  "s2n_offered_early_data_get_context conn buf max_len =
     (case chosen_psk (psk_params conn) of
        None \<Rightarrow> Inl (Err S2N_ERR_NULL)
      | Some psk \<Rightarrow>
          let ctx = ed_context (early_data_config psk) in
          if \<not> unat (b_size ctx) \<le> unat max_len then Inl (Err S2N_ERR_INSUFFICIENT_MEM_SIZE)
          else case checked_memcpy (Some buf) 0 (b_data ctx) 0 (unat (b_size ctx)) of
                 Inl e \<Rightarrow> Inl e
               | Inr d \<Rightarrow> Inr (case d of Some m \<Rightarrow> m | None \<Rightarrow> buf))"


section \<open>Limits\<close>

definition s2n_config_set_server_max_early_data_size :: "u32 \<Rightarrow> (s2n_config, unit) action" where
  "s2n_config_set_server_max_early_data_size n = modify (\<lambda>cfg. cfg\<lparr>config_server_max_early_data_size := n\<rparr>)"

definition s2n_connection_set_server_max_early_data_size :: "u32 \<Rightarrow> ('env, unit) conn_action" where
  "s2n_connection_set_server_max_early_data_size n =
     modify (\<lambda>conn. conn\<lparr>server_max_early_data_size := n, server_max_early_data_size_overridden := True\<rparr>)"

definition s2n_early_data_get_server_max_size :: "'env s2n_connection \<Rightarrow> u32 result" where
  "s2n_early_data_get_server_max_size conn =
     (if server_max_early_data_size_overridden conn then Inr (server_max_early_data_size conn)
      else case config conn of
        None \<Rightarrow> Inl (Err S2N_ERR_NULL)
      | Some cfg \<Rightarrow> Inr (config_server_max_early_data_size cfg))"

definition s2n_connection_get_max_early_data_size :: "'env s2n_connection \<Rightarrow> u32 result" where
  "s2n_connection_get_max_early_data_size conn =
     (case s2n_early_data_get_server_max_size conn of
        Inl e \<Rightarrow> Inl e
      | Inr server_max \<Rightarrow>
          (case psk_list (psk_params conn) of
             [] \<Rightarrow> Inr (if mode conn = S2N_SERVER \<and> \<not> IS_NEGOTIATED conn then server_max else 0)
           | first_psk # _ \<Rightarrow>
               let max_size = ed_max_early_data_size (early_data_config first_psk) in
               Inr (if mode conn = S2N_SERVER \<and> psk_type first_psk = S2N_PSK_TYPE_RESUMPTION
                    then min max_size server_max else max_size)))"

definition s2n_get_remaining_early_data_bytes :: "'env s2n_connection \<Rightarrow> u32 result" where
  "s2n_get_remaining_early_data_bytes conn =
     (case s2n_connection_get_max_early_data_size conn of
        Inl e \<Rightarrow> Inl e
      | Inr max_size \<Rightarrow>
          if ucast max_size \<ge> early_data_bytes conn
          then Inr (ucast (ucast max_size - early_data_bytes conn))
          else Inl (Err S2N_ERR_MAX_EARLY_DATA_SIZE))"

definition s2n_connection_get_remaining_early_data_size :: "'env s2n_connection \<Rightarrow> u32 result" where
  "s2n_connection_get_remaining_early_data_size conn =
     (case early_data_state conn of
        S2N_EARLY_DATA_STATES_COUNT \<Rightarrow> Inr 0
      | S2N_EARLY_DATA_NOT_REQUESTED \<Rightarrow> Inr 0
      | S2N_EARLY_DATA_REJECTED \<Rightarrow> Inr 0
      | S2N_END_OF_EARLY_DATA \<Rightarrow> Inr 0
      | S2N_UNKNOWN_EARLY_DATA_STATE \<Rightarrow> s2n_get_remaining_early_data_bytes conn
      | S2N_EARLY_DATA_REQUESTED \<Rightarrow> s2n_get_remaining_early_data_bytes conn
      | S2N_EARLY_DATA_ACCEPTED \<Rightarrow> s2n_get_remaining_early_data_bytes conn)"

datatype s2n_early_data_status_t = S2N_EARLY_DATA_STATUS_OK | S2N_EARLY_DATA_STATUS_NOT_REQUESTED
  | S2N_EARLY_DATA_STATUS_REJECTED | S2N_EARLY_DATA_STATUS_END

definition s2n_connection_get_early_data_status :: "'env s2n_connection \<Rightarrow> s2n_early_data_status_t result" where
  "s2n_connection_get_early_data_status conn =
     (case early_data_state conn of
        S2N_EARLY_DATA_STATES_COUNT \<Rightarrow> Inl (Err S2N_ERR_INVALID_EARLY_DATA_STATE)
      | S2N_EARLY_DATA_NOT_REQUESTED \<Rightarrow> Inr S2N_EARLY_DATA_STATUS_NOT_REQUESTED
      | S2N_EARLY_DATA_REJECTED \<Rightarrow> Inr S2N_EARLY_DATA_STATUS_REJECTED
      | S2N_END_OF_EARLY_DATA \<Rightarrow> Inr S2N_EARLY_DATA_STATUS_END
      | _ \<Rightarrow> Inr S2N_EARLY_DATA_STATUS_OK)"


section \<open>The configuration of a pre-shared key\<close>

type_synonym mem_psk = "s2n_mem \<times> s2n_psk"

text \<open>\<open>s2n_realloc\<close> of a blob followed by copying caller memory into it.\<close>

definition replace_blob :: "bytes option \<Rightarrow> nat \<Rightarrow> (mem_blob, unit) action" where
  "replace_blob src n =
     andthen (\<lambda>st. if n > 0 \<and> src = None then bail S2N_ERR_NULL st else ret () st)
       (andthen (s2n_realloc (of_nat n))
          (\<lambda>(m, b). case checked_memcpy (b_data b) 0 src 0 n of
               Inl e \<Rightarrow> (Inl e, (m, b))
             | Inr d \<Rightarrow> (Inr (), (m, b\<lparr>b_data := d\<rparr>))))"

definition s2n_connection_set_server_early_data_context :: "bytes option \<Rightarrow> u16 \<Rightarrow> ('env, unit) conn_action" where
  "s2n_connection_set_server_early_data_context src context_size =
     zoom (\<lambda>conn. (mem conn, server_early_data_context conn))
       (\<lambda>(m, b) conn. conn\<lparr>mem := m, server_early_data_context := b\<rparr>) (replace_blob src (unat context_size))"

definition s2n_psk_set_application_protocol :: "bytes option \<Rightarrow> u8 \<Rightarrow> (mem_psk, unit) action" where
  "s2n_psk_set_application_protocol src sz =
     zoom (\<lambda>(m, psk). (m, ed_application_protocol (early_data_config psk)))
       (\<lambda>(m, b) (_, psk). (m, psk\<lparr>early_data_config := (early_data_config psk)\<lparr>ed_application_protocol := b\<rparr>\<rparr>))
       (replace_blob src (unat sz))"

definition s2n_psk_set_early_data_context :: "bytes option \<Rightarrow> u16 \<Rightarrow> (mem_psk, unit) action" where
  "s2n_psk_set_early_data_context src sz =
     zoom (\<lambda>(m, psk). (m, ed_context (early_data_config psk)))
       (\<lambda>(m, b) (_, psk). (m, psk\<lparr>early_data_config := (early_data_config psk)\<lparr>ed_context := b\<rparr>\<rparr>))
       (replace_blob src (unat sz))"

definition s2n_early_data_config_free :: "(s2n_mem \<times> s2n_early_data_config, unit) action" where
  "s2n_early_data_config_free =
     andthen
       (zoom (\<lambda>(m, cfg). (m, ed_application_protocol cfg))
          (\<lambda>(m, b) (_, cfg). (m, cfg\<lparr>ed_application_protocol := b\<rparr>)) s2n_free)
       (zoom (\<lambda>(m, cfg). (m, ed_context cfg)) (\<lambda>(m, b) (_, cfg). (m, cfg\<lparr>ed_context := b\<rparr>)) s2n_free)"

definition s2n_psk_configure_early_data ::
  "cipher_suites_state \<Rightarrow> u32 \<Rightarrow> u8 \<Rightarrow> u8 \<Rightarrow> (s2n_psk, unit) action" where
  "s2n_psk_configure_early_data st max_size first_byte second_byte psk =
     (case s2n_cipher_suite_from_iana (Some [first_byte, second_byte]) S2N_TLS_CIPHER_SUITE_LEN of
        Inl e \<Rightarrow> (Inl e, psk)
      | Inr r \<Rightarrow> let suite = suite_obj st r in
          if prf_alg suite \<noteq> hmac_alg psk then (Inl (Err S2N_ERR_INVALID_ARGUMENT), psk)
          else (Inr (), psk\<lparr>early_data_config := (early_data_config psk)\<lparr>
                  ed_max_early_data_size := max_size, ed_protocol_version := S2N_TLS13,
                  ed_cipher_suite := Some suite\<rparr>\<rparr>))"

definition s2n_early_data_config_clone :: "s2n_early_data_config \<Rightarrow> (mem_psk, unit) action" where
  "s2n_early_data_config_clone old_config =
     block [
       modify (\<lambda>(m, new_psk). let config_copy = early_data_config new_psk in
         (m, new_psk\<lparr>early_data_config := old_config\<lparr>
               ed_application_protocol := ed_application_protocol config_copy,
               ed_context := ed_context config_copy\<rparr>\<rparr>)),
       s2n_psk_set_application_protocol (b_data (ed_application_protocol old_config))
         (ucast (b_size (ed_application_protocol old_config))),
       s2n_psk_set_early_data_context (b_data (ed_context old_config))
         (ucast (b_size (ed_context old_config)))]"


section \<open>Paths through the negotiation\<close>

text \<open>The states a sequence of requests goes through; a refused or repeated request adds nothing.\<close>

fun early_data_history :: "s2n_early_data_state list \<Rightarrow> 'env s2n_connection \<Rightarrow> s2n_early_data_state list" where
  "early_data_history [] conn = []"
| "early_data_history (x # xs) conn =
     (let conn' = snd (s2n_connection_set_early_data_state x conn) in
      (if early_data_state conn' = early_data_state conn then [] else [early_data_state conn'])
      @ early_data_history xs conn')"

definition paths :: "s2n_early_data_state \<Rightarrow> s2n_early_data_state list set" where
  "paths st = (case st of
      S2N_UNKNOWN_EARLY_DATA_STATE \<Rightarrow> {[], [S2N_EARLY_DATA_NOT_REQUESTED], [S2N_EARLY_DATA_REQUESTED],
        [S2N_EARLY_DATA_REQUESTED, S2N_EARLY_DATA_REJECTED], [S2N_EARLY_DATA_REQUESTED, S2N_EARLY_DATA_ACCEPTED],
        [S2N_EARLY_DATA_REQUESTED, S2N_EARLY_DATA_ACCEPTED, S2N_END_OF_EARLY_DATA]}
    | S2N_EARLY_DATA_REQUESTED \<Rightarrow> {[], [S2N_EARLY_DATA_REJECTED], [S2N_EARLY_DATA_ACCEPTED],
        [S2N_EARLY_DATA_ACCEPTED, S2N_END_OF_EARLY_DATA]}
    | S2N_EARLY_DATA_ACCEPTED \<Rightarrow> {[], [S2N_END_OF_EARLY_DATA]}
    | _ \<Rightarrow> {[]})"

lemma set_state_step:
  "early_data_state (snd (s2n_connection_set_early_data_state x c)) =
     (if x \<notin> {S2N_EARLY_DATA_STATES_COUNT, S2N_UNKNOWN_EARLY_DATA_STATE} \<and>
         early_data_state c = valid_previous_states x then x else early_data_state c)"
  by (cases x) (auto simp: s2n_connection_set_early_data_state_def)

lemma history_paths: "early_data_history xs c \<in> paths (early_data_state c)"
proof (induction xs arbitrary: c)
  case Nil
  then show ?case
    by (cases "early_data_state c") (simp_all add: paths_def)
next
  case (Cons x xs)
  have "early_data_history xs (snd (s2n_connection_set_early_data_state x c))
      \<in> paths (early_data_state (snd (s2n_connection_set_early_data_state x c)))"
    by (rule Cons.IH)
  then show ?case
    by (cases x; cases "early_data_state c") (auto simp: set_state_step paths_def Let_def)
qed


section \<open>What validation checks\<close>

text \<open>The application protocol of a connection, and the agreement RFC 8446 asks for.\<close>

definition alpn :: "'env s2n_connection \<Rightarrow> bytes" where
  "alpn conn = takeWhile (\<lambda>c. c \<noteq> 0) (application_protocol conn)"

definition alpn_matches :: "s2n_blob \<Rightarrow> bytes \<Rightarrow> bool" where
  "alpn_matches b proto \<longleftrightarrow>
     (if proto = [] \<and> b_size b = 0 then True
      else length (blob_bytes b) = length proto + 1 \<and> take (length proto) (blob_bytes b) = proto)"

definition early_data_permitted :: "'env s2n_connection \<Rightarrow> bool" where
  "early_data_permitted conn \<longleftrightarrow>
     (\<exists>psk params. chosen_psk (psk_params conn) = Some psk \<and> secure conn = Some params \<and>
        chosen_psk_wire_index (psk_params conn) = 0 \<and>
        ed_max_early_data_size (early_data_config psk) > 0 \<and>
        ed_protocol_version (early_data_config psk) = s2n_connection_get_protocol_version conn \<and>
        ed_cipher_suite (early_data_config psk) = cipher_suite params \<and>
        alpn_matches (ed_application_protocol (early_data_config psk)) (alpn conn))"

lemma blob_bytes_length: "blob_wf b \<Longrightarrow> length (blob_bytes b) = unat (b_size b)"
  unfolding blob_wf_def s2n_blob_validate_def blob_bytes_def by (auto split: option.splits)


lemma c_strlen_alpn: "0 \<in> set (application_protocol c) \<Longrightarrow> c_strlen (application_protocol c) = Inr (length (alpn c))"
  by (simp add: c_strlen_def alpn_def)

lemma alpn_prefix: "take (length (alpn c)) (application_protocol c) = alpn c"
  by (simp add: alpn_def takeWhile_eq_take [symmetric])

lemma alpn_length:
  assumes "0 \<in> set (application_protocol c)"
  shows "length (alpn c) < length (application_protocol c)"
proof -
  have "length (takeWhile P xs) < length xs" if "x \<in> set xs" "\<not> P x" for P :: "u8 \<Rightarrow> bool" and xs x
    using that by (induction xs) auto
  from this [OF assms, of "\<lambda>c. c \<noteq> 0"] show ?thesis
    by (simp add: alpn_def)
qed

text \<open>The comparison of application protocols, on a connection whose array is terminated.\<close>

lemma alpn_check:
  assumes b: "blob_wf b" and nul: "0 \<in> set (application_protocol c)" and len: "length (application_protocol c) = 256"
    and size: "unat (b_size b) = length (alpn c) + 1"
  shows "s2n_constant_time_equals (b_data b) (Some (application_protocol c)) (of_nat (length (alpn c))) =
    Inr (take (length (alpn c)) (blob_bytes b) = alpn c)"
proof -
  let ?n = "length (alpn c)"
  have n: "unat (of_nat ?n :: u32) = ?n"
    using alpn_length [OF nul] len by (intro unat_of_nat_u32) simp
  obtain m where m: "b_data b = Some m" "unat (b_size b) \<le> length m"
    using b size by (auto simp: blob_wf_def s2n_blob_validate_def split: option.splits)
  have "s2n_constant_time_equals (Some m) (Some (application_protocol c)) (of_nat ?n) =
      Inr (take ?n m = take ?n (application_protocol c))"
    using constant_time_equals_some [of "of_nat ?n" m "application_protocol c"] m(2) size alpn_length [OF nul]
    by (simp add: n)
  then show ?thesis
    using m size by (simp add: blob_bytes_def alpn_prefix)
qed

lemma validate_iff:
  assumes "0 \<in> set (application_protocol c)" and "length (application_protocol c) = 256"
    and "\<And>psk. chosen_psk (psk_params c) = Some psk \<Longrightarrow> blob_wf (ed_application_protocol (early_data_config psk))"
  shows "s2n_early_data_validate c = Inr () \<longleftrightarrow> early_data_permitted c"
proof (cases "secure c = None \<or> chosen_psk (psk_params c) = None")
  case True
  then show ?thesis
    by (auto simp: s2n_early_data_validate_def early_data_permitted_def split: option.splits)
next
  case False
  then obtain params psk where some: "secure c = Some params" "chosen_psk (psk_params c) = Some psk"
    by auto
  let ?b = "ed_application_protocol (early_data_config psk)"
  have wf: "blob_wf ?b"
    using assms(3) some(2) by simp
  have len: "length (blob_bytes ?b) = unat (b_size ?b)"
    using wf by (rule blob_bytes_length)
  have match: "alpn_matches ?b (alpn c) \<longleftrightarrow>
      (length (alpn c) > 0 \<or> b_size ?b > 0 \<longrightarrow>
         unat (b_size ?b) = length (alpn c) + 1 \<and> take (length (alpn c)) (blob_bytes ?b) = alpn c)"
    by (auto simp: alpn_matches_def len word_neq_0_conv)
  show ?thesis
    using some match alpn_check [OF wf assms(1,2)]
    by (auto simp: s2n_early_data_validate_def early_data_permitted_def Let_def c_strlen_alpn [OF assms(1)]
        split: if_splits)
qed


section \<open>Claims\<close>

text \<open>
  C5. Early data is decided once.  Whatever sequence of states is requested with
  \<open>s2n_connection_set_early_data_state\<close>, the states a connection goes through from the unknown state are a
  beginning of: not requested; requested, rejected; requested, accepted, end of early data.  In
  particular rejected early data is never accepted later, and it never ends without having been accepted.
\<close>
theorem early_data_decided_once:
  assumes "early_data_state c = S2N_UNKNOWN_EARLY_DATA_STATE"
  shows "\<exists>rest. early_data_history xs c @ rest \<in>
    {[S2N_EARLY_DATA_NOT_REQUESTED], [S2N_EARLY_DATA_REQUESTED, S2N_EARLY_DATA_REJECTED],
     [S2N_EARLY_DATA_REQUESTED, S2N_EARLY_DATA_ACCEPTED, S2N_END_OF_EARLY_DATA]}"
  using history_paths [of xs c] unfolding assms paths_def by fastforce

lemma early_data_decided_once_witness:
  "early_data_history [S2N_EARLY_DATA_REQUESTED, S2N_EARLY_DATA_REJECTED, S2N_EARLY_DATA_ACCEPTED, S2N_END_OF_EARLY_DATA]
     (example_conn S2N_SERVER) = [S2N_EARLY_DATA_REQUESTED, S2N_EARLY_DATA_REJECTED] \<and>
   (\<exists>rest. early_data_history [S2N_EARLY_DATA_REQUESTED, S2N_EARLY_DATA_REJECTED, S2N_EARLY_DATA_ACCEPTED, S2N_END_OF_EARLY_DATA]
     (example_conn S2N_SERVER) @ rest \<in>
    {[S2N_EARLY_DATA_NOT_REQUESTED], [S2N_EARLY_DATA_REQUESTED, S2N_EARLY_DATA_REJECTED],
     [S2N_EARLY_DATA_REQUESTED, S2N_EARLY_DATA_ACCEPTED, S2N_END_OF_EARLY_DATA]})"
  using early_data_decided_once [of "example_conn S2N_SERVER"
      "[S2N_EARLY_DATA_REQUESTED, S2N_EARLY_DATA_REJECTED, S2N_EARLY_DATA_ACCEPTED, S2N_END_OF_EARLY_DATA]"]
  by (simp add: example_conn_def s2n_connection_set_early_data_state_def)


definition example_psk :: "bytes \<Rightarrow> s2n_psk" where
  "example_psk proto = \<lparr>psk_type = S2N_PSK_TYPE_RESUMPTION, hmac_alg = S2N_HMAC_SHA256,
     early_data_config = \<lparr>ed_max_early_data_size = 100, ed_protocol_version = S2N_TLS13,
       ed_cipher_suite = Some example_suite,
       ed_application_protocol = \<lparr>b_data = Some proto, b_size = of_nat (length proto), b_allocated = 0,
         b_growable = False\<rparr>,
       ed_context = empty_blob\<rparr>\<rparr>"

definition example_early_conn :: "bytes \<Rightarrow> unit s2n_connection" where
  "example_early_conn proto = (example_conn S2N_SERVER)\<lparr>early_data_state := S2N_EARLY_DATA_REQUESTED,
     early_data_expected := True, actual_protocol_version := S2N_TLS13,
     application_protocol := [104, 50] @ replicate 254 0,
     psk_params := \<lparr>psk_list = [example_psk proto], chosen_psk = Some (example_psk proto), chosen_psk_wire_index = 0\<rparr>\<rparr>"


text \<open>
  C28. The application protocol of a ticket is never accepted.  Session tickets carry the negotiated application
  protocol without a terminating zero (\<open>s2n_resume.c\<close> writes \<open>strlen\<close> bytes and reads them back with
  \<open>s2n_psk_set_application_protocol\<close>), but \<open>s2n_early_data_validate\<close> requires one more byte.  So whenever a
  connection has an application protocol and the chosen key carries exactly that protocol, early data is
  not valid for the connection.
\<close>
theorem early_data_ticket_protocol_refused:
  assumes "0 \<in> set (application_protocol c)" and "length (application_protocol c) = 256"
    and "chosen_psk (psk_params c) = Some psk" and "blob_wf (ed_application_protocol (early_data_config psk))"
    and "alpn c \<noteq> []" and "blob_bytes (ed_application_protocol (early_data_config psk)) = alpn c"
  shows "\<not> s2n_early_data_is_valid_for_connection c"
proof -
  have "s2n_early_data_validate c = Inr () \<longleftrightarrow> early_data_permitted c"
    using assms(1-4) by (intro validate_iff) simp_all
  moreover have "\<not> early_data_permitted c"
    using assms(3,5,6) by (simp add: early_data_permitted_def alpn_matches_def)
  ultimately show ?thesis
    by (simp add: s2n_early_data_is_valid_for_connection_def is_ok_iff)
qed

lemma early_data_ticket_protocol_witness:
  "alpn (example_early_conn [104, 50]) = [104, 50] \<and>
   \<not> s2n_early_data_is_valid_for_connection (example_early_conn [104, 50])"
proof -
  have "alpn (example_early_conn [104, 50]) = [104, 50]"
    by (simp add: alpn_def example_early_conn_def)
  then show ?thesis
    using early_data_ticket_protocol_refused [of "example_early_conn [104, 50]" "example_psk [104, 50]"]
    by (simp add: example_early_conn_def example_psk_def blob_wf_def s2n_blob_validate_def s2n_mem_is_readable_def
        blob_bytes_def)
qed

end
