(* ===== verification/Socket.thy ===== *)
theory Socket
  imports Connection
begin

text \<open>
  The socket options the library sets on the connection's descriptors (\<open>utils/s2n_socket.c\<close>), as built for
  a system that has \<open>TCP_QUICKACK\<close>, \<open>TCP_CORK\<close> and \<open>SO_RCVLOWAT\<close>.

  The system calls are parameters: \<open>setsockopt\<close> says whether the call succeeds, \<open>getsockopt\<close> gives the value
  and the length it stores, \<open>None\<close> when it fails and stores nothing.  \<open>read\<close> and \<open>write\<close> are pure I/O and not
  modelled.
\<close>

section \<open>Operations\<close>

abbreviation (input) S2N_CORK_ON :: int where "S2N_CORK_ON \<equiv> 1"
abbreviation (input) S2N_CORK_OFF :: int where "S2N_CORK_OFF \<equiv> 0"

definition with_read_ctx ::
  "(s2n_socket_read_io_context \<Rightarrow> unit result \<times> s2n_socket_read_io_context) \<Rightarrow> ('env, unit) conn_action" where
  "with_read_ctx f conn =
     (case recv_io_context conn of
        None \<Rightarrow> (Inl (Err S2N_ERR_NULL), conn)
      | Some ctx \<Rightarrow> (case f ctx of (r, ctx') \<Rightarrow> (r, conn\<lparr>recv_io_context := Some ctx'\<rparr>)))"

definition with_write_ctx ::
  "(s2n_socket_write_io_context \<Rightarrow> unit result \<times> s2n_socket_write_io_context) \<Rightarrow> ('env, unit) conn_action" where
  "with_write_ctx f conn =
     (case send_io_context conn of
        None \<Rightarrow> (Inl (Err S2N_ERR_NULL), conn)
      | Some ctx \<Rightarrow> (case f ctx of (r, ctx') \<Rightarrow> (r, conn\<lparr>send_io_context := Some ctx'\<rparr>)))"

definition s2n_socket_quickack :: "bool \<Rightarrow> ('env, unit) conn_action" where
  "s2n_socket_quickack setsockopt conn =
     (if \<not> managed_recv_io conn then (Inr (), conn)
      else with_read_ctx (\<lambda>ctx.
        if tcp_quickack_set ctx then (Inr (), ctx)
        else (Inr (), if setsockopt then ctx\<lparr>tcp_quickack_set := True\<rparr> else ctx)) conn)"

definition s2n_socket_write_snapshot :: "(int \<Rightarrow> (int \<times> nat) option) \<Rightarrow> ('env, unit) conn_action" where
  "s2n_socket_write_snapshot getsockopt = with_write_ctx (\<lambda>ctx.
     let (val, corklen) = (case getsockopt (socket_cork ctx) of
           None \<Rightarrow> (original_cork_val ctx, 4) | Some (v, n) \<Rightarrow> (v, n));
         ctx = ctx\<lparr>original_cork_val := val\<rparr>
     in if corklen = 4 then (Inr (), ctx\<lparr>original_cork_is_set := True\<rparr>)
        else (Inl (Err S2N_ERR_SAFETY), ctx))"

definition s2n_socket_read_snapshot :: "(int \<Rightarrow> (int \<times> nat) option) \<Rightarrow> ('env, unit) conn_action" where
  "s2n_socket_read_snapshot getsockopt = with_read_ctx (\<lambda>ctx.
     let (val, watlen) = (case getsockopt (socket_rcvlowat ctx) of
           None \<Rightarrow> (original_rcvlowat_val ctx, 4) | Some (v, n) \<Rightarrow> (v, n));
         ctx = ctx\<lparr>original_rcvlowat_val := val\<rparr>
     in if watlen = 4 then (Inr (), ctx\<lparr>original_rcvlowat_is_set := True\<rparr>)
        else (Inl (Err S2N_ERR_SAFETY), ctx))"

definition s2n_socket_write_restore :: "bool \<Rightarrow> ('env, unit) conn_action" where
  "s2n_socket_write_restore setsockopt = with_write_ctx (\<lambda>ctx.
     if \<not> original_cork_is_set ctx then (Inr (), ctx)
     else (Inr (), (if setsockopt then ctx\<lparr>socket_cork := original_cork_val ctx\<rparr> else ctx)
            \<lparr>original_cork_is_set := False\<rparr>))"

definition s2n_socket_read_restore :: "bool \<Rightarrow> ('env, unit) conn_action" where
  "s2n_socket_read_restore setsockopt = with_read_ctx (\<lambda>ctx.
     if \<not> original_rcvlowat_is_set ctx then (Inr (), ctx)
     else (Inr (), (if setsockopt then ctx\<lparr>socket_rcvlowat := original_rcvlowat_val ctx\<rparr> else ctx)
            \<lparr>original_rcvlowat_is_set := False\<rparr>))"

text \<open>The result is the original value of the option, which the callers test as a truth value.\<close>

definition s2n_socket_was_corked :: "'env s2n_connection \<Rightarrow> int result" where
  "s2n_socket_was_corked conn =
     (if \<not> managed_send_io conn \<or> \<not> has_send conn then Inr 0
      else case send_io_context conn of
        None \<Rightarrow> Inl (Err S2N_ERR_NULL)
      | Some ctx \<Rightarrow> Inr (original_cork_val ctx))"

definition s2n_socket_write_cork :: "bool \<Rightarrow> ('env, unit) conn_action" where
  "s2n_socket_write_cork setsockopt = with_write_ctx (\<lambda>ctx.
     (Inr (), if setsockopt then ctx\<lparr>socket_cork := S2N_CORK_ON\<rparr> else ctx))"

definition s2n_socket_write_uncork :: "bool \<Rightarrow> ('env, unit) conn_action" where
  "s2n_socket_write_uncork setsockopt = with_write_ctx (\<lambda>ctx.
     (Inr (), if setsockopt then ctx\<lparr>socket_cork := S2N_CORK_OFF\<rparr> else ctx))"

definition s2n_socket_set_read_size :: "bool \<Rightarrow> int \<Rightarrow> ('env, unit) conn_action" where
  "s2n_socket_set_read_size setsockopt sz = with_read_ctx (\<lambda>ctx.
     (Inr (), if setsockopt then ctx\<lparr>socket_rcvlowat := sz\<rparr> else ctx))"


section \<open>Snapshots\<close>

text \<open>What happens to a descriptor between taking it over and giving it back.\<close>

datatype cork_op = Cork | Uncork

primrec run_cork :: "cork_op list \<Rightarrow> ('env, unit) conn_action" where
  "run_cork [] = ret ()"
| "run_cork (x # xs) = andthen (case x of Cork \<Rightarrow> s2n_socket_write_cork True | Uncork \<Rightarrow> s2n_socket_write_uncork True)
     (run_cork xs)"

lemma run_cork_context:
  assumes "send_io_context c = Some ctx"
  shows "\<exists>v. run_cork xs c = (Inr (), c\<lparr>send_io_context := Some (ctx\<lparr>socket_cork := v\<rparr>)\<rparr>)"
  using assms
proof (induction xs arbitrary: c ctx)
  case Nil
  then have "c\<lparr>send_io_context := Some (ctx\<lparr>socket_cork := socket_cork ctx\<rparr>)\<rparr> = c"
    by simp
  then show ?case
    by (auto simp: ret_def intro!: exI [of _ "socket_cork ctx"])
next
  case (Cons x xs)
  define v where "v = (case x of Cork \<Rightarrow> S2N_CORK_ON | Uncork \<Rightarrow> S2N_CORK_OFF)"
  let ?c = "c\<lparr>send_io_context := Some (ctx\<lparr>socket_cork := v\<rparr>)\<rparr>"
  have "run_cork (x # xs) c = run_cork xs ?c"
    using Cons.prems
    by (cases x) (simp_all add: v_def andthen_def bnd_def s2n_socket_write_cork_def s2n_socket_write_uncork_def with_write_ctx_def)
  then show ?case
    using Cons.IH [of ?c "ctx\<lparr>socket_cork := v\<rparr>"] by simp
qed

text \<open>
  Taking over a socket and giving it back restores its cork option.  After a snapshot of a connection that
  has a write context, any sequence of corking and uncorking followed by a restore succeeds and leaves the
  option as it was before the snapshot, provided the system calls succeed.
\<close>
theorem socket_cork_round_trip:
  assumes "send_io_context c = Some ctx"
  shows "case andthen (s2n_socket_write_snapshot (\<lambda>v. Some (v, 4))) (andthen (run_cork xs) (s2n_socket_write_restore True)) c of
    (r, c') \<Rightarrow> r = Inr () \<and> map_option socket_cork (send_io_context c') = Some (socket_cork ctx)"
proof -
  let ?ctx = "ctx\<lparr>original_cork_val := socket_cork ctx, original_cork_is_set := True\<rparr>"
  let ?c = "c\<lparr>send_io_context := Some ?ctx\<rparr>"
  have snap: "s2n_socket_write_snapshot (\<lambda>v. Some (v, 4)) c = (Inr (), ?c)"
    using assms by (simp add: s2n_socket_write_snapshot_def with_write_ctx_def)
  obtain v where run: "run_cork xs ?c = (Inr (), ?c\<lparr>send_io_context := Some (?ctx\<lparr>socket_cork := v\<rparr>)\<rparr>)"
    using run_cork_context [of ?c ?ctx xs] by auto
  show ?thesis
    by (simp add: andthen_def bnd_def snap run s2n_socket_write_restore_def with_write_ctx_def)
qed

lemma socket_cork_round_trip_witness:
  "case andthen (s2n_socket_write_snapshot (\<lambda>v. Some (v, 4))) (andthen (run_cork [Cork]) (s2n_socket_write_restore True))
     ((example_conn S2N_CLIENT)\<lparr>send_io_context :=
        Some \<lparr>original_cork_is_set = False, original_cork_val = 9, socket_cork = 0\<rparr>\<rparr>) of
   (r, c') \<Rightarrow> r = Inr () \<and> map_option socket_cork (send_io_context c') = Some 0"
  using socket_cork_round_trip [of "(example_conn S2N_CLIENT)\<lparr>send_io_context :=
        Some \<lparr>original_cork_is_set = False, original_cork_val = 9, socket_cork = 0\<rparr>\<rparr>" _ "[Cork]"] by simp

end
