(* ===== verification/Handshake_Machine.thy ===== *)
theory Handshake_Machine
  imports Early_Data Socket Extension_Type
begin

text \<open>
  The handshake state machine of \<open>tls/s2n_handshake_io.c\<close>: the actions of each message, the position in the message
  tables, advancing to the next message, and the choice of the handshake type when the version and the
  session are known (\<open>s2n_conn_set_handshake_type\<close>).

  The handlers of the messages are named by the strings of the source; the theories that run them take a function
  from these names to actions.  Session resumption, the random generator and the OCSP checks are
  parameters of \<open>s2n_conn_set_handshake_type\<close>, collected in a record.
\<close>

section \<open>The actions of the messages\<close>

abbreviation (input) TLS_CLIENT_HELLO :: u8 where "TLS_CLIENT_HELLO \<equiv> 1"
abbreviation (input) TLS_SERVER_HELLO :: u8 where "TLS_SERVER_HELLO \<equiv> 2"
abbreviation (input) TLS_SERVER_NEW_SESSION_TICKET :: u8 where "TLS_SERVER_NEW_SESSION_TICKET \<equiv> 4"
abbreviation (input) TLS_END_OF_EARLY_DATA :: u8 where "TLS_END_OF_EARLY_DATA \<equiv> 5"
abbreviation (input) TLS_ENCRYPTED_EXTENSIONS :: u8 where "TLS_ENCRYPTED_EXTENSIONS \<equiv> 8"
abbreviation (input) TLS_CERTIFICATE :: u8 where "TLS_CERTIFICATE \<equiv> 11"
abbreviation (input) TLS_SERVER_KEY :: u8 where "TLS_SERVER_KEY \<equiv> 12"
abbreviation (input) TLS_CERT_REQ :: u8 where "TLS_CERT_REQ \<equiv> 13"
abbreviation (input) TLS_SERVER_HELLO_DONE :: u8 where "TLS_SERVER_HELLO_DONE \<equiv> 14"
abbreviation (input) TLS_CERT_VERIFY :: u8 where "TLS_CERT_VERIFY \<equiv> 15"
abbreviation (input) TLS_CLIENT_KEY :: u8 where "TLS_CLIENT_KEY \<equiv> 16"
abbreviation (input) TLS_FINISHED :: u8 where "TLS_FINISHED \<equiv> 20"
abbreviation (input) TLS_SERVER_CERT_STATUS :: u8 where "TLS_SERVER_CERT_STATUS \<equiv> 22"
abbreviation (input) TLS_NPN :: u8 where "TLS_NPN \<equiv> 67"
abbreviation (input) TLS_HELLO_REQUEST :: u8 where "TLS_HELLO_REQUEST \<equiv> 0"
abbreviation (input) TLS_KEY_UPDATE :: u8 where "TLS_KEY_UPDATE \<equiv> 24"

record s2n_handshake_action =
  record_type :: u8
  message_type :: u8
  writer :: char
  handler_server :: "string option"
  handler_client :: "string option"

definition handshake_action :: "u8 \<Rightarrow> u8 \<Rightarrow> char \<Rightarrow> string \<Rightarrow> string \<Rightarrow> s2n_handshake_action" where
  "handshake_action r m w server client =
     \<lparr>record_type = r, message_type = m, writer = w, handler_server = Some server, handler_client = Some client\<rparr>"

definition zero_action :: s2n_handshake_action where
  "zero_action = \<lparr>record_type = 0, message_type = 0, writer = CHR 0x00, handler_server = None, handler_client = None\<rparr>"

fun state_machine :: "message_type_t \<Rightarrow> s2n_handshake_action" where
  "state_machine CLIENT_HELLO = handshake_action TLS_HANDSHAKE TLS_CLIENT_HELLO (CHR ''C'') ''s2n_establish_session'' ''s2n_client_hello_send''"
| "state_machine SERVER_HELLO = handshake_action TLS_HANDSHAKE TLS_SERVER_HELLO (CHR ''S'') ''s2n_server_hello_send'' ''s2n_server_hello_recv''"
| "state_machine SERVER_NEW_SESSION_TICKET = handshake_action TLS_HANDSHAKE TLS_SERVER_NEW_SESSION_TICKET (CHR ''S'') ''s2n_server_nst_send'' ''s2n_server_nst_recv''"
| "state_machine SERVER_CERT = handshake_action TLS_HANDSHAKE TLS_CERTIFICATE (CHR ''S'') ''s2n_server_cert_send'' ''s2n_server_cert_recv''"
| "state_machine SERVER_CERT_STATUS = handshake_action TLS_HANDSHAKE TLS_SERVER_CERT_STATUS (CHR ''S'') ''s2n_server_status_send'' ''s2n_server_status_recv''"
| "state_machine SERVER_KEY = handshake_action TLS_HANDSHAKE TLS_SERVER_KEY (CHR ''S'') ''s2n_server_key_send'' ''s2n_server_key_recv''"
| "state_machine SERVER_CERT_REQ = handshake_action TLS_HANDSHAKE TLS_CERT_REQ (CHR ''S'') ''s2n_cert_req_send'' ''s2n_cert_req_recv''"
| "state_machine SERVER_HELLO_DONE = handshake_action TLS_HANDSHAKE TLS_SERVER_HELLO_DONE (CHR ''S'') ''s2n_server_done_send'' ''s2n_server_done_recv''"
| "state_machine CLIENT_CERT = handshake_action TLS_HANDSHAKE TLS_CERTIFICATE (CHR ''C'') ''s2n_client_cert_recv'' ''s2n_client_cert_send''"
| "state_machine CLIENT_KEY = handshake_action TLS_HANDSHAKE TLS_CLIENT_KEY (CHR ''C'') ''s2n_client_key_recv'' ''s2n_client_key_send''"
| "state_machine CLIENT_CERT_VERIFY = handshake_action TLS_HANDSHAKE TLS_CERT_VERIFY (CHR ''C'') ''s2n_client_cert_verify_recv'' ''s2n_client_cert_verify_send''"
| "state_machine CLIENT_CHANGE_CIPHER_SPEC = handshake_action TLS_CHANGE_CIPHER_SPEC 0 (CHR ''C'') ''s2n_client_ccs_recv'' ''s2n_ccs_send''"
| "state_machine CLIENT_NPN = handshake_action TLS_HANDSHAKE TLS_NPN (CHR ''C'') ''s2n_next_protocol_recv'' ''s2n_next_protocol_send''"
| "state_machine CLIENT_FINISHED = handshake_action TLS_HANDSHAKE TLS_FINISHED (CHR ''C'') ''s2n_client_finished_recv'' ''s2n_client_finished_send''"
| "state_machine SERVER_CHANGE_CIPHER_SPEC = handshake_action TLS_CHANGE_CIPHER_SPEC 0 (CHR ''S'') ''s2n_ccs_send'' ''s2n_server_ccs_recv''"
| "state_machine SERVER_FINISHED = handshake_action TLS_HANDSHAKE TLS_FINISHED (CHR ''S'') ''s2n_server_finished_send'' ''s2n_server_finished_recv''"
| "state_machine APPLICATION_DATA = handshake_action TLS_APPLICATION_DATA 0 (CHR ''B'') ''s2n_always_fail_send'' ''s2n_always_fail_recv''"
| "state_machine _ = zero_action"

fun tls13_state_machine :: "message_type_t \<Rightarrow> s2n_handshake_action" where
  "tls13_state_machine CLIENT_HELLO = handshake_action TLS_HANDSHAKE TLS_CLIENT_HELLO (CHR ''C'') ''s2n_establish_session'' ''s2n_client_hello_send''"
| "tls13_state_machine SERVER_HELLO = handshake_action TLS_HANDSHAKE TLS_SERVER_HELLO (CHR ''S'') ''s2n_server_hello_send'' ''s2n_server_hello_recv''"
| "tls13_state_machine HELLO_RETRY_MSG = handshake_action TLS_HANDSHAKE TLS_SERVER_HELLO (CHR ''S'') ''s2n_server_hello_retry_send'' ''s2n_server_hello_retry_recv''"
| "tls13_state_machine ENCRYPTED_EXTENSIONS = handshake_action TLS_HANDSHAKE TLS_ENCRYPTED_EXTENSIONS (CHR ''S'') ''s2n_encrypted_extensions_send'' ''s2n_encrypted_extensions_recv''"
| "tls13_state_machine SERVER_CERT_REQ = handshake_action TLS_HANDSHAKE TLS_CERT_REQ (CHR ''S'') ''s2n_tls13_cert_req_send'' ''s2n_tls13_cert_req_recv''"
| "tls13_state_machine SERVER_CERT = handshake_action TLS_HANDSHAKE TLS_CERTIFICATE (CHR ''S'') ''s2n_server_cert_send'' ''s2n_server_cert_recv''"
| "tls13_state_machine SERVER_CERT_VERIFY = handshake_action TLS_HANDSHAKE TLS_CERT_VERIFY (CHR ''S'') ''s2n_tls13_cert_verify_send'' ''s2n_tls13_cert_verify_recv''"
| "tls13_state_machine SERVER_FINISHED = handshake_action TLS_HANDSHAKE TLS_FINISHED (CHR ''S'') ''s2n_tls13_server_finished_send'' ''s2n_tls13_server_finished_recv''"
| "tls13_state_machine CLIENT_CERT = handshake_action TLS_HANDSHAKE TLS_CERTIFICATE (CHR ''C'') ''s2n_client_cert_recv'' ''s2n_client_cert_send''"
| "tls13_state_machine CLIENT_CERT_VERIFY = handshake_action TLS_HANDSHAKE TLS_CERT_VERIFY (CHR ''C'') ''s2n_tls13_cert_verify_recv'' ''s2n_tls13_cert_verify_send''"
| "tls13_state_machine CLIENT_FINISHED = handshake_action TLS_HANDSHAKE TLS_FINISHED (CHR ''C'') ''s2n_tls13_client_finished_recv'' ''s2n_tls13_client_finished_send''"
| "tls13_state_machine END_OF_EARLY_DATA = handshake_action TLS_HANDSHAKE TLS_END_OF_EARLY_DATA (CHR ''C'') ''s2n_end_of_early_data_recv'' ''s2n_end_of_early_data_send''"
| "tls13_state_machine CLIENT_CHANGE_CIPHER_SPEC = handshake_action TLS_CHANGE_CIPHER_SPEC 0 (CHR ''C'') ''s2n_basic_ccs_recv'' ''s2n_ccs_send''"
| "tls13_state_machine SERVER_CHANGE_CIPHER_SPEC = handshake_action TLS_CHANGE_CIPHER_SPEC 0 (CHR ''S'') ''s2n_ccs_send'' ''s2n_basic_ccs_recv''"
| "tls13_state_machine APPLICATION_DATA = handshake_action TLS_APPLICATION_DATA 0 (CHR ''B'') ''s2n_always_fail_send'' ''s2n_always_fail_recv''"
| "tls13_state_machine _ = zero_action"

fun message_names :: "message_type_t \<Rightarrow> string" where
  "message_names CLIENT_HELLO = ''CLIENT_HELLO''"
| "message_names SERVER_HELLO = ''SERVER_HELLO''"
| "message_names ENCRYPTED_EXTENSIONS = ''ENCRYPTED_EXTENSIONS''"
| "message_names SERVER_NEW_SESSION_TICKET = ''SERVER_NEW_SESSION_TICKET''"
| "message_names SERVER_CERT = ''SERVER_CERT''"
| "message_names SERVER_CERT_STATUS = ''SERVER_CERT_STATUS''"
| "message_names SERVER_CERT_VERIFY = ''SERVER_CERT_VERIFY''"
| "message_names SERVER_KEY = ''SERVER_KEY''"
| "message_names SERVER_CERT_REQ = ''SERVER_CERT_REQ''"
| "message_names SERVER_HELLO_DONE = ''SERVER_HELLO_DONE''"
| "message_names CLIENT_CERT = ''CLIENT_CERT''"
| "message_names CLIENT_KEY = ''CLIENT_KEY''"
| "message_names CLIENT_CERT_VERIFY = ''CLIENT_CERT_VERIFY''"
| "message_names CLIENT_CHANGE_CIPHER_SPEC = ''CLIENT_CHANGE_CIPHER_SPEC''"
| "message_names CLIENT_FINISHED = ''CLIENT_FINISHED''"
| "message_names SERVER_CHANGE_CIPHER_SPEC = ''SERVER_CHANGE_CIPHER_SPEC''"
| "message_names SERVER_FINISHED = ''SERVER_FINISHED''"
| "message_names HELLO_RETRY_MSG = ''HELLO_RETRY_MSG''"
| "message_names END_OF_EARLY_DATA = ''END_OF_EARLY_DATA''"
| "message_names APPLICATION_DATA = ''APPLICATION_DATA''"
| "message_names CLIENT_NPN = ''CLIENT_NPN''"

definition tls12_handshake_type_names :: "string list" where
  "tls12_handshake_type_names = [''NEGOTIATED|'', ''FULL_HANDSHAKE|'', ''CLIENT_AUTH|'', ''NO_CLIENT_CERT|'', ''TLS12_PERFECT_FORWARD_SECRECY|'', ''OCSP_STATUS|'', ''WITH_SESSION_TICKET|'', ''WITH_NPN|'']"

definition tls13_handshake_type_names :: "string list" where
  "tls13_handshake_type_names = [''NEGOTIATED|'', ''FULL_HANDSHAKE|'', ''CLIENT_AUTH|'', ''NO_CLIENT_CERT|'', ''HELLO_RETRY_REQUEST|'', ''MIDDLEBOX_COMPAT|'', ''WITH_EARLY_DATA|'', ''EARLY_CLIENT_CCS|'']"


section \<open>The position in the handshake\<close>

definition IS_TLS13_HANDSHAKE :: "'env s2n_connection \<Rightarrow> bool" where
  "IS_TLS13_HANDSHAKE conn \<longleftrightarrow> hs_state_machine (handshake conn) = S2N_STATE_MACHINE_TLS13"

definition ACTIVE_STATE_MACHINE :: "'env s2n_connection \<Rightarrow> message_type_t \<Rightarrow> s2n_handshake_action" where
  "ACTIVE_STATE_MACHINE conn = (if IS_TLS13_HANDSHAKE conn then tls13_state_machine else state_machine)"

definition ACTIVE_HANDSHAKES :: "'env s2n_connection \<Rightarrow> handshake_table" where
  "ACTIVE_HANDSHAKES conn = (if IS_TLS13_HANDSHAKE conn then tls13_handshakes else handshakes)"

definition ACTIVE_MESSAGE :: "'env s2n_connection \<Rightarrow> message_type_t result" where
  "ACTIVE_MESSAGE conn =
     table_entry (ACTIVE_HANDSHAKES conn) (handshake_type (handshake conn)) (message_number (handshake conn))"

definition ACTIVE_STATE :: "'env s2n_connection \<Rightarrow> s2n_handshake_action result" where
  "ACTIVE_STATE conn =
     (case ACTIVE_MESSAGE conn of Inl e \<Rightarrow> Inl e | Inr m \<Rightarrow> Inr (ACTIVE_STATE_MACHINE conn m))"

definition CCS_STATE :: "'env s2n_connection \<Rightarrow> s2n_handshake_action" where
  "CCS_STATE conn =
     (if mode conn = S2N_CLIENT then ACTIVE_STATE_MACHINE conn SERVER_CHANGE_CIPHER_SPEC
      else ACTIVE_STATE_MACHINE conn CLIENT_CHANGE_CIPHER_SPEC)"

definition CONNECTION_WRITER :: "'env s2n_connection \<Rightarrow> char" where
  "CONNECTION_WRITER conn = (if mode conn = S2N_CLIENT then CHR ''C'' else CHR ''S'')"

definition CONNECTION_IS_WRITER :: "'env s2n_connection \<Rightarrow> bool result" where
  "CONNECTION_IS_WRITER conn =
     (case ACTIVE_STATE conn of Inl e \<Rightarrow> Inl e | Inr st \<Rightarrow> Inr (writer st = CONNECTION_WRITER conn))"

definition s2n_conn_get_current_message_type :: "'env s2n_connection \<Rightarrow> message_type_t result" where
  "s2n_conn_get_current_message_type conn = ACTIVE_MESSAGE conn"

definition next_message :: "'env s2n_connection \<Rightarrow> 'env s2n_connection" where
  "next_message = on_handshake (\<lambda>h. h\<lparr>message_number := message_number h + 1\<rparr>)"

definition skips_ccs :: "'env s2n_connection \<Rightarrow> s2n_handshake_action \<Rightarrow> bool" where
  "skips_ccs conn st \<longleftrightarrow> writer st \<noteq> CONNECTION_WRITER conn \<and> record_type st = TLS_CHANGE_CIPHER_SPEC \<and>
     IS_TLS13_HANDSHAKE conn"

text \<open>The part of \<open>s2n_advance_message\<close> after the move: the socket is corked while we are the writer.\<close>

definition advance_io :: "bool \<Rightarrow> bool \<Rightarrow> char \<Rightarrow> ('env, unit) conn_action" where
  "advance_io quickack_ok cork_ok previous_writer =
     andthen (s2n_socket_quickack quickack_ok) (\<lambda>conn.
       if \<not> corked_io conn \<or> s2n_socket_was_corked conn \<noteq> Inr 0 then ret () conn
       else case ACTIVE_STATE conn of Inl e \<Rightarrow> (Inl e, conn) | Inr st \<Rightarrow>
         if writer st = previous_writer \<or> writer st = CHR ''A'' then ret () conn
         else if writer st = CONNECTION_WRITER conn then
           (if s2n_connection_is_managed_corked conn then s2n_socket_write_cork cork_ok conn else ret () conn)
         else if s2n_connection_is_managed_corked conn then s2n_socket_write_uncork cork_ok conn else ret () conn)"

definition s2n_advance_message :: "bool \<Rightarrow> bool \<Rightarrow> ('env, unit) conn_action" where
  "s2n_advance_message quickack_ok cork_ok conn =
     (case ACTIVE_STATE conn of Inl e \<Rightarrow> (Inl e, conn) | Inr prev \<Rightarrow>
      let conn = next_message conn in
      case ACTIVE_STATE conn of Inl e \<Rightarrow> (Inl e, conn) | Inr st \<Rightarrow>
      let conn = (if skips_ccs conn st then next_message conn else conn) in
      advance_io quickack_ok cork_ok (writer prev) conn)"


section \<open>Choosing the handshake type\<close>

text \<open>What \<open>s2n_conn_set_handshake_type\<close> calls in other parts of the program.\<close>

record 'env handshake_type_ops =
  resume_decrypt_session :: "('env, unit) conn_action"
  is_encrypt_key_available :: "('env, unit) conn_action"
  resume_from_cache :: "('env, unit) conn_action"
  get_public_random_data :: "nat \<Rightarrow> ('env, bytes) conn_action"
  server_can_send_ocsp :: "'env s2n_connection \<Rightarrow> bool"
  server_sent_ocsp :: "'env s2n_connection \<Rightarrow> bool"

definition s2n_generate_new_client_session_id :: "'env handshake_type_ops \<Rightarrow> ('env, unit) conn_action" where
  "s2n_generate_new_client_session_id ops conn =
     (if mode conn = S2N_SERVER then
        bnd (get_public_random_data ops S2N_TLS_SESSION_ID_MAX_LEN) (\<lambda>bs.
          modify (\<lambda>conn. conn\<lparr>session_id := bs, session_id_len := of_nat S2N_TLS_SESSION_ID_MAX_LEN\<rparr>)) conn
      else ret () conn)"

definition s2n_set_hello_retry_required :: "('env, unit) conn_action" where
  "s2n_set_hello_retry_required = block [
     ensure_st (\<lambda>conn. actual_protocol_version conn \<ge> S2N_TLS13) S2N_ERR_INVALID_HELLO_RETRY,
     s2n_handshake_type_set_tls13_flag HELLO_RETRY_REQUEST,
     (\<lambda>conn. if early_data_state conn = S2N_EARLY_DATA_REQUESTED
             then s2n_connection_set_early_data_state S2N_EARLY_DATA_REJECTED conn else ret () conn)]"

text \<open>\<open>s2n_handshake_validate\<close> checks nothing but the pointer in a release build.\<close>

definition s2n_is_hello_retry_message :: "'env s2n_connection \<Rightarrow> bool result" where
  "s2n_is_hello_retry_message conn =
     (case ACTIVE_MESSAGE conn of Inl e \<Rightarrow> Inl e | Inr m \<Rightarrow> Inr (m = HELLO_RETRY_MSG))"

definition s2n_is_hello_retry_handshake :: "'env s2n_connection \<Rightarrow> bool" where
  "s2n_is_hello_retry_handshake conn = IS_HELLO_RETRY_HANDSHAKE conn"

text \<open>Whether a client must expect, and a server must send, a certificate request.\<close>

definition wants_client_auth :: "'env s2n_connection \<Rightarrow> s2n_cert_auth_type \<Rightarrow> bool" where
  "wants_client_auth conn auth \<longleftrightarrow>
     mode conn = S2N_CLIENT \<and> auth = S2N_CERT_AUTH_REQUIRED \<or> mode conn = S2N_SERVER \<and> auth \<noteq> S2N_CERT_AUTH_NONE"

definition s2n_conn_set_tls13_handshake_type :: "('env, unit) conn_action" where
  "s2n_conn_set_tls13_handshake_type = block [
     modify (on_handshake (\<lambda>h. h\<lparr>handshake_type :=
       handshake_type h AND (HELLO_RETRY_REQUEST OR MIDDLEBOX_COMPAT OR EARLY_CLIENT_CCS)\<rparr>)),
     s2n_handshake_type_set_flag NEGOTIATED,
     (\<lambda>conn. if chosen_psk (psk_params conn) = None then s2n_handshake_type_set_flag FULL_HANDSHAKE conn else ret () conn),
     (\<lambda>conn. if early_data_state conn = S2N_EARLY_DATA_ACCEPTED then ret () (or_type WITH_EARLY_DATA conn) else ret () conn),
     bnd (\<lambda>conn. (s2n_connection_get_client_auth_type conn, conn)) (\<lambda>auth conn.
       if wants_client_auth conn auth \<and> IS_FULL_HANDSHAKE conn then s2n_handshake_type_set_flag CLIENT_AUTH conn
       else ret () conn),
     (\<lambda>conn. if s2n_is_middlebox_compat_enabled conn then s2n_handshake_type_set_tls13_flag MIDDLEBOX_COMPAT conn
             else ret () conn)]"

definition s2n_validate_ems_status :: "('env, unit) conn_action" where
  "s2n_validate_ems_status conn =
     (case s2n_extension_supported_iana_value_to_id TLS_EXTENSION_EMS of Inl e \<Rightarrow> (Inl e, conn) | Inr ems_ext_id \<Rightarrow>
      case S2N_CBIT_TEST (extension_requests_received conn) ems_ext_id of Inl e \<Rightarrow> (Inl e, conn) | Inr ems_extension_recv \<Rightarrow>
      if ems_negotiated conn \<and> \<not> ems_extension_recv then (Inl (Err S2N_ERR_MISSING_EXTENSION), conn)
      else (Inr (), conn\<lparr>ems_negotiated := ems_extension_recv\<rparr>))"

text \<open>From the label \<open>skip_cache_lookup\<close> on.\<close>

definition full_handshake_type :: "'env handshake_type_ops \<Rightarrow> ('env, unit) conn_action" where
  "full_handshake_type ops conn =
     (if mode conn = S2N_CLIENT \<and> client_session_resumed conn then ret () conn
      else block [
        s2n_generate_new_client_session_id ops,
        s2n_handshake_type_set_flag FULL_HANDSHAKE,
        (\<lambda>conn. case secure conn of None \<Rightarrow> (Inl Undefined, conn) | Some params \<Rightarrow>
                case cipher_suite params of None \<Rightarrow> (Inl Undefined, conn) | Some suite \<Rightarrow>
                if kex_is_ephemeral (key_exchange_alg suite) then s2n_handshake_type_set_tls12_flag TLS12_PERFECT_FORWARD_SECRECY conn
                else ret () conn),
        (\<lambda>conn. if server_can_send_ocsp ops conn \<or> server_sent_ocsp ops conn
                then s2n_handshake_type_set_tls12_flag OCSP_STATUS conn else ret () conn)] conn)"

text \<open>The lookup in the server's session cache.  \<open>s2n_allowed_to_cache_connection\<close> is tested as an \<open>int\<close>, so an
  error counts as allowed.\<close>

definition cache_lookup :: "'env handshake_type_ops \<Rightarrow> ('env, unit) conn_action" where
  "cache_lookup ops conn =
     (if actual_protocol_version conn \<le> S2N_TLS12 \<and> mode conn = S2N_SERVER \<and>
         s2n_allowed_to_cache_connection conn \<noteq> Inr False then
        (case resume_from_cache ops conn of
           (Inr _, conn) \<Rightarrow> (Inr (), conn)
         | (Inl Undefined, conn) \<Rightarrow> (Inl Undefined, conn)
         | (Inl (Err e), conn) \<Rightarrow>
             if S2N_ERROR_IS_BLOCKING e then (Inl (Err e), conn)
             else andthen s2n_validate_ems_status (full_handshake_type ops) conn)
      else full_handshake_type ops conn)"

definition new_ticket_if_possible :: "'env handshake_type_ops \<Rightarrow> ('env, unit) conn_action" where
  "new_ticket_if_possible ops conn =
     (case is_encrypt_key_available ops conn of
        (Inr _, conn) \<Rightarrow> s2n_handshake_type_set_tls12_flag WITH_SESSION_TICKET (conn\<lparr>session_ticket_status := S2N_NEW_TICKET\<rparr>)
      | (Inl Undefined, conn) \<Rightarrow> (Inl Undefined, conn)
      | (Inl (Err _), conn) \<Rightarrow> (Inr (), conn))"

definition ticket_lookup :: "'env handshake_type_ops \<Rightarrow> ('env, unit) conn_action" where
  "ticket_lookup ops conn =
     (case config conn of None \<Rightarrow> (Inl Undefined, conn) | Some cfg \<Rightarrow>
      if use_tickets cfg \<and> session_ticket_status conn = S2N_DECRYPT_TICKET then
        (case resume_decrypt_session ops conn of
           (Inr _, conn) \<Rightarrow> (Inr (), conn)
         | (Inl Undefined, conn) \<Rightarrow> (Inl Undefined, conn)
         | (Inl (Err _), conn) \<Rightarrow> block [s2n_validate_ems_status, new_ticket_if_possible ops, full_handshake_type ops] conn)
      else if use_tickets cfg \<and> session_ticket_status conn = S2N_NEW_TICKET then
        andthen (s2n_handshake_type_set_tls12_flag WITH_SESSION_TICKET) (cache_lookup ops) conn
      else cache_lookup ops conn)"

definition s2n_conn_set_handshake_type :: "'env handshake_type_ops \<Rightarrow> ('env, unit) conn_action" where
  "s2n_conn_set_handshake_type ops = block [
     ensure_st (\<lambda>conn. secure conn \<noteq> None) S2N_ERR_NULL,
     (\<lambda>conn. s2n_conn_choose_state_machine (actual_protocol_version conn) conn),
     (\<lambda>conn. if IS_TLS13_HANDSHAKE conn then s2n_conn_set_tls13_handshake_type conn
        else block [
          s2n_handshake_type_reset,
          s2n_handshake_type_set_flag NEGOTIATED,
          bnd (\<lambda>conn. (s2n_connection_get_client_auth_type conn, conn)) (\<lambda>auth conn.
            if wants_client_auth conn auth then s2n_handshake_type_set_flag CLIENT_AUTH conn else ret () conn),
          (\<lambda>conn. if npn_negotiated conn then s2n_handshake_type_set_tls12_flag WITH_NPN conn else ret () conn),
          ticket_lookup ops] conn)]"

definition s2n_conn_set_handshake_no_client_cert :: "('env, unit) conn_action" where
  "s2n_conn_set_handshake_no_client_cert =
     bnd (\<lambda>conn. (s2n_connection_get_client_auth_type conn, conn)) (\<lambda>auth. block [
       ensure (auth = S2N_CERT_AUTH_OPTIONAL) S2N_ERR_MISSING_CLIENT_CERT,
       s2n_handshake_type_set_flag NO_CLIENT_CERT])"


section \<open>Names\<close>

definition s2n_connection_get_last_message_name :: "'env s2n_connection \<Rightarrow> string result" where
  "s2n_connection_get_last_message_name conn =
     (case ACTIVE_MESSAGE conn of Inl e \<Rightarrow> Inl e | Inr m \<Rightarrow> Inr (message_names m))"

text \<open>The names are kept in a static table with one string per handshake type, the empty string for a name that was
  not computed yet.  The loop runs over the names and the bits of the type; it writes one byte past the
  array when a name fills it, which is \<open>Undefined\<close>.\<close>

abbreviation (input) MAX_HANDSHAKE_TYPE_LEN :: nat where "MAX_HANDSHAKE_TYPE_LEN \<equiv> 142"

fun type_name_loop :: "string list \<Rightarrow> nat \<Rightarrow> u32 \<Rightarrow> string \<Rightarrow> string result" where
  "type_name_loop [] i t acc = Inr acc"
| "type_name_loop (n # ns) i t acc =
     (if t AND push_bit i 1 \<noteq> 0 then
        (let acc' = acc @ take (MAX_HANDSHAKE_TYPE_LEN - length acc) n in
         if length acc' < MAX_HANDSHAKE_TYPE_LEN then type_name_loop ns (Suc i) t acc' else Inl Undefined)
      else type_name_loop ns (Suc i) t acc)"

definition s2n_connection_get_handshake_type_name ::
  "(u32 \<Rightarrow> string) \<Rightarrow> 'env s2n_connection \<Rightarrow> string result \<times> (u32 \<Rightarrow> string)" where
  "s2n_connection_get_handshake_type_name handshake_type_str conn =
     (let t = handshake_type (handshake conn);
          names = (if s2n_connection_get_protocol_version conn < S2N_TLS13 then tls12_handshake_type_names
                   else tls13_handshake_type_names)
      in if t = INITIAL then (Inr ''INITIAL'', handshake_type_str)
         else if \<not> t < 256 then (Inl Undefined, handshake_type_str)
         else if handshake_type_str t \<noteq> [] then (Inr (handshake_type_str t), handshake_type_str)
         else case type_name_loop names 0 t [] of
           Inl e \<Rightarrow> (Inl e, handshake_type_str)
         | Inr name \<Rightarrow>
             let name = (if name \<noteq> [] \<and> last name = CHR ''|'' then butlast name else name)
             in (Inr name, handshake_type_str(t := name)))"


section \<open>Walking a row\<close>

abbreviation hs_type :: "'env s2n_connection \<Rightarrow> u32" where
  "hs_type c \<equiv> handshake_type (handshake c)"

abbreviation hs_number :: "'env s2n_connection \<Rightarrow> int" where
  "hs_number c \<equiv> message_number (handshake c)"

definition row_listed :: "'env s2n_connection \<Rightarrow> bool" where
  "row_listed c \<longleftrightarrow> (if IS_TLS13_HANDSHAKE c then tls13_type_ok (hs_type c) else tls12_type_ok (hs_type c))"

definition active_row :: "'env s2n_connection \<Rightarrow> message_type_t list" where
  "active_row c = (if IS_TLS13_HANDSHAKE c then tls13_messages (hs_type c) else tls12_messages (hs_type c))"

text \<open>The handshake type is negotiated and listed in its table, and the position lies on its row.\<close>

definition on_row :: "'env s2n_connection \<Rightarrow> bool" where
  "on_row c \<longleftrightarrow> row_listed c \<and> has (hs_type c) NEGOTIATED \<and> 0 \<le> hs_number c \<and>
     nat (hs_number c) < length (active_row c)"

lemma active_row_complete: "on_row c \<Longrightarrow> complete_row (active_row c)"
  by (simp add: on_row_def active_row_def tls12_complete tls13_complete)

lemma row_cong:
  assumes "handshake c' = handshake c"
  shows "active_row c' = active_row c" and "IS_TLS13_HANDSHAKE c' = IS_TLS13_HANDSHAKE c"
    and "on_row c' = on_row c"
  using assms by (simp_all add: on_row_def row_listed_def active_row_def IS_TLS13_HANDSHAKE_def)

lemmas on_row_cong = row_cong(3)

lemma active_message_row:
  assumes "on_row c"
  shows "ACTIVE_MESSAGE c = Inr (active_row c ! nat (hs_number c))"
proof -
  have t: "hs_type c < 256"
    using assms by (auto simp: on_row_def row_listed_def tls12_type_ok_def tls13_type_ok_def split: if_splits)
  have "nat (hs_number c) < 32"
    using assms active_row_complete [OF assms] by (simp add: on_row_def complete_row_def)
  then show ?thesis
    using assms t
    by (auto simp: ACTIVE_MESSAGE_def ACTIVE_HANDSHAKES_def active_row_def on_row_def table_entry_def
        row_listed_def handshakes_row tls13_handshakes_row word_less_nat_alt split: if_splits)
qed

lemma next_message_simps [simp]:
  "hs_type (next_message c) = hs_type c" "hs_number (next_message c) = hs_number c + 1"
  "IS_TLS13_HANDSHAKE (next_message c) = IS_TLS13_HANDSHAKE c" "active_row (next_message c) = active_row c"
  "CONNECTION_WRITER (next_message c) = CONNECTION_WRITER c" "mode (next_message c) = mode c"
  by (simp_all add: next_message_def on_handshake_def IS_TLS13_HANDSHAKE_def active_row_def CONNECTION_WRITER_def)

lemma on_row_next:
  assumes "on_row c" and "ACTIVE_MESSAGE c \<noteq> Inr APPLICATION_DATA"
  shows "on_row (next_message c)"
proof -
  have row: "last (active_row c) = APPLICATION_DATA" "active_row c \<noteq> []"
    using active_row_complete [OF assms(1)] by (simp_all add: complete_row_def)
  have "active_row c ! nat (hs_number c) \<noteq> APPLICATION_DATA"
    using assms by (simp add: active_message_row)
  then have "Suc (nat (hs_number c)) \<noteq> length (active_row c)"
    using row by (metis diff_Suc_1 last_conv_nth)
  then show ?thesis
    using assms(1) by (auto simp: on_row_def row_listed_def nat_add_distrib)
qed

text \<open>The message of the peer that a TLS 1.3 connection does not wait for.\<close>

definition skipped :: "'env s2n_connection \<Rightarrow> message_type_t \<Rightarrow> bool" where
  "skipped c m \<longleftrightarrow> IS_TLS13_HANDSHAKE c \<and>
     m = (if mode c = S2N_CLIENT then SERVER_CHANGE_CIPHER_SPEC else CLIENT_CHANGE_CIPHER_SPEC)"

lemma skips_ccs_iff:
  "skips_ccs c (ACTIVE_STATE_MACHINE c m) \<longleftrightarrow> skipped c m"
  by (cases m; cases "mode c")
    (auto simp: skips_ccs_def skipped_def ACTIVE_STATE_MACHINE_def CONNECTION_WRITER_def handshake_action_def zero_action_def)

lemma skipped_next [simp]: "skipped (next_message c) = skipped c"
  by (simp add: skipped_def fun_eq_iff)

definition same_position :: "'env s2n_connection \<Rightarrow> 'env s2n_connection \<Rightarrow> bool" where
  "same_position c0 c \<longleftrightarrow> handshake c = handshake c0 \<and> mode c = mode c0"

lemma socket_same_position:
  "safe (same_position c0) (s2n_socket_quickack q)" "safe (same_position c0) (s2n_socket_write_cork k)"
  "safe (same_position c0) (s2n_socket_write_uncork k)"
  by (auto simp: safe_def same_position_def s2n_socket_quickack_def s2n_socket_write_cork_def s2n_socket_write_uncork_def
      with_read_ctx_def with_write_ctx_def split: option.splits)

lemma advance_io_safe:
  assumes "on_row c0"
  shows "safe (same_position c0) (advance_io q k w)"
proof -
  have st: "ACTIVE_STATE c = Inr (ACTIVE_STATE_MACHINE c (active_row c ! nat (hs_number c)))"
    if "same_position c0 c" for c
    using that assms on_row_cong [of c c0] by (simp add: same_position_def ACTIVE_STATE_def active_message_row)
  show ?thesis
    unfolding advance_io_def
    apply (rule safe_andthen [OF socket_same_position(1)])
    apply (rule safeI)
    subgoal for c
      using socket_same_position(2,3) [THEN safeD, of c0 c k] by (simp add: st ret_def)
    done
qed

text \<open>One step along the row, and over the peer's ChangeCipherSpec in TLS 1.3.\<close>

definition after_advance :: "'env s2n_connection \<Rightarrow> int" where
  "after_advance c =
     (if skipped c (active_row c ! Suc (nat (hs_number c))) then hs_number c + 2 else hs_number c + 1)"

lemma advance_message_spec:
  assumes "on_row c" and "ACTIVE_MESSAGE c \<noteq> Inr APPLICATION_DATA"
  shows "\<exists>r c'. s2n_advance_message q k c = (r, c') \<and> r \<noteq> Inl Undefined \<and> mode c' = mode c \<and>
    handshake c' = (handshake c)\<lparr>message_number := after_advance c\<rparr> \<and> on_row c'"
proof -
  let ?n = "next_message c"
  have row: "on_row ?n" "0 \<le> hs_number c"
    using assms on_row_next by (blast, simp add: on_row_def)
  have msg: "ACTIVE_MESSAGE ?n = Inr (active_row c ! Suc (nat (hs_number c)))"
    using active_message_row [OF row(1)] row(2) by (simp add: nat_add_distrib)
  define m where "m = active_row c ! Suc (nat (hs_number c))"
  define d where "d = (if skipped c m then next_message ?n else ?n)"
  have d: "on_row d" "mode d = mode c" "handshake d = (handshake c)\<lparr>message_number := after_advance c\<rparr>"
  proof -
    show "on_row d"
      using row on_row_next [OF row(1)] msg by (auto simp: d_def m_def [symmetric] skipped_def)
    show "mode d = mode c" "handshake d = (handshake c)\<lparr>message_number := after_advance c\<rparr>"
      by (simp_all add: d_def m_def after_advance_def next_message_def on_handshake_def)
  qed
  have "s2n_advance_message q k c = advance_io q k (writer (ACTIVE_STATE_MACHINE c (active_row c ! nat (hs_number c)))) d"
    using msg skips_ccs_iff [of ?n m]
    by (simp add: s2n_advance_message_def ACTIVE_STATE_def active_message_row [OF assms(1)] Let_def d_def m_def)
  moreover obtain r c' where "advance_io q k (writer (ACTIVE_STATE_MACHINE c (active_row c ! nat (hs_number c)))) d = (r, c')"
    by (cases "advance_io q k (writer (ACTIVE_STATE_MACHINE c (active_row c ! nat (hs_number c)))) d")
  ultimately show ?thesis
    using safe_pair [OF advance_io_safe [OF d(1)], of d] d on_row_cong [of c' d]
    by (simp add: same_position_def)
qed

text \<open>No message of a TLS 1.3 handshake is followed by the same message.\<close>

lemma tls13_rows_adjacent: "list_all (\<lambda>(t, row). distinct_adj row) tls13_handshakes"
  by code_simp

lemma tls13_distinct_adj: "tls13_type_ok t \<Longrightarrow> distinct_adj (tls13_messages t)"
  using tls13_rows_adjacent tls13_handshakes_row [of t] by (auto simp: list_all_iff dest: map_of_SomeD)

text \<open>The messages a connection goes through until it reaches application data, with the answers of the socket calls
  of each step.\<close>

fun walk :: "(nat \<Rightarrow> bool) \<Rightarrow> (nat \<Rightarrow> bool) \<Rightarrow> nat \<Rightarrow> 'env s2n_connection \<Rightarrow> message_type_t list" where
  "walk q k 0 c = []"
| "walk q k (Suc fuel) c =
     (case ACTIVE_MESSAGE c of
        Inl e \<Rightarrow> []
      | Inr m \<Rightarrow> if m = APPLICATION_DATA then [m]
                else m # walk q k fuel (snd (s2n_advance_message (q fuel) (k fuel) c)))"

lemma skipped_not_last: "\<not> skipped c APPLICATION_DATA"
  by (simp add: skipped_def)

lemma skipped_once:
  assumes "on_row c" and "Suc i < length (active_row c)" and "skipped c (active_row c ! i)"
  shows "\<not> skipped c (active_row c ! Suc i)"
proof -
  have "distinct_adj (active_row c)"
    using assms by (auto simp: on_row_def row_listed_def active_row_def skipped_def tls13_distinct_adj)
  then have "active_row c ! i \<noteq> active_row c ! Suc i"
    using assms(2) by (simp add: distinct_adj_conv_nth)
  then show ?thesis
    using assms(3) by (auto simp: skipped_def)
qed

lemma not_application_data:
  assumes "on_row c" and "ACTIVE_MESSAGE c \<noteq> Inr APPLICATION_DATA"
  shows "Suc (nat (hs_number c)) < length (active_row c)"
  using on_row_next [OF assms] assms(1) by (simp add: on_row_def nat_add_distrib)

lemma application_data_last:
  assumes "on_row c" and "ACTIVE_MESSAGE c = Inr APPLICATION_DATA"
  shows "drop (Suc (nat (hs_number c))) (active_row c) = []"
proof (rule ccontr)
  let ?n = "nat (hs_number c)"
  assume "\<not> ?thesis"
  then have "?n < length (butlast (active_row c))"
    by simp
  then have "active_row c ! ?n \<in> set (butlast (active_row c))"
    by (metis nth_butlast nth_mem)
  then show False
    using assms active_row_complete [OF assms(1)] by (simp add: active_message_row complete_row_def)
qed

lemma walk_spec:
  assumes "on_row c" and "length (active_row c) \<le> nat (hs_number c) + fuel"
  shows "walk q k fuel c = active_row c ! nat (hs_number c) #
    filter (\<lambda>m. \<not> skipped c m) (drop (Suc (nat (hs_number c))) (active_row c))"
  using assms
proof (induction fuel arbitrary: c)
  case 0
  then show ?case by (simp add: on_row_def)
next
  case (Suc fuel)
  let ?n = "nat (hs_number c)" and ?row = "active_row c"
  show ?case
  proof (cases "ACTIVE_MESSAGE c = Inr APPLICATION_DATA")
    case True
    then show ?thesis
      using application_data_last [OF Suc.prems(1)] active_message_row [OF Suc.prems(1)] by simp
  next
    case False
    obtain r c' where adv: "s2n_advance_message (q fuel) (k fuel) c = (r, c')" "mode c' = mode c"
        "handshake c' = (handshake c)\<lparr>message_number := after_advance c\<rparr>" "on_row c'"
      using advance_message_spec [OF Suc.prems(1) False] by blast
    have c': "active_row c' = ?row" "skipped c' = skipped c" "hs_number c' = after_advance c"
      using adv by (simp_all add: active_row_def skipped_def IS_TLS13_HANDSHAKE_def fun_eq_iff)
    have n: "0 \<le> hs_number c" "Suc ?n < length ?row"
      using Suc.prems(1) not_application_data [OF Suc.prems(1) False] by (simp_all add: on_row_def)
    have n': "nat (after_advance c) = (if skipped c (?row ! Suc ?n) then Suc (Suc ?n) else Suc ?n)"
      using n by (simp add: after_advance_def nat_add_distrib)
    have "walk q k fuel c' = ?row ! nat (after_advance c) #
        filter (\<lambda>m. \<not> skipped c m) (drop (Suc (nat (after_advance c))) ?row)"
      using Suc.IH [OF adv(4)] Suc.prems(2) n' c' by simp
    also have "\<dots> = filter (\<lambda>m. \<not> skipped c m) (drop (Suc ?n) ?row)"
    proof (cases "skipped c (?row ! Suc ?n)")
      case True
      have "Suc (Suc ?n) < length ?row"
        using adv(4) c' n' True by (simp add: on_row_def)
      then show ?thesis
        using True n n' skipped_once [OF Suc.prems(1) _ True] by (simp add: Cons_nth_drop_Suc [symmetric])
    next
      case False
      then show ?thesis
        using n n' by (simp add: Cons_nth_drop_Suc [symmetric])
    qed
    finally show ?thesis
      using False adv(1) active_message_row [OF Suc.prems(1)] by simp
  qed
qed


section \<open>The types that can be chosen\<close>

text \<open>The code outside this file leaves the handshake state, the role and the resumption flag alone.\<close>

definition keeps_position :: "('env, 'a) conn_action \<Rightarrow> bool" where
  "keeps_position m \<longleftrightarrow> (\<forall>c. same_position c (snd (m c)) \<and> client_session_resumed (snd (m c)) = client_session_resumed c)"

definition ops_keep_position :: "'env handshake_type_ops \<Rightarrow> bool" where
  "ops_keep_position ops \<longleftrightarrow> keeps_position (resume_decrypt_session ops) \<and> keeps_position (is_encrypt_key_available ops) \<and>
     keeps_position (resume_from_cache ops) \<and> (\<forall>n. keeps_position (get_public_random_data ops n))"

text \<open>Before the flags of a full handshake are known: a negotiated TLS 1.2 type of which at most the client
  authentication, ticket and NPN flags are set.\<close>

definition chosen_part :: "'env s2n_connection \<Rightarrow> bool" where
  "chosen_part c \<longleftrightarrow> \<not> IS_TLS13_HANDSHAKE c \<and> hs_type c < 256 \<and> has (hs_type c) NEGOTIATED \<and> \<not> has (hs_type c) FULL_HANDSHAKE \<and>
     \<not> has (hs_type c) NO_CLIENT_CERT \<and> \<not> has (hs_type c) TLS12_PERFECT_FORWARD_SECRECY \<and> \<not> has (hs_type c) OCSP_STATUS"

definition full_part :: "'env s2n_connection \<Rightarrow> bool" where
  "full_part c \<longleftrightarrow> \<not> IS_TLS13_HANDSHAKE c \<and> hs_type c < 256 \<and> has (hs_type c) NEGOTIATED \<and> has (hs_type c) FULL_HANDSHAKE \<and>
     \<not> has (hs_type c) NO_CLIENT_CERT"

definition chosen :: "'env s2n_connection \<Rightarrow> bool" where
  "chosen c \<longleftrightarrow> row_listed c \<and> has (hs_type c) NEGOTIATED"

definition resumes_with_auth :: "'env s2n_connection \<Rightarrow> bool" where
  "resumes_with_auth c \<longleftrightarrow> mode c = S2N_CLIENT \<and> client_session_resumed c \<and> has (hs_type c) CLIENT_AUTH"

lemmas part_defs = chosen_part_def full_part_def chosen_def resumes_with_auth_def row_listed_def IS_TLS13_HANDSHAKE_def

lemma full_part_chosen: "full_part c \<Longrightarrow> chosen c"
  by (auto simp: part_defs tls12_type_ok_def)

lemma chosen_part_chosen: "chosen_part c \<Longrightarrow> \<not> has (hs_type c) CLIENT_AUTH \<Longrightarrow> chosen c"
  by (auto simp: part_defs tls12_type_ok_def)

lemma keeps_position_parts:
  assumes "keeps_position m" and "m c = (r, c')"
  shows "chosen_part c' = chosen_part c" "full_part c' = full_part c" "resumes_with_auth c' = resumes_with_auth c"
    "hs_type c' = hs_type c" "chosen c' = chosen c" "mode c' = mode c"
  using assms by (auto simp: keeps_position_def same_position_def part_defs dest!: spec [of _ c])

lemma set_tls12_flag_yields:
  assumes "\<And>c. P c \<Longrightarrow> hs_state_machine (handshake c) \<noteq> S2N_STATE_MACHINE_TLS13 \<Longrightarrow>
    Q (on_handshake (\<lambda>h. h\<lparr>handshake_type := handshake_type h OR f, hs_state_machine := S2N_STATE_MACHINE_TLS12\<rparr>) c)"
  shows "yields P (s2n_handshake_type_set_tls12_flag f) (\<lambda>_. Q)"
  using assms
  by (auto simp: yields_def s2n_handshake_type_set_tls12_flag_def ensure_st_def modify_def or_type_def on_handshake_def
      s2n_conn_choose_state_machine_def split: if_splits)

lemma flag_part:
  "f \<in> {WITH_SESSION_TICKET, WITH_NPN} \<Longrightarrow>
     yields (\<lambda>c. chosen_part c \<and> (resumes_with_auth c \<longrightarrow> A) \<and> (has (hs_type c) CLIENT_AUTH \<longrightarrow> B))
       (s2n_handshake_type_set_tls12_flag f)
       (\<lambda>_ c. chosen_part c \<and> (resumes_with_auth c \<longrightarrow> A) \<and> (has (hs_type c) CLIENT_AUTH \<longrightarrow> B))"
  "f \<in> {TLS12_PERFECT_FORWARD_SECRECY, OCSP_STATUS} \<Longrightarrow> yields full_part (s2n_handshake_type_set_tls12_flag f) (\<lambda>_. full_part)"
  by (rule set_tls12_flag_yields; auto simp: part_defs on_handshake_def flag_simps)+

lemma session_id_part: "ops_keep_position ops \<Longrightarrow> yields chosen_part (s2n_generate_new_client_session_id ops) (\<lambda>_. chosen_part)"
  by (rule yieldsI) (auto simp: s2n_generate_new_client_session_id_def bnd_def modify_def ret_def ops_keep_position_def
      chosen_part_def IS_TLS13_HANDSHAKE_def split: if_splits prod.splits sum.splits
      dest!: keeps_position_parts(1) [of "get_public_random_data ops 32", rotated])

lemma validate_ems_part:
  assumes "s2n_validate_ems_status c = (r, c')"
  shows "chosen_part c' = chosen_part c" "resumes_with_auth c' = resumes_with_auth c" "hs_type c' = hs_type c"
  using assms by (auto simp: s2n_validate_ems_status_def part_defs split: sum.splits if_splits)

lemma full_handshake_chosen:
  assumes "ops_keep_position ops"
  shows "yields (\<lambda>c. chosen_part c \<and> \<not> resumes_with_auth c) (full_handshake_type ops) (\<lambda>_. chosen)"
proof -
  have full: "yields chosen_part (block [
        s2n_generate_new_client_session_id ops,
        s2n_handshake_type_set_flag FULL_HANDSHAKE,
        (\<lambda>conn. case secure conn of None \<Rightarrow> (Inl Undefined, conn) | Some params \<Rightarrow>
                case cipher_suite params of None \<Rightarrow> (Inl Undefined, conn) | Some suite \<Rightarrow>
                if kex_is_ephemeral (key_exchange_alg suite) then s2n_handshake_type_set_tls12_flag TLS12_PERFECT_FORWARD_SECRECY conn
                else ret () conn),
        (\<lambda>conn. if server_can_send_ocsp ops conn \<or> server_sent_ocsp ops conn
                then s2n_handshake_type_set_tls12_flag OCSP_STATUS conn else ret () conn)]) (\<lambda>_. full_part)"
    (is "yields _ (block [_, _, ?kex, ?ocsp]) _")
  proof (intro yields_block_Cons)
    show "yields chosen_part (s2n_handshake_type_set_flag FULL_HANDSHAKE) (\<lambda>_. full_part)"
      unfolding s2n_handshake_type_set_flag_def
      by (rule yields_modify) (auto simp: part_defs or_type_def on_handshake_def flag_simps)
    show "yields full_part ?kex (\<lambda>_. full_part)" "yields full_part ?ocsp (\<lambda>_. full_part)"
      using flag_part(2) by (auto simp: yields_def ret_def split: option.splits if_splits)
  qed (auto intro: session_id_part assms yields_block_Nil)
  show ?thesis
  proof (rule yieldsI)
    fix c x c'
    assume c: "chosen_part c \<and> \<not> resumes_with_auth c" and r: "full_handshake_type ops c = (Inr x, c')"
    show "chosen c'"
    proof (cases "mode c = S2N_CLIENT \<and> client_session_resumed c")
      case True
      then have "c' = c" "\<not> has (hs_type c) CLIENT_AUTH"
        using c r by (auto simp: full_handshake_type_def ret_def resumes_with_auth_def)
      then show ?thesis
        using c chosen_part_chosen by blast
    next
      case False
      then show ?thesis
        using full_part_chosen yieldsD [OF full _ r [unfolded full_handshake_type_def if_not_P [OF False]]] c by blast
    qed
  qed
qed

lemma cache_lookup_chosen:
  assumes "ops_keep_position ops"
  shows "yields (\<lambda>c. chosen_part c \<and> \<not> resumes_with_auth c \<and>
      (has (hs_type c) CLIENT_AUTH \<longrightarrow> mode c = S2N_SERVER \<longrightarrow> s2n_allowed_to_cache_connection c = Inr False))
    (cache_lookup ops) (\<lambda>_. chosen)"
proof (rule yieldsI, elim conjE)
  fix c x c'
  assume c: "chosen_part c" "\<not> resumes_with_auth c"
    "has (hs_type c) CLIENT_AUTH \<longrightarrow> mode c = S2N_SERVER \<longrightarrow> s2n_allowed_to_cache_connection c = Inr False"
    and r: "cache_lookup ops c = (Inr x, c')"
  note full = yieldsD [OF full_handshake_chosen [OF assms]]
  show "chosen c'"
  proof (cases "actual_protocol_version c \<le> S2N_TLS12 \<and> mode c = S2N_SERVER \<and> s2n_allowed_to_cache_connection c \<noteq> Inr False")
    case False
    then have "full_handshake_type ops c = (Inr x, c')"
      using r unfolding cache_lookup_def by (simp only: if_False)
    then show ?thesis
      using c by (intro full) auto
  next
    case True
    obtain r1 c1 where cache: "resume_from_cache ops c = (r1, c1)"
      by (cases "resume_from_cache ops c")
    have "keeps_position (resume_from_cache ops)"
      using assms by (simp add: ops_keep_position_def)
    note c1 = keeps_position_parts [OF this cache]
    show ?thesis
    proof (cases r1)
      case (Inr u)
      then show ?thesis
        using r c True cache c1(5) chosen_part_chosen [of c] by (auto simp: cache_lookup_def)
    next
      case (Inl e)
      then obtain c2 where c2: "s2n_validate_ems_status c1 = (Inr (), c2)" "full_handshake_type ops c2 = (Inr x, c')"
        using r True cache by (auto simp: cache_lookup_def split: failure.splits if_splits elim!: andthen_InrE)
      have "chosen_part c2" "\<not> resumes_with_auth c2"
        using c c1(1,3) validate_ems_part [OF c2(1)] by simp_all
      then show ?thesis
        using c2(2) by (intro full) auto
    qed
  qed
qed

text \<open>Where client authentication is asked for, no ticket is decrypted and no cache is consulted.\<close>

definition auth_without_resumption :: "'env s2n_connection \<Rightarrow> bool" where
  "auth_without_resumption c \<longleftrightarrow> \<not> resumes_with_auth c \<and> (has (hs_type c) CLIENT_AUTH \<longrightarrow>
     session_ticket_status c \<noteq> S2N_DECRYPT_TICKET \<and> (mode c = S2N_SERVER \<longrightarrow> s2n_allowed_to_cache_connection c = Inr False))"

lemma auth_type_on_handshake [simp]:
  "s2n_connection_get_client_auth_type (on_handshake f c) = s2n_connection_get_client_auth_type c"
  by (cases "config c") (simp_all add: on_handshake_def s2n_connection_get_client_auth_type_def
      s2n_connection_and_config_get_client_auth_type_def)

lemma allowed_on_handshake [simp]:
  "s2n_allowed_to_cache_connection (on_handshake f c) = s2n_allowed_to_cache_connection c"
  by (simp add: s2n_allowed_to_cache_connection_def s2n_connection_is_client_auth_enabled_def) (simp add: on_handshake_def)

lemma tls12_flag_part:
  "f \<in> {WITH_SESSION_TICKET, WITH_NPN} \<Longrightarrow> yields (\<lambda>c. chosen_part c \<and> auth_without_resumption c)
     (s2n_handshake_type_set_tls12_flag f) (\<lambda>_ c. chosen_part c \<and> auth_without_resumption c)"
  by (rule set_tls12_flag_yields)
    (auto simp: part_defs auth_without_resumption_def flag_simps, auto simp: on_handshake_def flag_simps)

lemma new_ticket_part:
  assumes "ops_keep_position ops"
  shows "yields (\<lambda>c. chosen_part c \<and> \<not> has (hs_type c) CLIENT_AUTH) (new_ticket_if_possible ops)
    (\<lambda>_ c. chosen_part c \<and> \<not> has (hs_type c) CLIENT_AUTH)"
proof (rule yieldsI)
  fix c x c'
  assume c: "chosen_part c \<and> \<not> has (hs_type c) CLIENT_AUTH" and r: "new_ticket_if_possible ops c = (Inr x, c')"
  obtain r1 c1 where key: "is_encrypt_key_available ops c = (r1, c1)"
    by (cases "is_encrypt_key_available ops c")
  have "keeps_position (is_encrypt_key_available ops)"
    using assms by (simp add: ops_keep_position_def)
  note c1 = keeps_position_parts [OF this key]
  let ?c2 = "c1\<lparr>session_ticket_status := S2N_NEW_TICKET\<rparr>"
  have c2: "chosen_part ?c2" "\<not> has (hs_type ?c2) CLIENT_AUTH"
    using c c1(1,4) by (simp_all add: chosen_part_def IS_TLS13_HANDSHAKE_def)
  show "chosen_part c' \<and> \<not> has (hs_type c') CLIENT_AUTH"
  proof (cases r1)
    case (Inr u)
    then have "s2n_handshake_type_set_tls12_flag WITH_SESSION_TICKET ?c2 = (Inr x, c')"
      using r key by (simp add: new_ticket_if_possible_def)
    then show ?thesis
      using yieldsD [OF flag_part(1) [of WITH_SESSION_TICKET True False], of ?c2 x c'] c2 by simp
  next
    case (Inl e)
    then show ?thesis
      using r key c c1 by (simp add: new_ticket_if_possible_def split: failure.splits)
  qed
qed

lemma rejected_ticket_chosen:
  assumes "ops_keep_position ops"
  shows "yields (\<lambda>c. chosen_part c \<and> \<not> has (hs_type c) CLIENT_AUTH)
    (block [s2n_validate_ems_status, new_ticket_if_possible ops, full_handshake_type ops]) (\<lambda>_. chosen)"
proof (intro yields_block_Cons)
  show "yields (\<lambda>c. chosen_part c \<and> \<not> has (hs_type c) CLIENT_AUTH) s2n_validate_ems_status
      (\<lambda>_ c. chosen_part c \<and> \<not> has (hs_type c) CLIENT_AUTH)"
    using validate_ems_part by (fastforce simp: yields_def)
  show "yields (\<lambda>c. chosen_part c \<and> \<not> has (hs_type c) CLIENT_AUTH) (full_handshake_type ops) (\<lambda>_. chosen)"
    using full_handshake_chosen [OF assms] by (auto simp: yields_def resumes_with_auth_def)
qed (auto intro: new_ticket_part assms yields_block_Nil)

lemma ticket_lookup_chosen:
  assumes "ops_keep_position ops"
  shows "yields (\<lambda>c. chosen_part c \<and> auth_without_resumption c) (ticket_lookup ops) (\<lambda>_. chosen)"
proof (rule yieldsI, elim conjE)
  fix c x c'
  assume c: "chosen_part c" "auth_without_resumption c" and r: "ticket_lookup ops c = (Inr x, c')"
  have cache: "chosen d'" if "cache_lookup ops d = (Inr x, d')" "chosen_part d" "auth_without_resumption d" for d d' x
    using yieldsD [OF cache_lookup_chosen [OF assms], of d x d'] that by (auto simp: auth_without_resumption_def)
  obtain cfg where cfg: "config c = Some cfg"
    using r by (auto simp: ticket_lookup_def split: option.splits)
  show "chosen c'"
  proof (cases "use_tickets cfg \<and> session_ticket_status c = S2N_DECRYPT_TICKET")
    case False
    show ?thesis
    proof (cases "use_tickets cfg \<and> session_ticket_status c = S2N_NEW_TICKET")
      case True
      then obtain c1 where "s2n_handshake_type_set_tls12_flag WITH_SESSION_TICKET c = (Inr (), c1)"
          "cache_lookup ops c1 = (Inr x, c')"
        using r False by (auto simp: ticket_lookup_def cfg elim!: andthen_InrE)
      then show ?thesis
        using cache [of c1 x c'] yieldsD [OF tls12_flag_part, of WITH_SESSION_TICKET c "()" c1] c by simp
    next
      case False2: False
      then have "cache_lookup ops c = (Inr x, c')"
        using r False by (simp add: ticket_lookup_def cfg split: if_splits)
      then show ?thesis
        using cache c by blast
    qed
  next
    case True
    then have auth: "\<not> has (hs_type c) CLIENT_AUTH"
      using c by (auto simp: auth_without_resumption_def)
    obtain r1 c1 where dec: "resume_decrypt_session ops c = (r1, c1)"
      by (cases "resume_decrypt_session ops c")
    have "keeps_position (resume_decrypt_session ops)"
      using assms by (simp add: ops_keep_position_def)
    note c1 = keeps_position_parts [OF this dec]
    show ?thesis
    proof (cases r1)
      case (Inr u)
      then show ?thesis
        using r True c auth dec c1(5) chosen_part_chosen [of c] by (simp add: ticket_lookup_def cfg)
    next
      case (Inl e)
      then have "block [s2n_validate_ems_status, new_ticket_if_possible ops, full_handshake_type ops] c1 = (Inr x, c')"
        using r True dec by (simp add: ticket_lookup_def cfg split: failure.splits)
      moreover have "chosen_part c1 \<and> \<not> has (hs_type c1) CLIENT_AUTH"
        using c auth c1 by simp
      ultimately show ?thesis
        by (rule yieldsD [OF rejected_ticket_chosen [OF assms], rotated])
    qed
  qed
qed

definition ready_auth :: "'env s2n_connection \<Rightarrow> bool" where
  "ready_auth c \<longleftrightarrow>
     (case s2n_connection_get_client_auth_type c of Inl e \<Rightarrow> True | Inr auth \<Rightarrow>
        wants_client_auth c auth \<longrightarrow>
          session_ticket_status c \<noteq> S2N_DECRYPT_TICKET \<and> \<not> (mode c = S2N_CLIENT \<and> client_session_resumed c))"

text \<open>What the extensions and the early data state machine establish before the type is chosen: an early
  ChangeCipherSpec is only sent in middlebox compatibility mode (\<open>s2n_client_early_data_indication.c\<close>), early data is
  only accepted with a chosen key and without a retry (\<open>s2n_early_data.c\<close>), and no ticket is taken for decryption
  when client authentication is on (\<open>s2n_client_session_ticket.c\<close>).  The last condition excludes a client that
  requires client authentication and resumes a session, which nothing in the program rules out.\<close>

definition ready_to_choose :: "'env s2n_connection \<Rightarrow> bool" where
  "ready_to_choose c \<longleftrightarrow>
     (has (hs_type c) EARLY_CLIENT_CCS \<longrightarrow> has (hs_type c) MIDDLEBOX_COMPAT) \<and>
     (early_data_state c = S2N_EARLY_DATA_ACCEPTED \<longrightarrow>
        chosen_psk (psk_params c) \<noteq> None \<and> \<not> has (hs_type c) HELLO_RETRY_REQUEST) \<and>
     ready_auth c"

lemma on_handshake_simps [simp]:
  "handshake (on_handshake f c) = f (handshake c)" "mode (on_handshake f c) = mode c"
  "early_data_state (on_handshake f c) = early_data_state c" "psk_params (on_handshake f c) = psk_params c"
  "session_ticket_status (on_handshake f c) = session_ticket_status c" "npn_negotiated (on_handshake f c) = npn_negotiated c"
  "client_session_resumed (on_handshake f c) = client_session_resumed c"
  "wants_client_auth (on_handshake f c) = wants_client_auth c"
  "actual_protocol_version (on_handshake f c) = actual_protocol_version c"
  by (simp_all add: on_handshake_def wants_client_auth_def fun_eq_iff)

lemma ready_auth_on_handshake [simp]: "ready_auth (on_handshake f c) = ready_auth c"
  by (simp add: ready_auth_def split: sum.splits)

lemma on_handshake_comp: "on_handshake f (on_handshake g c) = on_handshake (\<lambda>h. f (g h)) c"
  by (simp add: on_handshake_def)

lemma allowed_to_cache_auth:
  assumes "s2n_connection_get_client_auth_type c = Inr auth" and "wants_client_auth c auth" and "mode c = S2N_SERVER"
  shows "s2n_allowed_to_cache_connection c = Inr False"
  using assms by (simp add: s2n_allowed_to_cache_connection_def s2n_connection_is_client_auth_enabled_def wants_client_auth_def)

lemma middlebox_flag_yields:
  "yields (\<lambda>c. IS_TLS13_HANDSHAKE c \<and> tls13_type_ok (hs_type c) \<and> has (hs_type c) NEGOTIATED)
     (s2n_handshake_type_set_tls13_flag MIDDLEBOX_COMPAT) (\<lambda>_. chosen)"
  by (auto simp: yields_def s2n_handshake_type_set_tls13_flag_def ensure_st_def modify_def or_type_def
      s2n_conn_choose_state_machine_def chosen_def row_listed_def IS_TLS13_HANDSHAKE_def tls13_type_ok_def
      flag_simps split: if_splits)

lemma tls13_type_chosen:
  assumes "IS_TLS13_HANDSHAKE c" and "ready_to_choose c" and "s2n_conn_set_tls13_handshake_type c = (Inr x, c')"
  shows "chosen c'"
proof -
  define t where "t y = (y AND 176) OR 1
    OR (if chosen_psk (psk_params c) = None then FULL_HANDSHAKE else 0)
    OR (if early_data_state c = S2N_EARLY_DATA_ACCEPTED then WITH_EARLY_DATA else 0)" for y
  define c1 where "c1 = on_handshake (\<lambda>h. h\<lparr>handshake_type := t (handshake_type h)\<rparr>) c"
  obtain auth where auth: "s2n_connection_get_client_auth_type c = Inr auth"
    using assms(3) by (cases "s2n_connection_get_client_auth_type c")
      (auto simp: s2n_conn_set_tls13_handshake_type_def bnd_def modify_def s2n_handshake_type_set_flag_def or_type_def
        ret_def split: if_splits)
  define c2 where "c2 = (if wants_client_auth c auth \<and> chosen_psk (psk_params c) = None then or_type CLIENT_AUTH c1 else c1)"
  have c2: "IS_TLS13_HANDSHAKE c2" "tls13_type_ok (hs_type c2)" "has (hs_type c2) NEGOTIATED"
    using assms(1,2) le_less_trans [OF word_and_le1, of 176 256 "hs_type c"]
    by (auto simp: c2_def c1_def t_def or_type_def IS_TLS13_HANDSHAKE_def tls13_type_ok_def ready_to_choose_def flag_simps)
  have "(if s2n_is_middlebox_compat_enabled c2 then s2n_handshake_type_set_tls13_flag MIDDLEBOX_COMPAT c2 else ret () c2)
      = (Inr x, c')"
    using assms(3) auth
    by (cases "chosen_psk (psk_params c) = None"; cases "early_data_state c = S2N_EARLY_DATA_ACCEPTED"; cases "wants_client_auth c auth")
      (simp_all add: s2n_conn_set_tls13_handshake_type_def bnd_def modify_def s2n_handshake_type_set_flag_def or_type_def
        ret_def IS_FULL_HANDSHAKE_def s2n_handshake_type_check_flag_def flag_simps c2_def c1_def t_def on_handshake_comp or.assoc
        split: if_splits prod.splits sum.splits)
  then show ?thesis
    using c2 yieldsD [OF middlebox_flag_yields, of c2 x c']
    by (auto simp: ret_def chosen_def row_listed_def split: if_splits)
qed

lemma tls12_type_chosen:
  assumes "ops_keep_position ops"
  shows "yields (\<lambda>c. \<not> IS_TLS13_HANDSHAKE c \<and> ready_auth c) (block [
          s2n_handshake_type_reset,
          s2n_handshake_type_set_flag NEGOTIATED,
          bnd (\<lambda>conn. (s2n_connection_get_client_auth_type conn, conn)) (\<lambda>auth conn.
            if wants_client_auth conn auth then s2n_handshake_type_set_flag CLIENT_AUTH conn else ret () conn),
          (\<lambda>conn. if npn_negotiated conn then s2n_handshake_type_set_tls12_flag WITH_NPN conn else ret () conn),
          ticket_lookup ops]) (\<lambda>_. chosen)" (is "yields _ (block [?a, ?b, ?auth, ?npn, _]) _")
proof (intro yields_block_Cons)
  let ?P = "\<lambda>n c. \<not> IS_TLS13_HANDSHAKE c \<and> ready_auth c \<and> hs_type c = n"
  show "yields (\<lambda>c. \<not> IS_TLS13_HANDSHAKE c \<and> ready_auth c) ?a (\<lambda>_. ?P 0)" "yields (?P 0) ?b (\<lambda>_. ?P 1)"
    by (auto simp: yields_def s2n_handshake_type_reset_def s2n_handshake_type_set_flag_def modify_def
        or_type_def IS_TLS13_HANDSHAKE_def)
  show "yields (?P 1) ?auth (\<lambda>_ c. chosen_part c \<and> auth_without_resumption c)"
    by (rule yieldsI) (auto simp: bnd_def s2n_handshake_type_set_flag_def modify_def or_type_def ret_def
        ready_auth_def part_defs auth_without_resumption_def flag_simps allowed_to_cache_auth split: if_splits sum.splits)
  show "yields (\<lambda>c. chosen_part c \<and> auth_without_resumption c) ?npn (\<lambda>_ c. chosen_part c \<and> auth_without_resumption c)"
    using tls12_flag_part [of WITH_NPN] by (auto simp: yields_def ret_def split: if_splits)
qed (auto intro: ticket_lookup_chosen assms yields_block_Nil)

lemma set_handshake_type_chosen:
  assumes "ops_keep_position ops"
  shows "yields ready_to_choose (s2n_conn_set_handshake_type ops) (\<lambda>_. chosen)"
  unfolding s2n_conn_set_handshake_type_def
proof (intro yields_block_Cons)
  show "yields ready_to_choose (\<lambda>conn. s2n_conn_choose_state_machine (actual_protocol_version conn) conn) (\<lambda>_. ready_to_choose)"
    by (auto simp: yields_def s2n_conn_choose_state_machine_def ready_to_choose_def split: if_splits)
  show "yields chosen (block []) (\<lambda>_. chosen)"
    by (rule yields_block_Nil)
qed (auto intro!: yields_ensure_st yields_if intro: yieldsI tls13_type_chosen yields_weaken [OF tls12_type_chosen [OF assms]]
    simp: ready_to_choose_def simp del: block.simps)

lemma chosen_on_row:
  assumes "chosen c" and "0 \<le> hs_number c" and "hs_number c \<le> 5"
  shows "on_row c"
  using assms
  by (auto simp: chosen_def on_row_def active_row_def row_listed_def tls12_messages_def tls13_messages_def Let_def
      split: if_splits)


section \<open>A client without a certificate\<close>

lemma filter_opt: "filter P (opt b m) = opt (b \<and> P m) m"
  by (simp add: opt_def)

lemma opt_or: "opt b m = [] \<longleftrightarrow> \<not> b"
  by (simp add: opt_def)

lemma no_client_cert_row:
  "has t NEGOTIATED \<Longrightarrow> has t CLIENT_AUTH \<Longrightarrow> has t FULL_HANDSHAKE \<Longrightarrow>
     tls12_messages (t OR NO_CLIENT_CERT) = filter (\<lambda>m. m \<noteq> CLIENT_CERT_VERIFY) (tls12_messages t) \<and>
     tls13_messages (t OR NO_CLIENT_CERT) = filter (\<lambda>m. m \<noteq> CLIENT_CERT_VERIFY) (tls13_messages t)"
  by (simp add: tls12_messages_def tls13_messages_def Let_def filter_opt flag_simps)

lemma client_cert_position:
  assumes "has t NEGOTIATED" and "CLIENT_CERT \<in> set row" and "row = tls12_messages t \<or> row = tls13_messages t"
  shows "\<exists>pre post. row = pre @ CLIENT_CERT # post \<and> CLIENT_CERT \<notin> set pre \<and> CLIENT_CERT \<notin> set post \<and>
    CLIENT_CERT_VERIFY \<notin> set pre"
proof -
  obtain pre post where split: "row = pre @ CLIENT_CERT # post" "CLIENT_CERT \<notin> set pre"
    using split_list_first [OF assms(2)] by blast
  have one: "count_list row CLIENT_CERT = 1"
    using assms
    by (auto simp: tls12_messages_def tls13_messages_def Let_def opt_def split: if_splits)
  then have post: "CLIENT_CERT \<notin> set post"
    using split by (simp add: count_list_0_iff)
  have "CLIENT_CERT_VERIFY \<notin> set (takeWhile (\<lambda>m. m \<noteq> CLIENT_CERT) row)"
    using assms
    by (auto simp: tls12_messages_def tls13_messages_def Let_def opt_def split: if_splits)
  moreover have "takeWhile (\<lambda>m. m \<noteq> CLIENT_CERT) row = pre"
    using split by (auto simp: takeWhile_append takeWhile_eq_all_conv)
  ultimately show ?thesis
    using split post by blast
qed

lemma past_kept:
  assumes "row = pre @ CLIENT_CERT # post" and "CLIENT_CERT \<notin> set pre" and "CLIENT_CERT \<notin> set post"
    and "CLIENT_CERT_VERIFY \<notin> set pre" and "n < length row" and "row ! n = CLIENT_CERT"
  shows "n = length pre" and "take (Suc n) (filter (\<lambda>m. m \<noteq> CLIENT_CERT_VERIFY) row) = take (Suc n) row"
    and "n < length (filter (\<lambda>m. m \<noteq> CLIENT_CERT_VERIFY) row)"
proof -
  show n: "n = length pre"
  proof (rule ccontr)
    assume "n \<noteq> length pre"
    then have "CLIENT_CERT \<in> set pre \<or> CLIENT_CERT \<in> set post"
      using assms(1,5,6) by (cases "n < length pre") (force simp: nth_append nth_Cons in_set_conv_nth split: nat.splits)+
    then show False
      using assms(2,3) by blast
  qed
  have "filter (\<lambda>m. m \<noteq> CLIENT_CERT_VERIFY) pre = pre"
    using assms(4) by (simp add: filter_id_conv) blast
  then show "take (Suc n) (filter (\<lambda>m. m \<noteq> CLIENT_CERT_VERIFY) row) = take (Suc n) row"
      "n < length (filter (\<lambda>m. m \<noteq> CLIENT_CERT_VERIFY) row)"
    using n assms(1) by simp_all
qed

lemma no_client_cert_spec:
  assumes "on_row c" and "ACTIVE_MESSAGE c = Inr CLIENT_CERT"
    and "s2n_conn_set_handshake_no_client_cert c = (Inr (), c')"
  shows "on_row c'" "hs_number c' = hs_number c"
    "active_row c' = filter (\<lambda>m. m \<noteq> CLIENT_CERT_VERIFY) (active_row c)"
    "take (Suc (nat (hs_number c))) (active_row c') = take (Suc (nat (hs_number c))) (active_row c)"
proof -
  let ?n = "nat (hs_number c)" and ?row = "active_row c"
  have c': "c' = or_type NO_CLIENT_CERT c"
    using assms(3)
    by (auto simp: s2n_conn_set_handshake_no_client_cert_def bnd_def ensure_def s2n_handshake_type_set_flag_def modify_def
        split: sum.splits if_splits)
  have n: "?n < length ?row" "?row ! ?n = CLIENT_CERT" "has (hs_type c) NEGOTIATED"
    using assms(1,2) by (simp_all add: on_row_def active_message_row)
  then have mem: "CLIENT_CERT \<in> set ?row"
    by (metis nth_mem)
  then have auth: "has (hs_type c) CLIENT_AUTH" "has (hs_type c) FULL_HANDSHAKE"
    using assms(1)
    by (auto simp: active_row_def on_row_def row_listed_def tls12_type_ok_def tls13_type_ok_def tls12_messages_def
        tls13_messages_def Let_def split: if_splits)
  show num: "hs_number c' = hs_number c"
    by (simp add: c' or_type_def)
  show row: "active_row c' = filter (\<lambda>m. m \<noteq> CLIENT_CERT_VERIFY) ?row"
    using no_client_cert_row [OF n(3) auth] by (simp add: c' active_row_def or_type_def IS_TLS13_HANDSHAKE_def)
  have "?row = tls12_messages (hs_type c) \<or> ?row = tls13_messages (hs_type c)"
    by (simp add: active_row_def)
  then obtain pre post where split: "?row = pre @ CLIENT_CERT # post" "CLIENT_CERT \<notin> set pre" "CLIENT_CERT \<notin> set post"
      "CLIENT_CERT_VERIFY \<notin> set pre"
    using client_cert_position [OF n(3) mem] by blast
  note kept = past_kept [OF split n(1,2)]
  show "take (Suc ?n) (active_row c') = take (Suc ?n) ?row"
    using kept(2) row by simp
  show "on_row c'"
    using assms(1) kept(3) row num auth
    by (auto simp: on_row_def c' or_type_def row_listed_def IS_TLS13_HANDSHAKE_def tls12_type_ok_def tls13_type_ok_def
        flag_simps split: if_splits)
qed


section \<open>Names of handshake types\<close>

lemma names_fit:
  assumes "length acc + sum_list (map length ns) < MAX_HANDSHAKE_TYPE_LEN"
  shows "type_name_loop ns i t acc = Inr (acc @ concat (map snd (filter (\<lambda>(j, n). bit t j) (zip [i..<i + length ns] ns))))"
  using assms
proof (induction ns arbitrary: i acc)
  case Nil
  then show ?case by simp
next
  case (Cons n ns)
  have "t AND push_bit i 1 \<noteq> 0 \<longleftrightarrow> bit t i" for t :: u32
    by (simp add: and_exp_eq_0_iff_not_bit push_bit_of_1)
  moreover have "[i..<i + length (n # ns)] = i # [Suc i..<Suc i + length ns]"
    by (simp add: upt_rec)
  ultimately show ?case
    using Cons.IH [of "acc @ n" "Suc i"] Cons.IH [of acc "Suc i"] Cons.prems by simp
qed

definition flag_names :: "string list \<Rightarrow> u32 \<Rightarrow> string list" where
  "flag_names ns t = map snd (filter (\<lambda>(j, n). bit t j) (zip [0..<length ns] ns))"

lemma names_length:
  "sum_list (map length tls12_handshake_type_names) = 124" "sum_list (map length tls13_handshake_type_names) = 123"
  by (simp_all add: tls12_handshake_type_names_def tls13_handshake_type_names_def)

lemma type_name_loop_names:
  assumes "ns = tls12_handshake_type_names \<or> ns = tls13_handshake_type_names"
  shows "type_name_loop ns 0 t [] = Inr (concat (flag_names ns t))"
  using assms names_length by (subst names_fit) (auto simp: flag_names_def)


section \<open>Claims\<close>

definition example_ops :: "unit handshake_type_ops" where
  "example_ops = \<lparr>resume_decrypt_session = bail S2N_ERR_SAFETY, is_encrypt_key_available = bail S2N_ERR_SAFETY,
     resume_from_cache = bail S2N_ERR_SAFETY, get_public_random_data = (\<lambda>n. ret (replicate n 7)),
     server_can_send_ocsp = (\<lambda>_. False), server_sent_ocsp = (\<lambda>_. False)\<rparr>"

lemma example_ops_keep: "ops_keep_position example_ops"
  by (simp add: ops_keep_position_def keeps_position_def same_position_def example_ops_def bail_def ret_def)

text \<open>
  C2. The handshake type that is chosen has a row in its table.  Whenever \<open>s2n_conn_set_handshake_type\<close> succeeds
  on a connection that is ready for the choice, the type is negotiated and it is one of the types for which
  \<open>handshakes\<close>, or \<open>tls13_handshakes\<close> when the TLS 1.3 state machine is active, has a row; so a connection
  that is among the first six messages of the handshake is on that row.
\<close>
theorem handshake_type_listed:
  assumes "ops_keep_position ops" and "ready_to_choose c" and "s2n_conn_set_handshake_type ops c = (Inr (), c')"
  shows "row_listed c' \<and> has (hs_type c') NEGOTIATED \<and> (0 \<le> hs_number c' \<and> hs_number c' \<le> 5 \<longrightarrow> on_row c')"
  using yieldsD [OF set_handshake_type_chosen [OF assms(1)] assms(2,3)] chosen_on_row [of c'] by (auto simp: chosen_def)

lemma example_choice:
  "ready_to_choose (example_conn S2N_SERVER)"
  "\<exists>c'. s2n_conn_set_handshake_type example_ops (example_conn S2N_SERVER) = (Inr (), c') \<and> hs_type c' = 19 \<and> hs_number c' = 0"
  by (simp_all add: ready_to_choose_def ready_auth_def example_conn_def example_handshake_def example_ops_def example_config_def
      s2n_connection_get_client_auth_type_def s2n_connection_and_config_get_client_auth_type_def wants_client_auth_def
      s2n_conn_set_handshake_type_def s2n_conn_choose_state_machine_def on_handshake_def IS_TLS13_HANDSHAKE_def
      s2n_handshake_type_reset_def s2n_handshake_type_set_flag_def or_type_def ticket_lookup_def cache_lookup_def
      s2n_allowed_to_cache_connection_def s2n_connection_is_client_auth_enabled_def full_handshake_type_def
      s2n_generate_new_client_session_id_def s2n_handshake_type_set_tls12_flag_def s2n_connection_get_protocol_version_def
      example_suite_def kex_is_ephemeral_def
      flag_simps bnd_def ret_def modify_def ensure_st_def)

lemma handshake_type_listed_witness:
  "\<exists>c'. s2n_conn_set_handshake_type example_ops (example_conn S2N_SERVER) = (Inr (), c') \<and> hs_type c' = 19 \<and> on_row c'"
proof -
  obtain c' where c': "s2n_conn_set_handshake_type example_ops (example_conn S2N_SERVER) = (Inr (), c')"
      "hs_type c' = 19" "hs_number c' = 0"
    using example_choice(2) by blast
  then show ?thesis
    using handshake_type_listed [OF example_ops_keep example_choice(1) c'(1)] by simp
qed

text \<open>
  C1. Every handshake on a row is completed.  Moving on from message to message with \<open>s2n_advance_message\<close>,
  whatever the socket calls answer, a connection goes through exactly the rest of its row, except that a TLS 1.3
  connection does not stop at the ChangeCipherSpec of its peer, and arrives at application data after at most
  32 steps; no step reads outside the tables, and each one stays on the row.
\<close>
theorem handshake_reaches_application_data:
  assumes "on_row c"
  shows "walk q k 32 c = active_row c ! nat (hs_number c) #
           filter (\<lambda>m. \<not> skipped c m) (drop (Suc (nat (hs_number c))) (active_row c)) \<and>
         last (walk q k 32 c) = APPLICATION_DATA \<and>
         (ACTIVE_MESSAGE c \<noteq> Inr APPLICATION_DATA \<longrightarrow>
           fst (s2n_advance_message (q 0) (k 0) c) \<noteq> Inl Undefined \<and>
           on_row (snd (s2n_advance_message (q 0) (k 0) c)) \<and>
           hs_number (snd (s2n_advance_message (q 0) (k 0) c)) = after_advance c)"
proof (intro conjI impI)
  let ?n = "nat (hs_number c)" and ?row = "active_row c"
  show w: "walk q k 32 c = ?row ! ?n # filter (\<lambda>m. \<not> skipped c m) (drop (Suc ?n) ?row)"
    using assms active_row_complete [OF assms] by (intro walk_spec) (simp_all add: complete_row_def)
  have "last (?row ! ?n # drop (Suc ?n) ?row) = APPLICATION_DATA"
    using assms active_row_complete [OF assms] by (simp add: Cons_nth_drop_Suc on_row_def complete_row_def)
  then show "last (walk q k 32 c) = APPLICATION_DATA"
    unfolding w by (cases "drop (Suc ?n) ?row" rule: rev_cases) (simp_all add: skipped_not_last)
next
  assume "ACTIVE_MESSAGE c \<noteq> Inr APPLICATION_DATA"
  note spec = advance_message_spec [OF assms this, of "q 0" "k 0"]
  show "fst (s2n_advance_message (q 0) (k 0) c) \<noteq> Inl Undefined" "on_row (snd (s2n_advance_message (q 0) (k 0) c))"
    "hs_number (snd (s2n_advance_message (q 0) (k 0) c)) = after_advance c"
    using spec by auto
qed

definition example_tls13 :: "unit s2n_connection" where
  "example_tls13 = on_handshake (\<lambda>h. h\<lparr>handshake_type := NEGOTIATED OR MIDDLEBOX_COMPAT, message_number := 1,
     hs_state_machine := S2N_STATE_MACHINE_TLS13\<rparr>) (example_conn S2N_CLIENT)"

lemma example_tls13_row:
  "on_row example_tls13"
  "active_row example_tls13 = [CLIENT_HELLO, SERVER_HELLO, SERVER_CHANGE_CIPHER_SPEC, ENCRYPTED_EXTENSIONS,
     SERVER_FINISHED, CLIENT_CHANGE_CIPHER_SPEC, CLIENT_FINISHED, APPLICATION_DATA]"
  "skipped example_tls13 m \<longleftrightarrow> m = SERVER_CHANGE_CIPHER_SPEC" "hs_number example_tls13 = 1"
  by (simp_all add: example_tls13_def on_row_def row_listed_def active_row_def skipped_def IS_TLS13_HANDSHAKE_def
      tls13_messages_def tls13_type_ok_def flag_simps example_conn_def example_handshake_def on_handshake_def)

lemma handshake_reaches_application_data_witness:
  "walk (\<lambda>_. True) (\<lambda>_. False) 32 example_tls13 =
     [SERVER_HELLO, ENCRYPTED_EXTENSIONS, SERVER_FINISHED, CLIENT_CHANGE_CIPHER_SPEC, CLIENT_FINISHED, APPLICATION_DATA]"
  using handshake_reaches_application_data [OF example_tls13_row(1), of "\<lambda>_. True" "\<lambda>_. False"]
  by (simp add: example_tls13_row)

text \<open>
  C38. A missing client certificate does not rewrite the past.  When \<open>s2n_conn_set_handshake_no_client_cert\<close>
  succeeds at the CLIENT_CERT message, the new type again has a row; up to and including the current message it is the
  row that was followed so far, and it differs from that row only in leaving out CLIENT_CERT_VERIFY.
\<close>
theorem no_client_cert_keeps_past:
  assumes "on_row c" and "ACTIVE_MESSAGE c = Inr CLIENT_CERT"
    and "s2n_conn_set_handshake_no_client_cert c = (Inr (), c')"
  shows "on_row c' \<and> hs_number c' = hs_number c \<and>
    active_row c' = filter (\<lambda>m. m \<noteq> CLIENT_CERT_VERIFY) (active_row c) \<and>
    take (Suc (nat (hs_number c))) (active_row c') = take (Suc (nat (hs_number c))) (active_row c)"
  using no_client_cert_spec [OF assms] by simp

definition example_auth :: "unit s2n_connection" where
  "example_auth = (on_handshake (\<lambda>h. h\<lparr>handshake_type := NEGOTIATED OR FULL_HANDSHAKE OR CLIENT_AUTH, message_number := 5,
     hs_state_machine := S2N_STATE_MACHINE_TLS12\<rparr>) (example_conn S2N_CLIENT))"

lemma example_auth_row:
  "on_row example_auth"
  "active_row example_auth = [CLIENT_HELLO, SERVER_HELLO, SERVER_CERT, SERVER_CERT_REQ, SERVER_HELLO_DONE, CLIENT_CERT,
     CLIENT_KEY, CLIENT_CERT_VERIFY, CLIENT_CHANGE_CIPHER_SPEC, CLIENT_FINISHED, SERVER_CHANGE_CIPHER_SPEC, SERVER_FINISHED,
     APPLICATION_DATA]" "hs_number example_auth = 5"
  by (simp_all add: example_auth_def on_row_def row_listed_def active_row_def IS_TLS13_HANDSHAKE_def
      tls12_messages_def tls12_type_ok_def flag_simps example_conn_def example_handshake_def on_handshake_def)

lemma example_auth_no_cert:
  "s2n_conn_set_handshake_no_client_cert example_auth = (Inr (), or_type NO_CLIENT_CERT example_auth)"
proof -
  have "s2n_connection_get_client_auth_type example_auth = Inr S2N_CERT_AUTH_OPTIONAL"
    by (simp add: example_auth_def)
      (simp add: example_conn_def example_config_def s2n_connection_get_client_auth_type_def
        s2n_connection_and_config_get_client_auth_type_def)
  then show ?thesis
    by (simp add: s2n_conn_set_handshake_no_client_cert_def bnd_def ensure_def modify_def s2n_handshake_type_set_flag_def)
qed

lemma no_client_cert_keeps_past_witness:
  "on_row (or_type NO_CLIENT_CERT example_auth) \<and>
   drop 5 (active_row (or_type NO_CLIENT_CERT example_auth)) = [CLIENT_CERT, CLIENT_KEY, CLIENT_CHANGE_CIPHER_SPEC,
     CLIENT_FINISHED, SERVER_CHANGE_CIPHER_SPEC, SERVER_FINISHED, APPLICATION_DATA]"
  using no_client_cert_keeps_past [OF example_auth_row(1) _ example_auth_no_cert]
  by (simp add: active_message_row [OF example_auth_row(1)] example_auth_row(2,3))





end
