(* ===== verification/Cipher_Choice.thy ===== *)
theory Cipher_Choice
  imports Policy_Selection Handshake_Machine
begin

text \<open>
  The negotiation of the cipher suite: the choice of the server and the check of the client
  (\<open>tls/s2n_cipher_suites.c\<close>), which key exchanges a connection supports (\<open>tls/s2n_kex.c\<close>), the choice of a key
  encapsulation mechanism from the list of the peer (\<open>tls/s2n_kem.c\<close>), and which certificates fit
  (\<open>tls/s2n_auth_selection.c\<close>, \<open>tls/s2n_handshake.c\<close>).

  The record \<open>negotiation\<close> has the fields of the connection only this component uses; it is the environment of
  the connection of theory \<open>Connection\<close>.  \<open>conn->secure->cipher_suite\<close> is a pointer: \<open>secure_suite\<close> is the object it points
  to, \<open>cipher_suite\<close> its contents.  \<open>library\<close> collects the state of the cipher suites and what the build offers.
\<close>

section \<open>State\<close>

record library =
  lib_suites :: cipher_suites_state
  lib_evp :: bool
  lib_kems :: kem_support

record negotiation =
  secure_suite :: "suite_ptr option"
  secure_renegotiation :: bool
  policies :: policy_connection
  dhparams :: bool
  negotiated_curve :: "curve_ref option"
  client_pq_kem_extension :: "bytes option"
  kem_params_kem :: "kem_ref option"
  exact_sni_match_exists :: bool
  exact_sni_matches :: certs_by_type
  wc_sni_match_exists :: bool
  wc_sni_matches :: certs_by_type
  server_cert_sig_scheme :: "sig_scheme_ref option"

type_synonym neg_conn = "negotiation s2n_connection"


section \<open>Certificates that fit\<close>

text \<open>The array has three elements; the other types of keys are indices outside of it.\<close>

fun cert_of :: "certs_by_type \<Rightarrow> s2n_pkey_type \<Rightarrow> s2n_cert_chain_and_key option result" where
  "cert_of certs S2N_PKEY_TYPE_RSA = Inr (certs ! 0)"
| "cert_of certs S2N_PKEY_TYPE_ECDSA = Inr (certs ! 1)"
| "cert_of certs S2N_PKEY_TYPE_RSA_PSS = Inr (certs ! 2)"
| "cert_of certs _ = Inl Undefined"

definition s2n_get_compatible_cert_chain_and_key :: "neg_conn \<Rightarrow> s2n_pkey_type \<Rightarrow> s2n_cert_chain_and_key option result" where
  "s2n_get_compatible_cert_chain_and_key conn t =
     (if exact_sni_match_exists (env conn) then cert_of (exact_sni_matches (env conn)) t
      else if wc_sni_match_exists (env conn) then cert_of (wc_sni_matches (env conn)) t
      else case conn_config (policies (env conn)) of None \<Rightarrow> Inl Undefined
           | Some cfg \<Rightarrow> cert_of (default_certs_by_type cfg) t)"

fun s2n_get_auth_method_for_cert_type :: "s2n_pkey_type \<Rightarrow> s2n_authentication_method result" where
  "s2n_get_auth_method_for_cert_type S2N_PKEY_TYPE_RSA = Inr S2N_AUTHENTICATION_RSA"
| "s2n_get_auth_method_for_cert_type S2N_PKEY_TYPE_RSA_PSS = Inr S2N_AUTHENTICATION_RSA"
| "s2n_get_auth_method_for_cert_type S2N_PKEY_TYPE_ECDSA = Inr S2N_AUTHENTICATION_ECDSA"
| "s2n_get_auth_method_for_cert_type _ = Inl (Err S2N_ERR_CERT_TYPE_UNSUPPORTED)"

fun s2n_signature_algorithm_get_pkey_type :: "s2n_signature_algorithm \<Rightarrow> s2n_pkey_type result" where
  "s2n_signature_algorithm_get_pkey_type S2N_SIGNATURE_RSA = Inr S2N_PKEY_TYPE_RSA"
| "s2n_signature_algorithm_get_pkey_type S2N_SIGNATURE_RSA_PSS_RSAE = Inr S2N_PKEY_TYPE_RSA"
| "s2n_signature_algorithm_get_pkey_type S2N_SIGNATURE_RSA_PSS_PSS = Inr S2N_PKEY_TYPE_RSA_PSS"
| "s2n_signature_algorithm_get_pkey_type S2N_SIGNATURE_ECDSA = Inr S2N_PKEY_TYPE_ECDSA"
| "s2n_signature_algorithm_get_pkey_type S2N_SIGNATURE_ANONYMOUS = Inl (Err S2N_ERR_INVALID_SIGNATURE_ALGORITHM)"

definition s2n_is_sig_alg_valid_for_cipher_suite :: "s2n_signature_algorithm \<Rightarrow> s2n_cipher_suite \<Rightarrow> unit result" where
  "s2n_is_sig_alg_valid_for_cipher_suite alg suite =
     (case s2n_signature_algorithm_get_pkey_type alg of Inl e \<Rightarrow> Inl e | Inr t \<Rightarrow>
      if \<not> kex_is_ephemeral (key_exchange_alg suite) \<and> t = S2N_PKEY_TYPE_RSA_PSS then Inl (Err S2N_ERR_SAFETY)
      else if auth_method suite = S2N_AUTHENTICATION_METHOD_SENTINEL then Inr ()
      else case s2n_get_auth_method_for_cert_type t of Inl e \<Rightarrow> Inl e
           | Inr m \<Rightarrow> if auth_method suite = m then Inr () else Inl (Err S2N_ERR_SAFETY))"

definition s2n_certs_exist_for_sig_scheme :: "bool \<Rightarrow> neg_conn \<Rightarrow> sig_scheme_ref \<Rightarrow> unit result" where
  "s2n_certs_exist_for_sig_scheme evp conn s =
     (case s2n_signature_algorithm_get_pkey_type (sig_alg (signature_scheme s)) of Inl e \<Rightarrow> Inl e | Inr t \<Rightarrow>
      case s2n_get_compatible_cert_chain_and_key conn t of Inl e \<Rightarrow> Inl e | Inr None \<Rightarrow> Inl (Err S2N_ERR_NULL)
      | Inr (Some cert) \<Rightarrow>
          (case signature_curve (signature_scheme s) of None \<Rightarrow> Inr () | Some curve \<Rightarrow>
           if \<not> actual_protocol_version conn \<ge> S2N_TLS13 then Inr ()
           else if \<not> private_key cert then Inl (Err S2N_ERR_NULL)
           else case cert_chain cert of None \<Rightarrow> Inl (Err S2N_ERR_NULL) | Some [] \<Rightarrow> Inl (Err S2N_ERR_NULL)
           | Some (head # _) \<Rightarrow>
               if pkey_type head \<noteq> S2N_PKEY_TYPE_ECDSA then Inl (Err S2N_ERR_SAFETY)
               else if public_key_nid (info head) \<noteq> curve_libcrypto_nid (ecc_named_curve evp curve) then Inl (Err S2N_ERR_SAFETY)
               else Inr ()))"

fun certs_for_method :: "neg_conn \<Rightarrow> s2n_authentication_method \<Rightarrow> s2n_pkey_type list \<Rightarrow> unit result" where
  "certs_for_method conn m [] = Inl (Err S2N_ERR_CERT_TYPE_UNSUPPORTED)"
| "certs_for_method conn m (t # ts) =
     (case s2n_get_auth_method_for_cert_type t of Inl e \<Rightarrow> Inl e | Inr n \<Rightarrow>
      if m \<noteq> n then certs_for_method conn m ts
      else case s2n_get_compatible_cert_chain_and_key conn t of Inl e \<Rightarrow> Inl e
           | Inr None \<Rightarrow> certs_for_method conn m ts | Inr (Some _) \<Rightarrow> Inr ())"

definition s2n_certs_exist_for_auth_method :: "neg_conn \<Rightarrow> s2n_authentication_method \<Rightarrow> unit result" where
  "s2n_certs_exist_for_auth_method conn m =
     (if m = S2N_AUTHENTICATION_METHOD_SENTINEL then Inr ()
      else certs_for_method conn m [S2N_PKEY_TYPE_RSA, S2N_PKEY_TYPE_ECDSA, S2N_PKEY_TYPE_RSA_PSS])"

definition s2n_is_cipher_suite_valid_for_auth :: "neg_conn \<Rightarrow> s2n_cipher_suite \<Rightarrow> unit result" where
  "s2n_is_cipher_suite_valid_for_auth conn suite = s2n_certs_exist_for_auth_method conn (auth_method suite)"

definition secure_contents :: "neg_conn \<Rightarrow> s2n_cipher_suite result" where
  "secure_contents conn =
     (case secure conn of None \<Rightarrow> Inl (Err S2N_ERR_NULL) | Some sec \<Rightarrow>
      case cipher_suite sec of None \<Rightarrow> Inl (Err S2N_ERR_NULL) | Some suite \<Rightarrow> Inr suite)"

definition s2n_is_sig_scheme_valid_for_auth :: "bool \<Rightarrow> neg_conn \<Rightarrow> sig_scheme_ref \<Rightarrow> unit result" where
  "s2n_is_sig_scheme_valid_for_auth evp conn s =
     (case secure_contents conn of Inl e \<Rightarrow> Inl e | Inr suite \<Rightarrow>
      case s2n_certs_exist_for_sig_scheme evp conn s of Inl e \<Rightarrow> Inl e | Inr _ \<Rightarrow>
      if mode conn = S2N_SERVER then s2n_is_sig_alg_valid_for_cipher_suite (sig_alg (signature_scheme s)) suite else Inr ())"

definition s2n_is_cert_type_valid_for_auth :: "neg_conn \<Rightarrow> s2n_pkey_type \<Rightarrow> unit result" where
  "s2n_is_cert_type_valid_for_auth conn t =
     (case secure_contents conn of Inl e \<Rightarrow> Inl e | Inr suite \<Rightarrow>
      case s2n_get_auth_method_for_cert_type t of Inl e \<Rightarrow> Inl e | Inr m \<Rightarrow>
      if auth_method suite \<noteq> S2N_AUTHENTICATION_METHOD_SENTINEL \<and> m \<noteq> auth_method suite
      then Inl (Err S2N_ERR_CERT_TYPE_UNSUPPORTED) else Inr ())"

definition s2n_select_certs_for_server_auth :: "neg_conn \<Rightarrow> s2n_cert_chain_and_key result" where
  "s2n_select_certs_for_server_auth conn =
     (case server_cert_sig_scheme (env conn) of None \<Rightarrow> Inl (Err S2N_ERR_NULL) | Some s \<Rightarrow>
      case s2n_signature_algorithm_get_pkey_type (sig_alg (signature_scheme s)) of Inl e \<Rightarrow> Inl e | Inr t \<Rightarrow>
      case s2n_get_compatible_cert_chain_and_key conn t of Inl e \<Rightarrow> Inl e
      | Inr None \<Rightarrow> Inl (Err S2N_ERR_CERT_TYPE_UNSUPPORTED) | Inr (Some cert) \<Rightarrow> Inr cert)"

section \<open>Key exchange\<close>

text \<open>The identifiers in the extension of the client; their number is kept in eight bits.\<close>

fun be16s :: "bytes \<Rightarrow> u16 list" where
  "be16s (a # b # rest) = ((ucast a :: u16) * 256 + ucast b) # be16s rest"
| "be16s _ = []"

definition client_kem_list :: "bytes \<Rightarrow> u16 list" where
  "client_kem_list ids = take (unat (of_nat (length ids div 2) :: u8)) (be16s ids)"

fun s2n_choose_kem_with_peer_pref_list :: "kem_support \<Rightarrow> bytes \<Rightarrow> bytes \<Rightarrow> kem_ref list \<Rightarrow> kem_ref result" where
  "s2n_choose_kem_with_peer_pref_list ks iana ids [] = Inl (Err S2N_ERR_KEM_UNSUPPORTED_PARAMS)"
| "s2n_choose_kem_with_peer_pref_list ks iana ids (k # rest) =
     (case s2n_kem_check_kem_compatibility ks iana k of
        Inl e \<Rightarrow> Inl e
      | Inr False \<Rightarrow> s2n_choose_kem_with_peer_pref_list ks iana ids rest
      | Inr True \<Rightarrow>
          if kem_extension_id (kem ks k) \<in> set (client_kem_list ids) then Inr k
          else s2n_choose_kem_with_peer_pref_list ks iana ids rest)"

text \<open>The choice that \<open>s2n_check_kem\<close> and \<open>s2n_configure_kem\<close> make; a list that is \<open>NULL\<close> is not read when it is empty.\<close>

definition choose_kem :: "library \<Rightarrow> s2n_cipher_suite \<Rightarrow> s2n_kem_preferences \<Rightarrow> neg_conn \<Rightarrow> kem_ref result" where
  "choose_kem lib suite kp conn =
     (case kems kp of
        None \<Rightarrow> if kem_count kp = 0 then Inl (Err S2N_ERR_KEM_UNSUPPORTED_PARAMS) else Inl Undefined
      | Some ks \<Rightarrow>
          let ours = take (unat (kem_count kp)) ks in
          (case client_pq_kem_extension (env conn) of
             None \<Rightarrow> s2n_choose_kem_without_peer_pref_list (lib_kems lib) (iana_value suite) ours
           | Some ids \<Rightarrow> s2n_choose_kem_with_peer_pref_list (lib_kems lib) (iana_value suite) ids ours))"

definition s2n_check_kem :: "library \<Rightarrow> s2n_cipher_suite \<Rightarrow> neg_conn \<Rightarrow> bool result" where
  "s2n_check_kem lib suite conn =
     (case s2n_connection_get_kem_preferences (lib_evp lib) (policies (env conn)) of Inl e \<Rightarrow> Inl e | Inr kp \<Rightarrow>
      if \<not> s2n_libcrypto_supports_evp_kem (lib_kems lib) \<or> kem_count kp = 0 then Inr False
      else case s2n_cipher_suite_to_kem (iana_value suite) of Inl _ \<Rightarrow> Inr False | Inr supported \<Rightarrow>
        if supported = [] then Inr False
        else case choose_kem lib suite kp conn of Inl Undefined \<Rightarrow> Inl Undefined | Inl (Err _) \<Rightarrow> Inr False | Inr _ \<Rightarrow> Inr True)"

definition s2n_configure_kem :: "library \<Rightarrow> s2n_cipher_suite \<Rightarrow> (neg_conn, unit) action" where
  "s2n_configure_kem lib suite conn =
     (if \<not> s2n_libcrypto_supports_evp_kem (lib_kems lib) then (Inl (Err S2N_ERR_UNIMPLEMENTED), conn)
      else case s2n_connection_get_kem_preferences (lib_evp lib) (policies (env conn)) of Inl e \<Rightarrow> (Inl e, conn) | Inr kp \<Rightarrow>
        (case choose_kem lib suite kp conn of Inl e \<Rightarrow> (Inl e, conn)
         | Inr k \<Rightarrow> (Inr (), conn\<lparr>env := (env conn)\<lparr>kem_params_kem := Some k\<rparr>\<rparr>)))"

definition s2n_check_ecdhe :: "neg_conn \<Rightarrow> bool result" where
  "s2n_check_ecdhe conn = Inr (negotiated_curve (env conn) \<noteq> None)"

definition s2n_check_dhe :: "neg_conn \<Rightarrow> bool result" where
  "s2n_check_dhe conn =
     (case conn_config (policies (env conn)) of None \<Rightarrow> Inl (Err S2N_ERR_NULL) | Some _ \<Rightarrow> Inr (dhparams (env conn)))"

definition s2n_check_rsa_key :: "neg_conn \<Rightarrow> bool result" where
  "s2n_check_rsa_key conn =
     (case s2n_get_compatible_cert_chain_and_key conn S2N_PKEY_TYPE_RSA of Inl e \<Rightarrow> Inl e | Inr cert \<Rightarrow> Inr (cert \<noteq> None))"

definition s2n_check_tls13 :: "neg_conn \<Rightarrow> bool result" where
  "s2n_check_tls13 conn = Inr (s2n_connection_get_protocol_version conn \<ge> S2N_TLS13)"

definition s2n_check_hybrid_ecdhe_kem :: "library \<Rightarrow> s2n_cipher_suite \<Rightarrow> neg_conn \<Rightarrow> bool result" where
  "s2n_check_hybrid_ecdhe_kem lib suite conn =
     (case s2n_check_ecdhe conn of Inl e \<Rightarrow> Inl e | Inr ecdhe \<Rightarrow>
      case s2n_check_kem lib suite conn of Inl e \<Rightarrow> Inl e | Inr k \<Rightarrow> Inr (ecdhe \<and> k))"

definition s2n_kex_supported :: "library \<Rightarrow> s2n_cipher_suite \<Rightarrow> neg_conn \<Rightarrow> bool result" where
  "s2n_kex_supported lib suite conn =
     (case key_exchange_alg suite of
        s2n_kem \<Rightarrow> s2n_check_kem lib suite conn
      | s2n_rsa \<Rightarrow> s2n_check_rsa_key conn
      | s2n_dhe \<Rightarrow> s2n_check_dhe conn
      | s2n_ecdhe \<Rightarrow> s2n_check_ecdhe conn
      | s2n_hybrid_ecdhe_kem \<Rightarrow> s2n_check_hybrid_ecdhe_kem lib suite conn
      | s2n_tls13_kex \<Rightarrow> s2n_check_tls13 conn)"

definition s2n_configure_kex :: "library \<Rightarrow> s2n_cipher_suite \<Rightarrow> (neg_conn, unit) action" where
  "s2n_configure_kex lib suite =
     (if key_exchange_alg suite \<in> {s2n_kem, s2n_hybrid_ecdhe_kem} then s2n_configure_kem lib suite else ret ())"


section \<open>The choice\<close>

fun contain_loop :: "bytes \<Rightarrow> bytes \<Rightarrow> nat \<Rightarrow> nat \<Rightarrow> nat \<Rightarrow> bool result" where
  "contain_loop match wire len i 0 = Inr False"
| "contain_loop match wire len i (Suc n) =
     (let theirs = take 2 (drop (i * len + (len - 2)) wire) in
      if length theirs < 2 then Inl Undefined
      else if match = theirs then Inr True else contain_loop match wire len (i + 1) n)"

definition s2n_wire_ciphers_contain :: "bytes \<Rightarrow> bytes \<Rightarrow> nat \<Rightarrow> nat \<Rightarrow> bool result" where
  "s2n_wire_ciphers_contain match wire count len = contain_loop match wire len 0 count"

definition s2n_validate_chacha20_boosting :: "library \<Rightarrow> s2n_cipher_preferences \<Rightarrow> bytes \<Rightarrow> nat \<Rightarrow> unit result" where
  "s2n_validate_chacha20_boosting lib cp wire len =
     (if \<not> allow_chacha20_boosting cp then Inl (Err S2N_ERR_SAFETY)
      else let first = take 2 (drop (len - 2) wire) in
        if length first < 2 then Inl Undefined
        else case s2n_cipher_suite_from_iana (Some first) 2 of Inl e \<Rightarrow> Inl e | Inr c \<Rightarrow>
          if s2n_cipher_suite_uses_chacha20_alg (Some (suite_obj (lib_suites lib) c)) then Inr () else Inl (Err S2N_ERR_SAFETY))"

definition set_suite :: "library \<Rightarrow> suite_ptr \<Rightarrow> neg_conn \<Rightarrow> neg_conn" where
  "set_suite lib m conn = conn\<lparr>secure := Some \<lparr>cipher_suite = Some (suite_at (lib_suites lib) m)\<rparr>,
     env := (env conn)\<lparr>secure_suite := Some m\<rparr>\<rparr>"

text \<open>
  One turn of the loop, up to the check of the pre-shared key: \<open>None\<close> where the source goes on with the next suite.
\<close>

definition try_suite :: "library \<Rightarrow> bytes \<Rightarrow> nat \<Rightarrow> nat \<Rightarrow> cipher_suite_ref \<Rightarrow> (neg_conn, suite_ptr option) action" where
  "try_suite lib wire count len c conn =
     (let st = lib_suites lib; suite = suite_obj st c in
      case s2n_wire_ciphers_contain (iana_value suite) wire count len of Inl e \<Rightarrow> (Inl e, conn)
      | Inr False \<Rightarrow> (Inr None, conn)
      | Inr True \<Rightarrow>
          if (actual_protocol_version conn \<ge> S2N_TLS13) \<noteq> (minimum_required_tls_version suite \<ge> S2N_TLS13)
          then (Inr None, conn)
          else case (if actual_protocol_version conn = S2N_SSLv3 then sslv3_cipher_suite st c else Some (Suite c)) of
            None \<Rightarrow> (Inl Undefined, conn)
          | Some m \<Rightarrow>
              let match = suite_at st m in
              if \<not> available match then (Inr None, conn)
              else case s2n_is_cipher_suite_valid_for_auth conn match of
                Inl Undefined \<Rightarrow> (Inl Undefined, conn)
              | Inl (Err _) \<Rightarrow> (Inr None, conn)
              | Inr _ \<Rightarrow>
                  (case s2n_kex_supported lib match conn of Inl e \<Rightarrow> (Inl e, conn)
                   | Inr False \<Rightarrow> (Inr None, conn)
                   | Inr True \<Rightarrow>
                       (case s2n_configure_kex lib match conn of
                          (Inl Undefined, conn) \<Rightarrow> (Inl Undefined, conn)
                        | (Inl (Err _), conn) \<Rightarrow> (Inr None, conn)
                        | (Inr _, conn) \<Rightarrow>
                            (case chosen_psk (psk_params conn) of
                               Some psk \<Rightarrow> (Inr (if prf_alg match \<noteq> hmac_alg psk then None else Some m), conn)
                             | None \<Rightarrow> (Inr (Some m), conn)))))"

fun server_loop ::
  "library \<Rightarrow> bytes \<Rightarrow> nat \<Rightarrow> nat \<Rightarrow> bool \<Rightarrow> cipher_suite_ref list \<Rightarrow> suite_ptr option \<Rightarrow> suite_ptr option \<Rightarrow> (neg_conn, unit) action" where
  "server_loop lib wire count len boost [] higher_vers_match non_chacha20_match conn =
     (case non_chacha20_match of Some m \<Rightarrow> (Inr (), set_suite lib m conn) | None \<Rightarrow>
      case higher_vers_match of Some m \<Rightarrow> (Inr (), set_suite lib m conn)
      | None \<Rightarrow> (Inl (Err S2N_ERR_CIPHER_NOT_SUPPORTED), conn))"
| "server_loop lib wire count len boost (c # cs) higher_vers_match non_chacha20_match conn =
     (case try_suite lib wire count len c conn of
        (Inl e, conn) \<Rightarrow> (Inl e, conn)
      | (Inr None, conn) \<Rightarrow> server_loop lib wire count len boost cs higher_vers_match non_chacha20_match conn
      | (Inr (Some m), conn) \<Rightarrow>
          let match = suite_at (lib_suites lib) m in
          if actual_protocol_version conn < minimum_required_tls_version match then
            server_loop lib wire count len boost cs
              (case higher_vers_match of None \<Rightarrow> Some m | Some h \<Rightarrow> Some h) non_chacha20_match conn
          else if boost then
            (if s2n_cipher_suite_uses_chacha20_alg (Some match) then (Inr (), set_suite lib m conn)
             else server_loop lib wire count len boost cs higher_vers_match
                    (case non_chacha20_match of None \<Rightarrow> Some m | Some n \<Rightarrow> Some n) conn)
          else (Inr (), set_suite lib m conn))"

definition s2n_set_cipher_as_server :: "library \<Rightarrow> bytes \<Rightarrow> nat \<Rightarrow> nat \<Rightarrow> (neg_conn, unit) action" where
  "s2n_set_cipher_as_server lib wire count len conn =
     (if secure conn = None then (Inl (Err S2N_ERR_NULL), conn)
      else case (if client_protocol_version conn < server_protocol_version conn
                 then s2n_wire_ciphers_contain [0x56, 0x00] wire count len else Inr False) of
        Inl e \<Rightarrow> (Inl e, conn) | Inr True \<Rightarrow> (Inl (Err S2N_ERR_FALLBACK_DETECTED), conn)
      | Inr False \<Rightarrow>
          (case s2n_wire_ciphers_contain [0x00, 0xff] wire count len of Inl e \<Rightarrow> (Inl e, conn) | Inr scsv \<Rightarrow>
           if scsv \<and> renegotiation (handshake conn) then (Inl (Err S2N_ERR_BAD_MESSAGE), conn)
           else
             let conn = (if scsv then conn\<lparr>env := (env conn)\<lparr>secure_renegotiation := True\<rparr>\<rparr> else conn) in
             (case s2n_connection_get_security_policy (policies (env conn)) of Inl e \<Rightarrow> (Inl e, conn) | Inr p \<Rightarrow>
              case sp_cipher_preferences (policy_at (lib_evp lib) p) of None \<Rightarrow> (Inl (Err S2N_ERR_NULL), conn) | Some cp \<Rightarrow>
              (case s2n_validate_chacha20_boosting lib cp wire len of
                 Inl Undefined \<Rightarrow> (Inl Undefined, conn)
               | r \<Rightarrow> server_loop lib wire count len (is_ok r) (suites cp) None None conn))))"

definition s2n_set_cipher_as_sslv2_server :: "library \<Rightarrow> bytes \<Rightarrow> u16 \<Rightarrow> (neg_conn, unit) action" where
  "s2n_set_cipher_as_sslv2_server lib wire count = s2n_set_cipher_as_server lib wire (unat count) 3"

definition s2n_set_cipher_as_tls_server :: "library \<Rightarrow> bytes \<Rightarrow> u16 \<Rightarrow> (neg_conn, unit) action" where
  "s2n_set_cipher_as_tls_server lib wire count = s2n_set_cipher_as_server lib wire (unat count) 2"

definition s2n_set_cipher_as_client :: "library \<Rightarrow> bytes \<Rightarrow> (neg_conn, unit) action" where
  "s2n_set_cipher_as_client lib wire conn =
     (let st = lib_suites lib in
      case secure_contents conn of Inl e \<Rightarrow> (Inl e, conn) | Inr _ \<Rightarrow>
      case s2n_connection_get_security_policy (policies (env conn)) of Inl e \<Rightarrow> (Inl e, conn) | Inr p \<Rightarrow>
      case sp_cipher_preferences (policy_at (lib_evp lib) p) of None \<Rightarrow> (Inl Undefined, conn) | Some cp \<Rightarrow>
      case find (\<lambda>c. wire = iana_value (suite_obj st c)) (suites cp) of None \<Rightarrow> (Inl (Err S2N_ERR_CIPHER_NOT_SUPPORTED), conn)
      | Some c \<Rightarrow>
          let suite = suite_obj st c in
          if \<not> available suite then (Inl (Err S2N_ERR_CIPHER_NOT_SUPPORTED), conn)
          else if (case chosen_psk (psk_params conn) of None \<Rightarrow> False | Some psk \<Rightarrow> prf_alg suite \<noteq> hmac_alg psk)
            then (Inl (Err S2N_ERR_CIPHER_NOT_SUPPORTED), conn)
          else case (if s2n_is_hello_retry_handshake conn then map_sum id Not (s2n_is_hello_retry_message conn) else Inr False) of
            Inl e \<Rightarrow> (Inl e, conn)
          | Inr True \<Rightarrow>
              (if secure_suite (env conn) = Some (Suite c) then (Inr (), conn)
               else (Inl (Err S2N_ERR_CIPHER_NOT_SUPPORTED), conn))
          | Inr False \<Rightarrow>
              if actual_protocol_version conn \<noteq> S2N_SSLv3 then (Inr (), set_suite lib (Suite c) conn)
              else case sslv3_cipher_suite st c of
                Some m \<Rightarrow> (Inr (), set_suite lib m conn)
              | None \<Rightarrow> (Inl (Err S2N_ERR_NULL), conn\<lparr>secure := Some \<lparr>cipher_suite = None\<rparr>,
                  env := (env conn)\<lparr>secure_suite := None\<rparr>\<rparr>))"

definition s2n_connection_is_valid_for_cipher_preferences :: "bool \<Rightarrow> neg_conn \<Rightarrow> string option \<Rightarrow> bool result" where
  "s2n_connection_is_valid_for_cipher_preferences evp conn version =
     (if version = None then Inl (Err S2N_ERR_NULL)
      else case secure_contents conn of Inl e \<Rightarrow> Inl e | Inr cipher \<Rightarrow>
        (case s2n_find_security_policy_from_version version of Inl e \<Rightarrow> Inl e | Inr ptr \<Rightarrow>
         if actual_protocol_version conn < sp_minimum_protocol_version (policy_at evp ptr) then Inr False
         else Inr (list_ex (\<lambda>c. iana_value c = iana_value cipher) (policy_suites (policy_at evp ptr)))))"

end
