(* ===== verification/Cipher_Spec.thy ===== *)
theory Cipher_Spec
  imports Cipher_Choice Suite_Facts
begin

text \<open>
  What the choice of a cipher suite is meant to be, without the loop that computes it, and the proof that the code
  implements it.  A suite of the policy of the server is acceptable when the client offers it, it belongs to the right
  side of TLS 1.3, it is available, a certificate and the key exchange support it and it fits the pre-shared key.  Among
  the acceptable suites the server takes its favourite; suites that need a higher version come last, and if
  both sides favour ChaCha20, those suites come first.
\<close>

section \<open>Specification\<close>

definition offers :: "bytes \<Rightarrow> nat \<Rightarrow> nat \<Rightarrow> bytes list" where
  "offers wire count len = map (\<lambda>i. take 2 (drop (i * len + (len - 2)) wire)) [0..<count]"

definition auth_ok :: "neg_conn \<Rightarrow> s2n_authentication_method \<Rightarrow> bool" where
  "auth_ok conn m \<longleftrightarrow> m = S2N_AUTHENTICATION_METHOD_SENTINEL \<or>
     (\<exists>t cert. s2n_get_auth_method_for_cert_type t = Inr m \<and> s2n_get_compatible_cert_chain_and_key conn t = Inr (Some cert))"

definition kex_ok :: "library \<Rightarrow> neg_conn \<Rightarrow> s2n_cipher_suite \<Rightarrow> bool" where
  "kex_ok lib conn suite \<longleftrightarrow> s2n_kex_supported lib suite conn = Inr True \<and> fst (s2n_configure_kex lib suite conn) = Inr ()"

definition psk_ok :: "neg_conn \<Rightarrow> s2n_cipher_suite \<Rightarrow> bool" where
  "psk_ok conn suite \<longleftrightarrow> (\<forall>psk. chosen_psk (psk_params conn) = Some psk \<longrightarrow> prf_alg suite = hmac_alg psk)"

definition variant :: "library \<Rightarrow> neg_conn \<Rightarrow> cipher_suite_ref \<Rightarrow> suite_ptr" where
  "variant lib conn c = (if actual_protocol_version conn = S2N_SSLv3 then the (sslv3_cipher_suite (lib_suites lib) c) else Suite c)"

definition acceptable :: "library \<Rightarrow> bytes list \<Rightarrow> neg_conn \<Rightarrow> cipher_suite_ref \<Rightarrow> bool" where
  "acceptable lib offered conn c \<longleftrightarrow> (let suite = suite_at (lib_suites lib) (variant lib conn c) in
     iana_value (suite_obj (lib_suites lib) c) \<in> set offered \<and>
     (actual_protocol_version conn \<ge> S2N_TLS13) =
       (minimum_required_tls_version (suite_obj (lib_suites lib) c) \<ge> S2N_TLS13) \<and>
     available suite \<and> auth_ok conn (auth_method suite) \<and> kex_ok lib conn suite \<and> psk_ok conn suite)"

definition mutual :: "library \<Rightarrow> bytes list \<Rightarrow> neg_conn \<Rightarrow> cipher_suite_ref list \<Rightarrow> suite_ptr list" where
  "mutual lib offered conn cs = map (variant lib conn) (filter (acceptable lib offered conn) cs)"

definition best :: "bool \<Rightarrow> ('m \<Rightarrow> bool) \<Rightarrow> ('m \<Rightarrow> bool) \<Rightarrow> 'm list \<Rightarrow> 'm option" where
  "best boost fits fast ms =
     (let good = filter fits ms in
      if boost \<and> filter fast good \<noteq> [] then Some (hd (filter fast good))
      else if good \<noteq> [] then Some (hd good)
      else if ms \<noteq> [] then Some (hd ms) else None)"

definition fits :: "library \<Rightarrow> neg_conn \<Rightarrow> suite_ptr \<Rightarrow> bool" where
  "fits lib conn m \<longleftrightarrow> minimum_required_tls_version (suite_at (lib_suites lib) m) \<le> actual_protocol_version conn"

definition chacha20 :: "library \<Rightarrow> suite_ptr \<Rightarrow> bool" where
  "chacha20 lib m = s2n_cipher_suite_uses_chacha20_alg (Some (suite_at (lib_suites lib) m))"

datatype outcome = Refused s2n_error | Agreed suite_ptr

definition favours_chacha20 :: "library \<Rightarrow> bytes list \<Rightarrow> s2n_cipher_preferences \<Rightarrow> bool" where
  "favours_chacha20 lib offered cp \<longleftrightarrow> allow_chacha20_boosting cp \<and>
     (\<exists>c. s2n_cipher_suite_from_iana (Some (hd offered)) 2 = Inr c \<and> chacha20 lib (Suite c))"

definition agreement :: "library \<Rightarrow> bytes list \<Rightarrow> s2n_cipher_preferences \<Rightarrow> neg_conn \<Rightarrow> outcome" where
  "agreement lib offered cp conn =
     (if client_protocol_version conn < server_protocol_version conn \<and> [0x56, 0x00] \<in> set offered
        then Refused S2N_ERR_FALLBACK_DETECTED
      else if [0x00, 0xff] \<in> set offered \<and> renegotiation (handshake conn) then Refused S2N_ERR_BAD_MESSAGE
      else case best (favours_chacha20 lib offered cp) (fits lib conn) (chacha20 lib) (mutual lib offered conn (suites cp)) of
             None \<Rightarrow> Refused S2N_ERR_CIPHER_NOT_SUPPORTED | Some m \<Rightarrow> Agreed m)"

text \<open>The abstraction of what the code returns and leaves behind.\<close>

definition outcome_of :: "unit result \<times> neg_conn \<Rightarrow> outcome option" where
  "outcome_of rc = (case fst rc of Inl (Err e) \<Rightarrow> Some (Refused e) | Inl Undefined \<Rightarrow> None
     | Inr _ \<Rightarrow> map_option Agreed (secure_suite (env (snd rc))))"


lemma outcome_of_Err [simp]: "outcome_of (Inl (Err e), conn) = Some (Refused e)"
  by (simp add: outcome_of_def)


section \<open>Reading the offers\<close>

lemma contain_loop_offers:
  assumes "(i + n) * len \<le> length wire" and "2 \<le> len"
  shows "contain_loop b wire len i n = Inr (b \<in> set (map (\<lambda>i. take 2 (drop (i * len + (len - 2)) wire)) [i..<i + n]))"
  using assms(1)
proof (induction n arbitrary: i)
  case 0
  show ?case by simp
next
  case (Suc n)
  have "i * len + len \<le> (i + Suc n) * len"
    by (simp add: algebra_simps)
  with Suc.prems have "i * len + len \<le> length wire"
    by linarith
  with assms(2) have full: "\<not> length (take 2 (drop (i * len + (len - 2)) wire)) < 2"
    by simp
  have range: "[i..<i + Suc n] = i # [i + 1..<i + 1 + n]"
    by (simp add: upt_rec)
  have IH: "contain_loop b wire len (i + 1) n =
      Inr (b \<in> set (map (\<lambda>i. take 2 (drop (i * len + (len - 2)) wire)) [i + 1..<i + 1 + n]))"
    using Suc.prems by (intro Suc.IH) (simp add: algebra_simps)
  show ?case
    unfolding range contain_loop.simps(2) Let_def if_not_P [OF full] IH by auto
qed

lemma wire_contain_offers:
  assumes "count * len \<le> length wire" and "2 \<le> len"
  shows "s2n_wire_ciphers_contain b wire count len = Inr (b \<in> set (offers wire count len))"
  using contain_loop_offers [of 0 count len wire b] assms by (simp add: s2n_wire_ciphers_contain_def offers_def)


section \<open>What the code notes on the way\<close>

text \<open>
  Looking at a suite may store a key encapsulation mechanism, and an empty renegotiation extension sets a flag; no later
  decision reads either.
\<close>

definition noted :: "kem_ref option \<times> bool \<Rightarrow> neg_conn \<Rightarrow> neg_conn" where
  "noted k conn = conn\<lparr>env := (env conn)\<lparr>kem_params_kem := fst k, secure_renegotiation := snd k\<rparr>\<rparr>"

lemma noted_fields [simp]:
  "noted k (noted j conn) = noted k conn"
  "actual_protocol_version (noted k conn) = actual_protocol_version conn"
  "psk_params (noted k conn) = psk_params conn"
  "policies (env (noted k conn)) = policies (env conn)"
  "client_pq_kem_extension (env (noted k conn)) = client_pq_kem_extension (env conn)"
  "negotiated_curve (env (noted k conn)) = negotiated_curve (env conn)"
  "dhparams (env (noted k conn)) = dhparams (env conn)"
  "s2n_connection_get_protocol_version (noted k conn) = s2n_connection_get_protocol_version conn"
  by (simp_all add: noted_def s2n_connection_get_protocol_version_def)

lemma noted_self: "noted (kem_params_kem (env conn), secure_renegotiation (env conn)) conn = conn"
  by (simp add: noted_def)

lemma compatible_noted [simp]:
  "s2n_get_compatible_cert_chain_and_key (noted k conn) t = s2n_get_compatible_cert_chain_and_key conn t"
  by (simp add: s2n_get_compatible_cert_chain_and_key_def noted_def)

lemma choose_noted: "choose_kem lib suite kp (noted k conn) = choose_kem lib suite kp conn"
  unfolding choose_kem_def noted_fields ..

lemma kex_supported_noted [simp]: "s2n_kex_supported lib suite (noted k conn) = s2n_kex_supported lib suite conn"
proof -
  have kem: "s2n_check_kem lib suite (noted k conn) = s2n_check_kem lib suite conn"
    unfolding s2n_check_kem_def noted_fields choose_noted ..
  have others: "s2n_check_ecdhe (noted k conn) = s2n_check_ecdhe conn" "s2n_check_dhe (noted k conn) = s2n_check_dhe conn"
    "s2n_check_rsa_key (noted k conn) = s2n_check_rsa_key conn" "s2n_check_tls13 (noted k conn) = s2n_check_tls13 conn"
    by (simp_all add: s2n_check_ecdhe_def s2n_check_dhe_def s2n_check_rsa_key_def s2n_check_tls13_def split: option.splits)
  show ?thesis
    unfolding s2n_kex_supported_def s2n_check_hybrid_ecdhe_kem_def kem others ..
qed

lemma configure_noted:
  "\<exists>j. s2n_configure_kex lib suite (noted k conn) = (fst (s2n_configure_kex lib suite conn), noted j conn)"
proof -
  have store: "(noted k conn)\<lparr>env := (env (noted k conn))\<lparr>kem_params_kem := j\<rparr>\<rparr> = noted (j, snd k) conn" for j
    by (simp add: noted_def)
  show ?thesis
    by (auto simp: s2n_configure_kex_def s2n_configure_kem_def choose_noted store ret_def simp del: split_paired_Ex split: sum.splits)
qed

lemma acceptable_noted [simp]: "acceptable lib offered (noted k conn) c = acceptable lib offered conn c"
proof -
  have "fst (s2n_configure_kex lib suite (noted k conn)) = fst (s2n_configure_kex lib suite conn)" for suite
    using configure_noted [of lib suite k conn] by auto
  then show ?thesis
    by (simp add: acceptable_def auth_ok_def kex_ok_def psk_ok_def variant_def)
qed


section \<open>One suite\<close>

text \<open>
  What the choice relies on: the client sent as many suites as it says, the policy is complete, and a
  list of mechanisms that is missing is not counted.
\<close>

definition ready :: "library \<Rightarrow> bytes \<Rightarrow> nat \<Rightarrow> nat \<Rightarrow> policy_ptr \<Rightarrow> neg_conn \<Rightarrow> bool" where
  "ready lib wire count len p conn \<longleftrightarrow> 0 < count \<and> count * len \<le> length wire \<and> 2 \<le> len \<and> secure conn \<noteq> None \<and>
     s2n_connection_get_security_policy (policies (env conn)) = Inr p \<and> has_preferences (policy_at (lib_evp lib) p) \<and>
     (kems (the (sp_kem_preferences (policy_at (lib_evp lib) p))) = None \<longrightarrow>
      kem_count (the (sp_kem_preferences (policy_at (lib_evp lib) p))) = 0)"

lemma ready_noted: "ready lib wire count len p (noted k conn) = ready lib wire count len p conn"
  by (simp add: ready_def) (simp add: noted_def)

lemma ready_config: "ready lib wire count len p conn \<Longrightarrow> conn_config (policies (env conn)) \<noteq> None"
  by (auto simp: ready_def s2n_connection_get_security_policy_def effective_policy_def split: option.splits)

lemma ready_kem_preferences:
  assumes "ready lib wire count len p conn"
  obtains kp where "s2n_connection_get_kem_preferences (lib_evp lib) (policies (env conn)) = Inr kp"
    and "kems kp = None \<longrightarrow> kem_count kp = 0"
proof -
  obtain kp where kp: "sp_kem_preferences (policy_at (lib_evp lib) p) = Some kp"
    using assms by (auto simp: ready_def has_preferences_def)
  have "effective_policy (policies (env conn)) e = Inr p" for e
    using assms by (auto simp: ready_def s2n_connection_get_security_policy_def effective_policy_def split: option.splits)
  then have "s2n_connection_get_kem_preferences (lib_evp lib) (policies (env conn)) = Inr kp"
    by (simp add: s2n_connection_get_kem_preferences_def preference_def kp)
  with that assms kp show thesis
    by (simp add: ready_def)
qed

lemma kem_compatibility_defined: "s2n_kem_check_kem_compatibility ks iana k \<noteq> Inl Undefined"
  by (auto simp: s2n_kem_check_kem_compatibility_def s2n_cipher_suite_to_kem_def split: option.splits sum.splits)

lemma choose_kem_lists_defined:
  "s2n_choose_kem_without_peer_pref_list ks iana ours \<noteq> Inl Undefined"
  "s2n_choose_kem_with_peer_pref_list ks iana ids ours \<noteq> Inl Undefined"
  by (induction ours) (auto simp: kem_compatibility_defined split: sum.splits bool.splits)

lemma choose_kem_defined: "kems kp = None \<longrightarrow> kem_count kp = 0 \<Longrightarrow> choose_kem lib suite kp conn \<noteq> Inl Undefined"
  by (auto simp: choose_kem_def Let_def choose_kem_lists_defined split: option.splits)

lemma check_kem_ok:
  assumes "ready lib wire count len p conn"
  shows "\<exists>b. s2n_check_kem lib suite conn = Inr b"
  using assms
proof (rule ready_kem_preferences)
  fix kp
  assume kp: "s2n_connection_get_kem_preferences (lib_evp lib) (policies (env conn)) = Inr kp" "kems kp = None \<longrightarrow> kem_count kp = 0"
  show ?thesis
    using choose_kem_defined [OF kp(2), of lib suite conn]
    by (auto simp: s2n_check_kem_def kp(1) split: sum.splits failure.splits)
qed

lemma kex_supported_ok:
  assumes "ready lib wire count len p conn"
  shows "\<exists>b. s2n_kex_supported lib suite conn = Inr b"
  using check_kem_ok [OF assms, of suite] ready_config [OF assms]
  by (cases "key_exchange_alg suite")
    (auto simp: s2n_kex_supported_def s2n_check_hybrid_ecdhe_kem_def s2n_check_ecdhe_def s2n_check_dhe_def
      s2n_check_rsa_key_def s2n_check_tls13_def s2n_get_compatible_cert_chain_and_key_def)

lemma configure_defined:
  assumes "ready lib wire count len p conn"
  shows "fst (s2n_configure_kex lib suite conn) \<noteq> Inl Undefined"
  using assms
proof (rule ready_kem_preferences)
  fix kp
  assume kp: "s2n_connection_get_kem_preferences (lib_evp lib) (policies (env conn)) = Inr kp" "kems kp = None \<longrightarrow> kem_count kp = 0"
  show ?thesis
    using choose_kem_defined [OF kp(2), of lib suite conn]
    by (auto simp: s2n_configure_kex_def s2n_configure_kem_def kp(1) ret_def split: sum.splits)
qed

lemma auth_ok_iff:
  assumes "ready lib wire count len p conn"
  shows "s2n_is_cipher_suite_valid_for_auth conn suite = Inr () \<longleftrightarrow> auth_ok conn (auth_method suite)"
    and "s2n_is_cipher_suite_valid_for_auth conn suite \<noteq> Inl Undefined"
proof -
  have "\<exists>c. s2n_get_compatible_cert_chain_and_key conn S2N_PKEY_TYPE_RSA = Inr c"
    "\<exists>c. s2n_get_compatible_cert_chain_and_key conn S2N_PKEY_TYPE_ECDSA = Inr c"
    "\<exists>c. s2n_get_compatible_cert_chain_and_key conn S2N_PKEY_TYPE_RSA_PSS = Inr c"
    using ready_config [OF assms] by (auto simp: s2n_get_compatible_cert_chain_and_key_def)
  then obtain rsa ecdsa pss where certs: "s2n_get_compatible_cert_chain_and_key conn S2N_PKEY_TYPE_RSA = Inr rsa"
      "s2n_get_compatible_cert_chain_and_key conn S2N_PKEY_TYPE_ECDSA = Inr ecdsa"
      "s2n_get_compatible_cert_chain_and_key conn S2N_PKEY_TYPE_RSA_PSS = Inr pss"
    by blast
  have types: "(\<exists>t. P t) \<longleftrightarrow> P S2N_PKEY_TYPE_RSA \<or> P S2N_PKEY_TYPE_ECDSA \<or> P S2N_PKEY_TYPE_RSA_PSS \<or>
      P S2N_PKEY_TYPE_UNKNOWN \<or> P S2N_PKEY_TYPE_SENTINEL" for P
    using s2n_pkey_type.exhaust by metis
  show "s2n_is_cipher_suite_valid_for_auth conn suite = Inr () \<longleftrightarrow> auth_ok conn (auth_method suite)"
    and "s2n_is_cipher_suite_valid_for_auth conn suite \<noteq> Inl Undefined"
    unfolding s2n_is_cipher_suite_valid_for_auth_def s2n_certs_exist_for_auth_method_def auth_ok_def types
    by (cases "auth_method suite"; cases rsa; cases ecdsa; cases pss; simp add: certs)+
qed


lemma suite_result:
  assumes ready: "ready lib wire count len p conn" and sslv3: "sslv3_cipher_suite (lib_suites lib) c \<noteq> None"
  shows "\<exists>j. try_suite lib wire count len c conn =
    (Inr (if acceptable lib (offers wire count len) conn c then Some (variant lib conn c) else None), noted j conn)"
proof -
  let ?suite = "suite_at (lib_suites lib) (variant lib conn c)"
  have contain: "s2n_wire_ciphers_contain b wire count len = Inr (b \<in> set (offers wire count len))" for b
    using ready by (intro wire_contain_offers) (simp_all add: ready_def)
  have which: "(if actual_protocol_version conn = S2N_SSLv3 then sslv3_cipher_suite (lib_suites lib) c else Some (Suite c)) =
      Some (variant lib conn c)"
    using sslv3 by (simp add: variant_def)
  obtain b where kex: "s2n_kex_supported lib ?suite conn = Inr b"
    using kex_supported_ok [OF ready] by blast
  obtain r j where configure: "s2n_configure_kex lib ?suite conn = (r, noted j conn)"
    using configure_noted [of lib ?suite _ conn] noted_self [of conn] by metis
  have auth: "auth_ok conn (auth_method ?suite) \<longleftrightarrow> s2n_is_cipher_suite_valid_for_auth conn ?suite = Inr ()"
    by (simp add: auth_ok_iff [OF ready])
  have same: "\<exists>j. conn = noted j conn"
    using noted_self [of conn] by metis
  show ?thesis
    using auth_ok_iff(2) [OF ready, of ?suite] configure_defined [OF ready, of ?suite] same
    unfolding try_suite_def acceptable_def Let_def contain which auth kex_ok_def psk_ok_def
    by (cases r) (auto simp: kex configure simp del: split_paired_Ex split: sum.splits failure.splits bool.splits option.splits)
qed



section \<open>The loop\<close>

definition orelse :: "'a option \<Rightarrow> 'a option \<Rightarrow> 'a option" where
  "orelse x y = (case x of None \<Rightarrow> y | Some a \<Rightarrow> Some a)"

lemma orelse_simps [simp]: "orelse None y = y" "orelse (Some a) y = Some a" "orelse x None = x"
  by (simp_all add: orelse_def split: option.split)

text \<open>What the loop returns when it has already put aside a suite \<open>h\<close> of a higher version and a suite \<open>n\<close> without ChaCha20.\<close>

definition pending :: "bool \<Rightarrow> ('m \<Rightarrow> bool) \<Rightarrow> ('m \<Rightarrow> bool) \<Rightarrow> 'm option \<Rightarrow> 'm option \<Rightarrow> 'm list \<Rightarrow> 'm option" where
  "pending boost good fast h n ms =
     orelse (if boost then find (\<lambda>m. good m \<and> fast m) ms else None)
       (orelse n (orelse (find good ms) (orelse h (find (\<lambda>m. \<not> good m) ms))))"

lemma find_hd: "find P xs = (if filter P xs = [] then None else Some (hd (filter P xs)))"
  by (induction xs) auto

lemma best_pending: "best boost good fast ms = pending boost good fast None None ms"
proof -
  have "filter (\<lambda>m. \<not> good m) ms = ms" if "filter good ms = []"
    using that by (induction ms) (auto split: if_splits)
  then show ?thesis
    by (auto simp: best_def pending_def find_hd Let_def conj_commute)
qed

lemma loop_result:
  assumes ready: "ready lib wire count len p conn"
  shows "boost \<or> n = None \<Longrightarrow> \<forall>c\<in>set cs. sslv3_cipher_suite (lib_suites lib) c \<noteq> None \<Longrightarrow> \<exists>j. server_loop lib wire count len boost cs h n (noted k conn) =
    (case pending boost (fits lib conn) (chacha20 lib) h n (mutual lib (offers wire count len) conn cs) of
       None \<Rightarrow> (Inl (Err S2N_ERR_CIPHER_NOT_SUPPORTED), noted j conn)
     | Some m \<Rightarrow> (Inr (), set_suite lib m (noted j conn)))"
proof (induction cs arbitrary: h n k)
  case Nil
  then show ?case
    by (auto simp: pending_def mutual_def simp del: split_paired_Ex split: option.split)
next
  case (Cons c cs)
  obtain j where step: "try_suite lib wire count len c (noted k conn) =
      (Inr (if acceptable lib (offers wire count len) conn c then Some (variant lib conn c) else None), noted j conn)"
    using suite_result [of lib wire count len p "noted k conn" c] ready Cons.prems(2) by (auto simp: ready_noted variant_def)
  have higher: "actual_protocol_version conn < minimum_required_tls_version (suite_at (lib_suites lib) m) \<longleftrightarrow> \<not> fits lib conn m" for m
    by (simp add: fits_def not_le)
  show ?case
    using Cons.IH [of n h j] Cons.IH [of n "Some (variant lib conn c)" j] Cons.IH [of "Some (variant lib conn c)" h j] Cons.prems
    by (cases "acceptable lib (offers wire count len) conn c"; cases "fits lib conn (variant lib conn c)"; cases boost;
        cases "chacha20 lib (variant lib conn c)"; cases h; cases n)
      (auto simp: step higher mutual_def pending_def chacha20_def [symmetric] Let_def simp del: split_paired_Ex)
qed


lemma offers_hd:
  assumes "ready lib wire count len p conn"
  shows "take 2 (drop (len - 2) wire) = hd (offers wire count len)" and "length (hd (offers wire count len)) = 2"
proof -
  have counted: "2 \<le> len" "0 < count" "count * len \<le> length wire"
    using assms by (simp_all add: ready_def)
  have "1 * len \<le> count * len"
    using counted(2) by (intro mult_le_mono1) simp
  with counted have "len \<le> length wire"
    by linarith
  with counted show "take 2 (drop (len - 2) wire) = hd (offers wire count len)" "length (hd (offers wire count len)) = 2"
    by (simp_all add: offers_def upt_conv_Cons)
qed

lemma boosting:
  assumes "ready lib wire count len p conn"
  shows "s2n_validate_chacha20_boosting lib cp wire len \<noteq> Inl Undefined"
    and "is_ok (s2n_validate_chacha20_boosting lib cp wire len) \<longleftrightarrow> favours_chacha20 lib (offers wire count len) cp"
proof -
  have "s2n_cipher_suite_from_iana (Some bs) 2 \<noteq> Inl Undefined" for bs
    using from_iana_loop_error [of bs 0 35 Undefined] by (auto simp: s2n_cipher_suite_from_iana_def)
  then show "s2n_validate_chacha20_boosting lib cp wire len \<noteq> Inl Undefined"
    "is_ok (s2n_validate_chacha20_boosting lib cp wire len) \<longleftrightarrow> favours_chacha20 lib (offers wire count len) cp"
    by (auto simp: s2n_validate_chacha20_boosting_def favours_chacha20_def chacha20_def Let_def offers_hd [OF assms]
        split: sum.splits)
qed


section \<open>Claims\<close>

text \<open>
  C29. The server refines its specification: for any list of suites a client sends, whatever the order and the
  repetitions, the loop over the preferences, its two suites put aside and its early exits return
  exactly the suite of \<open>agreement\<close>, or exactly its error.
\<close>
theorem server_cipher_choice_refines:
  assumes "ready lib wire count len p conn" and "sp_cipher_preferences (policy_at (lib_evp lib) p) = Some cp"
    and "\<forall>c\<in>set (suites cp). sslv3_cipher_suite (lib_suites lib) c \<noteq> None"
  shows "outcome_of (s2n_set_cipher_as_server lib wire count len conn) = Some (agreement lib (offers wire count len) cp conn)"
proof -
  let ?offered = "offers wire count len"
  let ?boost = "favours_chacha20 lib ?offered cp"
  have contain: "s2n_wire_ciphers_contain b wire count len = Inr (b \<in> set ?offered)" for b
    using assms(1) by (intro wire_contain_offers) (simp_all add: ready_def)
  have noted: "conn\<lparr>env := (env conn)\<lparr>secure_renegotiation := True\<rparr>\<rparr> = noted (kem_params_kem (env conn), True) conn"
    by (simp add: noted_def)
  have loop: "outcome_of (server_loop lib wire count len ?boost (suites cp) None None (noted k conn)) =
      Some (case best ?boost (fits lib conn) (chacha20 lib) (mutual lib ?offered conn (suites cp)) of
              None \<Rightarrow> Refused S2N_ERR_CIPHER_NOT_SUPPORTED | Some m \<Rightarrow> Agreed m)" for k
    using loop_result [OF assms(1), of ?boost None "suites cp" None k] assms(3)
    by (auto simp: best_pending outcome_of_def set_suite_def simp del: split_paired_Ex split: option.splits)
  have given: "secure conn \<noteq> None" "s2n_connection_get_security_policy (policies (env conn)) = Inr p"
    using assms(1) by (simp_all add: ready_def)
  have start: "outcome_of (s2n_set_cipher_as_server lib wire count len conn) =
      (if client_protocol_version conn < server_protocol_version conn \<and> [0x56, 0x00] \<in> set ?offered
         then Some (Refused S2N_ERR_FALLBACK_DETECTED)
       else if [0x00, 0xff] \<in> set ?offered \<and> renegotiation (handshake conn) then Some (Refused S2N_ERR_BAD_MESSAGE)
       else outcome_of (server_loop lib wire count len ?boost (suites cp) None None
              (if [0x00, 0xff] \<in> set ?offered then noted (kem_params_kem (env conn), True) conn else conn)))"
    unfolding boosting(2) [OF assms(1), of cp, symmetric]
    using boosting(1) [OF assms(1), of cp]
    by (cases "client_protocol_version conn < server_protocol_version conn \<and> [0x56, 0x00] \<in> set ?offered";
        cases "[0x00, 0xff] \<in> set ?offered"; cases "renegotiation (handshake conn)")
      (simp_all add: s2n_set_cipher_as_server_def contain given assms(2) noted Let_def split: sum.splits failure.splits)
  have loops: "outcome_of (server_loop lib wire count len ?boost (suites cp) None None
      (if [0x00, 0xff] \<in> set ?offered then noted (kem_params_kem (env conn), True) conn else conn)) =
      Some (case best ?boost (fits lib conn) (chacha20 lib) (mutual lib ?offered conn (suites cp)) of
              None \<Rightarrow> Refused S2N_ERR_CIPHER_NOT_SUPPORTED | Some m \<Rightarrow> Agreed m)"
    using loop [of "(kem_params_kem (env conn), True)"] loop [of "(kem_params_kem (env conn), secure_renegotiation (env conn))"]
    unfolding noted_self by simp
  show ?thesis
    unfolding start loops agreement_def by simp
qed


definition example_library :: library where
  "example_library = \<lparr>lib_suites = initial_suites\<lparr>suite_obj := (\<lambda>c. (static_suite c)\<lparr>available := True\<rparr>),
     sslv3_cipher_suite := (\<lambda>c. Some (Suite c))\<rparr>, lib_evp = True,
     lib_kems = \<lparr>s2n_libcrypto_supports_evp_kem = False, s2n_libcrypto_supports_mlkem = False\<rparr>\<rparr>"

definition example_env :: negotiation where
  "example_env = \<lparr>secure_suite = Some (Suite s2n_null_cipher_suite), secure_renegotiation = False,
     policies = \<lparr>conn_config = Some example_policy_config, security_policy_override = Some (Policies_1 security_policy_20240501)\<rparr>,
     dhparams = False, negotiated_curve = Some s2n_ecc_curve_secp256r1, client_pq_kem_extension = None, kem_params_kem = None,
     exact_sni_match_exists = False, exact_sni_matches = [], wc_sni_match_exists = False, wc_sni_matches = [],
     server_cert_sig_scheme = None\<rparr>"

definition example_negotiation :: "negotiation \<Rightarrow> neg_conn" where
  "example_negotiation e = \<lparr>
     corked_io = False, client_session_resumed = False, quic_enabled = False, managed_send_io = False,
     managed_recv_io = False, early_data_expected = False, server_max_early_data_size_overridden = False,
     ems_negotiated = False, dynamic_buffers = False, npn_negotiated = False, deserialized_conn = False,
     config = Some example_config, has_send = True, has_recv = True, send_io_context = None,
     recv_io_context = None, extension_requests_sent = replicate 22 0,
     extension_requests_received = replicate 22 0, extension_responses_received = replicate 22 0,
     mode = S2N_SERVER, built_in_blinding = True, write_timer = 0, clock_calls = 0, delay = 0,
     session_id = replicate 32 0, session_id_len = 0, client_hello_version = 0,
     client_protocol_version = S2N_TLS13, server_protocol_version = S2N_TLS13,
     actual_protocol_version = S2N_TLS12,
     secure = Some \<lparr>cipher_suite = Some example_suite\<rparr>,
     psk_params = \<lparr>psk_list = [], chosen_psk = None, chosen_psk_wire_index = 0\<rparr>,
     client_cert_auth_type_overridden = False, client_cert_auth_type = S2N_CERT_AUTH_NONE,
     header_in = static_stuffer [] 5, buffer_in = static_stuffer [] 64, conn_in = static_stuffer [] 64,
     conn_out = static_stuffer [] 64, alert_in = static_stuffer [] 2, writer_alert_out = 0,
     reader_alert_out = 0, reader_warning_out = 0, alert_sent = False, error_alert_received = False,
     close_notify_received = False, handshake = example_handshake, early_data_bytes = 0,
     read_closed = False, write_closed = False, application_protocol = replicate 256 0,
     session_ticket_status = S2N_NO_TICKET, negotiate_in_use = False,
     early_data_state = S2N_UNKNOWN_EARLY_DATA_STATE, server_max_early_data_size = 0,
     server_early_data_context = empty_blob, mem = example_mem Free_no_mlock_impl, env = e\<rparr>"

lemma example_policy:
  "s2n_connection_get_security_policy (policies (env (example_negotiation example_env))) = Inr (Policies_1 security_policy_20240501)"
  "sp_cipher_preferences (policy_at (lib_evp example_library) (Policies_1 security_policy_20240501)) =
     Some (cipher_preferences_3 cipher_preferences_20240331)"
  by (simp_all add: example_negotiation_def example_env_def s2n_connection_get_security_policy_def effective_policy_def)

lemma example_suite_facts:
  "iana_value (static_suite s2n_ecdhe_ecdsa_with_aes_128_gcm_sha256) = [0xC0, 0x2B]"
  "minimum_required_tls_version (static_suite s2n_ecdhe_ecdsa_with_aes_128_gcm_sha256) = S2N_TLS12"
  "auth_method (static_suite s2n_ecdhe_ecdsa_with_aes_128_gcm_sha256) = S2N_AUTHENTICATION_ECDSA"
  "key_exchange_alg (static_suite s2n_ecdhe_ecdsa_with_aes_128_gcm_sha256) = s2n_ecdhe"
  by code_simp+

lemma example_facts:
  "secure (example_negotiation e) = Some \<lparr>cipher_suite = Some example_suite\<rparr>"
  "client_protocol_version (example_negotiation e) = S2N_TLS13" "server_protocol_version (example_negotiation e) = S2N_TLS13"
  "actual_protocol_version (example_negotiation e) = S2N_TLS12" "chosen_psk (psk_params (example_negotiation e)) = None"
  "negotiated_curve (env (example_negotiation example_env)) = Some s2n_ecc_curve_secp256r1"
  "s2n_get_compatible_cert_chain_and_key (example_negotiation example_env) S2N_PKEY_TYPE_ECDSA =
     Inr (Some \<lparr>cert_chain = Some [\<lparr>pkey_type = S2N_PKEY_TYPE_ECDSA, info = example_cert\<rparr>], private_key = True\<rparr>)"
  by (simp_all add: example_negotiation_def example_env_def s2n_get_compatible_cert_chain_and_key_def example_policy_config_def)

text \<open>The certificate of the server has an elliptic curve key, so the suites the client offers with RSA do not count.\<close>

theorem server_cipher_choice_refines_witness:
  "agreement example_library [[0xC0, 0x30], [0xC0, 0x2C], [0xC0, 0x2B]] (cipher_preferences_3 cipher_preferences_20240331)
     (example_negotiation example_env) = Agreed (Suite s2n_ecdhe_ecdsa_with_aes_128_gcm_sha256)"
proof -
  let ?conn = "example_negotiation example_env" and ?wire = "[0xC0, 0x30, 0xC0, 0x2C, 0xC0, 0x2B] :: bytes"
  have "ready example_library ?wire 3 2 (Policies_1 security_policy_20240501) ?conn"
    by (simp add: ready_def example_policy has_preferences_def example_library_def)
      (simp add: example_negotiation_def)
  moreover have "\<forall>c\<in>set (suites (cipher_preferences_3 cipher_preferences_20240331)). sslv3_cipher_suite (lib_suites example_library) c \<noteq> None"
    by (simp add: example_library_def)
  moreover have offers: "offers ?wire 3 2 = [[0xC0, 0x30], [0xC0, 0x2C], [0xC0, 0x2B]]"
    by (simp add: offers_def upt_rec)
  moreover have "outcome_of (s2n_set_cipher_as_server example_library ?wire 3 2 ?conn) =
      Some (Agreed (Suite s2n_ecdhe_ecdsa_with_aes_128_gcm_sha256))"
    by (simp add: s2n_set_cipher_as_server_def example_policy wire_contain_offers offers
        s2n_validate_chacha20_boosting_def try_suite_def example_library_def example_suite_facts example_facts Let_def
        s2n_is_cipher_suite_valid_for_auth_def s2n_certs_exist_for_auth_method_def s2n_kex_supported_def
        s2n_check_ecdhe_def s2n_configure_kex_def ret_def outcome_of_def set_suite_def)
  ultimately show ?thesis
    using server_cipher_choice_refines [of example_library ?wire 3 2 "Policies_1 security_policy_20240501" ?conn
        "cipher_preferences_3 cipher_preferences_20240331"] example_policy(2) by simp
qed


text \<open>The answer to a retry request repeats the handshake with the suite the server has already named.\<close>

definition retried :: "neg_conn \<Rightarrow> bool" where
  "retried conn \<longleftrightarrow> s2n_is_hello_retry_handshake conn \<and> s2n_is_hello_retry_message conn = Inr False"

text \<open>
  C30. The client only takes a suite it has offered.  When the check of the suite a server names succeeds, the suite is
  one of the policy of the connection, it is available and fits the pre-shared key, and nothing else of the
  connection changes; after a retry request it is the suite that request named, and the connection does not change.
\<close>
theorem client_cipher_choice_safe:
  assumes "s2n_set_cipher_as_client lib wire conn = (Inr (), conn')"
    and "s2n_connection_get_security_policy (policies (env conn)) = Inr p"
    and "sp_cipher_preferences (policy_at (lib_evp lib) p) = Some cp"
  shows "\<exists>c\<in>set (suites cp). iana_value (suite_obj (lib_suites lib) c) = wire \<and> available (suite_obj (lib_suites lib) c) \<and>
    psk_ok conn (suite_obj (lib_suites lib) c) \<and>
    (if retried conn then conn' = conn \<and> secure_suite (env conn) = Some (Suite c)
     else conn' = set_suite lib (variant lib conn c) conn)"
proof -
  let ?st = "lib_suites lib"
  obtain c where found: "find (\<lambda>c. wire = iana_value (suite_obj ?st c)) (suites cp) = Some c"
    using assms by (auto simp: s2n_set_cipher_as_client_def Let_def split: sum.splits option.splits)
  then have c: "c \<in> set (suites cp)" "iana_value (suite_obj ?st c) = wire"
    by (auto simp: find_Some_iff)
  have available: "available (suite_obj ?st c)" and psk: "psk_ok conn (suite_obj ?st c)"
    using assms found by (auto simp: s2n_set_cipher_as_client_def psk_ok_def Let_def split: sum.splits option.splits if_splits)
  have "if retried conn then conn' = conn \<and> secure_suite (env conn) = Some (Suite c)
     else conn' = set_suite lib (variant lib conn c) conn"
    using assms found
    by (auto simp: s2n_set_cipher_as_client_def retried_def variant_def Let_def map_sum_def
        split: sum.splits option.splits if_splits bool.splits)
  with c available psk show ?thesis
    by blast
qed

theorem client_cipher_choice_safe_witness:
  "\<exists>conn'. s2n_set_cipher_as_client example_library [0xC0, 0x2B] (example_negotiation example_env) = (Inr (), conn') \<and>
     psk_ok (example_negotiation example_env) (suite_obj (lib_suites example_library) s2n_ecdhe_ecdsa_with_aes_128_gcm_sha256)"
proof -
  let ?conn = "example_negotiation example_env" and ?c = s2n_ecdhe_ecdsa_with_aes_128_gcm_sha256
  have "\<not> s2n_is_hello_retry_handshake ?conn"
    by (simp add: s2n_is_hello_retry_handshake_def IS_HELLO_RETRY_HANDSHAKE_def
        s2n_handshake_type_check_tls13_flag_def s2n_connection_get_protocol_version_def example_negotiation_def example_handshake_def)
  then have ok: "s2n_set_cipher_as_client example_library [0xC0, 0x2B] ?conn = (Inr (), set_suite example_library (Suite ?c) ?conn)"
    by (simp add: s2n_set_cipher_as_client_def secure_contents_def example_policy example_facts example_library_def
        example_suite_facts Let_def)
  have "iana_value (suite_obj (lib_suites example_library) c) = [0xC0, 0x2B] \<longleftrightarrow> c = ?c" for c
    by (simp add: example_library_def) (rule static_suiteI, code_simp)
  then show ?thesis
    using client_cipher_choice_safe [OF ok example_policy] ok by auto
qed

end
