(* ===== verification/Spec2Isabelle.thy ===== *)
theory Spec2Isabelle
  imports Stuffer_Hex Stuffer_Base64 Sequence Blinding Extension_List Policy_Init Cipher_Spec
begin

text \<open>
  A verification development for s2n-tls, an implementation of the TLS protocol in C.

  \<^bold>\<open>The program.\<close>  A connection (\<open>src/tls/s2n_connection.h\<close>) owns a set of growable byte buffers with cursors, the
  stuffers (\<open>src/stuffer\<close>), which are built on blobs and on the allocator (\<open>src/utils\<close>).  The handshake writes messages
  into a stuffer and reads them from one, in the order of two static tables (\<open>src/tls/s2n_handshake_io.c\<close>) that are
  indexed by a set of flags, the handshake type.  Hello messages carry extensions
  (\<open>src/tls/extensions\<close>); early data has a small state machine of its own (\<open>src/tls/s2n_early_data.c\<close>).  Errors close
  the connection after a random delay.

  \<^bold>\<open>Conventions.\<close>  A function of the source that may fail is an action: it maps a state to a result and the state it
  leaves behind, also on failure.  A result is \<open>Inr\<close> of a value, \<open>Inl (Err e)\<close> for the error code \<open>e\<close> (the
  numbers of \<open>src/error/s2n_errno.h\<close> are the abbreviations of theory \<open>Errno\<close>), or \<open>Inl Undefined\<close> where the C
  program has undefined behaviour, such as an access outside an array.  Machine integers are words of the
  width of the source.  The release build is modelled: assertions that exist in debug builds only check
  nothing.  Code that is not modelled (cryptography, message handlers, callbacks, system calls) is a parameter.

  \<^bold>\<open>Theories.\<close>
  \<^item> \<open>Prelude\<close>: results, actions and their combinators, the notions \<open>safe\<close> and \<open>keeps\<close>, facts on lists and words.
  \<^item> \<open>Errno\<close>: the error codes.
  \<^item> \<open>Safety\<close>: \<open>src/utils/s2n_safety.c\<close>, checked arithmetic and the constant-time helpers, each with an exact
    specification.
  \<^item> \<open>Mem\<close>: blobs and the allocator (\<open>src/utils/s2n_blob.c\<close>, \<open>s2n_mem.c\<close>), with the system calls as a record of parameters.
    \<open>blob_wf\<close> is the invariant; \<open>s2n_realloc\<close> keeps it and the contents.
  \<^item> \<open>Stuffer\<close>, \<open>Stuffer_Network\<close>, \<open>Stuffer_Text\<close>, \<open>Stuffer_Hex\<close>, \<open>Stuffer_Base64\<close>: the files of \<open>src/stuffer\<close>.
    \<open>stuffer_wf\<close> is the invariant, \<open>unread\<close> and \<open>written\<close> are the abstraction to byte lists.  All sequences of
    operations are memory safe; a stuffer is a first-in first-out queue (locale \<open>byte_queue\<close> and its interpretation);
    integers, vectors, lines, tokens and text encodings are read back as they were written.
  \<^item> \<open>Sequence\<close>: the record sequence number (\<open>src/crypto/s2n_sequence.c\<close>), a big-endian counter.
  \<^item> \<open>Connection\<close>: the fields of the connection that the modelled code uses, and small accessors.
  \<^item> \<open>Blinding\<close>: \<open>s2n_public_random\<close>, the timers and the delay after an error.  The rejection loop may run
    for ever, so it is a partial function into \<open>option\<close>.
  \<^item> \<open>Socket\<close>: the socket options of \<open>src/utils/s2n_socket.c\<close>.
  \<^item> \<open>Early_Data\<close>: \<open>src/tls/s2n_early_data.c\<close>; which states follow each other and when early data is accepted.
  \<^item> \<open>Extension_Type\<close>, \<open>Extension_List\<close>: \<open>src/tls/extensions/s2n_extension_type.c\<close> and \<open>s2n_extension_list.c\<close>; internal ids,
    request and response bookkeeping, parsing and sending of extension lists.  The parsing loop terminates because
    every round consumes the header of an extension.
  \<^item> \<open>Handshake_Tables\<close>, \<open>Handshake_Type\<close>, \<open>Handshake_Machine\<close>: the message tables, the flags that index them, and the state
    machine that walks them (\<open>src/tls/s2n_handshake_io.c\<close>, \<open>s2n_handshake_type.c\<close>).

  \<^item> \<open>Cipher_Suites\<close>: \<open>src/tls/s2n_cipher_suites.c\<close> up to the lookups: the static suites, what their initialisation makes
    of them for a given libcrypto, and the binary search by wire value.
  \<^item> \<open>Cipher_Preferences\<close>, \<open>Policy_Parameters\<close>, \<open>Policy_Table\<close>: the static data of the security policies, one constructor of an
    enumeration for each C object and a function that gives its contents: preference lists, curves, signature
    schemes, key encapsulation mechanisms and groups, certificate keys, the policies and the table of their versions.
  \<^item> \<open>Security_Rules\<close>: \<open>src/tls/s2n_security_rules.c\<close> and \<open>src/crypto/s2n_fips_rules.c\<close>, the rules a policy may declare.
  \<^item> \<open>Security_Policies\<close>, \<open>Suite_Facts\<close>, \<open>Policy_Init\<close>: \<open>src/tls/s2n_security_policies.c\<close>; the initialisation accepts every policy
    of the table in every build.  \<open>Suite_Facts\<close> lifts a check of the table of suites to all of them, so that no proof
    evaluates a policy suite by suite.
  \<^item> \<open>Policy_Selection\<close>: which policy a version names, when a configuration or a connection takes it over, and the
    preferences a connection works with.
  \<^item> \<open>Cipher_Choice\<close>: the negotiation of the cipher suite (\<open>src/tls/s2n_cipher_suites.c\<close>, \<open>s2n_kex.c\<close>, \<open>s2n_kem.c\<close>,
    \<open>s2n_auth_selection.c\<close>).  \<open>Cipher_Spec\<close> says what it is meant to be (\<open>agreement\<close>) and shows that the server refines it and
    that the client takes only what it offered.

  \<^bold>\<open>Bounds.\<close>  The loops of the code are structural or have a termination proof, and the one loop without a bound is a
  partial function.  Only \<open>walk\<close>, which lists the messages a handshake goes through, runs on fuel; the length of the row of the
  table is enough.

  \<^bold>\<open>Not modelled.\<close>  The cryptography (ciphers, hashes, signatures, key agreement, the key schedule) is a thin layer over
  an external library.  The record layer, X.509 and the trust store, the handlers of the handshake messages and of the
  single extensions, session tickets and the rest of the configuration are not modelled; neither are file
  and socket reads and writes, which are single system calls.
\<close>

end
